(* ===== verification/Prelude.thy ===== *)
theory Prelude
  imports Complex_Main
begin

text \<open>
  Shared vocabulary of the development.

  \<^item> A Python method that works on a database session and may raise is a function
    \<open>'s \<Rightarrow> ('e + 'a) \<times> 's\<close>: \<open>Inl\<close> is a raised exception, \<open>Inr\<close> a return. The state is
    returned in both cases, because an exception does not undo what was flushed before it.
  \<^item> A relation between the state before and after a method (\<open>follows\<close>) is the form in
    which invariants and frame conditions are proved; the locale \<open>step_relation\<close> proves
    once that a reflexive and transitive relation carries over to composed methods.
  \<^item> The rest is the part of Python's string and integer printing that the code uses.
\<close>

named_theorems monad_simps
named_theorems follows_intros

subsection \<open>Methods with state and exceptions\<close>

type_synonym ('s, 'e, 'a) action = "'s \<Rightarrow> ('e + 'a) \<times> 's"

definition sret :: "'a \<Rightarrow> ('s, 'e, 'a) action" where
  "sret x = (\<lambda>s. (Inr x, s))"

definition sthrow :: "'e \<Rightarrow> ('s, 'e, 'a) action" where
  "sthrow e = (\<lambda>s. (Inl e, s))"

definition sbind :: "('s, 'e, 'a) action \<Rightarrow> ('a \<Rightarrow> ('s, 'e, 'b) action) \<Rightarrow> ('s, 'e, 'b) action" where
  "sbind m k = (\<lambda>s. case m s of (r, s') \<Rightarrow> (case r of Inl e \<Rightarrow> (Inl e, s') | Inr a \<Rightarrow> k a s'))"

definition sgets :: "('s \<Rightarrow> 'a) \<Rightarrow> ('s, 'e, 'a) action" where
  "sgets f = (\<lambda>s. (Inr (f s), s))"

definition smodify :: "('s \<Rightarrow> 's) \<Rightarrow> ('s, 'e, unit) action" where
  "smodify f = (\<lambda>s. (Inr (), f s))"

text \<open>\<open>if not b: raise e\<close>.\<close>

definition srequire :: "bool \<Rightarrow> 'e \<Rightarrow> ('s, 'e, unit) action" where
  "srequire b e = (if b then sret () else sthrow e)"

text \<open>\<open>try: m\<close> with the exception handed to the continuation as a value.\<close>

definition stry :: "('s, 'e, 'a) action \<Rightarrow> ('s, 'e, 'e + 'a) action" where
  "stry m = (\<lambda>s. case m s of (r, s') \<Rightarrow> (Inr r, s'))"

text \<open>\<open>m\<close> with its exceptions renamed (\<open>except E as exc: raise F from exc\<close>).\<close>

definition smap_err :: "('e \<Rightarrow> 'e) \<Rightarrow> ('s, 'e, 'a) action \<Rightarrow> ('s, 'e, 'a) action" where
  "smap_err f m = (\<lambda>s. case m s of (r, s') \<Rightarrow>
     (case r of Inl e \<Rightarrow> (Inl (f e), s') | Inr a \<Rightarrow> (Inr a, s')))"

text \<open>A \<open>for\<close> loop that threads an accumulator through the session.\<close>

fun sfold :: "('x \<Rightarrow> 'a \<Rightarrow> ('s, 'e, 'a) action) \<Rightarrow> 'x list \<Rightarrow> 'a \<Rightarrow> ('s, 'e, 'a) action" where
  "sfold f [] acc = sret acc"
| "sfold f (x # xs) acc = sbind (f x acc) (sfold f xs)"

lemma sret_app [monad_simps]: "sret x s = (Inr x, s)"
  by (simp add: sret_def)

lemma sthrow_app [monad_simps]: "sthrow e s = (Inl e, s)"
  by (simp add: sthrow_def)

lemma sgets_app [monad_simps]: "sgets f s = (Inr (f s), s)"
  by (simp add: sgets_def)

lemma smodify_app [monad_simps]: "smodify f s = (Inr (), f s)"
  by (simp add: smodify_def)

lemma srequire_app [monad_simps]: "srequire b e s = ((if b then Inr () else Inl e), s)"
  by (simp add: srequire_def monad_simps)

lemma sbind_app [monad_simps]:
  "sbind m k s = (case m s of (r, s') \<Rightarrow> (case r of Inl e \<Rightarrow> (Inl e, s') | Inr a \<Rightarrow> k a s'))"
  by (simp add: sbind_def)

lemma stry_app [monad_simps]: "stry m s = (case m s of (r, s') \<Rightarrow> (Inr r, s'))"
  by (simp add: stry_def)

lemma smap_err_app [monad_simps]:
  "smap_err f m s = (case m s of (r, s') \<Rightarrow>
     (case r of Inl e \<Rightarrow> (Inl (f e), s') | Inr a \<Rightarrow> (Inr a, s')))"
  by (simp add: smap_err_def)

lemma sbind_Inr: "m s = (Inr a, s') \<Longrightarrow> sbind m k s = k a s'"
  by (simp add: sbind_def)

lemma sbind_Inl: "m s = (Inl e, s') \<Longrightarrow> sbind m k s = (Inl e, s')"
  by (simp add: sbind_def)

text \<open>Inversion: a successful sequence is a successful first part and a successful rest.\<close>

lemma sbind_InrE:
  assumes "sbind m k s = (Inr b, s'')"
  obtains a s' where "m s = (Inr a, s')" and "k a s' = (Inr b, s'')"
  using assms by (auto simp: sbind_def split: prod.splits sum.splits)

lemma srequire_InrE:
  assumes "srequire b e s = (Inr u, s')"
  obtains "b" and "s' = s"
  using assms by (auto simp: srequire_app split: if_splits)

subsection \<open>Relations kept by methods\<close>

definition follows :: "('s \<Rightarrow> 's \<Rightarrow> bool) \<Rightarrow> ('s, 'e, 'a) action \<Rightarrow> bool" where
  "follows R m \<longleftrightarrow> (\<forall>s. R s (snd (m s)))"

lemma followsI: "(\<And>s. R s (snd (m s))) \<Longrightarrow> follows R m"
  by (simp add: follows_def)

lemma followsD: "follows R m \<Longrightarrow> m s = (r, s') \<Longrightarrow> R s s'"
  by (metis follows_def snd_conv)

locale step_relation =
  fixes R :: "'s \<Rightarrow> 's \<Rightarrow> bool"
  assumes R_refl: "R s s"
    and R_trans: "R s t \<Longrightarrow> R t u \<Longrightarrow> R s u"
begin

lemma R_ret: "follows R (sret x)"
  by (simp add: follows_def sret_def R_refl)

lemma R_throw: "follows R (sthrow e)"
  by (simp add: follows_def sthrow_def R_refl)

lemma R_gets: "follows R (sgets f)"
  by (simp add: follows_def sgets_def R_refl)

lemma R_require: "follows R (srequire b e)"
  by (simp add: follows_def srequire_app R_refl)

lemma R_modify: "(\<And>s. R s (f s)) \<Longrightarrow> follows R (smodify f)"
  by (simp add: follows_def smodify_def)

lemma R_bind:
  assumes "follows R m" and "\<And>a. follows R (k a)"
  shows "follows R (sbind m k)"
proof (rule followsI)
  fix s
  obtain r s' where m: "m s = (r, s')" by (cases "m s")
  from assms(1) m have "R s s'" by (rule followsD)
  moreover have "R s' (snd (k a s'))" for a
    using assms(2)[of a] by (simp add: follows_def)
  ultimately show "R s (snd (sbind m k s))"
    by (cases r) (auto simp: sbind_def m intro: R_trans)
qed

lemma R_try: "follows R m \<Longrightarrow> follows R (stry m)"
  by (auto simp: follows_def stry_def split: prod.splits) (metis snd_conv)

lemma R_map_err: "follows R m \<Longrightarrow> follows R (smap_err f m)"
  by (auto simp: follows_def smap_err_def split: prod.splits sum.splits) (metis snd_conv)+

lemma R_if: "(b \<Longrightarrow> follows R m) \<Longrightarrow> (\<not> b \<Longrightarrow> follows R n) \<Longrightarrow> follows R (if b then m else n)"
  by simp

lemma R_option:
  "(v = None \<Longrightarrow> follows R m) \<Longrightarrow> (\<And>x. v = Some x \<Longrightarrow> follows R (n x)) \<Longrightarrow>
   follows R (case v of None \<Rightarrow> m | Some x \<Rightarrow> n x)"
  by (cases v) auto

lemma R_sum:
  "(\<And>x. v = Inl x \<Longrightarrow> follows R (m x)) \<Longrightarrow> (\<And>x. v = Inr x \<Longrightarrow> follows R (n x)) \<Longrightarrow>
   follows R (case v of Inl x \<Rightarrow> m x | Inr x \<Rightarrow> n x)"
  by (cases v) auto

lemma R_fold: "(\<And>x a. x \<in> set xs \<Longrightarrow> follows R (f x a)) \<Longrightarrow> follows R (sfold f xs acc)"
proof (induction xs arbitrary: acc)
  case Nil
  show ?case by (simp add: R_ret)
next
  case (Cons x xs)
  then show ?case by (auto intro!: R_bind)
qed

lemmas R_intros = R_ret R_throw R_gets R_require R_bind R_try R_map_err R_if R_option R_sum R_fold

end

subsection \<open>Triples\<close>

text \<open>Pre- and postconditions: \<open>Q\<close> after a return, \<open>E\<close> after an exception.\<close>

definition triple ::
  "('s \<Rightarrow> bool) \<Rightarrow> ('s, 'e, 'a) action \<Rightarrow> ('a \<Rightarrow> 's \<Rightarrow> bool) \<Rightarrow> ('e \<Rightarrow> 's \<Rightarrow> bool) \<Rightarrow> bool" where
  "triple P m Q E \<longleftrightarrow> (\<forall>s. P s \<longrightarrow> (case m s of (r, t) \<Rightarrow> (case r of Inl e \<Rightarrow> E e t | Inr a \<Rightarrow> Q a t)))"

lemma tripleI:
  "(\<And>s r t. P s \<Longrightarrow> m s = (r, t) \<Longrightarrow> (case r of Inl e \<Rightarrow> E e t | Inr a \<Rightarrow> Q a t)) \<Longrightarrow> triple P m Q E"
  by (auto simp: triple_def)

lemma tripleD:
  "triple P m Q E \<Longrightarrow> P s \<Longrightarrow> m s = (r, t) \<Longrightarrow> (case r of Inl e \<Rightarrow> E e t | Inr a \<Rightarrow> Q a t)"
  by (auto simp: triple_def)

lemma triple_after: "triple P m (\<lambda>_. Q) (\<lambda>_. Q) \<Longrightarrow> P s \<Longrightarrow> Q (snd (m s))"
  by (cases "m s", cases "fst (m s)") (auto simp: triple_def split: prod.splits sum.splits)

lemma triple_bind:
  "triple P m R E \<Longrightarrow> (\<And>a. triple (R a) (k a) Q E) \<Longrightarrow> triple P (sbind m k) Q E"
  by (fastforce simp: triple_def sbind_def split: prod.splits sum.splits)

lemma triple_ret: "(\<And>s. P s \<Longrightarrow> Q x s) \<Longrightarrow> triple P (sret x) Q E"
  by (simp add: triple_def sret_def)

lemma triple_throw: "(\<And>s. P s \<Longrightarrow> E e s) \<Longrightarrow> triple P (sthrow e) Q E"
  by (simp add: triple_def sthrow_def)

lemma triple_gets: "(\<And>s. P s \<Longrightarrow> Q (f s) s) \<Longrightarrow> triple P (sgets f) Q E"
  by (simp add: triple_def sgets_def)

lemma triple_modify: "(\<And>s. P s \<Longrightarrow> Q () (f s)) \<Longrightarrow> triple P (smodify f) Q E"
  by (simp add: triple_def smodify_def)

lemma triple_require:
  "(\<And>s. P s \<Longrightarrow> b \<Longrightarrow> Q () s) \<Longrightarrow> (\<And>s. P s \<Longrightarrow> \<not> b \<Longrightarrow> E e s) \<Longrightarrow> triple P (srequire b e) Q E"
  by (simp add: triple_def srequire_app)

lemma triple_if:
  "(b \<Longrightarrow> triple P m Q E) \<Longrightarrow> (\<not> b \<Longrightarrow> triple P n Q E) \<Longrightarrow> triple P (if b then m else n) Q E"
  by simp

lemma triple_option:
  "(v = None \<Longrightarrow> triple P m Q E) \<Longrightarrow> (\<And>x. v = Some x \<Longrightarrow> triple P (n x) Q E) \<Longrightarrow>
   triple P (case v of None \<Rightarrow> m | Some x \<Rightarrow> n x) Q E"
  by (cases v) auto

lemma triple_sum:
  "(\<And>x. v = Inl x \<Longrightarrow> triple P (m x) Q E) \<Longrightarrow> (\<And>x. v = Inr x \<Longrightarrow> triple P (n x) Q E) \<Longrightarrow>
   triple P (case v of Inl x \<Rightarrow> m x | Inr x \<Rightarrow> n x) Q E"
  by (cases v) auto

lemma triple_map_err: "triple P m Q (\<lambda>e. E (f e)) \<Longrightarrow> triple P (smap_err f m) Q E"
  by (fastforce simp: triple_def smap_err_def split: prod.splits sum.splits)

lemma triple_try:
  assumes "triple P m (\<lambda>a. Q (Inr a)) (\<lambda>e. Q (Inl e))"
  shows "triple P (stry m) Q E"
proof (rule tripleI)
  fix s r t
  assume s: "P s" and r: "stry m s = (r, t)"
  then obtain x where x: "m s = (x, t)" "r = Inr x"
    by (auto simp: stry_def split: prod.splits)
  from tripleD [OF assms s x(1)] show "case r of Inl e \<Rightarrow> E e t | Inr a \<Rightarrow> Q a t"
    by (cases x) (auto simp: x(2))
qed

lemma triple_conseq:
  "triple P' m Q' E' \<Longrightarrow> (\<And>s. P s \<Longrightarrow> P' s) \<Longrightarrow> (\<And>a s. Q' a s \<Longrightarrow> Q a s) \<Longrightarrow>
   (\<And>e s. E' e s \<Longrightarrow> E e s) \<Longrightarrow> triple P m Q E"
  by (fastforce simp: triple_def split: prod.splits sum.splits)

lemma triple_fact: "(\<And>s. P s \<Longrightarrow> b) \<Longrightarrow> (b \<Longrightarrow> triple P m Q E) \<Longrightarrow> triple P m Q E"
  by (auto simp: triple_def)

subsection \<open>Lists as tables\<close>

text \<open>
  A table of the database is the list of its rows in insertion order; \<open>key\<close> reads the
  primary key of a row. New keys are one more than the largest key in use.
\<close>

definition t_get :: "('r \<Rightarrow> int) \<Rightarrow> int \<Rightarrow> 'r list \<Rightarrow> 'r option" where
  "t_get key i rows = find (\<lambda>r. key r = i) rows"

definition t_upd :: "('r \<Rightarrow> int) \<Rightarrow> int \<Rightarrow> ('r \<Rightarrow> 'r) \<Rightarrow> 'r list \<Rightarrow> 'r list" where
  "t_upd key i f rows = map (\<lambda>r. if key r = i then f r else r) rows"

fun t_next :: "('r \<Rightarrow> int) \<Rightarrow> 'r list \<Rightarrow> int" where
  "t_next key [] = 1"
| "t_next key (r # rows) = max (key r + 1) (t_next key rows)"

lemma t_next_gt: "r \<in> set rows \<Longrightarrow> key r < t_next key rows"
  by (induction rows) auto

lemma t_next_pos: "0 < t_next key rows"
  by (induction rows) auto

lemma t_get_Some: "t_get key i rows = Some r \<Longrightarrow> r \<in> set rows \<and> key r = i"
  by (auto simp: t_get_def find_Some_iff)

lemma t_get_None: "t_get key i rows = None \<longleftrightarrow> (\<forall>r \<in> set rows. key r \<noteq> i)"
  by (auto simp: t_get_def find_None_iff)

lemma t_get_distinct:
  assumes "distinct (map key rows)" and "r \<in> set rows" and "key r = i"
  shows "t_get key i rows = Some r"
proof -
  from assms(2,3) have "t_get key i rows \<noteq> None" by (auto simp: t_get_None)
  then obtain x where x: "t_get key i rows = Some x" by blast
  from t_get_Some [OF x] assms have "x = r" by (auto simp: distinct_map dest: inj_onD)
  with x show ?thesis by simp
qed

lemma t_get_next [simp]: "t_get key (t_next key rows) rows = None"
  unfolding t_get_None by (auto dest: t_next_gt [of _ rows key])

lemma t_get_append:
  "t_get key i (rows @ [r]) =
     (case t_get key i rows of Some x \<Rightarrow> Some x | None \<Rightarrow> if key r = i then Some r else None)"
  by (induction rows) (auto simp: t_get_def)

lemma t_get_upd:
  assumes "\<And>r. key (f r) = key r"
  shows "t_get key j (t_upd key i f rows) =
    (if i = j then map_option f (t_get key j rows) else t_get key j rows)"
  by (induction rows) (auto simp: t_get_def t_upd_def assms)

lemma t_upd_id: "t_get key i rows = None \<Longrightarrow> t_upd key i f rows = rows"
  by (auto simp: t_upd_def t_get_None intro!: map_idI)

lemma t_upd_keys: "(\<And>r. key (f r) = key r) \<Longrightarrow> map key (t_upd key i f rows) = map key rows"
  by (auto simp: t_upd_def)

lemma t_upd_key_set: "(\<And>r. key (f r) = key r) \<Longrightarrow> key ` set (t_upd key i f rows) = key ` set rows"
  by (metis list.set_map t_upd_keys)

lemma t_next_map: "t_next key rows = t_next (\<lambda>i. i) (map key rows)"
  by (induction rows) auto

lemma t_next_keys: "map key xs = map key ys \<Longrightarrow> t_next key xs = t_next key ys"
  unfolding t_next_map [of key] by (rule arg_cong)

lemma t_upd_length [simp]: "length (t_upd key i f rows) = length rows"
  by (simp add: t_upd_def)

lemma t_upd_upd:
  assumes "\<And>r. key (f r) = key r"
  shows "t_upd key i g (t_upd key i f rows) = t_upd key i (\<lambda>r. g (f r)) rows"
  by (auto simp: t_upd_def assms)

lemma t_upd_const:
  assumes "distinct (map key rows)" and "t_get key i rows = Some r"
  shows "t_upd key i f rows = t_upd key i (\<lambda>_. f r) rows"
proof -
  have "x = r" if "x \<in> set rows" "key x = i" for x
    using t_get_distinct [OF assms(1) that] assms(2) by simp
  then show ?thesis by (auto simp: t_upd_def)
qed

lemma t_upd_set:
  "x \<in> set (t_upd key i f rows) \<longleftrightarrow> (\<exists>r \<in> set rows. x = (if key r = i then f r else r))"
  unfolding t_upd_def set_map image_iff by (rule refl)

lemma int_div_eq_iff:
  assumes "0 < (m :: int)"
  shows "x div m = d \<longleftrightarrow> d * m \<le> x \<and> x < d * m + m"
proof
  assume d: "x div m = d"
  have "x = d * m + x mod m" using div_mult_mod_eq [of x m] d by simp
  moreover have "0 \<le> x mod m" "x mod m < m" using assms by simp_all
  ultimately show "d * m \<le> x \<and> x < d * m + m" by linarith
next
  assume "d * m \<le> x \<and> x < d * m + m"
  then show "x div m = d" by (intro int_div_pos_eq [of x m d "x - d * m"]) (simp_all add: mult.commute)
qed

lemma distinct_singleton: "set xs = {x} \<Longrightarrow> distinct xs \<Longrightarrow> xs = [x]"
  by (cases xs) (auto simp: subset_singleton_iff)

text \<open>\<open>ORDER BY k DESC LIMIT 1\<close>: the first of the rows whose \<open>k\<close> is largest.\<close>

fun latest_by :: "('r \<Rightarrow> int) \<Rightarrow> 'r list \<Rightarrow> 'r option" where
  "latest_by k [] = None"
| "latest_by k (r # rows) =
     (case latest_by k rows of None \<Rightarrow> Some r | Some x \<Rightarrow> if k x \<le> k r then Some r else Some x)"

lemma latest_by_None [simp]: "latest_by k rows = None \<longleftrightarrow> rows = []"
  by (cases rows) (auto split: option.splits)

lemma latest_by_in: "latest_by k rows = Some x \<Longrightarrow> x \<in> set rows"
  by (induction rows arbitrary: x) (auto split: option.splits if_splits)

lemma latest_by_max: "latest_by k rows = Some x \<Longrightarrow> r \<in> set rows \<Longrightarrow> k r \<le> k x"
  by (induction rows arbitrary: x r) (fastforce split: option.splits if_splits)+

subsection \<open>Python text\<close>

text \<open>
  Strings are lists of characters. The code's own strings are ASCII; for other characters
  \<open>lower\<close>, \<open>upper\<close> and \<open>strip\<close> below leave them alone.
\<close>

definition char_lower :: "char \<Rightarrow> char" where
  "char_lower c = (let n = (of_char c :: nat) in
     if 65 \<le> n \<and> n \<le> 90 then char_of (n + 32) else c)"

definition char_upper :: "char \<Rightarrow> char" where
  "char_upper c = (let n = (of_char c :: nat) in
     if 97 \<le> n \<and> n \<le> 122 then char_of (n - 32) else c)"

definition py_lower :: "string \<Rightarrow> string" where
  "py_lower s = map char_lower s"

definition py_upper :: "string \<Rightarrow> string" where
  "py_upper s = map char_upper s"

text \<open>\<open>p in s\<close> of two strings.\<close>

fun py_contains :: "string \<Rightarrow> string \<Rightarrow> bool" where
  "py_contains p [] = (p = [])"
| "py_contains p (c # cs) = (take (length p) (c # cs) = p \<or> py_contains p cs)"

definition is_space :: "char \<Rightarrow> bool" where
  "is_space c = (let n = (of_char c :: nat) in n = 32 \<or> (9 \<le> n \<and> n \<le> 13) \<or> (28 \<le> n \<and> n \<le> 31))"

definition py_strip :: "string \<Rightarrow> string" where
  "py_strip s = rev (dropWhile is_space (rev (dropWhile is_space s)))"

lemma py_lower_length [simp]: "length (py_lower s) = length s"
  by (simp add: py_lower_def)

lemma py_lower_append [simp]: "py_lower (s @ t) = py_lower s @ py_lower t"
  by (simp add: py_lower_def)

lemma py_lower_Nil [simp]: "py_lower [] = []"
  by (simp add: py_lower_def)

lemma py_lower_take: "py_lower (take n s) = take n (py_lower s)"
  by (simp add: py_lower_def take_map)

lemma py_lower_drop: "py_lower (drop n s) = drop n (py_lower s)"
  by (simp add: py_lower_def drop_map)

text \<open>\<open>str(n)\<close> for a Python integer.\<close>

fun nat_digits :: "nat \<Rightarrow> string" where
  "nat_digits n =
     (if n < 10 then [char_of (48 + n)] else nat_digits (n div 10) @ [char_of (48 + n mod 10)])"

declare nat_digits.simps [simp del]

definition str_of_int :: "int \<Rightarrow> string" where
  "str_of_int i = (if i < 0 then CHR ''-'' # nat_digits (nat (- i)) else nat_digits (nat i))"

definition digits_val :: "string \<Rightarrow> nat" where
  "digits_val s = foldl (\<lambda>v c. 10 * v + ((of_char c :: nat) - 48)) 0 s"

lemma digits_val_nat_digits: "digits_val (nat_digits n) = n"
proof (induction n rule: nat_digits.induct)
  case (1 n)
  show ?case
  proof (cases "n < 10")
    case True
    then show ?thesis
      by (subst nat_digits.simps) (simp add: digits_val_def)
  next
    case False
    with 1 have "digits_val (nat_digits (n div 10)) = n div 10" by simp
    moreover have "n mod 10 < 10" by simp
    ultimately show ?thesis using False
      by (subst nat_digits.simps) (simp add: digits_val_def)
  qed
qed

lemma nat_digits_digit: "c \<in> set (nat_digits n) \<Longrightarrow> 48 \<le> (of_char c :: nat)"
proof (induction n rule: nat_digits.induct)
  case (1 n)
  have "n mod 10 < 10" by simp
  with 1 show ?case
    by (subst (asm) nat_digits.simps) (auto split: if_splits)
qed

lemma nat_digits_no_minus: "CHR ''-'' \<notin> set (nat_digits n)"
  using nat_digits_digit [of "CHR ''-''" n] by auto

lemma nat_digits_inject: "nat_digits m = nat_digits n \<Longrightarrow> m = n"
  by (metis digits_val_nat_digits)

lemma str_of_int_inject: "str_of_int i = str_of_int j \<Longrightarrow> i = j"
  by (auto simp: str_of_int_def split: if_splits dest!: nat_digits_inject)
    (metis list.set_intros(1) nat_digits_no_minus)+

text \<open>\<open>int(s)\<close> of a text: blanks around it, a sign, digits with single underscores between.\<close>

definition is_digit :: "char \<Rightarrow> bool" where
  "is_digit c = (let n = (of_char c :: nat) in 48 \<le> n \<and> n \<le> 57)"

fun digits_ok :: "string \<Rightarrow> bool" where
  "digits_ok [] = False"
| "digits_ok [c] = is_digit c"
| "digits_ok (c # d # cs) = (is_digit c \<and> (if d = CHR ''_'' then digits_ok cs else digits_ok (d # cs)))"

definition py_int :: "string \<Rightarrow> int option" where
  "py_int s =
     (let t = py_strip s;
          (sign, body) = (case t of [] \<Rightarrow> (1, [])
            | c # cs \<Rightarrow> if c = CHR ''-'' then (-1, cs) else if c = CHR ''+'' then (1, cs) else (1, t))
      in if digits_ok body then Some (sign * int (digits_val (filter (\<lambda>c. c \<noteq> CHR ''_'') body))) else None)"

end
