(* ===== verification/Decimal_Arith.thy ===== *)
theory Decimal_Arith
  imports Prelude
begin

text \<open>
  Python's \<open>decimal.Decimal\<close>. A finite decimal is represented by its exact value, a
  rational number. \<open>+\<close>, \<open>-\<close>, \<open>*\<close> and \<open>/\<close> compute the exact result and round it to the
  default context: 28 significant digits, ties to even (\<open>dec_round\<close>). Comparison,
  construction, \<open>min\<close> and \<open>max\<close> do not round. Infinities, NaN and exponents beyond the
  context's range of one million are outside the model.

  The lemmas give what the ledgers need: rounding keeps signs, stays within half a unit of
  the 28th digit, and does nothing to a number that has at most 28 digits
  (\<open>dec_round_exact\<close>), which is every amount of the database's \<open>Numeric(18, 4)\<close> columns.
\<close>

type_synonym decimal = rat

subsection \<open>Rounding to the context\<close>

definition round_half_even :: "rat \<Rightarrow> int" where
  "round_half_even x =
     (let f = \<lfloor>x\<rfloor>; d = x - of_int f in
      if d < 1 / 2 then f else if 1 / 2 < d then f + 1 else if even f then f else f + 1)"

fun ndig :: "nat \<Rightarrow> nat" where
  "ndig n = (if n < 10 then 1 else Suc (ndig (n div 10)))"

declare ndig.simps [simp del]

text \<open>The exponent of the leading digit: \<open>10^e \<le> \<bar>x\<bar> < 10^(e + 1)\<close>.\<close>

definition dec_exp :: "rat \<Rightarrow> int" where
  "dec_exp x = (if 1 \<le> \<bar>x\<bar> then int (ndig (nat \<lfloor>\<bar>x\<bar>\<rfloor>)) - 1
                else - int (ndig (nat (\<lceil>1 / \<bar>x\<bar>\<rceil> - 1))))"

definition dec_round :: "rat \<Rightarrow> decimal" where
  "dec_round x =
     (if x = 0 then 0
      else let q = 10 powi (dec_exp x - 27) in of_int (round_half_even (x / q)) * q)"

definition dadd :: "decimal \<Rightarrow> decimal \<Rightarrow> decimal" where
  "dadd a b = dec_round (a + b)"

definition dsub :: "decimal \<Rightarrow> decimal \<Rightarrow> decimal" where
  "dsub a b = dec_round (a - b)"

definition dmul :: "decimal \<Rightarrow> decimal \<Rightarrow> decimal" where
  "dmul a b = dec_round (a * b)"

definition ddiv :: "decimal \<Rightarrow> decimal \<Rightarrow> decimal" where
  "ddiv a b = dec_round (a / b)"

text \<open>\<open>sum(xs, Decimal(0))\<close>: a left fold, rounded at every step.\<close>

definition dsum :: "decimal list \<Rightarrow> decimal" where
  "dsum xs = foldl dadd 0 xs"

subsection \<open>Rounding to an integer\<close>

lemma round_half_even_of_int [simp]: "round_half_even (of_int n) = n"
  by (simp add: round_half_even_def)

lemma round_half_even_error: "\<bar>of_int (round_half_even x) - x\<bar> \<le> 1 / 2"
proof -
  have "of_int \<lfloor>x\<rfloor> \<le> x" "x < of_int \<lfloor>x\<rfloor> + 1" by linarith+
  then show ?thesis
    by (simp add: round_half_even_def Let_def abs_le_iff split: if_split)
qed

lemma round_half_even_ge: "of_int n \<le> x \<Longrightarrow> n \<le> round_half_even x"
  by (simp add: round_half_even_def Let_def le_floor_iff) linarith

lemma round_half_even_le: "x \<le> of_int n \<Longrightarrow> round_half_even x \<le> n"
proof -
  assume le: "x \<le> of_int n"
  then have f: "\<lfloor>x\<rfloor> \<le> n" by linarith
  show ?thesis
  proof (cases "\<lfloor>x\<rfloor> = n")
    case True
    with le have "x = of_int n" by linarith
    then show ?thesis by simp
  next
    case False
    with f show ?thesis by (auto simp: round_half_even_def Let_def)
  qed
qed

lemma round_half_even_nonneg: "0 \<le> x \<Longrightarrow> 0 \<le> round_half_even x"
  using round_half_even_ge [of 0 x] by simp

lemma round_half_even_nonpos: "x \<le> 0 \<Longrightarrow> round_half_even x \<le> 0"
  using round_half_even_le [of x 0] by simp

lemma round_half_even_mono: "x \<le> y \<Longrightarrow> round_half_even x \<le> round_half_even y"
proof -
  assume le: "x \<le> y"
  then have f: "\<lfloor>x\<rfloor> \<le> \<lfloor>y\<rfloor>" by (rule floor_mono)
  show ?thesis
  proof (cases "\<lfloor>x\<rfloor> = \<lfloor>y\<rfloor>")
    case True
    with le show ?thesis by (auto simp: round_half_even_def Let_def)
  next
    case False
    with f show ?thesis by (auto simp: round_half_even_def Let_def)
  qed
qed

lemma round_half_even_minus: "round_half_even (- x) = - round_half_even x"
proof (cases "x = of_int \<lfloor>x\<rfloor>")
  case True
  then show ?thesis by (metis of_int_minus round_half_even_of_int)
next
  case False
  then have "\<lfloor>- x\<rfloor> = - \<lfloor>x\<rfloor> - 1" by linarith
  then show ?thesis
    by (auto simp: round_half_even_def Let_def)
qed

subsection \<open>The exponent\<close>

lemma ndig_pos: "0 < ndig n"
  by (subst ndig.simps) simp

lemma ndig_bounds: "0 < n \<Longrightarrow> 10 ^ (ndig n - 1) \<le> n \<and> n < 10 ^ ndig n"
proof (induction n rule: ndig.induct)
  case (1 n)
  show ?case
  proof (cases "n < 10")
    case True
    with 1 show ?thesis by (simp add: ndig.simps [of n])
  next
    case False
    then have "0 < n div 10" by arith
    with 1 False have IH: "10 ^ (ndig (n div 10) - 1) \<le> n div 10" "n div 10 < 10 ^ ndig (n div 10)"
      by auto
    obtain k where k: "ndig (n div 10) = Suc k" using ndig_pos gr0_implies_Suc by blast
    from False have n: "ndig n = Suc (Suc k)" by (simp add: ndig.simps [of n] k)
    from IH k have "10 * 10 ^ k \<le> n" by simp
    moreover from IH k have "n < 10 * 10 ^ Suc k" by auto
    ultimately show ?thesis by (simp add: n)
  qed
qed

lemma ten_powi_pos [simp]: "0 < (10 :: rat) powi e"
  by (simp add: zero_less_power_int)

lemma ten_powi_mono: "a \<le> b \<Longrightarrow> (10 :: rat) powi a \<le> 10 powi b"
  by (rule power_int_increasing) auto

lemma ten_powi_less: "(10 :: rat) powi a < 10 powi b \<Longrightarrow> a < b"
  by (meson leD linorder_not_less ten_powi_mono)

lemma dec_exp_ge_1:
  assumes "1 \<le> y"
  shows "10 powi (int (ndig (nat \<lfloor>y\<rfloor>)) - 1) \<le> (y :: rat)"
    and "y < 10 powi (int (ndig (nat \<lfloor>y\<rfloor>)))"
proof -
  define n where "n = nat \<lfloor>y\<rfloor>"
  from assms have fl: "1 \<le> \<lfloor>y\<rfloor>" by linarith
  then have n: "0 < n" "int n = \<lfloor>y\<rfloor>" by (auto simp: n_def)
  from n(2) have "(of_nat n :: rat) = of_int \<lfloor>y\<rfloor>" by (metis of_int_of_nat_eq)
  then have ny: "of_nat n \<le> y" "y < of_nat n + 1" by linarith+
  obtain k where k: "ndig n = Suc k" using ndig_pos gr0_implies_Suc by blast
  from ndig_bounds [OF n(1)] k have b: "10 ^ k \<le> n" "n + 1 \<le> 10 ^ Suc k" by auto
  have "of_nat (10 ^ k) \<le> (of_nat n :: rat)" using b(1) by (simp only: of_nat_le_iff)
  then have "(10 :: rat) ^ k \<le> of_nat n" by (simp only: of_nat_power of_nat_numeral)
  with ny(1) have "(10 :: rat) ^ k \<le> y" by (rule order_trans [rotated])
  then show "10 powi (int (ndig (nat \<lfloor>y\<rfloor>)) - 1) \<le> y"
    by (simp add: k flip: n_def)
  have "of_nat (n + 1) \<le> (of_nat (10 ^ Suc k) :: rat)" using b(2) by (simp only: of_nat_le_iff)
  then have "y < 10 ^ Suc k" using ny(2) by simp
  then show "y < 10 powi (int (ndig (nat \<lfloor>y\<rfloor>)))"
    by (simp only: k power_int_of_nat flip: n_def)
qed

lemma dec_exp_lt_1:
  assumes "0 < y" and "y < (1 :: rat)"
  shows "10 powi (- int (ndig (nat (\<lceil>1 / y\<rceil> - 1)))) \<le> y"
    and "y < 10 powi (1 - int (ndig (nat (\<lceil>1 / y\<rceil> - 1))))"
proof -
  define m where "m = nat (\<lceil>1 / y\<rceil> - 1)"
  from assms have "1 < 1 / y" by simp
  then have "2 \<le> \<lceil>1 / y\<rceil>" by linarith
  then have m: "0 < m" "\<lceil>1 / y\<rceil> = int m + 1" unfolding m_def by linarith+
  have "1 / y \<le> of_int \<lceil>1 / y\<rceil>" "of_int \<lceil>1 / y\<rceil> < 1 / y + 1" by linarith+
  then have my: "1 / y \<le> of_nat m + 1" "of_nat m < 1 / y" by (simp_all add: m(2))
  obtain k where k: "ndig m = Suc k" using ndig_pos gr0_implies_Suc by blast
  from ndig_bounds [OF m(1)] k have b: "10 ^ k \<le> m" "m + 1 \<le> 10 ^ Suc k" by auto
  have "of_nat (m + 1) \<le> (of_nat (10 ^ Suc k) :: rat)" using b(2) by (simp only: of_nat_le_iff)
  with my(1) have "1 / y \<le> 10 ^ Suc k" by simp
  with assms(1) have "1 / 10 ^ Suc k \<le> y" by (simp add: field_simps)
  then show "10 powi (- int (ndig (nat (\<lceil>1 / y\<rceil> - 1)))) \<le> y"
    by (simp only: k power_int_minus power_int_of_nat inverse_eq_divide flip: m_def)
  have "of_nat (10 ^ k) \<le> (of_nat m :: rat)" using b(1) by (simp only: of_nat_le_iff)
  then have "(10 :: rat) ^ k \<le> of_nat m" by (simp only: of_nat_power of_nat_numeral)
  then have "10 ^ k < 1 / y" using my(2) by (rule order.strict_trans1)
  with assms(1) have "y < 1 / 10 ^ k" by (simp add: field_simps)
  moreover have "(10 :: rat) powi (1 - int (Suc k)) = 1 / 10 ^ k"
    by (simp add: power_int_minus inverse_eq_divide)
  ultimately show "y < 10 powi (1 - int (ndig (nat (\<lceil>1 / y\<rceil> - 1))))"
    by (simp only: k flip: m_def)
qed

lemma dec_exp_bounds:
  assumes "x \<noteq> 0"
  shows "10 powi (dec_exp x) \<le> \<bar>x\<bar>" and "\<bar>x\<bar> < 10 powi (dec_exp x + 1)"
proof -
  show "10 powi (dec_exp x) \<le> \<bar>x\<bar>"
    using dec_exp_ge_1(1) [of "\<bar>x\<bar>"] dec_exp_lt_1(1) [of "\<bar>x\<bar>"] assms
    by (auto simp: dec_exp_def)
  show "\<bar>x\<bar> < 10 powi (dec_exp x + 1)"
    using dec_exp_ge_1(2) [of "\<bar>x\<bar>"] dec_exp_lt_1(2) [of "\<bar>x\<bar>"] assms
    by (auto simp: dec_exp_def add.commute)
qed

subsection \<open>Rounding to 28 digits\<close>

lemma dec_round_0 [simp]: "dec_round 0 = 0"
  by (simp add: dec_round_def)

lemma dec_round_pos:
  assumes "0 < x" shows "0 < dec_round x"
proof -
  define q :: rat where "q = 10 powi (dec_exp x - 27)"
  have q: "0 < q" by (simp add: q_def)
  from assms have "10 powi (dec_exp x) \<le> x" using dec_exp_bounds(1) [of x] by simp
  moreover have "q \<le> 10 powi (dec_exp x)" unfolding q_def by (rule ten_powi_mono) simp
  ultimately have "1 \<le> x / q" using q by (simp add: le_divide_eq)
  then have "1 \<le> round_half_even (x / q)" using round_half_even_ge [of 1] by simp
  with q assms show ?thesis by (simp add: dec_round_def Let_def flip: q_def)
qed

lemma dec_round_nonneg: "0 \<le> x \<Longrightarrow> 0 \<le> dec_round x"
  using dec_round_pos [of x] by (cases "x = 0") auto

lemma dec_round_nonpos:
  assumes "x \<le> 0" shows "dec_round x \<le> 0"
proof -
  have "x / 10 powi (dec_exp x - 27) \<le> 0"
    using assms by (simp add: divide_le_0_iff)
  then show ?thesis
    using round_half_even_nonpos by (auto simp: dec_round_def Let_def mult_le_0_iff)
qed

text \<open>Half a unit in the 28th digit.\<close>

lemma dec_round_error: "\<bar>dec_round x - x\<bar> \<le> \<bar>x\<bar> / (2 * 10 ^ 27)"
proof (cases "x = 0")
  case False
  define q :: rat where "q = 10 powi (dec_exp x - 27)"
  have q: "0 < q" by (simp add: q_def)
  have "dec_round x - x = (of_int (round_half_even (x / q)) - x / q) * q"
    using q False by (simp add: dec_round_def Let_def field_simps flip: q_def)
  then have "\<bar>dec_round x - x\<bar> = \<bar>of_int (round_half_even (x / q)) - x / q\<bar> * q"
    using q by (simp add: abs_mult)
  also have "\<dots> \<le> 1 / 2 * q"
    using q round_half_even_error by (intro mult_right_mono) auto
  also have "10 powi (dec_exp x) = q * 10 ^ 27"
    by (simp add: q_def power_int_diff)
  then have "q * 10 ^ 27 \<le> \<bar>x\<bar>" using dec_exp_bounds(1) [OF False] by simp
  then have "1 / 2 * q \<le> \<bar>x\<bar> / (2 * 10 ^ 27)" by (simp add: field_simps)
  finally show ?thesis .
qed simp

lemma dec_exp_minus [simp]: "dec_exp (- x) = dec_exp x"
  by (simp add: dec_exp_def)

lemma dec_round_minus: "dec_round (- x) = - dec_round x"
  by (simp add: dec_round_def Let_def round_half_even_minus)

text \<open>A number with at most 28 digits is not changed, and every result is such a number.\<close>

definition dec_rep :: "rat \<Rightarrow> bool" where
  "dec_rep x \<longleftrightarrow> (\<exists>n e. x = of_int n * 10 powi e \<and> \<bar>n\<bar> < 10 ^ 28)"

lemma dec_round_exact:
  assumes "dec_rep x" shows "dec_round x = x"
proof (cases "x = 0")
  case False
  from assms obtain n k where n: "x = of_int n * 10 powi k" "\<bar>n\<bar> < 10 ^ 28"
    by (auto simp: dec_rep_def)
  define e where "e = dec_exp x"
  define q :: rat where "q = 10 powi (e - 27)"
  have q: "0 < q" by (simp add: q_def)
  have "(of_int \<bar>n\<bar> :: rat) < of_int (10 ^ 28)" using n(2) by (simp only: of_int_less_iff)
  then have "\<bar>x\<bar> < 10 ^ 28 * 10 powi k" by (simp add: n(1) abs_mult)
  also have "\<dots> = 10 powi (28 + k)" by (simp add: power_int_add)
  finally have "10 powi e < (10 :: rat) powi (28 + k)"
    using dec_exp_bounds(1) [OF False] by (simp add: e_def)
  then have "e < 28 + k" by (rule ten_powi_less)
  then have j: "27 - e + k = int (nat (27 - e + k))" by simp
  have "x / q = of_int n * 10 powi (27 - e + k)"
    by (simp add: q_def n(1) power_int_diff power_int_add)
  also have "\<dots> = of_int (n * 10 ^ nat (27 - e + k))"
    by (subst j, subst power_int_of_nat) simp
  finally have "of_int (round_half_even (x / q)) = x / q" by (metis round_half_even_of_int)
  then show ?thesis using q False by (simp add: dec_round_def Let_def flip: e_def q_def)
qed simp

lemma dec_round_bounds:
  assumes "0 < x"
  shows "10 powi (dec_exp x) \<le> dec_round x" and "dec_round x \<le> 10 powi (dec_exp x + 1)"
proof -
  define q :: rat where "q = 10 powi (dec_exp x - 27)"
  have q: "0 < q" by (simp add: q_def)
  have lo: "10 powi (dec_exp x) = of_int (10 ^ 27) * q"
    by (simp add: q_def power_int_diff)
  have hi: "10 powi (dec_exp x + 1) = of_int (10 ^ 28) * q"
    by (simp add: q_def power_int_diff power_int_add)
  note b = dec_exp_bounds [of x]
  from b(1) assms have "of_int (10 ^ 27) * q \<le> x" by (simp only: lo) simp
  then have "of_int (10 ^ 27) \<le> x / q" using q by (simp only: pos_le_divide_eq)
  then have l: "10 ^ 27 \<le> round_half_even (x / q)" by (rule round_half_even_ge)
  from b(2) assms have "x \<le> of_int (10 ^ 28) * q" by (simp only: hi) simp
  then have "x / q \<le> of_int (10 ^ 28)" using q by (simp only: pos_divide_le_eq)
  then have h: "round_half_even (x / q) \<le> 10 ^ 28" by (rule round_half_even_le)
  have r: "dec_round x = of_int (round_half_even (x / q)) * q"
    using assms by (simp add: dec_round_def Let_def q_def)
  show "10 powi (dec_exp x) \<le> dec_round x"
    unfolding r lo using l q by (intro mult_right_mono) (simp_all only: of_int_le_iff less_imp_le)
  show "dec_round x \<le> 10 powi (dec_exp x + 1)"
    unfolding r hi using h q by (intro mult_right_mono) (simp_all only: of_int_le_iff less_imp_le)
qed

lemma dec_round_mono_pos:
  assumes "0 < x" and "x \<le> y"
  shows "dec_round x \<le> dec_round y"
proof (cases "dec_exp x = dec_exp y")
  case True
  define q :: rat where "q = 10 powi (dec_exp y - 27)"
  have q: "0 < q" by (simp add: q_def)
  with assms have "x / q \<le> y / q" by (simp add: divide_right_mono)
  then have "round_half_even (x / q) \<le> round_half_even (y / q)" by (rule round_half_even_mono)
  with q assms True show ?thesis by (simp add: dec_round_def Let_def flip: q_def)
next
  case False
  have "10 powi (dec_exp x) \<le> x" using dec_exp_bounds(1) [of x] assms by simp
  also have "\<dots> \<le> y" by fact
  also have "y < 10 powi (dec_exp y + 1)" using dec_exp_bounds(2) [of y] assms by simp
  finally have "dec_exp x < dec_exp y + 1" by (rule ten_powi_less)
  with False have "dec_exp x + 1 \<le> dec_exp y" by simp
  then have "(10 :: rat) powi (dec_exp x + 1) \<le> 10 powi (dec_exp y)" by (rule ten_powi_mono)
  then show ?thesis using dec_round_bounds(2) [of x] dec_round_bounds(1) [of y] assms by linarith
qed

lemma dec_round_mono:
  assumes "x \<le> y" shows "dec_round x \<le> dec_round y"
proof (cases "0 < x \<or> y < 0")
  case True
  then show ?thesis
  proof
    assume "0 < x"
    then show ?thesis using assms by (rule dec_round_mono_pos)
  next
    assume "y < 0"
    then have "dec_round (- y) \<le> dec_round (- x)" using assms by (intro dec_round_mono_pos) auto
    then show ?thesis by (simp add: dec_round_minus)
  qed
next
  case False
  then show ?thesis using dec_round_nonpos [of x] dec_round_nonneg [of y] by simp
qed

lemma dec_rep_minus: "dec_rep x \<Longrightarrow> dec_rep (- x)"
proof -
  assume "dec_rep x"
  then obtain n e where "x = of_int n * 10 powi e" "\<bar>n\<bar> < 10 ^ 28" by (auto simp: dec_rep_def)
  then have "- x = of_int (- n) * 10 powi e" "\<bar>- n\<bar> < 10 ^ 28" by simp_all
  then show ?thesis unfolding dec_rep_def by blast
qed

lemma dec_rep_round: "dec_rep (dec_round x)"
proof -
  have pos: "dec_rep (dec_round y)" if y: "0 < y" for y
  proof -
    define n where "n = round_half_even (y / 10 powi (dec_exp y - 27))"
    have r: "dec_round y = of_int n * 10 powi (dec_exp y - 27)"
      using y by (simp add: dec_round_def Let_def n_def)
    show ?thesis
    proof (cases "dec_round y = 10 powi (dec_exp y + 1)")
      case True
      then have "dec_round y = of_int 1 * 10 powi (dec_exp y + 1)" "\<bar>1 :: int\<bar> < 10 ^ 28"
        by simp_all
      then show ?thesis unfolding dec_rep_def by blast
    next
      case False
      then have "dec_round y < 10 powi (dec_exp y + 1)"
        using dec_round_bounds(2) [OF y] by simp
      also have "\<dots> = of_int (10 ^ 28) * 10 powi (dec_exp y - 27)"
        by (simp add: power_int_diff power_int_add)
      finally have "n < 10 ^ 28" unfolding r by (simp only: mult_less_cancel_right_pos ten_powi_pos of_int_less_iff)
      moreover have "0 < dec_round y" using y by (rule dec_round_pos)
      then have "(0 :: rat) < of_int n" unfolding r by (rule zero_less_mult_pos2) simp
      then have "0 < n" by simp
      ultimately show ?thesis unfolding dec_rep_def using r by (intro exI conjI) auto
    qed
  qed
  consider "x = 0" | "0 < x" | "0 < - x" by linarith
  then show ?thesis
  proof cases
    case 1
    then show ?thesis unfolding dec_rep_def by (intro exI [of _ 0] conjI) simp_all
  next
    case 2
    then show ?thesis by (rule pos)
  next
    case 3
    then show ?thesis using dec_rep_minus [OF pos [OF 3]] by (simp add: dec_round_minus)
  qed
qed

lemma dec_round_idem [simp]: "dec_round (dec_round x) = dec_round x"
  by (rule dec_round_exact) (rule dec_rep_round)

text \<open>The same for the amounts of a \<open>Numeric\<close> column with \<open>k\<close> decimal places.\<close>

definition dec_fits :: "nat \<Rightarrow> rat \<Rightarrow> bool" where
  "dec_fits k x \<longleftrightarrow> (\<exists>n. x = of_int n / 10 ^ k \<and> \<bar>n\<bar> < 10 ^ 28)"

lemma dec_fits_rep: "dec_fits k x \<Longrightarrow> dec_rep x"
proof -
  assume "dec_fits k x"
  then obtain n where "x = of_int n * 10 powi (- int k)" "\<bar>n\<bar> < 10 ^ 28"
    by (auto simp: dec_fits_def power_int_minus divide_inverse)
  then show ?thesis unfolding dec_rep_def by blast
qed

lemma dec_rep_of_int: "\<bar>n\<bar> < 10 ^ 28 \<Longrightarrow> dec_rep (of_int n)"
  by (rule dec_fits_rep [of 0]) (auto simp: dec_fits_def)

text \<open>Evaluation by the simplifier of results with at most 8 decimal places.\<close>

lemma dec_round_eval:
  assumes "of_int \<lfloor>x * 100000000\<rfloor> = x * 100000000" and "\<bar>x\<bar> < 100000000000000000000"
  shows "dec_round x = x"
proof (rule dec_round_exact, rule dec_fits_rep)
  have "(of_int \<bar>\<lfloor>x * 100000000\<rfloor>\<bar> :: rat) = \<bar>x\<bar> * 100000000"
    by (simp only: of_int_abs assms(1) abs_mult abs_numeral)
  also have "\<dots> < of_int (10 ^ 28)" using assms(2) by simp
  finally have "\<bar>\<lfloor>x * 100000000\<rfloor>\<bar> < 10 ^ 28" by (simp only: of_int_less_iff)
  with assms(1) show "dec_fits 8 x"
    unfolding dec_fits_def by (intro exI [of _ "\<lfloor>x * 100000000\<rfloor>"]) (simp only: assms(1), simp)
qed

lemmas dec_eval = dadd_def dsub_def dmul_def ddiv_def dec_round_eval

text \<open>Adding or subtracting a non-negative amount never moves a 28-digit number the wrong way.\<close>

lemma dadd_ge: "dec_rep a \<Longrightarrow> 0 \<le> b \<Longrightarrow> a \<le> dadd a b"
  using dec_round_mono [of a "a + b"] by (simp add: dadd_def dec_round_exact)

lemma dsub_le: "dec_rep a \<Longrightarrow> 0 \<le> b \<Longrightarrow> dsub a b \<le> a"
  using dec_round_mono [of "a - b" a] by (simp add: dsub_def dec_round_exact)

lemma dec_rep_ops: "dec_rep (dadd a b)" "dec_rep (dsub a b)" "dec_rep (dmul a b)" "dec_rep (ddiv a b)"
  by (simp_all add: dadd_def dsub_def dmul_def ddiv_def dec_rep_round)

lemma dec_rep_0 [simp]: "dec_rep 0"
  using dec_rep_round [of 0] by simp

subsection \<open>Signs of the operations\<close>

lemma dadd_nonneg: "0 \<le> a \<Longrightarrow> 0 \<le> b \<Longrightarrow> 0 \<le> dadd a b"
  by (simp add: dadd_def dec_round_nonneg)

lemma dsub_nonneg: "b \<le> a \<Longrightarrow> 0 \<le> dsub a b"
  by (simp add: dsub_def dec_round_nonneg)

lemma dmul_nonneg: "0 \<le> a \<Longrightarrow> 0 \<le> b \<Longrightarrow> 0 \<le> dmul a b"
  by (simp add: dmul_def dec_round_nonneg)

lemma dmul_pos: "0 < a \<Longrightarrow> 0 < b \<Longrightarrow> 0 < dmul a b"
  by (simp add: dmul_def dec_round_pos)

lemma ddiv_nonneg: "0 \<le> a \<Longrightarrow> 0 \<le> b \<Longrightarrow> 0 \<le> ddiv a b"
  by (simp add: ddiv_def dec_round_nonneg)

lemma ddiv_pos: "0 < a \<Longrightarrow> 0 < b \<Longrightarrow> 0 < ddiv a b"
  by (simp add: ddiv_def dec_round_pos)

lemma dsum_snoc: "dsum (xs @ [x]) = dadd (dsum xs) x"
  by (simp add: dsum_def)

lemma dsum_Nil [simp]: "dsum [] = 0"
  by (simp add: dsum_def)

lemma dsum_nonneg: "(\<And>x. x \<in> set xs \<Longrightarrow> 0 \<le> x) \<Longrightarrow> 0 \<le> dsum xs"
proof (induction xs rule: rev_induct)
  case Nil
  then show ?case by simp
next
  case (snoc x xs)
  then show ?case by (auto simp: dsum_snoc intro: dadd_nonneg)
qed

end
