(* ===== verification/Schema.thy ===== *)
theory Schema
  imports Decimal_Arith "HOL-Library.List_Lexorder" "HOL-Library.Char_ord"
begin

text \<open>
  The data of the trading core: the rows of the tables of \<^verbatim>\<open>app/db/models.py\<close> that it reads
  and writes, the settings it is gated by, its exceptions, and the session state.

  The session is a record of tables, each the list of its rows in insertion order. An ORM
  object is a reference to its row, so a method that gets one takes its primary key; reading
  an attribute reads the row. A query is the list operation its \<open>where\<close>, \<open>order_by\<close> and
  \<open>limit\<close> describe; \<open>flush\<close> makes nothing visible that the model does not show already,
  because one session sees its own rows. \<open>sn_now\<close> is the instant \<open>utc_now()\<close> returns,
  in microseconds; one operation takes place at one instant. Dates are day numbers.
  Money columns hold the \<open>Decimal\<close> the code assigned; the rounding of a
  \<open>Numeric(18, 4)\<close> column by the database on reload is not modelled.
\<close>

subsection \<open>Text\<close>

text \<open>
  A formatted message: literal text, a \<open>Decimal\<close> printed with \<open>str\<close> or with
  \<open>:.6f\<close>, or a text cut to a number of characters (\<open>s[:n]\<close>). A long dash of the source
  is written as two hyphens.
\<close>

datatype chunk = T string | D decimal | D6 decimal | Cut nat "chunk list"

type_synonym text_t = "chunk list"

definition py_repr :: "string \<Rightarrow> string" where
  "py_repr s = CHR 0x27 # s @ [CHR 0x27]"

fun py_join :: "string \<Rightarrow> string list \<Rightarrow> string" where
  "py_join sep [] = []"
| "py_join sep [x] = x"
| "py_join sep (x # y # xs) = x @ sep @ py_join sep (y # xs)"

definition py_list_repr :: "string list \<Rightarrow> string" where
  "py_list_repr xs = ''['' @ py_join '', '' (map py_repr xs) @ '']''"

text \<open>JSON documents; \<open>JDec\<close> is the text of a \<open>Decimal\<close>.\<close>

datatype json = JNull | JBool bool | JInt int | JDec decimal | JStr string | JText text_t
  | JList "json list" | JObj "(string \<times> json) list"

subsection \<open>Arguments whose type the code checks at run time\<close>

datatype int_arg = PyInt int | PyBool bool | PyOther

text \<open>An argument of \<open>Decimal(str(x))\<close>: the number it denotes, or text that
  \<open>Decimal\<close> refuses with \<open>InvalidOperation\<close>.\<close>

datatype dec_arg = DecArg decimal | BadDec

subsection \<open>Exceptions\<close>

datatype py_error =
    ValueError text_t
  | InvalidOperation
  | DivisionByZero
  | DetachedRow
  | MultipleResultsFound
  | TypeError
  | OrderCandidateValidationError text_t
  | InvalidOrderCandidateTransition text_t
  | ApprovalAuditLogValidationError text_t
  | ApprovalServiceError text_t
  | TradingSafetyDisabledError
  | KillSwitchBlockedError
  | ApprovalDeniedError text_t "(string \<times> json) list"
  | PaperTradingDisabledError text_t
  | SimulationBrokerError text_t
  | InsufficientCashError text_t
  | InsufficientPositionError text_t
  | TransportError
  | UnknownStrategyError text_t

subsection \<open>Settings\<close>

record settings =
  cfg_paper_trading_enabled :: bool
  cfg_trading_safety_enabled :: bool
  cfg_kill_switch_enabled :: bool
  cfg_approval_required :: bool
  cfg_max_order_amount :: int
  cfg_max_daily_order_amount :: int
  cfg_max_position_ratio :: decimal
  cfg_max_daily_loss_amount :: int
  cfg_real_trading_enabled :: bool
  cfg_kis_order_enabled :: bool
  cfg_real_order_dry_run :: bool
  cfg_max_real_order_amount :: int
  cfg_max_real_daily_order_amount :: int
  cfg_kis_account_no :: string

subsection \<open>Rows\<close>

record virtual_account =
  va_id :: int
  va_user_id :: "int option"
  va_name :: string
  va_initial_cash :: decimal
  va_cash_balance :: decimal
  va_currency :: string
  va_paper_trading_enabled :: bool
  va_updated_at :: int

record virtual_order =
  vo_id :: int
  vo_account_id :: int
  vo_symbol :: string
  vo_side :: string
  vo_quantity :: int
  vo_order_type :: string
  vo_limit_price :: "decimal option"
  vo_status :: string
  vo_idempotency_key :: "string option"
  vo_reason :: "text_t option"
  vo_note :: "string option"
  vo_updated_at :: int

record virtual_position =
  vp_id :: int
  vp_account_id :: int
  vp_symbol :: string
  vp_quantity :: int
  vp_avg_cost :: decimal
  vp_realized_pnl :: decimal
  vp_updated_at :: int

record virtual_fill =
  vf_id :: int
  vf_order_id :: int
  vf_account_id :: int
  vf_symbol :: string
  vf_side :: string
  vf_quantity :: int
  vf_fill_price :: decimal
  vf_fee :: decimal
  vf_stamp_tax :: decimal
  vf_slippage :: decimal
  vf_gross_amount :: decimal
  vf_net_amount :: decimal
  vf_filled_at :: int

record pnl_snapshot =
  vs_id :: int
  vs_account_id :: int
  vs_snapshot_date :: int
  vs_cash_balance :: decimal
  vs_market_value :: decimal
  vs_total_value :: decimal
  vs_realized_pnl :: decimal
  vs_unrealized_pnl :: decimal
  vs_updated_at :: int

record daily_price =
  dp_symbol :: string
  dp_date :: int
  dp_open :: decimal
  dp_high :: decimal
  dp_low :: decimal
  dp_close :: decimal
  dp_volume :: int
  dp_trading_value :: "decimal option"
  dp_adjusted_close :: "decimal option"

record risk_violation =
  rv_rule_id :: string
  rv_message :: text_t
  rv_severity :: string
  rv_details :: "(string \<times> json) list"

record risk_result =
  rr_policy_version :: string
  rr_passed :: bool
  rr_violations :: "risk_violation list"
  rr_checked_at :: int

record order_candidate =
  oc_id :: int
  oc_account_id :: int
  oc_source :: string
  oc_source_ref_id :: "int option"
  oc_symbol :: string
  oc_side :: string
  oc_quantity :: int
  oc_order_type :: string
  oc_limit_price :: "decimal option"
  oc_estimated_amount :: decimal
  oc_status :: string
  oc_risk_check_result :: "risk_result option"
  oc_approver_user_id :: "int option"
  oc_rejection_reason :: "text_t option"
  oc_expires_at :: "int option"
  oc_virtual_order_id :: "int option"
  oc_created_at :: int
  oc_updated_at :: int

record audit_log =
  al_id :: int
  al_candidate_id :: int
  al_event_type :: string
  al_user_id :: "int option"
  al_reason :: "text_t option"
  al_details :: "(string \<times> json) list option"
  al_ip_hash :: "string option"
  al_user_agent_hash :: "string option"
  al_created_at :: int

record real_order =
  ro_id :: int
  ro_candidate_id :: int
  ro_symbol :: string
  ro_side :: string
  ro_quantity :: int
  ro_order_type :: string
  ro_limit_price :: "decimal option"
  ro_estimated_amount :: decimal
  ro_status :: string
  ro_dry_run :: bool
  ro_fake_order_no :: "string option"
  ro_broker_order_no_hash :: "string option"
  ro_request_id :: "string option"
  ro_error_code :: "string option"
  ro_error_message :: "string option"
  ro_submitted_at :: "int option"
  ro_created_at :: int
  ro_updated_at :: int

record real_fill =
  rf_id :: int
  rf_real_order_id :: int
  rf_symbol :: string
  rf_side :: string
  rf_quantity :: int
  rf_fill_price :: decimal
  rf_fee :: decimal
  rf_tax :: decimal
  rf_gross_amount :: decimal
  rf_net_amount :: decimal
  rf_fill_status :: string
  rf_filled_at :: int

subsection \<open>The session\<close>

record session =
  sn_accounts :: "virtual_account list"
  sn_orders :: "virtual_order list"
  sn_positions :: "virtual_position list"
  sn_fills :: "virtual_fill list"
  sn_snapshots :: "pnl_snapshot list"
  sn_prices :: "daily_price list"
  sn_candidates :: "order_candidate list"
  sn_audits :: "audit_log list"
  sn_real_orders :: "real_order list"
  sn_real_fills :: "real_fill list"
  sn_fake_counter :: int
  sn_now :: int

type_synonym 'a db = "(session, py_error, 'a) action"

definition empty_session :: session where
  "empty_session = \<lparr>sn_accounts = [], sn_orders = [], sn_positions = [], sn_fills = [],
     sn_snapshots = [], sn_prices = [], sn_candidates = [], sn_audits = [], sn_real_orders = [],
     sn_real_fills = [], sn_fake_counter = 0, sn_now = 0\<rparr>"

definition utc_now :: "int db" where
  "utc_now = sgets sn_now"

definition dec_of :: "dec_arg \<Rightarrow> decimal db" where
  "dec_of x = (case x of DecArg d \<Rightarrow> sret d | BadDec \<Rightarrow> sthrow InvalidOperation)"

text \<open>\<open>scalar_one_or_none()\<close> of a query with these rows.\<close>

fun one_or_none :: "'r list \<Rightarrow> 'r option db" where
  "one_or_none [] = sret None"
| "one_or_none [r] = sret (Some r)"
| "one_or_none (r # q # rows) = sthrow MultipleResultsFound"

text \<open>An attribute of an ORM object: the row it refers to.\<close>

definition row_of :: "(session \<Rightarrow> 'r list) \<Rightarrow> ('r \<Rightarrow> int) \<Rightarrow> int \<Rightarrow> 'r db" where
  "row_of table key i = (\<lambda>s. case t_get key i (table s) of
     None \<Rightarrow> (Inl DetachedRow, s) | Some r \<Rightarrow> (Inr r, s))"

lemma row_of_app [monad_simps]:
  "row_of table key i s = (case t_get key i (table s) of
     None \<Rightarrow> (Inl DetachedRow, s) | Some r \<Rightarrow> (Inr r, s))"
  by (simp add: row_of_def)

lemma utc_now_app [monad_simps]: "utc_now s = (Inr (sn_now s), s)"
  by (simp add: utc_now_def monad_simps)

lemma dec_of_app [monad_simps]:
  "dec_of (DecArg d) s = (Inr d, s)" "dec_of BadDec s = (Inl InvalidOperation, s)"
  by (simp_all add: dec_of_def monad_simps)

text \<open>A relation between sessions carries over the reads and the raising conversions as well.\<close>

locale db_relation = step_relation R for R :: "session \<Rightarrow> session \<Rightarrow> bool"
begin

lemma R_lookup: "follows R (\<lambda>s. (f s, s))"
  by (simp add: follows_def R_refl)

lemma R_row: "follows R (row_of table key i)"
  by (auto simp: follows_def row_of_app R_refl split: option.split)

lemma R_dec_of: "follows R (dec_of x)"
  by (cases x) (simp_all add: follows_def dec_of_app R_refl)

lemma R_utc_now: "follows R utc_now"
  by (simp add: follows_def utc_now_app R_refl)

lemma R_one_or_none: "follows R (one_or_none rows)"
  by (cases rows rule: one_or_none.cases) (simp_all add: R_ret R_throw)

lemma R_int_arg:
  "(\<And>q. follows R (f q)) \<Longrightarrow> (\<And>b. follows R (g b)) \<Longrightarrow> follows R h \<Longrightarrow>
   follows R (case x of PyInt q \<Rightarrow> f q | PyBool b \<Rightarrow> g b | PyOther \<Rightarrow> h)"
  by (cases x) simp_all

lemmas R_db = R_intros R_row R_dec_of R_utc_now R_one_or_none R_int_arg

end

end
