(* ===== verification/Kis_Client.thy ===== *)
theory Kis_Client
  imports Schema
begin

text \<open>
  The order interface to the broker KIS, \<^verbatim>\<open>app/broker/kis_order_client.py\<close>: requests and
  results, the masking helpers, the abstract client and its fake implementation. A client is
  a record of three methods over its own state \<open>'c\<close> (the fake one keeps the counter of the
  order numbers it made up); the locale \<open>order_client\<close> is what the services rely on.
\<close>

subsection \<open>Masking\<close>

definition mask_account_no :: "string \<Rightarrow> string" where
  "mask_account_no account_no =
     (if 4 \<le> length account_no then ''****'' @ drop (length account_no - 4) account_no else ''****'')"

definition sensitive_keys :: "string list" where
  "sensitive_keys = [''api_key'', ''api_secret'', ''account_no'', ''authorization'', ''token'', ''access_token'']"

definition mask_sensitive_order_payload :: "(string \<times> json) list \<Rightarrow> (string \<times> json) list" where
  "mask_sensitive_order_payload payload =
     map (\<lambda>(k, v). if py_lower k \<in> set sensitive_keys then (k, JStr ''***MASKED***'') else (k, v)) payload"

subsection \<open>Requests and results\<close>

record kis_request =
  kq_symbol :: string
  kq_side :: string
  kq_order_type :: string
  kq_quantity :: int
  kq_price :: int
  kq_account_no :: string

definition make_kis_request ::
  "string \<Rightarrow> string \<Rightarrow> string \<Rightarrow> int \<Rightarrow> int \<Rightarrow> string \<Rightarrow> py_error + kis_request" where
  "make_kis_request symbol side order_type quantity price account_no =
     (if side \<notin> {''BUY'', ''SELL''}
        then Inl (ValueError [T (''side must be BUY or SELL (got '' @ py_repr side @ '')'')])
      else if order_type \<notin> {''LIMIT'', ''MARKET''}
        then Inl (ValueError [T (''order_type must be LIMIT or MARKET (got '' @ py_repr order_type @ '')'')])
      else if quantity \<le> 0
        then Inl (ValueError [T (''quantity must be > 0 (got '' @ str_of_int quantity @ '')'')])
      else if price < 0
        then Inl (ValueError [T (''price must be >= 0 (got '' @ str_of_int price @ '')'')])
      else Inr \<lparr>kq_symbol = symbol, kq_side = side, kq_order_type = order_type,
        kq_quantity = quantity, kq_price = price, kq_account_no = account_no\<rparr>)"

definition kis_request_repr :: "kis_request \<Rightarrow> string" where
  "kis_request_repr q = ''KisOrderRequest(symbol='' @ py_repr (kq_symbol q) @ '', side='' @
     py_repr (kq_side q) @ '', order_type='' @ py_repr (kq_order_type q) @ '', quantity='' @
     str_of_int (kq_quantity q) @ '', price='' @ str_of_int (kq_price q) @ '', account_no='' @
     py_repr (mask_account_no (kq_account_no q)) @ '')''"

definition kis_request_dict :: "kis_request \<Rightarrow> (string \<times> json) list" where
  "kis_request_dict q = [(''symbol'', JStr (kq_symbol q)), (''side'', JStr (kq_side q)),
     (''order_type'', JStr (kq_order_type q)), (''quantity'', JInt (kq_quantity q)),
     (''price'', JInt (kq_price q)), (''account_no'', JStr (mask_account_no (kq_account_no q)))]"

record kis_order_result =
  or_success :: bool
  or_order_no :: string
  or_message :: string

definition kis_order_result_dict :: "kis_order_result \<Rightarrow> (string \<times> json) list" where
  "kis_order_result_dict r = [(''success'', JBool (or_success r)), (''order_no'', JStr (or_order_no r)),
     (''message'', JStr (or_message r))]"

record kis_fill_result =
  fr_success :: bool
  fr_order_no :: string
  fr_filled_quantity :: int
  fr_remaining_quantity :: int
  fr_status :: string
  fr_message :: string

definition fill_valid_statuses :: "string list" where
  "fill_valid_statuses = [''CANCELED'', ''FILLED'', ''PARTIALLY_FILLED'', ''PENDING'', ''REJECTED'']"

definition make_kis_fill_result ::
  "bool \<Rightarrow> string \<Rightarrow> int \<Rightarrow> int \<Rightarrow> string \<Rightarrow> string \<Rightarrow> py_error + kis_fill_result" where
  "make_kis_fill_result success order_no filled remaining status message =
     (if status \<notin> set fill_valid_statuses
        then Inl (ValueError [T (''status must be one of '' @ py_list_repr fill_valid_statuses @
          '' (got '' @ py_repr status @ '')'')])
      else Inr \<lparr>fr_success = success, fr_order_no = order_no, fr_filled_quantity = filled,
        fr_remaining_quantity = remaining, fr_status = status, fr_message = message\<rparr>)"

definition kis_fill_result_dict :: "kis_fill_result \<Rightarrow> (string \<times> json) list" where
  "kis_fill_result_dict r = [(''success'', JBool (fr_success r)), (''order_no'', JStr (fr_order_no r)),
     (''filled_quantity'', JInt (fr_filled_quantity r)),
     (''remaining_quantity'', JInt (fr_remaining_quantity r)), (''status'', JStr (fr_status r)),
     (''message'', JStr (fr_message r))]"

record kis_cancel_result =
  xr_success :: bool
  xr_order_no :: string
  xr_message :: string

definition kis_cancel_result_dict :: "kis_cancel_result \<Rightarrow> (string \<times> json) list" where
  "kis_cancel_result_dict r = [(''success'', JBool (xr_success r)), (''order_no'', JStr (xr_order_no r)),
     (''message'', JStr (xr_message r))]"

subsection \<open>Clients\<close>

text \<open>\<open>kt_fake\<close> is \<open>isinstance(client, FakeKisOrderTransport)\<close>.\<close>

record 'c kis_transport =
  kt_fake :: bool
  kt_place :: "kis_request \<Rightarrow> ('c, py_error, kis_order_result) action"
  kt_query :: "string \<Rightarrow> ('c, py_error, kis_fill_result) action"
  kt_cancel :: "string \<Rightarrow> ('c, py_error, kis_cancel_result) action"

definition zero_pad6 :: "string \<Rightarrow> string" where
  "zero_pad6 s = replicate (6 - length s) (CHR ''0'') @ s"

definition next_fake_order_no :: "(int, py_error, string) action" where
  "next_fake_order_no = (\<lambda>n. (Inr (''FAKE-'' @ zero_pad6 (str_of_int (n + 1))), n + 1))"

definition fake_place :: "kis_request \<Rightarrow> (int, py_error, kis_order_result) action" where
  "fake_place q = sbind next_fake_order_no (\<lambda>order_no.
     sret \<lparr>or_success = True, or_order_no = order_no, or_message = ''fake order accepted''\<rparr>)"

definition fake_query :: "string \<Rightarrow> (int, py_error, kis_fill_result) action" where
  "fake_query order_no = (\<lambda>n. (make_kis_fill_result True order_no 0 0 ''FILLED'' ''fake fill complete'', n))"

definition fake_cancel :: "string \<Rightarrow> (int, py_error, kis_cancel_result) action" where
  "fake_cancel order_no = sret \<lparr>xr_success = True, xr_order_no = order_no, xr_message = ''fake cancel accepted''\<rparr>"

definition fake_transport :: "int kis_transport" where
  "fake_transport = \<lparr>kt_fake = True, kt_place = fake_place, kt_query = fake_query, kt_cancel = fake_cancel\<rparr>"

text \<open>The classification a placement's message carries in front of its colon, as the executor reads it.\<close>

definition place_prefixes :: "string list" where
  "place_prefixes = [''SUBMITTED'', ''REJECTED'', ''TIMEOUT'', ''NETWORK_ERROR'', ''UNKNOWN'']"

definition classify_place_message :: "string \<Rightarrow> string" where
  "classify_place_message message =
     (if message = [] then ''UNKNOWN''
      else let head' = py_upper (py_strip (takeWhile (\<lambda>c. c \<noteq> CHR '':'') message))
           in if head' \<in> set place_prefixes then head' else ''UNKNOWN'')"

subsection \<open>What the services rely on\<close>

locale order_client =
  fixes client :: "'c kis_transport"
  assumes query_valid: "kt_query client ref c = (Inr r, c') \<Longrightarrow>
      fr_status r \<in> set fill_valid_statuses \<and> fr_order_no r = ref"
    and cancel_ref: "kt_cancel client ref c = (Inr x, c') \<Longrightarrow> xr_order_no x = ref"

text \<open>A client that can serve the real path also classifies its placements.\<close>

locale real_client = order_client +
  assumes not_fake: "\<not> kt_fake client"
    and place_class: "kt_place client q c = (Inr r, c') \<Longrightarrow>
      (or_success r \<longleftrightarrow> classify_place_message (or_message r) = ''SUBMITTED'')"

lemma fake_query_app: "fake_query ref n = (Inr \<lparr>fr_success = True, fr_order_no = ref, fr_filled_quantity = 0,
    fr_remaining_quantity = 0, fr_status = ''FILLED'', fr_message = ''fake fill complete''\<rparr>, n)"
  by (simp add: fake_query_def make_kis_fill_result_def fill_valid_statuses_def)

interpretation fake: order_client fake_transport
  by unfold_locales (auto simp: fake_transport_def fake_query_app fake_cancel_def sret_app fill_valid_statuses_def)

subsection \<open>Facts\<close>

text \<open>
  What a request shows of the account number is at most its last four characters: two
  requests that differ only in account numbers of four or more characters with the same last
  four have the same \<open>repr\<close> and the same dictionary; the number itself is not in them beyond these.
\<close>

lemma account_number_masked:
  assumes "4 \<le> length a" and "4 \<le> length b" and "drop (length a - 4) a = drop (length b - 4) b"
  shows "kis_request_repr (q\<lparr>kq_account_no := a\<rparr>) = kis_request_repr (q\<lparr>kq_account_no := b\<rparr>) \<and>
    kis_request_dict (q\<lparr>kq_account_no := a\<rparr>) = kis_request_dict (q\<lparr>kq_account_no := b\<rparr>)"
  using assms by (simp add: kis_request_repr_def kis_request_dict_def mask_account_no_def)

definition demo_request :: "string \<Rightarrow> kis_request" where
  "demo_request acct = \<lparr>kq_symbol = ''005930'', kq_side = ''BUY'', kq_order_type = ''MARKET'',
     kq_quantity = 1, kq_price = 0, kq_account_no = acct\<rparr>"

lemma account_number_masked_witness:
  "kis_request_repr (demo_request ''1234567801'') = kis_request_repr (demo_request ''99997801'')"
  using account_number_masked [of "''1234567801''" "''99997801''" "demo_request []"]
  by (simp add: demo_request_def)

lemma classify_prefix:
  assumes "p \<in> set place_prefixes" and "m = p \<or> (\<exists>rest. m = p @ CHR '':'' # rest)"
  shows "classify_place_message m = p"
proof -
  have "\<forall>p \<in> set place_prefixes. \<forall>c \<in> set p. c \<noteq> CHR '':''" by code_simp
  then have colon: "\<And>c. c \<in> set p \<Longrightarrow> c \<noteq> CHR '':''" using assms(1) by blast
  have "takeWhile (\<lambda>c. c \<noteq> CHR '':'') (p @ rest) = p @ takeWhile (\<lambda>c. c \<noteq> CHR '':'') rest" for rest
    by (rule takeWhile_append2) (rule colon)
  from this [of "[]"] this [of "CHR '':'' # _"] assms(2)
  have "takeWhile (\<lambda>c. c \<noteq> CHR '':'') m = p" by force
  moreover have "\<forall>p \<in> set place_prefixes. py_upper (py_strip p) = p \<and> p \<noteq> []" by code_simp
  ultimately show ?thesis using assms by (auto simp: classify_place_message_def Let_def)
qed

end
