(* ===== verification/Cost_Model.thy ===== *)
theory Cost_Model
  imports Schema
begin

text \<open>
  The cost models of \<^verbatim>\<open>app/backtest/cost_model.py\<close>: the percentage deduction of the backtest
  engine (\<open>CostModel\<close>) and the fee-by-fee model of paper fills (\<open>PaperTradingCostModel\<close>).
\<close>

subsection \<open>CostModel\<close>

record cost_model =
  cm_buy_fee :: decimal
  cm_sell_fee :: decimal
  cm_sell_tax :: decimal
  cm_slippage :: decimal

definition default_cost_model :: cost_model where
  "default_cost_model = \<lparr>cm_buy_fee = 15 / 100000, cm_sell_fee = 15 / 100000,
     cm_sell_tax = 20 / 10000, cm_slippage = 10 / 10000\<rparr>"

definition total_cost :: "cost_model \<Rightarrow> decimal" where
  "total_cost m = dadd (dadd (dadd (cm_buy_fee m) (cm_sell_fee m)) (cm_sell_tax m)) (cm_slippage m)"

definition cost_apply :: "cost_model \<Rightarrow> decimal option \<Rightarrow> decimal option" where
  "cost_apply m raw_return =
     (case raw_return of None \<Rightarrow> None | Some r \<Rightarrow> Some (dsub r (dmul (total_cost m) 100)))"

subsection \<open>PaperTradingCostModel\<close>

record paper_cost_model =
  pm_buy_fee_rate :: decimal
  pm_sell_fee_rate :: decimal
  pm_sell_tax_rate :: decimal
  pm_slippage_rate :: decimal

definition default_paper_costs :: paper_cost_model where
  "default_paper_costs = \<lparr>pm_buy_fee_rate = 15 / 100000, pm_sell_fee_rate = 15 / 100000,
     pm_sell_tax_rate = 18 / 10000, pm_slippage_rate = 5 / 10000\<rparr>"

record fill_costs =
  fc_gross_amount :: decimal
  fc_fee :: decimal
  fc_stamp_tax :: decimal
  fc_slippage :: decimal
  fc_net_amount :: decimal

definition buy_costs :: "paper_cost_model \<Rightarrow> decimal \<Rightarrow> fill_costs" where
  "buy_costs m gross =
     (let fee = dmul gross (pm_buy_fee_rate m);
          slippage = dmul gross (pm_slippage_rate m);
          net = dadd (dadd gross fee) slippage
      in \<lparr>fc_gross_amount = gross, fc_fee = fee, fc_stamp_tax = 0, fc_slippage = slippage,
          fc_net_amount = net\<rparr>)"

definition sell_costs :: "paper_cost_model \<Rightarrow> decimal \<Rightarrow> fill_costs" where
  "sell_costs m gross =
     (let fee = dmul gross (pm_sell_fee_rate m);
          stamp_tax = dmul gross (pm_sell_tax_rate m);
          slippage = dmul gross (pm_slippage_rate m);
          net = dsub (dsub (dsub gross fee) stamp_tax) slippage
      in \<lparr>fc_gross_amount = gross, fc_fee = fee, fc_stamp_tax = stamp_tax, fc_slippage = slippage,
          fc_net_amount = (if net < 0 then 0 else net)\<rparr>)"

definition compute_costs ::
  "paper_cost_model \<Rightarrow> string \<Rightarrow> decimal \<Rightarrow> int \<Rightarrow> (session, py_error, fill_costs) action" where
  "compute_costs m side fill_price quantity =
     sbind (srequire (side \<in> set [''BUY'', ''SELL'']) (ValueError [T ''side must be BUY or SELL''])) (\<lambda>_.
     sbind (srequire (0 < fill_price) (ValueError [T ''fill_price must be > 0''])) (\<lambda>_.
     sbind (srequire (0 < quantity) (ValueError [T ''quantity must be > 0''])) (\<lambda>_.
     let gross = dmul fill_price (of_int quantity)
     in sret (if side = ''BUY'' then buy_costs m gross else sell_costs m gross))))"

subsection \<open>Facts\<close>

text \<open>A cost model whose rates are not negative, as the defaults are.\<close>

definition rates_ok :: "paper_cost_model \<Rightarrow> bool" where
  "rates_ok m \<longleftrightarrow> 0 \<le> pm_buy_fee_rate m \<and> 0 \<le> pm_sell_fee_rate m \<and>
     0 \<le> pm_sell_tax_rate m \<and> 0 \<le> pm_slippage_rate m"

lemma default_rates_ok [simp]: "rates_ok default_paper_costs"
  by (simp add: rates_ok_def default_paper_costs_def)

lemma compute_costs_state: "snd (compute_costs m side p q s) = s"
  by (simp add: compute_costs_def monad_simps Let_def)

lemma compute_costs_Inr:
  assumes "compute_costs m side p q s = (Inr c, s')"
  shows "s' = s" and "0 < p" and "0 < q" and "side = ''BUY'' \<or> side = ''SELL''"
    and "side = ''BUY'' \<Longrightarrow> c = buy_costs m (dmul p (of_int q))"
    and "side = ''SELL'' \<Longrightarrow> c = sell_costs m (dmul p (of_int q))"
  using assms by (auto simp: compute_costs_def monad_simps Let_def split: if_splits)

lemma compute_costs_ok:
  assumes "side = ''BUY'' \<or> side = ''SELL''" and "0 < p" and "0 < q"
  shows "compute_costs m side p q s =
    (Inr (if side = ''BUY'' then buy_costs m (dmul p (of_int q)) else sell_costs m (dmul p (of_int q))), s)"
  using assms by (auto simp: compute_costs_def monad_simps Let_def)

lemma compute_costs_Inl: "compute_costs m side p q s = (Inl e, s') \<Longrightarrow> \<exists>t. e = ValueError t"
  by (auto simp: compute_costs_def monad_simps Let_def split: if_splits)

lemma buy_costs_bounds:
  assumes "rates_ok m" and "0 \<le> g" and "dec_rep g"
  shows "0 \<le> fc_fee (buy_costs m g)" "fc_stamp_tax (buy_costs m g) = 0"
    "0 \<le> fc_slippage (buy_costs m g)" "fc_gross_amount (buy_costs m g) = g"
    "g \<le> fc_net_amount (buy_costs m g)"
proof -
  let ?fee = "dmul g (pm_buy_fee_rate m)" and ?sl = "dmul g (pm_slippage_rate m)"
  from assms have n: "0 \<le> ?fee" "0 \<le> ?sl" by (auto simp: rates_ok_def dmul_nonneg)
  have "g \<le> dadd g ?fee" using assms(3) n(1) by (rule dadd_ge)
  also have "\<dots> \<le> dadd (dadd g ?fee) ?sl" using dec_rep_ops(1) n(2) by (rule dadd_ge)
  finally show "g \<le> fc_net_amount (buy_costs m g)" by (simp add: buy_costs_def Let_def)
  show "0 \<le> fc_fee (buy_costs m g)" "0 \<le> fc_slippage (buy_costs m g)"
    using n by (simp_all add: buy_costs_def Let_def)
qed (simp_all add: buy_costs_def Let_def)

lemma sell_costs_bounds:
  assumes "rates_ok m" and "0 \<le> g" and "dec_rep g"
  shows "0 \<le> fc_fee (sell_costs m g)" "0 \<le> fc_stamp_tax (sell_costs m g)"
    "0 \<le> fc_slippage (sell_costs m g)" "fc_gross_amount (sell_costs m g) = g"
    "0 \<le> fc_net_amount (sell_costs m g)" "fc_net_amount (sell_costs m g) \<le> g"
proof -
  let ?fee = "dmul g (pm_sell_fee_rate m)" and ?tax = "dmul g (pm_sell_tax_rate m)"
  let ?sl = "dmul g (pm_slippage_rate m)"
  from assms have n: "0 \<le> ?fee" "0 \<le> ?tax" "0 \<le> ?sl" by (auto simp: rates_ok_def dmul_nonneg)
  have "dsub (dsub (dsub g ?fee) ?tax) ?sl \<le> dsub (dsub g ?fee) ?tax"
    using dec_rep_ops(2) n(3) by (rule dsub_le)
  also have "\<dots> \<le> dsub g ?fee" using dec_rep_ops(2) n(2) by (rule dsub_le)
  also have "\<dots> \<le> g" using assms(3) n(1) by (rule dsub_le)
  finally show "fc_net_amount (sell_costs m g) \<le> g"
    using assms(2) by (simp add: sell_costs_def Let_def)
  show "0 \<le> fc_net_amount (sell_costs m g)" by (simp add: sell_costs_def Let_def)
  show "0 \<le> fc_fee (sell_costs m g)" "0 \<le> fc_stamp_tax (sell_costs m g)"
    "0 \<le> fc_slippage (sell_costs m g)"
    using n by (simp_all add: sell_costs_def Let_def)
qed (simp_all add: sell_costs_def Let_def)

lemma costs_nonneg:
  assumes "rates_ok m" and "compute_costs m side p q s = (Inr c, s')"
  shows "0 \<le> fc_gross_amount c" "0 \<le> fc_fee c" "0 \<le> fc_stamp_tax c" "0 \<le> fc_slippage c"
    "0 \<le> fc_net_amount c"
proof -
  note c = compute_costs_Inr [OF assms(2)]
  let ?g = "dmul p (of_int q)"
  have g: "0 \<le> ?g" using c(2,3) by (intro dmul_nonneg) auto
  note b = buy_costs_bounds [OF assms(1) g dec_rep_ops(3)]
  note sl = sell_costs_bounds [OF assms(1) g dec_rep_ops(3)]
  from c(4-6) b sl g
  show "0 \<le> fc_gross_amount c" "0 \<le> fc_fee c" "0 \<le> fc_stamp_tax c" "0 \<le> fc_slippage c"
    "0 \<le> fc_net_amount c"
    by auto
qed

text \<open>
  Trading costs are one-sided: for any cost model with non-negative rates and any price
  and quantity the model accepts, selling never yields more than the gross value of the
  shares, buying never costs less, so buying and selling at the same price never makes
  money; and neither cash amount is ever negative. Rounding to 28 digits does not break it.
\<close>

lemma paper_costs_one_sided:
  assumes "rates_ok m"
    and "compute_costs m ''BUY'' p q s = (Inr cb, s')"
    and "compute_costs m ''SELL'' p q s = (Inr cs, s'')"
  shows "0 \<le> fc_net_amount cs \<and> fc_net_amount cs \<le> fc_gross_amount cs \<and>
    fc_gross_amount cs = fc_gross_amount cb \<and> fc_gross_amount cb \<le> fc_net_amount cb \<and>
    s' = s \<and> s'' = s"
proof -
  note b = compute_costs_Inr [OF assms(2)] and sl = compute_costs_Inr [OF assms(3)]
  let ?g = "dmul p (of_int q)"
  have g: "0 \<le> ?g" using b(2,3) by (intro dmul_nonneg) auto
  have e: "cb = buy_costs m ?g" "cs = sell_costs m ?g" using b(5) sl(6) by simp_all
  show ?thesis
    using buy_costs_bounds(4,5) [OF assms(1) g dec_rep_ops(3)]
      sell_costs_bounds(4-6) [OF assms(1) g dec_rep_ops(3)] b(1) sl(1)
    by (simp add: e)
qed

lemma paper_costs_one_sided_witness:
  "fc_net_amount (sell_costs default_paper_costs (dmul 70000 10)) \<le>
   fc_net_amount (buy_costs default_paper_costs (dmul 70000 10))"
proof -
  have b: "compute_costs default_paper_costs ''BUY'' 70000 10 empty_session =
      (Inr (buy_costs default_paper_costs (dmul 70000 10)), empty_session)"
    by (simp add: compute_costs_ok)
  have s: "compute_costs default_paper_costs ''SELL'' 70000 10 empty_session =
      (Inr (sell_costs default_paper_costs (dmul 70000 10)), empty_session)"
    by (simp add: compute_costs_ok)
  show ?thesis
    using paper_costs_one_sided [OF default_rates_ok b s] by simp
qed

end
