(* ===== verification/Paper_Ledger.thy ===== *)
theory Paper_Ledger
  imports Cost_Model
begin

text \<open>
  The paper-trading ledger: the repositories of virtual accounts, positions, fills, daily
  prices and PnL snapshots (\<^verbatim>\<open>app/data/repositories/virtual_*.py\<close>, \<^verbatim>\<open>daily_prices.py\<close>)
  and the \<open>PnLTracker\<close> of \<^verbatim>\<open>app/paper/pnl_tracker.py\<close> that applies one fill to cash and
  position and writes the daily snapshot.
\<close>

subsection \<open>Accounts\<close>

definition upd_account :: "int \<Rightarrow> (virtual_account \<Rightarrow> virtual_account) \<Rightarrow> unit db" where
  "upd_account i f = smodify (\<lambda>s. s\<lparr>sn_accounts := t_upd va_id i f (sn_accounts s)\<rparr>)"

definition account_get_by_id :: "int \<Rightarrow> virtual_account option db" where
  "account_get_by_id account_id = sgets (\<lambda>s. t_get va_id account_id (sn_accounts s))"

definition account_create ::
  "string \<Rightarrow> dec_arg \<Rightarrow> int option \<Rightarrow> string \<Rightarrow> bool \<Rightarrow> int db" where
  "account_create name initial_cash user_id currency enabled =
     sbind (srequire (name \<noteq> [] \<and> py_strip name \<noteq> [])
              (ValueError [T ''VirtualAccount.name must not be empty''])) (\<lambda>_.
     sbind (dec_of initial_cash) (\<lambda>amount.
     sbind (srequire (\<not> amount < 0) (ValueError [T ''initial_cash must be >= 0''])) (\<lambda>_.
     sbind utc_now (\<lambda>now.
     sbind (sgets (\<lambda>s. t_next va_id (sn_accounts s))) (\<lambda>i.
     sbind (smodify (\<lambda>s. s\<lparr>sn_accounts := sn_accounts s @
              [\<lparr>va_id = i, va_user_id = user_id, va_name = name, va_initial_cash = amount,
                va_cash_balance = amount, va_currency = currency,
                va_paper_trading_enabled = enabled, va_updated_at = now\<rparr>]\<rparr>)) (\<lambda>_.
     sret i))))))"

definition account_list_by_user :: "int option \<Rightarrow> virtual_account list db" where
  "account_list_by_user user_id =
     sgets (\<lambda>s. sort_key va_id (filter (\<lambda>a. va_user_id a = user_id) (sn_accounts s)))"

definition account_get_default :: "int option \<Rightarrow> virtual_account option db" where
  "account_get_default user_id =
     sbind (account_list_by_user user_id) (\<lambda>rows.
     sret (case rows of [] \<Rightarrow> None | a # _ \<Rightarrow> Some a))"

definition update_cash_balance :: "int \<Rightarrow> decimal \<Rightarrow> unit db" where
  "update_cash_balance account_id new_balance =
     sbind (srequire (\<not> new_balance < 0) (ValueError [T ''cash_balance must be >= 0''])) (\<lambda>_.
     sbind utc_now (\<lambda>now.
     upd_account account_id (\<lambda>a. a\<lparr>va_cash_balance := new_balance, va_updated_at := now\<rparr>)))"

definition set_paper_trading_enabled :: "int \<Rightarrow> bool \<Rightarrow> unit db" where
  "set_paper_trading_enabled account_id enabled =
     sbind utc_now (\<lambda>now.
     upd_account account_id (\<lambda>a. a\<lparr>va_paper_trading_enabled := enabled, va_updated_at := now\<rparr>))"

subsection \<open>Daily prices\<close>

definition price_get_by_symbol_date :: "string \<Rightarrow> int \<Rightarrow> daily_price option db" where
  "price_get_by_symbol_date symbol price_date =
     sgets (\<lambda>s. find (\<lambda>p. dp_symbol p = symbol \<and> dp_date p = price_date) (sn_prices s))"

definition price_get_latest_by_symbol :: "string \<Rightarrow> daily_price option db" where
  "price_get_latest_by_symbol symbol =
     sgets (\<lambda>s. latest_by dp_date (filter (\<lambda>p. dp_symbol p = symbol) (sn_prices s)))"

definition price_get_latest_on_or_before :: "string \<Rightarrow> int \<Rightarrow> int \<Rightarrow> daily_price option db" where
  "price_get_latest_on_or_before symbol target_date lookback_days =
     sgets (\<lambda>s. latest_by dp_date (filter (\<lambda>p. dp_symbol p = symbol \<and> dp_date p \<le> target_date \<and>
       target_date - lookback_days \<le> dp_date p) (sn_prices s)))"

definition price_list_in_range :: "string \<Rightarrow> int \<Rightarrow> int \<Rightarrow> daily_price list db" where
  "price_list_in_range symbol start_date end_date =
     sgets (\<lambda>s. sort_key dp_date (filter (\<lambda>p. dp_symbol p = symbol \<and> start_date \<le> dp_date p \<and>
       dp_date p \<le> end_date) (sn_prices s)))"

definition price_list_by_symbol :: "string \<Rightarrow> nat option \<Rightarrow> daily_price list db" where
  "price_list_by_symbol symbol limit =
     sgets (\<lambda>s. let rows = sort_key dp_date (filter (\<lambda>p. dp_symbol p = symbol) (sn_prices s))
       in case limit of None \<Rightarrow> rows | Some n \<Rightarrow> rev (take n (rev rows)))"

definition price_upsert :: "daily_price \<Rightarrow> unit db" where
  "price_upsert bar =
     sbind (price_get_by_symbol_date (dp_symbol bar) (dp_date bar)) (\<lambda>existing.
     case existing of
       None \<Rightarrow> smodify (\<lambda>s. s\<lparr>sn_prices := sn_prices s @ [bar]\<rparr>)
     | Some _ \<Rightarrow> smodify (\<lambda>s. s\<lparr>sn_prices := map (\<lambda>p.
         if dp_symbol p = dp_symbol bar \<and> dp_date p = dp_date bar then bar else p) (sn_prices s)\<rparr>))"

subsection \<open>Positions\<close>

definition upd_position :: "int \<Rightarrow> (virtual_position \<Rightarrow> virtual_position) \<Rightarrow> unit db" where
  "upd_position i f = smodify (\<lambda>s. s\<lparr>sn_positions := t_upd vp_id i f (sn_positions s)\<rparr>)"

definition find_position :: "int \<Rightarrow> string \<Rightarrow> virtual_position list \<Rightarrow> virtual_position option" where
  "find_position account_id symbol ps =
     find (\<lambda>p. vp_account_id p = account_id \<and> vp_symbol p = symbol) ps"

definition position_get :: "int \<Rightarrow> string \<Rightarrow> virtual_position option db" where
  "position_get account_id symbol = sgets (\<lambda>s. find_position account_id symbol (sn_positions s))"

definition position_list_by_account :: "int \<Rightarrow> virtual_position list db" where
  "position_list_by_account account_id =
     sgets (\<lambda>s. sort_key vp_symbol (filter (\<lambda>p. vp_account_id p = account_id) (sn_positions s)))"

definition position_list_open :: "int \<Rightarrow> virtual_position list db" where
  "position_list_open account_id =
     sgets (\<lambda>s. sort_key vp_symbol
       (filter (\<lambda>p. vp_account_id p = account_id \<and> 0 < vp_quantity p) (sn_positions s)))"

definition position_get_or_create :: "int \<Rightarrow> string \<Rightarrow> int db" where
  "position_get_or_create account_id symbol =
     sbind (position_get account_id symbol) (\<lambda>existing.
     case existing of
       Some p \<Rightarrow> sret (vp_id p)
     | None \<Rightarrow>
         sbind utc_now (\<lambda>now.
         sbind (sgets (\<lambda>s. t_next vp_id (sn_positions s))) (\<lambda>i.
         sbind (smodify (\<lambda>s. s\<lparr>sn_positions := sn_positions s @
                  [\<lparr>vp_id = i, vp_account_id = account_id, vp_symbol = symbol, vp_quantity = 0,
                    vp_avg_cost = 0, vp_realized_pnl = 0, vp_updated_at = now\<rparr>]\<rparr>)) (\<lambda>_.
         sret i))))"

definition upsert_position :: "int \<Rightarrow> string \<Rightarrow> int \<Rightarrow> decimal \<Rightarrow> decimal \<Rightarrow> int db" where
  "upsert_position account_id symbol quantity avg_cost realized_pnl_delta =
     sbind (srequire (\<not> quantity < 0) (ValueError [T ''quantity must be >= 0''])) (\<lambda>_.
     sbind (position_get_or_create account_id symbol) (\<lambda>i.
     sbind utc_now (\<lambda>now.
     sbind (upd_position i (\<lambda>p. p\<lparr>vp_quantity := quantity,
              vp_avg_cost := (if 0 < quantity then avg_cost else 0),
              vp_realized_pnl := dadd (vp_realized_pnl p) realized_pnl_delta,
              vp_updated_at := now\<rparr>)) (\<lambda>_.
     sret i))))"

definition update_realized_pnl :: "int \<Rightarrow> decimal \<Rightarrow> unit db" where
  "update_realized_pnl i delta =
     sbind utc_now (\<lambda>now.
     upd_position i (\<lambda>p. p\<lparr>vp_realized_pnl := dadd (vp_realized_pnl p) delta, vp_updated_at := now\<rparr>))"

definition apply_buy :: "int \<Rightarrow> string \<Rightarrow> int \<Rightarrow> decimal \<Rightarrow> decimal \<Rightarrow> int db" where
  "apply_buy account_id symbol fill_quantity fill_price cash_spent =
     sbind (srequire (0 < fill_quantity) (ValueError [T ''fill_quantity must be > 0''])) (\<lambda>_.
     sbind (srequire (0 < fill_price) (ValueError [T ''fill_price must be > 0''])) (\<lambda>_.
     sbind (srequire (\<not> cash_spent < 0) (ValueError [T ''cash_spent must be >= 0''])) (\<lambda>_.
     sbind (position_get_or_create account_id symbol) (\<lambda>i.
     sbind (row_of sn_positions vp_id i) (\<lambda>p.
     sbind utc_now (\<lambda>now.
     let prev_qty = vp_quantity p; prev_avg = vp_avg_cost p;
         new_qty = prev_qty + fill_quantity;
         new_total_cost = dadd (dmul prev_avg (of_int prev_qty)) cash_spent
     in sbind (upd_position i (\<lambda>p. p\<lparr>vp_quantity := new_qty\<rparr>)) (\<lambda>_.
        sbind (srequire (new_qty \<noteq> 0) DivisionByZero) (\<lambda>_.
        sbind (upd_position i (\<lambda>p. p\<lparr>vp_avg_cost := ddiv new_total_cost (of_int new_qty),
                 vp_updated_at := now\<rparr>)) (\<lambda>_.
        sret i)))))))))"

definition insufficient_position :: "int \<Rightarrow> string \<Rightarrow> int \<Rightarrow> py_error" where
  "insufficient_position fill_quantity symbol held =
     InsufficientPositionError [T (''cannot sell '' @ str_of_int fill_quantity @ '' of '' @
       py_repr symbol @ '' -- held '' @ str_of_int held)]"

definition apply_sell :: "int \<Rightarrow> string \<Rightarrow> int \<Rightarrow> decimal \<Rightarrow> (int \<times> decimal) db" where
  "apply_sell account_id symbol fill_quantity cash_received =
     sbind (srequire (0 < fill_quantity) (ValueError [T ''fill_quantity must be > 0''])) (\<lambda>_.
     sbind (srequire (\<not> cash_received < 0) (ValueError [T ''cash_received must be >= 0''])) (\<lambda>_.
     sbind (position_get account_id symbol) (\<lambda>position.
     case position of
       None \<Rightarrow> sthrow (insufficient_position fill_quantity symbol 0)
     | Some p \<Rightarrow>
         if vp_quantity p < fill_quantity
         then sthrow (insufficient_position fill_quantity symbol (vp_quantity p))
         else
           sbind utc_now (\<lambda>now.
           let cost_basis = dmul (vp_avg_cost p) (of_int fill_quantity);
               realized_pnl_delta = dsub cash_received cost_basis;
               new_qty = vp_quantity p - fill_quantity
           in sbind (upd_position (vp_id p) (\<lambda>p. p\<lparr>vp_quantity := new_qty,
                       vp_avg_cost := (if new_qty = 0 then 0 else vp_avg_cost p),
                       vp_realized_pnl := dadd (vp_realized_pnl p) realized_pnl_delta,
                       vp_updated_at := now\<rparr>)) (\<lambda>_.
              sret (vp_id p, realized_pnl_delta))))))"

subsection \<open>Fills\<close>

definition vfill_create ::
  "int \<Rightarrow> int \<Rightarrow> string \<Rightarrow> string \<Rightarrow> int \<Rightarrow> decimal \<Rightarrow> fill_costs \<Rightarrow> int option \<Rightarrow> int db" where
  "vfill_create order_id account_id symbol side quantity fill_price costs filled_at =
     sbind (srequire (side \<in> set [''BUY'', ''SELL'']) (ValueError [T ''side must be BUY or SELL''])) (\<lambda>_.
     sbind (srequire (0 < quantity) (ValueError [T ''quantity must be > 0''])) (\<lambda>_.
     sbind (srequire (0 < fill_price) (ValueError [T ''fill_price must be > 0''])) (\<lambda>_.
     sbind (srequire (list_all (\<lambda>amount. \<not> amount < 0)
              [fc_fee costs, fc_stamp_tax costs, fc_slippage costs, fc_gross_amount costs,
               fc_net_amount costs])
              (ValueError [T ''cost / amount fields must be >= 0''])) (\<lambda>_.
     sbind utc_now (\<lambda>now.
     sbind (sgets (\<lambda>s. t_next vf_id (sn_fills s))) (\<lambda>i.
     sbind (smodify (\<lambda>s. s\<lparr>sn_fills := sn_fills s @
              [\<lparr>vf_id = i, vf_order_id = order_id, vf_account_id = account_id, vf_symbol = symbol,
                vf_side = side, vf_quantity = quantity, vf_fill_price = fill_price,
                vf_fee = fc_fee costs, vf_stamp_tax = fc_stamp_tax costs,
                vf_slippage = fc_slippage costs, vf_gross_amount = fc_gross_amount costs,
                vf_net_amount = fc_net_amount costs,
                vf_filled_at = (case filled_at of None \<Rightarrow> now | Some t \<Rightarrow> t)\<rparr>]\<rparr>)) (\<lambda>_.
     sret i)))))))"

definition vfill_list_by_order :: "int \<Rightarrow> virtual_fill list db" where
  "vfill_list_by_order order_id =
     sgets (\<lambda>s. sort_key vf_id (filter (\<lambda>f. vf_order_id f = order_id) (sn_fills s)))"

definition vfill_list_by_account :: "int \<Rightarrow> nat \<Rightarrow> virtual_fill list db" where
  "vfill_list_by_account account_id limit =
     sgets (\<lambda>s. take limit (rev (sort_key vf_id (filter (\<lambda>f. vf_account_id f = account_id) (sn_fills s)))))"

subsection \<open>Snapshots\<close>

definition snapshot_get_by_account_date :: "int \<Rightarrow> int \<Rightarrow> pnl_snapshot option db" where
  "snapshot_get_by_account_date account_id snapshot_date =
     sgets (\<lambda>s. find (\<lambda>v. vs_account_id v = account_id \<and> vs_snapshot_date v = snapshot_date)
       (sn_snapshots s))"

definition snapshot_list_by_account ::
  "int \<Rightarrow> int option \<Rightarrow> int option \<Rightarrow> nat \<Rightarrow> pnl_snapshot list db" where
  "snapshot_list_by_account account_id from_date to_date limit =
     sgets (\<lambda>s. take limit (sort_key vs_snapshot_date (filter (\<lambda>v. vs_account_id v = account_id \<and>
       (case from_date of None \<Rightarrow> True | Some d \<Rightarrow> d \<le> vs_snapshot_date v) \<and>
       (case to_date of None \<Rightarrow> True | Some d \<Rightarrow> vs_snapshot_date v \<le> d)) (sn_snapshots s))))"

definition create_or_replace_snapshot ::
  "int \<Rightarrow> int \<Rightarrow> decimal \<Rightarrow> decimal \<Rightarrow> decimal \<Rightarrow> decimal \<Rightarrow> int db" where
  "create_or_replace_snapshot account_id snapshot_date cash market realized unrealized =
     sbind utc_now (\<lambda>now.
     sbind (snapshot_get_by_account_date account_id snapshot_date) (\<lambda>existing.
     let total_value = dadd cash market
     in case existing of
          None \<Rightarrow>
            sbind (sgets (\<lambda>s. t_next vs_id (sn_snapshots s))) (\<lambda>i.
            sbind (smodify (\<lambda>s. s\<lparr>sn_snapshots := sn_snapshots s @
                     [\<lparr>vs_id = i, vs_account_id = account_id, vs_snapshot_date = snapshot_date,
                       vs_cash_balance = cash, vs_market_value = market, vs_total_value = total_value,
                       vs_realized_pnl = realized, vs_unrealized_pnl = unrealized,
                       vs_updated_at = now\<rparr>]\<rparr>)) (\<lambda>_.
            sret i))
        | Some v \<Rightarrow>
            sbind (smodify (\<lambda>s. s\<lparr>sn_snapshots := t_upd vs_id (vs_id v) (\<lambda>v. v\<lparr>
                     vs_cash_balance := cash, vs_market_value := market,
                     vs_total_value := total_value, vs_realized_pnl := realized,
                     vs_unrealized_pnl := unrealized, vs_updated_at := now\<rparr>) (sn_snapshots s)\<rparr>)) (\<lambda>_.
            sret (vs_id v))))"

subsection \<open>PnLTracker\<close>

record fill_result =
  fr_fill_id :: int
  fr_position_id :: int
  fr_account_id :: int
  fr_costs :: fill_costs
  fr_realized_pnl_delta :: decimal

definition insufficient_cash :: "int \<Rightarrow> string \<Rightarrow> decimal \<Rightarrow> decimal \<Rightarrow> py_error" where
  "insufficient_cash quantity symbol net cash =
     InsufficientCashError [T (''BUY of '' @ str_of_int quantity @ '' '' @ symbol @ '' requires ''), D net,
       T '' cash; account has '', D cash]"

definition account_not_found :: "int \<Rightarrow> text_t" where
  "account_not_found account_id = [T (''VirtualAccount id='' @ str_of_int account_id @ '' not found'')]"

definition apply_fill ::
  "paper_cost_model \<Rightarrow> int \<Rightarrow> int \<Rightarrow> string \<Rightarrow> string \<Rightarrow> int \<Rightarrow> decimal \<Rightarrow> int option \<Rightarrow> fill_result db" where
  "apply_fill cost_model order_id account_id symbol side quantity fill_price filled_at =
     sbind (srequire (side \<in> set [''BUY'', ''SELL'']) (ValueError [T ''side must be BUY or SELL''])) (\<lambda>_.
     sbind (srequire (0 < quantity) (ValueError [T ''quantity must be > 0''])) (\<lambda>_.
     sbind (srequire (0 < fill_price) (ValueError [T ''fill_price must be > 0''])) (\<lambda>_.
     sbind (account_get_by_id account_id) (\<lambda>account.
     case account of
       None \<Rightarrow> sthrow (ValueError (account_not_found account_id))
     | Some a \<Rightarrow>
       sbind (compute_costs cost_model side fill_price quantity) (\<lambda>costs.
       sbind
         (if side = ''BUY'' then
            (if va_cash_balance a < fc_net_amount costs
             then sthrow (insufficient_cash quantity symbol (fc_net_amount costs) (va_cash_balance a))
             else
               sbind (update_cash_balance account_id
                        (dsub (va_cash_balance a) (fc_net_amount costs))) (\<lambda>_.
               sbind (apply_buy account_id symbol quantity fill_price (fc_net_amount costs)) (\<lambda>i.
               sret (i, 0))))
          else
            sbind (apply_sell account_id symbol quantity (fc_net_amount costs)) (\<lambda>r.
            sbind (update_cash_balance account_id
                     (dadd (va_cash_balance a) (fc_net_amount costs))) (\<lambda>_.
            sret r)))
         (\<lambda>r.
       sbind (vfill_create order_id account_id symbol side quantity fill_price costs filled_at) (\<lambda>fid.
       sret \<lparr>fr_fill_id = fid, fr_position_id = fst r, fr_account_id = account_id,
             fr_costs = costs, fr_realized_pnl_delta = snd r\<rparr>)))))))"

text \<open>The running totals of the snapshot loop: market value, unrealized and realized PnL.\<close>

definition snapshot_step ::
  "int \<Rightarrow> int \<Rightarrow> virtual_position \<Rightarrow> decimal \<times> decimal \<times> decimal \<Rightarrow> (decimal \<times> decimal \<times> decimal) db" where
  "snapshot_step snapshot_date price_lookback_days pos totals =
     (case totals of (market_value, unrealized_pnl, realized_total) \<Rightarrow>
      let realized_total = dadd realized_total (vp_realized_pnl pos)
      in if vp_quantity pos \<le> 0 then sret (market_value, unrealized_pnl, realized_total)
         else
           sbind (price_get_latest_on_or_before (vp_symbol pos) snapshot_date price_lookback_days) (\<lambda>bar.
           case bar of
             None \<Rightarrow> sret (market_value, unrealized_pnl, realized_total)
           | Some b \<Rightarrow>
               let symbol_market_value = dmul (dp_close b) (of_int (vp_quantity pos));
                   symbol_cost_basis = dmul (vp_avg_cost pos) (of_int (vp_quantity pos))
               in sret (dadd market_value symbol_market_value,
                        dadd unrealized_pnl (dsub symbol_market_value symbol_cost_basis),
                        realized_total)))"

definition create_daily_pnl_snapshot :: "int \<Rightarrow> int \<Rightarrow> int \<Rightarrow> int db" where
  "create_daily_pnl_snapshot account_id snapshot_date price_lookback_days =
     sbind (account_get_by_id account_id) (\<lambda>account.
     case account of
       None \<Rightarrow> sthrow (ValueError (account_not_found account_id))
     | Some a \<Rightarrow>
         sbind (position_list_by_account account_id) (\<lambda>positions.
         sbind (sfold (snapshot_step snapshot_date price_lookback_days) positions (0, 0, 0)) (\<lambda>totals.
         case totals of (market_value, unrealized_pnl, realized_total) \<Rightarrow>
         create_or_replace_snapshot account_id snapshot_date (va_cash_balance a) market_value
           realized_total unrealized_pnl)))"

end
