(* ===== verification/Order_Candidates.thy ===== *)
theory Order_Candidates
  imports Paper_Ledger
begin

text \<open>
  The staging rows of the approval workflow and their state machine,
  \<^verbatim>\<open>app/data/repositories/order_candidate.py\<close>. A candidate is passed by its key; the status
  changes go through \<open>update_status\<close>, which follows the table \<open>allowed_transitions\<close>.
\<close>

subsection \<open>Constants\<close>

definition oc_valid_sources :: "string list" where
  "oc_valid_sources = [''MANUAL'', ''PAPER'', ''RECOMMENDATION'', ''STRATEGY'']"

definition oc_valid_sides :: "string list" where
  "oc_valid_sides = [''BUY'', ''SELL'']"

definition oc_valid_order_types :: "string list" where
  "oc_valid_order_types = [''LIMIT'', ''MARKET'']"

definition oc_valid_statuses :: "string list" where
  "oc_valid_statuses = [''APPROVED'', ''DRAFT'', ''EXECUTED_PAPER'', ''EXPIRED'', ''PENDING_APPROVAL'',
     ''REJECTED'', ''RISK_CHECKING'', ''RISK_REJECTED'']"

definition oc_terminal_statuses :: "string list" where
  "oc_terminal_statuses = [''EXECUTED_PAPER'', ''EXPIRED'', ''REJECTED'', ''RISK_REJECTED'']"

text \<open>The sorted value set of \<open>_ALLOWED_TRANSITIONS.get(prev, frozenset())\<close>.\<close>

definition allowed_transitions :: "string \<Rightarrow> string list" where
  "allowed_transitions prev =
     (if prev = ''DRAFT'' then [''RISK_CHECKING'']
      else if prev = ''RISK_CHECKING'' then [''PENDING_APPROVAL'', ''RISK_REJECTED'']
      else if prev = ''PENDING_APPROVAL'' then [''APPROVED'', ''EXPIRED'', ''REJECTED'']
      else if prev = ''APPROVED'' then [''EXECUTED_PAPER'']
      else [])"

subsection \<open>Text that may be empty\<close>

text \<open>\<open>reason[:256] if reason else None\<close>.\<close>

fun chunk_empty :: "chunk \<Rightarrow> bool" where
  "chunk_empty (T s) = (s = [])"
| "chunk_empty (D x) = False"
| "chunk_empty (D6 x) = False"
| "chunk_empty (Cut n t) = (n = 0 \<or> list_all chunk_empty t)"

definition cut_reason :: "text_t \<Rightarrow> text_t option" where
  "cut_reason reason = (if list_all chunk_empty reason then None else Some [Cut 256 reason])"

subsection \<open>Operations\<close>

definition upd_candidate :: "int \<Rightarrow> (order_candidate \<Rightarrow> order_candidate) \<Rightarrow> unit db" where
  "upd_candidate i f = smodify (\<lambda>s. s\<lparr>sn_candidates := t_upd oc_id i f (sn_candidates s)\<rparr>)"

definition got :: "string \<Rightarrow> string" where
  "got v = '' (got '' @ py_repr v @ '')''"

definition candidate_limit :: "string \<Rightarrow> dec_arg option \<Rightarrow> decimal option db" where
  "candidate_limit order_type limit_price =
     (if order_type = ''LIMIT'' then
        (case limit_price of
           None \<Rightarrow> sthrow (OrderCandidateValidationError [T ''LIMIT order requires limit_price''])
         | Some x \<Rightarrow>
             sbind (dec_of x) (\<lambda>normalized.
             sbind (srequire (\<not> normalized \<le> 0)
               (OrderCandidateValidationError [T ''limit_price must be > 0''])) (\<lambda>_.
             sret (Some normalized))))
      else sret None)"

definition candidate_create ::
  "int \<Rightarrow> string \<Rightarrow> string \<Rightarrow> string \<Rightarrow> int_arg \<Rightarrow> string \<Rightarrow> dec_arg option \<Rightarrow> dec_arg \<Rightarrow>
   int option \<Rightarrow> int option \<Rightarrow> string \<Rightarrow> int db" where
  "candidate_create account_id source symbol side quantity order_type limit_price estimated_amount
     source_ref_id expires_at status =
     sbind (srequire (source \<in> set oc_valid_sources) (OrderCandidateValidationError
       [T (''source must be one of '' @ py_list_repr oc_valid_sources @ got source)])) (\<lambda>_.
     sbind (srequire (side \<in> set oc_valid_sides) (OrderCandidateValidationError
       [T (''side must be one of '' @ py_list_repr oc_valid_sides @ got side)])) (\<lambda>_.
     sbind (srequire (order_type \<in> set oc_valid_order_types) (OrderCandidateValidationError
       [T (''order_type must be one of '' @ py_list_repr oc_valid_order_types @ got order_type)])) (\<lambda>_.
     sbind (srequire (status \<in> set oc_valid_statuses) (OrderCandidateValidationError
       [T (''status must be one of '' @ py_list_repr oc_valid_statuses @ got status)])) (\<lambda>_.
     case quantity of
       PyBool _ \<Rightarrow> sthrow (OrderCandidateValidationError [T ''quantity must be a positive integer''])
     | PyOther \<Rightarrow> sthrow (OrderCandidateValidationError [T ''quantity must be a positive integer''])
     | PyInt q \<Rightarrow>
     sbind (srequire (\<not> q \<le> 0) (OrderCandidateValidationError [T ''quantity must be > 0''])) (\<lambda>_.
     sbind (srequire (symbol \<noteq> [] \<and> py_strip symbol \<noteq> [])
       (OrderCandidateValidationError [T ''symbol must be non-empty''])) (\<lambda>_.
     sbind (candidate_limit order_type limit_price) (\<lambda>normalized_limit.
     sbind (dec_of estimated_amount) (\<lambda>amount.
     sbind (srequire (\<not> amount < 0)
       (OrderCandidateValidationError [T ''estimated_amount must be >= 0''])) (\<lambda>_.
     sbind utc_now (\<lambda>now.
     sbind (sgets (\<lambda>s. t_next oc_id (sn_candidates s))) (\<lambda>i.
     sbind (smodify (\<lambda>s. s\<lparr>sn_candidates := sn_candidates s @
              [\<lparr>oc_id = i, oc_account_id = account_id, oc_source = source,
                oc_source_ref_id = source_ref_id, oc_symbol = py_upper (py_strip symbol),
                oc_side = side, oc_quantity = q, oc_order_type = order_type,
                oc_limit_price = normalized_limit, oc_estimated_amount = amount,
                oc_status = status, oc_risk_check_result = None, oc_approver_user_id = None,
                oc_rejection_reason = None, oc_expires_at = expires_at,
                oc_virtual_order_id = None, oc_created_at = now, oc_updated_at = now\<rparr>]\<rparr>)) (\<lambda>_.
     sret i))))))))))))"

definition candidate_get_by_id :: "int \<Rightarrow> order_candidate option db" where
  "candidate_get_by_id candidate_id = sgets (\<lambda>s. t_get oc_id candidate_id (sn_candidates s))"

definition candidate_list_by_account :: "int \<Rightarrow> string option \<Rightarrow> nat \<Rightarrow> order_candidate list db" where
  "candidate_list_by_account account_id status limit =
     sgets (\<lambda>s. take limit (rev (sort_key oc_id (filter (\<lambda>c. oc_account_id c = account_id \<and>
       (case status of None \<Rightarrow> True | Some st \<Rightarrow> oc_status c = st)) (sn_candidates s)))))"

definition candidate_list_by_status :: "string \<Rightarrow> nat \<Rightarrow> order_candidate list db" where
  "candidate_list_by_status status limit =
     sbind (srequire (status \<in> set oc_valid_statuses) (OrderCandidateValidationError
       [T (''status must be one of '' @ py_list_repr oc_valid_statuses)])) (\<lambda>_.
     sgets (\<lambda>s. take limit (rev (sort_key oc_id (filter (\<lambda>c. oc_status c = status) (sn_candidates s))))))"

definition candidate_list_pending :: "nat \<Rightarrow> order_candidate list db" where
  "candidate_list_pending limit = candidate_list_by_status ''PENDING_APPROVAL'' limit"

definition list_expired_pending :: "int option \<Rightarrow> nat \<Rightarrow> order_candidate list db" where
  "list_expired_pending now limit =
     sbind (case now of None \<Rightarrow> utc_now | Some t \<Rightarrow> sret t) (\<lambda>threshold.
     sgets (\<lambda>s. take limit (sort_key oc_id (filter (\<lambda>c. oc_status c = ''PENDING_APPROVAL'' \<and>
       (case oc_expires_at c of None \<Rightarrow> False | Some t \<Rightarrow> t \<le> threshold)) (sn_candidates s)))))"

definition candidate_update_status ::
  "int \<Rightarrow> string \<Rightarrow> text_t option \<Rightarrow> int option \<Rightarrow> unit db" where
  "candidate_update_status i new_status rejection_reason approver_user_id =
     sbind (srequire (new_status \<in> set oc_valid_statuses) (OrderCandidateValidationError
       [T (''status must be one of '' @ py_list_repr oc_valid_statuses @ got new_status)])) (\<lambda>_.
     sbind (row_of sn_candidates oc_id i) (\<lambda>c.
     let allowed = allowed_transitions (oc_status c)
     in sbind (srequire (new_status \<in> set allowed) (InvalidOrderCandidateTransition
          [T (''cannot transition OrderCandidate id='' @ str_of_int i @ '' from '' @
            py_repr (oc_status c) @ '' to '' @ py_repr new_status @ ''; allowed next: '' @
            py_list_repr allowed)])) (\<lambda>_.
        sbind utc_now (\<lambda>now.
        upd_candidate i (\<lambda>c. c\<lparr>oc_status := new_status,
          oc_rejection_reason := (case rejection_reason of None \<Rightarrow> oc_rejection_reason c | Some r \<Rightarrow> Some r),
          oc_approver_user_id := (case approver_user_id of None \<Rightarrow> oc_approver_user_id c | Some u \<Rightarrow> Some u),
          oc_updated_at := now\<rparr>)))))"

definition attach_risk_result :: "int \<Rightarrow> risk_result \<Rightarrow> unit db" where
  "attach_risk_result i result =
     sbind utc_now (\<lambda>now.
     upd_candidate i (\<lambda>c. c\<lparr>oc_risk_check_result := Some result, oc_updated_at := now\<rparr>))"

definition attach_virtual_order :: "int \<Rightarrow> int \<Rightarrow> unit db" where
  "attach_virtual_order i virtual_order_id =
     sbind (row_of sn_candidates oc_id i) (\<lambda>c.
     sbind (case oc_virtual_order_id c of
         None \<Rightarrow> sret ()
       | Some v \<Rightarrow> srequire (\<not> v \<noteq> virtual_order_id) (InvalidOrderCandidateTransition
           [T (''OrderCandidate id='' @ str_of_int i @ '' already linked to virtual_order_id='' @
             str_of_int v @ ''; refusing to overwrite with '' @ str_of_int virtual_order_id)])) (\<lambda>_.
     sbind utc_now (\<lambda>now.
     upd_candidate i (\<lambda>c. c\<lparr>oc_virtual_order_id := Some virtual_order_id, oc_updated_at := now\<rparr>))))"

definition candidate_approve :: "int \<Rightarrow> int \<Rightarrow> unit db" where
  "candidate_approve i approver_user_id =
     candidate_update_status i ''APPROVED'' None (Some approver_user_id)"

definition candidate_reject :: "int \<Rightarrow> int \<Rightarrow> text_t \<Rightarrow> unit db" where
  "candidate_reject i approver_user_id reason =
     candidate_update_status i ''REJECTED'' (cut_reason reason) (Some approver_user_id)"

definition candidate_expire :: "int \<Rightarrow> unit db" where
  "candidate_expire i = candidate_update_status i ''EXPIRED'' (Some [T ''ttl_expired'']) None"

subsection \<open>Status machines\<close>

text \<open>A table of allowed transitions with a rank that every transition lowers: no status
  comes back, and a status without successors is final.\<close>

locale status_machine =
  fixes allowed :: "string \<Rightarrow> string list" and rank :: "string \<Rightarrow> nat"
  assumes rank_less: "t \<in> set (allowed s) \<Longrightarrow> rank t < rank s"
begin

lemma path_rank: "(\<lambda>s t. t \<in> set (allowed s))\<^sup>*\<^sup>* s t \<Longrightarrow> s = t \<or> rank t < rank s"
  by (induction rule: rtranclp_induct) (auto dest: rank_less)

lemma path_antisym:
  "(\<lambda>s t. t \<in> set (allowed s))\<^sup>*\<^sup>* s t \<Longrightarrow> (\<lambda>s t. t \<in> set (allowed s))\<^sup>*\<^sup>* t s \<Longrightarrow> s = t"
  using path_rank [of s t] path_rank [of t s] by auto

lemma path_final: "allowed s = [] \<Longrightarrow> (\<lambda>s t. t \<in> set (allowed s))\<^sup>*\<^sup>* s t \<Longrightarrow> t = s"
  by (auto elim: converse_rtranclpE)

end

definition candidate_rank :: "string \<Rightarrow> nat" where
  "candidate_rank st = (if st = ''DRAFT'' then 4 else if st = ''RISK_CHECKING'' then 3
     else if st = ''PENDING_APPROVAL'' then 2 else if st = ''APPROVED'' then 1 else 0)"

interpretation cand: status_machine allowed_transitions candidate_rank
  by unfold_locales (auto simp: allowed_transitions_def candidate_rank_def split: if_splits)

definition status_path :: "string \<Rightarrow> string \<Rightarrow> bool" where
  "status_path = (\<lambda>s t. t \<in> set (allowed_transitions s))\<^sup>*\<^sup>*"

subsection \<open>How candidates evolve\<close>

text \<open>What never changes in a candidate, and how the rest may change.\<close>

definition same_request :: "order_candidate \<Rightarrow> order_candidate \<Rightarrow> bool" where
  "same_request c d \<longleftrightarrow> oc_id d = oc_id c \<and> oc_account_id d = oc_account_id c \<and>
     oc_source d = oc_source c \<and> oc_source_ref_id d = oc_source_ref_id c \<and>
     oc_symbol d = oc_symbol c \<and> oc_side d = oc_side c \<and> oc_quantity d = oc_quantity c \<and>
     oc_order_type d = oc_order_type c \<and> oc_limit_price d = oc_limit_price c \<and>
     oc_estimated_amount d = oc_estimated_amount c \<and> oc_expires_at d = oc_expires_at c \<and>
     oc_created_at d = oc_created_at c"

definition evolves :: "order_candidate \<Rightarrow> order_candidate \<Rightarrow> bool" where
  "evolves c d \<longleftrightarrow> same_request c d \<and> status_path (oc_status c) (oc_status d) \<and>
     (oc_virtual_order_id c \<noteq> None \<longrightarrow> oc_virtual_order_id d = oc_virtual_order_id c)"

lemma evolves_refl [simp]: "evolves c c"
  by (simp add: evolves_def same_request_def status_path_def)

lemma evolves_trans: "evolves c d \<Longrightarrow> evolves d e \<Longrightarrow> evolves c e"
  unfolding evolves_def same_request_def status_path_def by (auto intro: rtranclp_trans)

definition cands_evolve :: "session \<Rightarrow> session \<Rightarrow> bool" where
  "cands_evolve s t \<longleftrightarrow> (\<exists>old new. sn_candidates t = old @ new \<and> list_all2 evolves (sn_candidates s) old)"

interpretation ce: step_relation cands_evolve
proof
  show "cands_evolve s s" for s
    unfolding cands_evolve_def by (intro exI [of _ "sn_candidates s"] exI [of _ "[]"])
      (simp add: list.rel_refl)
next
  fix s t u
  assume "cands_evolve s t" "cands_evolve t u"
  then obtain o1 n1 o2 n2 where a: "sn_candidates t = o1 @ n1" "list_all2 evolves (sn_candidates s) o1"
    "sn_candidates u = o2 @ n2" "list_all2 evolves (o1 @ n1) o2"
    by (auto simp: cands_evolve_def)
  from a(4) obtain p q where pq: "o2 = p @ q" "list_all2 evolves o1 p"
    by (auto simp: list_all2_append1)
  have "list_all2 evolves (sn_candidates s) p"
    using a(2) pq(2) by (rule list_all2_trans [rotated]) (rule evolves_trans)
  with a(3) pq(1) show "cands_evolve s u" by (auto simp: cands_evolve_def)
qed

lemma evolve_upd:
  assumes "\<And>c. c \<in> set (sn_candidates s) \<Longrightarrow> oc_id c = i \<Longrightarrow> evolves c (f c)"
  shows "cands_evolve s (s\<lparr>sn_candidates := t_upd oc_id i f (sn_candidates s)\<rparr>)"
proof -
  have "list_all2 evolves (sn_candidates s) (t_upd oc_id i f (sn_candidates s))"
    using assms by (auto simp: t_upd_def list_all2_conv_all_nth)
  then show ?thesis by (auto simp: cands_evolve_def intro: exI [of _ "[]"])
qed

lemma evolve_same: "sn_candidates t = sn_candidates s \<Longrightarrow> cands_evolve s t"
  using ce.R_refl [of s] by (simp add: cands_evolve_def)

end
