(* ===== verification/Real_Orders.thy ===== *)
theory Real_Orders
  imports Order_Candidates
begin

text \<open>
  The rows of real orders and their fills, \<^verbatim>\<open>app/data/repositories/real_order.py\<close> and
  \<^verbatim>\<open>real_fill.py\<close>. An order is passed by its key. The repository only refuses to leave a
  terminal status; which transitions the services make is the table \<open>real_next\<close> below.
\<close>

subsection \<open>Constants\<close>

definition ro_valid_sides :: "string list" where
  "ro_valid_sides = [''BUY'', ''SELL'']"

definition ro_valid_order_types :: "string list" where
  "ro_valid_order_types = [''LIMIT'', ''MARKET'']"

definition ro_valid_statuses :: "string list" where
  "ro_valid_statuses = [''CANCELED'', ''CREATED'', ''DRY_RUN'', ''FAILED'', ''FILLED'', ''PARTIALLY_FILLED'',
     ''REJECTED'', ''SUBMITTED'']"

definition ro_terminal_statuses :: "string list" where
  "ro_terminal_statuses = [''CANCELED'', ''DRY_RUN'', ''FAILED'', ''FILLED'', ''REJECTED'']"

definition rf_valid_fill_statuses :: "string list" where
  "rf_valid_fill_statuses = [''FULL'', ''PARTIAL'']"

definition non_failed_statuses :: "string list" where
  "non_failed_statuses = [''CREATED'', ''DRY_RUN'', ''FILLED'', ''PARTIALLY_FILLED'', ''SUBMITTED'']"

text \<open>The set of sensitive substrings, listed in the order in which it is searched.\<close>

definition sensitive_substrings :: "string list" where
  "sensitive_substrings = [''api_key'', ''appsecret'', ''secretkey'', ''access_token'', ''authorization'', ''account_no'']"

definition check_error_message :: "string \<Rightarrow> unit db" where
  "check_error_message message =
     (case filter (\<lambda>p. py_contains p (py_lower message)) sensitive_substrings of
        [] \<Rightarrow> sret ()
      | p # _ \<Rightarrow> sthrow (ValueError [T (''error_message must not contain sensitive substring '' @ py_repr p)]))"

subsection \<open>Orders\<close>

definition upd_rorder :: "int \<Rightarrow> (real_order \<Rightarrow> real_order) \<Rightarrow> unit db" where
  "upd_rorder i f = smodify (\<lambda>s. s\<lparr>sn_real_orders := t_upd ro_id i f (sn_real_orders s)\<rparr>)"

definition rorder_create ::
  "int \<Rightarrow> string \<Rightarrow> string \<Rightarrow> int \<Rightarrow> string \<Rightarrow> decimal option \<Rightarrow> decimal \<Rightarrow> bool \<Rightarrow>
   string option \<Rightarrow> string option \<Rightarrow> string \<Rightarrow> int db" where
  "rorder_create candidate_id symbol side quantity order_type limit_price estimated_amount dry_run
     fake_order_no request_id status =
     sbind (srequire (side \<in> set ro_valid_sides)
       (ValueError [T (''side must be one of '' @ py_list_repr ro_valid_sides)])) (\<lambda>_.
     sbind (srequire (order_type \<in> set ro_valid_order_types)
       (ValueError [T (''order_type must be one of '' @ py_list_repr ro_valid_order_types)])) (\<lambda>_.
     sbind (srequire (status \<in> set ro_valid_statuses)
       (ValueError [T (''status must be one of '' @ py_list_repr ro_valid_statuses)])) (\<lambda>_.
     sbind (srequire (\<not> quantity \<le> 0) (ValueError [T ''quantity must be > 0''])) (\<lambda>_.
     sbind (srequire (\<not> (order_type = ''LIMIT'' \<and> limit_price = None))
       (ValueError [T ''LIMIT order requires limit_price''])) (\<lambda>_.
     sbind (srequire (\<not> (order_type = ''MARKET'' \<and> limit_price \<noteq> None))
       (ValueError [T ''MARKET order must not have limit_price''])) (\<lambda>_.
     sbind utc_now (\<lambda>now.
     sbind (sgets (\<lambda>s. t_next ro_id (sn_real_orders s))) (\<lambda>i.
     sbind (smodify (\<lambda>s. s\<lparr>sn_real_orders := sn_real_orders s @
              [\<lparr>ro_id = i, ro_candidate_id = candidate_id, ro_symbol = symbol, ro_side = side,
                ro_quantity = quantity, ro_order_type = order_type, ro_limit_price = limit_price,
                ro_estimated_amount = estimated_amount, ro_status = status, ro_dry_run = dry_run,
                ro_fake_order_no = fake_order_no, ro_broker_order_no_hash = None,
                ro_request_id = request_id, ro_error_code = None, ro_error_message = None,
                ro_submitted_at = None, ro_created_at = now, ro_updated_at = now\<rparr>]\<rparr>)) (\<lambda>_.
     sret i)))))))))"

definition rorder_get_by_id :: "int \<Rightarrow> real_order option db" where
  "rorder_get_by_id order_id = sgets (\<lambda>s. t_get ro_id order_id (sn_real_orders s))"

definition rorder_get_by_candidate_id :: "int \<Rightarrow> real_order list db" where
  "rorder_get_by_candidate_id candidate_id =
     sgets (\<lambda>s. rev (sort_key ro_id (filter (\<lambda>r. ro_candidate_id r = candidate_id) (sn_real_orders s))))"

definition rorder_list_recent :: "nat \<Rightarrow> real_order list db" where
  "rorder_list_recent limit = sgets (\<lambda>s. take limit (rev (sort_key ro_id (sn_real_orders s))))"

definition rorder_list_by_status :: "string \<Rightarrow> nat \<Rightarrow> real_order list db" where
  "rorder_list_by_status status limit =
     sbind (srequire (status \<in> set ro_valid_statuses)
       (ValueError [T (''status must be one of '' @ py_list_repr ro_valid_statuses)])) (\<lambda>_.
     sgets (\<lambda>s. take limit (rev (sort_key ro_id (filter (\<lambda>r. ro_status r = status) (sn_real_orders s))))))"

definition exists_non_failed_for_candidate :: "int \<Rightarrow> bool db" where
  "exists_non_failed_for_candidate candidate_id =
     sgets (\<lambda>s. list_ex (\<lambda>r. ro_candidate_id r = candidate_id \<and> ro_status r \<in> set non_failed_statuses)
       (sn_real_orders s))"

definition rorder_update_status :: "int \<Rightarrow> string \<Rightarrow> unit db" where
  "rorder_update_status i new_status =
     sbind (srequire (new_status \<in> set ro_valid_statuses)
       (ValueError [T (''status must be one of '' @ py_list_repr ro_valid_statuses)])) (\<lambda>_.
     sbind (row_of sn_real_orders ro_id i) (\<lambda>r.
     sbind (srequire (ro_status r \<notin> set ro_terminal_statuses)
       (ValueError [T (''cannot transition RealOrder id='' @ str_of_int i @ '' from terminal status='' @
          py_repr (ro_status r) @ '' to '' @ py_repr new_status)])) (\<lambda>_.
     sbind utc_now (\<lambda>now.
     upd_rorder i (\<lambda>r. r\<lparr>ro_status := new_status, ro_updated_at := now\<rparr>)))))"

definition mark_submitted :: "int \<Rightarrow> string option \<Rightarrow> int option \<Rightarrow> unit db" where
  "mark_submitted i broker_order_no_hash submitted_at =
     sbind (rorder_update_status i ''SUBMITTED'') (\<lambda>_.
     sbind (case submitted_at of Some t \<Rightarrow> sret t | None \<Rightarrow> utc_now) (\<lambda>t.
     upd_rorder i (\<lambda>r. r\<lparr>ro_broker_order_no_hash := broker_order_no_hash, ro_submitted_at := Some t\<rparr>)))"

definition mark_failed :: "int \<Rightarrow> string option \<Rightarrow> string option \<Rightarrow> unit db" where
  "mark_failed i error_code error_message =
     (let message = map_option (take 500) error_message
      in sbind (case message of None \<Rightarrow> sret () | Some m \<Rightarrow> check_error_message m) (\<lambda>_.
         sbind (rorder_update_status i ''FAILED'') (\<lambda>_.
         upd_rorder i (\<lambda>r. r\<lparr>ro_error_code := error_code, ro_error_message := message\<rparr>))))"

definition mark_dry_run :: "int \<Rightarrow> string option \<Rightarrow> unit db" where
  "mark_dry_run i fake_order_no =
     sbind (row_of sn_real_orders ro_id i) (\<lambda>r.
     sbind (srequire (ro_status r = ''CREATED'')
       (ValueError [T (''mark_dry_run requires status=CREATED (got '' @ py_repr (ro_status r) @ '')'')])) (\<lambda>_.
     sbind utc_now (\<lambda>now.
     upd_rorder i (\<lambda>r. r\<lparr>ro_status := ''DRY_RUN'', ro_fake_order_no := fake_order_no, ro_updated_at := now\<rparr>))))"

subsection \<open>Fills\<close>

definition rfill_create ::
  "int \<Rightarrow> string \<Rightarrow> string \<Rightarrow> int \<Rightarrow> decimal \<Rightarrow> decimal \<Rightarrow> decimal \<Rightarrow> decimal \<Rightarrow> decimal \<Rightarrow>
   string \<Rightarrow> int option \<Rightarrow> int db" where
  "rfill_create real_order_id symbol side quantity fill_price fee tax gross_amount net_amount
     fill_status filled_at =
     sbind (srequire (side \<in> set ro_valid_sides)
       (ValueError [T (''side must be one of '' @ py_list_repr ro_valid_sides)])) (\<lambda>_.
     sbind (srequire (fill_status \<in> set rf_valid_fill_statuses)
       (ValueError [T (''fill_status must be one of '' @ py_list_repr rf_valid_fill_statuses)])) (\<lambda>_.
     sbind (srequire (\<not> quantity \<le> 0) (ValueError [T ''quantity must be > 0''])) (\<lambda>_.
     sbind (srequire (\<not> fill_price \<le> 0) (ValueError [T ''fill_price must be > 0''])) (\<lambda>_.
     sbind (srequire (\<not> gross_amount < 0) (ValueError [T ''gross_amount must be >= 0''])) (\<lambda>_.
     sbind (srequire (\<not> net_amount < 0) (ValueError [T ''net_amount must be >= 0''])) (\<lambda>_.
     sbind (case filled_at of Some t \<Rightarrow> sret t | None \<Rightarrow> utc_now) (\<lambda>t.
     sbind (sgets (\<lambda>s. t_next rf_id (sn_real_fills s))) (\<lambda>i.
     sbind (smodify (\<lambda>s. s\<lparr>sn_real_fills := sn_real_fills s @
              [\<lparr>rf_id = i, rf_real_order_id = real_order_id, rf_symbol = symbol, rf_side = side,
                rf_quantity = quantity, rf_fill_price = fill_price, rf_fee = fee, rf_tax = tax,
                rf_gross_amount = gross_amount, rf_net_amount = net_amount,
                rf_fill_status = fill_status, rf_filled_at = t\<rparr>]\<rparr>)) (\<lambda>_.
     sret i)))))))))"

definition rfill_list_by_order :: "int \<Rightarrow> nat \<Rightarrow> real_fill list db" where
  "rfill_list_by_order real_order_id limit =
     sgets (\<lambda>s. take limit (sort_key rf_filled_at (filter (\<lambda>f. rf_real_order_id f = real_order_id) (sn_real_fills s))))"

definition rfill_list_recent :: "nat \<Rightarrow> real_fill list db" where
  "rfill_list_recent limit = sgets (\<lambda>s. take limit (rev (sort_key rf_id (sn_real_fills s))))"

definition filled_total :: "session \<Rightarrow> int \<Rightarrow> int" where
  "filled_total s i = sum_list (map rf_quantity (filter (\<lambda>f. rf_real_order_id f = i) (sn_real_fills s)))"

definition total_filled_quantity :: "int \<Rightarrow> int db" where
  "total_filled_quantity real_order_id = sgets (\<lambda>s. filled_total s real_order_id)"

subsection \<open>The status machine of the services\<close>

definition real_next :: "string \<Rightarrow> string list" where
  "real_next st =
     (if st = ''CREATED'' then [''SUBMITTED'', ''FAILED'', ''PARTIALLY_FILLED'', ''FILLED'', ''CANCELED'', ''REJECTED'']
      else if st = ''SUBMITTED'' then [''PARTIALLY_FILLED'', ''FILLED'', ''CANCELED'', ''REJECTED'']
      else if st = ''PARTIALLY_FILLED'' then [''FILLED'', ''CANCELED'', ''REJECTED'']
      else [])"

definition real_rank :: "string \<Rightarrow> nat" where
  "real_rank st = (if st = ''CREATED'' then 3 else if st = ''SUBMITTED'' then 2
     else if st = ''PARTIALLY_FILLED'' then 1 else 0)"

interpretation real: status_machine real_next real_rank
  by unfold_locales (auto simp: real_next_def real_rank_def split: if_splits)

definition real_path :: "string \<Rightarrow> string \<Rightarrow> bool" where
  "real_path = (\<lambda>s t. t \<in> set (real_next s))\<^sup>*\<^sup>*"

definition is_live :: "real_order \<Rightarrow> bool" where
  "is_live r \<longleftrightarrow> ro_status r \<in> set non_failed_statuses"

subsection \<open>The operations as updates\<close>

definition set_rorder :: "int \<Rightarrow> (real_order \<Rightarrow> real_order) \<Rightarrow> session \<Rightarrow> session" where
  "set_rorder i f s = s\<lparr>sn_real_orders := t_upd ro_id i f (sn_real_orders s)\<rparr>"

lemma set_rorder_sel [simp]:
  "sn_real_orders (set_rorder i f s) = t_upd ro_id i f (sn_real_orders s)"
  "sn_real_fills (set_rorder i f s) = sn_real_fills s" "sn_candidates (set_rorder i f s) = sn_candidates s"
  "sn_audits (set_rorder i f s) = sn_audits s" "sn_now (set_rorder i f s) = sn_now s"
  "sn_orders (set_rorder i f s) = sn_orders s" "sn_accounts (set_rorder i f s) = sn_accounts s"
  "sn_positions (set_rorder i f s) = sn_positions s" "sn_fills (set_rorder i f s) = sn_fills s"
  "sn_snapshots (set_rorder i f s) = sn_snapshots s" "sn_prices (set_rorder i f s) = sn_prices s"
  "sn_fake_counter (set_rorder i f s) = sn_fake_counter s"
  by (simp_all add: set_rorder_def)

definition set_rstatus :: "int \<Rightarrow> string \<Rightarrow> real_order \<Rightarrow> real_order" where
  "set_rstatus now st r = r\<lparr>ro_status := st, ro_updated_at := now\<rparr>"

lemma set_rstatus_sel [simp]:
  "ro_id (set_rstatus now st r) = ro_id r" "ro_status (set_rstatus now st r) = st"
  "ro_candidate_id (set_rstatus now st r) = ro_candidate_id r" "ro_symbol (set_rstatus now st r) = ro_symbol r"
  "ro_side (set_rstatus now st r) = ro_side r" "ro_quantity (set_rstatus now st r) = ro_quantity r"
  "ro_order_type (set_rstatus now st r) = ro_order_type r" "ro_limit_price (set_rstatus now st r) = ro_limit_price r"
  "ro_estimated_amount (set_rstatus now st r) = ro_estimated_amount r" "ro_dry_run (set_rstatus now st r) = ro_dry_run r"
  "ro_created_at (set_rstatus now st r) = ro_created_at r"
  "ro_broker_order_no_hash (set_rstatus now st r) = ro_broker_order_no_hash r"
  "ro_error_message (set_rstatus now st r) = ro_error_message r"
  by (simp_all add: set_rstatus_def)

lemma rorder_update_ok:
  "t_get ro_id i (sn_real_orders s) = Some r \<Longrightarrow> ro_status r \<notin> set ro_terminal_statuses \<Longrightarrow>
   st \<in> set ro_valid_statuses \<Longrightarrow>
   rorder_update_status i st s = (Inr (), set_rorder i (set_rstatus (sn_now s) st) s)"
  by (simp add: rorder_update_status_def monad_simps upd_rorder_def set_rorder_def set_rstatus_def [abs_def])

lemma py_contains_iff: "py_contains p s \<longleftrightarrow> (\<exists>a b. s = a @ p @ b)"
proof (induction s)
  case (Cons c cs)
  have "take (length p) (c # cs) = p \<longleftrightarrow> (\<exists>b. c # cs = p @ b)"
    by (metis append_eq_conv_conj append_take_drop_id)
  moreover have "(\<exists>a b. c # cs = a @ p @ b) \<longleftrightarrow> (\<exists>b. c # cs = p @ b) \<or> (\<exists>a b. cs = a @ p @ b)"
    by (auto simp: Cons_eq_append_conv)
  ultimately show ?case using Cons by simp
qed simp

end
