(* ===== verification/Audit_Log.thy ===== *)
theory Audit_Log
  imports Order_Candidates
begin

text \<open>
  The append-only audit trail, \<^verbatim>\<open>app/data/repositories/approval_audit_log.py\<close>. There is one
  write, \<open>audit_append\<close>; \<open>audits_grow\<close> is the fact that the table only grows at its end.
\<close>

definition valid_event_types :: "string list" where
  "valid_event_types = [''APPROVED'', ''CREATED'', ''EXECUTED_PAPER'', ''EXPIRED'',
     ''FILL_SYNC_NEGATIVE_DELTA'', ''KILL_SWITCH_BLOCKED'', ''REAL_ORDER_FAILED'',
     ''REAL_ORDER_FILL_FAILED'', ''REAL_ORDER_FILL_SYNCED'', ''REAL_ORDER_SUBMITTED'', ''REJECTED'',
     ''RISK_CHECKED'', ''RISK_REJECTED'']"

definition forbidden_details_keys :: "string list" where
  "forbidden_details_keys = [''access_token'', ''account_number'', ''api_key'', ''body'',
     ''broker_order_id'', ''full_text'', ''jwt_secret'', ''kis_order_id'', ''raw_text'',
     ''real_account'', ''real_order_id'', ''secret'', ''source_file_path'', ''token'']"

text \<open>\<open>sorted(leaked)\<close>: the forbidden keys, which are listed in order, that occur.\<close>

definition leaked_keys :: "(string \<times> json) list \<Rightarrow> string list" where
  "leaked_keys details = filter (\<lambda>k. k \<in> set (map fst details)) forbidden_details_keys"

definition hash_too_long :: "string option \<Rightarrow> bool" where
  "hash_too_long h = (case h of None \<Rightarrow> False | Some x \<Rightarrow> 64 < length x)"

definition audit_append ::
  "int \<Rightarrow> string \<Rightarrow> int option \<Rightarrow> text_t option \<Rightarrow> (string \<times> json) list option \<Rightarrow>
   string option \<Rightarrow> string option \<Rightarrow> int db" where
  "audit_append candidate_id event_type user_id reason details ip_hash user_agent_hash =
     sbind (srequire (event_type \<in> set valid_event_types) (ApprovalAuditLogValidationError
       [T (''event_type must be one of '' @ py_list_repr valid_event_types @ got event_type)])) (\<lambda>_.
     sbind (case details of
         None \<Rightarrow> sret ()
       | Some d \<Rightarrow> srequire (leaked_keys d = []) (ApprovalAuditLogValidationError
           [T (''details_json contains forbidden keys: '' @ py_list_repr (leaked_keys d))])) (\<lambda>_.
     sbind (srequire (\<not> hash_too_long ip_hash)
       (ApprovalAuditLogValidationError [T ''ip_hash must be at most 64 chars (SHA256 hex)''])) (\<lambda>_.
     sbind (srequire (\<not> hash_too_long user_agent_hash)
       (ApprovalAuditLogValidationError [T ''user_agent_hash must be at most 64 chars (SHA256 hex)''])) (\<lambda>_.
     sbind utc_now (\<lambda>now.
     sbind (sgets (\<lambda>s. t_next al_id (sn_audits s))) (\<lambda>i.
     sbind (smodify (\<lambda>s. s\<lparr>sn_audits := sn_audits s @
              [\<lparr>al_id = i, al_candidate_id = candidate_id, al_event_type = event_type,
                al_user_id = user_id,
                al_reason = (case reason of None \<Rightarrow> None | Some r \<Rightarrow> cut_reason r),
                al_details = details, al_ip_hash = ip_hash, al_user_agent_hash = user_agent_hash,
                al_created_at = now\<rparr>]\<rparr>)) (\<lambda>_.
     sret i)))))))"

definition audit_list_by_candidate :: "int \<Rightarrow> nat \<Rightarrow> audit_log list db" where
  "audit_list_by_candidate candidate_id limit =
     sgets (\<lambda>s. take limit (sort_key al_id (filter (\<lambda>l. al_candidate_id l = candidate_id) (sn_audits s))))"

definition audit_list_recent :: "string option \<Rightarrow> int option \<Rightarrow> nat \<Rightarrow> audit_log list db" where
  "audit_list_recent event_type since limit =
     sbind (case event_type of
         None \<Rightarrow> sret ()
       | Some e \<Rightarrow> srequire (e \<in> set valid_event_types) (ApprovalAuditLogValidationError
           [T (''event_type must be one of '' @ py_list_repr valid_event_types)])) (\<lambda>_.
     sgets (\<lambda>s. take limit (rev (sort_key al_id (filter (\<lambda>l.
       (case event_type of None \<Rightarrow> True | Some e \<Rightarrow> al_event_type l = e) \<and>
       (case since of None \<Rightarrow> True | Some t \<Rightarrow> t \<le> al_created_at l)) (sn_audits s))))))"

subsection \<open>Facts\<close>

definition audits_grow :: "session \<Rightarrow> session \<Rightarrow> bool" where
  "audits_grow s t \<longleftrightarrow> (\<exists>new. sn_audits t = sn_audits s @ new)"

interpretation ag: step_relation audits_grow
  by unfold_locales (auto simp: audits_grow_def)

lemma audits_grow_same: "sn_audits t = sn_audits s \<Longrightarrow> audits_grow s t"
  by (simp add: audits_grow_def)

lemma audit_append_grows: "audits_grow s (snd (audit_append i e u r d h g s))"
  by (cases d) (auto simp: audit_append_def monad_simps audits_grow_def)

text \<open>The row \<open>append\<close> writes, and when it writes one.\<close>

definition audit_row ::
  "session \<Rightarrow> int \<Rightarrow> string \<Rightarrow> int option \<Rightarrow> text_t option \<Rightarrow> (string \<times> json) list option \<Rightarrow>
   string option \<Rightarrow> string option \<Rightarrow> audit_log" where
  "audit_row s i e u r d h g = \<lparr>al_id = t_next al_id (sn_audits s), al_candidate_id = i,
     al_event_type = e, al_user_id = u, al_reason = (case r of None \<Rightarrow> None | Some x \<Rightarrow> cut_reason x),
     al_details = d, al_ip_hash = h, al_user_agent_hash = g, al_created_at = sn_now s\<rparr>"

lemma audit_row_sel:
  "al_id (audit_row s i e u r d h g) = t_next al_id (sn_audits s)"
  "al_candidate_id (audit_row s i e u r d h g) = i" "al_event_type (audit_row s i e u r d h g) = e"
  "al_details (audit_row s i e u r d h g) = d" "al_ip_hash (audit_row s i e u r d h g) = h"
  "al_user_agent_hash (audit_row s i e u r d h g) = g"
  by (simp_all add: audit_row_def)

definition clean_details :: "(string \<times> json) list option \<Rightarrow> bool" where
  "clean_details d \<longleftrightarrow> (case d of None \<Rightarrow> True | Some x \<Rightarrow> leaked_keys x = [])"

lemma audit_append_app:
  "e \<in> set valid_event_types \<Longrightarrow> clean_details d \<Longrightarrow> \<not> hash_too_long h \<Longrightarrow> \<not> hash_too_long g \<Longrightarrow>
   audit_append i e u r d h g s =
     (Inr (t_next al_id (sn_audits s)), s\<lparr>sn_audits := sn_audits s @ [audit_row s i e u r d h g]\<rparr>)"
  by (cases d) (auto simp: audit_append_def monad_simps audit_row_def clean_details_def)

lemma audit_append_refused:
  "\<not> (e \<in> set valid_event_types \<and> clean_details d \<and> \<not> hash_too_long h \<and> \<not> hash_too_long g) \<Longrightarrow>
   \<exists>t. audit_append i e u r d h g s = (Inl (ApprovalAuditLogValidationError t), s)"
  by (cases d) (auto simp: audit_append_def monad_simps clean_details_def)

text \<open>
  The audit log never stores a forbidden key: \<open>append\<close> either writes exactly one row at
  the end of the log, with the given event, or it raises a validation error and writes
  nothing; it raises exactly when the event is unknown, a hash is longer than 64
  characters or the details have one of the fourteen forbidden keys. No row it writes has
  such a key.
\<close>

lemma audit_append_safe:
  "case audit_append i e u r d h g s of
     (Inr j, s') \<Rightarrow> e \<in> set valid_event_types \<and> \<not> hash_too_long h \<and> \<not> hash_too_long g \<and>
       (\<exists>row. s' = s\<lparr>sn_audits := sn_audits s @ [row]\<rparr> \<and> al_id row = j \<and> al_candidate_id row = i \<and>
         al_event_type row = e \<and> al_details row = d \<and> al_ip_hash row = h \<and> al_user_agent_hash row = g \<and>
         (case al_details row of None \<Rightarrow> True
          | Some x \<Rightarrow> set (map fst x) \<inter> set forbidden_details_keys = {}))
   | (Inl err, s') \<Rightarrow> s' = s \<and> (\<exists>t. err = ApprovalAuditLogValidationError t)"
proof (cases "e \<in> set valid_event_types \<and> clean_details d \<and> \<not> hash_too_long h \<and> \<not> hash_too_long g")
  case True
  then have a: "audit_append i e u r d h g s = (Inr (t_next al_id (sn_audits s)),
      s\<lparr>sn_audits := sn_audits s @ [audit_row s i e u r d h g]\<rparr>)"
    by (simp add: audit_append_app)
  from True have "case d of None \<Rightarrow> True | Some x \<Rightarrow> set (map fst x) \<inter> set forbidden_details_keys = {}"
    by (auto simp: clean_details_def leaked_keys_def filter_empty_conv split: option.splits)
  with True a show ?thesis
    by (simp, intro exI [of _ "audit_row s i e u r d h g"]) (simp add: audit_row_sel)
next
  case False
  from audit_append_refused [OF this, of i u r s] show ?thesis by auto
qed

end
