(* ===== verification/Client_World.thy ===== *)
theory Client_World
  imports Kis_Client Real_Orders Audit_Log
begin

text \<open>
  The world of the services that use both the database and a broker client: the session
  beside the client's own state \<open>'c\<close>. A database method leaves the client's state alone and
  the other way round (\<open>on_db\<close>, \<open>on_client\<close>).
\<close>

type_synonym 'c world = "session \<times> 'c"
type_synonym ('c, 'a) service = "('c world, py_error, 'a) action"

definition on_db :: "'a db \<Rightarrow> ('c, 'a) service" where
  "on_db m = (\<lambda>w. case m (fst w) of (r, s) \<Rightarrow> (r, (s, snd w)))"

definition on_client :: "('c, py_error, 'a) action \<Rightarrow> ('c, 'a) service" where
  "on_client m = (\<lambda>w. case m (snd w) of (r, c) \<Rightarrow> (r, (fst w, c)))"

definition lift_result :: "py_error + 'a \<Rightarrow> ('c, 'a) service" where
  "lift_result r = (case r of Inl e \<Rightarrow> sthrow e | Inr x \<Rightarrow> sret x)"

lemma on_db_app [monad_simps]: "on_db m (s, c) = (case m s of (r, s') \<Rightarrow> (r, (s', c)))"
  by (simp add: on_db_def)

lemma on_client_app [monad_simps]: "on_client m (s, c) = (case m c of (r, c') \<Rightarrow> (r, (s, c')))"
  by (simp add: on_client_def)

lemma lift_result_app [monad_simps]:
  "lift_result r w = (case r of Inl e \<Rightarrow> (Inl e, w) | Inr x \<Rightarrow> (Inr x, w))"
  by (simp add: lift_result_def monad_simps split: sum.split)

subsection \<open>Orders created and marked\<close>

text \<open>The row \<open>create\<close> writes for a candidate.\<close>

definition new_rorder ::
  "session \<Rightarrow> order_candidate \<Rightarrow> bool \<Rightarrow> string option \<Rightarrow> string option \<Rightarrow> string \<Rightarrow> real_order" where
  "new_rorder s c dry_run fake_no req st =
     \<lparr>ro_id = t_next ro_id (sn_real_orders s), ro_candidate_id = oc_id c, ro_symbol = oc_symbol c,
      ro_side = oc_side c, ro_quantity = oc_quantity c, ro_order_type = oc_order_type c,
      ro_limit_price = oc_limit_price c, ro_estimated_amount = oc_estimated_amount c, ro_status = st,
      ro_dry_run = dry_run, ro_fake_order_no = fake_no, ro_broker_order_no_hash = None,
      ro_request_id = req, ro_error_code = None, ro_error_message = None, ro_submitted_at = None,
      ro_created_at = sn_now s, ro_updated_at = sn_now s\<rparr>"

lemma new_rorder_sel [simp]:
  "ro_id (new_rorder s c d f q st) = t_next ro_id (sn_real_orders s)"
  "ro_candidate_id (new_rorder s c d f q st) = oc_id c" "ro_symbol (new_rorder s c d f q st) = oc_symbol c"
  "ro_side (new_rorder s c d f q st) = oc_side c" "ro_quantity (new_rorder s c d f q st) = oc_quantity c"
  "ro_order_type (new_rorder s c d f q st) = oc_order_type c"
  "ro_limit_price (new_rorder s c d f q st) = oc_limit_price c"
  "ro_estimated_amount (new_rorder s c d f q st) = oc_estimated_amount c"
  "ro_status (new_rorder s c d f q st) = st" "ro_dry_run (new_rorder s c d f q st) = d"
  "ro_fake_order_no (new_rorder s c d f q st) = f" "ro_request_id (new_rorder s c d f q st) = q"
  "ro_broker_order_no_hash (new_rorder s c d f q st) = None"
  "ro_created_at (new_rorder s c d f q st) = sn_now s"
  by (simp_all add: new_rorder_def)

text \<open>The shape of a candidate that its repository creates and that the order repository takes.\<close>

definition orderable :: "order_candidate \<Rightarrow> bool" where
  "orderable c \<longleftrightarrow> oc_side c \<in> set ro_valid_sides \<and> oc_order_type c \<in> set ro_valid_order_types \<and>
     0 < oc_quantity c \<and> (oc_order_type c = ''LIMIT'' \<longleftrightarrow> oc_limit_price c \<noteq> None) \<and>
     (case oc_limit_price c of None \<Rightarrow> True | Some p \<Rightarrow> 0 < p)"

definition rorder_create_for ::
  "order_candidate \<Rightarrow> bool \<Rightarrow> string option \<Rightarrow> string option \<Rightarrow> string \<Rightarrow> int db" where
  "rorder_create_for c dry_run fake_no req st =
     rorder_create (oc_id c) (oc_symbol c) (oc_side c) (oc_quantity c) (oc_order_type c) (oc_limit_price c)
       (oc_estimated_amount c) dry_run fake_no req st"

lemma rorder_create_cases:
  "(\<exists>t. rorder_create_for c d f q st s = (Inl (ValueError t), s)) \<or>
   st \<in> set ro_valid_statuses \<and> oc_side c \<in> set ro_valid_sides \<and> 0 < oc_quantity c \<and>
   rorder_create_for c d f q st s =
     (Inr (t_next ro_id (sn_real_orders s)), s\<lparr>sn_real_orders := sn_real_orders s @ [new_rorder s c d f q st]\<rparr>)"
  by (auto simp: rorder_create_for_def rorder_create_def monad_simps new_rorder_def split: prod.split sum.split)

lemma rorder_create_ok:
  "orderable c \<Longrightarrow> st \<in> set ro_valid_statuses \<Longrightarrow> rorder_create_for c d f q st s =
     (Inr (t_next ro_id (sn_real_orders s)), s\<lparr>sn_real_orders := sn_real_orders s @ [new_rorder s c d f q st]\<rparr>)"
  by (auto simp: rorder_create_for_def rorder_create_def monad_simps new_rorder_def orderable_def
      ro_valid_order_types_def split: prod.split sum.split)

text \<open>A row of the shape that survives \<open>create\<close>.\<close>

definition row_valid :: "real_order \<Rightarrow> bool" where
  "row_valid r \<longleftrightarrow> ro_side r \<in> set ro_valid_sides \<and> 0 < ro_quantity r"

lemma t_upd_last: "\<forall>r \<in> set rows. key r \<noteq> i \<Longrightarrow> key x = i \<Longrightarrow> t_upd key i f (rows @ [x]) = rows @ [f x]"
  by (auto simp: t_upd_def intro!: map_idI)

lemma t_get_last: "\<forall>r \<in> set rows. key r \<noteq> i \<Longrightarrow> key x = i \<Longrightarrow> t_get key i (rows @ [x]) = Some x"
  by (auto simp: t_get_append t_get_None [THEN iffD2])

lemma next_fresh: "\<forall>r \<in> set rows. key r \<noteq> t_next key rows"
  using t_next_gt [of _ rows key] by force

text \<open>Marking the order that was appended last.\<close>

lemma mark_submitted_last:
  assumes "sn_real_orders s = rows @ [x]" and "\<forall>r \<in> set rows. ro_id r \<noteq> i" and "ro_id x = i"
    and "ro_status x \<notin> set ro_terminal_statuses"
  shows "mark_submitted i h None s = (Inr (), s\<lparr>sn_real_orders := rows @
    [x\<lparr>ro_status := ''SUBMITTED'', ro_updated_at := sn_now s, ro_broker_order_no_hash := h,
       ro_submitted_at := Some (sn_now s)\<rparr>]\<rparr>)"
proof -
  have "''SUBMITTED'' \<in> set ro_valid_statuses" by (simp add: ro_valid_statuses_def)
  with assms show ?thesis
    by (simp add: mark_submitted_def rorder_update_status_def upd_rorder_def monad_simps t_get_last t_upd_last)
qed

lemma mark_failed_last:
  assumes "sn_real_orders s = rows @ [x]" and "\<forall>r \<in> set rows. ro_id r \<noteq> i" and "ro_id x = i"
    and "ro_status x \<notin> set ro_terminal_statuses"
    and "\<forall>p \<in> set sensitive_substrings. \<not> py_contains p (py_lower (take 500 m))"
  shows "mark_failed i (Some e) (Some m) s = (Inr (), s\<lparr>sn_real_orders := rows @
    [x\<lparr>ro_status := ''FAILED'', ro_updated_at := sn_now s, ro_error_code := Some e,
       ro_error_message := Some (take 500 m)\<rparr>]\<rparr>)"
proof -
  have "filter (\<lambda>p. py_contains p (py_lower (take 500 m))) sensitive_substrings = []"
    using assms(5) by (simp add: filter_empty_conv)
  moreover have "''FAILED'' \<in> set ro_valid_statuses" by (simp add: ro_valid_statuses_def)
  ultimately show ?thesis using assms(1-4)
    by (simp add: mark_failed_def rorder_update_status_def upd_rorder_def monad_simps check_error_message_def
        t_get_last t_upd_last Let_def)
qed

end
