(* ===== verification/Risk_Engine.thy ===== *)
theory Risk_Engine
  imports Order_Candidates
begin

text \<open>
  The pre-trade risk engine, \<^verbatim>\<open>app/risk/pre_trade_risk_engine.py\<close>: seven rules that read the
  session and each give no violation or one. The engine never writes, so a rule is a
  function of the session; \<open>evaluate\<close> runs them all and collects every violation.

  The facts give the rules as conditions on the tables (\<open>risk_ok\<close>): the candidate passes
  exactly when all seven conditions hold, and the violations name exactly the rules that fail.
\<close>

subsection \<open>Dates\<close>

definition microseconds_per_day :: int where
  "microseconds_per_day = 86400000000"

text \<open>Seoul is nine hours ahead of UTC, without daylight saving.\<close>

definition kst_offset :: int where
  "kst_offset = 32400000000"

definition kst_date :: "int \<Rightarrow> int" where
  "kst_date moment = (moment + kst_offset) div microseconds_per_day"

definition kst_start :: "int \<Rightarrow> int" where
  "kst_start day = day * microseconds_per_day - kst_offset"

definition zero_pad :: "nat \<Rightarrow> string \<Rightarrow> string" where
  "zero_pad n s = replicate (n - length s) (CHR ''0'') @ s"

text \<open>\<open>date.isoformat()\<close> of a day number (days since 1970-01-01).\<close>

definition iso_date :: "int \<Rightarrow> string" where
  "iso_date day =
     (let z = day + 719468; era = z div 146097; doe = z mod 146097;
          yoe = (doe - doe div 1460 + doe div 36524 - doe div 146096) div 365;
          doy = doe - (365 * yoe + yoe div 4 - yoe div 100);
          mp = (5 * doy + 2) div 153;
          d = doy - (153 * mp + 2) div 5 + 1;
          m = (if mp < 10 then mp + 3 else mp - 9);
          y = yoe + era * 400 + (if m \<le> 2 then 1 else 0)
      in zero_pad 4 (str_of_int y) @ ''-'' @ zero_pad 2 (str_of_int m) @ ''-'' @
         zero_pad 2 (str_of_int d))"

subsection \<open>Queries\<close>

definition policy_version :: string where
  "policy_version = ''pre-trade-v1''"

definition active_candidate_statuses :: "string list" where
  "active_candidate_statuses = [''DRAFT'', ''RISK_CHECKING'', ''PENDING_APPROVAL'', ''APPROVED'']"

definition duplicate_recent_window :: int where
  "duplicate_recent_window = 300000000"

definition active_candidates ::
  "session \<Rightarrow> int \<Rightarrow> string option \<Rightarrow> int option \<Rightarrow> int \<Rightarrow> order_candidate list" where
  "active_candidates s account_id symbol kst exclude_id =
     filter (\<lambda>c. oc_account_id c = account_id \<and> oc_status c \<in> set active_candidate_statuses \<and>
       (case symbol of None \<Rightarrow> True | Some y \<Rightarrow> oc_symbol c = y) \<and>
       (case kst of None \<Rightarrow> True | Some d \<Rightarrow> kst_start d \<le> oc_created_at c \<and>
          oc_created_at c < kst_start d + microseconds_per_day) \<and>
       oc_id c \<noteq> exclude_id) (sn_candidates s)"

definition sum_active_candidate_amount ::
  "session \<Rightarrow> int \<Rightarrow> string option \<Rightarrow> int option \<Rightarrow> int \<Rightarrow> decimal" where
  "sum_active_candidate_amount s account_id symbol kst exclude_id =
     dsum (map oc_estimated_amount (active_candidates s account_id symbol kst exclude_id))"

definition latest_bar :: "session \<Rightarrow> string \<Rightarrow> daily_price option" where
  "latest_bar s symbol = latest_by dp_date (filter (\<lambda>p. dp_symbol p = symbol) (sn_prices s))"

definition estimate_position_market_value :: "session \<Rightarrow> int \<Rightarrow> string \<Rightarrow> decimal" where
  "estimate_position_market_value s account_id symbol =
     (case find_position account_id symbol (sn_positions s) of
        None \<Rightarrow> 0
      | Some p \<Rightarrow>
          if vp_quantity p \<le> 0 then 0
          else case latest_bar s symbol of
                 Some b \<Rightarrow> dmul (dp_close b) (of_int (vp_quantity p))
               | None \<Rightarrow> dmul (vp_avg_cost p) (of_int (vp_quantity p)))"

definition latest_pnl_snapshot :: "session \<Rightarrow> int \<Rightarrow> pnl_snapshot option" where
  "latest_pnl_snapshot s account_id =
     latest_by vs_snapshot_date (filter (\<lambda>v. vs_account_id v = account_id) (sn_snapshots s))"

definition estimate_total_account_value :: "session \<Rightarrow> virtual_account \<Rightarrow> decimal" where
  "estimate_total_account_value s account =
     (case latest_pnl_snapshot s (va_id account) of
        Some v \<Rightarrow> vs_total_value v
      | None \<Rightarrow> va_cash_balance account)"

subsection \<open>The rules\<close>

definition hard :: "string \<Rightarrow> text_t \<Rightarrow> (string \<times> json) list \<Rightarrow> risk_violation" where
  "hard rule message details =
     \<lparr>rv_rule_id = rule, rv_message = message, rv_severity = ''HARD'', rv_details = details\<rparr>"

definition check_account_paper_enabled :: "virtual_account option \<Rightarrow> risk_violation list" where
  "check_account_paper_enabled account =
     (case account of
        None \<Rightarrow> [hard ''account_paper_enabled'' [T ''virtual account not found''] [(''account_id'', JNull)]]
      | Some a \<Rightarrow>
          if \<not> va_paper_trading_enabled a
          then [hard ''account_paper_enabled''
                 [T ''VirtualAccount.paper_trading_enabled is False; enable paper trading on the account before submitting candidates.'']
                 [(''account_id'', JInt (va_id a))]]
          else [])"

definition check_kill_switch_off :: "settings \<Rightarrow> risk_violation list" where
  "check_kill_switch_off cfg =
     (if cfg_kill_switch_enabled cfg
      then [hard ''kill_switch_off''
             [T ''kill switch is ON; operator must explicitly set KILL_SWITCH_ENABLED=false before any candidate can pass.'']
             [(''kill_switch_enabled'', JBool True)]]
      else [])"

definition check_per_symbol_limit :: "settings \<Rightarrow> session \<Rightarrow> order_candidate \<Rightarrow> risk_violation list" where
  "check_per_symbol_limit cfg s c =
     (let existing = sum_active_candidate_amount s (oc_account_id c) (Some (oc_symbol c)) None (oc_id c);
          new_amount = oc_estimated_amount c;
          total = dadd existing new_amount;
          cap = of_int (cfg_max_order_amount cfg)
      in if cap < total
         then [hard ''per_symbol_limit''
                [T ''per-symbol active total '', D total, T '' would exceed cap '', D cap,
                 T ('' for '' @ oc_symbol c)]
                [(''symbol'', JStr (oc_symbol c)), (''active_existing'', JDec existing),
                 (''new_estimated'', JDec new_amount), (''total'', JDec total),
                 (''max_order_amount'', JDec cap)]]
         else [])"

definition check_daily_total_limit ::
  "settings \<Rightarrow> session \<Rightarrow> order_candidate \<Rightarrow> int \<Rightarrow> risk_violation list" where
  "check_daily_total_limit cfg s c evaluated_at =
     (let kst_today = kst_date evaluated_at;
          existing = sum_active_candidate_amount s (oc_account_id c) None (Some kst_today) (oc_id c);
          new_amount = oc_estimated_amount c;
          total = dadd existing new_amount;
          cap = of_int (cfg_max_daily_order_amount cfg)
      in if cap < total
         then [hard ''daily_total_limit''
                [T ''daily total '', D total, T '' would exceed cap '', D cap,
                 T ('' on '' @ iso_date kst_today @ '' (KST)'')]
                [(''kst_date'', JStr (iso_date kst_today)), (''active_existing'', JDec existing),
                 (''new_estimated'', JDec new_amount), (''total'', JDec total),
                 (''max_daily_order_amount'', JDec cap)]]
         else [])"

definition check_position_ratio_limit ::
  "settings \<Rightarrow> session \<Rightarrow> order_candidate \<Rightarrow> virtual_account option \<Rightarrow> risk_violation list" where
  "check_position_ratio_limit cfg s c account =
     (if oc_side c \<noteq> ''BUY'' then []
      else case account of
        None \<Rightarrow> []
      | Some a \<Rightarrow>
          let new_amount = oc_estimated_amount c;
              position_value = estimate_position_market_value s (va_id a) (oc_symbol c);
              total_value = estimate_total_account_value s a
          in if total_value \<le> 0
             then [hard ''position_ratio_limit''
                    [T ''cannot evaluate position ratio: account total_value is non-positive'']
                    [(''total_value'', JDec total_value),
                     (''max_position_ratio'', JDec (cfg_max_position_ratio cfg))]]
             else
               let projected = dadd position_value new_amount;
                   ratio = ddiv projected total_value;
                   cap_ratio = cfg_max_position_ratio cfg
               in if cap_ratio < ratio
                  then [hard ''position_ratio_limit''
                         [T ''projected position ratio '', D6 ratio, T '' exceeds cap '', D cap_ratio,
                          T ('' for '' @ oc_symbol c)]
                         [(''symbol'', JStr (oc_symbol c)),
                          (''current_position_value'', JDec position_value),
                          (''new_estimated'', JDec new_amount), (''projected_value'', JDec projected),
                          (''total_value'', JDec total_value), (''ratio'', JDec ratio),
                          (''max_position_ratio'', JDec cap_ratio)]]
                  else [])"

definition check_daily_loss_limit :: "settings \<Rightarrow> session \<Rightarrow> order_candidate \<Rightarrow> risk_violation list" where
  "check_daily_loss_limit cfg s c =
     (case latest_pnl_snapshot s (oc_account_id c) of
        None \<Rightarrow> []
      | Some v \<Rightarrow>
          let cap = of_int (cfg_max_daily_loss_amount cfg); floor' = dsub 0 cap; realized = vs_realized_pnl v
          in if realized < floor'
             then [hard ''daily_loss_limit''
                    [T ''realized PnL '', D realized, T '' below floor '', D floor', T '' (cap='', D cap, T '')'']
                    [(''realized_pnl'', JDec realized), (''max_daily_loss_amount'', JDec cap),
                     (''floor'', JDec floor'), (''snapshot_date'', JStr (iso_date (vs_snapshot_date v)))]]
             else [])"

definition duplicates :: "session \<Rightarrow> order_candidate \<Rightarrow> int \<Rightarrow> int list" where
  "duplicates s c evaluated_at =
     rev (sort (map oc_id (filter (\<lambda>d. oc_account_id d = oc_account_id c \<and> oc_symbol d = oc_symbol c \<and>
       oc_side d = oc_side c \<and> oc_quantity d = oc_quantity c \<and>
       evaluated_at - duplicate_recent_window < oc_created_at d \<and>
       oc_status d \<in> set active_candidate_statuses \<and> oc_id d \<noteq> oc_id c) (sn_candidates s))))"

definition check_duplicate_recent :: "session \<Rightarrow> order_candidate \<Rightarrow> int \<Rightarrow> risk_violation list" where
  "check_duplicate_recent s c evaluated_at =
     (case duplicates s c evaluated_at of
        [] \<Rightarrow> []
      | match_id # _ \<Rightarrow>
          [hard ''duplicate_recent''
             [T ''another active candidate with same (account, symbol, side, quantity) was created within the last 300 seconds'']
             [(''duplicate_candidate_id'', JInt match_id), (''window_seconds'', JInt 300)]])"

definition evaluate :: "settings \<Rightarrow> order_candidate \<Rightarrow> int option \<Rightarrow> risk_result db" where
  "evaluate cfg c now =
     sbind (case now of None \<Rightarrow> utc_now | Some t \<Rightarrow> sret t) (\<lambda>evaluated_at.
     sbind (account_get_by_id (oc_account_id c)) (\<lambda>account.
     sgets (\<lambda>s.
       let violations =
             check_account_paper_enabled account @
             check_kill_switch_off cfg @
             check_per_symbol_limit cfg s c @
             check_daily_total_limit cfg s c evaluated_at @
             check_position_ratio_limit cfg s c account @
             check_daily_loss_limit cfg s c @
             check_duplicate_recent s c evaluated_at
       in \<lparr>rr_policy_version = policy_version, rr_passed = (violations = []),
           rr_violations = violations, rr_checked_at = evaluated_at\<rparr>)))"

subsection \<open>The rules as conditions\<close>

definition same_order :: "order_candidate \<Rightarrow> order_candidate \<Rightarrow> bool" where
  "same_order c d \<longleftrightarrow> oc_account_id d = oc_account_id c \<and> oc_symbol d = oc_symbol c \<and>
     oc_side d = oc_side c \<and> oc_quantity d = oc_quantity c"

definition is_active :: "order_candidate \<Rightarrow> bool" where
  "is_active c \<longleftrightarrow> oc_status c = ''DRAFT'' \<or> oc_status c = ''RISK_CHECKING'' \<or>
     oc_status c = ''PENDING_APPROVAL'' \<or> oc_status c = ''APPROVED''"

definition account_enabled :: "session \<Rightarrow> order_candidate \<Rightarrow> bool" where
  "account_enabled s c \<longleftrightarrow>
     (\<exists>a. t_get va_id (oc_account_id c) (sn_accounts s) = Some a \<and> va_paper_trading_enabled a)"

definition symbol_exposure :: "session \<Rightarrow> order_candidate \<Rightarrow> decimal" where
  "symbol_exposure s c = dsum (map oc_estimated_amount (filter (\<lambda>d. is_active d \<and> oc_id d \<noteq> oc_id c \<and>
     oc_account_id d = oc_account_id c \<and> oc_symbol d = oc_symbol c) (sn_candidates s)))"

definition day_exposure :: "session \<Rightarrow> order_candidate \<Rightarrow> int \<Rightarrow> decimal" where
  "day_exposure s c t = dsum (map oc_estimated_amount (filter (\<lambda>d. is_active d \<and> oc_id d \<noteq> oc_id c \<and>
     oc_account_id d = oc_account_id c \<and> kst_date (oc_created_at d) = kst_date t) (sn_candidates s)))"

definition ratio_holds :: "settings \<Rightarrow> session \<Rightarrow> order_candidate \<Rightarrow> bool" where
  "ratio_holds cfg s c \<longleftrightarrow> oc_side c \<noteq> ''BUY'' \<or>
     (case t_get va_id (oc_account_id c) (sn_accounts s) of
        None \<Rightarrow> True
      | Some a \<Rightarrow> 0 < estimate_total_account_value s a \<and>
          ddiv (dadd (estimate_position_market_value s (oc_account_id c) (oc_symbol c)) (oc_estimated_amount c))
            (estimate_total_account_value s a) \<le> cfg_max_position_ratio cfg)"

definition loss_holds :: "settings \<Rightarrow> session \<Rightarrow> order_candidate \<Rightarrow> bool" where
  "loss_holds cfg s c \<longleftrightarrow> (case latest_pnl_snapshot s (oc_account_id c) of None \<Rightarrow> True
     | Some v \<Rightarrow> dsub 0 (of_int (cfg_max_daily_loss_amount cfg)) \<le> vs_realized_pnl v)"

definition no_duplicate :: "session \<Rightarrow> order_candidate \<Rightarrow> int \<Rightarrow> bool" where
  "no_duplicate s c t \<longleftrightarrow> \<not> (\<exists>d \<in> set (sn_candidates s). oc_id d \<noteq> oc_id c \<and> is_active d \<and>
     same_order c d \<and> t - 300000000 < oc_created_at d)"

text \<open>The seven rules with their outcome, in the order of the engine.\<close>

definition rule_results :: "settings \<Rightarrow> session \<Rightarrow> order_candidate \<Rightarrow> int \<Rightarrow> (string \<times> bool) list" where
  "rule_results cfg s c t =
     [(''account_paper_enabled'', account_enabled s c),
      (''kill_switch_off'', \<not> cfg_kill_switch_enabled cfg),
      (''per_symbol_limit'', dadd (symbol_exposure s c) (oc_estimated_amount c) \<le> of_int (cfg_max_order_amount cfg)),
      (''daily_total_limit'', dadd (day_exposure s c t) (oc_estimated_amount c) \<le> of_int (cfg_max_daily_order_amount cfg)),
      (''position_ratio_limit'', ratio_holds cfg s c),
      (''daily_loss_limit'', loss_holds cfg s c),
      (''duplicate_recent'', no_duplicate s c t)]"

definition risk_ok :: "settings \<Rightarrow> session \<Rightarrow> order_candidate \<Rightarrow> int \<Rightarrow> bool" where
  "risk_ok cfg s c t \<longleftrightarrow> account_enabled s c \<and> \<not> cfg_kill_switch_enabled cfg \<and>
     dadd (symbol_exposure s c) (oc_estimated_amount c) \<le> of_int (cfg_max_order_amount cfg) \<and>
     dadd (day_exposure s c t) (oc_estimated_amount c) \<le> of_int (cfg_max_daily_order_amount cfg) \<and>
     ratio_holds cfg s c \<and> loss_holds cfg s c \<and> no_duplicate s c t"

lemma active_iff: "oc_status c \<in> set active_candidate_statuses \<longleftrightarrow> is_active c"
  by (auto simp: active_candidate_statuses_def is_active_def)

lemma kst_window:
  "kst_start d \<le> t \<and> t < kst_start d + microseconds_per_day \<longleftrightarrow> kst_date t = d"
  unfolding kst_start_def kst_date_def by (subst int_div_eq_iff) (auto simp: microseconds_per_day_def)

lemma hard_id [simp]: "rv_rule_id (hard r m d) = r"
  by (simp add: hard_def)

text \<open>Each check names its rule exactly when the rule fails.\<close>

lemma account_ids: "map rv_rule_id (check_account_paper_enabled (t_get va_id (oc_account_id c) (sn_accounts s))) =
  (if account_enabled s c then [] else [''account_paper_enabled''])"
  by (simp add: check_account_paper_enabled_def account_enabled_def split: option.split)

lemma kill_ids: "map rv_rule_id (check_kill_switch_off cfg) =
  (if \<not> cfg_kill_switch_enabled cfg then [] else [''kill_switch_off''])"
  by (simp add: check_kill_switch_off_def)

lemma symbol_sum:
  "sum_active_candidate_amount s (oc_account_id c) (Some (oc_symbol c)) None (oc_id c) = symbol_exposure s c"
  unfolding sum_active_candidate_amount_def active_candidates_def active_iff symbol_exposure_def
  by (intro arg_cong [where f = dsum] arg_cong [where f = "map oc_estimated_amount"] filter_cong) auto

lemma symbol_ids: "map rv_rule_id (check_per_symbol_limit cfg s c) =
  (if dadd (symbol_exposure s c) (oc_estimated_amount c) \<le> of_int (cfg_max_order_amount cfg)
   then [] else [''per_symbol_limit''])"
  by (auto simp: check_per_symbol_limit_def Let_def symbol_sum)

lemma day_sum:
  "sum_active_candidate_amount s (oc_account_id c) None (Some (kst_date t)) (oc_id c) = day_exposure s c t"
  unfolding sum_active_candidate_amount_def active_candidates_def active_iff day_exposure_def option.case kst_window
  by (intro arg_cong [where f = dsum] arg_cong [where f = "map oc_estimated_amount"] filter_cong) auto

lemma day_ids: "map rv_rule_id (check_daily_total_limit cfg s c t) =
  (if dadd (day_exposure s c t) (oc_estimated_amount c) \<le> of_int (cfg_max_daily_order_amount cfg)
   then [] else [''daily_total_limit''])"
  by (auto simp: check_daily_total_limit_def Let_def day_sum)

lemma ratio_ids: "map rv_rule_id (check_position_ratio_limit cfg s c (t_get va_id (oc_account_id c) (sn_accounts s))) =
  (if ratio_holds cfg s c then [] else [''position_ratio_limit''])"
proof (cases "t_get va_id (oc_account_id c) (sn_accounts s)")
  case (Some a)
  then have "va_id a = oc_account_id c" by (auto dest: t_get_Some)
  with Some show ?thesis
    by (auto simp: check_position_ratio_limit_def ratio_holds_def Let_def)
qed (simp add: check_position_ratio_limit_def ratio_holds_def)

lemma loss_ids: "map rv_rule_id (check_daily_loss_limit cfg s c) =
  (if loss_holds cfg s c then [] else [''daily_loss_limit''])"
  by (auto simp: check_daily_loss_limit_def loss_holds_def Let_def split: option.split)

lemma duplicate_ids: "map rv_rule_id (check_duplicate_recent s c t) =
  (if no_duplicate s c t then [] else [''duplicate_recent''])"
proof -
  have "set (duplicates s c t) = oc_id ` {d \<in> set (sn_candidates s). oc_id d \<noteq> oc_id c \<and> is_active d \<and>
      same_order c d \<and> t - 300000000 < oc_created_at d}"
    unfolding duplicates_def active_iff by (auto simp: same_order_def duplicate_recent_window_def)
  then have "duplicates s c t = [] \<longleftrightarrow> no_duplicate s c t"
    unfolding no_duplicate_def by (metis (mono_tags, lifting) Collect_empty_eq image_is_empty set_empty)
  then show ?thesis
    by (cases "duplicates s c t") (simp_all add: check_duplicate_recent_def)
qed

definition eval_time :: "session \<Rightarrow> int option \<Rightarrow> int" where
  "eval_time s now = (case now of None \<Rightarrow> sn_now s | Some t \<Rightarrow> t)"

lemma evaluate_app:
  "\<exists>r. evaluate cfg c now s = (Inr r, s) \<and> rr_policy_version r = policy_version \<and>
     rr_checked_at r = eval_time s now \<and> (rr_passed r \<longleftrightarrow> rr_violations r = []) \<and>
     map rv_rule_id (rr_violations r) =
       map fst (filter (\<lambda>(rule, holds). \<not> holds) (rule_results cfg s c (eval_time s now)))"
proof -
  let ?t = "eval_time s now" and ?acc = "t_get va_id (oc_account_id c) (sn_accounts s)"
  let ?v = "check_account_paper_enabled ?acc @ check_kill_switch_off cfg @ check_per_symbol_limit cfg s c @
    check_daily_total_limit cfg s c ?t @ check_position_ratio_limit cfg s c ?acc @
    check_daily_loss_limit cfg s c @ check_duplicate_recent s c ?t"
  have "evaluate cfg c now s = (Inr \<lparr>rr_policy_version = policy_version, rr_passed = (?v = []),
      rr_violations = ?v, rr_checked_at = ?t\<rparr>, s)"
    by (cases now) (simp_all add: evaluate_def monad_simps account_get_by_id_def eval_time_def Let_def)
  moreover have "map rv_rule_id ?v =
      map fst (filter (\<lambda>(rule, holds). \<not> holds) (rule_results cfg s c ?t))"
    unfolding map_append account_ids kill_ids symbol_ids day_ids ratio_ids loss_ids duplicate_ids rule_results_def
    by simp
  ultimately show ?thesis
    by (intro exI [of _ "\<lparr>rr_policy_version = policy_version, rr_passed = (?v = []),
      rr_violations = ?v, rr_checked_at = ?t\<rparr>"]) (simp del: append_is_Nil_conv map_append)
qed

lemma evaluate_passed:
  assumes "evaluate cfg c now s = (x, s')"
  shows "\<exists>r. x = Inr r \<and> s' = s \<and> (rr_passed r \<longleftrightarrow> risk_ok cfg s c (eval_time s now)) \<and>
    rr_policy_version r = policy_version"
proof -
  obtain r where r: "evaluate cfg c now s = (Inr r, s)" "rr_policy_version r = policy_version"
    "rr_passed r \<longleftrightarrow> rr_violations r = []"
    "map rv_rule_id (rr_violations r) =
       map fst (filter (\<lambda>(rule, holds). \<not> holds) (rule_results cfg s c (eval_time s now)))"
    using evaluate_app by blast
  have "rr_violations r = [] \<longleftrightarrow> map rv_rule_id (rr_violations r) = []" by simp
  also have "\<dots> \<longleftrightarrow> risk_ok cfg s c (eval_time s now)"
    unfolding r(4) by (simp add: rule_results_def risk_ok_def)
  finally show ?thesis using r assms by auto
qed


end
