(* ===== verification/Sha256.thy ===== *)
theory Sha256
  imports Prelude "HOL-Library.Word"
begin

text \<open>
  \<open>hashlib.sha256(text.encode()).hexdigest()\<close> of the standard library, after FIPS 180-4, on
  32-bit words. The code hashes client addresses, user agents, login keys and broker order
  numbers with it; the development uses that the digest has 64 hexadecimal characters.
\<close>

unbundle bit_operations_syntax

type_synonym w32 = "32 word"

text \<open>
  The round constants are the first 32 bits of the fractional parts of the cube roots of the
  first 64 primes, the initial value those of the square roots of the first eight. \<open>root_bits\<close>
  finds the integer part of a root bit by bit.
\<close>

fun root_bits :: "nat \<Rightarrow> nat \<Rightarrow> nat \<Rightarrow> nat \<Rightarrow> nat" where
  "root_bits k x 0 r = r"
| "root_bits k x (Suc b) r = root_bits k x b (if (r + 2 ^ b) ^ k \<le> x then r + 2 ^ b else r)"

definition root_fraction :: "nat \<Rightarrow> nat \<Rightarrow> w32" where
  "root_fraction k p = word_of_nat (root_bits k (p * 2 ^ (32 * k)) 40 0)"

definition small_primes :: "nat list" where
  "small_primes = [2, 3, 5, 7, 11, 13, 17, 19, 23, 29, 31, 37, 41, 43, 47, 53,
     59, 61, 67, 71, 73, 79, 83, 89, 97, 101, 103, 107, 109, 113, 127, 131,
     137, 139, 149, 151, 157, 163, 167, 173, 179, 181, 191, 193, 197, 199, 211, 223,
     227, 229, 233, 239, 241, 251, 257, 263, 269, 271, 277, 281, 283, 293, 307, 311]"

definition sha_k :: "w32 list" where
  "sha_k = map (root_fraction 3) small_primes"

definition sha_init :: "w32 list" where
  "sha_init = map (root_fraction 2) (take 8 small_primes)"

text \<open>\<open>str.encode()\<close> for the characters of the model, which have code points below 256.\<close>

fun utf8 :: "string \<Rightarrow> nat list" where
  "utf8 [] = []"
| "utf8 (c # cs) = (let n = (of_char c :: nat) in
     (if n < 128 then [n] else [192 + n div 64, 128 + n mod 64]) @ utf8 cs)"

definition be_bytes :: "nat \<Rightarrow> nat list" where
  "be_bytes n = map (\<lambda>i. n div 256 ^ (7 - i) mod 256) [0..<8]"

definition sha_pad :: "nat list \<Rightarrow> nat list" where
  "sha_pad bs = (let l = length bs; z = (119 - l mod 64) mod 64
     in bs @ [128] @ replicate z 0 @ be_bytes (8 * l))"

fun be_words :: "nat list \<Rightarrow> w32 list" where
  "be_words (a # b # c # d # bs) = word_of_nat (a * 2 ^ 24 + b * 2 ^ 16 + c * 2 ^ 8 + d) # be_words bs"
| "be_words bs = []"

text \<open>The message schedule, newest word first.\<close>

fun sha_extend :: "nat \<Rightarrow> w32 list \<Rightarrow> w32 list" where
  "sha_extend 0 ws = ws"
| "sha_extend (Suc n) ws =
     (let x = ws ! 14; y = ws ! 1;
          s0 = (word_rotr 7 x XOR word_rotr 18 x) XOR drop_bit 3 x;
          s1 = (word_rotr 17 y XOR word_rotr 19 y) XOR drop_bit 10 y
      in sha_extend n ((ws ! 15 + s0 + ws ! 6 + s1) # ws))"

definition sha_round :: "w32 \<times> w32 \<Rightarrow> w32 list \<Rightarrow> w32 list" where
  "sha_round kw st = (case st of
     [a, b, c, d, e, f, g, h] \<Rightarrow>
       let s1 = (word_rotr 6 e XOR word_rotr 11 e) XOR word_rotr 25 e;
           ch = (e AND f) XOR (NOT e AND g);
           t1 = h + s1 + ch + fst kw + snd kw;
           s0 = (word_rotr 2 a XOR word_rotr 13 a) XOR word_rotr 22 a;
           maj = ((a AND b) XOR (a AND c)) XOR (b AND c)
       in [t1 + s0 + maj, a, b, c, d + t1, e, f, g]
   | _ \<Rightarrow> st)"

definition sha_rounds :: "(w32 \<times> w32) list \<Rightarrow> w32 list \<Rightarrow> w32 list" where
  "sha_rounds kws st = fold sha_round kws st"

definition sha_block :: "w32 list \<Rightarrow> w32 list \<Rightarrow> w32 list" where
  "sha_block st block = map2 (+) st (sha_rounds (zip sha_k (rev (sha_extend 48 (rev block)))) st)"

fun sha_blocks :: "nat \<Rightarrow> w32 list \<Rightarrow> w32 list \<Rightarrow> w32 list" where
  "sha_blocks 0 st ws = st"
| "sha_blocks (Suc n) st ws = sha_blocks n (sha_block st (take 16 ws)) (drop 16 ws)"

definition sha256 :: "nat list \<Rightarrow> w32 list" where
  "sha256 bs = (let ws = be_words (sha_pad bs) in sha_blocks (length ws div 16) sha_init ws)"

definition hex_digit :: "nat \<Rightarrow> char" where
  "hex_digit n = char_of (if n < 10 then 48 + n else 87 + n)"

definition hex_word :: "w32 \<Rightarrow> string" where
  "hex_word w = map (\<lambda>i. hex_digit (unat w div 16 ^ (7 - i) mod 16)) [0..<8]"

definition sha256_hex :: "string \<Rightarrow> string" where
  "sha256_hex s = concat (map hex_word (sha256 (utf8 s)))"

subsection \<open>The digest has 64 hexadecimal characters\<close>

lemma sha_round_length: "length (sha_round kw st) = length st"
  by (simp add: sha_round_def Let_def split: list.split)

lemma sha_rounds_length: "length (sha_rounds kws st) = length st"
  unfolding sha_rounds_def by (induction kws arbitrary: st) (simp_all add: sha_round_length)

lemma sha_blocks_length: "length st = 8 \<Longrightarrow> length (sha_blocks n st ws) = 8"
  by (induction n st ws rule: sha_blocks.induct) (simp_all add: sha_block_def sha_rounds_length)

lemma concat_length: "(\<And>x. x \<in> set xs \<Longrightarrow> length x = n) \<Longrightarrow> length (concat xs) = n * length xs"
  by (induction xs) auto

lemma sha256_hex_length [simp]: "length (sha256_hex s) = 64"
proof -
  have "length small_primes = 64" by (simp add: small_primes_def)
  then have "length (sha256 (utf8 s)) = 8"
    by (simp add: sha256_def Let_def sha_blocks_length sha_init_def)
  moreover have "length (sha256_hex s) = 8 * length (map hex_word (sha256 (utf8 s)))"
    unfolding sha256_hex_def by (rule concat_length) (auto simp: hex_word_def)
  ultimately show ?thesis by simp
qed

definition is_hex :: "char \<Rightarrow> bool" where
  "is_hex c \<longleftrightarrow> c \<in> set ''0123456789abcdef''"

lemma hex_digit_hex: "n < 16 \<Longrightarrow> is_hex (hex_digit n)"
proof -
  have "\<forall>n \<in> set [0..<16]. is_hex (hex_digit n)" by code_simp
  then show "n < 16 \<Longrightarrow> is_hex (hex_digit n)" by simp
qed

lemma sha256_hex_hex: "c \<in> set (sha256_hex s) \<Longrightarrow> is_hex c"
  by (auto simp: sha256_hex_def hex_word_def intro!: hex_digit_hex)

end
