(* ===== verification/Kis_Transport.thy ===== *)
theory Kis_Transport
  imports Kis_Client
begin

text \<open>
  The HTTP client of the broker, \<^verbatim>\<open>app/broker/kis_order_transport_real.py\<close>. The library httpx
  and the server behind it are a parameter: \<open>server sent q\<close> is what happens to request \<open>q\<close>
  after the requests \<open>sent\<close>; the state of the client is the list of the requests it sent, so
  the retry policy is a statement about this list. A reply carries the status code and the
  parsed body, \<open>None\<close> when it is not JSON.
\<close>

subsection \<open>Parsed replies\<close>

datatype reply = RNull | RBool bool | RInt int | RFloat string | RStr string
  | RList "reply list" | RDict "(string \<times> reply) list"

text \<open>\<open>str\<close> and truth of a parsed value; a float carries the text Python prints for it.\<close>

fun reply_repr :: "reply \<Rightarrow> string" where
  "reply_repr RNull = ''None''"
| "reply_repr (RBool b) = (if b then ''True'' else ''False'')"
| "reply_repr (RInt i) = str_of_int i"
| "reply_repr (RFloat t) = t"
| "reply_repr (RStr s) = py_repr s"
| "reply_repr (RList xs) = ''['' @ py_join '', '' (map reply_repr xs) @ '']''"
| "reply_repr (RDict kvs) =
     ''{'' @ py_join '', '' (map (\<lambda>(k, v). py_repr k @ '': '' @ reply_repr v) kvs) @ ''}''"

definition reply_str :: "reply \<Rightarrow> string" where
  "reply_str r = (case r of RStr s \<Rightarrow> s | _ \<Rightarrow> reply_repr r)"

fun truthy :: "reply \<Rightarrow> bool" where
  "truthy RNull = False"
| "truthy (RBool b) = b"
| "truthy (RInt i) = (i \<noteq> 0)"
| "truthy (RFloat t) = (t \<notin> {''0.0'', ''-0.0''})"
| "truthy (RStr s) = (s \<noteq> [])"
| "truthy (RList xs) = (xs \<noteq> [])"
| "truthy (RDict kvs) = (kvs \<noteq> [])"

text \<open>\<open>str(d.get(k) or default)\<close>.\<close>

definition text_field :: "(string \<times> reply) list \<Rightarrow> string \<Rightarrow> string \<Rightarrow> string" where
  "text_field d k dflt = (case map_of d k of
     None \<Rightarrow> dflt | Some v \<Rightarrow> if truthy v then reply_str v else dflt)"

definition int_field :: "(string \<times> reply) list \<Rightarrow> string \<Rightarrow> int" where
  "int_field d k = (case py_int (text_field d k ''0'') of None \<Rightarrow> 0 | Some n \<Rightarrow> n)"

subsection \<open>Requests over HTTP\<close>

record http_request =
  hq_verb :: string
  hq_path :: string
  hq_headers :: "(string \<times> json) list"
  hq_payload :: "(string \<times> json) list"
  hq_timeout :: string

datatype http_outcome = HTimeout | HNetwork string | HRaise | HReply int "reply option"

type_synonym kis_server = "http_request list \<Rightarrow> http_request \<Rightarrow> http_outcome"
type_synonym 'a http = "(http_request list, py_error, 'a) action"

definition http_send :: "kis_server \<Rightarrow> http_request \<Rightarrow> http_outcome http" where
  "http_send server q = (\<lambda>sent. (Inr (server sent q), sent @ [q]))"

subsection \<open>Retries\<close>

text \<open>An attempt returns its result and whether it may be retried; the argument is \<open>max_retries\<close>.\<close>

fun run_with_retries :: "nat \<Rightarrow> ('c, py_error, 'r \<times> bool) action \<Rightarrow> ('c, py_error, 'r) action" where
  "run_with_retries 0 operation = sbind operation (\<lambda>(result, _). sret result)"
| "run_with_retries (Suc n) operation = sbind operation (\<lambda>(result, should_retry).
     if should_retry then run_with_retries n operation else sret result)"

definition place_order_max_retries :: nat where "place_order_max_retries = 0"
definition query_fill_max_retries :: nat where "query_fill_max_retries = 2"
definition cancel_order_max_retries :: nat where "cancel_order_max_retries = 2"

subsection \<open>The client\<close>

record kis_config =
  kc_base_url :: string
  kc_app_key :: string
  kc_app_secret :: string
  kc_access_token :: string
  kc_account_no :: string
  kc_user_agent :: string
  kc_place_timeout :: string
  kc_query_timeout :: string
  kc_cancel_timeout :: string

definition place_order_path :: string where
  "place_order_path = ''/uapi/domestic-stock/v1/trading/order-cash''"
definition query_fill_path :: string where
  "query_fill_path = ''/uapi/domestic-stock/v1/trading/inquire-ccnl''"
definition cancel_order_path :: string where
  "cancel_order_path = ''/uapi/domestic-stock/v1/trading/order-rvsecncl''"

definition transport_repr :: "kis_config \<Rightarrow> string" where
  "transport_repr kc = ''HttpxKisOrderTransport(base_url='' @ py_repr (kc_base_url kc) @
     '', account_no='' @ py_repr (mask_account_no (kc_account_no kc)) @ '')''"

definition transport_dict :: "kis_config \<Rightarrow> (string \<times> json) list" where
  "transport_dict kc = [(''base_url'', JStr (kc_base_url kc)),
     (''account_no_masked'', JStr (mask_account_no (kc_account_no kc))),
     (''user_agent'', JStr (kc_user_agent kc))]"

definition kis_headers :: "kis_config \<Rightarrow> string \<Rightarrow> (string \<times> json) list" where
  "kis_headers kc tr_id = [(''content-type'', JStr ''application/json; charset=utf-8''),
     (''authorization'', JStr (''Bearer '' @ kc_access_token kc)), (''appkey'', JStr (kc_app_key kc)),
     (''appsecret'', JStr (kc_app_secret kc)), (''tr_id'', JStr tr_id)]"

definition account_split :: "kis_config \<Rightarrow> string \<times> string" where
  "account_split kc = (let acct = kc_account_no kc in
     if 10 \<le> length acct then (take 8 acct, take 2 (drop 8 acct))
     else if 8 \<le> length acct then (take 8 acct, ''01'')
     else (acct, ''01''))"

subsubsection \<open>Placing an order\<close>

definition place_body :: "kis_config \<Rightarrow> kis_request \<Rightarrow> (string \<times> json) list" where
  "place_body kc q = (let (cano, acnt_prdt_cd) = account_split kc in
     [(''CANO'', JStr cano), (''ACNT_PRDT_CD'', JStr acnt_prdt_cd), (''PDNO'', JStr (kq_symbol q)),
      (''ORD_DVSN'', JStr (if kq_order_type q = ''MARKET'' then ''01'' else ''00'')),
      (''ORD_QTY'', JStr (str_of_int (kq_quantity q))),
      (''ORD_UNPR'', JStr (if kq_order_type q = ''LIMIT'' then str_of_int (kq_price q) else ''0''))])"

text \<open>The payload of the debug message that announces the request.\<close>

definition place_log_payload :: "kis_config \<Rightarrow> kis_request \<Rightarrow> (string \<times> json) list" where
  "place_log_payload kc q = mask_sensitive_order_payload (place_body kc q)"

definition place_request :: "kis_config \<Rightarrow> kis_request \<Rightarrow> http_request" where
  "place_request kc q = \<lparr>hq_verb = ''POST'', hq_path = place_order_path,
     hq_headers = kis_headers kc (if kq_side q = ''BUY'' then ''VTTC0802U'' else ''VTTC0801U''),
     hq_payload = place_body kc q, hq_timeout = kc_place_timeout kc\<rparr>"

definition failed_order :: "string \<Rightarrow> kis_order_result" where
  "failed_order message = \<lparr>or_success = False, or_order_no = [], or_message = message\<rparr>"

definition labelled :: "string \<Rightarrow> string \<Rightarrow> string" where
  "labelled label msg1 = (if msg1 = [] then label else label @ '': '' @ msg1)"

definition business_error :: "string \<Rightarrow> string \<Rightarrow> string \<Rightarrow> string" where
  "business_error label rt_cd msg1 =
     py_strip (label @ '': rt_cd='' @ (if rt_cd = [] then ''?'' else rt_cd) @ '' '' @ msg1)"

definition classify_place_response :: "int \<Rightarrow> reply option \<Rightarrow> kis_order_result" where
  "classify_place_response status_code body =
     (if 500 \<le> status_code then failed_order (''UNKNOWN: KIS HTTP '' @ str_of_int status_code @ '' (server error)'')
      else if 400 \<le> status_code then failed_order (''REJECTED: KIS HTTP '' @ str_of_int status_code)
      else if status_code \<noteq> 200 then failed_order (''UNKNOWN: KIS HTTP '' @ str_of_int status_code)
      else case body of
        None \<Rightarrow> failed_order ''UNKNOWN: KIS HTTP 200 but body is not valid JSON''
      | Some (RDict payload) \<Rightarrow>
          let rt_cd = text_field payload ''rt_cd'' [];
              msg1 = take 120 (text_field payload ''msg1'' [])
          in if rt_cd = ''0''
             then \<lparr>or_success = True,
                   or_order_no = (case map_of payload ''output'' of
                     Some (RDict output) \<Rightarrow> text_field output ''ODNO'' [] | _ \<Rightarrow> []),
                   or_message = labelled ''SUBMITTED'' msg1\<rparr>
             else failed_order (business_error ''REJECTED'' rt_cd msg1)
      | Some _ \<Rightarrow> failed_order ''UNKNOWN: KIS HTTP 200 but body is not a JSON object'')"

definition place_attempt :: "kis_config \<Rightarrow> kis_server \<Rightarrow> kis_request \<Rightarrow> (kis_order_result \<times> bool) http" where
  "place_attempt kc server q = sbind (http_send server (place_request kc q)) (\<lambda>outcome.
     case outcome of
       HTimeout \<Rightarrow> sret (failed_order (''TIMEOUT: KIS place_order exceeded '' @ kc_place_timeout kc @ ''s''), True)
     | HNetwork e \<Rightarrow> sret (failed_order (''NETWORK_ERROR: '' @ e), True)
     | HRaise \<Rightarrow> sthrow TransportError
     | HReply status_code body \<Rightarrow> sret (classify_place_response status_code body, False))"

definition httpx_place_order :: "kis_config \<Rightarrow> kis_server \<Rightarrow> kis_request \<Rightarrow> kis_order_result http" where
  "httpx_place_order kc server q = run_with_retries place_order_max_retries (place_attempt kc server q)"

subsubsection \<open>Querying the fills\<close>

definition query_request :: "kis_config \<Rightarrow> string \<Rightarrow> http_request" where
  "query_request kc order_no = (let (cano, acnt_prdt_cd) = account_split kc in
     \<lparr>hq_verb = ''GET'', hq_path = query_fill_path, hq_headers = kis_headers kc ''VTTC8001R'',
      hq_payload = [(''CANO'', JStr cano), (''ACNT_PRDT_CD'', JStr acnt_prdt_cd), (''ODNO'', JStr order_no)],
      hq_timeout = kc_query_timeout kc\<rparr>)"

definition fill_status_map :: "string \<Rightarrow> string" where
  "fill_status_map cls = (if cls = ''FULL'' then ''FILLED'' else if cls = ''PARTIAL'' then ''PARTIALLY_FILLED''
     else if cls = ''REJECTED'' then ''REJECTED'' else if cls = ''CANCELED'' then ''CANCELED'' else ''PENDING'')"

definition fill_success_map :: "string \<Rightarrow> bool" where
  "fill_success_map cls \<longleftrightarrow> cls \<in> {''FULL'', ''PARTIAL'', ''NONE''}"

definition make_http_fill :: "bool \<Rightarrow> string \<Rightarrow> int \<Rightarrow> int \<Rightarrow> string \<Rightarrow> string \<Rightarrow> kis_fill_result" where
  "make_http_fill success order_no filled remaining status message =
     \<lparr>fr_success = success, fr_order_no = order_no, fr_filled_quantity = filled,
      fr_remaining_quantity = remaining, fr_status = status, fr_message = message\<rparr>"

definition unknown_fill :: "string \<Rightarrow> string \<Rightarrow> kis_fill_result" where
  "unknown_fill order_no message = make_http_fill False order_no 0 0 ''PENDING'' message"

definition fill_class :: "int \<Rightarrow> int \<Rightarrow> string \<Rightarrow> string \<Rightarrow> string" where
  "fill_class ordered filled cancel_flag reject_flag =
     (if reject_flag = ''Y'' then ''REJECTED''
      else if cancel_flag = ''Y'' then ''CANCELED''
      else if 0 < filled \<and> ordered \<le> filled \<and> 0 < ordered then ''FULL''
      else if 0 < filled \<and> filled < ordered then ''PARTIAL''
      else if filled = 0 then ''NONE''
      else ''UNKNOWN'')"

text \<open>\<open>output1[0]\<close>, or \<open>output1\<close> itself when it is an object.\<close>

definition fill_record :: "(string \<times> reply) list \<Rightarrow> (string \<times> reply) list option" where
  "fill_record payload = (case map_of payload ''output1'' of
     Some (RList (RDict r # rest)) \<Rightarrow> Some r
   | Some (RDict r) \<Rightarrow> Some r
   | _ \<Rightarrow> None)"

definition classify_http_fill :: "int \<Rightarrow> reply option \<Rightarrow> string \<Rightarrow> kis_fill_result" where
  "classify_http_fill status_code body order_no =
     (if 400 \<le> status_code \<or> status_code \<noteq> 200
      then unknown_fill order_no (''UNKNOWN: KIS HTTP '' @ str_of_int status_code)
      else case body of
        None \<Rightarrow> unknown_fill order_no ''UNKNOWN: KIS HTTP 200 but body is not valid JSON''
      | Some (RDict payload) \<Rightarrow>
          let rt_cd = text_field payload ''rt_cd'' [];
              msg1 = take 120 (text_field payload ''msg1'' [])
          in if rt_cd \<noteq> ''0'' then unknown_fill order_no (business_error ''UNKNOWN'' rt_cd msg1)
             else case fill_record payload of
               None \<Rightarrow> make_http_fill True order_no 0 0 (fill_status_map ''NONE'') (labelled ''NONE'' msg1)
             | Some r \<Rightarrow>
                 let ordered = int_field r ''ord_qty'';
                     filled = int_field r ''tot_ccld_qty'';
                     cancel_flag = py_upper (text_field r ''cncl_yn'' ''N'');
                     reject_flag = py_upper (text_field r ''rjct_yn'' ''N'');
                     remaining = max 0 (ordered - filled);
                     cls = fill_class ordered filled cancel_flag reject_flag
                 in make_http_fill (fill_success_map cls) order_no filled remaining (fill_status_map cls)
                      (labelled cls msg1)
      | Some _ \<Rightarrow> unknown_fill order_no ''UNKNOWN: KIS HTTP 200 but body is not a JSON object'')"

definition query_attempt :: "kis_config \<Rightarrow> kis_server \<Rightarrow> string \<Rightarrow> (kis_fill_result \<times> bool) http" where
  "query_attempt kc server order_no = sbind (http_send server (query_request kc order_no)) (\<lambda>outcome.
     case outcome of
       HTimeout \<Rightarrow> sret (unknown_fill order_no (''UNKNOWN: TIMEOUT after '' @ kc_query_timeout kc @ ''s''), True)
     | HNetwork e \<Rightarrow> sret (unknown_fill order_no (''UNKNOWN: NETWORK_ERROR: '' @ e), True)
     | HRaise \<Rightarrow> sthrow TransportError
     | HReply status_code body \<Rightarrow> sret (classify_http_fill status_code body order_no, False))"

definition httpx_query_fill :: "kis_config \<Rightarrow> kis_server \<Rightarrow> string \<Rightarrow> kis_fill_result http" where
  "httpx_query_fill kc server order_no = run_with_retries query_fill_max_retries (query_attempt kc server order_no)"

subsubsection \<open>Cancelling an order\<close>

definition cancel_request :: "kis_config \<Rightarrow> string \<Rightarrow> http_request" where
  "cancel_request kc order_no = (let (cano, acnt_prdt_cd) = account_split kc in
     \<lparr>hq_verb = ''POST'', hq_path = cancel_order_path, hq_headers = kis_headers kc ''VTTC0803U'',
      hq_payload = [(''CANO'', JStr cano), (''ACNT_PRDT_CD'', JStr acnt_prdt_cd),
        (''KRX_FWDG_ORD_ORGNO'', JStr []), (''ORGN_ODNO'', JStr order_no), (''ORD_DVSN'', JStr ''00''),
        (''RVSE_CNCL_DVSN_CD'', JStr ''02''), (''ORD_QTY'', JStr ''0''), (''ORD_UNPR'', JStr ''0''),
        (''QTY_ALL_ORD_YN'', JStr ''Y'')],
      hq_timeout = kc_cancel_timeout kc\<rparr>)"

definition cancel_result :: "bool \<Rightarrow> string \<Rightarrow> string \<Rightarrow> kis_cancel_result" where
  "cancel_result success order_no message =
     \<lparr>xr_success = success, xr_order_no = order_no, xr_message = message\<rparr>"

definition classify_cancel_response :: "int \<Rightarrow> reply option \<Rightarrow> string \<Rightarrow> kis_cancel_result" where
  "classify_cancel_response status_code body order_no =
     (if 500 \<le> status_code
        then cancel_result False order_no (''UNKNOWN: KIS HTTP '' @ str_of_int status_code @ '' (server error)'')
      else if 400 \<le> status_code then cancel_result False order_no (''REJECTED: KIS HTTP '' @ str_of_int status_code)
      else if status_code \<noteq> 200 then cancel_result False order_no (''UNKNOWN: KIS HTTP '' @ str_of_int status_code)
      else case body of
        None \<Rightarrow> cancel_result False order_no ''UNKNOWN: KIS HTTP 200 but body is not valid JSON''
      | Some (RDict payload) \<Rightarrow>
          let rt_cd = text_field payload ''rt_cd'' [];
              msg1 = take 120 (text_field payload ''msg1'' [])
          in if rt_cd = ''0'' then cancel_result True order_no (labelled ''CANCELED'' msg1)
             else cancel_result False order_no (business_error ''REJECTED'' rt_cd msg1)
      | Some _ \<Rightarrow> cancel_result False order_no ''UNKNOWN: KIS HTTP 200 but body is not a JSON object'')"

definition cancel_attempt :: "kis_config \<Rightarrow> kis_server \<Rightarrow> string \<Rightarrow> (kis_cancel_result \<times> bool) http" where
  "cancel_attempt kc server order_no = sbind (http_send server (cancel_request kc order_no)) (\<lambda>outcome.
     case outcome of
       HTimeout \<Rightarrow> sret (cancel_result False order_no
         (''TIMEOUT: KIS cancel_order exceeded '' @ kc_cancel_timeout kc @ ''s''), True)
     | HNetwork e \<Rightarrow> sret (cancel_result False order_no (''NETWORK_ERROR: '' @ e), True)
     | HRaise \<Rightarrow> sthrow TransportError
     | HReply status_code body \<Rightarrow> sret (classify_cancel_response status_code body order_no, False))"

definition httpx_cancel_order :: "kis_config \<Rightarrow> kis_server \<Rightarrow> string \<Rightarrow> kis_cancel_result http" where
  "httpx_cancel_order kc server order_no =
     run_with_retries cancel_order_max_retries (cancel_attempt kc server order_no)"

definition httpx_transport :: "kis_config \<Rightarrow> kis_server \<Rightarrow> http_request list kis_transport" where
  "httpx_transport kc server = \<lparr>kt_fake = False, kt_place = httpx_place_order kc server,
     kt_query = httpx_query_fill kc server, kt_cancel = httpx_cancel_order kc server\<rparr>"

subsection \<open>Facts about texts\<close>

lemma strip_prefix:
  assumes "p \<noteq> []" and "\<not> is_space (hd p)" and "\<not> is_space (last p)"
  shows "\<exists>r. py_strip (p @ x) = p @ r"
proof -
  have "dropWhile is_space (p @ x) = p @ x" using assms(1,2) by (cases p) auto
  moreover have "\<exists>r. rev (dropWhile is_space (rev (p @ x))) = p @ r"
  proof (cases "\<forall>c \<in> set (rev x). is_space c")
    case True
    then have "dropWhile is_space (rev x @ rev p) = dropWhile is_space (rev p)" by (subst dropWhile_append2) auto
    also have "\<dots> = rev p" using assms(1,3) by (cases p rule: rev_cases) auto
    finally show ?thesis by simp
  next
    case False
    then obtain c where "c \<in> set (rev x)" "\<not> is_space c" by blast
    then have "dropWhile is_space (rev x @ rev p) = dropWhile is_space (rev x) @ rev p" by (rule dropWhile_append1)
    then show ?thesis by simp
  qed
  ultimately show ?thesis by (simp add: py_strip_def)
qed

lemma business_error_prefix:
  assumes "label \<noteq> []" and "\<not> is_space (hd label)"
  shows "\<exists>r. business_error label rt_cd msg1 = label @ CHR '':'' # r"
proof -
  have "\<exists>r. py_strip ((label @ '': rt_cd='') @ x) = (label @ '': rt_cd='') @ r" for x
    using assms by (intro strip_prefix) (auto simp: is_space_def hd_append)
  then obtain r where "business_error label rt_cd msg1 = (label @ '': rt_cd='') @ r"
    unfolding business_error_def by fastforce
  then show ?thesis by simp
qed

lemma nat_digits_ok: "digits_ok (nat_digits n @ cs) \<longleftrightarrow> (cs = [] \<or> digits_ok (CHR ''0'' # cs))"
proof (induction n arbitrary: cs rule: nat_digits.induct)
  case (1 n)
  have dig: "is_digit (char_of (48 + d))" "char_of (48 + d) \<noteq> CHR ''_''" if "d < 10" for d :: nat
  proof -
    have "of_char (char_of (48 + d) :: char) = 48 + d" using that by simp
    moreover have "\<not> is_digit (CHR ''_'')" by (simp add: is_digit_def)
    ultimately have "is_digit (char_of (48 + d)) \<and> char_of (48 + d) \<noteq> CHR ''_''"
      using that unfolding is_digit_def Let_def by fastforce
    then show "is_digit (char_of (48 + d))" "char_of (48 + d) \<noteq> CHR ''_''" by blast+
  qed
  have zero: "is_digit (CHR ''0'')" by (simp add: is_digit_def)
  have one: "digits_ok (c # cs) \<longleftrightarrow> (cs = [] \<or> digits_ok (CHR ''0'' # cs))" if "is_digit c" for c
    using that zero by (cases cs) auto
  show ?case
  proof (cases "n < 10")
    case True
    then show ?thesis by (subst nat_digits.simps) (simp add: one dig)
  next
    case False
    have "digits_ok (CHR ''0'' # char_of (48 + n mod 10) # cs) \<longleftrightarrow> digits_ok (char_of (48 + n mod 10) # cs)"
      using dig [of "n mod 10"] zero by simp
    with 1 [OF False, of "char_of (48 + n mod 10) # cs"] False show ?thesis
      by (subst nat_digits.simps) (simp add: one [OF dig(1)])
  qed
qed

lemma nat_digits_chars: "c \<in> set (nat_digits n) \<Longrightarrow> is_digit c"
proof (induction n rule: nat_digits.induct)
  case (1 n)
  have "\<forall>d \<in> set [0..<10 :: nat]. is_digit (char_of (48 + d))" by code_simp
  then have "is_digit (char_of (48 + d))" if "d < 10" for d :: nat using that by simp
  with 1 show ?case by (subst (asm) nat_digits.simps) (auto split: if_splits)
qed

lemma nat_digits_nonempty: "nat_digits n \<noteq> []"
  by (subst nat_digits.simps) simp

lemma py_strip_id:
  assumes "s \<noteq> []" and "\<not> is_space (hd s)" and "\<not> is_space (last s)"
  shows "py_strip s = s"
proof -
  have "dropWhile is_space s = s" using assms(1,2) by (cases s) auto
  moreover have "dropWhile is_space (rev s) = rev s" using assms(1,3) by (cases s rule: rev_cases) auto
  ultimately show ?thesis by (simp add: py_strip_def)
qed

lemma digit_not: "is_digit c \<Longrightarrow> \<not> is_space c \<and> c \<noteq> CHR ''-'' \<and> c \<noteq> CHR ''+'' \<and> c \<noteq> CHR ''_''"
  by (auto simp: is_digit_def is_space_def Let_def)

text \<open>
  Reading an integer is the inverse of printing it: \<open>int(str(n)) = n\<close> for every integer,
  so quantities and prices survive the text of a request.
\<close>

lemma int_text_roundtrip: "py_int (str_of_int n) = Some n"
proof -
  have ds: "filter (\<lambda>c. c \<noteq> CHR ''_'') (nat_digits m) = nat_digits m" for m
    using nat_digits_chars digit_not by (intro filter_True) blast
  have ok: "digits_ok (nat_digits m)" for m using nat_digits_ok [of m "[]"] by simp
  have edge: "is_digit (hd (nat_digits m))" "is_digit (last (nat_digits m))" for m
    using nat_digits_nonempty nat_digits_chars by (metis hd_in_set, metis last_in_set)
  show ?thesis
  proof (cases "n < 0")
    case True
    have "py_strip (CHR ''-'' # nat_digits (nat (- n))) = CHR ''-'' # nat_digits (nat (- n))"
      using edge(2) [of "nat (- n)"] digit_not nat_digits_nonempty
      by (intro py_strip_id) (auto simp: is_space_def)
    with True show ?thesis by (simp add: py_int_def str_of_int_def ds ok digits_val_nat_digits)
  next
    case False
    obtain c cs where c: "nat_digits (nat n) = c # cs" using nat_digits_nonempty by (cases "nat_digits (nat n)") auto
    then have "is_digit c" using edge(1) [of "nat n"] by simp
    have "py_strip (nat_digits (nat n)) = nat_digits (nat n)"
      using edge digit_not nat_digits_nonempty by (intro py_strip_id) auto
    with False \<open>is_digit c\<close> c ds [of "nat n"] ok [of "nat n"] digits_val_nat_digits [of "nat n"] show ?thesis
      by (simp add: py_int_def str_of_int_def digit_not)
  qed
qed

subsection \<open>The retry policy\<close>

definition transient :: "http_outcome \<Rightarrow> bool" where
  "transient out \<longleftrightarrow> (case out of HTimeout \<Rightarrow> True | HNetwork e \<Rightarrow> True | _ \<Rightarrow> False)"

text \<open>An attempt sends one request and turns its outcome into a result; only transient outcomes
  may be retried.\<close>

definition attempts :: "kis_server \<Rightarrow> http_request \<Rightarrow> (http_outcome \<Rightarrow> 'r) \<Rightarrow> ('r \<times> bool) http" where
  "attempts server q res = (\<lambda>sent. (case server sent q of HRaise \<Rightarrow> Inl TransportError
     | out \<Rightarrow> Inr (res out, transient out), sent @ [q]))"

definition final_result :: "(http_outcome \<Rightarrow> 'r) \<Rightarrow> http_outcome \<Rightarrow> py_error + 'r" where
  "final_result res out = (case out of HRaise \<Rightarrow> Inl TransportError | _ \<Rightarrow> Inr (res out))"

lemma run_attempts:
  "\<exists>k. run_with_retries n (attempts server q res) sent =
       (final_result res (server (sent @ replicate k q) q), sent @ replicate (Suc k) q) \<and> k \<le> n \<and>
     (\<forall>j < k. transient (server (sent @ replicate j q) q)) \<and>
     (k < n \<longrightarrow> \<not> transient (server (sent @ replicate k q) q))"
proof (induction n arbitrary: sent)
  case 0
  show ?case
    by (intro exI [of _ 0]) (simp add: sbind_app attempts_def final_result_def sret_app split: http_outcome.split)
next
  case (Suc n)
  show ?case
  proof (cases "transient (server sent q)")
    case True
    from Suc.IH [of "sent @ [q]"] obtain k where k:
      "run_with_retries n (attempts server q res) (sent @ [q]) =
         (final_result res (server ((sent @ [q]) @ replicate k q) q), (sent @ [q]) @ replicate (Suc k) q)"
      "k \<le> n" "\<forall>j < k. transient (server ((sent @ [q]) @ replicate j q) q)"
      "k < n \<longrightarrow> \<not> transient (server ((sent @ [q]) @ replicate k q) q)" by blast
    have rep: "(sent @ [q]) @ replicate j q = sent @ replicate (Suc j) q" for j by simp
    have "run_with_retries (Suc n) (attempts server q res) sent = run_with_retries n (attempts server q res) (sent @ [q])"
      using True by (simp add: sbind_app attempts_def transient_def split: http_outcome.splits)
    moreover have "\<forall>j < Suc k. transient (server (sent @ replicate j q) q)"
      using k(3) True unfolding rep by (metis append_Nil2 less_Suc_eq_0_disj replicate_0)
    ultimately show ?thesis using k unfolding rep by (intro exI [of _ "Suc k"]) simp
  next
    case False
    then show ?thesis
      by (intro exI [of _ 0])
        (simp add: sbind_app attempts_def final_result_def transient_def sret_app split: http_outcome.splits)
  qed
qed

definition place_outcome :: "kis_config \<Rightarrow> http_outcome \<Rightarrow> kis_order_result" where
  "place_outcome kc out = (case out of
       HReply status_code body \<Rightarrow> classify_place_response status_code body
     | HNetwork e \<Rightarrow> failed_order (''NETWORK_ERROR: '' @ e)
     | _ \<Rightarrow> failed_order (''TIMEOUT: KIS place_order exceeded '' @ kc_place_timeout kc @ ''s''))"

definition query_outcome :: "kis_config \<Rightarrow> string \<Rightarrow> http_outcome \<Rightarrow> kis_fill_result" where
  "query_outcome kc order_no out = (case out of
       HReply status_code body \<Rightarrow> classify_http_fill status_code body order_no
     | HNetwork e \<Rightarrow> unknown_fill order_no (''UNKNOWN: NETWORK_ERROR: '' @ e)
     | _ \<Rightarrow> unknown_fill order_no (''UNKNOWN: TIMEOUT after '' @ kc_query_timeout kc @ ''s''))"

definition cancel_outcome :: "kis_config \<Rightarrow> string \<Rightarrow> http_outcome \<Rightarrow> kis_cancel_result" where
  "cancel_outcome kc order_no out = (case out of
       HReply status_code body \<Rightarrow> classify_cancel_response status_code body order_no
     | HNetwork e \<Rightarrow> cancel_result False order_no (''NETWORK_ERROR: '' @ e)
     | _ \<Rightarrow> cancel_result False order_no (''TIMEOUT: KIS cancel_order exceeded '' @ kc_cancel_timeout kc @ ''s''))"

lemma place_attempts: "place_attempt kc server q = attempts server (place_request kc q) (place_outcome kc)"
  by (rule ext) (simp add: place_attempt_def attempts_def sbind_app http_send_def place_outcome_def transient_def
      sret_app sthrow_app split: http_outcome.split)

lemma query_attempts: "query_attempt kc server r = attempts server (query_request kc r) (query_outcome kc r)"
  by (rule ext) (simp add: query_attempt_def attempts_def sbind_app http_send_def query_outcome_def transient_def
      sret_app sthrow_app split: http_outcome.split)

lemma cancel_attempts: "cancel_attempt kc server r = attempts server (cancel_request kc r) (cancel_outcome kc r)"
  by (rule ext) (simp add: cancel_attempt_def attempts_def sbind_app http_send_def cancel_outcome_def transient_def
      sret_app sthrow_app split: http_outcome.split)

lemma place_app:
  "httpx_place_order kc server q sent = (final_result (place_outcome kc) (server sent (place_request kc q)),
     sent @ [place_request kc q])"
  using run_attempts [of 0 server "place_request kc q" "place_outcome kc" sent]
  by (simp add: httpx_place_order_def place_order_max_retries_def place_attempts del: run_with_retries.simps)

text \<open>
  An order is placed at most once. \<open>place_order\<close> sends exactly one request, whatever
  happens to it, a timeout included; a query or a cancellation sends between one and three
  times the same request, each one after the first because all before it ended in a timeout or a
  network error, and stops at the first definite answer.
\<close>

lemma requests_bounded:
  "snd (httpx_place_order kc server q sent) = sent @ [place_request kc q] \<and>
   (\<exists>k \<le> 2. snd (httpx_query_fill kc server r sent) = sent @ replicate (Suc k) (query_request kc r) \<and>
      (\<forall>j < k. transient (server (sent @ replicate j (query_request kc r)) (query_request kc r))) \<and>
      (k < 2 \<longrightarrow> \<not> transient (server (sent @ replicate k (query_request kc r)) (query_request kc r)))) \<and>
   (\<exists>k \<le> 2. snd (httpx_cancel_order kc server r sent) = sent @ replicate (Suc k) (cancel_request kc r) \<and>
      (\<forall>j < k. transient (server (sent @ replicate j (cancel_request kc r)) (cancel_request kc r))) \<and>
      (k < 2 \<longrightarrow> \<not> transient (server (sent @ replicate k (cancel_request kc r)) (cancel_request kc r))))"
proof (intro conjI)
  show "snd (httpx_place_order kc server q sent) = sent @ [place_request kc q]" by (simp add: place_app)
qed (use run_attempts [of 2 server "query_request kc r" "query_outcome kc r" sent]
    run_attempts [of 2 server "cancel_request kc r" "cancel_outcome kc r" sent] in
    \<open>auto simp: httpx_query_fill_def httpx_cancel_order_def query_fill_max_retries_def
      cancel_order_max_retries_def query_attempts cancel_attempts simp del: run_with_retries.simps\<close>)

definition dead_server :: kis_server where
  "dead_server sent q = HTimeout"

definition demo_config :: kis_config where
  "demo_config = \<lparr>kc_base_url = ''https://kis'', kc_app_key = ''key'', kc_app_secret = ''hidden'',
     kc_access_token = ''t'', kc_account_no = ''1234567801'', kc_user_agent = ''ua'',
     kc_place_timeout = ''5'', kc_query_timeout = ''5'', kc_cancel_timeout = ''5''\<rparr>"

lemma requests_bounded_witness:
  "snd (httpx_place_order demo_config dead_server (demo_request ''1234567801'') []) =
     [place_request demo_config (demo_request ''1234567801'')] \<and>
   length (snd (httpx_query_fill demo_config dead_server ''17'' [])) = 3"
proof -
  note b = requests_bounded [of demo_config dead_server "demo_request ''1234567801''" "[]" "''17''"]
  from b obtain k where k: "k \<le> 2" "length (snd (httpx_query_fill demo_config dead_server ''17'' [])) = Suc k"
    "k < 2 \<longrightarrow> \<not> transient (dead_server (replicate k (query_request demo_config ''17'')) (query_request demo_config ''17''))"
    by auto
  then have "k = 2" by (cases "k < 2") (simp_all add: dead_server_def transient_def)
  with b k(2) show ?thesis by simp
qed

subsection \<open>The classification in the message\<close>

text \<open>What an outcome means for a placement.\<close>

definition place_class :: "http_outcome \<Rightarrow> string" where
  "place_class out = (case out of
       HTimeout \<Rightarrow> ''TIMEOUT'' | HNetwork e \<Rightarrow> ''NETWORK_ERROR'' | HRaise \<Rightarrow> ''UNKNOWN''
     | HReply status_code body \<Rightarrow>
         if 400 \<le> status_code \<and> status_code < 500 then ''REJECTED''
         else if status_code = 200 then
           (case body of
              Some (RDict payload) \<Rightarrow> if text_field payload ''rt_cd'' [] = ''0'' then ''SUBMITTED'' else ''REJECTED''
            | _ \<Rightarrow> ''UNKNOWN'')
         else ''UNKNOWN'')"

lemma classify_labelled: "p \<in> set place_prefixes \<Longrightarrow> classify_place_message (labelled p m) = p"
  by (rule classify_prefix) (auto simp: labelled_def)

lemma classify_colon: "p \<in> set place_prefixes \<Longrightarrow> classify_place_message (p @ CHR '':'' # m) = p"
  by (rule classify_prefix) auto

lemma classify_business: "classify_place_message (business_error ''REJECTED'' rt_cd m) = ''REJECTED''"
proof -
  obtain r where "business_error ''REJECTED'' rt_cd m = ''REJECTED'' @ CHR '':'' # r"
    using business_error_prefix [of "''REJECTED''" rt_cd m] by (auto simp: is_space_def)
  then show ?thesis using classify_colon [of "''REJECTED''" r] by (simp add: place_prefixes_def)
qed

lemma classify_failed:
  "classify_place_message (''TIMEOUT: '' @ m) = ''TIMEOUT''"
  "classify_place_message (''NETWORK_ERROR: '' @ m) = ''NETWORK_ERROR''"
  "classify_place_message (''UNKNOWN: '' @ m) = ''UNKNOWN''"
  "classify_place_message (''REJECTED: '' @ m) = ''REJECTED''"
  using classify_colon [of "''TIMEOUT''" "CHR '' '' # m"] classify_colon [of "''NETWORK_ERROR''" "CHR '' '' # m"]
    classify_colon [of "''UNKNOWN''" "CHR '' '' # m"] classify_colon [of "''REJECTED''" "CHR '' '' # m"]
  by (simp_all add: place_prefixes_def)

lemma response_class:
  "classify_place_message (or_message (classify_place_response c b)) = place_class (HReply c b) \<and>
   (or_success (classify_place_response c b) \<longleftrightarrow> place_class (HReply c b) = ''SUBMITTED'')"
proof -
  note un = classify_failed(3) and rj = classify_failed(4)
  show ?thesis
  proof (cases "c = 200")
    case False
    then show ?thesis
      using un [of "''KIS HTTP '' @ str_of_int c @ '' (server error)''"] un [of "''KIS HTTP '' @ str_of_int c"]
        rj [of "''KIS HTTP '' @ str_of_int c"]
      by (simp add: classify_place_response_def failed_order_def place_class_def)
  next
    case True
    then show ?thesis
      using un [of "''KIS HTTP 200 but body is not valid JSON''"] un [of "''KIS HTTP 200 but body is not a JSON object''"]
      by (simp add: classify_place_response_def failed_order_def place_class_def Let_def classify_business
          classify_labelled place_prefixes_def split: option.split reply.split)
  qed
qed

lemma outcome_class:
  assumes "out \<noteq> HRaise"
  shows "classify_place_message (or_message (place_outcome kc out)) = place_class out \<and>
    (or_success (place_outcome kc out) \<longleftrightarrow> place_class out = ''SUBMITTED'')"
proof (cases out)
  case HTimeout
  with classify_failed(1) [of "''KIS place_order exceeded '' @ kc_place_timeout kc @ ''s''"] show ?thesis
    by (simp add: place_outcome_def failed_order_def place_class_def)
next
  case (HNetwork e)
  with classify_failed(2) [of e] show ?thesis
    by (simp add: place_outcome_def failed_order_def place_class_def)
next
  case (HReply c b)
  with response_class [of c b] show ?thesis by (simp add: place_outcome_def)
qed (use assms in simp)

text \<open>
  The message carries the classification: whatever the broker's own text contains, the
  executor reads from the message of a placement exactly what the outcome of the request means:
  \<open>SUBMITTED\<close> for a reply with code 200 and business code 0, \<open>REJECTED\<close> for another business code
  or a client error, \<open>TIMEOUT\<close>, \<open>NETWORK_ERROR\<close>, and \<open>UNKNOWN\<close> for everything else, server errors
  included; and the result claims success exactly for \<open>SUBMITTED\<close>.
\<close>

lemma classification_roundtrip:
  "case httpx_place_order kc server q sent of
     (Inl e, sent') \<Rightarrow> e = TransportError \<and> server sent (place_request kc q) = HRaise
   | (Inr r, sent') \<Rightarrow> classify_place_message (or_message r) = place_class (server sent (place_request kc q)) \<and>
       (or_success r \<longleftrightarrow> place_class (server sent (place_request kc q)) = ''SUBMITTED'')"
  using outcome_class [of "server sent (place_request kc q)" kc]
  by (cases "server sent (place_request kc q)") (simp_all add: place_app final_result_def)

lemma http_fill_valid:
  "fr_status (classify_http_fill c b r) \<in> set fill_valid_statuses \<and> fr_order_no (classify_http_fill c b r) = r"
  by (auto simp: classify_http_fill_def unknown_fill_def make_http_fill_def fill_status_map_def fill_valid_statuses_def
      Let_def split: option.split reply.split)

lemma query_outcome_valid:
  "fr_status (query_outcome kc r out) \<in> set fill_valid_statuses \<and> fr_order_no (query_outcome kc r out) = r"
  using http_fill_valid
  by (simp add: query_outcome_def unknown_fill_def make_http_fill_def fill_valid_statuses_def split: http_outcome.split)

lemma cancel_outcome_ref: "xr_order_no (cancel_outcome kc r out) = r"
  by (simp add: cancel_outcome_def cancel_result_def classify_cancel_response_def Let_def
      split: http_outcome.split option.split reply.split)

lemma httpx_query_result:
  "\<exists>k. fst (httpx_query_fill kc server r sent) =
     final_result (query_outcome kc r) (server (sent @ replicate k (query_request kc r)) (query_request kc r))"
  using run_attempts [of query_fill_max_retries server "query_request kc r" "query_outcome kc r" sent]
  by (force simp: httpx_query_fill_def query_attempts)

lemma httpx_cancel_result:
  "\<exists>k. fst (httpx_cancel_order kc server r sent) =
     final_result (cancel_outcome kc r) (server (sent @ replicate k (cancel_request kc r)) (cancel_request kc r))"
  using run_attempts [of cancel_order_max_retries server "cancel_request kc r" "cancel_outcome kc r" sent]
  by (force simp: httpx_cancel_order_def cancel_attempts)

lemma final_InrE: "final_result res out = Inr r \<Longrightarrow> r = res out \<and> out \<noteq> HRaise"
  by (auto simp: final_result_def split: http_outcome.splits)

interpretation httpx: real_client "httpx_transport kc server" for kc server
proof unfold_locales
  fix r c x c'
  assume "kt_query (httpx_transport kc server) r c = (Inr x, c')"
  then show "fr_status x \<in> set fill_valid_statuses \<and> fr_order_no x = r"
    using httpx_query_result [of kc server r c] query_outcome_valid
    by (auto simp: httpx_transport_def dest: final_InrE [OF sym])
next
  fix r c x c'
  assume "kt_cancel (httpx_transport kc server) r c = (Inr x, c')"
  then show "xr_order_no x = r"
    using httpx_cancel_result [of kc server r c] cancel_outcome_ref
    by (auto simp: httpx_transport_def dest: final_InrE [OF sym])
next
  show "\<not> kt_fake (httpx_transport kc server)" by (simp add: httpx_transport_def)
next
  fix q c x c'
  assume "kt_place (httpx_transport kc server) q c = (Inr x, c')"
  then show "or_success x \<longleftrightarrow> classify_place_message (or_message x) = ''SUBMITTED''"
    using outcome_class by (auto simp: httpx_transport_def place_app dest: final_InrE)
qed

text \<open>
  A fill status means what it says: a query reports \<open>FILLED\<close> only with a positive quantity
  and nothing remaining, \<open>PARTIALLY_FILLED\<close> only with a positive quantity and something
  remaining, and a successful \<open>PENDING\<close> only with nothing filled; the remaining quantity is
  never negative, and success is reported only for a reply with code 200 and business code 0.
\<close>

lemma fill_status_sound:
  "case classify_http_fill c b r of f \<Rightarrow>
     (fr_status f = ''FILLED'' \<longrightarrow> fr_success f \<and> 0 < fr_filled_quantity f \<and> fr_remaining_quantity f = 0) \<and>
     (fr_status f = ''PARTIALLY_FILLED'' \<longrightarrow> fr_success f \<and> 0 < fr_filled_quantity f \<and> 0 < fr_remaining_quantity f) \<and>
     (fr_status f = ''PENDING'' \<and> fr_success f \<longrightarrow> fr_filled_quantity f = 0) \<and> 0 \<le> fr_remaining_quantity f \<and>
     (fr_success f \<longrightarrow> c = 200 \<and> (\<exists>payload. b = Some (RDict payload) \<and> text_field payload ''rt_cd'' [] = ''0''))"
  by (simp add: classify_http_fill_def unknown_fill_def make_http_fill_def fill_status_map_def fill_success_map_def
      fill_class_def Let_def split: option.split reply.split)

definition demo_reply :: "int \<Rightarrow> string \<Rightarrow> reply option" where
  "demo_reply filled flag = Some (RDict [(''rt_cd'', RStr ''0''), (''output1'', RList [RDict
     [(''ord_qty'', RStr ''10''), (''tot_ccld_qty'', RStr (str_of_int filled)), (''rjct_yn'', RStr flag)]])])"

lemma fill_status_sound_witness:
  "fr_status (classify_http_fill 200 (demo_reply 4 ''N'') ''17'') = ''PARTIALLY_FILLED'' \<and>
   0 < fr_remaining_quantity (classify_http_fill 200 (demo_reply 4 ''N'') ''17'')"
proof -
  have "fr_status (classify_http_fill 200 (demo_reply 4 ''N'') ''17'') = ''PARTIALLY_FILLED''" by code_simp
  with fill_status_sound [of 200 "demo_reply 4 ''N''" "''17''"] show ?thesis by simp
qed

text \<open>
  The masker does not know the names KIS uses: the payload logged when an order is placed
  still shows the account number in the field \<open>CANO\<close>, and the masked headers still show the
  application key and its secret.
\<close>

lemma masking_misses_kis_names:
  "map_of (place_log_payload kc q) ''CANO'' = Some (JStr (fst (account_split kc))) \<and>
   map_of (mask_sensitive_order_payload (kis_headers kc tr_id)) ''appsecret'' = Some (JStr (kc_app_secret kc)) \<and>
   map_of (mask_sensitive_order_payload (kis_headers kc tr_id)) ''appkey'' = Some (JStr (kc_app_key kc))"
proof -
  have "\<forall>k \<in> set [''CANO'', ''appsecret'', ''appkey'']. py_lower k \<notin> set sensitive_keys" by code_simp
  then show ?thesis
    by (cases "account_split kc")
      (simp add: place_log_payload_def place_body_def mask_sensitive_order_payload_def kis_headers_def)
qed

end
