(* ===== verification/Real_Executor.thy ===== *)
theory Real_Executor
  imports Client_World Risk_Engine Sha256 Kis_Transport
begin

text \<open>
  The executor of real orders, \<^verbatim>\<open>app/broker/real_order_executor.py\<close>: ten gates in front of a
  dry-run branch and a real branch. An executor is its injected client (\<open>None\<close>: the fake one it
  makes for itself, whose counter is kept in the session record), its factory for a real client
  (\<open>Some None\<close> is a factory that raised) and the order in which Python iterates the set of
  sensitive substrings, which differs from run to run.
\<close>

subsection \<open>Helpers\<close>

record executor_result =
  xe_success :: bool
  xe_dry_run :: bool
  xe_blocked_reason :: "string option"
  xe_real_order_id :: "int option"
  xe_status :: string
  xe_message :: text_t

definition executor_result_dict :: "executor_result \<Rightarrow> (string \<times> json) list" where
  "executor_result_dict r =
     [(''success'', JBool (xe_success r)), (''dry_run'', JBool (xe_dry_run r)),
      (''blocked_reason'', case xe_blocked_reason r of None \<Rightarrow> JNull | Some x \<Rightarrow> JStr x),
      (''real_order_id'', case xe_real_order_id r of None \<Rightarrow> JNull | Some i \<Rightarrow> JInt i),
      (''status'', JStr (xe_status r)), (''message'', JText (xe_message r))]"

text \<open>\<open>re.compile(re.escape(p), re.IGNORECASE).sub("***", s)\<close> for a nonempty \<open>p\<close> in lower case.\<close>

function ci_sub :: "string \<Rightarrow> string \<Rightarrow> string" where
  "ci_sub p [] = []"
| "ci_sub p (c # cs) =
     (if p \<noteq> [] \<and> py_lower (take (length p) (c # cs)) = p
      then ''***'' @ ci_sub p (drop (length p) (c # cs))
      else c # ci_sub p cs)"
  by pat_completeness auto
termination by (relation "measure (\<lambda>(p, s). length s)") auto

fun scrub_all :: "string list \<Rightarrow> string \<Rightarrow> string" where
  "scrub_all [] redacted = redacted"
| "scrub_all (p # ps) redacted =
     scrub_all ps (if py_contains p (py_lower redacted) then ci_sub p redacted else redacted)"

definition scrub :: "string list \<Rightarrow> string \<Rightarrow> string" where
  "scrub subs text' = (if text' = [] then text' else scrub_all subs text')"

definition today_real_order_total :: "int \<Rightarrow> decimal db" where
  "today_real_order_total account_id =
     sbind utc_now (\<lambda>now.
     let day_start = kst_start (kst_date now); day_end = day_start + microseconds_per_day
     in sgets (\<lambda>s. sum_list (map ro_estimated_amount (filter (\<lambda>r.
          list_ex (\<lambda>c. oc_id c = ro_candidate_id r \<and> oc_account_id c = account_id) (sn_candidates s) \<and>
          day_start \<le> ro_created_at r \<and> ro_created_at r < day_end \<and>
          ro_status r \<notin> {''FAILED'', ''REJECTED'', ''CANCELED''}) (sn_real_orders s)))))"

definition blocked :: "string \<Rightarrow> text_t \<Rightarrow> bool \<Rightarrow> int option \<Rightarrow> executor_result" where
  "blocked reason message dry_run real_order_id =
     \<lparr>xe_success = False, xe_dry_run = dry_run, xe_blocked_reason = Some reason,
      xe_real_order_id = real_order_id, xe_status = ''BLOCKED'', xe_message = message\<rparr>"

text \<open>\<open>int(limit_price or 0)\<close> truncates towards zero.\<close>

definition limit_int :: "decimal option \<Rightarrow> int" where
  "limit_int p = (case p of None \<Rightarrow> 0 | Some x \<Rightarrow> if x < 0 then - \<lfloor>- x\<rfloor> else \<lfloor>x\<rfloor>)"

subsection \<open>Clients\<close>

record 'c executor =
  ex_transport :: "'c kis_transport option"
  ex_factory :: "(settings \<Rightarrow> 'c kis_transport option) option"
  ex_scrub_order :: "string list"

definition resolve_real_transport :: "'c executor \<Rightarrow> settings \<Rightarrow> 'c kis_transport option" where
  "resolve_real_transport ex cfg =
     (case ex_factory ex of
        Some factory \<Rightarrow>
          (case factory cfg of None \<Rightarrow> None | Some t \<Rightarrow> if kt_fake t then None else Some t)
      | None \<Rightarrow>
          (case ex_transport ex of None \<Rightarrow> None | Some t \<Rightarrow> if kt_fake t then None else Some t))"

definition own_fake_place :: "kis_request \<Rightarrow> kis_order_result db" where
  "own_fake_place q = (\<lambda>s. case fake_place q (sn_fake_counter s) of (r, n) \<Rightarrow> (r, s\<lparr>sn_fake_counter := n\<rparr>))"

definition transport_place :: "'c executor \<Rightarrow> kis_request \<Rightarrow> ('c, kis_order_result) service" where
  "transport_place ex q =
     (case ex_transport ex of None \<Rightarrow> on_db (own_fake_place q) | Some t \<Rightarrow> on_client (kt_place t q))"

definition candidate_request :: "order_candidate \<Rightarrow> string \<Rightarrow> py_error + kis_request" where
  "candidate_request c account_no =
     make_kis_request (oc_symbol c) (oc_side c) (oc_order_type c) (oc_quantity c)
       (limit_int (oc_limit_price c)) account_no"

subsection \<open>The branches\<close>

definition execute_dry_run :: "'c executor \<Rightarrow> order_candidate \<Rightarrow> ('c, executor_result) service" where
  "execute_dry_run ex c =
     sbind (lift_result (candidate_request c ''DRY_RUN'')) (\<lambda>request.
     sbind (transport_place ex request) (\<lambda>fake_result.
     let fake_hash_prefix = take 16 (sha256_hex (or_order_no fake_result))
     in sbind (on_db (rorder_create_for c True (Some (or_order_no fake_result)) (Some fake_hash_prefix)
          ''DRY_RUN'')) (\<lambda>order.
        sret \<lparr>xe_success = True, xe_dry_run = True, xe_blocked_reason = None,
              xe_real_order_id = Some order, xe_status = ''DRY_RUN'',
              xe_message = [T (''Dry-run order recorded: fake_order_no='' @ py_repr (or_order_no fake_result))]\<rparr>)))"

definition real_details :: "string \<Rightarrow> order_candidate \<Rightarrow> (string \<times> json) list" where
  "real_details classification c =
     [(''classification'', JStr classification), (''dry_run'', JBool False),
      (''symbol'', JStr (oc_symbol c)), (''side'', JStr (oc_side c)), (''quantity'', JInt (oc_quantity c))]"

definition record_submitted ::
  "order_candidate \<Rightarrow> int \<Rightarrow> kis_order_result \<Rightarrow> string \<Rightarrow> executor_result db" where
  "record_submitted c order kis_result classification =
     (let broker_hash = (if or_order_no kis_result \<noteq> [] then Some (sha256_hex (or_order_no kis_result)) else None)
      in sbind (mark_submitted order broker_hash None) (\<lambda>_.
         sbind (audit_append (oc_id c) ''REAL_ORDER_SUBMITTED'' None
           (Some [T ''real-path place_order succeeded''])
           (Some (real_details classification c @
             [(''broker_order_no_hash_prefix'',
               case broker_hash of None \<Rightarrow> JNull | Some h \<Rightarrow> JStr (take 16 h))])) None None) (\<lambda>_.
         sret \<lparr>xe_success = True, xe_dry_run = False, xe_blocked_reason = None,
               xe_real_order_id = Some order, xe_status = ''SUBMITTED'',
               xe_message = [T ''Real order submitted to KIS (broker_order_no_hash stored)'']\<rparr>)))"

definition record_failed ::
  "string list \<Rightarrow> order_candidate \<Rightarrow> int \<Rightarrow> kis_order_result \<Rightarrow> string \<Rightarrow> executor_result db" where
  "record_failed subs c order kis_result classification =
     (let sanitized = take 500 (scrub subs (or_message kis_result))
      in sbind (mark_failed order (Some classification) (Some sanitized)) (\<lambda>_.
         sbind (audit_append (oc_id c) ''REAL_ORDER_FAILED'' None
           (Some [T (''real-path place_order returned '' @ classification)])
           (Some (real_details classification c)) None None) (\<lambda>_.
         sret \<lparr>xe_success = False, xe_dry_run = False, xe_blocked_reason = Some classification,
               xe_real_order_id = Some order, xe_status = ''FAILED'',
               xe_message = [T (''Real order rejected/failed at KIS: classification='' @ classification)]\<rparr>)))"

definition execute_real ::
  "'c executor \<Rightarrow> settings \<Rightarrow> order_candidate \<Rightarrow> 'c kis_transport \<Rightarrow> ('c, executor_result) service" where
  "execute_real ex cfg c transport =
     sbind (on_db (rorder_create_for c False None None ''CREATED'')) (\<lambda>order.
     sbind (lift_result (candidate_request c (cfg_kis_account_no cfg))) (\<lambda>request.
     sbind (on_client (kt_place transport request)) (\<lambda>kis_result.
     let classification = classify_place_message (or_message kis_result)
     in on_db (if classification = ''SUBMITTED''
               then record_submitted c order kis_result classification
               else record_failed (ex_scrub_order ex) c order kis_result classification))))"

subsection \<open>The gates\<close>

text \<open>Gates 1 to 9: \<open>Inl\<close> is the blocked result \<open>execute\<close> returns early.\<close>

definition duplicate_blocked :: "int \<Rightarrow> bool \<Rightarrow> (executor_result + order_candidate) db" where
  "duplicate_blocked candidate_id dry_run =
     sbind (rorder_get_by_candidate_id candidate_id) (\<lambda>existing.
     let non_failed = find (\<lambda>r. ro_status r \<notin> {''FAILED'', ''REJECTED'', ''CANCELED''}) existing;
         reason = (if \<not> dry_run then ''DUPLICATE_REAL_ORDER'' else ''ALREADY_EXECUTED'');
         message = ''candidate_id='' @ str_of_int candidate_id @ '' already has an active RealOrder'' @
           (case non_failed of None \<Rightarrow> [] | Some r \<Rightarrow>
              '' (id='' @ str_of_int (ro_id r) @ '', status='' @ py_repr (ro_status r) @ '')'')
     in sret (Inl (blocked reason [T message] dry_run (map_option ro_id non_failed))))"

definition check_gates :: "settings \<Rightarrow> int \<Rightarrow> (executor_result + order_candidate) db" where
  "check_gates cfg candidate_id =
     (let dry_run = cfg_real_order_dry_run cfg;
          stop = (\<lambda>reason message. sret (Inl (blocked reason message dry_run None)))
      in sbind (candidate_get_by_id candidate_id) (\<lambda>found.
         case found of
           None \<Rightarrow> stop ''CANDIDATE_NOT_FOUND'' [T (''OrderCandidate id='' @ str_of_int candidate_id @ '' not found'')]
         | Some c \<Rightarrow>
         if oc_status c \<noteq> ''APPROVED'' then stop ''NOT_APPROVED''
           [T (''candidate.status='' @ py_repr (oc_status c) @ ''; must be APPROVED before execution'')]
         else
         sbind (exists_non_failed_for_candidate candidate_id) (\<lambda>exists.
         if exists then duplicate_blocked candidate_id dry_run
         else if cfg_kill_switch_enabled cfg then stop ''KILL_SWITCH_ON''
           [T ''kill_switch_enabled=True blocks all real order attempts; set KILL_SWITCH_ENABLED=false to proceed'']
         else if \<not> cfg_trading_safety_enabled cfg then stop ''TRADING_SAFETY_DISABLED''
           [T ''trading_safety_enabled=False; set TRADING_SAFETY_ENABLED=true to proceed'']
         else if \<not> cfg_real_trading_enabled cfg then stop ''REAL_TRADING_DISABLED''
           [T ''real_trading_enabled=False; set REAL_TRADING_ENABLED=true to proceed'']
         else if \<not> cfg_kis_order_enabled cfg then stop ''KIS_ORDER_DISABLED''
           [T ''kis_order_enabled=False; set KIS_ORDER_ENABLED=true to proceed'']
         else
         let estimated = oc_estimated_amount c; cap = of_int (cfg_max_real_order_amount cfg)
         in if cap < estimated then stop ''AMOUNT_EXCEEDS_PER_ORDER_CAP''
              [T ''estimated_amount='', D estimated, T '' > max_real_order_amount='', D cap]
         else
         sbind (today_real_order_total (oc_account_id c)) (\<lambda>today_total.
         let daily_cap = of_int (cfg_max_real_daily_order_amount cfg)
         in if daily_cap < dadd today_total estimated then stop ''AMOUNT_EXCEEDS_DAILY_CAP''
              [T ''today_total='', D today_total, T '' + estimated='', D estimated,
               T '' > max_real_daily_order_amount='', D daily_cap]
         else
         sbind (evaluate cfg c None) (\<lambda>risk.
         if \<not> rr_passed risk then stop ''RISK_REJECTED''
           [T (''PreTradeRiskEngine violations: '' @ py_list_repr (map rv_rule_id (rr_violations risk)))]
         else sret (Inr c))))))"

definition execute :: "'c executor \<Rightarrow> settings \<Rightarrow> int \<Rightarrow> ('c, executor_result) service" where
  "execute ex cfg candidate_id =
     sbind (on_db (check_gates cfg candidate_id)) (\<lambda>gates.
     case gates of
       Inl result \<Rightarrow> sret result
     | Inr c \<Rightarrow>
         if cfg_real_order_dry_run cfg then execute_dry_run ex c
         else case resolve_real_transport ex cfg of
           None \<Rightarrow> sret (blocked ''TRANSPORT_UNAVAILABLE''
             [T ''Real-path transport is not configured. Inject a non-Fake KisOrderClientInterface (or supply real_transport_factory) before calling execute() with real_order_dry_run=False.'']
             False None)
         | Some transport \<Rightarrow> execute_real ex cfg c transport)"

end
