(* ===== verification/Executor_Facts.thy ===== *)
theory Executor_Facts
  imports Real_Executor
begin

text \<open>
  What the executor of real orders guarantees: the scrubbing of messages, the gates as
  conditions, and what an execution does behind them.
\<close>

subsection \<open>Scrubbing\<close>

lemma ci_sub_hit:
  "p \<noteq> [] \<and> py_lower (take (length p) (c # cs)) = p \<Longrightarrow>
   ci_sub p (c # cs) = ''***'' @ ci_sub p (drop (length p) (c # cs))"
  by (subst ci_sub.simps) (rule if_P)

lemma ci_sub_miss:
  "\<not> (p \<noteq> [] \<and> py_lower (take (length p) (c # cs)) = p) \<Longrightarrow> ci_sub p (c # cs) = c # ci_sub p cs"
  by (subst ci_sub.simps) (rule if_not_P)

lemma py_lower_stars: "py_lower (''***'' @ s) = ''***'' @ py_lower s"
  by (simp add: py_lower_def char_lower_def)

lemma ci_sub_prefix:
  "CHR ''*'' \<notin> set q \<Longrightarrow> take (length q) (py_lower (ci_sub p s)) = q \<Longrightarrow> take (length q) (py_lower s) = q"
proof (induction p s arbitrary: q rule: ci_sub.induct)
  case (2 p c cs)
  show ?case
  proof (cases "p \<noteq> [] \<and> py_lower (take (length p) (c # cs)) = p")
    case True
    from 2(3,4) show ?thesis unfolding ci_sub_hit [OF True] py_lower_stars by (cases q) auto
  next
    case False
    show ?thesis
    proof (cases q)
      case (Cons d ds)
      with 2(4) have "char_lower c = d" "take (length ds) (py_lower (ci_sub p cs)) = ds"
        unfolding ci_sub_miss [OF False] py_lower_def list.map by simp_all
      with 2(2) [OF False, of ds] 2(3) Cons show ?thesis by (auto simp: py_lower_def)
    qed simp
  qed
qed simp

lemma contains_append_fresh:
  assumes "CHR ''*'' \<notin> set q" and "q \<noteq> []"
  shows "py_contains q (''***'' @ s) \<longleftrightarrow> py_contains q s"
  using assms by (cases q) auto

lemma contains_drop: "py_contains q (drop n s) \<Longrightarrow> py_contains q s"
  unfolding py_contains_iff by (metis append.assoc append_take_drop_id)

lemma ci_sub_contains:
  "CHR ''*'' \<notin> set q \<Longrightarrow> q \<noteq> [] \<Longrightarrow> py_contains q (py_lower (ci_sub p s)) \<Longrightarrow> py_contains q (py_lower s)"
proof (induction p s rule: ci_sub.induct)
  case (2 p c cs)
  show ?case
  proof (cases "p \<noteq> [] \<and> py_lower (take (length p) (c # cs)) = p")
    case True
    from 2(5) have "py_contains q (py_lower (ci_sub p (drop (length p) (c # cs))))"
      unfolding ci_sub_hit [OF True] py_lower_stars contains_append_fresh [OF 2(3,4)] .
    with 2(1) [OF True 2(3,4)] show ?thesis
      by (metis contains_drop py_lower_drop)
  next
    case False
    from 2(5) have "take (length q) (py_lower (ci_sub p (c # cs))) = q \<or> py_contains q (py_lower (ci_sub p cs))"
      unfolding ci_sub_miss [OF False] py_lower_def list.map by simp
    moreover have "py_contains q (py_lower (c # cs))" if "take (length q) (py_lower (c # cs)) = q"
      using that by (simp add: py_lower_def)
    moreover have "py_contains q (py_lower (c # cs))" if "py_contains q (py_lower cs)"
      using that by (simp add: py_lower_def)
    ultimately show ?thesis
      using ci_sub_prefix [OF 2(3), of p "c # cs"] 2(2) [OF False 2(3,4)] by blast
  qed
qed simp

lemma ci_sub_removes:
  "CHR ''*'' \<notin> set p \<Longrightarrow> p \<noteq> [] \<Longrightarrow> \<not> py_contains p (py_lower (ci_sub p s))"
proof (induction p s rule: ci_sub.induct)
  case (2 p c cs)
  show ?case
  proof (cases "p \<noteq> [] \<and> py_lower (take (length p) (c # cs)) = p")
    case True
    show ?thesis
      unfolding ci_sub_hit [OF True] py_lower_stars contains_append_fresh [OF 2(3,4)]
      by (rule 2(1) [OF True 2(3,4)])
  next
    case False
    with 2(4) have "take (length p) (py_lower (ci_sub p (c # cs))) \<noteq> p"
      using ci_sub_prefix [OF 2(3), of p "c # cs"] unfolding py_lower_take by blast
    with 2(2) [OF False 2(3,4)] show ?thesis
      unfolding ci_sub_miss [OF False] py_lower_def list.map by simp
  qed
qed simp

definition scrubbable :: "string \<Rightarrow> bool" where
  "scrubbable p \<longleftrightarrow> p \<noteq> [] \<and> CHR ''*'' \<notin> set p"

lemma scrub_all_keeps:
  "scrubbable q \<Longrightarrow> \<not> py_contains q (py_lower s) \<Longrightarrow> \<not> py_contains q (py_lower (scrub_all ps s))"
proof (induction ps arbitrary: s)
  case (Cons p ps)
  have "\<not> py_contains q (py_lower (if py_contains p (py_lower s) then ci_sub p s else s))"
    using Cons.prems ci_sub_contains [of q p s] by (auto simp: scrubbable_def)
  with Cons show ?case by simp
qed simp

lemma scrub_all_clean:
  "q \<in> set ps \<Longrightarrow> scrubbable q \<Longrightarrow> \<not> py_contains q (py_lower (scrub_all ps s))"
proof (induction ps arbitrary: s)
  case (Cons p ps)
  show ?case
  proof (cases "q = p")
    case True
    have "\<not> py_contains p (py_lower (ci_sub p s))"
      using Cons.prems(2) True by (intro ci_sub_removes) (auto simp: scrubbable_def)
    with True have "\<not> py_contains q (py_lower (if py_contains p (py_lower s) then ci_sub p s else s))" by simp
    then show ?thesis using scrub_all_keeps [OF Cons.prems(2)] by simp
  qed (use Cons in simp)
qed simp

lemma sensitive_scrubbable: "p \<in> set sensitive_substrings \<Longrightarrow> scrubbable p"
proof -
  have "\<forall>p \<in> set sensitive_substrings. scrubbable p" by code_simp
  then show "p \<in> set sensitive_substrings \<Longrightarrow> scrubbable p" by blast
qed

lemma scrub_clean:
  assumes "p \<in> set subs" and "scrubbable p"
  shows "\<not> py_contains p (py_lower (take n (scrub subs s)))"
proof -
  have "\<not> py_contains p (py_lower (scrub subs s))"
    using scrub_all_clean [OF assms] assms(2) by (auto simp: scrub_def scrubbable_def)
  then show ?thesis unfolding py_contains_iff py_lower_take
    by (metis append.assoc append_take_drop_id)
qed

lemma scrub_id: "\<forall>p \<in> set subs. \<not> py_contains p (py_lower s) \<Longrightarrow> scrub subs s = s"
proof -
  have "\<forall>p \<in> set ps. \<not> py_contains p (py_lower s) \<Longrightarrow> scrub_all ps s = s" for ps
    by (induction ps) auto
  then show "\<forall>p \<in> set subs. \<not> py_contains p (py_lower s) \<Longrightarrow> scrub subs s = s"
    by (simp add: scrub_def)
qed

text \<open>
  Scrubbing removes every sensitive substring, whatever the order in which the set of
  substrings is iterated: neither the scrubbed text nor any part cut from its front contains
  one of them in any mixture of cases, and a text without one is not changed.
\<close>

lemma scrub_removes_sensitive:
  assumes "set subs = set sensitive_substrings"
  shows "(\<forall>p \<in> set sensitive_substrings. \<not> py_contains p (py_lower (take n (scrub subs s)))) \<and>
    ((\<forall>p \<in> set sensitive_substrings. \<not> py_contains p (py_lower s)) \<longrightarrow> scrub subs s = s)"
  using assms scrub_clean sensitive_scrubbable scrub_id by metis

lemma scrub_removes_sensitive_witness:
  "set (rev sensitive_substrings) = set sensitive_substrings \<and>
   \<not> py_contains ''appsecret'' (py_lower (take 500 (scrub (rev sensitive_substrings) ''bad AppSecretKey'')))"
proof
  show s: "set (rev sensitive_substrings) = set sensitive_substrings" by simp
  have "''appsecret'' \<in> set sensitive_substrings" by (simp add: sensitive_substrings_def)
  with scrub_removes_sensitive [OF s, of 500 "''bad AppSecretKey''"]
  show "\<not> py_contains ''appsecret'' (py_lower (take 500 (scrub (rev sensitive_substrings) ''bad AppSecretKey'')))"
    by blast
qed

subsection \<open>The gates as conditions\<close>

definition not_failed :: "real_order \<Rightarrow> bool" where
  "not_failed r \<longleftrightarrow> ro_status r \<noteq> ''FAILED'' \<and> ro_status r \<noteq> ''REJECTED'' \<and> ro_status r \<noteq> ''CANCELED''"

definition orders_of_day :: "session \<Rightarrow> int \<Rightarrow> int \<Rightarrow> real_order list" where
  "orders_of_day s account_id day = filter (\<lambda>r. not_failed r \<and> kst_date (ro_created_at r) = day \<and>
     (\<exists>c \<in> set (sn_candidates s). oc_id c = ro_candidate_id r \<and> oc_account_id c = account_id)) (sn_real_orders s)"

definition day_total :: "session \<Rightarrow> int \<Rightarrow> int \<Rightarrow> rat" where
  "day_total s account_id day = sum_list (map ro_estimated_amount (orders_of_day s account_id day))"

definition no_live_order :: "session \<Rightarrow> int \<Rightarrow> bool" where
  "no_live_order s i \<longleftrightarrow> \<not> (\<exists>r \<in> set (sn_real_orders s). ro_candidate_id r = i \<and> is_live r)"

text \<open>The gates of a found candidate with their outcome, in the order of the executor.\<close>

definition gate_results :: "settings \<Rightarrow> session \<Rightarrow> order_candidate \<Rightarrow> (string \<times> bool) list" where
  "gate_results cfg s c =
     [(''NOT_APPROVED'', oc_status c = ''APPROVED''),
      (if cfg_real_order_dry_run cfg then ''ALREADY_EXECUTED'' else ''DUPLICATE_REAL_ORDER'', no_live_order s (oc_id c)),
      (''KILL_SWITCH_ON'', \<not> cfg_kill_switch_enabled cfg),
      (''TRADING_SAFETY_DISABLED'', cfg_trading_safety_enabled cfg),
      (''REAL_TRADING_DISABLED'', cfg_real_trading_enabled cfg),
      (''KIS_ORDER_DISABLED'', cfg_kis_order_enabled cfg),
      (''AMOUNT_EXCEEDS_PER_ORDER_CAP'', oc_estimated_amount c \<le> of_int (cfg_max_real_order_amount cfg)),
      (''AMOUNT_EXCEEDS_DAILY_CAP'', dadd (day_total s (oc_account_id c) (kst_date (sn_now s))) (oc_estimated_amount c)
         \<le> of_int (cfg_max_real_daily_order_amount cfg)),
      (''RISK_REJECTED'', risk_ok cfg s c (sn_now s))]"

definition gates_hold :: "settings \<Rightarrow> session \<Rightarrow> order_candidate \<Rightarrow> bool" where
  "gates_hold cfg s c \<longleftrightarrow> list_all snd (gate_results cfg s c)"

lemma gates_hold_iff: "gates_hold cfg s c \<longleftrightarrow> oc_status c = ''APPROVED'' \<and> no_live_order s (oc_id c) \<and>
   \<not> cfg_kill_switch_enabled cfg \<and> cfg_trading_safety_enabled cfg \<and> cfg_real_trading_enabled cfg \<and>
   cfg_kis_order_enabled cfg \<and> oc_estimated_amount c \<le> of_int (cfg_max_real_order_amount cfg) \<and>
   dadd (day_total s (oc_account_id c) (kst_date (sn_now s))) (oc_estimated_amount c)
     \<le> of_int (cfg_max_real_daily_order_amount cfg) \<and> risk_ok cfg s c (sn_now s)"
  by (simp add: gates_hold_def gate_results_def)

text \<open>The reason of the first gate that stops, if any does.\<close>

definition stopped_at :: "settings \<Rightarrow> session \<Rightarrow> order_candidate option \<Rightarrow> string option" where
  "stopped_at cfg s found = (case found of
     None \<Rightarrow> Some ''CANDIDATE_NOT_FOUND''
   | Some c \<Rightarrow> map_option fst (find (\<lambda>g. \<not> snd g) (gate_results cfg s c)))"

lemma stopped_at_None: "stopped_at cfg s (Some c) = None \<longleftrightarrow> gates_hold cfg s c"
  unfolding stopped_at_def gates_hold_def option.case option.map_disc_iff find_None_iff list_all_iff by blast

lemma day_total_app: "today_real_order_total a s = (Inr (day_total s a (kst_date (sn_now s))), s)"
proof -
  have "(list_ex (\<lambda>c. oc_id c = ro_candidate_id r \<and> oc_account_id c = a) (sn_candidates s) \<and>
      kst_start d \<le> ro_created_at r \<and> ro_created_at r < kst_start d + microseconds_per_day \<and>
      ro_status r \<notin> {''FAILED'', ''REJECTED'', ''CANCELED''}) \<longleftrightarrow>
    (not_failed r \<and> kst_date (ro_created_at r) = d \<and>
     (\<exists>c \<in> set (sn_candidates s). oc_id c = ro_candidate_id r \<and> oc_account_id c = a))" for r d
    using kst_window [of d "ro_created_at r"] by (auto simp: list_ex_iff not_failed_def)
  then show ?thesis
    by (simp add: today_real_order_total_def monad_simps Let_def day_total_def orders_of_day_def)
qed

lemma exists_live_app:
  "exists_non_failed_for_candidate i s = (Inr (\<not> no_live_order s i), s)"
  by (simp add: exists_non_failed_for_candidate_def monad_simps no_live_order_def is_live_def list_ex_iff)

definition is_blocked :: "settings \<Rightarrow> string \<Rightarrow> executor_result \<Rightarrow> bool" where
  "is_blocked cfg reason r \<longleftrightarrow> \<not> xe_success r \<and> xe_status r = ''BLOCKED'' \<and>
     xe_blocked_reason r = Some reason \<and> xe_dry_run r = cfg_real_order_dry_run cfg"

lemma blocked_is: "dry = cfg_real_order_dry_run cfg \<Longrightarrow> is_blocked cfg reason (blocked reason m dry i)"
  by (simp add: is_blocked_def blocked_def)

lemma duplicate_app: "\<exists>r. duplicate_blocked i (cfg_real_order_dry_run cfg) s = (Inr (Inl r), s) \<and>
   is_blocked cfg (if cfg_real_order_dry_run cfg then ''ALREADY_EXECUTED'' else ''DUPLICATE_REAL_ORDER'') r"
  by (simp add: duplicate_blocked_def rorder_get_by_candidate_id_def monad_simps Let_def blocked_is)

lemma check_gates_app:
  "\<exists>x. check_gates cfg i s = (Inr x, s) \<and>
     (case stopped_at cfg s (t_get oc_id i (sn_candidates s)) of
        Some reason \<Rightarrow> (\<exists>r. x = Inl r \<and> is_blocked cfg reason r)
      | None \<Rightarrow> (\<exists>c. t_get oc_id i (sn_candidates s) = Some c \<and> x = Inr c))"
proof (cases "t_get oc_id i (sn_candidates s)")
  case None
  then show ?thesis
    by (simp add: check_gates_def candidate_get_by_id_def monad_simps stopped_at_def Let_def blocked_is)
next
  case (Some c)
  then have id: "oc_id c = i" by (auto dest: t_get_Some)
  obtain risk :: risk_result where risk: "evaluate cfg c None s = (Inr risk, s)"
    "rr_passed risk \<longleftrightarrow> risk_ok cfg s c (sn_now s)"
    using evaluate_passed [of cfg c None s] by (cases "evaluate cfg c None s") (auto simp: eval_time_def)
  show ?thesis
    using duplicate_app [of i cfg s] risk
    by (auto simp: check_gates_def candidate_get_by_id_def monad_simps Some stopped_at_def Let_def
        exists_live_app day_total_app gate_results_def id blocked_is not_le)
qed

subsection \<open>What an execution does\<close>

definition submitted_row :: "session \<Rightarrow> order_candidate \<Rightarrow> kis_order_result \<Rightarrow> real_order" where
  "submitted_row s c kr = (new_rorder s c False None None ''CREATED'')
     \<lparr>ro_status := ''SUBMITTED'', ro_updated_at := sn_now s,
      ro_broker_order_no_hash := (if or_order_no kr \<noteq> [] then Some (sha256_hex (or_order_no kr)) else None),
      ro_submitted_at := Some (sn_now s)\<rparr>"

definition failed_row :: "string list \<Rightarrow> session \<Rightarrow> order_candidate \<Rightarrow> kis_order_result \<Rightarrow> real_order" where
  "failed_row subs s c kr = (new_rorder s c False None None ''CREATED'')
     \<lparr>ro_status := ''FAILED'', ro_updated_at := sn_now s,
      ro_error_code := Some (classify_place_message (or_message kr)),
      ro_error_message := Some (take 500 (scrub subs (or_message kr)))\<rparr>"

lemma real_details_clean: "set (map fst x) \<subseteq> {''broker_order_no_hash_prefix''} \<Longrightarrow> clean_details (Some (real_details k c @ x))"
proof -
  have "\<forall>key \<in> set [''classification'', ''dry_run'', ''symbol'', ''side'', ''quantity'', ''broker_order_no_hash_prefix''].
    key \<notin> set forbidden_details_keys" by code_simp
  then show "set (map fst x) \<subseteq> {''broker_order_no_hash_prefix''} \<Longrightarrow> clean_details (Some (real_details k c @ x))"
    by (auto simp: clean_details_def leaked_keys_def filter_empty_conv real_details_def)
qed

lemma audit_real:
  assumes "e = ''REAL_ORDER_SUBMITTED'' \<or> e = ''REAL_ORDER_FAILED''"
    and "set (map fst x) \<subseteq> {''broker_order_no_hash_prefix''}"
  shows "\<exists>row. audit_append i e None reason (Some (real_details k c @ x)) None None s =
    (Inr (t_next al_id (sn_audits s)), s\<lparr>sn_audits := sn_audits s @ [row]\<rparr>) \<and>
    al_event_type row = e \<and> al_candidate_id row = i"
proof -
  have "e \<in> set valid_event_types" using assms(1) by (auto simp: valid_event_types_def)
  with real_details_clean [OF assms(2), of k c] show ?thesis
    by (simp add: audit_append_app hash_too_long_def) (rule exI, rule conjI, rule refl, simp add: audit_row_sel)
qed

definition created :: "session \<Rightarrow> order_candidate \<Rightarrow> session" where
  "created s c = s\<lparr>sn_real_orders := sn_real_orders s @ [new_rorder s c False None None ''CREATED'']\<rparr>"

lemma created_sel [simp]:
  "sn_real_orders (created s c) = sn_real_orders s @ [new_rorder s c False None None ''CREATED'']"
  "sn_audits (created s c) = sn_audits s" "sn_now (created s c) = sn_now s"
  by (simp_all add: created_def)

lemma created_upd: "created s c\<lparr>sn_real_orders := x\<rparr> = s\<lparr>sn_real_orders := x\<rparr>"
  by (simp add: created_def)

lemma status_created: "ro_status (new_rorder s c d f q ''CREATED'') \<notin> set ro_terminal_statuses"
  by (simp add: ro_terminal_statuses_def)

lemma record_submitted_app:
  "\<exists>r row. record_submitted c (t_next ro_id (sn_real_orders s)) kr ''SUBMITTED'' (created s c) =
     (Inr r, s\<lparr>sn_real_orders := sn_real_orders s @ [submitted_row s c kr], sn_audits := sn_audits s @ [row]\<rparr>) \<and>
     xe_success r \<and> xe_status r = ''SUBMITTED'' \<and> xe_real_order_id r = Some (t_next ro_id (sn_real_orders s)) \<and>
     al_event_type row = ''REAL_ORDER_SUBMITTED'' \<and> al_candidate_id row = oc_id c"
proof -
  let ?h = "if or_order_no kr \<noteq> [] then Some (sha256_hex (or_order_no kr)) else None"
  let ?s = "s\<lparr>sn_real_orders := sn_real_orders s @ [submitted_row s c kr]\<rparr>"
  have m: "mark_submitted (t_next ro_id (sn_real_orders s)) ?h None (created s c) = (Inr (), ?s)"
    using mark_submitted_last [where s = "created s c" and h = ?h, OF created_sel(1) next_fresh _ status_created]
    by (simp add: created_upd submitted_row_def)
  obtain row where "audit_append (oc_id c) ''REAL_ORDER_SUBMITTED'' None (Some [T ''real-path place_order succeeded''])
      (Some (real_details ''SUBMITTED'' c @ [(''broker_order_no_hash_prefix'',
         case ?h of None \<Rightarrow> JNull | Some h \<Rightarrow> JStr (take 16 h))])) None None ?s =
      (Inr (t_next al_id (sn_audits ?s)), ?s\<lparr>sn_audits := sn_audits ?s @ [row]\<rparr>)"
    "al_event_type row = ''REAL_ORDER_SUBMITTED''" "al_candidate_id row = oc_id c"
    using audit_real [of "''REAL_ORDER_SUBMITTED''" "[(''broker_order_no_hash_prefix'',
         case ?h of None \<Rightarrow> JNull | Some h \<Rightarrow> JStr (take 16 h))]" "oc_id c"
         "Some [T ''real-path place_order succeeded'']" "''SUBMITTED''" c ?s] by auto
  with m show ?thesis unfolding record_submitted_def Let_def
    by (simp add: monad_simps) (rule exI [of _ row], simp)
qed

lemma record_failed_app:
  assumes "set subs = set sensitive_substrings"
  shows "\<exists>r row. record_failed subs c (t_next ro_id (sn_real_orders s)) kr (classify_place_message (or_message kr)) (created s c) =
     (Inr r, s\<lparr>sn_real_orders := sn_real_orders s @ [failed_row subs s c kr], sn_audits := sn_audits s @ [row]\<rparr>) \<and>
     \<not> xe_success r \<and> xe_status r = ''FAILED'' \<and> xe_real_order_id r = Some (t_next ro_id (sn_real_orders s)) \<and>
     xe_blocked_reason r = Some (classify_place_message (or_message kr)) \<and>
     al_event_type row = ''REAL_ORDER_FAILED'' \<and> al_candidate_id row = oc_id c"
proof -
  let ?k = "classify_place_message (or_message kr)"
  let ?m = "take 500 (scrub subs (or_message kr))"
  let ?s = "s\<lparr>sn_real_orders := sn_real_orders s @ [failed_row subs s c kr]\<rparr>"
  have "\<forall>p \<in> set sensitive_substrings. \<not> py_contains p (py_lower (take 500 ?m))"
    using scrub_clean [of _ subs 500] sensitive_scrubbable assms by simp
  then have m: "mark_failed (t_next ro_id (sn_real_orders s)) (Some ?k) (Some ?m) (created s c) = (Inr (), ?s)"
    using mark_failed_last [where s = "created s c" and m = ?m and e = ?k, OF created_sel(1) next_fresh _ status_created]
    by (simp add: created_upd failed_row_def)
  obtain row where "audit_append (oc_id c) ''REAL_ORDER_FAILED'' None
      (Some [T (''real-path place_order returned '' @ ?k)]) (Some (real_details ?k c)) None None ?s =
      (Inr (t_next al_id (sn_audits ?s)), ?s\<lparr>sn_audits := sn_audits ?s @ [row]\<rparr>)"
    "al_event_type row = ''REAL_ORDER_FAILED''" "al_candidate_id row = oc_id c"
    using audit_real [of "''REAL_ORDER_FAILED''" "[]" "oc_id c"
         "Some [T (''real-path place_order returned '' @ ?k)]" ?k c ?s] by auto
  with m show ?thesis unfolding record_failed_def Let_def
    by (simp add: monad_simps) (rule exI [of _ row], simp)
qed

definition request_of :: "order_candidate \<Rightarrow> string \<Rightarrow> kis_request" where
  "request_of c account_no = \<lparr>kq_symbol = oc_symbol c, kq_side = oc_side c, kq_order_type = oc_order_type c,
     kq_quantity = oc_quantity c, kq_price = limit_int (oc_limit_price c), kq_account_no = account_no\<rparr>"

lemma candidate_request_ok: "orderable c \<Longrightarrow> candidate_request c acct = Inr (request_of c acct)"
  by (auto simp: candidate_request_def make_kis_request_def orderable_def request_of_def ro_valid_sides_def
      ro_valid_order_types_def limit_int_def split: option.splits)

lemma candidate_request_cases: "candidate_request c acct = Inr q \<Longrightarrow> q = request_of c acct"
  by (auto simp: candidate_request_def make_kis_request_def request_of_def split: if_splits)

text \<open>The real branch once the order is created and the request is built.\<close>

definition real_outcome ::
  "string list \<Rightarrow> session \<Rightarrow> order_candidate \<Rightarrow> kis_order_result \<Rightarrow> executor_result \<Rightarrow> session \<Rightarrow> bool" where
  "real_outcome subs s c kr r s' \<longleftrightarrow>
     (let k = classify_place_message (or_message kr);
          row = (if k = ''SUBMITTED'' then submitted_row s c kr else failed_row subs s c kr)
      in (xe_success r \<longleftrightarrow> k = ''SUBMITTED'') \<and> xe_status r = ro_status row \<and> xe_real_order_id r = Some (ro_id row) \<and>
         (\<exists>log. s' = s\<lparr>sn_real_orders := sn_real_orders s @ [row], sn_audits := sn_audits s @ [log]\<rparr> \<and>
           al_event_type log = (if k = ''SUBMITTED'' then ''REAL_ORDER_SUBMITTED'' else ''REAL_ORDER_FAILED'') \<and>
           al_candidate_id log = oc_id c))"

lemma execute_real_core:
  assumes create: "rorder_create_for c False None None ''CREATED'' s = (Inr (t_next ro_id (sn_real_orders s)), created s c)"
    and request: "candidate_request c (cfg_kis_account_no cfg) = Inr q"
    and subs: "set (ex_scrub_order ex) = set sensitive_substrings"
    and place: "kt_place t q w = (x, w')"
  shows "case x of
      Inl e \<Rightarrow> execute_real ex cfg c t (s, w) = (Inl e, (created s c, w'))
    | Inr kr \<Rightarrow> (\<exists>r s'. execute_real ex cfg c t (s, w) = (Inr r, (s', w')) \<and>
        real_outcome (ex_scrub_order ex) s c kr r s')"
proof (cases x)
  case (Inl e)
  with create request place show ?thesis by (simp add: execute_real_def monad_simps)
next
  case (Inr kr)
  show ?thesis
  proof (cases "classify_place_message (or_message kr) = ''SUBMITTED''")
    case True
    with record_submitted_app [of c s kr] create request place Inr show ?thesis
      by (auto simp: execute_real_def monad_simps Let_def submitted_row_def real_outcome_def)
  next
    case False
    with record_failed_app [OF subs, of c s kr] create request place Inr show ?thesis
      by (auto simp: execute_real_def monad_simps Let_def failed_row_def real_outcome_def)
  qed
qed

lemma create_ok: "orderable c \<Longrightarrow>
    rorder_create_for c False None None ''CREATED'' s = (Inr (t_next ro_id (sn_real_orders s)), created s c)"
  using rorder_create_ok [of c "''CREATED''"] by (simp add: created_def ro_valid_statuses_def)

lemmas execute_real_app = execute_real_core [OF create_ok candidate_request_ok]

lemma execute_stopped:
  assumes "stopped_at cfg s (t_get oc_id i (sn_candidates s)) = Some reason"
  shows "\<exists>r. execute ex cfg i (s, w) = (Inr r, (s, w)) \<and> is_blocked cfg reason r"
  using assms check_gates_app [of cfg i s] by (auto simp: execute_def monad_simps)

lemma execute_open:
  assumes "t_get oc_id i (sn_candidates s) = Some c" and "gates_hold cfg s c"
  shows "execute ex cfg i (s, w) =
    (if cfg_real_order_dry_run cfg then execute_dry_run ex c (s, w)
     else case resolve_real_transport ex cfg of
       None \<Rightarrow> (Inr (blocked ''TRANSPORT_UNAVAILABLE''
             [T ''Real-path transport is not configured. Inject a non-Fake KisOrderClientInterface (or supply real_transport_factory) before calling execute() with real_order_dry_run=False.'']
             False None), (s, w))
     | Some t \<Rightarrow> execute_real ex cfg c t (s, w))"
proof -
  have "stopped_at cfg s (t_get oc_id i (sn_candidates s)) = None"
    using assms stopped_at_None by simp
  with check_gates_app [of cfg i s] assms(1) have "check_gates cfg i s = (Inr (Inr c), s)" by auto
  then show ?thesis by (simp add: execute_def monad_simps split: option.split)
qed

text \<open>What every execution does to the orders, also when it raises.\<close>

definition placed_for :: "session \<Rightarrow> order_candidate \<Rightarrow> bool \<Rightarrow> real_order \<Rightarrow> bool" where
  "placed_for s c dry r \<longleftrightarrow> ro_id r = t_next ro_id (sn_real_orders s) \<and> ro_candidate_id r = oc_id c \<and>
     ro_estimated_amount r = oc_estimated_amount c \<and> ro_created_at r = sn_now s \<and> ro_dry_run r = dry \<and>
     row_valid r \<and> ro_status r \<in> set ro_valid_statuses"

definition adds_order :: "session \<Rightarrow> order_candidate \<Rightarrow> bool \<Rightarrow> session \<Rightarrow> bool" where
  "adds_order s c dry s' \<longleftrightarrow> (sn_real_orders s' = sn_real_orders s \<or>
       (\<exists>r. sn_real_orders s' = sn_real_orders s @ [r] \<and> placed_for s c dry r)) \<and>
     sn_candidates s' = sn_candidates s \<and> sn_real_fills s' = sn_real_fills s \<and> sn_now s' = sn_now s \<and>
     audits_grow s s'"

lemma adds_order_refl [simp]: "adds_order s c dry s"
  by (simp add: adds_order_def ag.R_refl)

lemma placed_new: "oc_side c \<in> set ro_valid_sides \<Longrightarrow> 0 < oc_quantity c \<Longrightarrow> st \<in> set ro_valid_statuses \<Longrightarrow>
   placed_for s c d (new_rorder s c d f q st)"
  by (simp add: placed_for_def row_valid_def)

lemma dry_run_adds:
  assumes "execute_dry_run ex c (s, w) = (res, (s', w'))"
  shows "adds_order s c True s'"
proof -
  have create: "adds_order s c True (snd (rorder_create_for c True f q ''DRY_RUN'' u))"
    if "sn_real_orders u = sn_real_orders s" "sn_candidates u = sn_candidates s" "sn_now u = sn_now s"
      "sn_real_fills u = sn_real_fills s" "sn_audits u = sn_audits s" for f q u
  proof -
    have "new_rorder u c True f q ''DRY_RUN'' = new_rorder s c True f q ''DRY_RUN''"
      using that by (simp add: new_rorder_def)
    with that rorder_create_cases [of c True f q "''DRY_RUN''" u] show ?thesis
      by (auto simp: adds_order_def audits_grow_def placed_new)
  qed
  have place: "sn_real_orders (fst v) = sn_real_orders s \<and> sn_candidates (fst v) = sn_candidates s \<and>
      sn_now (fst v) = sn_now s \<and> sn_real_fills (fst v) = sn_real_fills s \<and> sn_audits (fst v) = sn_audits s"
    if "transport_place ex q (s, w) = (x, v)" for q x v
    using that by (auto simp: transport_place_def monad_simps own_fake_place_def split: option.splits prod.splits)
  show ?thesis
  proof (cases "candidate_request c ''DRY_RUN''")
    case (Inr q)
    obtain x v where p: "transport_place ex q (s, w) = (x, v)" by (cases "transport_place ex q (s, w)")
    show ?thesis
    proof (cases x)
      case (Inl e)
      with assms Inr p place [OF p] show ?thesis
        by (auto simp: execute_dry_run_def monad_simps adds_order_def audits_grow_def)
    next
      case x: (Inr kr)
      let ?c = "rorder_create_for c True (Some (or_order_no kr)) (Some (take 16 (sha256_hex (or_order_no kr)))) ''DRY_RUN''"
      obtain y u where "?c (fst v) = (y, u)" by (cases "?c (fst v)")
      moreover from this have "s' = u" using assms Inr p x
        by (cases v) (auto simp: execute_dry_run_def monad_simps Let_def split: sum.splits)
      ultimately show ?thesis
        using create [of "fst v" "Some (or_order_no kr)" "Some (take 16 (sha256_hex (or_order_no kr)))"] place [OF p] by simp
    qed
  qed (use assms in \<open>auto simp: execute_dry_run_def monad_simps\<close>)
qed

lemma real_outcome_adds:
  "oc_side c \<in> set ro_valid_sides \<Longrightarrow> 0 < oc_quantity c \<Longrightarrow> real_outcome subs s c kr r s' \<Longrightarrow> adds_order s c False s'"
  by (auto simp: real_outcome_def Let_def adds_order_def placed_for_def submitted_row_def failed_row_def audits_grow_def
      row_valid_def ro_valid_statuses_def split: if_splits)

lemma created_adds: "oc_side c \<in> set ro_valid_sides \<Longrightarrow> 0 < oc_quantity c \<Longrightarrow> adds_order s c False (created s c)"
  by (simp add: adds_order_def created_def audits_grow_def placed_new ro_valid_statuses_def)

lemma real_adds:
  assumes subs: "set (ex_scrub_order ex) = set sensitive_substrings"
    and run: "execute_real ex cfg c t (s, w) = (res, (s', w'))"
  shows "adds_order s c False s'"
proof -
  consider (refused) e where "rorder_create_for c False None None ''CREATED'' s = (Inl e, s)"
    | (ok) "rorder_create_for c False None None ''CREATED'' s = (Inr (t_next ro_id (sn_real_orders s)), created s c)"
        "oc_side c \<in> set ro_valid_sides" "0 < oc_quantity c"
    using rorder_create_cases [of c False None None "''CREATED''" s] by (auto simp: created_def)
  then show ?thesis
  proof cases
    case refused
    with run show ?thesis by (auto simp: execute_real_def monad_simps)
  next
    case ok
    show ?thesis
    proof (cases "candidate_request c (cfg_kis_account_no cfg)")
      case (Inl e)
      with ok run created_adds [OF ok(2,3)] show ?thesis by (auto simp: execute_real_def monad_simps)
    next
      case (Inr q)
      obtain x v where "kt_place t q w = (x, v)" by (cases "kt_place t q w")
      from execute_real_core [OF ok(1) Inr subs this] run show ?thesis
        by (cases x) (auto simp: created_adds [OF ok(2,3)] dest: real_outcome_adds [OF ok(2,3)])
    qed
  qed
qed

lemma execute_adds:
  assumes subs: "set (ex_scrub_order ex) = set sensitive_substrings"
    and run: "execute ex cfg i (s, w) = (res, (s', w'))"
  shows "s' = s \<or> (\<exists>c. t_get oc_id i (sn_candidates s) = Some c \<and> gates_hold cfg s c \<and>
    adds_order s c (cfg_real_order_dry_run cfg) s')"
proof (cases "stopped_at cfg s (t_get oc_id i (sn_candidates s))")
  case (Some reason)
  from execute_stopped [OF Some, of ex w] run show ?thesis by auto
next
  case None
  then obtain c where c: "t_get oc_id i (sn_candidates s) = Some c" "gates_hold cfg s c"
    using stopped_at_None by (auto simp: stopped_at_def split: option.splits)
  from run execute_open [OF c, of ex w] real_adds [OF subs] dry_run_adds [of ex c s w] c show ?thesis
    by (auto split: if_splits option.splits)
qed

end
