(* ===== verification/Virtual_Orders.thy ===== *)
theory Virtual_Orders
  imports Paper_Ledger
begin

text \<open>
  The repository of paper orders, \<^verbatim>\<open>app/data/repositories/virtual_order.py\<close>: creation with
  its validation, queries, and the status changes. An order is passed by its key.
\<close>

definition vo_valid_sides :: "string list" where
  "vo_valid_sides = [''BUY'', ''SELL'']"

definition vo_valid_order_types :: "string list" where
  "vo_valid_order_types = [''LIMIT'', ''MARKET'']"

definition vo_valid_statuses :: "string list" where
  "vo_valid_statuses =
     [''CANCELED'', ''CREATED'', ''FILLED'', ''PARTIALLY_FILLED'', ''REJECTED'', ''SUBMITTED'']"

definition vo_terminal_statuses :: "string list" where
  "vo_terminal_statuses = [''CANCELED'', ''FILLED'', ''PARTIALLY_FILLED'', ''REJECTED'']"

definition vo_cancelable_statuses :: "string list" where
  "vo_cancelable_statuses = [''CREATED'', ''SUBMITTED'']"

definition upd_vorder :: "int \<Rightarrow> (virtual_order \<Rightarrow> virtual_order) \<Rightarrow> unit db" where
  "upd_vorder i f = smodify (\<lambda>s. s\<lparr>sn_orders := t_upd vo_id i f (sn_orders s)\<rparr>)"

definition vorder_create ::
  "int \<Rightarrow> string \<Rightarrow> string \<Rightarrow> int \<Rightarrow> string \<Rightarrow> decimal option \<Rightarrow> string option \<Rightarrow>
   text_t option \<Rightarrow> string option \<Rightarrow> string \<Rightarrow> int db" where
  "vorder_create account_id symbol side quantity order_type limit_price idempotency_key reason note status =
     sbind (srequire (side \<in> set vo_valid_sides)
       (ValueError [T (''side must be one of '' @ py_list_repr vo_valid_sides)])) (\<lambda>_.
     sbind (srequire (order_type \<in> set vo_valid_order_types)
       (ValueError [T (''order_type must be one of '' @ py_list_repr vo_valid_order_types)])) (\<lambda>_.
     sbind (srequire (status \<in> set vo_valid_statuses)
       (ValueError [T (''status must be one of '' @ py_list_repr vo_valid_statuses)])) (\<lambda>_.
     sbind (srequire (\<not> quantity \<le> 0) (ValueError [T ''quantity must be > 0''])) (\<lambda>_.
     sbind (srequire (\<not> (order_type = ''LIMIT'' \<and> limit_price = None))
       (ValueError [T ''LIMIT order requires limit_price''])) (\<lambda>_.
     sbind (srequire (\<not> (order_type = ''MARKET'' \<and> limit_price \<noteq> None))
       (ValueError [T ''MARKET order must not have limit_price''])) (\<lambda>_.
     sbind utc_now (\<lambda>now.
     sbind (sgets (\<lambda>s. t_next vo_id (sn_orders s))) (\<lambda>i.
     sbind (smodify (\<lambda>s. s\<lparr>sn_orders := sn_orders s @
              [\<lparr>vo_id = i, vo_account_id = account_id, vo_symbol = symbol, vo_side = side,
                vo_quantity = quantity, vo_order_type = order_type, vo_limit_price = limit_price,
                vo_status = status, vo_idempotency_key = idempotency_key, vo_reason = reason,
                vo_note = note, vo_updated_at = now\<rparr>]\<rparr>)) (\<lambda>_.
     sret i)))))))))"

definition vorder_get_by_id :: "int \<Rightarrow> virtual_order option db" where
  "vorder_get_by_id order_id = sgets (\<lambda>s. t_get vo_id order_id (sn_orders s))"

definition vorder_list_by_account :: "int \<Rightarrow> string option \<Rightarrow> nat \<Rightarrow> virtual_order list db" where
  "vorder_list_by_account account_id status limit =
     sgets (\<lambda>s. take limit (rev (sort_key vo_id (filter (\<lambda>o'. vo_account_id o' = account_id \<and>
       (case status of None \<Rightarrow> True | Some st \<Rightarrow> vo_status o' = st)) (sn_orders s)))))"

definition vorder_get_by_idempotency_key :: "int \<Rightarrow> string \<Rightarrow> virtual_order option db" where
  "vorder_get_by_idempotency_key account_id key =
     sbind (sgets (\<lambda>s. filter (\<lambda>o'. vo_account_id o' = account_id \<and>
       vo_idempotency_key o' = Some key) (sn_orders s))) one_or_none"

definition vorder_update_status :: "int \<Rightarrow> string \<Rightarrow> text_t option \<Rightarrow> unit db" where
  "vorder_update_status i new_status reason =
     sbind (srequire (new_status \<in> set vo_valid_statuses)
       (ValueError [T (''status must be one of '' @ py_list_repr vo_valid_statuses)])) (\<lambda>_.
     sbind utc_now (\<lambda>now.
     upd_vorder i (\<lambda>o'. o'\<lparr>vo_status := new_status,
       vo_reason := (case reason of None \<Rightarrow> vo_reason o' | Some r \<Rightarrow> Some r),
       vo_updated_at := now\<rparr>)))"

definition vorder_cancel :: "int \<Rightarrow> text_t option \<Rightarrow> unit db" where
  "vorder_cancel i reason =
     sbind (row_of sn_orders vo_id i) (\<lambda>o'.
     sbind (srequire (vo_status o' \<in> set vo_cancelable_statuses)
       (ValueError [T (''cannot cancel VirtualOrder in status='' @ py_repr (vo_status o') @
         ''; only '' @ py_list_repr vo_cancelable_statuses @ '' are cancelable'')])) (\<lambda>_.
     vorder_update_status i ''CANCELED'' reason))"

end
