(* ===== verification/Simulation_Broker.thy ===== *)
theory Simulation_Broker
  imports Virtual_Orders "HOL-Library.Product_Lexorder"
begin

text \<open>
  \<^verbatim>\<open>app/broker/simulation_broker.py\<close>: submitting, cancelling and matching paper orders. The
  broker keeps no state of its own; an order is returned as its key. The body of the loop of
  \<open>execute_pending_orders\<close> is \<open>execute_one\<close>, with the counters of
  \<open>ExecutePendingResult\<close> as its accumulator.
\<close>

record submit_result =
  sr_order :: int
  sr_deduplicated :: bool

definition normalize_limit :: "string \<Rightarrow> dec_arg option \<Rightarrow> decimal option db" where
  "normalize_limit order_type limit_price =
     (if order_type = ''LIMIT'' then
        (case limit_price of
           None \<Rightarrow> sthrow (SimulationBrokerError [T ''LIMIT order requires limit_price''])
         | Some x \<Rightarrow>
             sbind (dec_of x) (\<lambda>normalized.
             sbind (srequire (\<not> normalized \<le> 0)
               (SimulationBrokerError [T ''limit_price must be > 0''])) (\<lambda>_.
             sret (Some normalized))))
      else
        sbind (srequire (limit_price = None)
          (SimulationBrokerError [T ''MARKET order must not have limit_price''])) (\<lambda>_.
        sret None))"

definition submit_order ::
  "settings \<Rightarrow> int \<Rightarrow> string \<Rightarrow> string \<Rightarrow> int_arg \<Rightarrow> string \<Rightarrow> dec_arg option \<Rightarrow>
   string option \<Rightarrow> string option \<Rightarrow> submit_result db" where
  "submit_order cfg account_id symbol side quantity order_type limit_price idempotency_key note =
     sbind (srequire (cfg_paper_trading_enabled cfg)
       (PaperTradingDisabledError [T ''PAPER_TRADING_ENABLED is False; SimulationBroker.submit_order refuses to write any VirtualOrder. Set PAPER_TRADING_ENABLED=true in operator-private .env to opt in.''])) (\<lambda>_.
     sbind (account_get_by_id account_id) (\<lambda>account.
     case account of
       None \<Rightarrow> sthrow (SimulationBrokerError (account_not_found account_id))
     | Some a \<Rightarrow>
     sbind (srequire (va_paper_trading_enabled a)
       (PaperTradingDisabledError [T (''VirtualAccount id='' @ str_of_int account_id @
          '' has paper_trading_enabled=False'')])) (\<lambda>_.
     sbind (srequire (side \<in> set vo_valid_sides)
       (SimulationBrokerError [T (''side must be one of '' @ py_list_repr vo_valid_sides @
          '' (got '' @ py_repr side @ '')'')])) (\<lambda>_.
     sbind (srequire (order_type \<in> set vo_valid_order_types)
       (SimulationBrokerError [T (''order_type must be one of '' @ py_list_repr vo_valid_order_types @
          '' (got '' @ py_repr order_type @ '')'')])) (\<lambda>_.
     case quantity of
       PyBool _ \<Rightarrow> sthrow (SimulationBrokerError [T ''quantity must be a positive integer''])
     | PyOther \<Rightarrow> sthrow (SimulationBrokerError [T ''quantity must be a positive integer''])
     | PyInt q \<Rightarrow>
     sbind (srequire (\<not> q \<le> 0) (SimulationBrokerError [T ''quantity must be > 0''])) (\<lambda>_.
     sbind (srequire (symbol \<noteq> [] \<and> py_strip symbol \<noteq> [])
       (SimulationBrokerError [T ''symbol must be non-empty''])) (\<lambda>_.
     sbind (normalize_limit order_type limit_price) (\<lambda>normalized_limit.
     sbind
       (case idempotency_key of
          None \<Rightarrow> sret None
        | Some key \<Rightarrow> vorder_get_by_idempotency_key account_id key)
       (\<lambda>existing.
     case existing of
       Some o' \<Rightarrow> sret \<lparr>sr_order = vo_id o', sr_deduplicated = True\<rparr>
     | None \<Rightarrow>
         sbind (vorder_create account_id symbol side q order_type normalized_limit
                  idempotency_key None note ''CREATED'') (\<lambda>i.
         sret \<lparr>sr_order = i, sr_deduplicated = False\<rparr>))))))))))"

definition cancel_order :: "int \<Rightarrow> text_t option \<Rightarrow> int db" where
  "cancel_order order_id reason =
     sbind (vorder_get_by_id order_id) (\<lambda>found.
     case found of
       None \<Rightarrow> sthrow (SimulationBrokerError
         [T (''VirtualOrder id='' @ str_of_int order_id @ '' not found'')])
     | Some o' \<Rightarrow>
         sbind (srequire (vo_status o' \<in> set vo_cancelable_statuses)
           (SimulationBrokerError [T (''VirtualOrder id='' @ str_of_int order_id @ '' is in status='' @
             py_repr (vo_status o') @ ''; only '' @ py_list_repr vo_cancelable_statuses @
             '' are cancelable (terminal: '' @ py_list_repr vo_terminal_statuses @ '')'')])) (\<lambda>_.
         sbind (vorder_cancel order_id reason) (\<lambda>_.
         sret order_id)))"

subsection \<open>Matching\<close>

record exec_result =
  er_filled :: "(int \<times> int) list"
  er_rejected :: "int list"
  er_skipped_no_price :: nat
  er_skipped_limit_unmet :: nat
  er_skipped_terminal :: nat

definition empty_exec_result :: exec_result where
  "empty_exec_result = \<lparr>er_filled = [], er_rejected = [], er_skipped_no_price = 0,
     er_skipped_limit_unmet = 0, er_skipped_terminal = 0\<rparr>"

definition list_pending_global :: "string \<Rightarrow> virtual_order list db" where
  "list_pending_global status =
     sgets (\<lambda>s. sort_key vo_id (filter (\<lambda>o'. vo_status o' = status) (sn_orders s)))"

definition lookup_close_price :: "string \<Rightarrow> int \<Rightarrow> int \<Rightarrow> daily_price option db" where
  "lookup_close_price symbol as_of_date price_lookback_days =
     (if price_lookback_days \<le> 0 then price_get_by_symbol_date symbol as_of_date
      else price_get_latest_on_or_before symbol as_of_date price_lookback_days)"

text \<open>\<open>None\<close> when the order is not a \<open>LIMIT\<close> order; \<open>Decimal(None)\<close> is a \<open>TypeError\<close>.\<close>

definition limit_unmet :: "virtual_order \<Rightarrow> decimal \<Rightarrow> bool db" where
  "limit_unmet o' close_price =
     (if vo_order_type o' = ''LIMIT'' then
        (case vo_limit_price o' of
           None \<Rightarrow> sthrow TypeError
         | Some limit \<Rightarrow> sret ((vo_side o' = ''BUY'' \<and> limit < close_price) \<or>
                              (vo_side o' = ''SELL'' \<and> close_price < limit)))
      else sret False)"

definition reject_order :: "int \<Rightarrow> text_t \<Rightarrow> exec_result \<Rightarrow> exec_result db" where
  "reject_order i message result =
     sbind (vorder_update_status i ''REJECTED'' (Some [Cut 256 message])) (\<lambda>_.
     sret (result\<lparr>er_rejected := er_rejected result @ [i]\<rparr>))"

text \<open>The two exceptions the loop turns into a rejection, with their message.\<close>

definition shortage :: "py_error \<Rightarrow> text_t option" where
  "shortage e = (case e of InsufficientCashError t \<Rightarrow> Some t | InsufficientPositionError t \<Rightarrow> Some t | _ \<Rightarrow> None)"

definition settle_order ::
  "paper_cost_model \<Rightarrow> virtual_order \<Rightarrow> decimal \<Rightarrow> exec_result \<Rightarrow> exec_result db" where
  "settle_order cost_model o' close_price result =
     sbind (stry (apply_fill cost_model (vo_id o') (vo_account_id o') (vo_symbol o') (vo_side o')
                    (vo_quantity o') close_price None)) (\<lambda>outcome.
       case outcome of
         Inl e \<Rightarrow> (case shortage e of
             Some t \<Rightarrow> reject_order (vo_id o') t result
           | None \<Rightarrow> sthrow e)
       | Inr fill_result \<Rightarrow>
           sbind (vorder_update_status (vo_id o') ''FILLED'' None) (\<lambda>_.
           sret (result\<lparr>er_filled := er_filled result @ [(vo_id o', fr_fill_id fill_result)]\<rparr>)))"

definition execute_one ::
  "paper_cost_model \<Rightarrow> int \<Rightarrow> int \<Rightarrow> int \<Rightarrow> exec_result \<Rightarrow> exec_result db" where
  "execute_one cost_model as_of_date price_lookback_days i result =
     sbind (row_of sn_orders vo_id i) (\<lambda>o'.
     if vo_status o' \<in> set vo_terminal_statuses
     then sret (result\<lparr>er_skipped_terminal := er_skipped_terminal result + 1\<rparr>)
     else
     sbind (lookup_close_price (vo_symbol o') as_of_date price_lookback_days) (\<lambda>bar.
     case bar of
       None \<Rightarrow> sret (result\<lparr>er_skipped_no_price := er_skipped_no_price result + 1\<rparr>)
     | Some b \<Rightarrow>
     sbind (limit_unmet o' (dp_close b)) (\<lambda>unmet.
     if unmet then sret (result\<lparr>er_skipped_limit_unmet := er_skipped_limit_unmet result + 1\<rparr>)
     else
     settle_order cost_model o' (dp_close b) result)))"

definition pending_candidates :: "int option \<Rightarrow> int list db" where
  "pending_candidates account_id =
     sbind
       (case account_id of
          None \<Rightarrow>
            sbind (list_pending_global ''CREATED'') (\<lambda>xs.
            sbind (list_pending_global ''SUBMITTED'') (\<lambda>ys. sret (xs @ ys)))
        | Some a \<Rightarrow>
            sbind (vorder_list_by_account a (Some ''CREATED'') 10000) (\<lambda>xs.
            sbind (vorder_list_by_account a (Some ''SUBMITTED'') 10000) (\<lambda>ys. sret (xs @ ys))))
       (\<lambda>candidates.
     sret (map vo_id (sort_key (\<lambda>o'. (vo_account_id o', vo_id o')) candidates)))"

definition execute_pending_orders ::
  "paper_cost_model \<Rightarrow> int \<Rightarrow> int option \<Rightarrow> int \<Rightarrow> exec_result db" where
  "execute_pending_orders cost_model as_of_date account_id price_lookback_days =
     sbind (pending_candidates account_id) (\<lambda>candidates.
     sfold (execute_one cost_model as_of_date price_lookback_days) candidates empty_exec_result)"

end
