(* ===== verification/Approval.thy ===== *)
theory Approval
  imports Audit_Log Risk_Engine Simulation_Broker
begin

text \<open>
  The approval workflow, \<^verbatim>\<open>app/approval/approval_service.py\<close>: it composes the candidate
  state machine, the risk engine, the audit log and the paper broker. The service never
  commits, so an operation that raises still returns the session as it left it; what becomes
  of it is decided by the route (theory Routes).
\<close>

record actor =
  ac_user_id :: "int option"
  ac_ip_hash :: "string option"
  ac_user_agent_hash :: "string option"

definition system_actor :: actor where
  "system_actor = \<lparr>ac_user_id = None, ac_ip_hash = None, ac_user_agent_hash = None\<rparr>"

definition default_ttl :: int where
  "default_ttl = 1800000000"

record create_candidate_result =
  cr_candidate :: int
  cr_risk_result :: risk_result
  cr_risk_passed :: bool

record approve_result =
  ar_candidate :: int
  ar_virtual_order_id :: int
  ar_risk_result :: risk_result

definition rule_ids_of :: "risk_result \<Rightarrow> string list" where
  "rule_ids_of r = map rv_rule_id (rr_violations r)"

definition format_violations :: "risk_result \<Rightarrow> text_t" where
  "format_violations r =
     (if rr_violations r = [] then [T ''risk passed'']
      else [T (''risk:'' @ policy_version @ '' violations=['' @ py_join '', '' (rule_ids_of r) @ '']'')])"

text \<open>\<open>audit.append\<close> with the identity of the actor.\<close>

definition audit_as ::
  "actor \<Rightarrow> int \<Rightarrow> string \<Rightarrow> text_t option \<Rightarrow> (string \<times> json) list option \<Rightarrow> int db" where
  "audit_as ac i event reason details =
     audit_append i event (ac_user_id ac) reason details (ac_ip_hash ac) (ac_user_agent_hash ac)"

definition assert_workflow_active :: "settings \<Rightarrow> unit db" where
  "assert_workflow_active cfg = srequire (cfg_trading_safety_enabled cfg) TradingSafetyDisabledError"

definition assert_kill_switch_off :: "settings \<Rightarrow> int option \<Rightarrow> actor \<Rightarrow> unit db" where
  "assert_kill_switch_off cfg candidate_id ac =
     (if cfg_kill_switch_enabled cfg then
        sbind (case candidate_id of
            None \<Rightarrow> sret ()
          | Some i \<Rightarrow> sbind (audit_as ac i ''KILL_SWITCH_BLOCKED'' (Some [T ''kill_switch_enabled'']) None)
              (\<lambda>_. sret ())) (\<lambda>_.
        sthrow KillSwitchBlockedError)
      else sret ())"

definition rule_ids_json :: "risk_result \<Rightarrow> string \<times> json" where
  "rule_ids_json r = (''violation_rule_ids'', JList (map JStr (rule_ids_of r)))"

definition create_candidate ::
  "settings \<Rightarrow> int \<Rightarrow> string \<Rightarrow> string \<Rightarrow> string \<Rightarrow> int_arg \<Rightarrow> string \<Rightarrow> dec_arg option \<Rightarrow> dec_arg \<Rightarrow>
   int option \<Rightarrow> int option \<Rightarrow> actor \<Rightarrow> int option \<Rightarrow> create_candidate_result db" where
  "create_candidate cfg account_id source symbol side quantity order_type limit_price
     estimated_amount source_ref_id ttl ac now =
     sbind (assert_workflow_active cfg) (\<lambda>_.
     sbind (case now of None \<Rightarrow> utc_now | Some t \<Rightarrow> sret t) (\<lambda>evaluated_at.
     let expires_at = evaluated_at +
           (case ttl of None \<Rightarrow> default_ttl | Some d \<Rightarrow> if d = 0 then default_ttl else d)
     in
     sbind (srequire (\<not> cfg_kill_switch_enabled cfg) KillSwitchBlockedError) (\<lambda>_.
     sbind (candidate_create account_id source symbol side quantity order_type limit_price
              estimated_amount source_ref_id (Some expires_at) ''DRAFT'') (\<lambda>i.
     sbind (row_of sn_candidates oc_id i) (\<lambda>c.
     sbind (audit_as ac i ''CREATED'' None
              (Some [(''source'', JStr source), (''symbol'', JStr (oc_symbol c))])) (\<lambda>_.
     sbind (candidate_update_status i ''RISK_CHECKING'' None None) (\<lambda>_.
     sbind (row_of sn_candidates oc_id i) (\<lambda>c.
     sbind (evaluate cfg c (Some evaluated_at)) (\<lambda>risk.
     sbind (attach_risk_result i risk) (\<lambda>_.
     sbind (audit_as ac i ''RISK_CHECKED'' None
              (Some [(''policy_version'', JStr (rr_policy_version risk)),
                     (''passed'', JBool (rr_passed risk)), rule_ids_json risk])) (\<lambda>_.
     sbind
       (if rr_passed risk
        then candidate_update_status i ''PENDING_APPROVAL'' None None
        else
          sbind (candidate_update_status i ''RISK_REJECTED'' (Some (format_violations risk)) None) (\<lambda>_.
          sbind (audit_as ac i ''RISK_REJECTED'' (Some (format_violations risk))
                   (Some [(''policy_version'', JStr (rr_policy_version risk)), rule_ids_json risk])) (\<lambda>_.
          sret ()))) (\<lambda>_.
     sret \<lparr>cr_candidate = i, cr_risk_result = risk, cr_risk_passed = rr_passed risk\<rparr>))))))))))))"

definition candidate_not_found :: "int \<Rightarrow> py_error" where
  "candidate_not_found i = ApprovalServiceError [T (''OrderCandidate id='' @ str_of_int i @ '' not found'')]"

definition status_denied :: "int \<Rightarrow> string \<Rightarrow> string \<Rightarrow> py_error" where
  "status_denied i status action' = ApprovalDeniedError
     [T (''candidate id='' @ str_of_int i @ '' status is '' @ py_repr status @
         ''; only PENDING_APPROVAL candidates can be '' @ action')]
     [(''current_status'', JStr status)]"

text \<open>\<open>except (PaperTradingDisabledError, SimulationBrokerError) as exc\<close>.\<close>

definition paper_failure :: "py_error \<Rightarrow> py_error" where
  "paper_failure e = (case e of
     PaperTradingDisabledError t \<Rightarrow> ApprovalDeniedError (T ''paper execution failed: '' # t)
       [(''error_type'', JStr ''PaperTradingDisabledError'')]
   | SimulationBrokerError t \<Rightarrow> ApprovalDeniedError (T ''paper execution failed: '' # t)
       [(''error_type'', JStr ''SimulationBrokerError'')]
   | _ \<Rightarrow> e)"

text \<open>The part of \<open>approve\<close> after a failed risk re-check.\<close>

definition deny_recheck :: "int \<Rightarrow> actor \<Rightarrow> risk_result \<Rightarrow> unit db" where
  "deny_recheck i ac risk =
     sbind (attach_risk_result i risk) (\<lambda>_.
     sbind (candidate_update_status i ''REJECTED'' (Some (format_violations risk)) (ac_user_id ac)) (\<lambda>_.
     sbind (audit_as ac i ''RISK_REJECTED'' (Some (format_violations risk))
              (Some [(''policy_version'', JStr (rr_policy_version risk)), rule_ids_json risk,
                     (''phase'', JStr ''approve_recheck'')])) (\<lambda>_.
     sthrow (ApprovalDeniedError [T ''risk re-check failed at approval time''] [rule_ids_json risk]))))"

text \<open>The forwarding of an approved candidate to the paper broker.\<close>

definition approval_key :: "int \<Rightarrow> string" where
  "approval_key i = ''approval-'' @ str_of_int i"

definition forward_to_broker :: "settings \<Rightarrow> int \<Rightarrow> submit_result db" where
  "forward_to_broker cfg i =
     sbind (row_of sn_candidates oc_id i) (\<lambda>c.
     smap_err paper_failure
       (submit_order cfg (oc_account_id c) (oc_symbol c) (oc_side c) (PyInt (oc_quantity c))
          (oc_order_type c) (map_option DecArg (oc_limit_price c)) (Some (approval_key i))
          (Some (''approved candidate id='' @ str_of_int i))))"

definition approve :: "settings \<Rightarrow> int \<Rightarrow> actor \<Rightarrow> int option \<Rightarrow> approve_result db" where
  "approve cfg candidate_id ac now =
     sbind (assert_workflow_active cfg) (\<lambda>_.
     sbind (case now of None \<Rightarrow> utc_now | Some t \<Rightarrow> sret t) (\<lambda>evaluated_at.
     sbind (candidate_get_by_id candidate_id) (\<lambda>found.
     case found of
       None \<Rightarrow> sthrow (candidate_not_found candidate_id)
     | Some c \<Rightarrow>
     sbind (srequire (oc_status c = ''PENDING_APPROVAL'')
       (status_denied candidate_id (oc_status c) ''approved'')) (\<lambda>_.
     sbind (assert_kill_switch_off cfg (Some (oc_id c)) ac) (\<lambda>_.
     sbind (evaluate cfg c (Some evaluated_at)) (\<lambda>risk.
     sbind (if rr_passed risk then sret () else deny_recheck (oc_id c) ac risk) (\<lambda>_.
     sbind (candidate_update_status (oc_id c) ''APPROVED'' None (ac_user_id ac)) (\<lambda>_.
     sbind (audit_as ac (oc_id c) ''APPROVED'' None
              (Some [(''policy_version'', JStr (rr_policy_version risk))])) (\<lambda>_.
     sbind (forward_to_broker cfg (oc_id c)) (\<lambda>submitted.
     sbind (attach_virtual_order (oc_id c) (sr_order submitted)) (\<lambda>_.
     sbind (candidate_update_status (oc_id c) ''EXECUTED_PAPER'' None None) (\<lambda>_.
     sbind (audit_as ac (oc_id c) ''EXECUTED_PAPER'' None
              (Some [(''virtual_order_id'', JInt (sr_order submitted)),
                     (''deduplicated'', JBool (sr_deduplicated submitted))])) (\<lambda>_.
     sret \<lparr>ar_candidate = oc_id c, ar_virtual_order_id = sr_order submitted,
           ar_risk_result = risk\<rparr>)))))))))))))"

definition reject :: "settings \<Rightarrow> int \<Rightarrow> actor \<Rightarrow> text_t \<Rightarrow> int db" where
  "reject cfg candidate_id ac reason =
     sbind (assert_workflow_active cfg) (\<lambda>_.
     sbind (candidate_get_by_id candidate_id) (\<lambda>found.
     case found of
       None \<Rightarrow> sthrow (candidate_not_found candidate_id)
     | Some c \<Rightarrow>
     sbind (srequire (oc_status c = ''PENDING_APPROVAL'')
       (status_denied candidate_id (oc_status c) ''rejected'')) (\<lambda>_.
     sbind (assert_kill_switch_off cfg (Some (oc_id c)) ac) (\<lambda>_.
     sbind (candidate_reject (oc_id c) (case ac_user_id ac of None \<Rightarrow> 0 | Some u \<Rightarrow> u) reason) (\<lambda>_.
     sbind (audit_as ac (oc_id c) ''REJECTED'' (cut_reason reason) None) (\<lambda>_.
     sret (oc_id c)))))))"

definition expire_denied :: "int \<Rightarrow> string \<Rightarrow> py_error \<Rightarrow> py_error" where
  "expire_denied i status e = (case e of
     InvalidOrderCandidateTransition t \<Rightarrow> ApprovalDeniedError
       [T (''candidate id='' @ str_of_int i @ '' cannot be expired from status '' @ py_repr status)]
       [(''current_status'', JStr status)]
   | _ \<Rightarrow> e)"

definition expire :: "int \<Rightarrow> actor \<Rightarrow> int db" where
  "expire candidate_id ac =
     sbind (candidate_get_by_id candidate_id) (\<lambda>found.
     case found of
       None \<Rightarrow> sthrow (candidate_not_found candidate_id)
     | Some c \<Rightarrow>
     sbind (smap_err (expire_denied candidate_id (oc_status c)) (candidate_expire (oc_id c))) (\<lambda>_.
     sbind (audit_as ac (oc_id c) ''EXPIRED'' (Some [T ''ttl_expired'']) None) (\<lambda>_.
     sret (oc_id c))))"

end
