(* ===== verification/Ledger_Facts.thy ===== *)
theory Ledger_Facts
  imports Paper_Ledger
begin

text \<open>
  What the ledger guarantees. The invariant \<open>ledger_ok\<close>: no account is overdrawn, no
  position is short, the keys the database declares unique are unique. The abstract
  specification is a book that gives each account its cash and each (account, symbol) its
  quantity, average cost and realized PnL; \<open>apply_fill\<close> refines the two entries
  \<open>book_buy\<close> and \<open>book_sell\<close> of that book.
\<close>

subsection \<open>Positions table\<close>

definition positions_ok :: "virtual_position list \<Rightarrow> bool" where
  "positions_ok ps \<longleftrightarrow> distinct (map vp_id ps) \<and>
     distinct (map (\<lambda>p. (vp_account_id p, vp_symbol p)) ps) \<and>
     (\<forall>p \<in> set ps. 0 \<le> vp_quantity p \<and> 0 \<le> vp_avg_cost p)"

definition accounts_ok :: "virtual_account list \<Rightarrow> bool" where
  "accounts_ok as \<longleftrightarrow> distinct (map va_id as) \<and> (\<forall>a \<in> set as. 0 \<le> va_cash_balance a)"

definition fills_ok :: "virtual_fill list \<Rightarrow> bool" where
  "fills_ok fs \<longleftrightarrow> (\<forall>f \<in> set fs. 0 < vf_quantity f \<and> 0 < vf_fill_price f \<and>
     (vf_side f = ''BUY'' \<or> vf_side f = ''SELL'') \<and> 0 \<le> vf_net_amount f)"

definition ledger_ok :: "session \<Rightarrow> bool" where
  "ledger_ok s \<longleftrightarrow> accounts_ok (sn_accounts s) \<and> positions_ok (sn_positions s) \<and> fills_ok (sn_fills s)"

lemma find_position_Some:
  "find_position a y ps = Some p \<Longrightarrow> p \<in> set ps \<and> vp_account_id p = a \<and> vp_symbol p = y"
  by (auto simp: find_position_def find_Some_iff)

lemma find_position_append:
  "find_position a y (ps @ [p]) =
     (case find_position a y ps of Some x \<Rightarrow> Some x
      | None \<Rightarrow> if vp_account_id p = a \<and> vp_symbol p = y then Some p else None)"
  by (induction ps) (auto simp: find_position_def)

lemma t_get_position:
  "positions_ok ps \<Longrightarrow> p \<in> set ps \<Longrightarrow> t_get vp_id (vp_id p) ps = Some p"
  by (auto simp: positions_ok_def intro: t_get_distinct)

lemma find_position_upd:
  assumes ok: "positions_ok ps" and p: "find_position a y ps = Some p"
    and f: "\<And>p. vp_id (f p) = vp_id p" "\<And>p. vp_account_id (f p) = vp_account_id p"
      "\<And>p. vp_symbol (f p) = vp_symbol p"
  shows "find_position a' y' (t_upd vp_id (vp_id p) f ps) =
    (if a' = a \<and> y' = y then Some (f p) else find_position a' y' ps)"
proof -
  have gen: "find_position a' y' (t_upd vp_id i f qs) =
    map_option (\<lambda>r. if vp_id r = i then f r else r) (find_position a' y' qs)" for i qs
    by (induction qs) (auto simp: find_position_def t_upd_def f)
  show ?thesis
  proof (cases "a' = a \<and> y' = y")
    case True
    with p gen [of "vp_id p" ps] show ?thesis by simp
  next
    case False
    show ?thesis
    proof (cases "find_position a' y' ps")
      case None
      with False show ?thesis by (simp add: gen)
    next
      case (Some r)
      with False p ok have "vp_id r \<noteq> vp_id p"
        by (auto simp: positions_ok_def distinct_map dest!: find_position_Some dest: inj_onD)
      with False Some show ?thesis by (auto simp: gen)
    qed
  qed
qed

lemma positions_ok_upd:
  assumes "positions_ok ps" and "\<And>p. vp_id (f p) = vp_id p"
    "\<And>p. vp_account_id (f p) = vp_account_id p" "\<And>p. vp_symbol (f p) = vp_symbol p"
    and "\<And>p. p \<in> set ps \<Longrightarrow> vp_id p = i \<Longrightarrow> 0 \<le> vp_quantity (f p) \<and> 0 \<le> vp_avg_cost (f p)"
  shows "positions_ok (t_upd vp_id i f ps)"
proof -
  have "map vp_id (t_upd vp_id i f ps) = map vp_id ps"
    "map (\<lambda>p. (vp_account_id p, vp_symbol p)) (t_upd vp_id i f ps) =
     map (\<lambda>p. (vp_account_id p, vp_symbol p)) ps"
    using assms(2-4) by (auto simp: t_upd_def)
  with assms(1,5) show ?thesis by (auto simp: positions_ok_def t_upd_set)
qed

lemma positions_ok_append:
  assumes "positions_ok ps" and "find_position (vp_account_id p) (vp_symbol p) ps = None"
    and "vp_id p = t_next vp_id ps" and "0 \<le> vp_quantity p" and "0 \<le> vp_avg_cost p"
  shows "positions_ok (ps @ [p])"
proof -
  have "vp_id p \<notin> vp_id ` set ps"
    using t_next_gt [of _ ps vp_id] assms(3) by fastforce
  moreover have "(vp_account_id p, vp_symbol p) \<notin> (\<lambda>p. (vp_account_id p, vp_symbol p)) ` set ps"
    using assms(2) by (auto simp: find_position_def find_None_iff)
  ultimately show ?thesis using assms(1,4,5) by (auto simp: positions_ok_def)
qed

lemma accounts_ok_upd:
  assumes "accounts_ok as" and "\<And>a. va_id (f a) = va_id a" and "\<And>a. 0 \<le> va_cash_balance a \<Longrightarrow> 0 \<le> va_cash_balance (f a)"
  shows "accounts_ok (t_upd va_id i f as)"
  using assms by (auto simp: accounts_ok_def t_upd_keys t_upd_set)

subsection \<open>The abstract book\<close>

type_synonym book_entry = "int \<times> decimal \<times> decimal"

definition book_cash :: "session \<Rightarrow> int \<Rightarrow> decimal option" where
  "book_cash s a = map_option va_cash_balance (t_get va_id a (sn_accounts s))"

definition row_holding :: "virtual_position option \<Rightarrow> book_entry" where
  "row_holding r = (case r of None \<Rightarrow> (0, 0, 0)
     | Some p \<Rightarrow> (vp_quantity p, vp_avg_cost p, vp_realized_pnl p))"

definition book_holding :: "session \<Rightarrow> int \<Rightarrow> string \<Rightarrow> book_entry" where
  "book_holding s a y = row_holding (find_position a y (sn_positions s))"

definition book_buy :: "int \<Rightarrow> decimal \<Rightarrow> book_entry \<Rightarrow> book_entry" where
  "book_buy q spent h = (case h of (qty, avg, realized) \<Rightarrow>
     (qty + q, ddiv (dadd (dmul avg (of_int qty)) spent) (of_int (qty + q)), realized))"

definition book_sell :: "int \<Rightarrow> decimal \<Rightarrow> book_entry \<Rightarrow> book_entry" where
  "book_sell q received h = (case h of (qty, avg, realized) \<Rightarrow>
     (qty - q, (if qty = q then 0 else avg),
      dadd realized (dsub received (dmul avg (of_int q)))))"

subsection \<open>Effect of the position operations\<close>

definition bought_row :: "int \<Rightarrow> int \<Rightarrow> decimal \<Rightarrow> virtual_position \<Rightarrow> virtual_position" where
  "bought_row now q spent p = p\<lparr>vp_quantity := vp_quantity p + q,
     vp_avg_cost := ddiv (dadd (dmul (vp_avg_cost p) (of_int (vp_quantity p))) spent)
                      (of_int (vp_quantity p + q)),
     vp_updated_at := now\<rparr>"

definition sold_row :: "int \<Rightarrow> int \<Rightarrow> decimal \<Rightarrow> virtual_position \<Rightarrow> virtual_position" where
  "sold_row now q received p = p\<lparr>vp_quantity := vp_quantity p - q,
     vp_avg_cost := (if vp_quantity p - q = 0 then 0 else vp_avg_cost p),
     vp_realized_pnl := dadd (vp_realized_pnl p) (dsub received (dmul (vp_avg_cost p) (of_int q))),
     vp_updated_at := now\<rparr>"

definition new_position :: "session \<Rightarrow> int \<Rightarrow> string \<Rightarrow> virtual_position" where
  "new_position s a y = \<lparr>vp_id = t_next vp_id (sn_positions s), vp_account_id = a, vp_symbol = y,
     vp_quantity = 0, vp_avg_cost = 0, vp_realized_pnl = 0, vp_updated_at = sn_now s\<rparr>"

text \<open>The positions table with a row for \<open>(a, y)\<close>, and that row.\<close>

definition with_position :: "session \<Rightarrow> int \<Rightarrow> string \<Rightarrow> virtual_position \<times> virtual_position list" where
  "with_position s a y = (case find_position a y (sn_positions s) of
     Some p \<Rightarrow> (p, sn_positions s)
   | None \<Rightarrow> (new_position s a y, sn_positions s @ [new_position s a y]))"

lemma with_position_facts:
  assumes "positions_ok (sn_positions s)" and "with_position s a y = (p, ps)"
  shows "positions_ok ps" and "find_position a y ps = Some p" and "p \<in> set ps"
    and "row_holding (Some p) = book_holding s a y"
    and "(a', y') \<noteq> (a, y) \<Longrightarrow> find_position a' y' ps = find_position a' y' (sn_positions s)"
proof -
  have "positions_ok ps \<and> find_position a y ps = Some p \<and> p \<in> set ps \<and>
    row_holding (Some p) = book_holding s a y \<and>
    ((a', y') \<noteq> (a, y) \<longrightarrow> find_position a' y' ps = find_position a' y' (sn_positions s))"
  proof (cases "find_position a y (sn_positions s)")
    case (Some q)
    with assms show ?thesis
      by (auto simp: with_position_def book_holding_def dest: find_position_Some)
  next
    case None
    with assms have e: "p = new_position s a y" "ps = sn_positions s @ [new_position s a y]"
      by (auto simp: with_position_def)
    have "positions_ok ps"
      unfolding e using assms(1) None by (intro positions_ok_append) (auto simp: new_position_def)
    then show ?thesis
      using None by (auto simp: e find_position_append book_holding_def row_holding_def
          new_position_def split: option.splits)
  qed
  then show "positions_ok ps" and "find_position a y ps = Some p" and "p \<in> set ps"
    and "row_holding (Some p) = book_holding s a y"
    and "(a', y') \<noteq> (a, y) \<Longrightarrow> find_position a' y' ps = find_position a' y' (sn_positions s)"
    by auto
qed

lemma apply_buy_effect:
  assumes ok: "positions_ok (sn_positions s)" and "0 < q" and "0 < price" and "0 \<le> spent"
    and w: "with_position s a y = (p, ps)"
  shows "apply_buy a y q price spent s =
    (Inr (vp_id p), s\<lparr>sn_positions := t_upd vp_id (vp_id p) (bought_row (sn_now s) q spent) ps\<rparr>)"
proof -
  note f = with_position_facts [OF ok w]
  have c: "position_get_or_create a y s = (Inr (vp_id p), s\<lparr>sn_positions := ps\<rparr>)"
    using w by (auto simp: position_get_or_create_def position_get_def with_position_def
        new_position_def monad_simps split: option.splits)
  have g: "t_get vp_id (vp_id p) ps = Some p" using f(1,3) by (rule t_get_position)
  from f(1,3) have "0 \<le> vp_quantity p" by (auto simp: positions_ok_def)
  with assms(2) have nz: "vp_quantity p + q \<noteq> 0" by simp
  have row: "vp_id r = vp_id p \<Longrightarrow> r \<in> set ps \<Longrightarrow> r = p" for r
    using f(1,3) by (auto simp: positions_ok_def distinct_map dest: inj_onD)
  show ?thesis
    using assms(2-4) nz
    by (simp add: apply_buy_def monad_simps c g upd_position_def Let_def t_upd_upd)
      (rule arg_cong [where f = "\<lambda>ps. s\<lparr>sn_positions := ps\<rparr>"], auto simp: t_upd_def bought_row_def dest!: row)
qed

lemma apply_sell_effect:
  assumes ok: "positions_ok (sn_positions s)" and "0 < q" and "0 \<le> received"
    and p: "find_position a y (sn_positions s) = Some p" and "q \<le> vp_quantity p"
  shows "apply_sell a y q received s =
    (Inr (vp_id p, dsub received (dmul (vp_avg_cost p) (of_int q))),
     s\<lparr>sn_positions := t_upd vp_id (vp_id p) (sold_row (sn_now s) q received) (sn_positions s)\<rparr>)"
proof -
  have row: "vp_id r = vp_id p \<Longrightarrow> r \<in> set (sn_positions s) \<Longrightarrow> r = p" for r
    using ok find_position_Some [OF p] by (auto simp: positions_ok_def distinct_map dest: inj_onD)
  show ?thesis
    using assms(2,3,5)
    by (simp add: apply_sell_def position_get_def p monad_simps upd_position_def Let_def)
      (rule arg_cong [where f = "\<lambda>ps. s\<lparr>sn_positions := ps\<rparr>"], auto simp: t_upd_def sold_row_def dest!: row)
qed

lemma apply_sell_refused:
  assumes "0 < q" and "0 \<le> received" and "fst (book_holding s a y) < q"
  shows "apply_sell a y q received s = (Inl (insufficient_position q y (fst (book_holding s a y))), s)"
  using assms
  by (auto simp: apply_sell_def position_get_def monad_simps book_holding_def row_holding_def
      split: option.splits)

lemma bought_row_holding: "row_holding (Some (bought_row now q spent p)) = book_buy q spent (row_holding (Some p))"
  by (simp add: row_holding_def bought_row_def book_buy_def)

lemma sold_row_holding: "row_holding (Some (sold_row now q r p)) = book_sell q r (row_holding (Some p))"
  by (simp add: row_holding_def sold_row_def book_sell_def)

lemma row_keys [simp]:
  "vp_id (bought_row now q spent p) = vp_id p" "vp_account_id (bought_row now q spent p) = vp_account_id p"
  "vp_symbol (bought_row now q spent p) = vp_symbol p"
  "vp_id (sold_row now q r p) = vp_id p" "vp_account_id (sold_row now q r p) = vp_account_id p"
  "vp_symbol (sold_row now q r p) = vp_symbol p"
  by (simp_all add: bought_row_def sold_row_def)

subsection \<open>One fill\<close>

text \<open>The book: cash per account and holding per account and symbol.\<close>

record book =
  bk_cash :: "int \<Rightarrow> decimal option"
  bk_holding :: "int \<times> string \<Rightarrow> book_entry"

definition book_of :: "session \<Rightarrow> book" where
  "book_of s = \<lparr>bk_cash = book_cash s, bk_holding = (\<lambda>(a, y). book_holding s a y)\<rparr>"

definition fill_costs_for :: "paper_cost_model \<Rightarrow> string \<Rightarrow> int \<Rightarrow> decimal \<Rightarrow> fill_costs" where
  "fill_costs_for m side q price =
     (if side = ''BUY'' then buy_costs m (dmul price (of_int q)) else sell_costs m (dmul price (of_int q)))"

text \<open>What a fill does to the book: an error and no change, or one entry of cash and one of
  the holding.\<close>

definition book_fill ::
  "paper_cost_model \<Rightarrow> int \<Rightarrow> string \<Rightarrow> string \<Rightarrow> int \<Rightarrow> decimal \<Rightarrow> book \<Rightarrow> py_error + book" where
  "book_fill m a y side q price b =
     (if side \<noteq> ''BUY'' \<and> side \<noteq> ''SELL'' then Inl (ValueError [T ''side must be BUY or SELL''])
      else if q \<le> 0 then Inl (ValueError [T ''quantity must be > 0''])
      else if price \<le> 0 then Inl (ValueError [T ''fill_price must be > 0''])
      else case bk_cash b a of
        None \<Rightarrow> Inl (ValueError (account_not_found a))
      | Some cash \<Rightarrow>
          let net = fc_net_amount (fill_costs_for m side q price); h = bk_holding b (a, y)
          in if side = ''BUY'' then
               (if cash < net then Inl (insufficient_cash q y net cash)
                else Inr \<lparr>bk_cash = (bk_cash b)(a \<mapsto> dsub cash net),
                          bk_holding = (bk_holding b)((a, y) := book_buy q net h)\<rparr>)
             else
               (if fst h < q then Inl (insufficient_position q y (fst h))
                else Inr \<lparr>bk_cash = (bk_cash b)(a \<mapsto> dadd cash net),
                          bk_holding = (bk_holding b)((a, y) := book_sell q net h)\<rparr>))"

definition fill_row ::
  "session \<Rightarrow> int \<Rightarrow> int \<Rightarrow> string \<Rightarrow> string \<Rightarrow> int \<Rightarrow> decimal \<Rightarrow> fill_costs \<Rightarrow> int option \<Rightarrow> virtual_fill" where
  "fill_row s oid a y side q price c filled_at =
     \<lparr>vf_id = t_next vf_id (sn_fills s), vf_order_id = oid, vf_account_id = a, vf_symbol = y,
      vf_side = side, vf_quantity = q, vf_fill_price = price, vf_fee = fc_fee c,
      vf_stamp_tax = fc_stamp_tax c, vf_slippage = fc_slippage c,
      vf_gross_amount = fc_gross_amount c, vf_net_amount = fc_net_amount c,
      vf_filled_at = (case filled_at of None \<Rightarrow> sn_now s | Some t \<Rightarrow> t)\<rparr>"

text \<open>The session after a fill: new cash, new positions, one fill.\<close>

definition filled ::
  "session \<Rightarrow> int \<Rightarrow> decimal \<Rightarrow> virtual_position list \<Rightarrow> virtual_fill \<Rightarrow> session" where
  "filled s a cash ps f = s\<lparr>
     sn_accounts := t_upd va_id a (\<lambda>r. r\<lparr>va_cash_balance := cash, va_updated_at := sn_now s\<rparr>) (sn_accounts s),
     sn_positions := ps, sn_fills := sn_fills s @ [f]\<rparr>"

lemma fill_costs_nonneg:
  assumes "rates_ok m" and "0 < q" and "0 < price"
  shows "0 \<le> fc_gross_amount (fill_costs_for m side q price)" "0 \<le> fc_fee (fill_costs_for m side q price)"
    "0 \<le> fc_stamp_tax (fill_costs_for m side q price)" "0 \<le> fc_slippage (fill_costs_for m side q price)"
    "0 \<le> fc_net_amount (fill_costs_for m side q price)"
proof -
  let ?side = "if side = ''BUY'' then ''BUY'' else ''SELL''"
  have "compute_costs m ?side price q empty_session = (Inr (fill_costs_for m side q price), empty_session)"
    using assms(2,3) by (simp add: compute_costs_ok fill_costs_for_def)
  from costs_nonneg [OF assms(1) this]
  show "0 \<le> fc_gross_amount (fill_costs_for m side q price)" "0 \<le> fc_fee (fill_costs_for m side q price)"
    "0 \<le> fc_stamp_tax (fill_costs_for m side q price)" "0 \<le> fc_slippage (fill_costs_for m side q price)"
    "0 \<le> fc_net_amount (fill_costs_for m side q price)" .
qed

lemma vfill_create_app:
  assumes "rates_ok m" and "0 < q" and "0 < price" and "side = ''BUY'' \<or> side = ''SELL''"
    and "c = fill_costs_for m side q price"
  shows "vfill_create oid a y side q price c t s =
    (Inr (t_next vf_id (sn_fills s)), s\<lparr>sn_fills := sn_fills s @ [fill_row s oid a y side q price c t]\<rparr>)"
  using fill_costs_nonneg [OF assms(1-3), of side] assms(2-5)
  by (auto simp: vfill_create_def monad_simps fill_row_def not_less)

lemma update_cash_app:
  "0 \<le> cash \<Longrightarrow> update_cash_balance a cash s =
    (Inr (), s\<lparr>sn_accounts := t_upd va_id a (\<lambda>r. r\<lparr>va_cash_balance := cash, va_updated_at := sn_now s\<rparr>) (sn_accounts s)\<rparr>)"
  by (simp add: update_cash_balance_def upd_account_def monad_simps)

lemma apply_fill_buy:
  assumes ok: "ledger_ok s" "rates_ok m" and q: "0 < q" and price: "0 < price"
    and a: "t_get va_id a (sn_accounts s) = Some acc"
    and c: "c = fill_costs_for m ''BUY'' q price" and cash: "fc_net_amount c \<le> va_cash_balance acc"
    and w: "with_position s a y = (p, ps)"
  shows "apply_fill m oid a y ''BUY'' q price t s =
    (Inr \<lparr>fr_fill_id = t_next vf_id (sn_fills s), fr_position_id = vp_id p, fr_account_id = a,
          fr_costs = c, fr_realized_pnl_delta = 0\<rparr>,
     filled s a (dsub (va_cash_balance acc) (fc_net_amount c))
       (t_upd vp_id (vp_id p) (bought_row (sn_now s) q (fc_net_amount c)) ps)
       (fill_row s oid a y ''BUY'' q price c t))"
proof -
  have n: "0 \<le> fc_net_amount c" unfolding c using ok(2) q price by (rule fill_costs_nonneg)
  have r: "0 \<le> dsub (va_cash_balance acc) (fc_net_amount c)"
    using cash by (simp add: dsub_def dec_round_nonneg)
  define s1 where "s1 = s\<lparr>sn_accounts := t_upd va_id a (\<lambda>r. r\<lparr>va_cash_balance :=
    dsub (va_cash_balance acc) (fc_net_amount c), va_updated_at := sn_now s\<rparr>) (sn_accounts s)\<rparr>"
  have s1: "positions_ok (sn_positions s1)" "with_position s1 a y = (p, ps)" "sn_now s1 = sn_now s"
    "sn_fills s1 = sn_fills s"
    using ok(1) w by (auto simp: s1_def ledger_ok_def with_position_def new_position_def
        split: option.splits)
  note buy = apply_buy_effect [OF s1(1) q price n s1(2)]
  have cc: "compute_costs m ''BUY'' price q s = (Inr c, s)"
    using q price by (simp add: compute_costs_ok c fill_costs_for_def)
  show ?thesis
    using q price cash
    by (simp add: apply_fill_def account_get_by_id_def monad_simps a cc not_less
        update_cash_app [OF r] buy s1 vfill_create_app [OF ok(2) q price _ c] fill_row_def flip: s1_def)
      (simp add: s1_def filled_def split: option.split)
qed

lemma apply_fill_sell:
  assumes ok: "ledger_ok s" "rates_ok m" and q: "0 < q" and price: "0 < price"
    and a: "t_get va_id a (sn_accounts s) = Some acc"
    and c: "c = fill_costs_for m ''SELL'' q price"
    and p: "find_position a y (sn_positions s) = Some p" and held: "q \<le> vp_quantity p"
  shows "apply_fill m oid a y ''SELL'' q price t s =
    (Inr \<lparr>fr_fill_id = t_next vf_id (sn_fills s), fr_position_id = vp_id p, fr_account_id = a,
          fr_costs = c,
          fr_realized_pnl_delta = dsub (fc_net_amount c) (dmul (vp_avg_cost p) (of_int q))\<rparr>,
     filled s a (dadd (va_cash_balance acc) (fc_net_amount c))
       (t_upd vp_id (vp_id p) (sold_row (sn_now s) q (fc_net_amount c)) (sn_positions s))
       (fill_row s oid a y ''SELL'' q price c t))"
proof -
  have n: "0 \<le> fc_net_amount c" unfolding c using ok(2) q price by (rule fill_costs_nonneg)
  have "0 \<le> va_cash_balance acc" using t_get_Some [OF a] ok(1) by (auto simp: ledger_ok_def accounts_ok_def)
  with n have r: "0 \<le> dadd (va_cash_balance acc) (fc_net_amount c)"
    by (simp add: dadd_def dec_round_nonneg)
  have "positions_ok (sn_positions s)" using ok(1) by (simp add: ledger_ok_def)
  note sell = apply_sell_effect [OF this q n p held]
  have cc: "compute_costs m ''SELL'' price q s = (Inr c, s)"
    using q price by (simp add: compute_costs_ok c fill_costs_for_def)
  show ?thesis
    using q price
    by (simp add: apply_fill_def account_get_by_id_def monad_simps a cc not_less sell
        update_cash_app [OF r] vfill_create_app [OF ok(2) q price _ c] fill_row_def filled_def
        split: option.split)
qed

lemma book_of_filled:
  assumes "t_get va_id a (sn_accounts s) \<noteq> None"
    and h: "\<And>a' y'. book_holding (s\<lparr>sn_positions := ps\<rparr>) a' y' =
      (if (a', y') = (a, y) then h else book_holding s a' y')"
  shows "book_of (filled s a cash ps f) =
    \<lparr>bk_cash = (bk_cash (book_of s))(a \<mapsto> cash), bk_holding = (bk_holding (book_of s))((a, y) := h)\<rparr>"
proof -
  have "book_cash (filled s a cash ps f) = (book_cash s)(a \<mapsto> cash)"
    using assms(1) by (auto simp: book_cash_def filled_def t_get_upd fun_eq_iff)
  moreover have "book_holding (filled s a cash ps f) a' y' = book_holding (s\<lparr>sn_positions := ps\<rparr>) a' y'"
    for a' y' by (simp add: book_holding_def filled_def)
  ultimately show ?thesis by (simp add: book_of_def fun_eq_iff h)
qed

lemma ledger_ok_filled:
  assumes "ledger_ok s" and "0 \<le> cash" and "positions_ok ps" and "fills_ok [f]"
  shows "ledger_ok (filled s a cash ps f)"
  using assms by (auto simp: ledger_ok_def filled_def fills_ok_def intro!: accounts_ok_upd)

lemma fills_ok_row:
  assumes "rates_ok m" "0 < q" "0 < price" "side = ''BUY'' \<or> side = ''SELL''"
    and "c = fill_costs_for m side q price"
  shows "fills_ok [fill_row s oid a y side q price c t]"
  using assms fill_costs_nonneg(5) [OF assms(1-3), of side] by (auto simp: fills_ok_def fill_row_def)

lemma bought_nonneg:
  "0 \<le> vp_quantity p \<Longrightarrow> 0 \<le> vp_avg_cost p \<Longrightarrow> 0 < q \<Longrightarrow> 0 \<le> spent \<Longrightarrow>
   0 \<le> vp_quantity (bought_row now q spent p) \<and> 0 \<le> vp_avg_cost (bought_row now q spent p)"
  by (simp add: bought_row_def ddiv_def dadd_def dmul_def dec_round_nonneg)

lemma sold_nonneg:
  "0 \<le> vp_avg_cost p \<Longrightarrow> q \<le> vp_quantity p \<Longrightarrow>
   0 \<le> vp_quantity (sold_row now q r p) \<and> 0 \<le> vp_avg_cost (sold_row now q r p)"
  by (simp add: sold_row_def)

lemma book_caseI:
  assumes "bf = Inr b" and "af = (Inr r, filled s a cash ps f)"
    and "book_of (filled s a cash ps f) = b" and "ledger_ok (filled s a cash ps f)"
    and "f = g" and "fr_fill_id r = vf_id g"
  shows "case bf of Inl e \<Rightarrow> af = (Inl e, s)
    | Inr b \<Rightarrow> \<exists>r cash ps. af = (Inr r, filled s a cash ps g) \<and>
        book_of (filled s a cash ps g) = b \<and> ledger_ok (filled s a cash ps g) \<and>
        fr_fill_id r = vf_id g"
  using assms by auto

text \<open>Either an error of the book and the same session, or the entries of the book.\<close>

lemma apply_fill_book:
  assumes ok: "ledger_ok s" "rates_ok m"
  shows "case book_fill m a y side q price (book_of s) of
      Inl e \<Rightarrow> apply_fill m oid a y side q price t s = (Inl e, s)
    | Inr b \<Rightarrow> \<exists>r cash ps. apply_fill m oid a y side q price t s = (Inr r, filled s a cash ps
          (fill_row s oid a y side q price (fill_costs_for m side q price) t)) \<and>
        book_of (filled s a cash ps (fill_row s oid a y side q price (fill_costs_for m side q price) t)) = b \<and>
        ledger_ok (filled s a cash ps (fill_row s oid a y side q price (fill_costs_for m side q price) t)) \<and>
        fr_fill_id r = vf_id (fill_row s oid a y side q price (fill_costs_for m side q price) t)"
proof (cases "(side = ''BUY'' \<or> side = ''SELL'') \<and> 0 < q \<and> 0 < price")
  case False
  then show ?thesis
    by (auto simp: book_fill_def apply_fill_def monad_simps not_less)
next
  case v: True
  then have q: "0 < q" and price: "0 < price" and side: "side = ''BUY'' \<or> side = ''SELL''" by auto
  have pos: "positions_ok (sn_positions s)" using ok(1) by (simp add: ledger_ok_def)
  define c where "c = fill_costs_for m side q price"
  have n: "0 \<le> fc_net_amount c" unfolding c_def using ok(2) q price by (rule fill_costs_nonneg)
  have cc: "compute_costs m side price q s = (Inr c, s)"
    using q price side by (auto simp: compute_costs_ok c_def fill_costs_for_def)
  note row = fills_ok_row [OF ok(2) q price]
  show ?thesis
  proof (cases "t_get va_id a (sn_accounts s)")
    case None
    with v show ?thesis
      by (auto simp: book_fill_def apply_fill_def monad_simps book_of_def book_cash_def
          account_get_by_id_def)
  next
    case (Some acc)
    then have cash: "bk_cash (book_of s) a = Some (va_cash_balance acc)"
      by (simp add: book_of_def book_cash_def)
    have bal: "0 \<le> va_cash_balance acc"
      using t_get_Some [OF Some] ok(1) by (auto simp: ledger_ok_def accounts_ok_def)
    have h: "bk_holding (book_of s) (a, y) = book_holding s a y" by (simp add: book_of_def)
    show ?thesis
    proof (cases "side = ''BUY''")
      case buy: True
      show ?thesis
      proof (cases "va_cash_balance acc < fc_net_amount c")
        case True
        with v buy cash have "book_fill m a y side q price (book_of s) =
            Inl (insufficient_cash q y (fc_net_amount c) (va_cash_balance acc))"
          by (simp add: book_fill_def Let_def c_def)
        moreover have "apply_fill m oid a y side q price t s =
            (Inl (insufficient_cash q y (fc_net_amount c) (va_cash_balance acc)), s)"
          using v True cc by (simp add: apply_fill_def monad_simps account_get_by_id_def Some buy)
        ultimately show ?thesis by simp
      next
        case enough: False
        obtain p ps where w: "with_position s a y = (p, ps)" by (cases "with_position s a y")
        note f = with_position_facts [OF pos w]
        from f(1,3) have nn: "0 \<le> vp_quantity p" "0 \<le> vp_avg_cost p" by (auto simp: positions_ok_def)
        let ?ps = "t_upd vp_id (vp_id p) (bought_row (sn_now s) q (fc_net_amount c)) ps"
        have "book_holding (s\<lparr>sn_positions := ?ps\<rparr>) a' y' = (if (a', y') = (a, y)
          then book_buy q (fc_net_amount c) (book_holding s a y) else book_holding s a' y')" for a' y'
          using f(5) [of a' y'] bought_row_holding [of "sn_now s" q "fc_net_amount c" p]
          by (simp add: book_holding_def find_position_upd [OF f(1,2)] f(4) [unfolded book_holding_def])
        note bk = book_of_filled [OF _ this]
        have "positions_ok ?ps"
          using f(1)
        proof (rule positions_ok_upd)
          fix r assume "r \<in> set ps" "vp_id r = vp_id p"
          with f(1) have "0 \<le> vp_quantity r" "0 \<le> vp_avg_cost r" by (auto simp: positions_ok_def)
          then show "0 \<le> vp_quantity (bought_row (sn_now s) q (fc_net_amount c) r) \<and>
              0 \<le> vp_avg_cost (bought_row (sn_now s) q (fc_net_amount c) r)"
            using q n by (rule bought_nonneg) 
        qed simp_all
        note lok = ledger_ok_filled [OF ok(1) _ this]
        note eff = apply_fill_buy [OF ok q price Some _ _ w]
        have b: "book_fill m a y side q price (book_of s) =
            Inr \<lparr>bk_cash = (bk_cash (book_of s))(a \<mapsto> dsub (va_cash_balance acc) (fc_net_amount c)),
                 bk_holding = (bk_holding (book_of s))((a, y) := book_buy q (fc_net_amount c) (book_holding s a y))\<rparr>"
          using v buy cash enough h by (simp add: book_fill_def Let_def c_def)
        have "0 \<le> dsub (va_cash_balance acc) (fc_net_amount c)"
          using enough by (simp add: dsub_def dec_round_nonneg)
        note lok = lok [OF this row]
        note eff = eff [of c oid t, folded buy, OF c_def]
        show ?thesis
          by (rule book_caseI [OF b eff bk lok]) (use enough side Some in \<open>auto simp: c_def fill_row_def\<close>)
      qed
    next
      case False
      with side have sell: "side = ''SELL''" by simp
      show ?thesis
      proof (cases "fst (book_holding s a y) < q")
        case True
        with v sell cash have "book_fill m a y side q price (book_of s) =
            Inl (insufficient_position q y (fst (book_holding s a y)))"
          by (simp add: book_fill_def Let_def h)
        moreover have "apply_fill m oid a y side q price t s =
            (Inl (insufficient_position q y (fst (book_holding s a y))), s)"
          using v True cc n
          by (simp add: apply_fill_def monad_simps account_get_by_id_def Some sell apply_sell_refused)
        ultimately show ?thesis by simp
      next
        case enough: False
        with q obtain p where p: "find_position a y (sn_positions s) = Some p"
          by (auto simp: book_holding_def row_holding_def split: option.splits)
        with enough have held: "q \<le> vp_quantity p" by (simp add: book_holding_def row_holding_def)
        let ?ps = "t_upd vp_id (vp_id p) (sold_row (sn_now s) q (fc_net_amount c)) (sn_positions s)"
        have "book_holding (s\<lparr>sn_positions := ?ps\<rparr>) a' y' = (if (a', y') = (a, y)
          then book_sell q (fc_net_amount c) (book_holding s a y) else book_holding s a' y')" for a' y'
          using sold_row_holding [of "sn_now s" q "fc_net_amount c" p] p
          by (simp add: book_holding_def find_position_upd [OF pos p])
        note bk = book_of_filled [OF _ this]
        have "positions_ok ?ps"
          using pos
        proof (rule positions_ok_upd)
          fix r assume "r \<in> set (sn_positions s)" "vp_id r = vp_id p"
          with pos find_position_Some [OF p] have "r = p"
            by (auto simp: positions_ok_def distinct_map dest: inj_onD)
          with pos find_position_Some [OF p] held
          show "0 \<le> vp_quantity (sold_row (sn_now s) q (fc_net_amount c) r) \<and>
              0 \<le> vp_avg_cost (sold_row (sn_now s) q (fc_net_amount c) r)"
            by (auto simp: positions_ok_def intro!: sold_nonneg)
        qed simp_all
        note lok = ledger_ok_filled [OF ok(1) _ this]
        note eff = apply_fill_sell [OF ok q price Some _ p held]
        have b: "book_fill m a y side q price (book_of s) =
            Inr \<lparr>bk_cash = (bk_cash (book_of s))(a \<mapsto> dadd (va_cash_balance acc) (fc_net_amount c)),
                 bk_holding = (bk_holding (book_of s))((a, y) := book_sell q (fc_net_amount c) (book_holding s a y))\<rparr>"
          using v sell cash enough h by (simp add: book_fill_def Let_def c_def)
        have "0 \<le> dadd (va_cash_balance acc) (fc_net_amount c)"
          using n bal by (simp add: dadd_def dec_round_nonneg)
        note lok = lok [OF this row]
        note eff = eff [of c oid t, folded sell, OF c_def]
        show ?thesis
          by (rule book_caseI [OF b eff bk lok]) (use enough side Some in \<open>auto simp: c_def fill_row_def\<close>)
      qed
    qed
  qed
qed

text \<open>
  C2. A fill refines one entry of the abstract book: on a well-formed ledger and for a cost
  model with non-negative rates, \<open>apply_fill\<close> raises exactly the errors the book's entry
  raises and then leaves the whole session as it was, and otherwise moves the cash and the
  one holding as the book says, appends exactly one fill that belongs to the order and
  keeps the ledger well-formed (nobody overdrawn, nobody short). It touches no other table.
\<close>

theorem apply_fill_refines_book:
  assumes "ledger_ok s" and "rates_ok m"
  shows "case book_fill m a y side q price (book_of s) of
      Inl e \<Rightarrow> apply_fill m oid a y side q price t s = (Inl e, s)
    | Inr b \<Rightarrow> \<exists>r s'. apply_fill m oid a y side q price t s = (Inr r, s') \<and>
        book_of s' = b \<and> ledger_ok s' \<and>
        s' = s\<lparr>sn_accounts := sn_accounts s', sn_positions := sn_positions s', sn_fills := sn_fills s @
          [fill_row s oid a y side q price (fill_costs_for m side q price) t]\<rparr>"
proof -
  have frame: "filled s a cash ps f = s\<lparr>sn_accounts := sn_accounts (filled s a cash ps f),
      sn_positions := sn_positions (filled s a cash ps f), sn_fills := sn_fills s @ [f]\<rparr>" for cash ps f
    by (simp add: filled_def)
  show ?thesis
    using apply_fill_book [OF assms, of oid a y side q price t] frame
    by (fastforce split: sum.splits)
qed

definition demo_account :: virtual_account where
  "demo_account = \<lparr>va_id = 1, va_user_id = None, va_name = ''demo'', va_initial_cash = 10000000,
     va_cash_balance = 10000000, va_currency = ''KRW'', va_paper_trading_enabled = True, va_updated_at = 0\<rparr>"

definition demo_ledger :: session where
  "demo_ledger = empty_session\<lparr>sn_accounts := [demo_account]\<rparr>"

lemma demo_ledger_ok: "ledger_ok demo_ledger"
  by (simp add: demo_ledger_def demo_account_def empty_session_def ledger_ok_def accounts_ok_def
      positions_ok_def fills_ok_def)

theorem apply_fill_refines_book_witness:
  "\<exists>r s'. apply_fill default_paper_costs 1 1 ''005930'' ''BUY'' 10 70000 None demo_ledger = (Inr r, s') \<and>
     bk_cash (book_of s') 1 = Some 9299545 \<and>
     bk_holding (book_of s') (1, ''005930'') = (10, 700455 / 10, 0)"
proof -
  have "book_fill default_paper_costs 1 ''005930'' ''BUY'' 10 70000 (book_of demo_ledger) =
    Inr \<lparr>bk_cash = (bk_cash (book_of demo_ledger))(1 \<mapsto> 9299545),
         bk_holding = (bk_holding (book_of demo_ledger))((1, ''005930'') := (10, 700455 / 10, 0))\<rparr>"
    by (simp add: book_fill_def book_of_def book_cash_def book_holding_def row_holding_def
        demo_ledger_def demo_account_def empty_session_def t_get_def find_position_def
        fill_costs_for_def buy_costs_def default_paper_costs_def book_buy_def dec_eval)
  with apply_fill_refines_book [OF demo_ledger_ok default_rates_ok,
      of 1 1 "''005930''" "''BUY''" 10 70000 None]
  show ?thesis by auto
qed

subsection \<open>The daily snapshot\<close>

definition day_close :: "session \<Rightarrow> int \<Rightarrow> int \<Rightarrow> virtual_position \<Rightarrow> decimal option" where
  "day_close s day lookback p =
     (if vp_quantity p \<le> 0 then None
      else map_option dp_close (latest_by dp_date (filter (\<lambda>b. dp_symbol b = vp_symbol p \<and>
        dp_date b \<le> day \<and> day - lookback \<le> dp_date b) (sn_prices s))))"

lemma day_close_prices: "sn_prices t = sn_prices s \<Longrightarrow> day_close t = day_close s"
  by (intro ext) (simp add: day_close_def)

definition market_values :: "session \<Rightarrow> int \<Rightarrow> int \<Rightarrow> virtual_position list \<Rightarrow> decimal list" where
  "market_values s day lookback ps = List.map_filter (\<lambda>p. map_option
     (\<lambda>c. dmul c (of_int (vp_quantity p))) (day_close s day lookback p)) ps"

definition unrealized_pnls :: "session \<Rightarrow> int \<Rightarrow> int \<Rightarrow> virtual_position list \<Rightarrow> decimal list" where
  "unrealized_pnls s day lookback ps = List.map_filter (\<lambda>p. map_option
     (\<lambda>c. dsub (dmul c (of_int (vp_quantity p))) (dmul (vp_avg_cost p) (of_int (vp_quantity p))))
     (day_close s day lookback p)) ps"

lemma snapshot_loop:
  "sfold (snapshot_step day lookback) ps (mv, up, rp) s =
    (Inr (foldl dadd mv (market_values s day lookback ps),
          foldl dadd up (unrealized_pnls s day lookback ps),
          foldl dadd rp (map vp_realized_pnl ps)), s)"
proof (induction ps arbitrary: mv up rp)
  case Nil
  show ?case by (simp add: monad_simps market_values_def unrealized_pnls_def List.map_filter_def)
next
  case (Cons p ps)
  then show ?case
    by (auto simp: monad_simps snapshot_step_def price_get_latest_on_or_before_def Let_def
        market_values_def unrealized_pnls_def List.map_filter_def day_close_def split: option.splits)
qed

definition snapshot_row ::
  "session \<Rightarrow> virtual_account \<Rightarrow> int \<Rightarrow> int \<Rightarrow> virtual_position list \<Rightarrow> int \<Rightarrow> pnl_snapshot" where
  "snapshot_row s a day lookback ps i = \<lparr>vs_id = i, vs_account_id = va_id a, vs_snapshot_date = day,
     vs_cash_balance = va_cash_balance a, vs_market_value = dsum (market_values s day lookback ps),
     vs_total_value = dadd (va_cash_balance a) (dsum (market_values s day lookback ps)),
     vs_realized_pnl = dsum (map vp_realized_pnl ps),
     vs_unrealized_pnl = dsum (unrealized_pnls s day lookback ps), vs_updated_at = sn_now s\<rparr>"

definition day_key :: "pnl_snapshot \<Rightarrow> int \<times> int" where
  "day_key v = (vs_account_id v, vs_snapshot_date v)"

definition snapshots_ok :: "pnl_snapshot list \<Rightarrow> bool" where
  "snapshots_ok vs \<longleftrightarrow> distinct (map vs_id vs) \<and>
     distinct (map day_key vs)"

text \<open>The table with the row for its (account, day) written: in place, or appended.\<close>

definition put_snapshot :: "(int \<Rightarrow> pnl_snapshot) \<Rightarrow> int \<times> int \<Rightarrow> pnl_snapshot list \<Rightarrow> pnl_snapshot list" where
  "put_snapshot row k vs =
     (if \<exists>v \<in> set vs. day_key v = k then map (\<lambda>v. if day_key v = k then row (vs_id v) else v) vs
      else vs @ [row (t_next vs_id vs)])"

lemma snapshots_ok_inj:
  assumes "snapshots_ok vs" and "v \<in> set vs" and "w \<in> set vs"
  shows "vs_id v = vs_id w \<Longrightarrow> v = w" and "day_key v = day_key w \<Longrightarrow> v = w"
  using assms by (auto simp: snapshots_ok_def distinct_map dest: inj_onD)

lemma create_daily_app:
  assumes ok: "snapshots_ok (sn_snapshots s)" and a: "t_get va_id a (sn_accounts s) = Some acc"
    and ps: "ps = sort_key vp_symbol (filter (\<lambda>p. vp_account_id p = a) (sn_positions s))"
  shows "\<exists>i. create_daily_pnl_snapshot a day lookback s =
    (Inr i, s\<lparr>sn_snapshots := put_snapshot (snapshot_row s acc day lookback ps) (a, day) (sn_snapshots s)\<rparr>)"
proof -
  have ida: "va_id acc = a" using t_get_Some [OF a] by simp
  have loop: "sfold (snapshot_step day lookback) ps (0, 0, 0) s =
      (Inr (dsum (market_values s day lookback ps), dsum (unrealized_pnls s day lookback ps),
            dsum (map vp_realized_pnl ps)), s)"
    by (simp add: snapshot_loop dsum_def)
  note pre = create_daily_pnl_snapshot_def account_get_by_id_def position_list_by_account_def
    create_or_replace_snapshot_def snapshot_get_by_account_date_def monad_simps a loop Let_def
  show ?thesis
  proof (cases "find (\<lambda>v. vs_account_id v = a \<and> vs_snapshot_date v = day) (sn_snapshots s)")
    case None
    then have "\<not> (\<exists>v \<in> set (sn_snapshots s). day_key v = (a, day))"
      by (auto simp: find_None_iff day_key_def)
    with None show ?thesis
      by (simp add: pre put_snapshot_def snapshot_row_def ida flip: ps)
  next
    case (Some w)
    then have w: "w \<in> set (sn_snapshots s)" "day_key w = (a, day)"
      by (auto simp: find_Some_iff day_key_def)
    have key: "vs_id v = vs_id w \<longleftrightarrow> day_key v = (a, day)" if "v \<in> set (sn_snapshots s)" for v
      using snapshots_ok_inj [OF ok that w(1)] w(2) by auto
    have "t_upd vs_id (vs_id w) (\<lambda>v. v\<lparr>vs_cash_balance := va_cash_balance acc,
        vs_market_value := dsum (market_values s day lookback ps),
        vs_total_value := dadd (va_cash_balance acc) (dsum (market_values s day lookback ps)),
        vs_realized_pnl := dsum (map vp_realized_pnl ps),
        vs_unrealized_pnl := dsum (unrealized_pnls s day lookback ps),
        vs_updated_at := sn_now s\<rparr>) (sn_snapshots s) =
      put_snapshot (snapshot_row s acc day lookback ps) (a, day) (sn_snapshots s)"
      using w by (auto simp: t_upd_def put_snapshot_def key snapshot_row_def ida day_key_def
          intro!: pnl_snapshot.equality)
    with Some show ?thesis by (simp add: pre flip: ps)
  qed
qed

lemma put_snapshot_facts:
  assumes ok: "snapshots_ok vs" and row: "\<And>i. day_key (row i) = k" "\<And>i. vs_id (row i) = i"
  shows "snapshots_ok (put_snapshot row k vs)"
    and "\<exists>i. filter (\<lambda>v. day_key v = k) (put_snapshot row k vs) = [row i]"
    and "filter (\<lambda>v. day_key v \<noteq> k) (put_snapshot row k vs) = filter (\<lambda>v. day_key v \<noteq> k) vs"
    and "put_snapshot row k (put_snapshot row k vs) = put_snapshot row k vs"
proof -
  obtain i where i: "row i \<in> set (put_snapshot row k vs)"
  proof (cases "\<exists>v \<in> set vs. day_key v = k")
    case True
    then obtain v where "v \<in> set vs" "day_key v = k" by blast
    then have "row (vs_id v) \<in> set (put_snapshot row k vs)"
      by (auto simp: put_snapshot_def)
    then show ?thesis by (rule that)
  next
    case False
    then show ?thesis using that [of "t_next vs_id vs"] by (simp add: put_snapshot_def)
  qed
  have dk: "distinct (map day_key vs)" and di: "distinct (map vs_id vs)"
    using ok by (simp_all add: snapshots_ok_def)
  show "filter (\<lambda>v. day_key v \<noteq> k) (put_snapshot row k vs) = filter (\<lambda>v. day_key v \<noteq> k) vs"
  proof -
    have "filter (\<lambda>v. day_key v \<noteq> k) (map (\<lambda>v. if day_key v = k then row (vs_id v) else v) ws) =
        filter (\<lambda>v. day_key v \<noteq> k) ws" for ws
      by (induction ws) (simp_all add: row)
    then show ?thesis by (simp add: put_snapshot_def row)
  qed
  show "put_snapshot row k (put_snapshot row k vs) = put_snapshot row k vs"
  proof -
    have "\<exists>v \<in> set (put_snapshot row k vs). day_key v = k"
      using i row(1) by blast
    then have "put_snapshot row k (put_snapshot row k vs) =
        map (\<lambda>v. if day_key v = k then row (vs_id v) else v) (put_snapshot row k vs)"
      by (simp add: put_snapshot_def [of row k "put_snapshot row k vs"])
    also have "\<dots> = put_snapshot row k vs"
    proof (rule map_idI)
      fix x assume "x \<in> set (put_snapshot row k vs)"
      then have "day_key x = k \<longrightarrow> (\<exists>j. x = row j)"
        by (cases "\<exists>v \<in> set vs. day_key v = k") (auto simp: put_snapshot_def)
      then show "(if day_key x = k then row (vs_id x) else x) = x"
        using row(2) by auto
    qed
    finally show ?thesis .
  qed
  show ok': "snapshots_ok (put_snapshot row k vs)"
  proof (cases "\<exists>v \<in> set vs. day_key v = k")
    case True
    then have "map vs_id (put_snapshot row k vs) = map vs_id vs"
      "map day_key (put_snapshot row k vs) = map day_key vs"
      by (auto simp: put_snapshot_def row)
    with dk di show ?thesis by (simp add: snapshots_ok_def)
  next
    case False
    moreover have "t_next vs_id vs \<notin> vs_id ` set vs" using t_next_gt [of _ vs vs_id] by fastforce
    ultimately show ?thesis using dk di row
      by (auto simp: snapshots_ok_def put_snapshot_def)
  qed
  then have d: "distinct (map day_key (put_snapshot row k vs))"
    by (simp add: snapshots_ok_def)
  have all: "v \<in> set (put_snapshot row k vs) \<Longrightarrow> day_key v = k \<Longrightarrow> v = row i" for v
    using d i row by (auto simp: distinct_map dest: inj_onD)
  have "set (filter (\<lambda>v. day_key v = k) (put_snapshot row k vs)) = {row i}"
    unfolding set_filter using i all row(1) by blast
  moreover have "distinct (filter (\<lambda>v. day_key v = k) (put_snapshot row k vs))"
    using d by (simp add: distinct_map)
  ultimately have "filter (\<lambda>v. day_key v = k) (put_snapshot row k vs) = [row i]"
    by (intro distinct_singleton)
  then show "\<exists>i. filter (\<lambda>v. day_key v = k) (put_snapshot row k vs) = [row i]" ..
qed

text \<open>
  C6. The daily snapshot values an account correctly and is idempotent. The row written for
  (account, day) has total value = cash + market value, where market value sums close times
  quantity over the open positions that have a price in the look-back window (the latest
  one on or before the day) and the others count nothing; unrealized PnL is against average
  cost, realized PnL is the sum over all positions. There is exactly one row for the key,
  every other row and table is kept, and running it again at the same instant changes nothing.
\<close>

theorem daily_snapshot_correct:
  assumes "snapshots_ok (sn_snapshots s)" and "t_get va_id a (sn_accounts s) = Some acc"
    and "ps = sort_key vp_symbol (filter (\<lambda>p. vp_account_id p = a) (sn_positions s))"
  shows "\<exists>i j s'. create_daily_pnl_snapshot a day lookback s = (Inr i, s') \<and>
    s' = s\<lparr>sn_snapshots := sn_snapshots s'\<rparr> \<and> snapshots_ok (sn_snapshots s') \<and>
    filter (\<lambda>v. day_key v = (a, day)) (sn_snapshots s') =
      [\<lparr>vs_id = j, vs_account_id = a, vs_snapshot_date = day, vs_cash_balance = va_cash_balance acc,
        vs_market_value = dsum (market_values s day lookback ps),
        vs_total_value = dadd (va_cash_balance acc) (dsum (market_values s day lookback ps)),
        vs_realized_pnl = dsum (map vp_realized_pnl ps),
        vs_unrealized_pnl = dsum (unrealized_pnls s day lookback ps), vs_updated_at = sn_now s\<rparr>] \<and>
    filter (\<lambda>v. day_key v \<noteq> (a, day)) (sn_snapshots s') =
      filter (\<lambda>v. day_key v \<noteq> (a, day)) (sn_snapshots s) \<and>
    snd (create_daily_pnl_snapshot a day lookback s') = s'"
proof -
  let ?row = "snapshot_row s acc day lookback ps"
  let ?s' = "s\<lparr>sn_snapshots := put_snapshot ?row (a, day) (sn_snapshots s)\<rparr>"
  have ida: "va_id acc = a" using t_get_Some [OF assms(2)] by simp
  have row: "day_key (?row i) = (a, day)" "vs_id (?row i) = i" for i
    by (simp_all add: snapshot_row_def day_key_def ida)
  note f = put_snapshot_facts [where row = ?row, OF assms(1) row]
  have same: "snapshot_row ?s' acc day lookback ps = ?row"
    by (simp add: fun_eq_iff snapshot_row_def market_values_def unrealized_pnls_def
        day_close_prices [of s ?s'])
  obtain i where i: "create_daily_pnl_snapshot a day lookback s = (Inr i, ?s')"
    using create_daily_app [OF assms] by blast
  have "snd (create_daily_pnl_snapshot a day lookback ?s') = ?s'"
    using create_daily_app [of ?s' a acc ps day lookback] assms f(1,4) same by auto
  with i f show ?thesis
    by (auto simp: snapshot_row_def ida)
qed

theorem daily_snapshot_correct_witness:
  "\<exists>i j s'. create_daily_pnl_snapshot 1 20000 7 demo_ledger = (Inr i, s') \<and>
     sn_snapshots s' = [\<lparr>vs_id = j, vs_account_id = 1, vs_snapshot_date = 20000,
       vs_cash_balance = 10000000, vs_market_value = 0, vs_total_value = 10000000,
       vs_realized_pnl = 0, vs_unrealized_pnl = 0, vs_updated_at = 0\<rparr>]"
proof -
  have "snapshots_ok (sn_snapshots demo_ledger)" "t_get va_id 1 (sn_accounts demo_ledger) = Some demo_account"
    by (simp_all add: demo_ledger_def demo_account_def empty_session_def snapshots_ok_def t_get_def)
  from daily_snapshot_correct [OF this refl, of 20000 7]
  obtain i j s' where r: "create_daily_pnl_snapshot 1 20000 7 demo_ledger = (Inr i, s')"
    and k: "filter (\<lambda>v. day_key v = (1, 20000)) (sn_snapshots s') =
      [\<lparr>vs_id = j, vs_account_id = 1, vs_snapshot_date = 20000, vs_cash_balance = 10000000,
        vs_market_value = 0, vs_total_value = 10000000, vs_realized_pnl = 0,
        vs_unrealized_pnl = 0, vs_updated_at = 0\<rparr>]"
    and o: "filter (\<lambda>v. day_key v \<noteq> (1, 20000)) (sn_snapshots s') = []"
    by (auto simp: demo_ledger_def demo_account_def empty_session_def market_values_def
        unrealized_pnls_def List.map_filter_def dec_eval)
  from o have "filter (\<lambda>v. day_key v = (1, 20000)) (sn_snapshots s') = sn_snapshots s'"
    by (auto simp: filter_empty_conv intro!: filter_True)
  with r k show ?thesis by auto
qed

end
