(* ===== verification/Broker_Facts.thy ===== *)
theory Broker_Facts
  imports Simulation_Broker Ledger_Facts
begin

text \<open>
  What the paper broker guarantees. \<open>broker_ok\<close> is the invariant of the paper-trading tables:
  the ledger is well-formed, every \<open>FILLED\<close> order has exactly one fill, which fits it, every
  other order has none, and the cash and holdings are the replay of the fills from the
  opening balances. \<open>match_step\<close> is the transition relation of matching: an order is
  rejected, or filled, or left alone; \<open>execute_pending_orders\<close> performs a sequence of such
  steps.
\<close>

subsection \<open>Orders\<close>

definition is_pending :: "virtual_order \<Rightarrow> bool" where
  "is_pending o' \<longleftrightarrow> vo_status o' \<in> {''CREATED'', ''SUBMITTED''}"

definition order_ok :: "virtual_order \<Rightarrow> bool" where
  "order_ok o' \<longleftrightarrow> 0 < vo_quantity o' \<and> (vo_side o' = ''BUY'' \<or> vo_side o' = ''SELL'') \<and>
     vo_status o' \<in> set vo_valid_statuses \<and>
     (if vo_order_type o' = ''LIMIT'' then \<exists>l > 0. vo_limit_price o' = Some l
      else vo_order_type o' = ''MARKET'' \<and> vo_limit_price o' = None)"

definition order_key :: "virtual_order \<Rightarrow> int \<times> string option" where
  "order_key o' = (vo_account_id o', vo_idempotency_key o')"

definition orders_ok :: "virtual_order list \<Rightarrow> bool" where
  "orders_ok os \<longleftrightarrow> distinct (map vo_id os) \<and> (\<forall>o' \<in> set os. order_ok o') \<and>
     distinct (map order_key (filter (\<lambda>o'. vo_idempotency_key o' \<noteq> None) os))"

definition crosses :: "virtual_order \<Rightarrow> decimal \<Rightarrow> bool" where
  "crosses o' price \<longleftrightarrow> (case vo_limit_price o' of None \<Rightarrow> True | Some l \<Rightarrow>
     (vo_side o' = ''BUY'' \<longrightarrow> price \<le> l) \<and> (vo_side o' = ''SELL'' \<longrightarrow> l \<le> price))"

definition fits :: "virtual_order \<Rightarrow> virtual_fill \<Rightarrow> bool" where
  "fits o' f \<longleftrightarrow> vf_account_id f = vo_account_id o' \<and> vf_symbol f = vo_symbol o' \<and>
     vf_side f = vo_side o' \<and> vf_quantity f = vo_quantity o' \<and> crosses o' (vf_fill_price f)"

definition order_fills :: "virtual_order \<Rightarrow> virtual_fill list \<Rightarrow> virtual_fill list" where
  "order_fills o' fs = filter (\<lambda>f. vf_order_id f = vo_id o') fs"

text \<open>A \<open>FILLED\<close> order has its one fill, the others have none; no fill is an orphan.\<close>

definition fills_match :: "virtual_order list \<Rightarrow> virtual_fill list \<Rightarrow> bool" where
  "fills_match os fs \<longleftrightarrow>
     (\<forall>o' \<in> set os. if vo_status o' = ''FILLED'' then \<exists>f. order_fills o' fs = [f] \<and> fits o' f
                   else order_fills o' fs = []) \<and>
     (\<forall>f \<in> set fs. vf_order_id f \<in> vo_id ` set os)"

subsection \<open>Replay of the fills\<close>

definition cash_entry :: "decimal \<Rightarrow> virtual_fill \<Rightarrow> decimal" where
  "cash_entry cash f = (if vf_side f = ''BUY'' then dsub cash (vf_net_amount f) else dadd cash (vf_net_amount f))"

definition hold_entry :: "book_entry \<Rightarrow> virtual_fill \<Rightarrow> book_entry" where
  "hold_entry h f = (if vf_side f = ''BUY'' then book_buy (vf_quantity f) (vf_net_amount f) h
                     else book_sell (vf_quantity f) (vf_net_amount f) h)"

definition replay_cash :: "int \<Rightarrow> decimal \<Rightarrow> virtual_fill list \<Rightarrow> decimal" where
  "replay_cash a opening fs = foldl cash_entry opening (filter (\<lambda>f. vf_account_id f = a) fs)"

definition replay_holding :: "int \<Rightarrow> string \<Rightarrow> virtual_fill list \<Rightarrow> book_entry" where
  "replay_holding a y fs =
     foldl hold_entry (0, 0, 0) (filter (\<lambda>f. vf_account_id f = a \<and> vf_symbol f = y) fs)"

definition replayed :: "session \<Rightarrow> bool" where
  "replayed s \<longleftrightarrow>
     (\<forall>acc \<in> set (sn_accounts s). va_cash_balance acc = replay_cash (va_id acc) (va_initial_cash acc) (sn_fills s)) \<and>
     (\<forall>a y. book_holding s a y = replay_holding a y (sn_fills s)) \<and>
     (\<forall>f \<in> set (sn_fills s). vf_account_id f \<in> va_id ` set (sn_accounts s))"

definition broker_ok :: "session \<Rightarrow> bool" where
  "broker_ok s \<longleftrightarrow> ledger_ok s \<and> orders_ok (sn_orders s) \<and> fills_match (sn_orders s) (sn_fills s) \<and>
     replayed s \<and> vo_account_id ` set (sn_orders s) \<subseteq> va_id ` set (sn_accounts s)"

lemma t_get_order:
  "orders_ok os \<Longrightarrow> o' \<in> set os \<Longrightarrow> t_get vo_id (vo_id o') os = Some o'"
  by (auto simp: orders_ok_def intro: t_get_distinct)

lemma order_inj: "orders_ok os \<Longrightarrow> x \<in> set os \<Longrightarrow> y \<in> set os \<Longrightarrow> vo_id x = vo_id y \<Longrightarrow> x = y"
  by (auto simp: orders_ok_def distinct_map dest: inj_onD)

subsection \<open>Status changes\<close>

definition restatus :: "int \<Rightarrow> string \<Rightarrow> text_t option \<Rightarrow> virtual_order \<Rightarrow> virtual_order" where
  "restatus now st reason o' = o'\<lparr>vo_status := st,
     vo_reason := (case reason of None \<Rightarrow> vo_reason o' | Some r \<Rightarrow> Some r), vo_updated_at := now\<rparr>"

definition set_status :: "int \<Rightarrow> string \<Rightarrow> text_t option \<Rightarrow> session \<Rightarrow> session" where
  "set_status i st reason s = s\<lparr>sn_orders := t_upd vo_id i (restatus (sn_now s) st reason) (sn_orders s)\<rparr>"

lemma restatus_keys [simp]:
  "vo_id (restatus now st r o') = vo_id o'" "vo_account_id (restatus now st r o') = vo_account_id o'"
  "vo_symbol (restatus now st r o') = vo_symbol o'" "vo_side (restatus now st r o') = vo_side o'"
  "vo_quantity (restatus now st r o') = vo_quantity o'" "vo_order_type (restatus now st r o') = vo_order_type o'"
  "vo_limit_price (restatus now st r o') = vo_limit_price o'" "vo_status (restatus now st r o') = st"
  "vo_idempotency_key (restatus now st r o') = vo_idempotency_key o'"
  by (simp_all add: restatus_def)

lemma set_status_sel [simp]:
  "sn_orders (set_status i st r s) = t_upd vo_id i (restatus (sn_now s) st r) (sn_orders s)"
  "sn_fills (set_status i st r s) = sn_fills s" "sn_accounts (set_status i st r s) = sn_accounts s"
  "sn_positions (set_status i st r s) = sn_positions s" "sn_prices (set_status i st r s) = sn_prices s"
  "sn_now (set_status i st r s) = sn_now s"
  by (simp_all add: set_status_def)

lemma update_status_app:
  "st \<in> set vo_valid_statuses \<Longrightarrow> vorder_update_status i st r s = (Inr (), set_status i st r s)"
  by (simp add: vorder_update_status_def upd_vorder_def monad_simps set_status_def restatus_def [abs_def])

lemma orders_ok_restatus:
  assumes "orders_ok os" and "st \<in> set vo_valid_statuses"
  shows "orders_ok (t_upd vo_id i (restatus now st r) os)"
proof -
  have keys: "map order_key (filter (\<lambda>o'. vo_idempotency_key o' \<noteq> None) (t_upd vo_id i (restatus now st r) os)) =
      map order_key (filter (\<lambda>o'. vo_idempotency_key o' \<noteq> None) os)"
    by (induction os) (auto simp: t_upd_def order_key_def)
  have "order_ok (restatus now st r o')" if "order_ok o'" for o'
    using that assms(2) by (auto simp: order_ok_def)
  with assms(1) keys show ?thesis
    by (auto simp: orders_ok_def t_upd_keys t_upd_set)
qed

lemma order_fills_restatus [simp]: "order_fills (restatus now st r o') fs = order_fills o' fs"
  by (simp add: order_fills_def)

lemma fits_restatus [simp]: "fits (restatus now st r o') f = fits o' f"
  by (auto simp: fits_def crosses_def split: option.split)

lemma ledger_ok_cong:
  "sn_accounts t = sn_accounts s \<Longrightarrow> sn_positions t = sn_positions s \<Longrightarrow> sn_fills t = sn_fills s \<Longrightarrow>
   ledger_ok t = ledger_ok s"
  by (simp add: ledger_ok_def)

lemma replayed_cong:
  "sn_accounts t = sn_accounts s \<Longrightarrow> sn_positions t = sn_positions s \<Longrightarrow> sn_fills t = sn_fills s \<Longrightarrow>
   replayed t = replayed s"
  by (simp add: replayed_def book_holding_def)

lemma fills_match_restatus:
  assumes "orders_ok os" "fills_match os fs" "t_get vo_id i os = Some o'"
    and "vo_status o' \<noteq> ''FILLED''" "st \<noteq> ''FILLED''"
  shows "fills_match (t_upd vo_id i (restatus now st r) os) fs"
  unfolding fills_match_def
proof (intro conjI ballI)
  fix f assume "f \<in> set fs"
  with assms(2) show "vf_order_id f \<in> vo_id ` set (t_upd vo_id i (restatus now st r) os)"
    by (simp add: t_upd_key_set fills_match_def)
next
  fix x assume "x \<in> set (t_upd vo_id i (restatus now st r) os)"
  then obtain y where y: "y \<in> set os" "x = (if vo_id y = i then restatus now st r y else y)"
    unfolding t_upd_set by blast
  show "if vo_status x = ''FILLED'' then \<exists>f. order_fills x fs = [f] \<and> fits x f else order_fills x fs = []"
  proof (cases "vo_id y = i")
    case True
    then have "y = o'"
      using order_inj [OF assms(1)] t_get_Some [OF assms(3)] y(1) by auto
    then have "order_fills y fs = []"
      using assms(2,4) y(1) by (auto simp: fills_match_def)
    with y(2) True assms(5) show ?thesis by simp
  next
    case False
    with y assms(2) show ?thesis by (simp add: fills_match_def)
  qed
qed

lemma restatus_accounts [simp]:
  "vo_account_id ` set (t_upd vo_id i (restatus now st r) os) = vo_account_id ` set os"
proof -
  have "map vo_account_id (t_upd vo_id i (restatus now st r) os) = map vo_account_id os"
    by (auto simp: t_upd_def)
  then show ?thesis by (metis list.set_map)
qed

lemma broker_ok_restatus:
  assumes "broker_ok s" "t_get vo_id i (sn_orders s) = Some o'" "vo_status o' \<noteq> ''FILLED''"
    and "st \<in> set vo_valid_statuses" "st \<noteq> ''FILLED''"
  shows "broker_ok (set_status i st r s)"
  using assms ledger_ok_cong [of "set_status i st r s" s] replayed_cong [of "set_status i st r s" s]
  by (auto simp: broker_ok_def intro!: orders_ok_restatus fills_match_restatus)

subsection \<open>Matching as a transition relation\<close>

definition day_bar :: "session \<Rightarrow> string \<Rightarrow> int \<Rightarrow> int \<Rightarrow> daily_price option" where
  "day_bar s y day lookback =
     (if lookback \<le> 0 then find (\<lambda>p. dp_symbol p = y \<and> dp_date p = day) (sn_prices s)
      else latest_by dp_date (filter (\<lambda>p. dp_symbol p = y \<and> dp_date p \<le> day \<and>
        day - lookback \<le> dp_date p) (sn_prices s)))"

definition order_fill :: "paper_cost_model \<Rightarrow> session \<Rightarrow> virtual_order \<Rightarrow> decimal \<Rightarrow> virtual_fill" where
  "order_fill m s o' price = fill_row s (vo_id o') (vo_account_id o') (vo_symbol o') (vo_side o')
     (vo_quantity o') price (fill_costs_for m (vo_side o') (vo_quantity o') price) None"

definition order_book :: "paper_cost_model \<Rightarrow> session \<Rightarrow> virtual_order \<Rightarrow> decimal \<Rightarrow> py_error + book" where
  "order_book m s o' price =
     book_fill m (vo_account_id o') (vo_symbol o') (vo_side o') (vo_quantity o') price (book_of s)"

inductive match_step :: "paper_cost_model \<Rightarrow> int \<Rightarrow> int \<Rightarrow> session \<Rightarrow> session \<Rightarrow> bool"
  for m :: paper_cost_model and day :: int and lookback :: int where
  reject: "\<lbrakk>o' \<in> set (sn_orders s); is_pending o'; day_bar s (vo_symbol o') day lookback = Some b;
     crosses o' (dp_close b); order_book m s o' (dp_close b) = Inl e;
     e = InsufficientCashError t \<or> e = InsufficientPositionError t\<rbrakk>
   \<Longrightarrow> match_step m day lookback s (set_status (vo_id o') ''REJECTED'' (Some [Cut 256 t]) s)"
| fill: "\<lbrakk>o' \<in> set (sn_orders s); is_pending o'; day_bar s (vo_symbol o') day lookback = Some b;
     crosses o' (dp_close b); order_book m s o' (dp_close b) = Inr k;
     s' = filled s (vo_account_id o') cash ps (order_fill m s o' (dp_close b));
     book_of s' = k; ledger_ok s'\<rbrakk>
   \<Longrightarrow> match_step m day lookback s (set_status (vo_id o') ''FILLED'' None s')"

lemma filled_sel [simp]:
  "sn_orders (filled s a cash ps f) = sn_orders s" "sn_fills (filled s a cash ps f) = sn_fills s @ [f]"
  "sn_prices (filled s a cash ps f) = sn_prices s" "sn_now (filled s a cash ps f) = sn_now s"
  "va_id ` set (sn_accounts (filled s a cash ps f)) = va_id ` set (sn_accounts s)"
  by (simp_all add: filled_def t_upd_key_set)

lemma order_fill_sel [simp]:
  "vf_order_id (order_fill m s o' p) = vo_id o'" "vf_account_id (order_fill m s o' p) = vo_account_id o'"
  "vf_symbol (order_fill m s o' p) = vo_symbol o'" "vf_side (order_fill m s o' p) = vo_side o'"
  "vf_quantity (order_fill m s o' p) = vo_quantity o'" "vf_fill_price (order_fill m s o' p) = p"
  "vf_net_amount (order_fill m s o' p) = fc_net_amount (fill_costs_for m (vo_side o') (vo_quantity o') p)"
  by (simp_all add: order_fill_def fill_row_def)

text \<open>The book after a fill, seen through the fill's own row.\<close>

lemma order_book_Inr:
  assumes "order_book m s o' p = Inr k"
  shows "vo_side o' = ''BUY'' \<or> vo_side o' = ''SELL''"
    and "\<exists>c. book_cash s (vo_account_id o') = Some c \<and>
      bk_cash k = (book_cash s)(vo_account_id o' \<mapsto> cash_entry c (order_fill m s o' p))"
    and "bk_holding k (a, y) = (if a = vo_account_id o' \<and> y = vo_symbol o'
      then hold_entry (book_holding s a y) (order_fill m s o' p) else book_holding s a y)"
  using assms
  by (auto simp: order_book_def book_fill_def Let_def book_of_def cash_entry_def hold_entry_def
      split: if_splits option.splits)

lemma fills_match_filled:
  assumes "orders_ok os" and "fills_match os fs" and "o' \<in> set os" and "is_pending o'"
    and f: "vf_order_id f = vo_id o'" "fits o' f"
  shows "fills_match (t_upd vo_id (vo_id o') (restatus now ''FILLED'' r) os) (fs @ [f])"
proof -
  have ids: "vo_id ` set (t_upd vo_id (vo_id o') (restatus now ''FILLED'' r) os) = vo_id ` set os"
    by (simp add: t_upd_key_set)
  have none: "order_fills o' fs = []"
    using assms(2-4) by (auto simp: fills_match_def is_pending_def)
  have "if vo_status x = ''FILLED'' then \<exists>g. order_fills x (fs @ [f]) = [g] \<and> fits x g
        else order_fills x (fs @ [f]) = []"
    if x: "x \<in> set (t_upd vo_id (vo_id o') (restatus now ''FILLED'' r) os)" for x
  proof -
    from x obtain y where y: "y \<in> set os" "x = (if vo_id y = vo_id o' then restatus now ''FILLED'' r y else y)"
      by (auto simp: t_upd_set)
    show ?thesis
    proof (cases "vo_id y = vo_id o'")
      case True
      then have "y = o'" using order_inj [OF assms(1)] y(1) assms(3) by blast
      with y(2) f none show ?thesis
        by (simp add: order_fills_def)
    next
      case False
      with y f(1) assms(2) show ?thesis by (auto simp: fills_match_def order_fills_def)
    qed
  qed
  moreover have "vo_id o' \<in> vo_id ` set os" using assms(3) by blast
  ultimately show ?thesis using assms(2) f(1) by (auto simp: fills_match_def ids)
qed

lemma replayed_filled:
  assumes ok: "replayed s" "ledger_ok s" and b: "order_book m s o' p = Inr k"
    and k: "book_of (filled s (vo_account_id o') cash ps (order_fill m s o' p)) = k"
  shows "replayed (filled s (vo_account_id o') cash ps (order_fill m s o' p))"
proof -
  let ?f = "order_fill m s o' p" and ?a = "vo_account_id o'"
  let ?s' = "filled s ?a cash ps ?f"
  obtain c where c: "book_cash s ?a = Some c" and kc: "bk_cash k = (book_cash s)(?a \<mapsto> cash_entry c ?f)"
    using order_book_Inr(2) [OF b] by blast
  have c': "book_cash ?s' ?a = Some (cash_entry c ?f)"
    using k kc by (auto simp: book_of_def)
  have ids: "distinct (map va_id (sn_accounts s))"
    using ok(2) by (simp add: ledger_ok_def accounts_ok_def)
  have "va_cash_balance x = replay_cash (va_id x) (va_initial_cash x) (sn_fills ?s')"
    if x: "x \<in> set (sn_accounts ?s')" for x
  proof -
    from x obtain y where y: "y \<in> set (sn_accounts s)"
      "x = (if va_id y = ?a then y\<lparr>va_cash_balance := cash, va_updated_at := sn_now s\<rparr> else y)"
      by (auto simp: filled_def t_upd_set)
    from ok(1) y(1) have r: "va_cash_balance y = replay_cash (va_id y) (va_initial_cash y) (sn_fills s)"
      by (simp add: replayed_def)
    show ?thesis
    proof (cases "va_id y = ?a")
      case True
      have g: "t_get va_id ?a (sn_accounts s) = Some y" using t_get_distinct [OF ids y(1) True] .
      then have "c = va_cash_balance y" using c by (simp add: book_cash_def)
      moreover have "cash = cash_entry c ?f"
        using c' g by (simp add: book_cash_def filled_def t_get_upd)
      ultimately show ?thesis using y(2) True r by (simp add: replay_cash_def)
    next
      case False
      with y(2) r show ?thesis by (simp add: replay_cash_def)
    qed
  qed
  moreover have "book_holding ?s' a y = replay_holding a y (sn_fills ?s')" for a y
  proof -
    have "book_holding ?s' a y = bk_holding k (a, y)" using k by (auto simp: book_of_def)
    also have "\<dots> = (if a = ?a \<and> y = vo_symbol o' then hold_entry (book_holding s a y) ?f else book_holding s a y)"
      by (rule order_book_Inr(3) [OF b])
    finally show ?thesis using ok(1) by (auto simp: replayed_def replay_holding_def)
  qed
  moreover have "?a \<in> va_id ` set (sn_accounts s)"
    using c t_get_Some [of va_id ?a "sn_accounts s"] by (force simp: book_cash_def)
  ultimately show ?thesis using ok(1) by (auto simp: replayed_def)
qed

lemma match_step_ok:
  assumes "match_step m day lookback s t" and "broker_ok s"
  shows "broker_ok t"
  using assms(1)
proof cases
  case (reject o' b e t)
  have "t_get vo_id (vo_id o') (sn_orders s) = Some o'"
    using assms(2) reject by (auto simp: broker_ok_def intro: t_get_order)
  with assms(2) reject show ?thesis
    by (auto simp: is_pending_def vo_valid_statuses_def intro!: broker_ok_restatus)
next
  case (fill o' b k s' cash ps)
  have o: "orders_ok (sn_orders s)" "fills_match (sn_orders s) (sn_fills s)" "replayed s" "ledger_ok s"
    using assms(2) by (simp_all add: broker_ok_def)
  have "fits o' (order_fill m s o' (dp_close b))" using fill by (simp add: fits_def)
  from fills_match_filled [OF o(1,2) fill(2,3) _ this]
  have "fills_match (sn_orders t) (sn_fills t)" using fill by simp
  moreover have "orders_ok (sn_orders t)" using o(1) fill by (auto simp: vo_valid_statuses_def intro: orders_ok_restatus)
  moreover have "replayed s'" using replayed_filled [OF o(3,4) fill(6)] fill(7,8) by simp
  then have "replayed t" using fill replayed_cong [of t s'] by simp
  moreover have "ledger_ok t" using fill ledger_ok_cong [of t s'] by simp
  moreover have "vo_account_id ` set (sn_orders t) \<subseteq> va_id ` set (sn_accounts t)"
    using assms(2) fill by (simp add: broker_ok_def)
  ultimately show ?thesis by (simp add: broker_ok_def)
qed

subsection \<open>One order of the loop\<close>

lemma lookup_app: "lookup_close_price y day lookback s = (Inr (day_bar s y day lookback), s)"
  by (simp add: lookup_close_price_def day_bar_def price_get_by_symbol_date_def
      price_get_latest_on_or_before_def monad_simps)

lemma terminal_iff: "order_ok o' \<Longrightarrow> vo_status o' \<in> set vo_terminal_statuses \<longleftrightarrow> \<not> is_pending o'"
  by (auto simp: order_ok_def vo_valid_statuses_def vo_terminal_statuses_def is_pending_def)

lemma limit_unmet_app: "order_ok o' \<Longrightarrow> limit_unmet o' price s = (Inr (\<not> crosses o' price), s)"
  by (auto simp: limit_unmet_def crosses_def order_ok_def monad_simps not_le split: if_splits)

text \<open>An order that will not be touched: not pending, without a price, or with its limit unmet.\<close>

definition settled :: "session \<Rightarrow> int \<Rightarrow> int \<Rightarrow> virtual_order \<Rightarrow> bool" where
  "settled s day lookback o' \<longleftrightarrow> \<not> is_pending o' \<or>
     (case day_bar s (vo_symbol o') day lookback of None \<Rightarrow> True | Some b \<Rightarrow> \<not> crosses o' (dp_close b))"

definition skip_result :: "session \<Rightarrow> int \<Rightarrow> int \<Rightarrow> virtual_order \<Rightarrow> exec_result \<Rightarrow> exec_result" where
  "skip_result s day lookback o' r =
     (if \<not> is_pending o' then r\<lparr>er_skipped_terminal := er_skipped_terminal r + 1\<rparr>
      else if day_bar s (vo_symbol o') day lookback = None
      then r\<lparr>er_skipped_no_price := er_skipped_no_price r + 1\<rparr>
      else r\<lparr>er_skipped_limit_unmet := er_skipped_limit_unmet r + 1\<rparr>)"

lemma order_facts:
  "orders_ok (sn_orders s) \<Longrightarrow> t_get vo_id i (sn_orders s) = Some o' \<Longrightarrow>
   order_ok o' \<and> vo_id o' = i \<and> o' \<in> set (sn_orders s)"
  by (auto simp: orders_ok_def dest: t_get_Some)

lemma execute_one_settled:
  assumes "orders_ok (sn_orders s)" and o': "t_get vo_id i (sn_orders s) = Some o'"
    and "settled s day lookback o'"
  shows "execute_one m day lookback i r s = (Inr (skip_result s day lookback o' r), s)"
  using order_facts [OF assms(1,2)] assms(3)
  by (auto simp: execute_one_def monad_simps o' terminal_iff lookup_app limit_unmet_app settled_def
      skip_result_def split: option.splits)

lemma execute_one_unsettled:
  assumes "orders_ok (sn_orders s)" and o': "t_get vo_id i (sn_orders s) = Some o'"
    and "\<not> settled s day lookback o'"
  obtains b where "is_pending o'" "day_bar s (vo_symbol o') day lookback = Some b" "crosses o' (dp_close b)"
    "execute_one m day lookback i r s = settle_order m o' (dp_close b) r s"
proof -
  from assms obtain b where b: "is_pending o'" "day_bar s (vo_symbol o') day lookback = Some b"
    "crosses o' (dp_close b)"
    by (auto simp: settled_def split: option.splits)
  show ?thesis
    by (rule that [OF b])
      (use order_facts [OF assms(1,2)] b in \<open>simp add: execute_one_def sbind_app [of "row_of _ _ _"]
        sbind_app [of "lookup_close_price _ _ _"] sbind_app [of "limit_unmet _ _"] o' row_of_app terminal_iff
        lookup_app limit_unmet_app\<close>)
qed

lemma reject_order_app:
  "reject_order i t r s = (Inr (r\<lparr>er_rejected := er_rejected r @ [i]\<rparr>), set_status i ''REJECTED'' (Some [Cut 256 t]) s)"
  by (simp add: reject_order_def sbind_app update_status_app vo_valid_statuses_def sret_app)

lemma shortage_Some:
  "shortage e = Some t \<longleftrightarrow> e = InsufficientCashError t \<or> e = InsufficientPositionError t"
  by (cases e) (auto simp: shortage_def)

lemma settle_order_Inl:
  assumes "ledger_ok s" "rates_ok m" and e: "order_book m s o' price = Inl e"
  shows "settle_order m o' price r s = (case shortage e of
      Some t \<Rightarrow> (Inr (r\<lparr>er_rejected := er_rejected r @ [vo_id o']\<rparr>),
                 set_status (vo_id o') ''REJECTED'' (Some [Cut 256 t]) s)
    | None \<Rightarrow> (Inl e, s))"
proof -
  have "apply_fill m (vo_id o') (vo_account_id o') (vo_symbol o') (vo_side o') (vo_quantity o') price None s = (Inl e, s)"
    using apply_fill_book [OF assms(1,2), of "vo_id o'" "vo_account_id o'" "vo_symbol o'" "vo_side o'" "vo_quantity o'" price None]
      e by (simp add: order_book_def)
  then show ?thesis
    by (simp add: settle_order_def sbind_app stry_app reject_order_app sthrow_app split: option.split)
qed

lemma settle_order_Inr:
  assumes "ledger_ok s" "rates_ok m" and k: "order_book m s o' price = Inr k"
  obtains cash ps where "settle_order m o' price r s =
      (Inr (r\<lparr>er_filled := er_filled r @ [(vo_id o', t_next vf_id (sn_fills s))]\<rparr>),
       set_status (vo_id o') ''FILLED'' None (filled s (vo_account_id o') cash ps (order_fill m s o' price)))"
    "book_of (filled s (vo_account_id o') cash ps (order_fill m s o' price)) = k"
    "ledger_ok (filled s (vo_account_id o') cash ps (order_fill m s o' price))"
proof -
  from apply_fill_book [OF assms(1,2), of "vo_id o'" "vo_account_id o'" "vo_symbol o'" "vo_side o'" "vo_quantity o'" price None] k
  obtain f cash ps where
    f: "apply_fill m (vo_id o') (vo_account_id o') (vo_symbol o') (vo_side o') (vo_quantity o') price None s =
      (Inr f, filled s (vo_account_id o') cash ps (order_fill m s o' price))"
    and b: "book_of (filled s (vo_account_id o') cash ps (order_fill m s o' price)) = k"
      "ledger_ok (filled s (vo_account_id o') cash ps (order_fill m s o' price))"
    and i: "fr_fill_id f = vf_id (order_fill m s o' price)"
    by (auto simp: order_book_def order_fill_def)
  from i have "fr_fill_id f = t_next vf_id (sn_fills s)" by (simp add: order_fill_def fill_row_def)
  with f have "settle_order m o' price r s =
      (Inr (r\<lparr>er_filled := er_filled r @ [(vo_id o', t_next vf_id (sn_fills s))]\<rparr>),
       set_status (vo_id o') ''FILLED'' None (filled s (vo_account_id o') cash ps (order_fill m s o' price)))"
    by (simp add: settle_order_def sbind_app stry_app update_status_app vo_valid_statuses_def sret_app)
  then show ?thesis using b by (rule that)
qed

lemma settle_order_fill:
  assumes "ledger_ok s" "rates_ok m" and "order_book m s o' price = Inr k"
    and "settle_order m o' price r s = (x, s')"
  shows "\<exists>cash ps. x = Inr (r\<lparr>er_filled := er_filled r @ [(vo_id o', t_next vf_id (sn_fills s))]\<rparr>) \<and>
    s' = set_status (vo_id o') ''FILLED'' None (filled s (vo_account_id o') cash ps (order_fill m s o' price))"
  by (rule settle_order_Inr [OF assms(1-3), of r]) (use assms(4) in simp, blast)

text \<open>Every iteration is a step of the relation, or changes nothing.\<close>

lemma execute_one_step:
  assumes ok: "broker_ok s" and m: "rates_ok m" and x: "execute_one m day lookback i r s = (x, s')"
  shows "s' = s \<or> match_step m day lookback s s'"
proof (cases "t_get vo_id i (sn_orders s)")
  case None
  with x show ?thesis by (simp add: execute_one_def sbind_app row_of_app)
next
  case (Some o')
  have ook: "orders_ok (sn_orders s)" and lok: "ledger_ok s" using ok by (simp_all add: broker_ok_def)
  note of = order_facts [OF ook Some]
  show ?thesis
  proof (cases "settled s day lookback o'")
    case True
    with x execute_one_settled [OF ook Some] show ?thesis by simp
  next
    case False
    from execute_one_unsettled [OF ook Some this, of m r]
    obtain b where b: "is_pending o'" "day_bar s (vo_symbol o') day lookback = Some b" "crosses o' (dp_close b)"
      "execute_one m day lookback i r s = settle_order m o' (dp_close b) r s" .
    show ?thesis
    proof (cases "order_book m s o' (dp_close b)")
      case (Inl e)
      show ?thesis
      proof (cases "shortage e")
        case None
        with x b(4) settle_order_Inl [OF lok m Inl] show ?thesis by simp
      next
        case (Some t)
        with x b(4) settle_order_Inl [OF lok m Inl, of r]
        have "s' = set_status (vo_id o') ''REJECTED'' (Some [Cut 256 t]) s" by simp
        with match_step.reject [of o' s day lookback b m e t] of b Inl Some
        show ?thesis by (simp add: shortage_Some)
      qed
    next
      case (Inr k)
      from settle_order_Inr [OF lok m Inr, of r]
      obtain cash ps where c: "settle_order m o' (dp_close b) r s =
          (Inr (r\<lparr>er_filled := er_filled r @ [(vo_id o', t_next vf_id (sn_fills s))]\<rparr>),
           set_status (vo_id o') ''FILLED'' None (filled s (vo_account_id o') cash ps (order_fill m s o' (dp_close b))))"
        "book_of (filled s (vo_account_id o') cash ps (order_fill m s o' (dp_close b))) = k"
        "ledger_ok (filled s (vo_account_id o') cash ps (order_fill m s o' (dp_close b)))" .
      have "match_step m day lookback s (set_status (vo_id o') ''FILLED'' None
          (filled s (vo_account_id o') cash ps (order_fill m s o' (dp_close b))))"
        using of b(1-3) Inr c(2,3) by (intro match_step.fill) auto
      with x b(4) c(1) show ?thesis by simp
    qed
  qed
qed

subsection \<open>The whole run\<close>

definition match_run :: "paper_cost_model \<Rightarrow> int \<Rightarrow> int \<Rightarrow> session \<Rightarrow> session \<Rightarrow> bool" where
  "match_run m day lookback s s' \<longleftrightarrow>
     (rates_ok m \<and> broker_ok s \<longrightarrow> (match_step m day lookback)\<^sup>*\<^sup>* s s' \<and> broker_ok s')"

interpretation run: step_relation "match_run m day lookback"
  by unfold_locales (auto simp: match_run_def)

lemma execute_one_run: "follows (match_run m day lookback) (execute_one m day lookback i r)"
proof (rule followsI)
  fix s
  obtain x s' where x: "execute_one m day lookback i r s = (x, s')" by fastforce
  then show "match_run m day lookback s (snd (execute_one m day lookback i r s))"
    using execute_one_step [OF _ _ x] match_step_ok [of m day lookback s s']
    by (auto simp: match_run_def)
qed

lemma pending_candidates_state: "snd (pending_candidates a s) = s"
  by (cases a) (simp_all add: pending_candidates_def list_pending_global_def vorder_list_by_account_def
      monad_simps)

lemma execute_run: "follows (match_run m day lookback) (execute_pending_orders m day a lookback)"
  unfolding execute_pending_orders_def
proof (rule run.R_bind)
  show "follows (match_run m day lookback) (pending_candidates a)"
    by (rule followsI) (simp add: pending_candidates_state run.R_refl)
qed (rule run.R_fold, rule execute_one_run)

subsection \<open>Submitting and cancelling\<close>

lemma vorder_create_app:
  assumes "side \<in> set vo_valid_sides" "ot \<in> set vo_valid_order_types" "0 < q"
    and "ot = ''LIMIT'' \<longleftrightarrow> lp \<noteq> None"
  shows "vorder_create a y side q ot lp key None memo ''CREATED'' s =
    (Inr (t_next vo_id (sn_orders s)), s\<lparr>sn_orders := sn_orders s @
       [\<lparr>vo_id = t_next vo_id (sn_orders s), vo_account_id = a, vo_symbol = y, vo_side = side,
         vo_quantity = q, vo_order_type = ot, vo_limit_price = lp, vo_status = ''CREATED'',
         vo_idempotency_key = key, vo_reason = None, vo_note = memo, vo_updated_at = sn_now s\<rparr>]\<rparr>)"
  using assms by (auto simp: vorder_create_def monad_simps vo_valid_statuses_def vo_valid_order_types_def)

definition key_holders :: "session \<Rightarrow> int \<Rightarrow> string \<Rightarrow> virtual_order list" where
  "key_holders s a key = filter (\<lambda>o'. vo_account_id o' = a \<and> vo_idempotency_key o' = Some key) (sn_orders s)"

lemma key_holders_le1:
  assumes "orders_ok (sn_orders s)"
  shows "key_holders s a key = [] \<or> (\<exists>o'. key_holders s a key = [o'])"
proof -
  have "distinct (map order_key (filter (\<lambda>o'. vo_idempotency_key o' \<noteq> None) (sn_orders s)))"
    using assms by (simp add: orders_ok_def)
  then have "distinct (map order_key (filter (\<lambda>o'. order_key o' = (a, Some key))
      (filter (\<lambda>o'. vo_idempotency_key o' \<noteq> None) (sn_orders s))))"
    by (rule distinct_map_filter)
  moreover have "filter (\<lambda>o'. order_key o' = (a, Some key))
      (filter (\<lambda>o'. vo_idempotency_key o' \<noteq> None) (sn_orders s)) = key_holders s a key"
    by (auto simp: key_holders_def order_key_def intro!: filter_cong)
  ultimately have d: "distinct (map order_key (key_holders s a key))" by simp
  have "\<forall>o' \<in> set (key_holders s a key). order_key o' = (a, Some key)"
    by (auto simp: key_holders_def order_key_def)
  with d show ?thesis by (cases "key_holders s a key" rule: remdups_adj.cases) auto
qed

lemma get_by_key_app:
  assumes "orders_ok (sn_orders s)"
  shows "vorder_get_by_idempotency_key a key s =
    (Inr (case key_holders s a key of [] \<Rightarrow> None | o' # _ \<Rightarrow> Some o'), s)"
  using key_holders_le1 [OF assms, of a key]
  by (auto simp: vorder_get_by_idempotency_key_def monad_simps key_holders_def)

text \<open>The request \<open>submit_order\<close> accepts: every gate and every validation, and the limit price
  it stores.\<close>

definition submit_limit :: "string \<Rightarrow> dec_arg option \<Rightarrow> decimal option option" where
  "submit_limit ot lp = (if ot = ''LIMIT''
     then (case lp of Some (DecArg l) \<Rightarrow> if 0 < l then Some (Some l) else None | _ \<Rightarrow> None)
     else if ot = ''MARKET'' \<and> lp = None then Some None else None)"

definition submit_accepts ::
  "settings \<Rightarrow> session \<Rightarrow> int \<Rightarrow> string \<Rightarrow> string \<Rightarrow> int_arg \<Rightarrow> string \<Rightarrow> dec_arg option \<Rightarrow> bool" where
  "submit_accepts cfg s a y side qa ot lp \<longleftrightarrow> cfg_paper_trading_enabled cfg \<and>
     (\<exists>acc. t_get va_id a (sn_accounts s) = Some acc \<and> va_paper_trading_enabled acc) \<and>
     (side = ''BUY'' \<or> side = ''SELL'') \<and> (case qa of PyInt q \<Rightarrow> 0 < q | _ \<Rightarrow> False) \<and> py_strip y \<noteq> [] \<and>
     submit_limit ot lp \<noteq> None"

lemma py_strip_Nil [simp]: "py_strip [] = []"
  by (simp add: py_strip_def)

lemma submit_order_refused:
  assumes "\<not> submit_accepts cfg s a y side qa ot lp"
  shows "\<exists>e. submit_order cfg a y side qa ot lp key memo s = (Inl e, s)"
  using assms
  by (auto simp: submit_order_def monad_simps submit_accepts_def submit_limit_def account_get_by_id_def
      normalize_limit_def vo_valid_sides_def vo_valid_order_types_def not_le not_less
      split: option.splits int_arg.splits dec_arg.splits if_splits)

lemma submit_order_accepted:
  assumes acc: "submit_accepts cfg s a y side qa ot lp" and ook: "orders_ok (sn_orders s)"
  obtains q l where "qa = PyInt q" "0 < q" "submit_limit ot lp = Some l"
    "ot = ''LIMIT'' \<longleftrightarrow> l \<noteq> None" "ot = ''LIMIT'' \<or> ot = ''MARKET''" "\<forall>x. l = Some x \<longrightarrow> 0 < x"
    "submit_order cfg a y side qa ot lp key memo s =
      (case (case key of None \<Rightarrow> [] | Some k \<Rightarrow> key_holders s a k) of
         o' # _ \<Rightarrow> (Inr \<lparr>sr_order = vo_id o', sr_deduplicated = True\<rparr>, s)
       | [] \<Rightarrow> (Inr \<lparr>sr_order = t_next vo_id (sn_orders s), sr_deduplicated = False\<rparr>,
           s\<lparr>sn_orders := sn_orders s @
             [\<lparr>vo_id = t_next vo_id (sn_orders s), vo_account_id = a, vo_symbol = y, vo_side = side,
               vo_quantity = q, vo_order_type = ot, vo_limit_price = l, vo_status = ''CREATED'',
               vo_idempotency_key = key, vo_reason = None, vo_note = memo, vo_updated_at = sn_now s\<rparr>]\<rparr>))"
proof -
  from acc obtain q l where q: "qa = PyInt q" "0 < q" and l: "submit_limit ot lp = Some l"
    by (auto simp: submit_accepts_def split: int_arg.splits)
  from l have l': "ot = ''LIMIT'' \<longleftrightarrow> l \<noteq> None" "ot = ''LIMIT'' \<or> ot = ''MARKET''" "\<forall>x. l = Some x \<longrightarrow> 0 < x"
    by (auto simp: submit_limit_def split: option.splits dec_arg.splits if_splits)
  have side: "side \<in> set vo_valid_sides" "ot \<in> set vo_valid_order_types"
    using acc l'(2) by (auto simp: submit_accepts_def vo_valid_sides_def vo_valid_order_types_def)
  obtain x where x: "t_get va_id a (sn_accounts s) = Some x" "va_paper_trading_enabled x"
    using acc by (auto simp: submit_accepts_def)
  have lim: "normalize_limit ot lp s = (Inr l, s)"
    using l by (auto simp: submit_limit_def normalize_limit_def monad_simps
        split: option.splits dec_arg.splits if_splits)
  have main: "submit_order cfg a y side qa ot lp key memo s =
    sbind (case key of None \<Rightarrow> sret None | Some key \<Rightarrow> vorder_get_by_idempotency_key a key) (\<lambda>existing.
     case existing of
       Some o' \<Rightarrow> sret \<lparr>sr_order = vo_id o', sr_deduplicated = True\<rparr>
     | None \<Rightarrow> sbind (vorder_create a y side q ot l key None memo ''CREATED'') (\<lambda>i.
         sret \<lparr>sr_order = i, sr_deduplicated = False\<rparr>)) s"
    unfolding submit_order_def using acc q side x
    by (auto simp: submit_accepts_def account_get_by_id_def sgets_app srequire_app sret_app
        sbind_app [of "sgets _"] sbind_app [of "srequire _ _"] sbind_app [of "normalize_limit _ _"] lim)
  show ?thesis
  proof (rule that [OF q l l'])
    show "submit_order cfg a y side qa ot lp key memo s =
      (case (case key of None \<Rightarrow> [] | Some k \<Rightarrow> key_holders s a k) of
         o' # _ \<Rightarrow> (Inr \<lparr>sr_order = vo_id o', sr_deduplicated = True\<rparr>, s)
       | [] \<Rightarrow> (Inr \<lparr>sr_order = t_next vo_id (sn_orders s), sr_deduplicated = False\<rparr>,
           s\<lparr>sn_orders := sn_orders s @
             [\<lparr>vo_id = t_next vo_id (sn_orders s), vo_account_id = a, vo_symbol = y, vo_side = side,
               vo_quantity = q, vo_order_type = ot, vo_limit_price = l, vo_status = ''CREATED'',
               vo_idempotency_key = key, vo_reason = None, vo_note = memo, vo_updated_at = sn_now s\<rparr>]\<rparr>))"
      using main vorder_create_app [OF side q(2) l'(1), of a y key memo s] get_by_key_app [OF ook, of a]
      by (cases key) (auto simp: monad_simps split: list.splits)
  qed
qed

lemma broker_ok_new_order:
  assumes ok: "broker_ok s" and o': "order_ok o'" "vo_status o' = ''CREATED''"
    "vo_id o' = t_next vo_id (sn_orders s)" "vo_account_id o' \<in> va_id ` set (sn_accounts s)"
    and key: "\<And>k. vo_idempotency_key o' = Some k \<Longrightarrow> key_holders s (vo_account_id o') k = []"
  shows "broker_ok (s\<lparr>sn_orders := sn_orders s @ [o']\<rparr>)"
proof -
  let ?t = "s\<lparr>sn_orders := sn_orders s @ [o']\<rparr>"
  have new: "vo_id o' \<notin> vo_id ` set (sn_orders s)"
    using t_next_gt [of _ "sn_orders s" vo_id] o'(3) by fastforce
  have "order_key o' \<notin> order_key ` set (filter (\<lambda>o'. vo_idempotency_key o' \<noteq> None) (sn_orders s))"
    if "vo_idempotency_key o' \<noteq> None"
    using key that by (fastforce simp: order_key_def key_holders_def filter_empty_conv)
  then have "orders_ok (sn_orders ?t)"
    using ok o'(1) new by (auto simp: broker_ok_def orders_ok_def)
  moreover have "\<forall>f \<in> set (sn_fills s). vf_order_id f \<in> vo_id ` set (sn_orders s)"
    using ok by (simp add: broker_ok_def fills_match_def)
  then have "order_fills o' (sn_fills s) = []"
    using new unfolding order_fills_def filter_empty_conv by metis
  then have "fills_match (sn_orders ?t) (sn_fills ?t)"
    using ok o'(2) by (auto simp: broker_ok_def fills_match_def)
  moreover have "ledger_ok ?t" "replayed ?t"
    using ok ledger_ok_cong [of ?t s] replayed_cong [of ?t s] by (simp_all add: broker_ok_def)
  ultimately show ?thesis using ok o'(4) by (simp add: broker_ok_def)
qed

lemma submit_order_ok:
  assumes ok: "broker_ok s" and x: "submit_order cfg a y side qa ot lp key memo s = (x, s')"
  shows "broker_ok s'"
proof (cases "submit_accepts cfg s a y side qa ot lp")
  case False
  with submit_order_refused [OF this, of key memo] x ok show ?thesis by auto
next
  case True
  have "orders_ok (sn_orders s)" using ok by (simp add: broker_ok_def)
  from submit_order_accepted [OF True this, of key memo]
  obtain q l where ql: "0 < q" "ot = ''LIMIT'' \<longleftrightarrow> l \<noteq> None" "ot = ''LIMIT'' \<or> ot = ''MARKET''"
      "\<forall>x. l = Some x \<longrightarrow> 0 < x"
    and r: "submit_order cfg a y side qa ot lp key memo s =
      (case (case key of None \<Rightarrow> [] | Some k \<Rightarrow> key_holders s a k) of
         o' # _ \<Rightarrow> (Inr \<lparr>sr_order = vo_id o', sr_deduplicated = True\<rparr>, s)
       | [] \<Rightarrow> (Inr \<lparr>sr_order = t_next vo_id (sn_orders s), sr_deduplicated = False\<rparr>,
           s\<lparr>sn_orders := sn_orders s @
             [\<lparr>vo_id = t_next vo_id (sn_orders s), vo_account_id = a, vo_symbol = y, vo_side = side,
               vo_quantity = q, vo_order_type = ot, vo_limit_price = l, vo_status = ''CREATED'',
               vo_idempotency_key = key, vo_reason = None, vo_note = memo, vo_updated_at = sn_now s\<rparr>]\<rparr>))"
    by metis
  obtain acc where "t_get va_id a (sn_accounts s) = Some acc" and side: "side = ''BUY'' \<or> side = ''SELL''"
    using True by (auto simp: submit_accepts_def)
  then have home: "a \<in> va_id ` set (sn_accounts s)" by (force dest: t_get_Some)
  show ?thesis
  proof (cases "case key of None \<Rightarrow> [] | Some k \<Rightarrow> key_holders s a k")
    case Nil
    have "broker_ok (s\<lparr>sn_orders := sn_orders s @
             [\<lparr>vo_id = t_next vo_id (sn_orders s), vo_account_id = a, vo_symbol = y, vo_side = side,
               vo_quantity = q, vo_order_type = ot, vo_limit_price = l, vo_status = ''CREATED'',
               vo_idempotency_key = key, vo_reason = None, vo_note = memo, vo_updated_at = sn_now s\<rparr>]\<rparr>)"
      using ql side Nil home by (intro broker_ok_new_order [OF ok]) (auto simp: order_ok_def vo_valid_statuses_def)
    with r Nil x show ?thesis by simp
  next
    case (Cons o' os)
    with r x ok show ?thesis by simp
  qed
qed

lemma cancel_order_app:
  "cancel_order i reason s = (case t_get vo_id i (sn_orders s) of
     None \<Rightarrow> (Inl (SimulationBrokerError [T (''VirtualOrder id='' @ str_of_int i @ '' not found'')]), s)
   | Some o' \<Rightarrow> if is_pending o' then (Inr i, set_status i ''CANCELED'' reason s)
       else (Inl (SimulationBrokerError [T (''VirtualOrder id='' @ str_of_int i @ '' is in status='' @
             py_repr (vo_status o') @ ''; only '' @ py_list_repr vo_cancelable_statuses @
             '' are cancelable (terminal: '' @ py_list_repr vo_terminal_statuses @ '')'')]), s))"
  by (auto simp: cancel_order_def vorder_get_by_id_def vorder_cancel_def monad_simps is_pending_def
      vo_cancelable_statuses_def update_status_app vo_valid_statuses_def split: option.splits)

lemma cancel_order_ok: "broker_ok s \<Longrightarrow> broker_ok (snd (cancel_order i reason s))"
  using broker_ok_restatus [of s i _ "''CANCELED''" reason]
  by (auto simp: cancel_order_app is_pending_def vo_valid_statuses_def split: option.splits)

lemma account_create_ok:
  assumes ok: "broker_ok s"
  shows "broker_ok (snd (account_create name cash user cur enabled s))"
proof -
  have new: "broker_ok (s\<lparr>sn_accounts := sn_accounts s @ [a]\<rparr>)"
    if a: "va_id a = t_next va_id (sn_accounts s)" "va_cash_balance a = va_initial_cash a" "0 \<le> va_initial_cash a" for a
  proof -
    have fresh: "va_id a \<notin> va_id ` set (sn_accounts s)"
      using t_next_gt [of _ "sn_accounts s" va_id] a(1) by fastforce
    have home: "\<forall>f \<in> set (sn_fills s). vf_account_id f \<in> va_id ` set (sn_accounts s)"
      using ok by (simp add: broker_ok_def replayed_def)
    then have "filter (\<lambda>f. vf_account_id f = va_id a) (sn_fills s) = []"
      using fresh unfolding filter_empty_conv by metis
    then have "va_cash_balance a = replay_cash (va_id a) (va_initial_cash a) (sn_fills s)"
      using a(2) by (simp add: replay_cash_def)
    then have "replayed (s\<lparr>sn_accounts := sn_accounts s @ [a]\<rparr>)"
      using ok by (auto simp: broker_ok_def replayed_def book_holding_def)
    moreover have "ledger_ok (s\<lparr>sn_accounts := sn_accounts s @ [a]\<rparr>)"
      using ok a(2,3) fresh by (auto simp: broker_ok_def ledger_ok_def accounts_ok_def)
    ultimately show ?thesis using ok by (auto simp: broker_ok_def)
  qed
  show ?thesis
    using ok by (cases cash) (auto simp: account_create_def monad_simps intro!: new)
qed

subsection \<open>Reports, errors and a second run\<close>

text \<open>What the accumulated report says is so.\<close>

definition report_ok :: "session \<Rightarrow> exec_result \<Rightarrow> bool" where
  "report_ok s r \<longleftrightarrow>
     (\<forall>(i, j) \<in> set (er_filled r). \<exists>o' \<in> set (sn_orders s). vo_id o' = i \<and> vo_status o' = ''FILLED'' \<and>
        (\<exists>f \<in> set (sn_fills s). vf_id f = j \<and> vf_order_id f = i)) \<and>
     (\<forall>i \<in> set (er_rejected r). \<exists>o' \<in> set (sn_orders s). vo_id o' = i \<and> vo_status o' = ''REJECTED'')"

definition report_size :: "exec_result \<Rightarrow> nat" where
  "report_size r = length (er_filled r) + length (er_rejected r) + er_skipped_no_price r +
     er_skipped_limit_unmet r + er_skipped_terminal r"

lemma skip_report:
  "report_ok t (skip_result s day lookback o' r) = report_ok t r"
  "report_size (skip_result s day lookback o' r) = Suc (report_size r)"
  by (simp_all add: skip_result_def report_ok_def report_size_def)

lemma report_restatus:
  assumes "report_ok s r" and "\<forall>o' \<in> set (sn_orders s). vo_id o' = i \<longrightarrow> is_pending o'"
    and "set (sn_fills s) \<subseteq> set (sn_fills t)" and "sn_orders t = t_upd vo_id i (restatus now st x) (sn_orders s)"
  shows "report_ok t r"
proof -
  have keep: "o' \<in> set (sn_orders t)" if "o' \<in> set (sn_orders s)" "\<not> is_pending o'" for o'
    using that assms(2,4) by (auto simp: t_upd_set)
  show ?thesis
    using assms(1,3) keep unfolding report_ok_def is_pending_def by fastforce
qed

lemma restatus_in:
  "o' \<in> set os \<Longrightarrow> vo_id o' = i \<Longrightarrow> restatus now st x o' \<in> set (t_upd vo_id i (restatus now st x) os)"
  by (auto simp: t_upd_set)

lemma pending_unique:
  assumes "orders_ok (sn_orders s)" "o' \<in> set (sn_orders s)" "is_pending o'"
  shows "\<forall>x \<in> set (sn_orders s). vo_id x = vo_id o' \<longrightarrow> is_pending x"
  using order_inj [OF assms(1)] assms(2,3) by metis

lemma report_reject:
  "report_ok t r \<Longrightarrow> x \<in> set (sn_orders t) \<Longrightarrow> vo_id x = i \<Longrightarrow> vo_status x = ''REJECTED'' \<Longrightarrow>
   report_ok t (r\<lparr>er_rejected := er_rejected r @ [i]\<rparr>)"
  by (auto simp: report_ok_def)

lemma report_fill:
  "report_ok t r \<Longrightarrow> x \<in> set (sn_orders t) \<Longrightarrow> vo_id x = i \<Longrightarrow> vo_status x = ''FILLED'' \<Longrightarrow>
   f \<in> set (sn_fills t) \<Longrightarrow> vf_id f = j \<Longrightarrow> vf_order_id f = i \<Longrightarrow>
   report_ok t (r\<lparr>er_filled := er_filled r @ [(i, j)]\<rparr>)"
  by (auto simp: report_ok_def)

lemma execute_one_report:
  assumes ok: "broker_ok s" and m: "rates_ok m"
    and x: "execute_one m day lookback i r s = (Inr r', s')" and r: "report_ok s r"
  shows "report_ok s' r' \<and> report_size r' = Suc (report_size r)"
proof (cases "t_get vo_id i (sn_orders s)")
  case None
  with x show ?thesis by (simp add: execute_one_def sbind_app row_of_app)
next
  case (Some o')
  have ook: "orders_ok (sn_orders s)" and lok: "ledger_ok s" using ok by (simp_all add: broker_ok_def)
  note of = order_facts [OF ook Some]
  show ?thesis
  proof (cases "settled s day lookback o'")
    case True
    with x execute_one_settled [OF ook Some, of day lookback m r] r show ?thesis
      by (auto simp: skip_report)
  next
    case False
    from execute_one_unsettled [OF ook Some this, of m r]
    obtain b where "is_pending o'" "day_bar s (vo_symbol o') day lookback = Some b"
      "crosses o' (dp_close b)" "execute_one m day lookback i r s = settle_order m o' (dp_close b) r s" .
    note b = this(1,4)
    have o'_in: "o' \<in> set (sn_orders s)" using of by blast
    note old = report_restatus [OF r pending_unique [OF ook o'_in b(1)]]
    show ?thesis
    proof (cases "order_book m s o' (dp_close b)")
      case (Inl e)
      from x b(2) settle_order_Inl [OF lok m Inl, of r]
      obtain t where s': "s' = set_status (vo_id o') ''REJECTED'' (Some [Cut 256 t]) s"
        and r': "r' = r\<lparr>er_rejected := er_rejected r @ [vo_id o']\<rparr>"
        by (auto split: option.splits)
      have old': "report_ok s' r" by (rule old) (simp_all add: s')
      have new: "restatus (sn_now s) ''REJECTED'' (Some [Cut 256 t]) o' \<in> set (sn_orders s')"
        unfolding s' set_status_sel by (rule restatus_in [OF o'_in refl])
      show ?thesis
        unfolding r' using report_reject [OF old' new refl] by (simp add: report_size_def)
    next
      case (Inr k)
      from settle_order_fill [OF lok m Inr] x b(2)
      obtain cash ps where s': "s' = set_status (vo_id o') ''FILLED'' None
          (filled s (vo_account_id o') cash ps (order_fill m s o' (dp_close b)))"
        and r': "r' = r\<lparr>er_filled := er_filled r @ [(vo_id o', t_next vf_id (sn_fills s))]\<rparr>"
        by fastforce
      have f: "vf_id (order_fill m s o' (dp_close b)) = t_next vf_id (sn_fills s)"
        "order_fill m s o' (dp_close b) \<in> set (sn_fills s')"
        by (simp_all add: order_fill_def fill_row_def s')
      have old': "report_ok s' r" by (rule old) (auto simp: s')
      have new: "restatus (sn_now s) ''FILLED'' None o' \<in> set (sn_orders s')"
        unfolding s' set_status_sel filled_sel by (rule restatus_in [OF o'_in refl])
      show ?thesis
        unfolding r' using report_fill [OF old' new refl _ f(2,1)] by (simp add: report_size_def)
    qed
  qed
qed

lemma run_report:
  assumes "broker_ok s" "rates_ok m" "report_ok s r"
    and "sfold (execute_one m day lookback) is r s = (Inr r', s')"
  shows "report_ok s' r' \<and> report_size r' = report_size r + length is"
  using assms
proof (induction "is" arbitrary: r s)
  case Nil
  then show ?case by (simp add: sret_app)
next
  case (Cons i "is")
  from Cons.prems(4) have "sbind (execute_one m day lookback i r) (sfold (execute_one m day lookback) is) s = (Inr r', s')"
    by simp
  then obtain r1 s1 where x: "execute_one m day lookback i r s = (Inr r1, s1)"
    and y: "sfold (execute_one m day lookback) is r1 s1 = (Inr r', s')"
    by (rule sbind_InrE)
  have "broker_ok s1"
    using execute_one_run [of m day lookback i r] x Cons.prems(1,2)
    by (force simp: match_run_def dest: followsD)
  moreover have "report_ok s1 r1 \<and> report_size r1 = Suc (report_size r)"
    using execute_one_report [OF Cons.prems(1,2) x Cons.prems(3)] .
  ultimately show ?case using Cons.IH [OF _ Cons.prems(2) _ y] by simp
qed

text \<open>A settled order stays settled: matching changes neither prices nor a settled order.\<close>

definition order_at :: "session \<Rightarrow> int \<Rightarrow> int \<Rightarrow> int \<Rightarrow> bool" where
  "order_at s day lookback i \<longleftrightarrow>
     (\<forall>o' \<in> set (sn_orders s). vo_id o' = i \<longrightarrow> settled s day lookback o')"

lemma settled_cong:
  "sn_prices t = sn_prices s \<Longrightarrow> settled t day lookback o' = settled s day lookback o'"
  by (simp add: settled_def day_bar_def)

lemma settled_final: "st = ''REJECTED'' \<or> st = ''FILLED'' \<Longrightarrow> settled s day lookback (restatus now st x o')"
  by (auto simp: settled_def is_pending_def)

lemma match_step_prices: "match_step m day lookback s t \<Longrightarrow> sn_prices t = sn_prices s"
  by (erule match_step.cases) simp_all

lemma match_step_ids: "match_step m day lookback s t \<Longrightarrow> vo_id ` set (sn_orders t) = vo_id ` set (sn_orders s)"
  by (erule match_step.cases) (simp_all add: t_upd_key_set)

lemma match_step_settled:
  assumes "match_step m day lookback s t" and "order_at s day lookback i"
  shows "order_at t day lookback i"
  using assms settled_cong [OF match_step_prices [OF assms(1)]]
  by cases (auto simp: order_at_def t_upd_set settled_final)

lemma execute_one_settles:
  assumes ok: "broker_ok s" and m: "rates_ok m"
    and x: "execute_one m day lookback i r s = (Inr r', s')"
  shows "order_at s' day lookback i"
proof (cases "t_get vo_id i (sn_orders s)")
  case None
  with x show ?thesis by (simp add: execute_one_def sbind_app row_of_app)
next
  case (Some o')
  have ook: "orders_ok (sn_orders s)" and lok: "ledger_ok s" using ok by (simp_all add: broker_ok_def)
  note of = order_facts [OF ook Some]
  have one: "y = o'" if "y \<in> set (sn_orders s)" "vo_id y = i" for y
    using order_inj [OF ook that(1)] of that(2) by auto
  show ?thesis
  proof (cases "settled s day lookback o'")
    case True
    with x execute_one_settled [OF ook Some, of day lookback m r] one show ?thesis
      by (auto simp: order_at_def)
  next
    case False
    from execute_one_unsettled [OF ook Some this, of m r]
    obtain b where "is_pending o'" "day_bar s (vo_symbol o') day lookback = Some b"
      "crosses o' (dp_close b)" "execute_one m day lookback i r s = settle_order m o' (dp_close b) r s" .
    note b = this(1,4)
    show ?thesis
    proof (cases "order_book m s o' (dp_close b)")
      case (Inl e)
      from x b(2) settle_order_Inl [OF lok m Inl, of r]
      obtain t where "s' = set_status (vo_id o') ''REJECTED'' (Some [Cut 256 t]) s"
        by (auto split: option.splits)
      then show ?thesis using of by (auto simp: order_at_def t_upd_set settled_final)
    next
      case (Inr k)
      from settle_order_fill [OF lok m Inr] x b(2)
      obtain cash ps where "s' = set_status (vo_id o') ''FILLED'' None
          (filled s (vo_account_id o') cash ps (order_fill m s o' (dp_close b)))"
        by fastforce
      then show ?thesis using of by (auto simp: order_at_def t_upd_set settled_final)
    qed
  qed
qed

lemma steps_settled:
  "(match_step m day lookback)\<^sup>*\<^sup>* s t \<Longrightarrow> order_at s day lookback i \<Longrightarrow> order_at t day lookback i"
  by (induction rule: rtranclp_induct) (auto dest: match_step_settled)

lemma run_settles:
  assumes "broker_ok s" "rates_ok m" and "sfold (execute_one m day lookback) is r s = (Inr r', s')"
    and "i \<in> set is \<or> order_at s day lookback i"
  shows "order_at s' day lookback i"
  using assms
proof (induction "is" arbitrary: r s)
  case Nil
  then show ?case by (simp add: sret_app)
next
  case (Cons j "is")
  from Cons.prems(3) have "sbind (execute_one m day lookback j r) (sfold (execute_one m day lookback) is) s = (Inr r', s')"
    by simp
  then obtain r1 s1 where x: "execute_one m day lookback j r s = (Inr r1, s1)"
    and y: "sfold (execute_one m day lookback) is r1 s1 = (Inr r', s')"
    by (rule sbind_InrE)
  have s1: "(match_step m day lookback)\<^sup>*\<^sup>* s s1" "broker_ok s1"
    using execute_one_run [of m day lookback j r] x Cons.prems(1,2)
    by (force simp: match_run_def dest: followsD)+
  have "i \<in> set is \<or> order_at s1 day lookback i"
    using Cons.prems(4) execute_one_settles [OF Cons.prems(1,2) x] steps_settled [OF s1(1)] by auto
  then show ?case by (rule Cons.IH [OF s1(2) Cons.prems(2) y])
qed

lemma run_skips:
  assumes "orders_ok (sn_orders s)"
    and "\<forall>i \<in> set is. i \<in> vo_id ` set (sn_orders s) \<and> order_at s day lookback i"
  shows "\<exists>r'. sfold (execute_one m day lookback) is r s = (Inr r', s) \<and>
    er_filled r' = er_filled r \<and> er_rejected r' = er_rejected r"
  using assms(2)
proof (induction "is" arbitrary: r)
  case Nil
  then show ?case by (simp add: sret_app)
next
  case (Cons i "is")
  then obtain o' where o': "o' \<in> set (sn_orders s)" "vo_id o' = i" by auto
  then have g: "t_get vo_id i (sn_orders s) = Some o'" using t_get_order [OF assms(1)] by blast
  have "settled s day lookback o'" using Cons.prems o' by (auto simp: order_at_def)
  note e = execute_one_settled [OF assms(1) g this]
  have "er_filled (skip_result s day lookback o' r) = er_filled r"
    "er_rejected (skip_result s day lookback o' r) = er_rejected r"
    by (simp_all add: skip_result_def)
  moreover obtain r' where "sfold (execute_one m day lookback) is (skip_result s day lookback o' r) s = (Inr r', s)"
    "er_filled r' = er_filled (skip_result s day lookback o' r)"
    "er_rejected r' = er_rejected (skip_result s day lookback o' r)"
    using Cons by auto
  ultimately show ?case by (auto simp: sbind_app e)
qed

text \<open>The candidates of a run over all accounts are the pending orders, first in first out.\<close>

lemma pending_global:
  "\<exists>is. pending_candidates None s = (Inr is, s) \<and> set is = vo_id ` {o' \<in> set (sn_orders s). is_pending o'} \<and>
     length is = length (filter is_pending (sn_orders s))"
proof -
  have "length (filter (\<lambda>x. vo_status x = ''CREATED'') os) + length (filter (\<lambda>x. vo_status x = ''SUBMITTED'') os) =
    length (filter is_pending os)" for os
    by (induction os) (auto simp: is_pending_def)
  then show ?thesis
    by (auto simp: pending_candidates_def list_pending_global_def monad_simps is_pending_def)
qed

text \<open>Which errors can leave the loop.\<close>

lemma order_book_shortage:
  assumes "order_ok o'" and "0 < price" and "vo_account_id o' \<in> va_id ` set (sn_accounts s)"
    and "order_book m s o' price = Inl e"
  shows "shortage e \<noteq> None"
proof -
  have "t_get va_id (vo_account_id o') (sn_accounts s) \<noteq> None"
    using assms(3) by (auto simp: t_get_None)
  then show ?thesis
    using assms(1,2,4)
    by (auto simp: order_book_def book_fill_def order_ok_def book_of_def book_cash_def Let_def
        insufficient_cash_def insufficient_position_def shortage_def split: if_splits option.splits)
qed

lemma day_bar_in: "day_bar s y day lookback = Some b \<Longrightarrow> b \<in> set (sn_prices s)"
  by (auto simp: day_bar_def find_Some_iff dest: latest_by_in split: if_splits)

lemma execute_one_returns:
  assumes ok: "broker_ok s" and m: "rates_ok m" and i: "i \<in> vo_id ` set (sn_orders s)"
    and pos: "\<forall>p \<in> set (sn_prices s). 0 < dp_close p"
  shows "\<exists>r' s'. execute_one m day lookback i r s = (Inr r', s') \<and> sn_prices s' = sn_prices s \<and>
    vo_id ` set (sn_orders s') = vo_id ` set (sn_orders s) \<and> broker_ok s'"
proof -
  have ook: "orders_ok (sn_orders s)" and lok: "ledger_ok s" using ok by (simp_all add: broker_ok_def)
  obtain o' where o': "o' \<in> set (sn_orders s)" "t_get vo_id i (sn_orders s) = Some o'"
    using i t_get_order [OF ook] by blast
  note of = order_facts [OF ook o'(2)]
  have home: "vo_account_id o' \<in> va_id ` set (sn_accounts s)"
    using ok o'(1) by (auto simp: broker_ok_def)
  obtain x s' where x: "execute_one m day lookback i r s = (x, s')" by fastforce
  from execute_one_step [OF ok m x] have "s' = s \<or> match_step m day lookback s s'" .
  then have keep: "sn_prices s' = sn_prices s" "vo_id ` set (sn_orders s') = vo_id ` set (sn_orders s)" "broker_ok s'"
    using match_step_prices [of m day lookback s s'] match_step_ids [of m day lookback s s']
      match_step_ok [of m day lookback s s'] ok by auto
  have "\<exists>r'. x = Inr r'"
  proof (cases "settled s day lookback o'")
    case True
    with x execute_one_settled [OF ook o'(2), of day lookback m r] show ?thesis by auto
  next
    case False
    from execute_one_unsettled [OF ook o'(2) this, of m r]
    obtain b where "is_pending o'" and b: "day_bar s (vo_symbol o') day lookback = Some b"
      and "crosses o' (dp_close b)" and e: "execute_one m day lookback i r s = settle_order m o' (dp_close b) r s" .
    have p: "0 < dp_close b" using day_bar_in [OF b] pos by blast
    show ?thesis
    proof (cases "order_book m s o' (dp_close b)")
      case (Inl err)
      with order_book_shortage [OF _ p home Inl] of have "shortage err \<noteq> None" by blast
      with settle_order_Inl [OF lok m Inl, of r] e x show ?thesis by auto
    next
      case (Inr k)
      from e x have "settle_order m o' (dp_close b) r s = (x, s')" by simp
      from settle_order_fill [OF lok m Inr this] show ?thesis by blast
    qed
  qed
  with x keep show ?thesis by auto
qed

lemma run_returns:
  assumes "broker_ok s" "rates_ok m" "set is \<subseteq> vo_id ` set (sn_orders s)"
    and "\<forall>p \<in> set (sn_prices s). 0 < dp_close p"
  shows "\<exists>r' s'. sfold (execute_one m day lookback) is r s = (Inr r', s')"
  using assms
proof (induction "is" arbitrary: r s)
  case Nil
  show ?case by (simp add: sret_app)
next
  case (Cons i "is")
  then obtain r1 s1 where "execute_one m day lookback i r s = (Inr r1, s1)" "sn_prices s1 = sn_prices s"
    "vo_id ` set (sn_orders s1) = vo_id ` set (sn_orders s)" "broker_ok s1"
    using execute_one_returns [OF Cons.prems(1,2), of i day lookback r] by auto
  with Cons.prems Cons.IH [of s1 r1] show ?case by (simp add: sbind_app)
qed

lemma pending_candidates_in:
  "\<exists>is. pending_candidates a s = (Inr is, s) \<and> set is \<subseteq> vo_id ` set (sn_orders s)"
proof (cases a)
  case None
  with pending_global [of s] show ?thesis by auto
next
  case (Some x)
  then show ?thesis
    by (auto simp: pending_candidates_def vorder_list_by_account_def monad_simps dest!: in_set_takeD)
qed

subsection \<open>Properties\<close>


definition demo_order :: virtual_order where
  "demo_order = \<lparr>vo_id = 1, vo_account_id = 1, vo_symbol = ''005930'', vo_side = ''BUY'',
     vo_quantity = 10, vo_order_type = ''LIMIT'', vo_limit_price = Some 71000, vo_status = ''CREATED'',
     vo_idempotency_key = Some ''k1'', vo_reason = None, vo_note = None, vo_updated_at = 0\<rparr>"

definition demo_bar :: "string \<Rightarrow> int \<Rightarrow> decimal \<Rightarrow> daily_price" where
  "demo_bar y day c = \<lparr>dp_symbol = y, dp_date = day, dp_open = c, dp_high = c, dp_low = c, dp_close = c,
     dp_volume = 1000, dp_trading_value = None, dp_adjusted_close = None\<rparr>"

lemma demo_bar_sel [simp]:
  "dp_symbol (demo_bar y day c) = y" "dp_date (demo_bar y day c) = day" "dp_close (demo_bar y day c) = c"
  by (simp_all add: demo_bar_def)

definition demo_broker :: session where
  "demo_broker = demo_ledger\<lparr>sn_orders := [demo_order],
     sn_prices := [demo_bar ''005930'' 20000 70000]\<rparr>"

lemma demo_broker_ok: "broker_ok demo_broker"
  by (auto simp: broker_ok_def demo_broker_def demo_order_def demo_ledger_def demo_account_def
      empty_session_def ledger_ok_def accounts_ok_def positions_ok_def fills_ok_def orders_ok_def
      order_ok_def vo_valid_statuses_def fills_match_def order_fills_def replayed_def replay_cash_def
      replay_holding_def book_holding_def row_holding_def find_position_def)

lemma demo_sel: "vo_id demo_order = 1" "vo_account_id demo_order = 1" "sn_fills demo_broker = []"
  "er_filled empty_exec_result = []"
  by (simp_all add: demo_order_def demo_broker_def demo_ledger_def empty_session_def empty_exec_result_def)

lemma demo_execute:
  "\<exists>cash ps. execute_pending_orders default_paper_costs 20000 None 0 demo_broker =
     (Inr (empty_exec_result\<lparr>er_filled := [(1, 1)]\<rparr>),
      set_status 1 ''FILLED'' None (filled demo_broker 1 cash ps (order_fill default_paper_costs demo_broker demo_order 70000)))"
proof -
  have p: "pending_candidates None demo_broker = (Inr [1], demo_broker)"
    by (simp add: pending_candidates_def list_pending_global_def monad_simps demo_broker_def
        demo_order_def demo_ledger_def empty_session_def)
  have g: "t_get vo_id 1 (sn_orders demo_broker) = Some demo_order"
    by (simp add: demo_broker_def demo_order_def t_get_def)
  have ook: "orders_ok (sn_orders demo_broker)" and lok: "ledger_ok demo_broker"
    using demo_broker_ok by (simp_all add: broker_ok_def)
  have "\<not> settled demo_broker 20000 0 demo_order"
    by (simp add: settled_def day_bar_def demo_broker_def demo_order_def is_pending_def crosses_def)
  from execute_one_unsettled [OF ook g this, of default_paper_costs empty_exec_result]
  obtain b where b: "day_bar demo_broker (vo_symbol demo_order) 20000 0 = Some b"
    "execute_one default_paper_costs 20000 0 1 empty_exec_result demo_broker =
      settle_order default_paper_costs demo_order (dp_close b) empty_exec_result demo_broker" .
  from b(1) have c: "dp_close b = 70000"
    by (auto simp: day_bar_def demo_broker_def demo_order_def)
  have "\<exists>k. order_book default_paper_costs demo_broker demo_order 70000 = Inr k"
    by (simp add: order_book_def book_fill_def book_of_def book_cash_def demo_broker_def demo_order_def
        demo_ledger_def demo_account_def empty_session_def t_get_def fill_costs_for_def buy_costs_def
        default_paper_costs_def dec_eval)
  then obtain k where "order_book default_paper_costs demo_broker demo_order 70000 = Inr k" ..
  note settle = settle_order_Inr [OF lok default_rates_ok this, of empty_exec_result]
  obtain cash ps where "settle_order default_paper_costs demo_order 70000 empty_exec_result demo_broker =
      (Inr (empty_exec_result\<lparr>er_filled := [(1, 1)]\<rparr>), set_status 1 ''FILLED'' None
        (filled demo_broker 1 cash ps (order_fill default_paper_costs demo_broker demo_order 70000)))"
    by (rule settle) (simp add: demo_sel)
  with b(2) c show ?thesis
    by (auto simp: execute_pending_orders_def sbind_app p sret_app)
qed


text \<open>
  C3. Matching is faithful to its transition relation and to its report. Starting from a
  consistent state, whatever \<open>execute_pending_orders\<close> does is a sequence of the steps
  "reject a pending order whose price crosses but whose account lacks the cash or the shares"
  and "fill a pending order at the day's close when it crosses": no other order is ever
  touched. When it returns, every reported fill and rejection is in the tables and the
  counters add up to the number of pending orders.
\<close>

theorem execute_pending_refines_matching:
  assumes "broker_ok s" and "rates_ok m"
    and "execute_pending_orders m day None lookback s = (x, s')"
  shows "(match_step m day lookback)\<^sup>*\<^sup>* s s' \<and>
    (case x of Inl e \<Rightarrow> True
     | Inr r \<Rightarrow> report_ok s' r \<and> report_size r = length (filter is_pending (sn_orders s)))"
proof
  show "(match_step m day lookback)\<^sup>*\<^sup>* s s'"
    using followsD [OF execute_run assms(3)] assms(1,2) by (simp add: match_run_def)
  obtain "is" where p: "pending_candidates None s = (Inr is, s)"
      "length is = length (filter is_pending (sn_orders s))"
    using pending_global [of s] by blast
  have "report_ok s empty_exec_result" "report_size empty_exec_result = 0"
    by (simp_all add: report_ok_def report_size_def empty_exec_result_def)
  with run_report [OF assms(1,2)] assms(3) p
  show "case x of Inl e \<Rightarrow> True
     | Inr r \<Rightarrow> report_ok s' r \<and> report_size r = length (filter is_pending (sn_orders s))"
    by (fastforce simp: execute_pending_orders_def sbind_app split: sum.split)
qed

theorem execute_pending_refines_matching_witness:
  "\<exists>r s'. execute_pending_orders default_paper_costs 20000 None 0 demo_broker = (Inr r, s') \<and>
     er_filled r = [(1, 1)] \<and> (match_step default_paper_costs 20000 0)\<^sup>*\<^sup>* demo_broker s' \<and> report_size r = 1"
proof -
  obtain s' where e: "execute_pending_orders default_paper_costs 20000 None 0 demo_broker =
     (Inr (empty_exec_result\<lparr>er_filled := [(1, 1)]\<rparr>), s')"
    using demo_execute by blast
  have "filter is_pending (sn_orders demo_broker) = [demo_order]"
    by (simp add: demo_broker_def demo_order_def is_pending_def)
  with execute_pending_refines_matching [OF demo_broker_ok default_rates_ok e] e
  show ?thesis by auto
qed

text \<open>
  C4. Matching never executes an order twice: when a run over all accounts has returned,
  running it again on the same day changes nothing at all and reports no fill and no
  rejection, because every pending order that is left has no price or has its limit unmet.
\<close>

theorem execute_pending_idempotent:
  assumes "broker_ok s" and "rates_ok m"
    and "execute_pending_orders m day None lookback s = (Inr r, s')"
  shows "\<exists>r'. execute_pending_orders m day None lookback s' = (Inr r', s') \<and>
    er_filled r' = [] \<and> er_rejected r' = []"
proof -
  obtain "is" where p: "pending_candidates None s = (Inr is, s)"
      "set is = vo_id ` {o' \<in> set (sn_orders s). is_pending o'}"
    using pending_global [of s] by blast
  have run: "sfold (execute_one m day lookback) is empty_exec_result s = (Inr r, s')"
    using assms(3) p(1) by (simp add: execute_pending_orders_def sbind_app)
  have steps: "(match_step m day lookback)\<^sup>*\<^sup>* s s'" and ok': "broker_ok s'"
    using followsD [OF execute_run assms(3)] assms(1,2) by (simp_all add: match_run_def)
  have "order_at s day lookback i" if "i \<notin> set is" for i
    using that p(2) by (auto simp: order_at_def settled_def)
  then have all: "order_at s' day lookback i" for i
    using run_settles [OF assms(1,2) run] by blast
  obtain js where q: "pending_candidates None s' = (Inr js, s')"
      "set js = vo_id ` {o' \<in> set (sn_orders s'). is_pending o'}"
    using pending_global [of s'] by blast
  have "orders_ok (sn_orders s')" using ok' by (simp add: broker_ok_def)
  from run_skips [OF this, of js day lookback m empty_exec_result] all q(2)
  show ?thesis
    using q(1) by (auto simp: execute_pending_orders_def sbind_app empty_exec_result_def)
qed

theorem execute_pending_idempotent_witness:
  "\<exists>s' r'. execute_pending_orders default_paper_costs 20000 None 0 demo_broker =
     (Inr (empty_exec_result\<lparr>er_filled := [(1, 1)]\<rparr>), s') \<and>
   execute_pending_orders default_paper_costs 20000 None 0 s' = (Inr r', s') \<and> er_filled r' = []"
proof -
  obtain s' where e: "execute_pending_orders default_paper_costs 20000 None 0 demo_broker =
     (Inr (empty_exec_result\<lparr>er_filled := [(1, 1)]\<rparr>), s')"
    using demo_execute by blast
  with execute_pending_idempotent [OF demo_broker_ok default_rates_ok e] show ?thesis by blast
qed

text \<open>
  Matching returns for every consistent state whose prices are positive, for one account
  or for all: lack of cash or shares becomes a rejection, and no exception leaves the loop.
\<close>

lemma execute_pending_returns:
  assumes "broker_ok s" and "rates_ok m" and "\<forall>p \<in> set (sn_prices s). 0 < dp_close p"
  shows "\<exists>r s'. execute_pending_orders m day acc lookback s = (Inr r, s')"
  using pending_candidates_in [of acc s] run_returns [OF assms(1,2) _ assms(3)]
  by (fastforce simp: execute_pending_orders_def sbind_app)

lemma execute_pending_returns_witness:
  "\<exists>r s'. execute_pending_orders default_paper_costs 20000 (Some 1) 5 demo_broker = (Inr r, s')"
  by (rule execute_pending_returns [OF demo_broker_ok default_rates_ok]) (simp add: demo_broker_def)

text \<open>
  The method's own text says it never raises; a stored close of zero or less makes it
  raise \<open>ValueError\<close> out of the loop and abandon the orders that follow.
\<close>

definition zero_price_broker :: session where
  "zero_price_broker = demo_ledger\<lparr>sn_orders := [demo_order],
     sn_prices := [demo_bar ''005930'' 20000 0]\<rparr>"

lemma execute_pending_can_raise:
  "execute_pending_orders default_paper_costs 20000 None 0 zero_price_broker =
     (Inl (ValueError [T ''fill_price must be > 0'']), zero_price_broker)"
proof -
  have "pending_candidates None zero_price_broker = (Inr [1], zero_price_broker)"
    by (simp add: pending_candidates_def list_pending_global_def monad_simps zero_price_broker_def
        demo_order_def demo_ledger_def empty_session_def)
  moreover have "row_of sn_orders vo_id 1 zero_price_broker = (Inr demo_order, zero_price_broker)"
    by (simp add: row_of_app t_get_def zero_price_broker_def demo_order_def)
  moreover have "lookup_close_price (vo_symbol demo_order) 20000 0 zero_price_broker =
      (Inr (Some (demo_bar ''005930'' 20000 0)), zero_price_broker)"
    by (simp add: lookup_app day_bar_def zero_price_broker_def demo_order_def)
  ultimately show ?thesis
    by (simp add: execute_pending_orders_def execute_one_def sbind_app limit_unmet_def sret_app
        settle_order_def stry_app apply_fill_def srequire_app sthrow_app shortage_def
        demo_order_def vo_terminal_statuses_def)
qed

text \<open>
  C5. Submitting an order is gated and idempotent. It raises, and writes nothing, exactly
  when the global switch, the account's switch or a validation refuses the request; otherwise
  it appends exactly one \<open>CREATED\<close> order with the requested fields, or, when the account
  already has an order with the idempotency key, returns that order and writes nothing; and
  repeating an accepted request with a key returns the same order and changes nothing.
\<close>

theorem submit_order_gated_idempotent:
  assumes "broker_ok s" and "submit_order cfg a y side qa ot lp key memo s = (x, s')"
  shows "case x of
      Inl e \<Rightarrow> \<not> submit_accepts cfg s a y side qa ot lp \<and> s' = s
    | Inr r \<Rightarrow> submit_accepts cfg s a y side qa ot lp \<and>
        (if sr_deduplicated r then s' = s \<and>
           (\<exists>o' \<in> set (sn_orders s). vo_id o' = sr_order r \<and> order_key o' = (a, key) \<and> key \<noteq> None)
         else \<exists>o'. s' = s\<lparr>sn_orders := sn_orders s @ [o']\<rparr> \<and> vo_id o' = sr_order r \<and>
           vo_account_id o' = a \<and> vo_symbol o' = y \<and> vo_side o' = side \<and> qa = PyInt (vo_quantity o') \<and>
           vo_order_type o' = ot \<and> submit_limit ot lp = Some (vo_limit_price o') \<and>
           vo_status o' = ''CREATED'' \<and> vo_idempotency_key o' = key) \<and>
        (key \<noteq> None \<longrightarrow> submit_order cfg a y side qa ot lp key memo s' =
           (Inr \<lparr>sr_order = sr_order r, sr_deduplicated = True\<rparr>, s'))"
proof (cases "submit_accepts cfg s a y side qa ot lp")
  case False
  with submit_order_refused [OF this, of key memo] assms(2) show ?thesis by auto
next
  case acc: True
  have ook: "orders_ok (sn_orders s)" using assms(1) by (simp add: broker_ok_def)
  have ook': "orders_ok (sn_orders s')"
    using submit_order_ok [OF assms] by (simp add: broker_ok_def)
  define ks where "ks = (case key of None \<Rightarrow> [] | Some k \<Rightarrow> key_holders s a k)"
  from submit_order_accepted [OF acc ook, of key memo, folded ks_def]
  obtain q l where ql: "qa = PyInt q" "submit_limit ot lp = Some l"
    and r: "submit_order cfg a y side qa ot lp key memo s =
      (case ks of
         o' # _ \<Rightarrow> (Inr \<lparr>sr_order = vo_id o', sr_deduplicated = True\<rparr>, s)
       | [] \<Rightarrow> (Inr \<lparr>sr_order = t_next vo_id (sn_orders s), sr_deduplicated = False\<rparr>,
           s\<lparr>sn_orders := sn_orders s @
             [\<lparr>vo_id = t_next vo_id (sn_orders s), vo_account_id = a, vo_symbol = y, vo_side = side,
               vo_quantity = q, vo_order_type = ot, vo_limit_price = l, vo_status = ''CREATED'',
               vo_idempotency_key = key, vo_reason = None, vo_note = memo, vo_updated_at = sn_now s\<rparr>]\<rparr>))"
    by metis
  show ?thesis
  proof (cases ks)
    case (Cons o' os)
    then obtain k where k: "key = Some k" "key_holders s a k = o' # os"
      by (auto simp: ks_def split: option.splits)
    then have "o' \<in> set (key_holders s a k)" by simp
    then have "o' \<in> set (sn_orders s)" "order_key o' = (a, key)"
      using k(1) by (simp_all add: key_holders_def order_key_def)
    with r assms(2) acc Cons k(1) show ?thesis by auto
  next
    case Nil
    define n where "n = \<lparr>vo_id = t_next vo_id (sn_orders s), vo_account_id = a, vo_symbol = y, vo_side = side,
               vo_quantity = q, vo_order_type = ot, vo_limit_price = l, vo_status = ''CREATED'',
               vo_idempotency_key = key, vo_reason = None, vo_note = memo, vo_updated_at = sn_now s\<rparr>"
    from r assms(2) Nil have x: "x = Inr \<lparr>sr_order = vo_id n, sr_deduplicated = False\<rparr>"
      and s': "s' = s\<lparr>sn_orders := sn_orders s @ [n]\<rparr>"
      by (simp_all add: n_def)
    have "submit_order cfg a y side qa ot lp key memo s' = (Inr \<lparr>sr_order = vo_id n, sr_deduplicated = True\<rparr>, s')"
      if k: "key = Some k" for k
    proof -
      have "key_holders s' a k = [n]"
        using Nil k by (simp add: ks_def key_holders_def s' n_def)
      moreover have "submit_accepts cfg s' a y side qa ot lp"
        using acc by (simp add: submit_accepts_def s')
      ultimately show ?thesis
        by (rule_tac submit_order_accepted [OF _ ook', of cfg a y side qa ot lp key memo]) (auto simp: k)
    qed
    then show ?thesis
      unfolding x using acc ql by (auto simp: s' n_def)
  qed
qed

theorem submit_order_gated_idempotent_witness:
  "\<exists>cfg r s'. submit_order cfg 1 ''005930'' ''BUY'' (PyInt 3) ''MARKET'' None (Some ''k2'') None demo_broker = (Inr r, s') \<and>
     submit_order cfg 1 ''005930'' ''BUY'' (PyInt 3) ''MARKET'' None (Some ''k2'') None s' =
       (Inr \<lparr>sr_order = sr_order r, sr_deduplicated = True\<rparr>, s')"
proof -
  obtain cfg :: settings where "cfg_paper_trading_enabled cfg" by (meson settings.select_convs(1))
  then have acc: "submit_accepts cfg demo_broker 1 ''005930'' ''BUY'' (PyInt 3) ''MARKET'' None"
    by (simp add: submit_accepts_def demo_broker_def demo_ledger_def demo_account_def t_get_def
        submit_limit_def py_strip_def is_space_def)
  obtain x s' where x: "submit_order cfg 1 ''005930'' ''BUY'' (PyInt 3) ''MARKET'' None (Some ''k2'') None demo_broker = (x, s')"
    by fastforce
  with submit_order_gated_idempotent [OF demo_broker_ok x] acc show ?thesis
    by (cases x) auto
qed

end
