(* ===== verification/Approval_Facts.thy ===== *)
theory Approval_Facts
  imports Approval Broker_Facts
begin

text \<open>
  What the approval workflow guarantees: how any of its operations may change the session
  (\<open>approval_step\<close>: candidates only move forward in their state machine and keep their
  request, the audit log only grows, paper trading stays consistent, nothing else is
  touched), that the audit log determines every candidate's status (\<open>trail_ok\<close>), and that
  the active exposure on a symbol stays within its cap (\<open>exposure_ok\<close>).
\<close>

subsection \<open>Frame\<close>

text \<open>No two candidates share a key.\<close>

definition keys_ok :: "session \<Rightarrow> bool" where
  "keys_ok s \<longleftrightarrow> distinct (map oc_id (sn_candidates s))"

text \<open>What no operation of the workflow writes.\<close>

definition same_rest :: "session \<Rightarrow> session \<Rightarrow> bool" where
  "same_rest s t \<longleftrightarrow> sn_accounts t = sn_accounts s \<and> sn_positions t = sn_positions s \<and>
     sn_fills t = sn_fills s \<and> sn_snapshots t = sn_snapshots s \<and> sn_prices t = sn_prices s \<and>
     sn_real_orders t = sn_real_orders s \<and> sn_real_fills t = sn_real_fills s \<and>
     sn_fake_counter t = sn_fake_counter s \<and> sn_now t = sn_now s"

definition approval_step :: "session \<Rightarrow> session \<Rightarrow> bool" where
  "approval_step s t \<longleftrightarrow> (keys_ok s \<longrightarrow> keys_ok t \<and> cands_evolve s t) \<and> audits_grow s t \<and>
     (broker_ok s \<longrightarrow> broker_ok t) \<and> (\<exists>new. sn_orders t = sn_orders s @ new) \<and> same_rest s t"

interpretation ap: db_relation approval_step
proof
  show "approval_step s s" for s
    by (simp add: approval_step_def same_rest_def ce.R_refl ag.R_refl)
next
  fix s t u
  assume "approval_step s t" "approval_step t u"
  then show "approval_step s u"
    unfolding approval_step_def same_rest_def by (auto intro: ce.R_trans ag.R_trans)
qed

lemma broker_ok_cong:
  assumes "sn_accounts t = sn_accounts s" "sn_orders t = sn_orders s" "sn_positions t = sn_positions s"
    "sn_fills t = sn_fills s"
  shows "broker_ok t = broker_ok s"
  using assms ledger_ok_cong [of t s] replayed_cong [of t s] by (simp add: broker_ok_def)

lemma step_candidates:
  assumes "keys_ok s \<Longrightarrow> keys_ok (s\<lparr>sn_candidates := cs\<rparr>) \<and> cands_evolve s (s\<lparr>sn_candidates := cs\<rparr>)"
  shows "approval_step s (s\<lparr>sn_candidates := cs\<rparr>)"
  using assms broker_ok_cong [of "s\<lparr>sn_candidates := cs\<rparr>" s]
  by (simp add: approval_step_def audits_grow_same same_rest_def)

lemma step_audits: "approval_step s (s\<lparr>sn_audits := sn_audits s @ new\<rparr>)"
  using broker_ok_cong [of "s\<lparr>sn_audits := sn_audits s @ new\<rparr>" s]
  by (simp add: approval_step_def evolve_same audits_grow_def same_rest_def keys_ok_def)

lemma ap_evaluate: "follows approval_step (evaluate cfg c now)"
proof (rule followsI)
  fix s
  from evaluate_app [of cfg c now s] show "approval_step s (snd (evaluate cfg c now s))"
    by (auto simp: ap.R_refl)
qed

lemma ap_audit: "follows approval_step (audit_as ac i e r d)"
proof (rule followsI)
  fix s
  show "approval_step s (snd (audit_as ac i e r d s))"
  proof (cases "e \<in> set valid_event_types \<and> clean_details d \<and> \<not> hash_too_long (ac_ip_hash ac) \<and>
      \<not> hash_too_long (ac_user_agent_hash ac)")
    case True
    then show ?thesis by (simp add: audit_as_def audit_append_app step_audits)
  next
    case False
    from audit_append_refused [OF this, of i "ac_user_id ac" r s] show ?thesis
      by (auto simp: audit_as_def ap.R_refl)
  qed
qed

text \<open>The status change of a candidate, as an update of its row.\<close>

definition advance :: "int \<Rightarrow> string \<Rightarrow> text_t option \<Rightarrow> int option \<Rightarrow> order_candidate \<Rightarrow> order_candidate" where
  "advance now st reason user c = c\<lparr>oc_status := st,
     oc_rejection_reason := (case reason of None \<Rightarrow> oc_rejection_reason c | Some r \<Rightarrow> Some r),
     oc_approver_user_id := (case user of None \<Rightarrow> oc_approver_user_id c | Some u \<Rightarrow> Some u),
     oc_updated_at := now\<rparr>"

definition set_cand :: "int \<Rightarrow> (order_candidate \<Rightarrow> order_candidate) \<Rightarrow> session \<Rightarrow> session" where
  "set_cand i f s = s\<lparr>sn_candidates := t_upd oc_id i f (sn_candidates s)\<rparr>"

lemma set_cand_sel [simp]:
  "sn_candidates (set_cand i f s) = t_upd oc_id i f (sn_candidates s)"
  "sn_accounts (set_cand i f s) = sn_accounts s" "sn_orders (set_cand i f s) = sn_orders s"
  "sn_positions (set_cand i f s) = sn_positions s" "sn_fills (set_cand i f s) = sn_fills s"
  "sn_audits (set_cand i f s) = sn_audits s" "sn_now (set_cand i f s) = sn_now s"
  "sn_snapshots (set_cand i f s) = sn_snapshots s" "sn_prices (set_cand i f s) = sn_prices s"
  by (simp_all add: set_cand_def)

lemma advance_keys [simp]:
  "oc_id (advance now st r u c) = oc_id c" "oc_status (advance now st r u c) = st"
  "oc_account_id (advance now st r u c) = oc_account_id c" "oc_symbol (advance now st r u c) = oc_symbol c"
  "oc_side (advance now st r u c) = oc_side c" "oc_quantity (advance now st r u c) = oc_quantity c"
  "oc_order_type (advance now st r u c) = oc_order_type c" "oc_limit_price (advance now st r u c) = oc_limit_price c"
  "oc_estimated_amount (advance now st r u c) = oc_estimated_amount c"
  "oc_created_at (advance now st r u c) = oc_created_at c" "oc_expires_at (advance now st r u c) = oc_expires_at c"
  "oc_virtual_order_id (advance now st r u c) = oc_virtual_order_id c"
  "oc_source (advance now st r u c) = oc_source c" "oc_source_ref_id (advance now st r u c) = oc_source_ref_id c"
  by (simp_all add: advance_def)

lemma update_status_cases:
  "candidate_update_status i st r u s =
     (if st \<notin> set oc_valid_statuses then (Inl (OrderCandidateValidationError
         [T (''status must be one of '' @ py_list_repr oc_valid_statuses @ got st)]), s)
      else case t_get oc_id i (sn_candidates s) of
        None \<Rightarrow> (Inl DetachedRow, s)
      | Some c \<Rightarrow> if st \<in> set (allowed_transitions (oc_status c))
          then (Inr (), set_cand i (advance (sn_now s) st r u) s)
          else (Inl (InvalidOrderCandidateTransition
            [T (''cannot transition OrderCandidate id='' @ str_of_int i @ '' from '' @
              py_repr (oc_status c) @ '' to '' @ py_repr st @ ''; allowed next: '' @
              py_list_repr (allowed_transitions (oc_status c)))]), s))"
  by (simp add: candidate_update_status_def monad_simps Let_def upd_candidate_def set_cand_def
      advance_def [abs_def] split: option.split)

lemma evolves_advance:
  "st \<in> set (allowed_transitions (oc_status c)) \<Longrightarrow> evolves c (advance now st r u c)"
  by (auto simp: evolves_def same_request_def status_path_def advance_def)

lemma cand_unique:
  "keys_ok s \<Longrightarrow> t_get oc_id i (sn_candidates s) = Some c \<Longrightarrow> d \<in> set (sn_candidates s) \<Longrightarrow> oc_id d = i \<Longrightarrow> d = c"
  using t_get_Some [of oc_id i "sn_candidates s" c]
  by (auto simp: keys_ok_def distinct_map dest: inj_onD)

lemma step_set_cand:
  assumes "\<And>c. t_get oc_id i (sn_candidates s) = Some c \<Longrightarrow> evolves c (f c)"
    and key: "\<And>c. oc_id (f c) = oc_id c"
  shows "approval_step s (set_cand i f s)"
  unfolding set_cand_def
proof (rule step_candidates)
  assume k: "keys_ok s"
  then have "keys_ok (s\<lparr>sn_candidates := t_upd oc_id i f (sn_candidates s)\<rparr>)"
    by (simp add: keys_ok_def t_upd_keys key)
  moreover have "cands_evolve s (s\<lparr>sn_candidates := t_upd oc_id i f (sn_candidates s)\<rparr>)"
  proof (rule evolve_upd)
    fix c assume c: "c \<in> set (sn_candidates s)" "oc_id c = i"
    then have "t_get oc_id i (sn_candidates s) = Some c"
      using k by (auto simp: keys_ok_def intro: t_get_distinct)
    then show "evolves c (f c)" by (rule assms(1))
  qed
  ultimately show "keys_ok (s\<lparr>sn_candidates := t_upd oc_id i f (sn_candidates s)\<rparr>) \<and>
    cands_evolve s (s\<lparr>sn_candidates := t_upd oc_id i f (sn_candidates s)\<rparr>)" by simp
qed

lemma ap_update_status: "follows approval_step (candidate_update_status i st r u)"
  by (rule followsI)
    (auto simp: update_status_cases ap.R_refl split: option.split intro!: step_set_cand evolves_advance)

lemma ap_attach_risk: "follows approval_step (attach_risk_result i r)"
  using step_set_cand [of i _ "\<lambda>c. c\<lparr>oc_risk_check_result := Some r, oc_updated_at := sn_now _\<rparr>"]
  by (auto simp: follows_def attach_risk_result_def monad_simps upd_candidate_def set_cand_def evolves_def
      same_request_def status_path_def)

lemma attach_order_cases:
  "attach_virtual_order i v s = (case t_get oc_id i (sn_candidates s) of
      None \<Rightarrow> (Inl DetachedRow, s)
    | Some c \<Rightarrow> (case oc_virtual_order_id c of
          Some w \<Rightarrow> if w \<noteq> v then (Inl (InvalidOrderCandidateTransition
             [T (''OrderCandidate id='' @ str_of_int i @ '' already linked to virtual_order_id='' @
               str_of_int w @ ''; refusing to overwrite with '' @ str_of_int v)]), s)
             else (Inr (), set_cand i (\<lambda>c. c\<lparr>oc_virtual_order_id := Some v, oc_updated_at := sn_now s\<rparr>) s)
        | None \<Rightarrow> (Inr (), set_cand i (\<lambda>c. c\<lparr>oc_virtual_order_id := Some v, oc_updated_at := sn_now s\<rparr>) s)))"
  by (simp add: attach_virtual_order_def monad_simps upd_candidate_def set_cand_def split: option.split)

lemma ap_attach_order: "follows approval_step (attach_virtual_order i v)"
  by (rule followsI)
    (auto simp: attach_order_cases ap.R_refl evolves_def same_request_def status_path_def
      split: option.split intro!: step_set_cand)

text \<open>\<open>submit_order\<close> writes at most one order at the end of its table.\<close>

definition orders_grow :: "session \<Rightarrow> session \<Rightarrow> bool" where
  "orders_grow s t \<longleftrightarrow> (\<exists>new. t = s\<lparr>sn_orders := sn_orders s @ new\<rparr>)"

interpretation og: db_relation orders_grow
proof
  show "orders_grow s s" for s
    by (auto simp: orders_grow_def intro: exI [of _ "[]"])
  show "orders_grow s t \<Longrightarrow> orders_grow t u \<Longrightarrow> orders_grow s u" for s t u
    by (auto simp: orders_grow_def)
qed

lemma og_create: "follows orders_grow (vorder_create a y side q ot lp key r memo st)"
  unfolding vorder_create_def by (intro og.R_db og.R_modify) (auto simp: orders_grow_def)

lemma og_submit: "follows orders_grow (submit_order cfg a y side q ot lp key memo)"
  unfolding submit_order_def account_get_by_id_def normalize_limit_def vorder_get_by_idempotency_key_def
  by (intro og.R_db og_create)

lemma ap_submit: "follows approval_step (submit_order cfg a y side q ot lp key memo)"
proof (rule followsI)
  fix s
  let ?t = "snd (submit_order cfg a y side q ot lp key memo s)"
  obtain new where t: "?t = s\<lparr>sn_orders := sn_orders s @ new\<rparr>"
    using og_submit [of cfg a y side q ot lp key memo] by (auto simp: follows_def orders_grow_def)
  have "broker_ok s \<Longrightarrow> broker_ok ?t"
    by (erule submit_order_ok) (rule surjective_pairing)
  with t show "approval_step s ?t"
    by (simp add: approval_step_def same_rest_def keys_ok_def evolve_same audits_grow_same)
qed

lemma ap_candidate_create: "follows approval_step (candidate_create a src y side q ot lp amt ref ex st)"
proof -
  have ext: "follows approval_step (sbind utc_now (\<lambda>now. sbind (sgets (\<lambda>s. t_next oc_id (sn_candidates s))) (\<lambda>i.
      sbind (smodify (\<lambda>s. s\<lparr>sn_candidates := sn_candidates s @ [row now i]\<rparr>)) (\<lambda>_. sret i))))"
    if "\<And>now i. oc_id (row now i) = i" for row :: "int \<Rightarrow> int \<Rightarrow> order_candidate"
  proof (rule followsI)
    fix s :: session
    let ?c = "row (sn_now s) (t_next oc_id (sn_candidates s))"
    have "keys_ok s \<Longrightarrow> keys_ok (s\<lparr>sn_candidates := sn_candidates s @ [?c]\<rparr>)"
      using t_next_gt [of _ "sn_candidates s" oc_id] by (fastforce simp: keys_ok_def that)
    moreover have "cands_evolve s (s\<lparr>sn_candidates := sn_candidates s @ [?c]\<rparr>)"
      unfolding cands_evolve_def
      by (intro exI [of _ "sn_candidates s"] exI [of _ "[?c]"]) (simp add: list.rel_refl)
    ultimately show "approval_step s (snd (sbind utc_now (\<lambda>now. sbind (sgets (\<lambda>s. t_next oc_id (sn_candidates s)))
        (\<lambda>i. sbind (smodify (\<lambda>s. s\<lparr>sn_candidates := sn_candidates s @ [row now i]\<rparr>)) (\<lambda>_. sret i))) s))"
      by (simp add: monad_simps step_candidates)
  qed
  show ?thesis
    unfolding candidate_create_def candidate_limit_def
    by (intro ap.R_intros ap.R_dec_of ap.R_int_arg ext order_candidate.select_convs(1))
qed

lemmas ap_rules = ap.R_db ap_evaluate ap_audit ap_update_status
  ap_attach_risk ap_attach_order ap_submit ap_candidate_create

lemma ap_create: "follows approval_step (create_candidate cfg a src y side q ot lp amt ref ttl ac now)"
  unfolding create_candidate_def assert_workflow_active_def Let_def by (intro ap_rules)

lemma ap_approve: "follows approval_step (approve cfg i ac now)"
  unfolding approve_def assert_workflow_active_def assert_kill_switch_off_def candidate_get_by_id_def
    deny_recheck_def forward_to_broker_def
  by (intro ap_rules)

lemma ap_reject: "follows approval_step (reject cfg i ac reason)"
  unfolding reject_def assert_workflow_active_def assert_kill_switch_off_def candidate_get_by_id_def
    candidate_reject_def
  by (intro ap_rules)

lemma ap_expire: "follows approval_step (expire i ac)"
  unfolding expire_def candidate_get_by_id_def candidate_expire_def by (intro ap_rules)

text \<open>
  C7. No operation of the approval workflow can move a candidate backwards or rewrite
  history, whether it returns or raises: creating, approving, rejecting and expiring leave
  every existing candidate with its request unchanged and its status on a path of the state
  machine (so a final status stays), never re-link its paper order, only append to the audit
  log and to the orders, keep the paper broker's invariant, and touch nothing else.
\<close>

theorem approval_only_moves_forward:
  "follows approval_step (create_candidate cfg a src y side q ot lp amt ref ttl ac now) \<and>
   follows approval_step (approve cfg i ac now) \<and>
   follows approval_step (reject cfg i ac reason) \<and>
   follows approval_step (expire i ac)"
  by (intro conjI ap_create ap_approve ap_reject ap_expire)

subsection \<open>The audit log determines the status\<close>

definition passed_in :: "(string \<times> json) list option \<Rightarrow> bool" where
  "passed_in d = (case d of None \<Rightarrow> False | Some x \<Rightarrow>
     (case map_of x ''passed'' of Some (JBool b) \<Rightarrow> b | _ \<Rightarrow> False))"

text \<open>One event of the log, read as a transition of the candidate's status.\<close>

definition event_status :: "string \<Rightarrow> (string \<times> json) list option \<Rightarrow> string \<Rightarrow> string" where
  "event_status event d st =
     (if event = ''CREATED'' then ''RISK_CHECKING''
      else if event = ''RISK_CHECKED'' then (if passed_in d then ''PENDING_APPROVAL'' else st)
      else if event = ''RISK_REJECTED'' then (if st = ''PENDING_APPROVAL'' then ''REJECTED'' else ''RISK_REJECTED'')
      else if event \<in> set [''APPROVED'', ''REJECTED'', ''EXPIRED'', ''EXECUTED_PAPER''] then event
      else st)"

definition replay_log :: "audit_log list \<Rightarrow> int \<Rightarrow> string" where
  "replay_log logs i = foldl (\<lambda>st l. event_status (al_event_type l) (al_details l) st) ''DRAFT''
     (filter (\<lambda>l. al_candidate_id l = i) logs)"

definition trail_ok :: "session \<Rightarrow> bool" where
  "trail_ok s \<longleftrightarrow> keys_ok s \<and>
     (\<forall>c \<in> set (sn_candidates s). replay_log (sn_audits s) (oc_id c) = oc_status c) \<and>
     (\<forall>l \<in> set (sn_audits s). al_candidate_id l \<in> oc_id ` set (sn_candidates s))"

text \<open>The same, except that candidate \<open>i\<close> has status \<open>st\<close> and its log says \<open>old\<close>.\<close>

definition trail_at :: "int \<Rightarrow> string \<Rightarrow> string \<Rightarrow> session \<Rightarrow> bool" where
  "trail_at i st old s \<longleftrightarrow> keys_ok s \<and>
     (\<exists>c. t_get oc_id i (sn_candidates s) = Some c \<and> oc_status c = st) \<and>
     replay_log (sn_audits s) i = old \<and>
     (\<forall>c \<in> set (sn_candidates s). oc_id c \<noteq> i \<longrightarrow> replay_log (sn_audits s) (oc_id c) = oc_status c) \<and>
     (\<forall>l \<in> set (sn_audits s). al_candidate_id l \<in> oc_id ` set (sn_candidates s))"

lemma trail_at_ok: "trail_at i st st s \<Longrightarrow> trail_ok s"
  unfolding trail_at_def trail_ok_def by (metis cand_unique)

lemma trail_ok_at:
  "trail_ok s \<Longrightarrow> t_get oc_id i (sn_candidates s) = Some c \<Longrightarrow> trail_at i (oc_status c) (oc_status c) s"
  unfolding trail_at_def trail_ok_def by (auto dest!: t_get_Some)

lemma trail_at_cong:
  "sn_candidates t = sn_candidates s \<Longrightarrow> sn_audits t = sn_audits s \<Longrightarrow> trail_at i st old t = trail_at i st old s"
  by (simp add: trail_at_def keys_ok_def)

definition actor_ok :: "actor \<Rightarrow> bool" where
  "actor_ok ac \<longleftrightarrow> \<not> hash_too_long (ac_ip_hash ac) \<and> \<not> hash_too_long (ac_user_agent_hash ac)"

lemma trail_at_set_cand:
  assumes "trail_at i st old s" and "\<And>c. oc_id (f c) = oc_id c"
    and "\<And>c. oc_status c = st \<Longrightarrow> oc_status (f c) = st'"
  shows "trail_at i st' old (set_cand i f s)"
proof -
  obtain c where c: "t_get oc_id i (sn_candidates s) = Some c" "oc_status c = st"
    using assms(1) by (auto simp: trail_at_def)
  then have "t_get oc_id i (sn_candidates (set_cand i f s)) = Some (f c)"
    by (simp add: t_get_upd assms(2))
  moreover have "oc_id ` set (t_upd oc_id i f (sn_candidates s)) = oc_id ` set (sn_candidates s)"
    by (simp add: t_upd_key_set assms(2))
  moreover have "keys_ok (set_cand i f s)"
    using assms(1,2) by (simp add: keys_ok_def trail_at_def t_upd_keys)
  ultimately show ?thesis
    using assms c(2) by (auto simp: trail_at_def t_upd_set)
qed

lemma tr_update:
  assumes "st' \<in> set (allowed_transitions st)"
  shows "triple (trail_at i st old) (candidate_update_status i st' r u) (\<lambda>_. trail_at i st' old) E"
proof (rule tripleI)
  fix s x t
  assume s: "trail_at i st old s" and x: "candidate_update_status i st' r u s = (x, t)"
  have "st' \<in> set oc_valid_statuses"
    using assms by (auto simp: allowed_transitions_def oc_valid_statuses_def split: if_splits)
  with s x assms have "x = Inr ()" "t = set_cand i (advance (sn_now s) st' r u) s"
    by (auto simp: update_status_cases trail_at_def)
  with trail_at_set_cand [OF s, of "advance (sn_now s) st' r u" st']
  show "case x of Inl e \<Rightarrow> E e t | Inr a \<Rightarrow> trail_at i st' old t" by simp
qed

lemma tr_audit:
  assumes "actor_ok ac" and "e \<in> set valid_event_types" and "clean_details d"
  shows "triple (trail_at i st old) (audit_as ac i e r d) (\<lambda>_. trail_at i st (event_status e d old)) E"
proof (rule tripleI)
  fix s x t
  assume s: "trail_at i st old s" and x: "audit_as ac i e r d s = (x, t)"
  let ?row = "audit_row s i e (ac_user_id ac) r d (ac_ip_hash ac) (ac_user_agent_hash ac)"
  from x assms have t: "t = s\<lparr>sn_audits := sn_audits s @ [?row]\<rparr>" and xr: "x = Inr (t_next al_id (sn_audits s))"
    by (simp_all add: audit_as_def audit_append_app actor_ok_def)
  have "i \<in> oc_id ` set (sn_candidates s)"
    using s by (auto simp: trail_at_def dest!: t_get_Some)
  with s have "trail_at i st (event_status e d old) t"
    by (auto simp: t trail_at_def keys_ok_def replay_log_def audit_row_sel)
  with xr show "case x of Inl e \<Rightarrow> E e t | Inr a \<Rightarrow> trail_at i st (event_status e d old) t" by simp
qed

lemma tr_same:
  assumes "\<And>s. sn_candidates (snd (m s)) = sn_candidates s \<and> sn_audits (snd (m s)) = sn_audits s"
    and "\<And>t e. trail_at i st old t \<Longrightarrow> E e t"
  shows "triple (trail_at i st old) m (\<lambda>_. trail_at i st old) E"
proof (rule tripleI)
  fix s x t
  assume s: "trail_at i st old s" and x: "m s = (x, t)"
  from assms(1) [of s] x have "trail_at i st old t"
    using s trail_at_cong [of t s i st old] by simp
  with assms(2) show "case x of Inl e \<Rightarrow> E e t | Inr a \<Rightarrow> trail_at i st old t"
    by (cases x) auto
qed

abbreviation raised_ok :: "py_error \<Rightarrow> session \<Rightarrow> bool" where
  "raised_ok e s \<equiv> trail_ok s"

lemma tr_row: "triple (trail_at i st st) (row_of f k j) (\<lambda>_. trail_at i st st) raised_ok"
  by (rule tr_same) (auto simp: row_of_app trail_at_ok split: option.split)

lemma tr_evaluate: "triple (trail_at i st st) (evaluate cfg c now) (\<lambda>_. trail_at i st st) raised_ok"
proof (rule tr_same)
  fix s
  from evaluate_app [of cfg c now s]
  show "sn_candidates (snd (evaluate cfg c now s)) = sn_candidates s \<and>
      sn_audits (snd (evaluate cfg c now s)) = sn_audits s"
    by auto
qed (rule trail_at_ok)

lemma tr_attach_risk: "triple (trail_at i st old) (attach_risk_result i r) (\<lambda>_. trail_at i st old) E"
proof (rule tripleI)
  fix s x t
  assume s: "trail_at i st old s" and x: "attach_risk_result i r s = (x, t)"
  from x have "x = Inr ()" "t = set_cand i (\<lambda>c. c\<lparr>oc_risk_check_result := Some r, oc_updated_at := sn_now s\<rparr>) s"
    by (auto simp: attach_risk_result_def monad_simps upd_candidate_def set_cand_def)
  with trail_at_set_cand [OF s, of "\<lambda>c. c\<lparr>oc_risk_check_result := Some r, oc_updated_at := sn_now s\<rparr>" st]
  show "case x of Inl e \<Rightarrow> E e t | Inr a \<Rightarrow> trail_at i st old t" by simp
qed

lemma tr_attach_order:
  "triple (trail_at i st st) (attach_virtual_order i v) (\<lambda>_. trail_at i st st) raised_ok"
proof (rule tripleI)
  fix s x t
  assume s: "trail_at i st st s" and x: "attach_virtual_order i v s = (x, t)"
  let ?f = "\<lambda>c. c\<lparr>oc_virtual_order_id := Some v, oc_updated_at := sn_now s\<rparr>"
  from x have "t = s \<and> (\<exists>e. x = Inl e) \<or> t = set_cand i ?f s"
    by (auto simp: attach_order_cases split: option.splits if_splits)
  moreover have "trail_at i st st (set_cand i ?f s)"
    by (rule trail_at_set_cand [OF s]) simp_all
  ultimately show "case x of Inl e \<Rightarrow> trail_ok t | Inr a \<Rightarrow> trail_at i st st t"
    using s by (auto simp: trail_at_ok split: sum.split)
qed

lemma submit_same:
  "sn_candidates (snd (submit_order cfg a y side q ot lp key memo s)) = sn_candidates s"
  "sn_audits (snd (submit_order cfg a y side q ot lp key memo s)) = sn_audits s"
  using og_submit [of cfg a y side q ot lp key memo] by (auto simp: follows_def orders_grow_def dest!: spec [of _ s])

lemma tr_forward: "triple (trail_at i st st) (forward_to_broker cfg j) (\<lambda>_. trail_at i st st) raised_ok"
  unfolding forward_to_broker_def
  by (intro triple_bind [OF tr_row] triple_map_err tr_same) (simp_all add: submit_same trail_at_ok)

lemma tr_kill:
  assumes "actor_ok ac"
  shows "triple (trail_at i st st) (assert_kill_switch_off cfg (Some i) ac) (\<lambda>_. trail_at i st st) raised_ok"
proof -
  have "triple (trail_at i st st) (audit_as ac i ''KILL_SWITCH_BLOCKED'' r None) (\<lambda>_. trail_at i st st) raised_ok" for r
    using tr_audit [OF assms, of "''KILL_SWITCH_BLOCKED''" None i st st r]
    by (simp add: valid_event_types_def clean_details_def event_status_def)
  then show ?thesis
    unfolding assert_kill_switch_off_def option.case
    by (intro triple_if triple_bind [where R = "\<lambda>_. trail_at i st st"] triple_ret triple_throw trail_at_ok)
qed

lemma clean_policy: "clean_details (Some [(''policy_version'', v)])"
  "clean_details (Some [(''policy_version'', v), rule_ids_json r])"
  "clean_details (Some [(''policy_version'', v), rule_ids_json r, (''phase'', p)])"
  "clean_details (Some [(''policy_version'', v), (''passed'', p), rule_ids_json r])"
  "clean_details (Some [(''virtual_order_id'', v), (''deduplicated'', p)])"
  "clean_details (Some [(''source'', v), (''symbol'', p)])" "clean_details None"
  by (simp_all add: clean_details_def leaked_keys_def forbidden_details_keys_def rule_ids_json_def)

lemma tr_deny:
  assumes "actor_ok ac"
  shows "triple (trail_at i ''PENDING_APPROVAL'' ''PENDING_APPROVAL'') (deny_recheck i ac r) Q raised_ok"
proof -
  have u: "triple (trail_at i ''PENDING_APPROVAL'' ''PENDING_APPROVAL'')
      (candidate_update_status i ''REJECTED'' x v) (\<lambda>_. trail_at i ''REJECTED'' ''PENDING_APPROVAL'') raised_ok" for x v
    by (rule tr_update) (simp add: allowed_transitions_def)
  have a: "triple (trail_at i ''REJECTED'' ''PENDING_APPROVAL'') (audit_as ac i ''RISK_REJECTED'' x
      (Some [(''policy_version'', v), rule_ids_json r, (''phase'', p)])) (\<lambda>_. trail_at i ''REJECTED'' ''REJECTED'') raised_ok" for x v p
    using tr_audit [OF assms _ clean_policy(3), of "''RISK_REJECTED''" i "''REJECTED''" "''PENDING_APPROVAL''"]
    by (simp add: valid_event_types_def event_status_def)
  show ?thesis
    unfolding deny_recheck_def
    by (intro triple_bind [OF tr_attach_risk] triple_bind [OF u] triple_bind [OF a] triple_throw trail_at_ok)
qed

text \<open>The common beginning of the operations on an existing candidate.\<close>

lemma tr_lookup:
  assumes "\<And>c. oc_id c = i \<Longrightarrow>
    triple (\<lambda>s. trail_ok s \<and> t_get oc_id i (sn_candidates s) = Some c) (k c) Q raised_ok"
  shows "triple trail_ok (sbind (candidate_get_by_id i) (\<lambda>found. case found of None \<Rightarrow> sthrow e | Some c \<Rightarrow> k c))
    Q raised_ok"
proof (rule triple_bind [where R = "\<lambda>found s. trail_ok s \<and> t_get oc_id i (sn_candidates s) = found"])
  show "triple trail_ok (candidate_get_by_id i) (\<lambda>found s. trail_ok s \<and> t_get oc_id i (sn_candidates s) = found) raised_ok"
    unfolding candidate_get_by_id_def by (rule triple_gets) simp
  show "triple (\<lambda>s. trail_ok s \<and> t_get oc_id i (sn_candidates s) = found)
      (case found of None \<Rightarrow> sthrow e | Some c \<Rightarrow> k c) Q raised_ok" for found
  proof (cases found)
    case None
    then show ?thesis by (auto intro: triple_throw)
  next
    case (Some c)
    have "triple (\<lambda>s. trail_ok s \<and> t_get oc_id i (sn_candidates s) = Some c) (k c) Q raised_ok"
    proof (rule triple_fact [where b = "oc_id c = i"])
      show "trail_ok s \<and> t_get oc_id i (sn_candidates s) = Some c \<Longrightarrow> oc_id c = i" for s
        by (blast dest: t_get_Some)
    qed (rule assms)
    with Some show ?thesis by simp
  qed
qed

lemma tr_pending:
  "triple (\<lambda>s. trail_ok s \<and> t_get oc_id i (sn_candidates s) = Some c) (srequire (oc_status c = st) e)
     (\<lambda>_. trail_at i st st) raised_ok"
  by (rule triple_require) (auto dest: trail_ok_at)

lemma tr_active: "triple trail_ok (assert_workflow_active cfg) (\<lambda>_. trail_ok) raised_ok"
  unfolding assert_workflow_active_def by (rule triple_require)

lemma tr_now: "triple P (case now of None \<Rightarrow> utc_now | Some t \<Rightarrow> sret t) (\<lambda>_. P) E"
  by (intro triple_option triple_ret) (simp_all add: triple_def utc_now_app)

text \<open>The status changes the workflow makes, each with the event that records it.\<close>

lemma tr_mark:
  assumes ac: "actor_ok ac" and st: "st' \<in> set (allowed_transitions st)"
    and e: "e \<in> set valid_event_types" "clean_details d" "event_status e d st = st'"
    and k: "\<And>a. triple (trail_at i st' st') (k a) Q raised_ok"
  shows "triple (trail_at i st st)
    (sbind (candidate_update_status i st' r u) (\<lambda>_. sbind (audit_as ac i e r' d) k)) Q raised_ok"
proof (rule triple_bind [OF tr_update [OF st]])
  show "triple (trail_at i st' st) (sbind (audit_as ac i e r' d) k) Q raised_ok"
    using tr_audit [OF ac e(1,2), of i st' st r'] k unfolding e(3) by (rule triple_bind)
qed

lemmas event_simps = valid_event_types_def event_status_def allowed_transitions_def

lemma tr_approve:
  assumes ac: "actor_ok ac"
  shows "triple trail_ok (approve cfg i ac now) (\<lambda>_. trail_ok) raised_ok"
proof -
  let ?P = "trail_at i ''PENDING_APPROVAL'' ''PENDING_APPROVAL''"
  have deny: "triple ?P (if rr_passed r then sret () else deny_recheck i ac r) (\<lambda>_. ?P) raised_ok" for r
    by (intro triple_if triple_ret tr_deny [OF ac])
  have fin: "triple (trail_at i ''APPROVED'' ''APPROVED'')
     (sbind (forward_to_broker cfg i) (\<lambda>submitted.
     sbind (attach_virtual_order i (sr_order submitted)) (\<lambda>_.
     sbind (candidate_update_status i ''EXECUTED_PAPER'' None None) (\<lambda>_.
     sbind (audit_as ac i ''EXECUTED_PAPER'' None
              (Some [(''virtual_order_id'', JInt (sr_order submitted)),
                     (''deduplicated'', JBool (sr_deduplicated submitted))])) (\<lambda>_.
     sret \<lparr>ar_candidate = i, ar_virtual_order_id = sr_order submitted, ar_risk_result = r\<rparr>)))))
     (\<lambda>_. trail_ok) raised_ok" for r
    by (intro triple_bind [OF tr_forward] triple_bind [OF tr_attach_order] tr_mark ac clean_policy triple_ret trail_at_ok)
      (simp_all add: event_simps)
  show ?thesis
    unfolding approve_def
  proof (intro triple_bind [OF tr_active] triple_bind [OF tr_now] tr_lookup, goal_cases)
    case (1 u t c)
    show ?case
      unfolding 1
      by (intro triple_bind [OF tr_pending] triple_bind [OF tr_kill [OF ac]] triple_bind [OF tr_evaluate]
          triple_bind [OF deny] tr_mark [OF ac _ _ _ _ fin] clean_policy) (simp_all add: event_simps)
  qed
qed

lemma tr_reject:
  assumes ac: "actor_ok ac"
  shows "triple trail_ok (reject cfg i ac reason) (\<lambda>_. trail_ok) raised_ok"
  unfolding reject_def candidate_reject_def
proof (intro triple_bind [OF tr_active] tr_lookup, goal_cases)
  case (1 u c)
  show ?case
    unfolding 1
    by (intro triple_bind [OF tr_pending] triple_bind [OF tr_kill [OF ac]] tr_mark [OF ac] clean_policy
        triple_ret trail_at_ok) (simp_all add: event_simps)
qed

lemma tr_candidate_expire:
  "triple (\<lambda>s. trail_ok s \<and> t_get oc_id i (sn_candidates s) = Some c)
     (smap_err (expire_denied i (oc_status c)) (candidate_expire i))
     (\<lambda>_. trail_at i ''EXPIRED'' ''PENDING_APPROVAL'') raised_ok"
proof (rule triple_map_err, rule tripleI)
  fix s x t
  assume s: "trail_ok s \<and> t_get oc_id i (sn_candidates s) = Some c" and x: "candidate_expire i s = (x, t)"
  have iff: "''EXPIRED'' \<in> set (allowed_transitions (oc_status c)) \<longleftrightarrow> oc_status c = ''PENDING_APPROVAL''"
    by (simp add: allowed_transitions_def)
  from s have at: "trail_at i (oc_status c) (oc_status c) s" by (simp add: trail_ok_at)
  show "case x of Inl e \<Rightarrow> trail_ok t | Inr a \<Rightarrow> trail_at i ''EXPIRED'' ''PENDING_APPROVAL'' t"
    using x s trail_at_set_cand [OF at, of "advance (sn_now s) ''EXPIRED'' (Some [T ''ttl_expired'']) None" "''EXPIRED''"]
    by (auto simp: candidate_expire_def update_status_cases oc_valid_statuses_def iff split: if_splits)
qed

lemma tr_expire:
  assumes ac: "actor_ok ac"
  shows "triple trail_ok (expire i ac) (\<lambda>_. trail_ok) raised_ok"
proof -
  have aud: "triple (trail_at i ''EXPIRED'' ''PENDING_APPROVAL'') (audit_as ac i ''EXPIRED'' r None)
      (\<lambda>_. trail_at i ''EXPIRED'' ''EXPIRED'') raised_ok" for r
    using tr_audit [OF ac _ clean_policy(7), of "''EXPIRED''" i "''EXPIRED''" "''PENDING_APPROVAL''"]
    by (simp add: event_simps)
  show ?thesis
    unfolding expire_def
  proof (intro tr_lookup, goal_cases)
    case (1 c)
    show ?case
      unfolding 1
      by (intro triple_bind [OF tr_candidate_expire] triple_bind [OF aud] triple_ret trail_at_ok)
  qed
qed

text \<open>A new candidate starts as a \<open>DRAFT\<close> without a log.\<close>

lemma tr_candidate_create:
  "triple trail_ok (candidate_create a src y side q ot lp amt ref ex ''DRAFT'')
     (\<lambda>i. trail_at i ''DRAFT'' ''DRAFT'') raised_ok"
proof (rule tripleI)
  fix s x t
  assume s: "trail_ok s" and x: "candidate_create a src y side q ot lp amt ref ex ''DRAFT'' s = (x, t)"
  have new: "trail_at i ''DRAFT'' ''DRAFT'' (s\<lparr>sn_candidates := sn_candidates s @ [c]\<rparr>)"
    if c: "oc_id c = i" "oc_status c = ''DRAFT''" "i = t_next oc_id (sn_candidates s)" for c i
  proof -
    have fresh: "i \<notin> oc_id ` set (sn_candidates s)"
      using t_next_gt [of _ "sn_candidates s" oc_id] c(3) by fastforce
    have "filter (\<lambda>l. al_candidate_id l = i) (sn_audits s) = []"
      using s fresh unfolding trail_ok_def filter_empty_conv by metis
    moreover have "t_get oc_id i (sn_candidates s @ [c]) = Some c"
      using c by (simp add: t_get_append)
    ultimately show ?thesis
      using s c fresh by (auto simp: trail_at_def trail_ok_def keys_ok_def replay_log_def)
  qed
  show "case x of Inl e \<Rightarrow> trail_ok t | Inr i \<Rightarrow> trail_at i ''DRAFT'' ''DRAFT'' t"
  proof (cases q)
    case (PyInt n)
    have lim: "snd (candidate_limit ot lp u) = u" for u
      by (auto simp: candidate_limit_def monad_simps dec_of_def split: option.split dec_arg.split)
    have amt: "snd (dec_of amt u) = u" for u by (cases amt) (simp_all add: dec_of_app)
    obtain l1 where l1: "candidate_limit ot lp s = (l1, s)" using lim [of s] by (metis prod.collapse)
    obtain l2 where l2: "dec_of amt s = (l2, s)" using amt [of s] by (metis prod.collapse)
    from x s show ?thesis
      by (auto simp: candidate_create_def PyInt sbind_app srequire_app l1 l2 utc_now_app sgets_app smodify_app
          sret_app split: if_splits sum.splits intro!: new)
  qed (use x s in \<open>auto simp: candidate_create_def monad_simps split: if_splits\<close>)
qed

lemma tr_create:
  assumes ac: "actor_ok ac"
  shows "triple trail_ok (create_candidate cfg a src y side q ot lp amt ref ttl ac now) (\<lambda>_. trail_ok) raised_ok"
proof -
  let ?C = "''RISK_CHECKING''"
  have a1: "triple (trail_at i ''DRAFT'' ''DRAFT'') (audit_as ac i ''CREATED'' r (Some [(''source'', v), (''symbol'', p)]))
      (\<lambda>_. trail_at i ''DRAFT'' ?C) raised_ok" for i r v p
    using tr_audit [OF ac _ clean_policy(6), of "''CREATED''" i "''DRAFT''" "''DRAFT''"]
    by (simp add: event_simps)
  have u1: "triple (trail_at i ''DRAFT'' ?C) (candidate_update_status i ?C r u) (\<lambda>_. trail_at i ?C ?C) raised_ok" for i r u
    by (rule tr_update) (simp add: allowed_transitions_def)
  have a2: "triple (trail_at i ?C ?C) (audit_as ac i ''RISK_CHECKED'' r
      (Some [(''policy_version'', v), (''passed'', JBool b), rule_ids_json k]))
      (\<lambda>_. trail_at i ?C (if b then ''PENDING_APPROVAL'' else ?C)) raised_ok" for i r v b k
  proof -
    have "triple (trail_at i ?C ?C) (audit_as ac i ''RISK_CHECKED'' r
        (Some [(''policy_version'', v), (''passed'', JBool b), rule_ids_json k]))
        (\<lambda>_. trail_at i ?C (event_status ''RISK_CHECKED''
          (Some [(''policy_version'', v), (''passed'', JBool b), rule_ids_json k]) ?C)) raised_ok"
      by (rule tr_audit [OF ac _ clean_policy(4)]) (simp add: valid_event_types_def)
    then show ?thesis
      by (cases b) (simp_all add: event_status_def passed_in_def)
  qed
  have u2: "triple (trail_at i ?C ''PENDING_APPROVAL'') (candidate_update_status i ''PENDING_APPROVAL'' r u)
      (\<lambda>_. trail_ok) raised_ok" for i r u
    using tr_update [of "''PENDING_APPROVAL''" ?C i "''PENDING_APPROVAL''" r u]
    by (rule triple_conseq) (auto simp: allowed_transitions_def intro: trail_at_ok)
  have rej: "triple (trail_at i ?C ?C)
      (sbind (candidate_update_status i ''RISK_REJECTED'' f u) (\<lambda>_.
       sbind (audit_as ac i ''RISK_REJECTED'' f (Some [(''policy_version'', v), rule_ids_json k])) (\<lambda>_. sret ())))
      (\<lambda>_. trail_ok) raised_ok" for i f u v k
    by (rule tr_mark [OF ac]) (auto simp: event_simps clean_policy intro: triple_ret trail_at_ok)
  have last: "triple (trail_at i ?C (if rr_passed k then ''PENDING_APPROVAL'' else ?C))
      (if rr_passed k then candidate_update_status i ''PENDING_APPROVAL'' None None
       else sbind (candidate_update_status i ''RISK_REJECTED'' f None) (\<lambda>_.
         sbind (audit_as ac i ''RISK_REJECTED'' f (Some [(''policy_version'', v), rule_ids_json k])) (\<lambda>_. sret ())))
      (\<lambda>_. trail_ok) raised_ok" for i f v k
    by (cases "rr_passed k") (simp_all add: u2 rej)
  show ?thesis
    unfolding create_candidate_def Let_def
    by (intro triple_bind [OF tr_active] triple_bind [OF tr_now]
        triple_bind [OF triple_require [where Q = "\<lambda>_. trail_ok"]]
        triple_bind [OF tr_candidate_create] triple_bind [OF tr_row] triple_bind [OF a1] triple_bind [OF u1]
        triple_bind [OF tr_evaluate] triple_bind [OF tr_attach_risk] triple_bind [OF a2]
        triple_bind [OF last] triple_ret)
qed

text \<open>
  C8. The audit log determines the status of every candidate: reading a candidate's events
  in order, starting from \<open>DRAFT\<close>, gives the status its row has. Every operation of the
  workflow keeps this, whether it returns or raises, for an actor whose hashes have at
  most 64 characters; so no status change goes unrecorded and no event is recorded without it.
\<close>

theorem audit_trail_determines_status:
  assumes "trail_ok s" and "actor_ok ac"
  shows "trail_ok (snd (create_candidate cfg a src y side q ot lp amt ref ttl ac now s)) \<and>
    trail_ok (snd (approve cfg i ac now s)) \<and> trail_ok (snd (reject cfg i ac reason s)) \<and>
    trail_ok (snd (expire i ac s))"
  using triple_after [OF tr_create [OF assms(2)] assms(1)] triple_after [OF tr_approve [OF assms(2)] assms(1)]
    triple_after [OF tr_reject [OF assms(2)] assms(1)] triple_after [OF tr_expire [OF assms(2)] assms(1)]
  by blast

definition demo_settings :: settings where
  "demo_settings = \<lparr>cfg_paper_trading_enabled = True, cfg_trading_safety_enabled = True,
     cfg_kill_switch_enabled = False, cfg_approval_required = True, cfg_max_order_amount = 1000000,
     cfg_max_daily_order_amount = 3000000, cfg_max_position_ratio = 1 / 5,
     cfg_max_daily_loss_amount = 300000, cfg_real_trading_enabled = False,
     cfg_kis_order_enabled = False, cfg_real_order_dry_run = True, cfg_max_real_order_amount = 1000000,
     cfg_max_real_daily_order_amount = 3000000, cfg_kis_account_no = []\<rparr>"

definition demo_actor :: actor where
  "demo_actor = \<lparr>ac_user_id = Some 5, ac_ip_hash = None, ac_user_agent_hash = None\<rparr>"

definition demo_candidate :: order_candidate where
  "demo_candidate = \<lparr>oc_id = 7, oc_account_id = 1, oc_source = ''MANUAL'', oc_source_ref_id = None,
     oc_symbol = ''005930'', oc_side = ''BUY'', oc_quantity = 10, oc_order_type = ''MARKET'',
     oc_limit_price = None, oc_estimated_amount = 700000, oc_status = ''PENDING_APPROVAL'',
     oc_risk_check_result = None, oc_approver_user_id = None, oc_rejection_reason = None,
     oc_expires_at = Some 1800000000, oc_virtual_order_id = None, oc_created_at = 0, oc_updated_at = 0\<rparr>"

definition demo_event :: "int \<Rightarrow> string \<Rightarrow> (string \<times> json) list option \<Rightarrow> audit_log" where
  "demo_event i e d = \<lparr>al_id = i, al_candidate_id = 7, al_event_type = e, al_user_id = Some 5,
     al_reason = None, al_details = d, al_ip_hash = None, al_user_agent_hash = None, al_created_at = 0\<rparr>"

definition demo_workflow :: session where
  "demo_workflow = demo_ledger\<lparr>sn_candidates := [demo_candidate],
     sn_audits := [demo_event 1 ''CREATED'' None, demo_event 2 ''RISK_CHECKED'' (Some [(''passed'', JBool True)])]\<rparr>"

lemma demo_trail_ok: "trail_ok demo_workflow"
  by (simp add: trail_ok_def keys_ok_def demo_workflow_def demo_candidate_def demo_event_def replay_log_def
      event_status_def passed_in_def)

lemma demo_actor_ok: "actor_ok demo_actor"
  by (simp add: actor_ok_def demo_actor_def hash_too_long_def)

theorem audit_trail_determines_status_witness:
  "trail_ok (snd (approve demo_settings 7 demo_actor None demo_workflow)) \<and>
   trail_ok (snd (reject demo_settings 7 demo_actor [T ''too large''] demo_workflow))"
  using audit_trail_determines_status [OF demo_trail_ok demo_actor_ok] by blast

end
