(* ===== verification/Approval_Outcome.thy ===== *)
theory Approval_Outcome
  imports Approval_Facts
begin

text \<open>
  What an approval does when it succeeds, and the cap on the active exposure: the amount of
  the active candidates of an account on a symbol never exceeds \<open>max_order_amount\<close>.
\<close>

subsection \<open>A successful approval\<close>

lemma submit_order_done:
  assumes "orders_ok (sn_orders s)" and "submit_order cfg a y side qa ot lp key memo s = (Inr r, s')"
  obtains (dup) v where "s' = s" "v \<in> set (sn_orders s)" "vo_id v = sr_order r" "order_key v = (a, key)"
      "submit_accepts cfg s a y side qa ot lp" "sr_deduplicated r"
    | (new) v where "s' = s\<lparr>sn_orders := sn_orders s @ [v]\<rparr>" "vo_id v = sr_order r" "order_key v = (a, key)"
      "vo_symbol v = y" "vo_side v = side" "qa = PyInt (vo_quantity v)" "vo_order_type v = ot"
      "submit_limit ot lp = Some (vo_limit_price v)" "vo_status v = ''CREATED''"
      "submit_accepts cfg s a y side qa ot lp" "\<not> sr_deduplicated r"
proof -
  have acc: "submit_accepts cfg s a y side qa ot lp"
    using submit_order_refused [of cfg s a y side qa ot lp key memo] assms(2) by fastforce
  define ks where "ks = (case key of None \<Rightarrow> [] | Some k \<Rightarrow> key_holders s a k)"
  from submit_order_accepted [OF acc assms(1), of key memo, folded ks_def]
  obtain q l where ql: "qa = PyInt q" "submit_limit ot lp = Some l"
    and r: "submit_order cfg a y side qa ot lp key memo s =
      (case ks of
         o' # _ \<Rightarrow> (Inr \<lparr>sr_order = vo_id o', sr_deduplicated = True\<rparr>, s)
       | [] \<Rightarrow> (Inr \<lparr>sr_order = t_next vo_id (sn_orders s), sr_deduplicated = False\<rparr>,
           s\<lparr>sn_orders := sn_orders s @
             [\<lparr>vo_id = t_next vo_id (sn_orders s), vo_account_id = a, vo_symbol = y, vo_side = side,
               vo_quantity = q, vo_order_type = ot, vo_limit_price = l, vo_status = ''CREATED'',
               vo_idempotency_key = key, vo_reason = None, vo_note = memo, vo_updated_at = sn_now s\<rparr>]\<rparr>))"
    by metis
  show thesis
  proof (cases ks)
    case Nil
    show thesis
      by (rule new [of "\<lparr>vo_id = t_next vo_id (sn_orders s), vo_account_id = a, vo_symbol = y, vo_side = side,
               vo_quantity = q, vo_order_type = ot, vo_limit_price = l, vo_status = ''CREATED'',
               vo_idempotency_key = key, vo_reason = None, vo_note = memo, vo_updated_at = sn_now s\<rparr>"])
        (use r assms(2) Nil ql acc in \<open>auto simp: order_key_def\<close>)
  next
    case (Cons v vs)
    then have "v \<in> set (sn_orders s)" "order_key v = (a, key)"
      by (auto simp: ks_def key_holders_def order_key_def filter_eq_Cons_iff split: option.splits)
    then show thesis by (intro dup [of v]) (use r assms(2) Cons acc in auto)
  qed
qed

text \<open>The rows an approval appends to the log.\<close>

definition approval_event :: "string \<Rightarrow> int \<Rightarrow> actor \<Rightarrow> audit_log \<Rightarrow> bool" where
  "approval_event e i ac l \<longleftrightarrow> al_event_type l = e \<and> al_candidate_id l = i \<and> al_user_id l = ac_user_id ac"

lemma audit_as_InrE:
  assumes "audit_as ac i e r d s = (Inr j, s')"
  obtains l where "s' = s\<lparr>sn_audits := sn_audits s @ [l]\<rparr>" "approval_event e i ac l"
proof (cases "e \<in> set valid_event_types \<and> clean_details d \<and> \<not> hash_too_long (ac_ip_hash ac) \<and>
    \<not> hash_too_long (ac_user_agent_hash ac)")
  case True
  with assms that show thesis
    by (auto simp: audit_as_def audit_append_app audit_row_def approval_event_def)
next
  case False
  from audit_append_refused [OF this, of i "ac_user_id ac" r s] assms show thesis
    by (auto simp: audit_as_def)
qed

lemma update_status_InrE:
  assumes "candidate_update_status i st r u s = (Inr x, s')"
  obtains c where "t_get oc_id i (sn_candidates s) = Some c" "st \<in> set (allowed_transitions (oc_status c))"
    "s' = set_cand i (advance (sn_now s) st r u) s"
  using assms by (auto simp: update_status_cases split: if_splits option.splits)

lemma set_cand_twice:
  "(\<And>c. oc_id (f c) = oc_id c) \<Longrightarrow> set_cand i g (set_cand i f s) = set_cand i (\<lambda>c. g (f c)) s"
  by (simp add: set_cand_def t_upd_upd)

lemma broker_ok_orders: "broker_ok s \<Longrightarrow> orders_ok (sn_orders s)"
  by (simp add: broker_ok_def)

lemma approve_steps:
  assumes "approve cfg i ac now s = (Inr r, s')"
  obtains c risk s1 s2 s3 s4 s5 sub x1 x2 x4 x5 x6 where
    "cfg_trading_safety_enabled cfg" "t_get oc_id i (sn_candidates s) = Some c"
    "oc_status c = ''PENDING_APPROVAL''" "risk_ok cfg s c (eval_time s now)"
    "candidate_update_status i ''APPROVED'' None (ac_user_id ac) s = (Inr x1, s1)"
    "audit_as ac i ''APPROVED'' None (Some [(''policy_version'', JStr (rr_policy_version risk))]) s1 = (Inr x2, s2)"
    "forward_to_broker cfg i s2 = (Inr sub, s3)"
    "attach_virtual_order i (sr_order sub) s3 = (Inr x4, s4)"
    "candidate_update_status i ''EXECUTED_PAPER'' None None s4 = (Inr x5, s5)"
    "audit_as ac i ''EXECUTED_PAPER'' None (Some [(''virtual_order_id'', JInt (sr_order sub)),
       (''deduplicated'', JBool (sr_deduplicated sub))]) s5 = (Inr x6, s')"
    "r = \<lparr>ar_candidate = i, ar_virtual_order_id = sr_order sub, ar_risk_result = risk\<rparr>"
proof -
  define t where "t = eval_time s now"
  have now: "(case now of None \<Rightarrow> utc_now | Some t \<Rightarrow> sret t) s = (Inr t, s)"
    by (cases now) (simp_all add: t_def eval_time_def monad_simps)
  from assms have safe: "cfg_trading_safety_enabled cfg"
    by (auto simp: approve_def assert_workflow_active_def sbind_app srequire_app split: if_splits)
  from assms obtain c where c: "t_get oc_id i (sn_candidates s) = Some c"
    by (auto simp: approve_def assert_workflow_active_def sbind_app srequire_app now candidate_get_by_id_def
        sgets_app sthrow_app split: if_splits option.splits)
  then have id: "oc_id c = i" by (auto dest: t_get_Some)
  obtain risk where risk: "evaluate cfg c (Some t) s = (Inr risk, s)" "rr_passed risk \<longleftrightarrow> risk_ok cfg s c t"
    using evaluate_passed [of cfg c "Some t" s] by (cases "evaluate cfg c (Some t) s") (auto simp: eval_time_def)
  have denied: "sbind (deny_recheck i ac k) f u \<noteq> (Inr x, v)" for k f u and x :: approve_result and v
    by (auto simp: deny_recheck_def sthrow_app elim!: sbind_InrE)
  have get: "candidate_get_by_id i s = (Inr (Some c), s)"
    by (simp add: candidate_get_by_id_def sgets_app c)
  have stop: "sbind m (\<lambda>_. sthrow e) u \<noteq> (Inr x, v)" for m :: "unit db" and e x u and v :: session
    by (auto simp: sthrow_app elim!: sbind_InrE)
  have kill: "assert_kill_switch_off cfg j ac s = (if cfg_kill_switch_enabled cfg
      then sbind (case j of None \<Rightarrow> sret ()
          | Some i \<Rightarrow> sbind (audit_as ac i ''KILL_SWITCH_BLOCKED'' (Some [T ''kill_switch_enabled'']) None)
              (\<lambda>_. sret ())) (\<lambda>_. sthrow KillSwitchBlockedError) s else (Inr (), s))" for j
    by (simp add: assert_kill_switch_off_def sret_app)
  from assms have body: "oc_status c = ''PENDING_APPROVAL''" "\<not> cfg_kill_switch_enabled cfg" "rr_passed risk"
    "(sbind (candidate_update_status i ''APPROVED'' None (ac_user_id ac)) (\<lambda>_.
     sbind (audit_as ac i ''APPROVED'' None
              (Some [(''policy_version'', JStr (rr_policy_version risk))])) (\<lambda>_.
     sbind (forward_to_broker cfg i) (\<lambda>submitted.
     sbind (attach_virtual_order i (sr_order submitted)) (\<lambda>_.
     sbind (candidate_update_status i ''EXECUTED_PAPER'' None None) (\<lambda>_.
     sbind (audit_as ac i ''EXECUTED_PAPER'' None
              (Some [(''virtual_order_id'', JInt (sr_order submitted)),
                     (''deduplicated'', JBool (sr_deduplicated submitted))])) (\<lambda>_.
     sret \<lparr>ar_candidate = i, ar_virtual_order_id = sr_order submitted,
           ar_risk_result = risk\<rparr>))))))) s = (Inr r, s')"
    by (auto simp: approve_def assert_workflow_active_def sbind_app [of "srequire b e" for b e]
        sbind_app [of "case now of None \<Rightarrow> utc_now | Some t \<Rightarrow> sret t"] now srequire_app
        sbind_app [of "candidate_get_by_id i"] get id sbind_app [of "assert_kill_switch_off cfg j ac" for j] kill stop
        sbind_app [of "sret x" for x] sret_app sbind_app [of "evaluate cfg c (Some t)"] risk(1)
        denied sthrow_app elim!: sbind_InrE [of "if b then m else n" for b m n] split: if_splits prod.splits sum.splits)
  show thesis
    using body(4) by (elim sbind_InrE)
      (rule that [where risk = risk, OF safe c body(1)], use risk body(3) in \<open>auto simp: t_def sret_app\<close>)
qed

text \<open>
  C9. A successful approval executes the candidate on paper, once: the candidate was
  pending, the workflow was active and all risk conditions held at that moment; its row is
  now \<open>EXECUTED_PAPER\<close> with the approver and the order linked and its request unchanged, no
  other candidate changed; exactly the two events \<open>APPROVED\<close> and \<open>EXECUTED_PAPER\<close> were logged;
  and the linked order carries the key \<open>approval-<id>\<close> of the candidate: it is a new
  \<open>CREATED\<close> order with the candidate's symbol, side, quantity, type and limit, or the order
  that already held this key.
\<close>

theorem approve_executes_on_paper:
  assumes "broker_ok s" and "keys_ok s" and "approve cfg i ac now s = (Inr r, s')"
  shows "\<exists>c d l m v. t_get oc_id i (sn_candidates s) = Some c \<and> oc_status c = ''PENDING_APPROVAL'' \<and>
    cfg_trading_safety_enabled cfg \<and> risk_ok cfg s c (eval_time s now) \<and>
    sn_candidates s' = t_upd oc_id i (\<lambda>_. d) (sn_candidates s) \<and> same_request c d \<and>
    oc_status d = ''EXECUTED_PAPER'' \<and> oc_virtual_order_id d = Some (ar_virtual_order_id r) \<and>
    oc_approver_user_id d = (case ac_user_id ac of None \<Rightarrow> oc_approver_user_id c | Some u \<Rightarrow> Some u) \<and>
    sn_audits s' = sn_audits s @ [l, m] \<and> approval_event ''APPROVED'' i ac l \<and>
    approval_event ''EXECUTED_PAPER'' i ac m \<and>
    v \<in> set (sn_orders s') \<and> vo_id v = ar_virtual_order_id r \<and>
    order_key v = (oc_account_id c, Some (approval_key i)) \<and>
    (sn_orders s' = sn_orders s \<and> v \<in> set (sn_orders s) \<or>
     sn_orders s' = sn_orders s @ [v] \<and> vo_symbol v = oc_symbol c \<and> vo_side v = oc_side c \<and>
       vo_quantity v = oc_quantity c \<and> vo_order_type v = oc_order_type c \<and>
       vo_limit_price v = oc_limit_price c \<and> vo_status v = ''CREATED'')"
proof -
  from assms(3) obtain c risk s1 s2 s3 s4 s5 sub x1 x2 x4 x5 x6 where
    pre: "cfg_trading_safety_enabled cfg" "t_get oc_id i (sn_candidates s) = Some c"
    "oc_status c = ''PENDING_APPROVAL''" "risk_ok cfg s c (eval_time s now)"
    and u1: "candidate_update_status i ''APPROVED'' None (ac_user_id ac) s = (Inr x1, s1)"
    and a1: "audit_as ac i ''APPROVED'' None (Some [(''policy_version'', JStr (rr_policy_version risk))]) s1 = (Inr x2, s2)"
    and f: "forward_to_broker cfg i s2 = (Inr sub, s3)"
    and at: "attach_virtual_order i (sr_order sub) s3 = (Inr x4, s4)"
    and u2: "candidate_update_status i ''EXECUTED_PAPER'' None None s4 = (Inr x5, s5)"
    and a2: "audit_as ac i ''EXECUTED_PAPER'' None (Some [(''virtual_order_id'', JInt (sr_order sub)),
       (''deduplicated'', JBool (sr_deduplicated sub))]) s5 = (Inr x6, s')"
    and r: "r = \<lparr>ar_candidate = i, ar_virtual_order_id = sr_order sub, ar_risk_result = risk\<rparr>"
    by (rule approve_steps)
  let ?c1 = "advance (sn_now s) ''APPROVED'' None (ac_user_id ac)"
  from u1 have s1: "s1 = set_cand i ?c1 s" by (elim update_status_InrE)
  from a1 obtain l where s2: "s2 = s1\<lparr>sn_audits := sn_audits s1 @ [l]\<rparr>" and l: "approval_event ''APPROVED'' i ac l"
    by (rule audit_as_InrE)
  have get2: "t_get oc_id i (sn_candidates s2) = Some (?c1 c)"
    using pre(2) by (simp add: s2 s1 t_get_upd)
  have o2: "orders_ok (sn_orders s2)" using broker_ok_orders [OF assms(1)] by (simp add: s2 s1)
  from f get2 obtain y where sub: "submit_order cfg (oc_account_id c) (oc_symbol c) (oc_side c)
      (PyInt (oc_quantity c)) (oc_order_type c) (map_option DecArg (oc_limit_price c)) (Some (approval_key i))
      y s2 = (Inr sub, s3)"
    by (auto simp: forward_to_broker_def sbind_app row_of_app smap_err_app split: prod.splits sum.splits)
  have s4: "s4 = set_cand i (\<lambda>c. c\<lparr>oc_virtual_order_id := Some (sr_order sub), oc_updated_at := sn_now s3\<rparr>) s3"
    using at by (auto simp: attach_order_cases split: option.splits if_splits)
  from u2 have s5: "s5 = set_cand i (advance (sn_now s4) ''EXECUTED_PAPER'' None None) s4"
    by (elim update_status_InrE)
  from a2 obtain m where s6: "s' = s5\<lparr>sn_audits := sn_audits s5 @ [m]\<rparr>" and m: "approval_event ''EXECUTED_PAPER'' i ac m"
    by (rule audit_as_InrE)
  define h where "h = (\<lambda>c. advance (sn_now s4) ''EXECUTED_PAPER'' None None ((?c1 c)
    \<lparr>oc_virtual_order_id := Some (sr_order sub), oc_updated_at := sn_now s3\<rparr>))"
  have "sn_candidates s3 = sn_candidates s2" "sn_audits s3 = sn_audits s2"
    using submit_same [of cfg "oc_account_id c" "oc_symbol c" "oc_side c" "PyInt (oc_quantity c)" "oc_order_type c"
        "map_option DecArg (oc_limit_price c)" "Some (approval_key i)" y s2] sub by simp_all
  then have cand: "sn_candidates s' = t_upd oc_id i h (sn_candidates s)" and aud: "sn_audits s' = sn_audits s @ [l, m]"
    by (simp_all add: s6 s5 s4 s2 s1 t_upd_upd h_def)
  have cand': "sn_candidates s' = t_upd oc_id i (\<lambda>_. h c) (sn_candidates s)"
    unfolding cand using assms(2) pre(2) by (intro t_upd_const) (simp_all add: keys_ok_def)
  have h: "same_request c (h c)" "oc_status (h c) = ''EXECUTED_PAPER''" "oc_virtual_order_id (h c) = Some (sr_order sub)"
    "oc_approver_user_id (h c) = (case ac_user_id ac of None \<Rightarrow> oc_approver_user_id c | Some u \<Rightarrow> Some u)"
    by (simp_all add: h_def same_request_def advance_def)
  have lim: "submit_limit (oc_order_type c) (map_option DecArg (oc_limit_price c)) = Some x \<Longrightarrow> x = oc_limit_price c" for x
    by (auto simp: submit_limit_def split: if_splits option.splits)
  have ord: "sn_orders s' = sn_orders s3" "sn_orders s2 = sn_orders s" by (simp_all add: s6 s5 s4 s2 s1)
  from o2 sub have "\<exists>v. v \<in> set (sn_orders s3) \<and> vo_id v = sr_order sub \<and>
    order_key v = (oc_account_id c, Some (approval_key i)) \<and>
    (sn_orders s3 = sn_orders s2 \<and> v \<in> set (sn_orders s2) \<or>
     sn_orders s3 = sn_orders s2 @ [v] \<and> vo_symbol v = oc_symbol c \<and> vo_side v = oc_side c \<and>
       vo_quantity v = oc_quantity c \<and> vo_order_type v = oc_order_type c \<and>
       vo_limit_price v = oc_limit_price c \<and> vo_status v = ''CREATED'')"
    by (rule submit_order_done) (auto dest: lim)
  then show ?thesis
    using pre l m h aud cand' unfolding ord r by (auto intro!: exI [of _ "h c"])
qed

text \<open>Conversely, what an approval needs in order to succeed.\<close>

lemma audit_as_ok:
  "actor_ok ac \<Longrightarrow> e \<in> set valid_event_types \<Longrightarrow> clean_details d \<Longrightarrow>
   \<exists>j l. audit_as ac i e r d s = (Inr j, s\<lparr>sn_audits := sn_audits s @ [l]\<rparr>) \<and> approval_event e i ac l"
  by (auto simp: audit_as_def audit_append_app actor_ok_def approval_event_def audit_row_def)

lemma update_status_ok:
  "t_get oc_id i (sn_candidates s) = Some c \<Longrightarrow> st \<in> set (allowed_transitions (oc_status c)) \<Longrightarrow>
   candidate_update_status i st r u s = (Inr (), set_cand i (advance (sn_now s) st r u) s)"
  by (auto simp: update_status_cases allowed_transitions_def oc_valid_statuses_def split: if_splits)

definition paper_accepts :: "settings \<Rightarrow> session \<Rightarrow> order_candidate \<Rightarrow> bool" where
  "paper_accepts cfg s c \<longleftrightarrow> submit_accepts cfg s (oc_account_id c) (oc_symbol c) (oc_side c)
     (PyInt (oc_quantity c)) (oc_order_type c) (map_option DecArg (oc_limit_price c))"

lemma forward_ok:
  assumes "orders_ok (sn_orders s)" and "t_get oc_id i (sn_candidates s) = Some c" and "paper_accepts cfg s c"
  shows "\<exists>sub new. forward_to_broker cfg i s = (Inr sub, s\<lparr>sn_orders := sn_orders s @ new\<rparr>)"
proof -
  let ?m = "Some (''approved candidate id='' @ str_of_int i)"
  obtain x t where x: "submit_order cfg (oc_account_id c) (oc_symbol c) (oc_side c) (PyInt (oc_quantity c))
      (oc_order_type c) (map_option DecArg (oc_limit_price c)) (Some (approval_key i)) ?m s = (x, t)"
    by fastforce
  have "\<exists>sub. x = Inr sub"
    by (rule submit_order_accepted [OF assms(3) [unfolded paper_accepts_def] assms(1), of "Some (approval_key i)" ?m])
      (use x in \<open>auto split: list.splits\<close>)
  moreover have "\<exists>new. t = s\<lparr>sn_orders := sn_orders s @ new\<rparr>"
    using followsD [OF og_submit x] by (simp add: orders_grow_def)
  ultimately show ?thesis
    using assms(2) x by (auto simp: forward_to_broker_def sbind_app row_of_app smap_err_app)
qed

lemma approve_succeeds:
  assumes "cfg_trading_safety_enabled cfg" and c: "t_get oc_id i (sn_candidates s) = Some c"
    and p: "oc_status c = ''PENDING_APPROVAL''" and "risk_ok cfg s c (eval_time s now)"
    and pa: "paper_accepts cfg s c" and ok: "orders_ok (sn_orders s)" and ac: "actor_ok ac"
    and "oc_virtual_order_id c = None"
  shows "\<exists>r s'. approve cfg i ac now s = (Inr r, s')"
proof -
  have id: "oc_id c = i" using c by (auto dest: t_get_Some)
  have now: "(case now of None \<Rightarrow> utc_now | Some t \<Rightarrow> sret t) s = (Inr (eval_time s now), s)"
    by (cases now) (simp_all add: eval_time_def monad_simps)
  obtain risk where risk: "evaluate cfg c (Some (eval_time s now)) s = (Inr risk, s)" "rr_passed risk"
    using evaluate_passed [of cfg c "Some (eval_time s now)" s] assms(4)
    by (cases "evaluate cfg c (Some (eval_time s now)) s") (auto simp: eval_time_def)
  have kill: "\<not> cfg_kill_switch_enabled cfg" using assms(4) by (simp add: risk_ok_def)
  define s1 where "s1 = set_cand i (advance (sn_now s) ''APPROVED'' None (ac_user_id ac)) s"
  have u1: "candidate_update_status i ''APPROVED'' None (ac_user_id ac) s = (Inr (), s1)"
    using c p by (simp add: update_status_cases s1_def allowed_transitions_def oc_valid_statuses_def)
  obtain j1 s2 l1 where a1: "audit_as ac i ''APPROVED'' None (Some [(''policy_version'', JStr (rr_policy_version risk))]) s1 =
      (Inr j1, s2)" and s2: "s2 = s1\<lparr>sn_audits := sn_audits s1 @ [l1]\<rparr>"
    using audit_as_ok [where e = "''APPROVED''" and i = i and r = None and s = s1,
        OF ac _ clean_policy(1) [of "JStr (rr_policy_version risk)"]] by (auto simp: valid_event_types_def)
  let ?d = "advance (sn_now s) ''APPROVED'' None (ac_user_id ac) c"
  have d: "t_get oc_id i (sn_candidates s2) = Some ?d" using c by (simp add: s2 s1_def t_get_upd)
  obtain sub s3 new where f: "forward_to_broker cfg i s2 = (Inr sub, s3)" and s3: "s3 = s2\<lparr>sn_orders := sn_orders s2 @ new\<rparr>"
    using forward_ok [OF _ d, of cfg] ok pa
    by (auto simp: s2 s1_def paper_accepts_def submit_accepts_def advance_def)
  define s4 where "s4 = set_cand i (\<lambda>c. c\<lparr>oc_virtual_order_id := Some (sr_order sub), oc_updated_at := sn_now s3\<rparr>) s3"
  have a: "attach_virtual_order i (sr_order sub) s3 = (Inr (), s4)"
    using d assms(8) by (simp add: attach_order_cases s4_def s3)
  obtain s5 where u2: "candidate_update_status i ''EXECUTED_PAPER'' None None s4 = (Inr (), s5)"
    using d by (simp add: update_status_cases s4_def s3 allowed_transitions_def oc_valid_statuses_def t_get_upd)
  obtain j2 l2 where a2: "audit_as ac i ''EXECUTED_PAPER'' None (Some [(''virtual_order_id'', JInt (sr_order sub)),
       (''deduplicated'', JBool (sr_deduplicated sub))]) s5 = (Inr j2, s5\<lparr>sn_audits := sn_audits s5 @ [l2]\<rparr>)"
    using audit_as_ok [where e = "''EXECUTED_PAPER''" and i = i and r = None and s = s5,
        OF ac _ clean_policy(5) [of "JInt (sr_order sub)" "JBool (sr_deduplicated sub)"]]
    by (auto simp: valid_event_types_def)
  show ?thesis
    using assms(1) p kill
    by (simp add: approve_def assert_workflow_active_def assert_kill_switch_off_def sbind_app srequire_app now
        candidate_get_by_id_def sgets_app c id sret_app risk u1 a1 f a u2 a2)
qed

text \<open>
  C10. An approval succeeds exactly when it should: for a pending candidate without a linked
  order, \<open>approve\<close> returns if and only if the workflow is active, all seven risk conditions
  hold at that moment and the paper broker accepts the order (paper trading is on and the
  side, quantity, symbol and limit are valid).
\<close>

theorem approve_succeeds_iff:
  assumes "broker_ok s" and "actor_ok ac" and "t_get oc_id i (sn_candidates s) = Some c"
    and "oc_status c = ''PENDING_APPROVAL''" and "oc_virtual_order_id c = None"
  shows "(\<exists>r s'. approve cfg i ac now s = (Inr r, s')) \<longleftrightarrow>
    cfg_trading_safety_enabled cfg \<and> risk_ok cfg s c (eval_time s now) \<and> paper_accepts cfg s c"
proof
  assume r: "cfg_trading_safety_enabled cfg \<and> risk_ok cfg s c (eval_time s now) \<and> paper_accepts cfg s c"
  show "\<exists>r s'. approve cfg i ac now s = (Inr r, s')"
    by (rule approve_succeeds [where c = c]) (use r assms broker_ok_orders in auto)
next
  assume "\<exists>r s'. approve cfg i ac now s = (Inr r, s')"
  then obtain r s' where "approve cfg i ac now s = (Inr r, s')" by blast
  then obtain c' and risk :: risk_result and s1 s2 s3 s4 s5 sub x1 x2 x4 x5 x6 where
    pre: "cfg_trading_safety_enabled cfg" "t_get oc_id i (sn_candidates s) = Some c'" "risk_ok cfg s c' (eval_time s now)"
    and u1: "candidate_update_status i ''APPROVED'' None (ac_user_id ac) s = (Inr x1, s1)"
    and a1: "audit_as ac i ''APPROVED'' None (Some [(''policy_version'', JStr (rr_policy_version risk))]) s1 = (Inr x2, s2)"
    and f: "forward_to_broker cfg i s2 = (Inr sub, s3)"
    by (rule approve_steps) blast
  have c: "c' = c" using pre(2) assms(3) by simp
  from u1 have s1: "s1 = set_cand i (advance (sn_now s) ''APPROVED'' None (ac_user_id ac)) s"
    by (elim update_status_InrE)
  from a1 obtain l where s2: "s2 = s1\<lparr>sn_audits := sn_audits s1 @ [l]\<rparr>" by (rule audit_as_InrE)
  have "t_get oc_id i (sn_candidates s2) = Some (advance (sn_now s) ''APPROVED'' None (ac_user_id ac) c)"
    using assms(3) by (simp add: s2 s1 t_get_upd)
  with f obtain k m where "submit_order cfg (oc_account_id c) (oc_symbol c) (oc_side c)
      (PyInt (oc_quantity c)) (oc_order_type c) (map_option DecArg (oc_limit_price c)) k m s2 = (Inr sub, s3)"
    by (auto simp: forward_to_broker_def sbind_app row_of_app smap_err_app split: prod.splits sum.splits)
  then have "paper_accepts cfg s2 c"
    unfolding paper_accepts_def using submit_order_refused [where s = s2] by (metis old.sum.distinct(1) prod.inject)
  then have "paper_accepts cfg s c"
    by (simp add: paper_accepts_def submit_accepts_def s2 s1)
  with pre c show "cfg_trading_safety_enabled cfg \<and> risk_ok cfg s c (eval_time s now) \<and> paper_accepts cfg s c"
    by simp
qed

lemma demo_workflow_ok: "broker_ok demo_workflow" "keys_ok demo_workflow"
  by (auto simp: demo_workflow_def demo_candidate_def keys_ok_def broker_ok_def demo_ledger_def demo_account_def
      empty_session_def ledger_ok_def accounts_ok_def positions_ok_def fills_ok_def orders_ok_def fills_match_def
      replayed_def replay_cash_def replay_holding_def book_holding_def row_holding_def find_position_def)

lemma demo_risk_ok: "risk_ok demo_settings demo_workflow demo_candidate (eval_time demo_workflow None)"
  by (simp add: risk_ok_def demo_settings_def demo_workflow_def demo_candidate_def account_enabled_def
      demo_ledger_def demo_account_def empty_session_def t_get_def symbol_exposure_def day_exposure_def
      ratio_holds_def loss_holds_def no_duplicate_def estimate_total_account_value_def latest_pnl_snapshot_def
      estimate_position_market_value_def find_position_def dec_eval)

lemma demo_paper_accepts: "paper_accepts demo_settings demo_workflow demo_candidate"
  by (simp add: paper_accepts_def submit_accepts_def demo_settings_def demo_workflow_def demo_candidate_def
      demo_ledger_def demo_account_def t_get_def submit_limit_def py_strip_def is_space_def)

lemma demo_candidate_get: "t_get oc_id 7 (sn_candidates demo_workflow) = Some demo_candidate"
  "oc_status demo_candidate = ''PENDING_APPROVAL''" "oc_virtual_order_id demo_candidate = None"
  by (simp_all add: demo_workflow_def demo_candidate_def t_get_def)

theorem approve_succeeds_iff_witness:
  "\<exists>r s'. approve demo_settings 7 demo_actor None demo_workflow = (Inr r, s')"
  using approve_succeeds_iff [OF demo_workflow_ok(1) demo_actor_ok demo_candidate_get, of demo_settings None]
    demo_risk_ok demo_paper_accepts
  by (simp add: demo_settings_def)

theorem approve_executes_on_paper_witness:
  "\<exists>r s' l m v. approve demo_settings 7 demo_actor None demo_workflow = (Inr r, s') \<and>
     sn_audits s' = sn_audits demo_workflow @ [l, m] \<and> al_event_type m = ''EXECUTED_PAPER'' \<and>
     sn_orders s' = [v] \<and> vo_symbol v = ''005930'' \<and> vo_quantity v = 10"
proof -
  obtain r s' where a: "approve demo_settings 7 demo_actor None demo_workflow = (Inr r, s')"
    using approve_succeeds [OF _ demo_candidate_get(1,2) demo_risk_ok demo_paper_accepts broker_ok_orders
        [OF demo_workflow_ok(1)] demo_actor_ok demo_candidate_get(3)]
    by (auto simp: demo_settings_def)
  from approve_executes_on_paper [OF demo_workflow_ok a] show ?thesis
    by (auto simp: a demo_candidate_get approval_event_def)
      (auto simp: demo_workflow_def demo_ledger_def empty_session_def demo_candidate_def)
qed

end
