(* ===== verification/Exposure.thy ===== *)
theory Exposure
  imports Approval_Outcome
begin

text \<open>
  What creating a candidate does, and the cap on the active exposure: the total amount of the
  active candidates of an account on a symbol never exceeds \<open>max_order_amount\<close>.
\<close>

subsection \<open>Creating a candidate\<close>

definition limit_as :: "string \<Rightarrow> dec_arg option \<Rightarrow> decimal option \<Rightarrow> bool" where
  "limit_as ot lp l \<longleftrightarrow> (if ot = ''LIMIT'' then \<exists>k. lp = Some (DecArg k) \<and> 0 < k \<and> l = Some k else l = None)"

definition requested ::
  "int \<Rightarrow> string \<Rightarrow> string \<Rightarrow> string \<Rightarrow> int_arg \<Rightarrow> string \<Rightarrow> dec_arg option \<Rightarrow> dec_arg \<Rightarrow>
   int option \<Rightarrow> int option \<Rightarrow> order_candidate \<Rightarrow> bool" where
  "requested a src y side q ot lp amt ref ex c \<longleftrightarrow> oc_account_id c = a \<and> oc_source c = src \<and>
     oc_symbol c = py_upper (py_strip y) \<and> oc_side c = side \<and> q = PyInt (oc_quantity c) \<and>
     0 < oc_quantity c \<and> oc_order_type c = ot \<and>
     limit_as ot lp (oc_limit_price c) \<and>
     amt = DecArg (oc_estimated_amount c) \<and> 0 \<le> oc_estimated_amount c \<and>
     oc_source_ref_id c = ref \<and> oc_expires_at c = ex"

text \<open>What \<open>create\<close> checks.\<close>

definition limit_valid :: "string \<Rightarrow> dec_arg option \<Rightarrow> bool" where
  "limit_valid ot lp \<longleftrightarrow> ot = ''LIMIT'' \<longrightarrow> (case lp of Some (DecArg l) \<Rightarrow> 0 < l | _ \<Rightarrow> False)"

definition request_valid ::
  "string \<Rightarrow> string \<Rightarrow> string \<Rightarrow> int_arg \<Rightarrow> string \<Rightarrow> dec_arg option \<Rightarrow> dec_arg \<Rightarrow> bool" where
  "request_valid src y side q ot lp amt \<longleftrightarrow>
     src \<in> set [''MANUAL'', ''PAPER'', ''RECOMMENDATION'', ''STRATEGY''] \<and> side \<in> set [''BUY'', ''SELL''] \<and>
     ot \<in> set [''LIMIT'', ''MARKET''] \<and> (case q of PyInt n \<Rightarrow> 0 < n | _ \<Rightarrow> False) \<and> py_strip y \<noteq> [] \<and>
     limit_valid ot lp \<and> (case amt of DecArg d \<Rightarrow> 0 \<le> d | BadDec \<Rightarrow> False)"

lemma candidate_create_cases:
  obtains (refused) e where "candidate_create a src y side q ot lp amt ref ex ''DRAFT'' s = (Inl e, s)"
      "\<not> request_valid src y side q ot lp amt"
    | (added) c where "candidate_create a src y side q ot lp amt ref ex ''DRAFT'' s =
        (Inr (oc_id c), s\<lparr>sn_candidates := sn_candidates s @ [c]\<rparr>)"
      "requested a src y side q ot lp amt ref ex c" "oc_id c = t_next oc_id (sn_candidates s)"
      "oc_status c = ''DRAFT''" "oc_virtual_order_id c = None" "oc_created_at c = sn_now s"
      "request_valid src y side q ot lp amt"
proof -
  obtain x t where x: "candidate_create a src y side q ot lp amt ref ex ''DRAFT'' s = (x, t)" by fastforce
  obtain k where lim: "candidate_limit ot lp s = (k, s)" and k: "\<And>l. k = Inr l \<Longrightarrow> limit_as ot lp l"
    and lv: "limit_valid ot lp \<longleftrightarrow> (\<exists>l. k = Inr l)"
  proof -
    have "snd (candidate_limit ot lp s) = s \<and> (\<forall>l. fst (candidate_limit ot lp s) = Inr l \<longrightarrow> limit_as ot lp l) \<and>
        (limit_valid ot lp \<longleftrightarrow> (\<exists>l. fst (candidate_limit ot lp s) = Inr l))"
      by (auto simp: limit_as_def limit_valid_def candidate_limit_def monad_simps dec_of_def split: option.splits dec_arg.splits)
    then show thesis using that by (metis prod.collapse)
  qed
  have none: "x = Inl e \<Longrightarrow> t = s \<and> \<not> request_valid src y side q ot lp amt" for e
    using x by (cases q; cases amt)
      (auto simp: candidate_create_def monad_simps lim lv request_valid_def oc_valid_sources_def oc_valid_sides_def
        oc_valid_order_types_def oc_valid_statuses_def split: if_splits sum.splits)
  have one: "\<exists>c. t = s\<lparr>sn_candidates := sn_candidates s @ [c]\<rparr> \<and> i = oc_id c \<and>
      requested a src y side q ot lp amt ref ex c \<and> oc_id c = t_next oc_id (sn_candidates s) \<and>
      oc_status c = ''DRAFT'' \<and> oc_virtual_order_id c = None \<and> oc_created_at c = sn_now s \<and>
      request_valid src y side q ot lp amt" if "x = Inr i" for i
  proof -
    from x [unfolded that] obtain n where n: "q = PyInt n"
      by (cases q) (simp_all add: candidate_create_def monad_simps split: if_splits)
    from x [unfolded that] lim obtain l where l: "k = Inr l"
      by (cases k) (simp_all add: candidate_create_def monad_simps n split: if_splits)
    from x [unfolded that] lim obtain d where d: "amt = DecArg d"
      by (cases amt) (simp_all add: candidate_create_def monad_simps n l split: if_splits)
    define c where "c = \<lparr>oc_id = t_next oc_id (sn_candidates s), oc_account_id = a, oc_source = src,
      oc_source_ref_id = ref, oc_symbol = py_upper (py_strip y), oc_side = side, oc_quantity = n,
      oc_order_type = ot, oc_limit_price = l, oc_estimated_amount = d, oc_status = ''DRAFT'',
      oc_risk_check_result = None, oc_approver_user_id = None, oc_rejection_reason = None,
      oc_expires_at = ex, oc_virtual_order_id = None, oc_created_at = sn_now s, oc_updated_at = sn_now s\<rparr>"
    from x [unfolded that] lim have v: "0 < n" "0 \<le> d" "src \<in> set oc_valid_sources" "side \<in> set oc_valid_sides"
        "ot \<in> set oc_valid_order_types" "py_strip y \<noteq> []"
      and t: "t = s\<lparr>sn_candidates := sn_candidates s @ [c]\<rparr>" "i = t_next oc_id (sn_candidates s)"
      by (auto simp: candidate_create_def monad_simps n l d c_def split: if_splits)
    have "limit_as ot lp l" using l by (rule k)
    then have "requested a src y side q ot lp amt ref ex c" "oc_id c = t_next oc_id (sn_candidates s)"
      "oc_status c = ''DRAFT''" "oc_virtual_order_id c = None" "oc_created_at c = sn_now s"
      using v by (simp_all add: requested_def c_def n d)
    moreover have "request_valid src y side q ot lp amt"
      using v lv l by (simp add: request_valid_def n d oc_valid_sources_def oc_valid_sides_def oc_valid_order_types_def)
    ultimately show ?thesis using t by (intro exI [of _ c] conjI) simp_all
  qed
  show thesis
  proof (cases x)
    case (Inl e)
    with x none [OF Inl] show thesis by (intro refused) auto
  next
    case (Inr i)
    from one [OF Inr] obtain c where c: "t = s\<lparr>sn_candidates := sn_candidates s @ [c]\<rparr>" "i = oc_id c"
      "requested a src y side q ot lp amt ref ex c" "oc_id c = t_next oc_id (sn_candidates s)"
      "oc_status c = ''DRAFT''" "oc_virtual_order_id c = None" "oc_created_at c = sn_now s"
      "request_valid src y side q ot lp amt" by blast
    show thesis by (rule added [OF _ c(3-8)]) (use x Inr c(1,2) in simp)
  qed
qed

text \<open>The risk conditions read only the request of the candidate and the other candidates.\<close>

definition others :: "int \<Rightarrow> session \<Rightarrow> order_candidate list" where
  "others i s = filter (\<lambda>d. oc_id d \<noteq> i) (sn_candidates s)"

lemma others_filter: "filter (\<lambda>d. P d \<and> oc_id d \<noteq> i \<and> Q d) (sn_candidates s) = filter (\<lambda>d. P d \<and> Q d) (others i s)"
  unfolding others_def filter_filter by (rule filter_cong) auto

lemma risk_ok_cong:
  assumes "same_request c d" and "others (oc_id c) t = others (oc_id c) s"
    and "sn_accounts t = sn_accounts s" "sn_positions t = sn_positions s"
    "sn_snapshots t = sn_snapshots s" "sn_prices t = sn_prices s"
  shows "risk_ok cfg t d m = risk_ok cfg s c m"
proof -
  have c: "oc_id d = oc_id c" "oc_account_id d = oc_account_id c" "oc_symbol d = oc_symbol c"
    "oc_side d = oc_side c" "oc_quantity d = oc_quantity c" "oc_estimated_amount d = oc_estimated_amount c"
    using assms(1) by (simp_all add: same_request_def)
  have dup: "no_duplicate u e m \<longleftrightarrow> \<not> (\<exists>x \<in> set (others (oc_id e) u). is_active x \<and> same_order e x \<and>
      m - 300000000 < oc_created_at x)" for u e
    by (auto simp: no_duplicate_def others_def)
  have "same_order d = same_order c" by (intro ext) (simp add: same_order_def c)
  then have dup_eq: "no_duplicate t d m = no_duplicate s c m" by (simp add: dup c assms(2))
  have "latest_bar t = latest_bar s"
    by (intro ext) (simp add: latest_bar_def assms(6))
  then have e1: "estimate_position_market_value t = estimate_position_market_value s"
    by (intro ext) (simp only: estimate_position_market_value_def assms(4))
  have e2: "latest_pnl_snapshot t = latest_pnl_snapshot s"
    by (intro ext) (simp add: latest_pnl_snapshot_def assms(5))
  then have e3: "estimate_total_account_value t = estimate_total_account_value s"
    by (intro ext) (simp only: estimate_total_account_value_def)
  show ?thesis
    unfolding risk_ok_def symbol_exposure_def day_exposure_def others_filter ratio_holds_def loss_holds_def
      account_enabled_def c assms(2,3) e1 e2 e3
    by (simp add: dup_eq)
qed

lemma others_fresh: "i = t_next oc_id (sn_candidates s) \<Longrightarrow> others i s = sn_candidates s"
  using t_next_gt [of _ "sn_candidates s" oc_id] unfolding others_def by (fastforce intro: filter_True)

lemma others_eq [simp]:
  "(\<And>c. oc_id (f c) = oc_id c) \<Longrightarrow> others i (set_cand i f s) = others i s"
  "others i (s\<lparr>sn_audits := l\<rparr>) = others i s"
  by (auto simp: others_def t_upd_def filter_map o_def intro!: map_idI filter_cong)

lemma set_cand_last:
  assumes "i = t_next oc_id cs" and "oc_id c = i" and "sn_candidates s = cs @ [c]"
  shows "sn_candidates (set_cand i f s) = cs @ [f c]"
proof -
  have "t_upd oc_id i f cs = cs" using assms(1) by (intro t_upd_id) simp
  then show ?thesis using assms by (simp add: t_upd_def)
qed

text \<open>The part of \<open>create_candidate\<close> after the row is written.\<close>

definition create_rest :: "settings \<Rightarrow> string \<Rightarrow> actor \<Rightarrow> int \<Rightarrow> int \<Rightarrow> create_candidate_result db" where
  "create_rest cfg source ac evaluated_at i =
     sbind (row_of sn_candidates oc_id i) (\<lambda>c.
     sbind (audit_as ac i ''CREATED'' None
              (Some [(''source'', JStr source), (''symbol'', JStr (oc_symbol c))])) (\<lambda>_.
     sbind (candidate_update_status i ''RISK_CHECKING'' None None) (\<lambda>_.
     sbind (row_of sn_candidates oc_id i) (\<lambda>c.
     sbind (evaluate cfg c (Some evaluated_at)) (\<lambda>risk.
     sbind (attach_risk_result i risk) (\<lambda>_.
     sbind (audit_as ac i ''RISK_CHECKED'' None
              (Some [(''policy_version'', JStr (rr_policy_version risk)),
                     (''passed'', JBool (rr_passed risk)), rule_ids_json risk])) (\<lambda>_.
     sbind
       (if rr_passed risk
        then candidate_update_status i ''PENDING_APPROVAL'' None None
        else
          sbind (candidate_update_status i ''RISK_REJECTED'' (Some (format_violations risk)) None) (\<lambda>_.
          sbind (audit_as ac i ''RISK_REJECTED'' (Some (format_violations risk))
                   (Some [(''policy_version'', JStr (rr_policy_version risk)), rule_ids_json risk])) (\<lambda>_.
          sret ()))) (\<lambda>_.
     sret \<lparr>cr_candidate = i, cr_risk_result = risk, cr_risk_passed = rr_passed risk\<rparr>))))))))"

lemma create_rest_decides:
  assumes ac: "actor_ok ac" and i: "oc_id c = i" "i = t_next oc_id (sn_candidates s)" and d: "oc_status c = ''DRAFT''"
  shows "\<exists>r c' new s'. create_rest cfg src ac m i (s\<lparr>sn_candidates := sn_candidates s @ [c]\<rparr>) = (Inr r, s') \<and>
    s' = s\<lparr>sn_candidates := sn_candidates s @ [c'], sn_audits := sn_audits s @ new\<rparr> \<and>
    same_request c c' \<and> cr_candidate r = i \<and> (cr_risk_passed r \<longleftrightarrow> risk_ok cfg s c m) \<and>
    oc_status c' = (if cr_risk_passed r then ''PENDING_APPROVAL'' else ''RISK_REJECTED'') \<and>
    (\<forall>l \<in> set new. al_candidate_id l = i) \<and>
    map al_event_type new = [''CREATED'', ''RISK_CHECKED''] @ (if cr_risk_passed r then [] else [''RISK_REJECTED''])"
proof -
  define s1 where "s1 = s\<lparr>sn_candidates := sn_candidates s @ [c]\<rparr>"
  have g1: "t_get oc_id i (sn_candidates s1) = Some c" by (simp add: s1_def t_get_append i)
  obtain j1 l1 where a1: "audit_as ac i ''CREATED'' None (Some [(''source'', JStr src), (''symbol'', JStr (oc_symbol c))]) s1 =
      (Inr j1, s1\<lparr>sn_audits := sn_audits s1 @ [l1]\<rparr>)" and l1: "approval_event ''CREATED'' i ac l1"
    using audit_as_ok [where e = "''CREATED''" and i = i and r = None and s = s1,
        OF ac _ clean_policy(6) [of "JStr src" "JStr (oc_symbol c)"]] by (auto simp: valid_event_types_def)
  define s2 where "s2 = s1\<lparr>sn_audits := sn_audits s1 @ [l1]\<rparr>"
  define c1 where "c1 = advance (sn_now s2) ''RISK_CHECKING'' None None c"
  define s3 where "s3 = set_cand i (advance (sn_now s2) ''RISK_CHECKING'' None None) s2"
  have u1: "candidate_update_status i ''RISK_CHECKING'' None None s2 = (Inr (), s3)"
    unfolding s3_def by (rule update_status_ok [of _ _ c]) (simp_all add: s2_def g1 d allowed_transitions_def)
  have g3: "t_get oc_id i (sn_candidates s3) = Some c1" by (simp add: s3_def t_get_upd s2_def g1 c1_def)
  obtain risk where risk: "evaluate cfg c1 (Some m) s3 = (Inr risk, s3)" "rr_passed risk \<longleftrightarrow> risk_ok cfg s3 c1 m"
    using evaluate_passed [of cfg c1 "Some m" s3] by (cases "evaluate cfg c1 (Some m) s3") (auto simp: eval_time_def)
  have "others i s3 = others i s" by (simp add: s3_def s2_def s1_def) (simp add: others_def i(1))
  then have rk: "rr_passed risk \<longleftrightarrow> risk_ok cfg s c m"
    unfolding risk(2) by (intro risk_ok_cong) (simp_all add: c1_def same_request_def advance_def i(1) s3_def s2_def s1_def)
  define s4 where "s4 = set_cand i (\<lambda>c. c\<lparr>oc_risk_check_result := Some risk, oc_updated_at := sn_now s3\<rparr>) s3"
  have r4: "attach_risk_result i risk s3 = (Inr (), s4)"
    by (simp add: attach_risk_result_def monad_simps upd_candidate_def s4_def set_cand_def)
  obtain j2 l2 where a2: "audit_as ac i ''RISK_CHECKED'' None (Some [(''policy_version'', JStr (rr_policy_version risk)),
      (''passed'', JBool (rr_passed risk)), rule_ids_json risk]) s4 =
      (Inr j2, s4\<lparr>sn_audits := sn_audits s4 @ [l2]\<rparr>)" and l2: "approval_event ''RISK_CHECKED'' i ac l2"
    using audit_as_ok [where e = "''RISK_CHECKED''" and i = i and r = None and s = s4,
        OF ac _ clean_policy(4) [of "JStr (rr_policy_version risk)" "JBool (rr_passed risk)" risk]]
    by (auto simp: valid_event_types_def)
  define s5 where "s5 = s4\<lparr>sn_audits := sn_audits s4 @ [l2]\<rparr>"
  define c4 where "c4 = c1\<lparr>oc_risk_check_result := Some risk, oc_updated_at := sn_now s3\<rparr>"
  have g5: "t_get oc_id i (sn_candidates s5) = Some c4" "oc_status c4 = ''RISK_CHECKING''"
    by (simp_all add: s5_def s4_def t_get_upd g3 c4_def c1_def)
  have cs5: "sn_candidates s5 = sn_candidates s @ [c4]" "oc_id c4 = i"
  proof -
    have "sn_candidates s3 = sn_candidates s @ [c1]"
      unfolding s3_def c1_def by (rule set_cand_last [OF i(2,1)]) (simp add: s2_def s1_def)
    then show "sn_candidates s5 = sn_candidates s @ [c4]"
      unfolding s5_def s4_def c4_def by (simp add: set_cand_last [OF i(2), of c1] c1_def i(1) del: set_cand_sel)
  qed (simp add: c4_def c1_def i(1))
  have au5: "sn_audits s5 = sn_audits s @ [l1, l2]" by (simp add: s5_def s4_def s3_def s2_def s1_def)
  have fr5: "s5 = s\<lparr>sn_candidates := sn_candidates s @ [c4], sn_audits := sn_audits s @ [l1, l2]\<rparr>"
    unfolding cs5(1) [symmetric] au5 [symmetric] by (simp add: s5_def s4_def s3_def s2_def s1_def set_cand_def)
  have req: "same_request c c4" by (simp add: c4_def c1_def same_request_def advance_def)
  have mark: "set_cand i (advance m' st r u) s5 =
      s\<lparr>sn_candidates := sn_candidates s @ [advance m' st r u c4], sn_audits := sn_audits s @ [l1, l2]\<rparr>" for m' st r u
    using set_cand_last [OF i(2) cs5(2,1), of "advance m' st r u"] by (simp add: set_cand_def fr5)
  have run: "create_rest cfg src ac m i s1 = (case (if rr_passed risk
        then candidate_update_status i ''PENDING_APPROVAL'' None None
        else
          sbind (candidate_update_status i ''RISK_REJECTED'' (Some (format_violations risk)) None) (\<lambda>_.
          sbind (audit_as ac i ''RISK_REJECTED'' (Some (format_violations risk))
                   (Some [(''policy_version'', JStr (rr_policy_version risk)), rule_ids_json risk])) (\<lambda>_.
          sret ()))) s5 of (x, t) \<Rightarrow> (case x of Inl e \<Rightarrow> (Inl e, t)
            | Inr _ \<Rightarrow> (Inr \<lparr>cr_candidate = i, cr_risk_result = risk, cr_risk_passed = rr_passed risk\<rparr>, t)))"
    by (simp add: create_rest_def sbind_app row_of_app sret_app g1 g3 a1 [folded s2_def] u1 risk(1) r4
        a2 [folded s5_def]) (auto simp: sret_app sbind_app split: prod.splits sum.splits)
  show ?thesis
  proof (cases "rr_passed risk")
    case True
    have "candidate_update_status i ''PENDING_APPROVAL'' None None s5 =
        (Inr (), set_cand i (advance (sn_now s5) ''PENDING_APPROVAL'' None None) s5)"
      by (rule update_status_ok [OF g5(1)]) (simp add: g5(2) allowed_transitions_def)
    with run True show ?thesis
      unfolding s1_def [symmetric] mark using l1 l2 rk req
      by (auto simp: approval_event_def same_request_def intro!: exI [of _ "advance (sn_now s5) ''PENDING_APPROVAL'' None None c4"]
          exI [of _ "[l1, l2]"])
  next
    case False
    let ?adv = "advance (sn_now s5) ''RISK_REJECTED'' (Some (format_violations risk)) None"
    let ?s6 = "set_cand i ?adv s5"
    have u: "candidate_update_status i ''RISK_REJECTED'' (Some (format_violations risk)) None s5 = (Inr (), ?s6)"
      by (rule update_status_ok [OF g5(1)]) (simp add: g5(2) allowed_transitions_def)
    obtain j3 l3 where a3: "audit_as ac i ''RISK_REJECTED'' (Some (format_violations risk))
        (Some [(''policy_version'', JStr (rr_policy_version risk)), rule_ids_json risk]) ?s6 =
        (Inr j3, ?s6\<lparr>sn_audits := sn_audits ?s6 @ [l3]\<rparr>)" and l3: "approval_event ''RISK_REJECTED'' i ac l3"
      using audit_as_ok [where e = "''RISK_REJECTED''" and i = i and r = "Some (format_violations risk)" and s = ?s6,
          OF ac _ clean_policy(2) [of "JStr (rr_policy_version risk)" risk]] by (auto simp: valid_event_types_def)
    have same: "same_request c (?adv c4)" using req by (simp add: same_request_def)
    have logs: "\<forall>l \<in> set [l1, l2, l3]. al_candidate_id l = i"
      "map al_event_type [l1, l2, l3] = [''CREATED'', ''RISK_CHECKED'', ''RISK_REJECTED'']"
      using l1 l2 l3 by (simp_all add: approval_event_def)
    have "create_rest cfg src ac m i s1 = (Inr \<lparr>cr_candidate = i, cr_risk_result = risk, cr_risk_passed = False\<rparr>,
        s\<lparr>sn_candidates := sn_candidates s @ [?adv c4], sn_audits := sn_audits s @ [l1, l2, l3]\<rparr>)"
      using run False by (simp add: sbind_app sret_app u a3) (simp add: mark au5)
    then show ?thesis
      using False logs same rk unfolding s1_def [symmetric]
      by (intro exI conjI) (assumption | simp)+
  qed
qed

lemma create_candidate_effect:
  assumes "actor_ok ac"
    and "create_candidate cfg a src y side q ot lp amt ref ttl ac now s = (x, s')"
  shows "case x of
      Inl e \<Rightarrow> s' = s \<and> \<not> (cfg_trading_safety_enabled cfg \<and> \<not> cfg_kill_switch_enabled cfg \<and>
        request_valid src y side q ot lp amt)
    | Inr r \<Rightarrow> cfg_trading_safety_enabled cfg \<and> \<not> cfg_kill_switch_enabled cfg \<and>
       (\<exists>c new ex. sn_candidates s' = sn_candidates s @ [c] \<and> oc_id c = cr_candidate r \<and>
          oc_id c = t_next oc_id (sn_candidates s) \<and>
          requested a src y side q ot lp amt ref (Some ex) c \<and>
          (cr_risk_passed r \<longleftrightarrow> risk_ok cfg s c (eval_time s now)) \<and>
          oc_status c = (if cr_risk_passed r then ''PENDING_APPROVAL'' else ''RISK_REJECTED'') \<and>
          sn_audits s' = sn_audits s @ new \<and> (\<forall>l \<in> set new. al_candidate_id l = oc_id c) \<and>
          map al_event_type new = [''CREATED'', ''RISK_CHECKED''] @ (if cr_risk_passed r then [] else [''RISK_REJECTED'']) \<and>
          s' = s\<lparr>sn_candidates := sn_candidates s', sn_audits := sn_audits s'\<rparr>)"
proof -
  have now: "(case now of None \<Rightarrow> utc_now | Some t \<Rightarrow> sret t) s = (Inr (eval_time s now), s)"
    by (cases now) (simp_all add: eval_time_def monad_simps)
  let ?ex = "eval_time s now + (case ttl of None \<Rightarrow> default_ttl | Some d \<Rightarrow> if d = 0 then default_ttl else d)"
  consider (off) "\<not> cfg_trading_safety_enabled cfg \<or> cfg_kill_switch_enabled cfg"
    | (on) "cfg_trading_safety_enabled cfg" "\<not> cfg_kill_switch_enabled cfg" by blast
  then show ?thesis
  proof cases
    case off
    with assms(2) have "s' = s" "\<exists>e. x = Inl e"
      by (auto simp: create_candidate_def assert_workflow_active_def Let_def sbind_app srequire_app now split: if_splits)
    with off show ?thesis by auto
  next
    case on
    show ?thesis
    proof (rule candidate_create_cases [of a src y side q ot lp amt ref "Some ?ex" s])
      fix e assume "candidate_create a src y side q ot lp amt ref (Some ?ex) ''DRAFT'' s = (Inl e, s)"
        "\<not> request_valid src y side q ot lp amt"
      with on assms(2) show ?thesis
        by (auto simp: create_candidate_def assert_workflow_active_def Let_def sbind_app srequire_app now)
    next
      fix c
      assume c: "candidate_create a src y side q ot lp amt ref (Some ?ex) ''DRAFT'' s =
          (Inr (oc_id c), s\<lparr>sn_candidates := sn_candidates s @ [c]\<rparr>)"
        "requested a src y side q ot lp amt ref (Some ?ex) c" "oc_id c = t_next oc_id (sn_candidates s)"
        "oc_status c = ''DRAFT''"
      have "create_rest cfg src ac (eval_time s now) (oc_id c) (s\<lparr>sn_candidates := sn_candidates s @ [c]\<rparr>) = (x, s')"
        using assms(2) on
        by (simp add: create_candidate_def create_rest_def assert_workflow_active_def Let_def
            sbind_app [of "srequire b e" for b e] srequire_app now c(1)
            sbind_app [of "case now of None \<Rightarrow> utc_now | Some t \<Rightarrow> sret t"]
            sbind_app [of "candidate_create a src y side q ot lp amt ref ex st" for ex st])
      with create_rest_decides [OF assms(1) refl c(3,4), of cfg src "eval_time s now"]
      obtain r c' new where x: "x = Inr r"
        and s': "s' = s\<lparr>sn_candidates := sn_candidates s @ [c'], sn_audits := sn_audits s @ new\<rparr>"
        and same: "same_request c c'" and rest: "cr_candidate r = oc_id c"
          "cr_risk_passed r \<longleftrightarrow> risk_ok cfg s c (eval_time s now)"
          "oc_status c' = (if cr_risk_passed r then ''PENDING_APPROVAL'' else ''RISK_REJECTED'')"
          "\<forall>l \<in> set new. al_candidate_id l = oc_id c"
          "map al_event_type new = [''CREATED'', ''RISK_CHECKED''] @ (if cr_risk_passed r then [] else [''RISK_REJECTED''])"
        by fastforce
      have "risk_ok cfg s c' (eval_time s now) = risk_ok cfg s c (eval_time s now)"
        by (rule risk_ok_cong [OF same]) (rule refl)+
      moreover have "requested a src y side q ot lp amt ref (Some ?ex) c'" "oc_id c' = oc_id c"
        using c(2) same by (simp_all add: requested_def same_request_def)
      ultimately show ?thesis
        unfolding x sum.case using on rest c(3)
        by (intro conjI exI [of _ c'] exI [of _ new] exI [of _ ?ex]) (simp_all add: s')
    qed
  qed
qed

text \<open>
  C11. Creating a candidate is all or nothing and follows the risk engine: a refused request
  writes nothing, and only an inactive workflow, the kill switch or an invalid field refuses
  one. An accepted request
  appends exactly one candidate with the requested fields to the table, with status
  \<open>PENDING_APPROVAL\<close> if all seven risk conditions hold for it and \<open>RISK_REJECTED\<close> otherwise,
  as the result reports; it logs \<open>CREATED\<close>, \<open>RISK_CHECKED\<close> and, on rejection,
  \<open>RISK_REJECTED\<close> for it, and writes nothing else.
\<close>

theorem create_candidate_decides:
  assumes "actor_ok ac"
    and "create_candidate cfg a src y side q ot lp amt ref ttl ac now s = (x, s')"
  shows "case x of
      Inl e \<Rightarrow> s' = s \<and> \<not> (cfg_trading_safety_enabled cfg \<and> \<not> cfg_kill_switch_enabled cfg \<and>
        request_valid src y side q ot lp amt)
    | Inr r \<Rightarrow> cfg_trading_safety_enabled cfg \<and> \<not> cfg_kill_switch_enabled cfg \<and>
       (\<exists>c new ex. sn_candidates s' = sn_candidates s @ [c] \<and> oc_id c = cr_candidate r \<and>
          oc_id c = t_next oc_id (sn_candidates s) \<and>
          requested a src y side q ot lp amt ref (Some ex) c \<and>
          (cr_risk_passed r \<longleftrightarrow> risk_ok cfg s c (eval_time s now)) \<and>
          oc_status c = (if cr_risk_passed r then ''PENDING_APPROVAL'' else ''RISK_REJECTED'') \<and>
          sn_audits s' = sn_audits s @ new \<and> (\<forall>l \<in> set new. al_candidate_id l = oc_id c) \<and>
          map al_event_type new = [''CREATED'', ''RISK_CHECKED''] @ (if cr_risk_passed r then [] else [''RISK_REJECTED'']) \<and>
          s' = s\<lparr>sn_candidates := sn_candidates s', sn_audits := sn_audits s'\<rparr>)"
  by (rule create_candidate_effect [OF assms])

subsection \<open>The cap on the active exposure\<close>

text \<open>An amount of money has at most four decimal places, like its column.\<close>

definition money :: "rat \<Rightarrow> bool" where
  "money x \<longleftrightarrow> (\<exists>n. x = of_int n / 10 ^ 4)"

definition exposure :: "session \<Rightarrow> int \<Rightarrow> string \<Rightarrow> rat" where
  "exposure s a y = sum_list (map oc_estimated_amount (filter (\<lambda>c. is_active c \<and>
     oc_account_id c = a \<and> oc_symbol c = y) (sn_candidates s)))"

definition amounts_ok :: "session \<Rightarrow> bool" where
  "amounts_ok s \<longleftrightarrow> (\<forall>c \<in> set (sn_candidates s). 0 \<le> oc_estimated_amount c \<and> money (oc_estimated_amount c))"

definition exposure_ok :: "settings \<Rightarrow> session \<Rightarrow> bool" where
  "exposure_ok cfg s \<longleftrightarrow> keys_ok s \<and> amounts_ok s \<and> (\<forall>a y. exposure s a y \<le> of_int (cfg_max_order_amount cfg))"

lemma money_add: "money x \<Longrightarrow> money y \<Longrightarrow> money (x + y)"
  by (auto simp: money_def) (metis add_divide_distrib of_int_add)

lemma money_fits: "money x \<Longrightarrow> 0 \<le> x \<Longrightarrow> x < 10 ^ 24 \<Longrightarrow> dec_round x = x"
proof -
  assume "money x" "0 \<le> x" "x < 10 ^ 24"
  then obtain n where n: "x = of_int n / 10 ^ 4" by (auto simp: money_def)
  with \<open>x < 10 ^ 24\<close> have "(of_int n :: rat) < of_int (10 ^ 28)" by (simp add: divide_less_eq)
  then have "n < 10 ^ 28" by (simp only: of_int_less_iff)
  moreover have "0 \<le> n" using \<open>0 \<le> x\<close> n by (simp add: zero_le_divide_iff)
  ultimately have "dec_fits 4 x" by (auto simp: dec_fits_def n)
  then show ?thesis by (intro dec_round_exact dec_fits_rep)
qed

lemma dsum_exact:
  "(\<And>x. x \<in> set xs \<Longrightarrow> 0 \<le> x \<and> money x) \<Longrightarrow> sum_list xs < 10 ^ 24 \<Longrightarrow>
   dsum xs = sum_list xs \<and> 0 \<le> sum_list xs \<and> money (sum_list xs)"
proof (induction xs rule: rev_induct)
  case Nil
  then show ?case by (simp add: money_def exI [of _ 0])
next
  case (snoc x xs)
  have "0 \<le> x" "money x" using snoc.prems(1) by simp_all
  moreover have "sum_list xs < 10 ^ 24" using snoc.prems(2) \<open>0 \<le> x\<close> by simp
  then have "dsum xs = sum_list xs \<and> 0 \<le> sum_list xs \<and> money (sum_list xs)"
    using snoc.prems(1) by (intro snoc.IH) simp_all
  moreover from this have "money (sum_list xs + x)" using \<open>money x\<close> by (intro money_add) auto
  ultimately show ?case
    using snoc.prems(2) by (simp add: dsum_snoc dadd_def money_fits)
qed

text \<open>Evolving candidates only leave the active ones.\<close>

lemma evolves_active: "evolves c d \<Longrightarrow> is_active d \<Longrightarrow> is_active c"
proof (rule ccontr)
  assume "evolves c d" "is_active d" "\<not> is_active c"
  then have "status_path (oc_status c) (oc_status d)" "allowed_transitions (oc_status c) = []"
    by (auto simp: evolves_def is_active_def allowed_transitions_def)
  then have "oc_status d = oc_status c"
    unfolding status_path_def by (intro cand.path_final)
  with \<open>is_active d\<close> \<open>\<not> is_active c\<close> show False by (simp add: is_active_def)
qed

lemma exposure_shrinks:
  assumes "list_all2 evolves cs ds" and "\<And>c. c \<in> set cs \<Longrightarrow> 0 \<le> oc_estimated_amount c"
  shows "sum_list (map oc_estimated_amount (filter (\<lambda>c. is_active c \<and> oc_account_id c = a \<and> oc_symbol c = y) ds)) \<le>
    sum_list (map oc_estimated_amount (filter (\<lambda>c. is_active c \<and> oc_account_id c = a \<and> oc_symbol c = y) cs))"
  using assms
proof (induction rule: list_all2_induct)
  case (Cons c cs d ds)
  have "oc_account_id d = oc_account_id c" "oc_symbol d = oc_symbol c" "oc_estimated_amount d = oc_estimated_amount c"
    using Cons.hyps(1) by (simp_all add: evolves_def same_request_def)
  moreover have "0 \<le> oc_estimated_amount c" using Cons.prems by simp
  ultimately show ?case
    using Cons.IH Cons.prems evolves_active [OF Cons.hyps(1)] by (auto intro: add_increasing)
qed simp

definition same_count :: "session \<Rightarrow> session \<Rightarrow> bool" where
  "same_count s t \<longleftrightarrow> length (sn_candidates t) = length (sn_candidates s)"

interpretation sc: db_relation same_count
  by unfold_locales (simp_all add: same_count_def)

lemma sc_update_status: "follows same_count (candidate_update_status i st r u)"
  by (rule followsI) (auto simp: update_status_cases same_count_def split: option.split)

lemma sc_attach: "follows same_count (attach_virtual_order i v)" "follows same_count (attach_risk_result i r)"
  by (auto simp: follows_def attach_order_cases same_count_def attach_risk_result_def monad_simps upd_candidate_def
      split: option.split)

lemma sc_audit: "follows same_count (audit_as ac i e r d)"
  unfolding audit_as_def audit_append_def
  by (intro sc.R_db sc.R_modify) (simp add: same_count_def)

lemma sc_evaluate: "follows same_count (evaluate cfg c now)"
proof (rule followsI)
  fix s
  from evaluate_app [of cfg c now s] show "same_count s (snd (evaluate cfg c now s))"
    by (auto simp: same_count_def)
qed

lemma sc_submit: "follows same_count (submit_order cfg a y side q ot lp key memo)"
  by (rule followsI) (simp add: same_count_def submit_same)

lemmas sc_rules = sc.R_db sc_update_status sc_attach sc_audit sc_evaluate sc_submit

lemma sc_operations:
  "follows same_count (approve cfg i ac now)" "follows same_count (reject cfg i ac reason)"
  "follows same_count (expire i ac)"
  unfolding approve_def reject_def expire_def assert_workflow_active_def assert_kill_switch_off_def
    candidate_get_by_id_def deny_recheck_def forward_to_broker_def candidate_reject_def candidate_expire_def
  by (intro sc_rules)+

lemma exposure_ok_shrink:
  assumes "exposure_ok cfg s" and "approval_step s t" and "same_count s t"
  shows "exposure_ok cfg t"
proof -
  from assms obtain old new where t: "sn_candidates t = old @ new" "list_all2 evolves (sn_candidates s) old"
    by (auto simp: approval_step_def exposure_ok_def cands_evolve_def)
  then have ev: "list_all2 evolves (sn_candidates s) (sn_candidates t)"
    using assms(3) by (simp add: same_count_def list_all2_lengthD)
  have am: "oc_estimated_amount d = oc_estimated_amount c" if "evolves c d" for c d
    using that by (simp add: evolves_def same_request_def)
  have "amounts_ok t"
    unfolding amounts_ok_def
  proof
    fix d assume "d \<in> set (sn_candidates t)"
    then obtain n where "n < length (sn_candidates t)" "d = sn_candidates t ! n" by (auto simp: in_set_conv_nth)
    then have "sn_candidates s ! n \<in> set (sn_candidates s)" "evolves (sn_candidates s ! n) d"
      using ev by (simp_all add: list_all2_conv_all_nth)
    with assms(1) show "0 \<le> oc_estimated_amount d \<and> money (oc_estimated_amount d)"
      by (auto simp: am exposure_ok_def amounts_ok_def)
  qed
  moreover have "exposure t a y \<le> exposure s a y" for a y
    unfolding exposure_def using assms(1) by (intro exposure_shrinks [OF ev]) (simp add: exposure_ok_def amounts_ok_def)
  then have "exposure t a y \<le> of_int (cfg_max_order_amount cfg)" for a y
    using assms(1) unfolding exposure_ok_def by (meson order_trans)
  ultimately show ?thesis
    using assms by (simp add: exposure_ok_def approval_step_def)
qed

text \<open>A new candidate that passed the engine keeps the cap.\<close>

lemma exposure_ok_create:
  assumes ok: "exposure_ok cfg s" and t: "sn_candidates t = sn_candidates s @ [c]" "keys_ok t"
    and c: "oc_id c = t_next oc_id (sn_candidates s)" "0 \<le> oc_estimated_amount c" "money (oc_estimated_amount c)"
      "oc_estimated_amount c < 10 ^ 23" and cap: "cfg_max_order_amount cfg < 10 ^ 23"
    and act: "is_active c \<Longrightarrow> risk_ok cfg s c m"
  shows "exposure_ok cfg t"
proof -
  let ?a = "oc_account_id c" and ?y = "oc_symbol c"
  have "exposure s ?a ?y \<le> of_int (cfg_max_order_amount cfg)" using ok by (simp add: exposure_ok_def)
  also have "(of_int (cfg_max_order_amount cfg) :: rat) < of_int (10 ^ 23)" using cap by (simp only: of_int_less_iff)
  finally have small: "exposure s ?a ?y < 10 ^ 23" by simp
  have fr: "others (oc_id c) s = sn_candidates s" using c(1) by (rule others_fresh)
  have "dsum (map oc_estimated_amount (filter (\<lambda>d. is_active d \<and> oc_account_id d = ?a \<and> oc_symbol d = ?y) (sn_candidates s))) =
      exposure s ?a ?y \<and> 0 \<le> exposure s ?a ?y \<and> money (exposure s ?a ?y)"
    unfolding exposure_def
  proof (rule dsum_exact)
    show "0 \<le> x \<and> money x"
      if "x \<in> set (map oc_estimated_amount (filter (\<lambda>d. is_active d \<and> oc_account_id d = ?a \<and> oc_symbol d = ?y) (sn_candidates s)))" for x
      using that ok by (auto simp: exposure_ok_def amounts_ok_def)
  qed (use small in \<open>simp add: exposure_def\<close>)
  then have sum: "symbol_exposure s c = exposure s ?a ?y" "0 \<le> exposure s ?a ?y" "money (exposure s ?a ?y)"
    unfolding symbol_exposure_def others_filter fr by simp_all
  have "dadd (exposure s ?a ?y) (oc_estimated_amount c) = exposure s ?a ?y + oc_estimated_amount c"
    unfolding dadd_def using sum c(2,3,4) small by (intro money_fits money_add) simp_all
  then have "is_active c \<Longrightarrow> exposure s ?a ?y + oc_estimated_amount c \<le> of_int (cfg_max_order_amount cfg)"
    using act by (simp add: risk_ok_def sum)
  moreover have "exposure t a y = exposure s a y + (if is_active c \<and> ?a = a \<and> ?y = y then oc_estimated_amount c else 0)" for a y
    by (simp add: exposure_def t(1))
  moreover have "amounts_ok t" using ok c by (simp add: amounts_ok_def exposure_ok_def t(1))
  ultimately show ?thesis using ok t(2) by (simp add: exposure_ok_def)
qed

text \<open>
  C12. The active exposure stays within its cap: if the active candidates (draft, being
  checked, pending or approved) of every account on every symbol amount to no more than
  \<open>max_order_amount\<close>, this still holds after creating a candidate with any amount of money,
  approving, rejecting or expiring one, whether the operation returns or raises. Amounts and
  cap below 10^23 and four decimal places keep the engine's 28-digit sums exact.
\<close>

theorem exposure_stays_capped:
  assumes "exposure_ok cfg s" and "actor_ok ac" and "cfg_max_order_amount cfg < 10 ^ 23"
    and "money x" and "x < 10 ^ 23"
  shows "exposure_ok cfg (snd (create_candidate cfg a src y side q ot lp (DecArg x) ref ttl ac now s)) \<and>
    exposure_ok cfg (snd (approve cfg i ac now s)) \<and> exposure_ok cfg (snd (reject cfg i ac reason s)) \<and>
    exposure_ok cfg (snd (expire i ac s))"
proof (intro conjI)
  obtain r t where r: "create_candidate cfg a src y side q ot lp (DecArg x) ref ttl ac now s = (r, t)" by fastforce
  have "exposure_ok cfg t"
  proof (cases r)
    case (Inl e)
    with create_candidate_effect [OF assms(2) r] assms(1) show ?thesis by simp
  next
    case (Inr v)
    with create_candidate_effect [OF assms(2) r] obtain c ex where t: "sn_candidates t = sn_candidates s @ [c]"
      and id: "oc_id c = t_next oc_id (sn_candidates s)"
      and c: "requested a src y side q ot lp (DecArg x) ref (Some ex) c"
      and v: "oc_status c = (if cr_risk_passed v then ''PENDING_APPROVAL'' else ''RISK_REJECTED'')"
        "cr_risk_passed v \<longleftrightarrow> risk_ok cfg s c (eval_time s now)" by auto
    have keys: "keys_ok t"
      using followsD [OF ap_create r] assms(1) by (simp add: approval_step_def exposure_ok_def)
    show ?thesis
      by (rule exposure_ok_create [OF assms(1) t keys id, where m = "eval_time s now"])
        (use c v assms in \<open>auto simp: requested_def is_active_def split: if_splits\<close>)
  qed
  with r show "exposure_ok cfg (snd (create_candidate cfg a src y side q ot lp (DecArg x) ref ttl ac now s))" by simp
qed (use exposure_ok_shrink [OF assms(1)] ap_approve ap_reject ap_expire sc_operations in \<open>simp_all add: follows_def\<close>)

definition demo_create :: "int \<Rightarrow> create_candidate_result db" where
  "demo_create n = create_candidate demo_settings 1 ''MANUAL'' ''005930'' ''BUY'' (PyInt n) ''MARKET'' None
     (DecArg 700000) None None demo_actor None"

theorem create_candidate_decides_witness:
  "\<exists>r s' c. demo_create 10 demo_ledger = (Inr r, s') \<and> sn_candidates s' = [c] \<and> oc_id c = 1 \<and>
     oc_status c = ''PENDING_APPROVAL''"
proof -
  obtain x s' where x: "demo_create 10 demo_ledger = (x, s')" by fastforce
  note eff = create_candidate_decides [OF demo_actor_ok x [unfolded demo_create_def]]
  have "cfg_trading_safety_enabled demo_settings" "\<not> cfg_kill_switch_enabled demo_settings"
    "request_valid ''MANUAL'' ''005930'' ''BUY'' (PyInt 10) ''MARKET'' None (DecArg 700000)"
    by (simp_all add: demo_settings_def request_valid_def limit_valid_def py_strip_def is_space_def)
  with eff obtain r where r: "x = Inr r" by (cases x) auto
  with eff obtain c ex where s': "sn_candidates s' = sn_candidates demo_ledger @ [c]"
    and id: "oc_id c = t_next oc_id (sn_candidates demo_ledger)"
    and c: "requested 1 ''MANUAL'' ''005930'' ''BUY'' (PyInt 10) ''MARKET'' None (DecArg 700000) None (Some ex) c"
    and st: "cr_risk_passed r = risk_ok demo_settings demo_ledger c (eval_time demo_ledger None)"
      "oc_status c = (if cr_risk_passed r then ''PENDING_APPROVAL'' else ''RISK_REJECTED'')"
    by auto
  have "risk_ok demo_settings demo_ledger c (eval_time demo_ledger None)"
    using c by (auto simp: requested_def risk_ok_def demo_settings_def account_enabled_def
      demo_ledger_def demo_account_def empty_session_def t_get_def symbol_exposure_def day_exposure_def
      ratio_holds_def loss_holds_def no_duplicate_def estimate_total_account_value_def latest_pnl_snapshot_def
      estimate_position_market_value_def find_position_def dec_eval)
  with st x r s' id show ?thesis by (auto simp: demo_ledger_def empty_session_def)
qed

theorem exposure_stays_capped_witness:
  "exposure_ok demo_settings (snd (demo_create 10 demo_workflow)) \<and>
   exposure_ok demo_settings (snd (approve demo_settings 7 demo_actor None demo_workflow))"
proof -
  have "money 700000" unfolding money_def by (rule exI [of _ 7000000000]) simp
  moreover have "exposure_ok demo_settings demo_workflow"
    using \<open>money 700000\<close>
    by (auto simp: exposure_ok_def exposure_def amounts_ok_def keys_ok_def demo_workflow_def demo_candidate_def
        demo_settings_def)
  ultimately show ?thesis
    using exposure_stays_capped [of demo_settings demo_workflow demo_actor 700000] demo_actor_ok
    by (simp add: demo_create_def) (simp add: demo_settings_def)
qed

end
