(* ===== verification/Executor_Safety.thy ===== *)
theory Executor_Safety
  imports Executor_Facts Exposure
begin

text \<open>
  The properties of the executor of real orders: which gate stops it, what a real execution
  does with the broker's answer, and the limits that every execution keeps. The last two
  theorems show where the code departs from its documentation: a dry run goes through an
  injected real client, and a placement whose answer was lost can be repeated.
\<close>

text \<open>
  C21. The gates decide: the executor stops at the first gate that fails, in the documented
  order, with that gate's reason, and then neither the database nor the broker sees anything;
  behind all nine gates it still needs a client that is not the fake one for the real branch.
\<close>

theorem executor_gates_decide:
  "case stopped_at cfg s (t_get oc_id i (sn_candidates s)) of
     Some reason \<Rightarrow> \<exists>r. execute ex cfg i (s, w) = (Inr r, (s, w)) \<and> is_blocked cfg reason r
   | None \<Rightarrow> \<exists>c. t_get oc_id i (sn_candidates s) = Some c \<and> gates_hold cfg s c \<and>
       (if cfg_real_order_dry_run cfg then execute ex cfg i (s, w) = execute_dry_run ex c (s, w)
        else case resolve_real_transport ex cfg of
          None \<Rightarrow> \<exists>r. execute ex cfg i (s, w) = (Inr r, (s, w)) \<and> is_blocked cfg ''TRANSPORT_UNAVAILABLE'' r
        | Some t \<Rightarrow> execute ex cfg i (s, w) = execute_real ex cfg c t (s, w) \<and> \<not> kt_fake t)"
proof (cases "stopped_at cfg s (t_get oc_id i (sn_candidates s))")
  case (Some reason)
  with execute_stopped [OF Some, of ex w] show ?thesis by simp
next
  case None
  then obtain c where c: "t_get oc_id i (sn_candidates s) = Some c" "gates_hold cfg s c"
    using stopped_at_None by (auto simp: stopped_at_def split: option.splits)
  have "\<not> kt_fake t" if "resolve_real_transport ex cfg = Some t" for t
    using that by (auto simp: resolve_real_transport_def split: option.splits if_splits)
  with None c execute_open [OF c, of ex w] show ?thesis
    by (auto split: option.split simp: blocked_is)
qed

subsection \<open>Limits\<close>

definition live_orders :: "session \<Rightarrow> int \<Rightarrow> real_order list" where
  "live_orders s i = filter (\<lambda>r. is_live r \<and> ro_candidate_id r = i) (sn_real_orders s)"

definition orders_money :: "session \<Rightarrow> bool" where
  "orders_money s \<longleftrightarrow> (\<forall>r \<in> set (sn_real_orders s). 0 \<le> ro_estimated_amount r \<and> money (ro_estimated_amount r))"

definition within_limits :: "settings \<Rightarrow> session \<Rightarrow> bool" where
  "within_limits cfg s \<longleftrightarrow> (\<forall>i. length (live_orders s i) \<le> 1) \<and>
     (\<forall>r \<in> set (sn_real_orders s). ro_estimated_amount r \<le> of_int (cfg_max_real_order_amount cfg)) \<and>
     (\<forall>a day. day_total s a day \<le> of_int (cfg_max_real_daily_order_amount cfg))"

text \<open>The shape of the rows: keys are unique, amounts are money, and an order belongs to a candidate.\<close>

definition real_ready :: "session \<Rightarrow> bool" where
  "real_ready s \<longleftrightarrow> distinct (map oc_id (sn_candidates s)) \<and> distinct (map ro_id (sn_real_orders s)) \<and>
     amounts_ok s \<and> orders_money s \<and>
     (\<forall>r \<in> set (sn_real_orders s). row_valid r \<and> ro_status r \<in> set ro_valid_statuses \<and>
        ro_candidate_id r \<in> oc_id ` set (sn_candidates s)) \<and>
     (\<forall>f \<in> set (sn_real_fills s). 0 < rf_quantity f)"

lemma sum_list_money:
  "(\<And>x. x \<in> set xs \<Longrightarrow> 0 \<le> x \<and> money x) \<Longrightarrow> 0 \<le> sum_list xs \<and> money (sum_list xs)"
proof (induction xs)
  case Nil
  show ?case by (simp add: money_def exI [of _ 0])
next
  case (Cons x xs)
  then show ?case by (auto intro: money_add)
qed

lemma day_total_money: "orders_money s \<Longrightarrow> 0 \<le> day_total s a d \<and> money (day_total s a d)"
  unfolding day_total_def by (rule sum_list_money) (auto simp: orders_money_def orders_of_day_def)

lemma within_limits_add:
  assumes ready: "real_ready s" and limits: "within_limits cfg s"
    and c: "t_get oc_id i (sn_candidates s) = Some c" and gates: "gates_hold cfg s c"
    and small: "cfg_max_real_order_amount cfg < 10 ^ 23" "cfg_max_real_daily_order_amount cfg < 10 ^ 23"
    and adds: "adds_order s c dry s'"
  shows "within_limits cfg s' \<and> real_ready s'"
proof (cases "sn_real_orders s' = sn_real_orders s")
  case True
  with ready limits adds show ?thesis
    by (simp add: within_limits_def real_ready_def amounts_ok_def orders_money_def live_orders_def
        day_total_def orders_of_day_def adds_order_def)
next
  case False
  with adds obtain r where r: "sn_real_orders s' = sn_real_orders s @ [r]" "placed_for s c dry r"
    and same: "sn_candidates s' = sn_candidates s" by (auto simp: adds_order_def)
  from c have mem: "c \<in> set (sn_candidates s)" "oc_id c = i" by (auto dest: t_get_Some)
  have est: "ro_estimated_amount r = oc_estimated_amount c" "ro_candidate_id r = oc_id c" "ro_created_at r = sn_now s"
    "ro_id r = t_next ro_id (sn_real_orders s)" "row_valid r" "ro_status r \<in> set ro_valid_statuses"
    using r(2) by (simp_all add: placed_for_def)
  have fresh: "ro_id r \<notin> ro_id ` set (sn_real_orders s)"
    using next_fresh [of "sn_real_orders s" ro_id] est(4) by auto
  have amount: "0 \<le> oc_estimated_amount c" "money (oc_estimated_amount c)"
    using ready mem by (auto simp: real_ready_def amounts_ok_def)
  have cap: "oc_estimated_amount c \<le> of_int (cfg_max_real_order_amount cfg)"
    using gates by (simp add: gates_hold_iff)
  let ?a = "oc_account_id c" and ?d = "kst_date (sn_now s)"
  let ?old = "day_total s ?a ?d" and ?max = "of_int (cfg_max_real_daily_order_amount cfg) :: rat"
  have old: "0 \<le> ?old" "money ?old" "?old \<le> ?max"
    using day_total_money [of s] ready limits by (auto simp: real_ready_def within_limits_def)
  have bounds: "(of_int (cfg_max_real_order_amount cfg) :: rat) < of_int (10 ^ 23)" "?max < of_int (10 ^ 23)"
    using small by (simp_all only: of_int_less_iff)
  then have "?old + oc_estimated_amount c < 10 ^ 24" using old(3) cap by simp
  then have "dadd ?old (oc_estimated_amount c) = ?old + oc_estimated_amount c"
    unfolding dadd_def using old amount by (intro money_fits money_add) simp_all
  then have today: "?old + oc_estimated_amount c \<le> ?max" using gates by (simp add: gates_hold_iff)
  have one: "a = ?a" if "d \<in> set (sn_candidates s)" "oc_id d = oc_id c" "oc_account_id d = a" for d a
    using that mem ready by (auto simp: real_ready_def distinct_map dest: inj_onD)
  have day: "day_total s' a d \<le> ?max" for a d
  proof (cases "a = ?a \<and> d = ?d")
    case True
    have "day_total s' a d \<le> ?old + oc_estimated_amount c"
      using True amount(1) by (auto simp: day_total_def orders_of_day_def r(1) same est)
    with today show ?thesis by simp
  next
    case False
    with one have "day_total s' a d = day_total s a d"
      by (auto simp: day_total_def orders_of_day_def r(1) same est)
    with limits show ?thesis by (simp add: within_limits_def)
  qed
  have "no_live_order s (oc_id c)" using gates by (simp add: gates_hold_iff)
  then have "live_orders s (oc_id c) = []"
    by (auto simp: no_live_order_def live_orders_def filter_empty_conv)
  then have "length (live_orders s' j) \<le> 1" for j
    using limits by (auto simp: live_orders_def r(1) est within_limits_def)
  with day cap limits have "within_limits cfg s'" by (simp add: within_limits_def r(1) est)
  moreover have "real_ready s'"
    using ready amount fresh mem(1) est adds
    by (simp add: real_ready_def amounts_ok_def orders_money_def same r(1) adds_order_def)
  ultimately show ?thesis ..
qed

lemma execute_within_limits:
  assumes "set (ex_scrub_order ex) = set sensitive_substrings"
    and "real_ready s" and "within_limits cfg s"
    and "cfg_max_real_order_amount cfg < 10 ^ 23" and "cfg_max_real_daily_order_amount cfg < 10 ^ 23"
  shows "within_limits cfg (fst (snd (execute ex cfg i (s, w)))) \<and> real_ready (fst (snd (execute ex cfg i (s, w))))"
proof -
  obtain res s' w' where run: "execute ex cfg i (s, w) = (res, (s', w'))"
    by (cases "execute ex cfg i (s, w)") auto
  from execute_adds [OF assms(1) run] within_limits_add [OF assms(2,3) _ _ assms(4,5)] assms(2,3)
  show ?thesis unfolding run by auto
qed

subsection \<open>A real execution\<close>

definition serves_real :: "(http_request list) executor \<Rightarrow> settings \<Rightarrow> kis_config \<Rightarrow> kis_server \<Rightarrow> bool" where
  "serves_real ex cfg kc server \<longleftrightarrow> \<not> cfg_real_order_dry_run cfg \<and>
     resolve_real_transport ex cfg = Some (httpx_transport kc server) \<and>
     set (ex_scrub_order ex) = set sensitive_substrings"

definition real_request :: "settings \<Rightarrow> kis_config \<Rightarrow> order_candidate \<Rightarrow> http_request" where
  "real_request cfg kc c = place_request kc (request_of c (cfg_kis_account_no cfg))"

lemma real_run:
  assumes "serves_real ex cfg kc server" and "t_get oc_id i (sn_candidates s) = Some c"
    and "gates_hold cfg s c" and "orderable c"
  shows "if server sent (real_request cfg kc c) = HRaise
    then execute ex cfg i (s, sent) = (Inl TransportError, (created s c, sent @ [real_request cfg kc c]))
    else \<exists>r s'. execute ex cfg i (s, sent) = (Inr r, (s', sent @ [real_request cfg kc c])) \<and>
      real_outcome (ex_scrub_order ex) s c
        (place_outcome kc (server sent (real_request cfg kc c))) r s'"
proof -
  have ex: "execute ex cfg i (s, sent) = execute_real ex cfg c (httpx_transport kc server) (s, sent)"
    using execute_open [OF assms(2,3), of ex sent] assms(1) by (simp add: serves_real_def)
  have "kt_place (httpx_transport kc server) (request_of c (cfg_kis_account_no cfg)) sent =
      (final_result (place_outcome kc) (server sent (real_request cfg kc c)), sent @ [real_request cfg kc c])"
    by (simp add: httpx_transport_def place_app real_request_def)
  from execute_real_app [OF assms(4) assms(4) _ this, of ex s] assms(1)
  show ?thesis unfolding ex
    by (cases "server sent (real_request cfg kc c)") (simp_all add: serves_real_def final_result_def)
qed

text \<open>
  C15. A real execution follows the broker's answer: behind the gates, a candidate of the
  shape its repository creates leads to exactly one request, for that candidate; unless the transport raises, the
  execution returns, it appends exactly one order under a fresh key, \<open>SUBMITTED\<close> exactly when
  the broker's reply was an acceptance and \<open>FAILED\<close> otherwise, one matching audit row, and
  the message it stores has no sensitive substring. When the transport raises, the order
  stays behind as \<open>CREATED\<close>.
\<close>

theorem real_execution_follows_broker:
  assumes "serves_real ex cfg kc server" and "t_get oc_id i (sn_candidates s) = Some c"
    and "gates_hold cfg s c" and "orderable c"
  shows "case execute ex cfg i (s, sent) of (res, (s', sent')) \<Rightarrow>
    sent' = sent @ [real_request cfg kc c] \<and>
    (\<exists>row. sn_real_orders s' = sn_real_orders s @ [row] \<and> ro_candidate_id row = i \<and> \<not> ro_dry_run row \<and>
      ro_id row \<notin> ro_id ` set (sn_real_orders s) \<and>
      (case ro_error_message row of None \<Rightarrow> True
       | Some m \<Rightarrow> \<forall>p \<in> set sensitive_substrings. \<not> py_contains p (py_lower m)) \<and>
      (if server sent (real_request cfg kc c) = HRaise
       then res = Inl TransportError \<and> ro_status row = ''CREATED'' \<and> sn_audits s' = sn_audits s
       else \<exists>r log. res = Inr r \<and> sn_audits s' = sn_audits s @ [log] \<and> al_candidate_id log = i \<and>
         xe_real_order_id r = Some (ro_id row) \<and> xe_status r = ro_status row \<and>
         (if place_class (server sent (real_request cfg kc c)) = ''SUBMITTED''
          then xe_success r \<and> ro_status row = ''SUBMITTED'' \<and> al_event_type log = ''REAL_ORDER_SUBMITTED''
          else \<not> xe_success r \<and> ro_status row = ''FAILED'' \<and> al_event_type log = ''REAL_ORDER_FAILED'')))"
proof -
  let ?out = "server sent (real_request cfg kc c)"
  from assms(2) have id: "oc_id c = i" by (auto dest: t_get_Some)
  have fresh: "t_next ro_id (sn_real_orders s) \<notin> ro_id ` set (sn_real_orders s)"
    using next_fresh [of "sn_real_orders s" ro_id] by auto
  have clean: "\<forall>p \<in> set sensitive_substrings. \<not> py_contains p (py_lower (take 500 (scrub (ex_scrub_order ex) m)))" for m
    using assms(1) scrub_clean [of _ "ex_scrub_order ex"] sensitive_scrubbable by (simp add: serves_real_def)
  show ?thesis
  proof (cases "?out = HRaise")
    case True
    with real_run [OF assms, of sent] id fresh show ?thesis by (simp add: new_rorder_def)
  next
    case False
    with real_run [OF assms, of sent] obtain r s' where run:
      "execute ex cfg i (s, sent) = (Inr r, (s', sent @ [real_request cfg kc c]))"
      "real_outcome (ex_scrub_order ex) s c (place_outcome kc ?out) r s'" by auto
    have k: "classify_place_message (or_message (place_outcome kc ?out)) = place_class ?out"
      using outcome_class [OF False] by blast
    show ?thesis
    proof (cases "place_class ?out = ''SUBMITTED''")
      case True
      with run k id fresh False show ?thesis
        by (auto simp: real_outcome_def Let_def submitted_row_def new_rorder_def)
    next
      case no: False
      with run k id fresh False clean show ?thesis
        by (auto simp: real_outcome_def Let_def failed_row_def new_rorder_def)
    qed
  qed
qed

subsection \<open>Where the code departs from its documentation\<close>

text \<open>
  A dry run is not always dry: the dry-run branch places its order with whatever client
  was injected, so an executor with the real client sends a real order request in dry-run
  mode, although the module promises that this branch keeps using the fake client.
\<close>

lemma dry_run_reaches_the_broker:
  assumes "cfg_real_order_dry_run cfg" and "ex_transport ex = Some (httpx_transport kc server)"
    and "t_get oc_id i (sn_candidates s) = Some c" and "gates_hold cfg s c" and "orderable c"
  shows "snd (snd (execute ex cfg i (s, sent))) = sent @ [place_request kc (request_of c ''DRY_RUN'')] \<and>
    hq_verb (place_request kc (request_of c ''DRY_RUN'')) = ''POST''"
proof -
  have ex: "execute ex cfg i (s, sent) = execute_dry_run ex c (s, sent)"
    using execute_open [OF assms(3,4), of ex sent] assms(1) by simp
  show ?thesis unfolding ex
    using assms(2) candidate_request_ok [OF assms(5), of "''DRY_RUN''"]
    by (cases "server sent (place_request kc (request_of c ''DRY_RUN''))")
      (auto simp: execute_dry_run_def monad_simps transport_place_def httpx_transport_def place_app
        final_result_def Let_def place_request_def split: sum.split prod.split)
qed

lemma gates_after_failure:
  assumes "gates_hold cfg s c" and "ro_status row = ''FAILED''"
  shows "gates_hold cfg (s\<lparr>sn_real_orders := sn_real_orders s @ [row], sn_audits := logs\<rparr>) c"
proof -
  let ?t = "s\<lparr>sn_real_orders := sn_real_orders s @ [row], sn_audits := logs\<rparr>"
  have "latest_bar ?t = latest_bar s" "latest_pnl_snapshot ?t = latest_pnl_snapshot s"
    by (intro ext, simp add: latest_pnl_snapshot_def latest_bar_def)+
  moreover from this have "estimate_total_account_value ?t = estimate_total_account_value s"
    "estimate_position_market_value ?t = estimate_position_market_value s"
    by (intro ext, simp add: estimate_total_account_value_def estimate_position_market_value_def
        cong: option.case_cong if_cong)+
  ultimately have "risk_ok cfg ?t c (sn_now s) = risk_ok cfg s c (sn_now s)"
    by (simp add: risk_ok_def account_enabled_def symbol_exposure_def day_exposure_def ratio_holds_def loss_holds_def
        no_duplicate_def cong: option.case_cong)
  moreover have "day_total ?t a d = day_total s a d" for a d
    using assms(2) by (simp add: day_total_def orders_of_day_def not_failed_def)
  moreover have "no_live_order ?t (oc_id c) = no_live_order s (oc_id c)"
    using assms(2) by (auto simp: no_live_order_def is_live_def non_failed_statuses_def)
  ultimately show ?thesis using assms(1) by (simp add: gates_hold_iff)
qed

lemma lost_answer_repeats:
  assumes "serves_real ex cfg kc server" and "t_get oc_id i (sn_candidates s) = Some c"
    and "gates_hold cfg s c" and "orderable c" and "server sent (real_request cfg kc c) = HTimeout"
  shows "case execute ex cfg i (s, sent) of (res, (s', sent')) \<Rightarrow>
    map ro_status (sn_real_orders s') = map ro_status (sn_real_orders s) @ [''FAILED''] \<and>
    snd (snd (execute ex cfg i (s', sent'))) = sent @ [real_request cfg kc c, real_request cfg kc c]"
proof -
  have "place_class (server sent (real_request cfg kc c)) = ''TIMEOUT''" by (simp add: assms(5) place_class_def)
  moreover have "classify_place_message (or_message (place_outcome kc HTimeout)) = ''TIMEOUT''"
    using outcome_class [of HTimeout kc] by (simp add: place_class_def)
  ultimately obtain r row log where run: "execute ex cfg i (s, sent) =
      (Inr r, (s\<lparr>sn_real_orders := sn_real_orders s @ [row], sn_audits := sn_audits s @ [log]\<rparr>,
        sent @ [real_request cfg kc c]))" "ro_status row = ''FAILED''"
    using real_run [OF assms(1-4), of sent] assms(5)
    by (auto simp: real_outcome_def Let_def failed_row_def)
  let ?t = "s\<lparr>sn_real_orders := sn_real_orders s @ [row], sn_audits := sn_audits s @ [log]\<rparr>"
  have "t_get oc_id i (sn_candidates ?t) = Some c" using assms(2) by simp
  from real_run [OF assms(1) this gates_after_failure [OF assms(3) run(2)] assms(4),
      of "sent @ [real_request cfg kc c]"]
  have "snd (snd (execute ex cfg i (?t, sent @ [real_request cfg kc c]))) =
      sent @ [real_request cfg kc c, real_request cfg kc c]"
    by (auto split: if_splits)
  with run show ?thesis by simp
qed

text \<open>
  An order whose answer was lost can be placed twice: when the broker's reply times out, so
  that the order may be in the market, the executor records it as \<open>FAILED\<close>, no gate stops the
  same candidate afterwards, and executing it again sends the same order a second time.
\<close>

lemma lost_answer_places_again:
  assumes "serves_real ex cfg kc server" and "t_get oc_id i (sn_candidates s) = Some c"
    and "gates_hold cfg s c" and "orderable c" and "server sent (real_request cfg kc c) = HTimeout"
  shows "case execute ex cfg i (s, sent) of (res, (s', sent')) \<Rightarrow>
    map ro_status (sn_real_orders s') = map ro_status (sn_real_orders s) @ [''FAILED''] \<and>
    snd (snd (execute ex cfg i (s', sent'))) = sent @ [real_request cfg kc c, real_request cfg kc c]"
  by (rule lost_answer_repeats [OF assms])

subsection \<open>A concrete executor\<close>

definition real_settings :: settings where
  "real_settings = demo_settings\<lparr>cfg_real_trading_enabled := True, cfg_kis_order_enabled := True,
     cfg_real_order_dry_run := False\<rparr>"

definition approved_candidate :: order_candidate where
  "approved_candidate = demo_candidate\<lparr>oc_status := ''APPROVED''\<rparr>"

definition real_session :: session where
  "real_session = demo_ledger\<lparr>sn_candidates := [approved_candidate]\<rparr>"

definition demo_executor :: "kis_server \<Rightarrow> (http_request list) executor" where
  "demo_executor server = \<lparr>ex_transport = Some (httpx_transport demo_config server), ex_factory = None,
     ex_scrub_order = sensitive_substrings\<rparr>"

lemma demo_candidate_found: "t_get oc_id 7 (sn_candidates real_session) = Some approved_candidate"
  by (simp add: real_session_def approved_candidate_def demo_candidate_def t_get_def)

lemma demo_orderable: "orderable approved_candidate"
  by (simp add: orderable_def approved_candidate_def demo_candidate_def ro_valid_sides_def ro_valid_order_types_def)

lemma demo_gates: "gates_hold (real_settings\<lparr>cfg_real_order_dry_run := dry\<rparr>) real_session approved_candidate"
proof -
  have "risk_ok (real_settings\<lparr>cfg_real_order_dry_run := dry\<rparr>) real_session approved_candidate 0"
    by (simp add: risk_ok_def real_settings_def demo_settings_def real_session_def demo_ledger_def empty_session_def
        approved_candidate_def demo_candidate_def account_enabled_def t_get_def demo_account_def symbol_exposure_def
        day_exposure_def ratio_holds_def loss_holds_def no_duplicate_def estimate_total_account_value_def
        latest_pnl_snapshot_def estimate_position_market_value_def find_position_def dec_eval)
  then show ?thesis
    by (simp add: gates_hold_iff real_settings_def demo_settings_def real_session_def demo_ledger_def empty_session_def
        approved_candidate_def demo_candidate_def no_live_order_def day_total_def orders_of_day_def dec_eval)
qed

lemma demo_gates_real: "gates_hold real_settings real_session approved_candidate"
proof -
  have "real_settings\<lparr>cfg_real_order_dry_run := False\<rparr> = real_settings" by (simp add: real_settings_def)
  with demo_gates [of False] show ?thesis by simp
qed

lemma demo_serves: "serves_real (demo_executor server) real_settings demo_config server"
  by (simp add: serves_real_def demo_executor_def real_settings_def resolve_real_transport_def httpx_transport_def)

lemma demo_ready: "real_ready real_session" "within_limits real_settings real_session"
proof -
  have "money 700000" unfolding money_def by (rule exI [of _ 7000000000]) simp
  then show "real_ready real_session"
    by (simp add: real_ready_def real_session_def amounts_ok_def orders_money_def approved_candidate_def
        demo_candidate_def demo_ledger_def empty_session_def)
  show "within_limits real_settings real_session"
    by (simp add: within_limits_def live_orders_def real_session_def demo_ledger_def empty_session_def day_total_def
        orders_of_day_def real_settings_def demo_settings_def)
qed

lemma lost_answer_demo:
  "length (snd (snd (execute (demo_executor dead_server) real_settings 7
     (snd (execute (demo_executor dead_server) real_settings 7 (real_session, [])))))) = 2"
  using lost_answer_repeats [where sent = "[]" and server = dead_server,
      OF demo_serves demo_candidate_found demo_gates_real demo_orderable]
  by (cases "execute (demo_executor dead_server) real_settings 7 (real_session, [])") (auto simp: dead_server_def)

theorem real_execution_follows_broker_witness:
  "snd (snd (execute (demo_executor dead_server) real_settings 7 (real_session, []))) =
     [real_request real_settings demo_config approved_candidate]"
  using real_execution_follows_broker [where sent = "[]" and server = dead_server,
      OF demo_serves demo_candidate_found demo_gates_real demo_orderable] by (auto split: prod.splits)

lemma dry_run_reaches_the_broker_witness:
  "snd (snd (execute (demo_executor dead_server) (real_settings\<lparr>cfg_real_order_dry_run := True\<rparr>) 7 (real_session, []))) =
     [place_request demo_config (request_of approved_candidate ''DRY_RUN'')]"
proof -
  have "cfg_real_order_dry_run (real_settings\<lparr>cfg_real_order_dry_run := True\<rparr>)" by simp
  from dry_run_reaches_the_broker [where ex = "demo_executor dead_server" and kc = demo_config
      and server = dead_server and sent = "[]", OF this _ demo_candidate_found demo_gates demo_orderable]
  show ?thesis by (simp add: demo_executor_def)
qed

lemma lost_answer_places_again_witness:
  "case execute (demo_executor dead_server) real_settings 7 (real_session, []) of (res, (s', sent')) \<Rightarrow>
     length (snd (snd (execute (demo_executor dead_server) real_settings 7 (s', sent')))) = 2"
  using lost_answer_places_again [where sent = "[]" and server = dead_server,
      OF demo_serves demo_candidate_found demo_gates_real demo_orderable] by (auto simp: dead_server_def split: prod.splits)

end
