(* ===== verification/Fill_Sync.thy ===== *)
theory Fill_Sync
  imports Client_World
begin

text \<open>
  The synchronisation of fills with the broker, \<^verbatim>\<open>app/broker/fill_sync_service.py\<close>. A service
  is its injected client, or \<open>None\<close> for the fake one it makes for itself. The facts state an
  abstract view of an order, its status and its filled quantity, and that a synchronisation
  moves the view as the broker's answer says.
\<close>

subsection \<open>Results\<close>

record fill_sync_result =
  ys_real_order_id :: int
  ys_fill_status :: string
  ys_created_fill_count :: int
  ys_skipped_reason :: "string option"
  ys_delta :: int
  ys_fills_total :: int
  ys_real_order_status :: "string option"

definition fill_sync_dict :: "fill_sync_result \<Rightarrow> (string \<times> json) list" where
  "fill_sync_dict r =
     [(''real_order_id'', JInt (ys_real_order_id r)), (''fill_status'', JStr (ys_fill_status r)),
      (''created_fill_count'', JInt (ys_created_fill_count r)),
      (''skipped_reason'', case ys_skipped_reason r of None \<Rightarrow> JNull | Some x \<Rightarrow> JStr x),
      (''delta'', JInt (ys_delta r)), (''fills_total'', JInt (ys_fills_total r)),
      (''real_order_status'', case ys_real_order_status r of None \<Rightarrow> JNull | Some x \<Rightarrow> JStr x)]"

definition order_skip_statuses :: "string list" where
  "order_skip_statuses = [''FILLED'', ''CANCELED'', ''REJECTED'', ''FAILED'']"

definition order_non_terminal :: "string list" where
  "order_non_terminal = [''CREATED'', ''SUBMITTED'', ''PARTIALLY_FILLED'']"

subsection \<open>Helpers\<close>

definition classify_fill_response :: "kis_fill_result \<Rightarrow> string" where
  "classify_fill_response response =
     (let s = fr_status response
      in if s = ''FILLED'' then ''FULL''
         else if s = ''PARTIALLY_FILLED'' then ''PARTIAL''
         else if s = ''REJECTED'' then ''REJECTED''
         else if s = ''CANCELED'' then ''CANCELED''
         else if s = ''PENDING'' then (if fr_success response then ''NONE'' else ''FAILED'')
         else ''FAILED'')"

definition effective_kis_total :: "string \<Rightarrow> kis_fill_result \<Rightarrow> int \<Rightarrow> int" where
  "effective_kis_total classification response total_qty =
     (let raw = max (fr_filled_quantity response) 0
      in if classification = ''FULL'' then max raw (if 0 < total_qty then total_qty else 0)
         else if classification = ''PARTIAL'' then raw
         else 0)"

definition safe_unit_price :: "real_order \<Rightarrow> int \<Rightarrow> decimal" where
  "safe_unit_price order total_qty =
     (let estimated = ro_estimated_amount order;
          unit' = (if 0 < total_qty \<and> 0 < estimated then ddiv estimated (of_int total_qty) else 0)
      in if 0 < unit' then unit' else 1)"

definition sync_details :: "string \<Rightarrow> real_order \<Rightarrow> (string \<times> json) list \<Rightarrow> (string \<times> json) list" where
  "sync_details classification order rest =
     [(''classification'', JStr classification), (''dry_run'', JBool False),
      (''symbol'', JStr (ro_symbol order)), (''side'', JStr (ro_side order))] @ rest"

definition sync_audit :: "real_order \<Rightarrow> string \<Rightarrow> text_t \<Rightarrow> (string \<times> json) list \<Rightarrow> int db" where
  "sync_audit order event_type reason details =
     audit_append (ro_candidate_id order) event_type None (Some reason) (Some details) None None"

text \<open>A result that created no fill; the total is read when the result is built.\<close>

definition no_fill_result ::
  "int \<Rightarrow> string \<Rightarrow> string option \<Rightarrow> fill_sync_result db" where
  "no_fill_result i fill_status skipped_reason =
     sbind (total_filled_quantity i) (\<lambda>total.
     sbind (row_of sn_real_orders ro_id i) (\<lambda>order.
     sret \<lparr>ys_real_order_id = i, ys_fill_status = fill_status, ys_created_fill_count = 0,
           ys_skipped_reason = skipped_reason, ys_delta = 0, ys_fills_total = total,
           ys_real_order_status = Some (ro_status order)\<rparr>))"

subsection \<open>Dispatch on the broker's answer\<close>

definition dispatch_failed :: "real_order \<Rightarrow> kis_fill_result \<Rightarrow> fill_sync_result db" where
  "dispatch_failed order response =
     sbind (sync_audit order ''REAL_ORDER_FILL_FAILED'' [T (''unrecognised KIS status: '' @ fr_status response)]
       (sync_details ''FAILED'' order [(''kis_status'', JStr (fr_status response))])) (\<lambda>_.
     no_fill_result (ro_id order) ''FAILED'' (Some (''UNRECOGNISED_STATUS_'' @ fr_status response)))"

definition dispatch_closed :: "real_order \<Rightarrow> string \<Rightarrow> fill_sync_result db" where
  "dispatch_closed order classification =
     (let new_status = (if classification = ''REJECTED'' then ''REJECTED'' else ''CANCELED'')
      in sbind (if ro_status order \<in> set order_non_terminal
                then rorder_update_status (ro_id order) new_status else sret ()) (\<lambda>_.
         sbind (sync_audit order ''REAL_ORDER_FILL_SYNCED'' [T (''KIS reported '' @ classification)]
           (sync_details classification order [(''delta'', JInt 0)])) (\<lambda>_.
         no_fill_result (ro_id order) classification None)))"

definition dispatch_negative :: "real_order \<Rightarrow> string \<Rightarrow> int \<Rightarrow> int \<Rightarrow> fill_sync_result db" where
  "dispatch_negative order classification existing_total kis_total =
     (let delta = kis_total - existing_total
      in sbind (sync_audit order ''FILL_SYNC_NEGATIVE_DELTA''
           [T ''KIS reports filled_quantity below internal RealFill sum'']
           (sync_details classification order [(''delta'', JInt delta),
             (''existing_total'', JInt existing_total), (''kis_total'', JInt kis_total)])) (\<lambda>_.
         sbind (row_of sn_real_orders ro_id (ro_id order)) (\<lambda>o'.
         sret \<lparr>ys_real_order_id = ro_id order, ys_fill_status = ''FAILED'', ys_created_fill_count = 0,
               ys_skipped_reason = Some ''NEGATIVE_DELTA'', ys_delta = delta,
               ys_fills_total = existing_total, ys_real_order_status = Some (ro_status o')\<rparr>)))"

definition record_fill :: "real_order \<Rightarrow> int \<Rightarrow> int \<Rightarrow> unit db" where
  "record_fill order existing_total delta =
     (let total_qty = ro_quantity order;
          unit_price = safe_unit_price order total_qty;
          gross0 = dmul unit_price (of_int delta);
          gross = (if gross0 \<le> 0 then 1 else gross0);
          fill_status = (if total_qty \<le> existing_total + delta \<and> 0 < total_qty then ''FULL'' else ''PARTIAL'')
      in sbind utc_now (\<lambda>now.
         sbind (rfill_create (ro_id order) (ro_symbol order) (ro_side order) delta unit_price 0 0 gross gross
           fill_status (Some now)) (\<lambda>_. sret ())))"

definition advance_status :: "real_order \<Rightarrow> string \<Rightarrow> unit db" where
  "advance_status order classification =
     (if ro_status order \<in> set order_non_terminal then
        (if classification = ''FULL'' then rorder_update_status (ro_id order) ''FILLED''
         else if classification = ''PARTIAL'' then
           (if ro_status order \<noteq> ''PARTIALLY_FILLED''
            then rorder_update_status (ro_id order) ''PARTIALLY_FILLED'' else sret ())
         else sret ())
      else sret ())"

definition dispatch_status :: "real_order \<Rightarrow> kis_fill_result \<Rightarrow> fill_sync_result db" where
  "dispatch_status order response =
     (let total_qty = ro_quantity order;
          classification = classify_fill_response response
      in if classification = ''FAILED'' then dispatch_failed order response
         else if classification = ''REJECTED'' \<or> classification = ''CANCELED''
           then dispatch_closed order classification
         else
           sbind (total_filled_quantity (ro_id order)) (\<lambda>existing_total.
           let kis_total = effective_kis_total classification response total_qty;
               delta = kis_total - existing_total
           in if delta < 0 then dispatch_negative order classification existing_total kis_total
              else
                sbind (if 0 < delta then record_fill order existing_total delta else sret ()) (\<lambda>_.
                sbind (advance_status order classification) (\<lambda>_.
                sbind (sync_audit order ''REAL_ORDER_FILL_SYNCED''
                  [T (''KIS reported '' @ classification @ '' (delta='' @ str_of_int delta @ '')'')]
                  (sync_details classification order [(''delta'', JInt delta), (''kis_total'', JInt kis_total)])) (\<lambda>_.
                sbind (row_of sn_real_orders ro_id (ro_id order)) (\<lambda>o'.
                sret \<lparr>ys_real_order_id = ro_id order, ys_fill_status = classification,
                      ys_created_fill_count = (if 0 < delta then 1 else 0), ys_skipped_reason = None,
                      ys_delta = delta, ys_fills_total = existing_total + delta,
                      ys_real_order_status = Some (ro_status o')\<rparr>))))))"

subsection \<open>The service\<close>

definition or_text :: "string option \<Rightarrow> string \<Rightarrow> string" where
  "or_text x y = (case x of None \<Rightarrow> y | Some [] \<Rightarrow> y | Some z \<Rightarrow> z)"

definition sync_query :: "'c kis_transport option \<Rightarrow> string \<Rightarrow> ('c, kis_fill_result) service" where
  "sync_query transport order_ref = (case transport of
     None \<Rightarrow> on_db (\<lambda>s. (fst (fake_query order_ref (sn_fake_counter s)), s))
   | Some t \<Rightarrow> on_client (kt_query t order_ref))"

definition sync_fills ::
  "'c kis_transport option \<Rightarrow> int \<Rightarrow> string option \<Rightarrow> ('c, fill_sync_result) service" where
  "sync_fills transport real_order_id kis_order_no =
     sbind (on_db (rorder_get_by_id real_order_id)) (\<lambda>found.
     case found of
       None \<Rightarrow> sret \<lparr>ys_real_order_id = real_order_id, ys_fill_status = ''NONE'', ys_created_fill_count = 0,
                     ys_skipped_reason = Some ''REAL_ORDER_NOT_FOUND'', ys_delta = 0, ys_fills_total = 0,
                     ys_real_order_status = None\<rparr>
     | Some order \<Rightarrow>
         if ro_dry_run order \<or> ro_status order = ''DRY_RUN''
           then on_db (no_fill_result (ro_id order) ''NONE'' (Some ''DRY_RUN_ORDER_SKIPPED''))
         else if ro_status order \<in> set order_skip_statuses
           then on_db (no_fill_result (ro_id order) ''NONE''
                  (Some (''ORDER_ALREADY_TERMINAL_'' @ ro_status order)))
         else
           let order_ref = or_text kis_order_no (or_text (ro_fake_order_no order) (str_of_int real_order_id))
           in sbind (stry (sync_query transport order_ref)) (\<lambda>status_result.
              case status_result of
                Inl _ \<Rightarrow> on_db (
                  sbind (sync_audit order ''REAL_ORDER_FILL_FAILED'' [T ''transport.query_fill_status raised'']
                    (sync_details ''FAILED'' order [])) (\<lambda>_.
                  no_fill_result (ro_id order) ''FAILED'' (Some ''TRANSPORT_RAISED'')))
              | Inr response \<Rightarrow> on_db (dispatch_status order response)))"

end
