(* ===== verification/Fill_Facts.thy ===== *)
theory Fill_Facts
  imports Fill_Sync Kis_Transport
begin

text \<open>
  What a synchronisation of fills does: \<open>sync_spec\<close> is the abstract effect of a broker's answer
  on the status and the filled quantity of an open order, and the service implements it.
\<close>

subsection \<open>The abstract effect\<close>

fun sync_spec :: "int \<Rightarrow> kis_fill_result option \<Rightarrow> string \<times> int \<Rightarrow> string \<times> int" where
  "sync_spec qty None (st, filled) = (st, filled)"
| "sync_spec qty (Some a) (st, filled) =
     (if fr_status a = ''CANCELED'' \<or> fr_status a = ''REJECTED'' then (fr_status a, filled)
      else if fr_status a = ''FILLED'' then
        (if max (fr_filled_quantity a) qty < filled then (st, filled)
         else (''FILLED'', max (fr_filled_quantity a) qty))
      else if fr_status a = ''PARTIALLY_FILLED'' then
        (if max (fr_filled_quantity a) 0 < filled then (st, filled)
         else (''PARTIALLY_FILLED'', max (fr_filled_quantity a) 0))
      else (st, filled))"

definition order_view :: "session \<Rightarrow> int \<Rightarrow> (string \<times> int) option" where
  "order_view s i = map_option (\<lambda>r. (ro_status r, filled_total s i)) (t_get ro_id i (sn_real_orders s))"

subsection \<open>The dispatch\<close>

definition synced :: "session \<Rightarrow> real_order \<Rightarrow> string \<Rightarrow> real_fill list \<Rightarrow> audit_log \<Rightarrow> session" where
  "synced s r st fills entry = s\<lparr>sn_real_orders := (if st = ro_status r then sn_real_orders s
       else t_upd ro_id (ro_id r) (set_rstatus (sn_now s) st) (sn_real_orders s)),
     sn_real_fills := sn_real_fills s @ fills, sn_audits := sn_audits s @ [entry]\<rparr>"

lemma synced_sel [simp]:
  "sn_real_fills (synced s r st fills entry) = sn_real_fills s @ fills"
  "sn_audits (synced s r st fills entry) = sn_audits s @ [entry]"
  "sn_candidates (synced s r st fills entry) = sn_candidates s"
  "sn_now (synced s r st fills entry) = sn_now s"
  "sn_real_orders (synced s r st fills entry) = (if st = ro_status r then sn_real_orders s
       else t_upd ro_id (ro_id r) (set_rstatus (sn_now s) st) (sn_real_orders s))"
  by (simp_all add: synced_def)

lemma sync_keys_clean:
  assumes "set (map fst rest) \<subseteq> {''kis_status'', ''delta'', ''existing_total'', ''kis_total''}"
  shows "clean_details (Some (sync_details k order rest))"
proof -
  have "\<forall>key \<in> set [''classification'', ''dry_run'', ''symbol'', ''side'', ''kis_status'', ''delta'',
      ''existing_total'', ''kis_total'']. key \<notin> set forbidden_details_keys" by code_simp
  with assms show ?thesis
    by (auto simp: clean_details_def leaked_keys_def filter_empty_conv sync_details_def)
qed

definition sync_log :: "session \<Rightarrow> real_order \<Rightarrow> string \<Rightarrow> text_t \<Rightarrow> (string \<times> json) list \<Rightarrow> audit_log" where
  "sync_log s order e reason details =
     audit_row s (ro_candidate_id order) e None (Some reason) (Some details) None None"

lemma sync_audit_app:
  assumes "e \<in> {''REAL_ORDER_FILL_FAILED'', ''REAL_ORDER_FILL_SYNCED'', ''FILL_SYNC_NEGATIVE_DELTA''}"
    and "set (map fst rest) \<subseteq> {''kis_status'', ''delta'', ''existing_total'', ''kis_total''}"
  shows "sync_audit order e reason (sync_details k order rest) s = (Inr (t_next al_id (sn_audits s)),
    s\<lparr>sn_audits := sn_audits s @ [sync_log s order e reason (sync_details k order rest)]\<rparr>)"
proof -
  have "e \<in> set valid_event_types" using assms(1) by (auto simp: valid_event_types_def)
  with sync_keys_clean [OF assms(2), of k order] show ?thesis
    by (simp add: sync_audit_def audit_append_app hash_too_long_def sync_log_def)
qed

definition open_order :: "session \<Rightarrow> real_order \<Rightarrow> bool" where
  "open_order s r \<longleftrightarrow> t_get ro_id (ro_id r) (sn_real_orders s) = Some r \<and>
     ro_status r \<in> set order_non_terminal \<and> row_valid r"

lemma open_not_terminal: "ro_status r \<in> set order_non_terminal \<Longrightarrow> ro_status r \<notin> set ro_terminal_statuses"
  by (auto simp: order_non_terminal_def ro_terminal_statuses_def)

lemma update_open:
  "open_order s r \<Longrightarrow> st \<in> set ro_valid_statuses \<Longrightarrow>
   rorder_update_status (ro_id r) st s = (Inr (), set_rorder (ro_id r) (set_rstatus (sn_now s) st) s)"
  by (rule rorder_update_ok) (auto simp: open_order_def open_not_terminal)

lemma get_set_rstatus:
  "t_get ro_id i rows = Some r \<Longrightarrow>
   t_get ro_id i (t_upd ro_id i (set_rstatus now st) rows) = Some (set_rstatus now st r)"
  by (simp add: t_get_upd)

definition new_fill :: "session \<Rightarrow> real_order \<Rightarrow> int \<Rightarrow> int \<Rightarrow> real_fill \<Rightarrow> bool" where
  "new_fill s r existing delta f \<longleftrightarrow> rf_real_order_id f = ro_id r \<and> rf_quantity f = delta \<and>
     rf_symbol f = ro_symbol r \<and> rf_side f = ro_side r \<and> 0 < rf_fill_price f \<and> 0 < rf_gross_amount f \<and>
     rf_net_amount f = rf_gross_amount f \<and> (rf_fill_status f = ''FULL'' \<longleftrightarrow> ro_quantity r \<le> existing + delta)"

lemma unit_price_pos: "0 < safe_unit_price r q"
  by (simp add: safe_unit_price_def Let_def)

lemma record_fill_app:
  assumes "row_valid r" and "0 < delta"
  shows "\<exists>f. record_fill r existing delta s = (Inr (), s\<lparr>sn_real_fills := sn_real_fills s @ [f]\<rparr>) \<and>
    new_fill s r existing delta f"
proof -
  let ?u = "safe_unit_price r (ro_quantity r)"
  let ?g = "if dmul ?u (of_int delta) \<le> 0 then 1 else dmul ?u (of_int delta)"
  let ?k = "if ro_quantity r \<le> existing + delta \<and> 0 < ro_quantity r then ''FULL'' else ''PARTIAL''"
  let ?f = "\<lparr>rf_id = t_next rf_id (sn_real_fills s), rf_real_order_id = ro_id r, rf_symbol = ro_symbol r,
    rf_side = ro_side r, rf_quantity = delta, rf_fill_price = ?u, rf_fee = 0, rf_tax = 0, rf_gross_amount = ?g,
    rf_net_amount = ?g, rf_fill_status = ?k, rf_filled_at = sn_now s\<rparr>"
  have "0 < ?u" by (rule unit_price_pos)
  moreover have "\<not> ?u \<le> 0" using unit_price_pos [of r "ro_quantity r"] by (simp add: not_le)
  moreover have "0 < ?g" "\<not> ?g < 0" by auto
  ultimately have "record_fill r existing delta s = (Inr (), s\<lparr>sn_real_fills := sn_real_fills s @ [?f]\<rparr>)"
    "new_fill s r existing delta ?f"
    using assms by (simp_all add: record_fill_def Let_def monad_simps rfill_create_def row_valid_def
        rf_valid_fill_statuses_def new_fill_def)
  then show ?thesis by blast
qed

lemma filled_total_append:
  "filled_total (s\<lparr>sn_real_fills := sn_real_fills s @ fills\<rparr>) i = filled_total s i + filled_total (s\<lparr>sn_real_fills := fills\<rparr>) i"
  by (simp add: filled_total_def)

lemma filled_total_eq: "sn_real_fills s = sn_real_fills t \<Longrightarrow> filled_total s i = filled_total t i"
  by (simp add: filled_total_def)

text \<open>The outcome of a dispatch: the result reports the state it leaves.\<close>

definition dispatched ::
  "session \<Rightarrow> real_order \<Rightarrow> string \<times> int \<Rightarrow> fill_sync_result \<Rightarrow> session \<Rightarrow> bool" where
  "dispatched s r v result s' \<longleftrightarrow>
     (\<exists>fills entry. s' = synced s r (fst v) fills entry \<and>
        (fills = [] \<or> (\<exists>f. fills = [f] \<and> 0 < rf_quantity f \<and>
           new_fill s r (filled_total s (ro_id r)) (snd v - filled_total s (ro_id r)) f)) \<and>
        filled_total s' (ro_id r) = snd v \<and> ys_created_fill_count result = int (length fills) \<and>
        ys_fills_total result = snd v \<and> ys_real_order_status result = Some (fst v) \<and>
        ys_real_order_id result = ro_id r)"

lemma no_fill_app:
  "t_get ro_id i (sn_real_orders s) = Some r \<Longrightarrow>
   no_fill_result i k why s = (Inr \<lparr>ys_real_order_id = i, ys_fill_status = k, ys_created_fill_count = 0,
     ys_skipped_reason = why, ys_delta = 0, ys_fills_total = filled_total s i,
     ys_real_order_status = Some (ro_status r)\<rparr>, s)"
  by (simp add: no_fill_result_def monad_simps total_filled_quantity_def)

lemma synced_same:
  "s\<lparr>sn_audits := sn_audits s @ [entry]\<rparr> = synced s r (ro_status r) [] entry"
  by (simp add: synced_def)

lemma filled_total_audits [simp]:
  "filled_total (s\<lparr>sn_audits := x\<rparr>) i = filled_total s i"
  "filled_total (set_rorder j f s) i = filled_total s i"
  by (simp_all add: filled_total_def)

lemma dispatched_same:
  "ys_created_fill_count result = 0 \<Longrightarrow> ys_fills_total result = filled_total s (ro_id r) \<Longrightarrow>
   ys_real_order_status result = Some (ro_status r) \<Longrightarrow> ys_real_order_id result = ro_id r \<Longrightarrow>
   dispatched s r (ro_status r, filled_total s (ro_id r)) result (s\<lparr>sn_audits := sn_audits s @ [entry]\<rparr>)"
  unfolding dispatched_def by (intro exI [of _ "[]"] exI [of _ entry]) (simp add: synced_same [symmetric])

lemma dispatch_failed_app:
  assumes "open_order s r"
  shows "\<exists>result s'. dispatch_failed r a s = (Inr result, s') \<and>
    dispatched s r (ro_status r, filled_total s (ro_id r)) result s'"
proof -
  from assms have "t_get ro_id (ro_id r) (sn_real_orders s) = Some r" by (simp add: open_order_def)
  then show ?thesis
    by (simp add: dispatch_failed_def monad_simps sync_audit_app no_fill_app dispatched_same)
qed

lemma dispatch_negative_app:
  assumes "open_order s r" and "k \<noteq> filled_total s (ro_id r)"
  shows "\<exists>result s'. dispatch_negative r c (filled_total s (ro_id r)) k s = (Inr result, s') \<and>
    dispatched s r (ro_status r, filled_total s (ro_id r)) result s'"
proof -
  from assms have "t_get ro_id (ro_id r) (sn_real_orders s) = Some r" by (simp add: open_order_def)
  then show ?thesis
    by (simp add: dispatch_negative_def Let_def monad_simps sync_audit_app dispatched_same)
qed

lemma dispatched_moved:
  assumes "st \<noteq> ro_status r" and "ys_created_fill_count result = int (length fills)"
    and "ys_fills_total result = n" and "ys_real_order_status result = Some st" and "ys_real_order_id result = ro_id r"
    and "fills = [] \<and> n = filled_total s (ro_id r) \<or> (\<exists>f. fills = [f] \<and> 0 < rf_quantity f \<and>
      new_fill s r (filled_total s (ro_id r)) (n - filled_total s (ro_id r)) f)"
  shows "dispatched s r (st, n) result
    ((set_rorder (ro_id r) (set_rstatus (sn_now s) st) (s\<lparr>sn_real_fills := sn_real_fills s @ fills\<rparr>))\<lparr>sn_audits := sn_audits s @ [entry]\<rparr>)"
  unfolding dispatched_def using assms
  by (intro exI [of _ fills] exI [of _ entry])
    (auto simp: synced_def set_rorder_def filled_total_def new_fill_def)

lemma dispatch_closed_app:
  assumes "open_order s r" and "c = ''REJECTED'' \<or> c = ''CANCELED''"
  shows "\<exists>result s'. dispatch_closed r c s = (Inr result, s') \<and>
    dispatched s r (c, filled_total s (ro_id r)) result s'"
proof -
  from assms have get: "t_get ro_id (ro_id r) (sn_real_orders s) = Some r" by (simp add: open_order_def)
  have c: "c \<in> set ro_valid_statuses" "c \<noteq> ro_status r" "ro_status r \<in> set order_non_terminal"
    using assms by (auto simp: ro_valid_statuses_def open_order_def order_non_terminal_def)
  let ?s = "set_rorder (ro_id r) (set_rstatus (sn_now s) c) s"
  have "t_get ro_id (ro_id r) (sn_real_orders ?s) = Some (set_rstatus (sn_now s) c r)"
    using get by (simp add: get_set_rstatus)
  moreover have "(if c = ''REJECTED'' then ''REJECTED'' else ''CANCELED'') = c" using assms(2) by auto
  ultimately show ?thesis
    using c(2,3) dispatched_moved [OF c(2), of _ "[]" "filled_total s (ro_id r)" s]
    by (simp add: dispatch_closed_def Let_def monad_simps update_open [OF assms(1) c(1)] sync_audit_app
        no_fill_app [where i = "ro_id r" and r = "set_rstatus (sn_now s) c r"])
qed

definition advanced_to :: "real_order \<Rightarrow> string \<Rightarrow> string" where
  "advanced_to r c = (if c = ''FULL'' then ''FILLED'' else if c = ''PARTIAL'' then ''PARTIALLY_FILLED'' else ro_status r)"

definition moved :: "real_order \<Rightarrow> string \<Rightarrow> session \<Rightarrow> session" where
  "moved r st s = (if st = ro_status r then s else set_rorder (ro_id r) (set_rstatus (sn_now s) st) s)"

lemma moved_sel [simp]:
  "sn_audits (moved r st s) = sn_audits s" "sn_real_fills (moved r st s) = sn_real_fills s"
  by (simp_all add: moved_def)

lemma moved_get: "t_get ro_id (ro_id r) (sn_real_orders s) = Some r \<Longrightarrow>
  \<exists>q. t_get ro_id (ro_id r) (sn_real_orders (moved r st s)) = Some q \<and> ro_status q = st"
  by (auto simp: moved_def get_set_rstatus)

lemma advance_app:
  assumes "open_order s r"
  shows "advance_status r c s = (Inr (), moved r (advanced_to r c) s)"
proof -
  have "ro_status r \<in> set order_non_terminal" using assms by (simp add: open_order_def)
  then have open_status: "ro_status r \<in> set order_non_terminal" "ro_status r \<noteq> ''FILLED''"
    by (auto simp: order_non_terminal_def)
  have "''FILLED'' \<in> set ro_valid_statuses" "''PARTIALLY_FILLED'' \<in> set ro_valid_statuses"
    by (simp_all add: ro_valid_statuses_def)
  with open_status update_open [OF assms] show ?thesis
    by (auto simp: advance_status_def advanced_to_def moved_def monad_simps)
qed

lemma dispatched_fill:
  assumes "ys_created_fill_count result = int (length fills)"
    and "ys_fills_total result = n" and "ys_real_order_status result = Some st" and "ys_real_order_id result = ro_id r"
    and "fills = [] \<and> n = filled_total s (ro_id r) \<or> (\<exists>f. fills = [f] \<and> 0 < rf_quantity f \<and>
      new_fill s r (filled_total s (ro_id r)) (n - filled_total s (ro_id r)) f)"
  shows "dispatched s r (st, n) result
    ((moved r st (s\<lparr>sn_real_fills := sn_real_fills s @ fills\<rparr>))\<lparr>sn_audits := sn_audits s @ [entry]\<rparr>)"
  unfolding dispatched_def using assms
  by (intro exI [of _ fills] exI [of _ entry])
    (auto simp: synced_def moved_def set_rorder_def filled_total_def new_fill_def)

definition fills_positive :: "session \<Rightarrow> bool" where
  "fills_positive s \<longleftrightarrow> (\<forall>f \<in> set (sn_real_fills s). 0 < rf_quantity f)"

lemma filled_total_nonneg: "fills_positive s \<Longrightarrow> 0 \<le> filled_total s i"
  unfolding filled_total_def fills_positive_def by (rule sum_list_nonneg) fastforce

lemma dispatch_app:
  assumes "open_order s r" and "fills_positive s"
  shows "\<exists>result s'. dispatch_status r a s = (Inr result, s') \<and>
    dispatched s r (sync_spec (ro_quantity r) (Some a) (ro_status r, filled_total s (ro_id r))) result s'"
proof -
  let ?c = "classify_fill_response a" and ?old = "filled_total s (ro_id r)" and ?q = "ro_quantity r"
  have qty: "0 < ?q" and get: "t_get ro_id (ro_id r) (sn_real_orders s) = Some r" and valid: "row_valid r"
    using assms(1) by (auto simp: open_order_def row_valid_def)
  have "?c = ''FAILED'' \<or> ?c = ''REJECTED'' \<or> ?c = ''CANCELED'' \<or> ?c = ''FULL'' \<or> ?c = ''PARTIAL'' \<or> ?c = ''NONE''"
    by (simp add: classify_fill_response_def Let_def)
  then consider (failed) "?c = ''FAILED''" | (closed) "?c = ''REJECTED'' \<or> ?c = ''CANCELED''"
    | (counted) "?c = ''FULL'' \<or> ?c = ''PARTIAL'' \<or> ?c = ''NONE''" by blast
  then show ?thesis
  proof cases
    case failed
    then have "sync_spec ?q (Some a) (ro_status r, ?old) = (ro_status r, ?old)"
      by (auto simp: classify_fill_response_def Let_def split: if_splits)
    with failed dispatch_failed_app [OF assms(1), of a] show ?thesis by (simp add: dispatch_status_def)
  next
    case closed
    then have "sync_spec ?q (Some a) (ro_status r, ?old) = (?c, ?old)"
      by (auto simp: classify_fill_response_def Let_def split: if_splits)
    with closed dispatch_closed_app [OF assms(1) closed] show ?thesis
      by (auto simp: dispatch_status_def)
  next
    case counted
    let ?k = "effective_kis_total ?c a ?q"
    let ?st = "advanced_to r ?c"
    have spec: "sync_spec ?q (Some a) (ro_status r, ?old) = (if ?k < ?old then (ro_status r, ?old) else (?st, ?k))"
      using counted qty filled_total_nonneg [OF assms(2), of "ro_id r"]
      by (auto simp: classify_fill_response_def Let_def effective_kis_total_def advanced_to_def max_def split: if_splits)
    have start: "dispatch_status r a s =
        (if ?k < ?old then dispatch_negative r ?c ?old ?k s else sbind
          (if 0 < ?k - ?old then record_fill r ?old (?k - ?old) else sret ()) (\<lambda>_.
                sbind (advance_status r ?c) (\<lambda>_.
                sbind (sync_audit r ''REAL_ORDER_FILL_SYNCED''
                  [T (''KIS reported '' @ ?c @ '' (delta='' @ str_of_int (?k - ?old) @ '')'')]
                  (sync_details ?c r [(''delta'', JInt (?k - ?old)), (''kis_total'', JInt ?k)])) (\<lambda>_.
                sbind (row_of sn_real_orders ro_id (ro_id r)) (\<lambda>o'.
                sret \<lparr>ys_real_order_id = ro_id r, ys_fill_status = ?c,
                      ys_created_fill_count = (if 0 < ?k - ?old then 1 else 0), ys_skipped_reason = None,
                      ys_delta = ?k - ?old, ys_fills_total = ?old + (?k - ?old),
                      ys_real_order_status = Some (ro_status o')\<rparr>)))) s)"
      using counted by (auto simp: dispatch_status_def Let_def sbind_Inr [OF sgets_app] total_filled_quantity_def)
    show ?thesis
    proof (cases "?k < ?old")
      case True
      with dispatch_negative_app [OF assms(1), of ?k ?c] show ?thesis unfolding start spec by simp
    next
      case False
      let ?rec = "if 0 < ?k - ?old then record_fill r ?old (?k - ?old) else sret ()"
      obtain fills where fills: "(if 0 < ?k - ?old then record_fill r ?old (?k - ?old) else sret ()) s =
          (Inr (), s\<lparr>sn_real_fills := sn_real_fills s @ fills\<rparr>)"
        and new: "fills = [] \<and> ?k = ?old \<and> \<not> 0 < ?k - ?old \<or> 0 < ?k - ?old \<and> (\<exists>f. fills = [f] \<and> 0 < rf_quantity f \<and>
          new_fill s r ?old (?k - ?old) f)"
      proof (cases "0 < ?k - ?old")
        case True
        with record_fill_app [OF valid, of "?k - ?old" ?old s] that show ?thesis
          by (auto simp: new_fill_def)
      next
        case no: False
        with False that [of "[]"] show ?thesis by (simp add: sret_app)
      qed
      let ?s = "s\<lparr>sn_real_fills := sn_real_fills s @ fills\<rparr>"
      have "open_order ?s r" using assms(1) by (simp add: open_order_def)
      note adv = advance_app [OF this, of ?c]
      obtain q where q: "t_get ro_id (ro_id r) (sn_real_orders (moved r ?st ?s)) = Some q" "ro_status q = ?st"
        using moved_get [of r ?s ?st] get by auto
      have "\<exists>result. dispatch_status r a s = (Inr result, (moved r ?st ?s)\<lparr>sn_audits := sn_audits s @
          [sync_log (moved r ?st ?s) r ''REAL_ORDER_FILL_SYNCED'' [T (''KIS reported '' @ ?c @ '' (delta='' @ str_of_int (?k - ?old) @ '')'')]
          (sync_details ?c r [(''delta'', JInt (?k - ?old)), (''kis_total'', JInt ?k)])]\<rparr>) \<and>
          ys_created_fill_count result = int (length fills) \<and> ys_fills_total result = ?k \<and>
          ys_real_order_status result = Some ?st \<and> ys_real_order_id result = ro_id r"
        unfolding start if_not_P [OF False] sbind_Inr [where m = ?rec and s = s, OF fills]
          sbind_Inr [where m = "advance_status r ?c" and s = ?s, OF adv]
        using q new by (auto simp: monad_simps sync_audit_app)
      then obtain result where result: "dispatch_status r a s = (Inr result, (moved r ?st ?s)\<lparr>sn_audits := sn_audits s @
          [sync_log (moved r ?st ?s) r ''REAL_ORDER_FILL_SYNCED'' [T (''KIS reported '' @ ?c @ '' (delta='' @ str_of_int (?k - ?old) @ '')'')]
          (sync_details ?c r [(''delta'', JInt (?k - ?old)), (''kis_total'', JInt ?k)])]\<rparr>)"
          "ys_created_fill_count result = int (length fills)" "ys_fills_total result = ?k"
          "ys_real_order_status result = Some ?st" "ys_real_order_id result = ro_id r" by blast
      have "dispatched s r (?st, ?k) result (snd (dispatch_status r a s))"
        unfolding result(1) snd_conv by (rule dispatched_fill) (use result(2-5) new in auto)
      with False result(1) show ?thesis unfolding spec by simp
    qed
  qed
qed

subsection \<open>The service\<close>

definition order_ref :: "real_order \<Rightarrow> string option \<Rightarrow> string" where
  "order_ref r ref = or_text ref (or_text (ro_fake_order_no r) (str_of_int (ro_id r)))"

definition sync_answer :: "'c kis_transport option \<Rightarrow> string \<Rightarrow> 'c world \<Rightarrow> kis_fill_result option" where
  "sync_answer t ref v = (case fst (sync_query t ref v) of Inl e \<Rightarrow> None | Inr a \<Rightarrow> Some a)"

definition syncable :: "real_order \<Rightarrow> bool" where
  "syncable r \<longleftrightarrow> \<not> ro_dry_run r \<and> ro_status r \<in> set order_non_terminal"

lemma query_frame: "sync_query t ref (s, w) = (x, v) \<Longrightarrow> fst v = s"
  by (auto simp: sync_query_def monad_simps split: option.splits prod.splits)

lemma sync_skips:
  assumes "t_get ro_id i (sn_real_orders s) = Some r" and "ro_status r \<in> set ro_valid_statuses" and "\<not> syncable r"
  shows "\<exists>why. sync_fills t i ref (s, w) = (Inr \<lparr>ys_real_order_id = i, ys_fill_status = ''NONE'',
     ys_created_fill_count = 0, ys_skipped_reason = Some why, ys_delta = 0, ys_fills_total = filled_total s i,
     ys_real_order_status = Some (ro_status r)\<rparr>, (s, w))"
proof -
  have id: "ro_id r = i" using assms(1) by (auto dest: t_get_Some)
  have "ro_dry_run r \<or> ro_status r = ''DRY_RUN'' \<or> ro_status r \<in> set order_skip_statuses"
    using assms(2,3) by (auto simp: syncable_def ro_valid_statuses_def order_skip_statuses_def order_non_terminal_def)
  then show ?thesis using assms(1) id
    by (auto simp: sync_fills_def rorder_get_by_id_def monad_simps no_fill_app)
qed

lemma sync_open:
  assumes get: "t_get ro_id i (sn_real_orders s) = Some r" and open_: "syncable r" and valid: "row_valid r"
    and fills: "fills_positive s"
  shows "\<exists>result s'. sync_fills t i ref (s, w) = (Inr result, (s', snd (snd (sync_query t (order_ref r ref) (s, w))))) \<and>
    dispatched s r (sync_spec (ro_quantity r) (sync_answer t (order_ref r ref) (s, w)) (ro_status r, filled_total s i)) result s'"
proof -
  have id: "ro_id r = i" using get by (auto dest: t_get_Some)
  have ready: "open_order s r" using get open_ valid id by (simp add: open_order_def syncable_def)
  have gate: "\<not> (ro_dry_run r \<or> ro_status r = ''DRY_RUN'')" "ro_status r \<notin> set order_skip_statuses"
    using open_ by (auto simp: syncable_def order_non_terminal_def order_skip_statuses_def)
  obtain x v where q: "sync_query t (order_ref r ref) (s, w) = (x, v)" by (cases "sync_query t (order_ref r ref) (s, w)")
  then obtain u where v: "v = (s, u)" using query_frame [OF q] by (cases v) auto
  show ?thesis
  proof (cases x)
    case (Inr a)
    with dispatch_app [OF ready fills, of a] get gate q v id show ?thesis
      by (auto simp: sync_fills_def rorder_get_by_id_def monad_simps sync_answer_def order_ref_def Let_def
          simp del: sync_spec.simps)
  next
    case (Inl e)
    have "dispatched s r (ro_status r, filled_total s (ro_id r))
        \<lparr>ys_real_order_id = ro_id r, ys_fill_status = ''FAILED'', ys_created_fill_count = 0,
          ys_skipped_reason = Some ''TRANSPORT_RAISED'', ys_delta = 0, ys_fills_total = filled_total s (ro_id r),
          ys_real_order_status = Some (ro_status r)\<rparr> (s\<lparr>sn_audits := sn_audits s @ [entry]\<rparr>)" for entry
      by (rule dispatched_same) simp_all
    with Inl get gate q v id show ?thesis
      by (simp add: sync_fills_def rorder_get_by_id_def monad_simps sync_answer_def order_ref_def Let_def
          sync_audit_app no_fill_app)
  qed
qed

lemma spec_status:
  "st \<in> set order_non_terminal \<Longrightarrow> fst (sync_spec q a (st, n)) \<in> set ro_valid_statuses"
  by (cases a) (auto simp: order_non_terminal_def ro_valid_statuses_def)

lemma dispatched_view:
  assumes "dispatched s r v result s'" and "t_get ro_id (ro_id r) (sn_real_orders s) = Some r"
  shows "order_view s' (ro_id r) = Some v \<and> (\<forall>j. j \<noteq> ro_id r \<longrightarrow> order_view s' j = order_view s j) \<and>
    (\<exists>fills. sn_real_fills s' = sn_real_fills s @ fills \<and> ys_created_fill_count result = int (length fills) \<and>
      length fills \<le> 1 \<and> (\<forall>f \<in> set fills. rf_real_order_id f = ro_id r \<and> 0 < rf_quantity f)) \<and>
    sn_candidates s' = sn_candidates s \<and> sn_now s' = sn_now s"
proof -
  from assms(1) obtain fills entry where d: "s' = synced s r (fst v) fills entry" "filled_total s' (ro_id r) = snd v"
    "ys_created_fill_count result = int (length fills)" and f: "fills = [] \<or> (\<exists>f. fills = [f] \<and> 0 < rf_quantity f \<and>
       new_fill s r (filled_total s (ro_id r)) (snd v - filled_total s (ro_id r)) f)"
    by (auto simp: dispatched_def)
  have own: "\<forall>f \<in> set fills. rf_real_order_id f = ro_id r \<and> 0 < rf_quantity f" and len: "length fills \<le> 1"
    using f by (auto simp: new_fill_def)
  have "filled_total s' j = filled_total s j" if "j \<noteq> ro_id r" for j
    using own that unfolding filled_total_def d(1) by (auto simp: filter_empty_conv)
  then have "\<forall>j. j \<noteq> ro_id r \<longrightarrow> order_view s' j = order_view s j"
    by (auto simp: order_view_def d(1) t_get_upd)
  moreover have "order_view s' (ro_id r) = Some v"
    using d(2) assms(2) by (cases v) (auto simp: order_view_def d(1) t_get_upd)
  ultimately show ?thesis using own len d(3) by (auto simp: d(1))
qed

text \<open>What the result of a synchronisation says of the order.\<close>

definition reports :: "fill_sync_result \<Rightarrow> session \<Rightarrow> int \<Rightarrow> bool" where
  "reports result s i \<longleftrightarrow> ys_real_order_id result = i \<and>
     (case order_view s i of None \<Rightarrow> ys_real_order_status result = None \<and> ys_fills_total result = 0
      | Some (st, n) \<Rightarrow> ys_real_order_status result = Some st \<and> ys_fills_total result = n)"

definition same_row :: "real_order \<Rightarrow> real_order \<Rightarrow> bool" where
  "same_row r q \<longleftrightarrow> q = r \<or> (\<exists>now st. q = set_rstatus now st r)"

lemma same_row_sel:
  "same_row r q \<Longrightarrow> ro_id q = ro_id r \<and> ro_candidate_id q = ro_candidate_id r \<and> ro_quantity q = ro_quantity r \<and>
     ro_side q = ro_side r \<and> ro_dry_run q = ro_dry_run r \<and> ro_fake_order_no q = ro_fake_order_no r \<and>
     ro_estimated_amount q = ro_estimated_amount r \<and> ro_created_at q = ro_created_at r"
  by (auto simp: same_row_def set_rstatus_def)

lemma dispatched_row:
  assumes "dispatched s r v result s'" and "t_get ro_id (ro_id r) (sn_real_orders s) = Some r"
  shows "\<exists>q. t_get ro_id (ro_id r) (sn_real_orders s') = Some q \<and> same_row r q"
proof -
  from assms(1) obtain fills entry where s': "s' = synced s r (fst v) fills entry" by (auto simp: dispatched_def)
  show ?thesis
  proof (cases "fst v = ro_status r")
    case True
    with assms(2) s' show ?thesis by (simp add: same_row_def)
  next
    case False
    with assms(2) s' show ?thesis
      by (intro exI [of _ "set_rstatus (sn_now s) (fst v) r"]) (auto simp: t_get_upd same_row_def)
  qed
qed

lemma dispatched_reports: "dispatched s r v result s' \<Longrightarrow> order_view s' (ro_id r) = Some v \<Longrightarrow> reports result s' (ro_id r)"
  by (cases v) (auto simp: dispatched_def reports_def)

lemma sync_effect:
  assumes get: "t_get ro_id i (sn_real_orders s) = Some r" and valid: "row_valid r"
    and st: "ro_status r \<in> set ro_valid_statuses" and fills: "fills_positive s"
  obtains result s' where
    "sync_fills t i ref (s, w) =
       (Inr result, (s', if syncable r then snd (snd (sync_query t (order_ref r ref) (s, w))) else w))"
    "order_view s' i = Some (if syncable r
       then sync_spec (ro_quantity r) (sync_answer t (order_ref r ref) (s, w)) (ro_status r, filled_total s i)
       else (ro_status r, filled_total s i))"
    "\<forall>j. j \<noteq> i \<longrightarrow> order_view s' j = order_view s j" "reports result s' i"
    "\<exists>new. sn_real_fills s' = sn_real_fills s @ new \<and> ys_created_fill_count result = int (length new) \<and> length new \<le> 1 \<and>
       (\<forall>f \<in> set new. rf_real_order_id f = i \<and> 0 < rf_quantity f)"
    "\<not> syncable r \<Longrightarrow> s' = s"
    "\<exists>q. t_get ro_id i (sn_real_orders s') = Some q \<and> same_row r q"
proof -
  have id: "ro_id r = i" using get by (auto dest: t_get_Some)
  show ?thesis
  proof (cases "syncable r")
    case True
    from sync_open [OF get True valid fills, of t ref w] obtain result s' where
      run: "sync_fills t i ref (s, w) = (Inr result, (s', snd (snd (sync_query t (order_ref r ref) (s, w)))))"
      "dispatched s r (sync_spec (ro_quantity r) (sync_answer t (order_ref r ref) (s, w)) (ro_status r, filled_total s i)) result s'"
      by blast
    from dispatched_view [OF run(2)] get id have view: "order_view s' i = Some (sync_spec (ro_quantity r)
        (sync_answer t (order_ref r ref) (s, w)) (ro_status r, filled_total s i))"
      "\<forall>j. j \<noteq> i \<longrightarrow> order_view s' j = order_view s j"
      "\<exists>new. sn_real_fills s' = sn_real_fills s @ new \<and> ys_created_fill_count result = int (length new) \<and> length new \<le> 1 \<and>
       (\<forall>f \<in> set new. rf_real_order_id f = i \<and> 0 < rf_quantity f)" by auto
    from dispatched_reports [OF run(2)] view(1) id have "reports result s' i" by simp
    moreover from dispatched_row [OF run(2)] get id
    have "\<exists>q. t_get ro_id i (sn_real_orders s') = Some q \<and> same_row r q" by simp
    ultimately show ?thesis by (intro that) (use run(1) view True in \<open>auto simp del: sync_spec.simps\<close>)
  next
    case False
    from sync_skips [OF get st False, of t ref w] obtain result where run: "sync_fills t i ref (s, w) = (Inr result, (s, w))"
      "ys_created_fill_count result = 0" "ys_real_order_id result = i" "ys_fills_total result = filled_total s i"
      "ys_real_order_status result = Some (ro_status r)" by auto
    show ?thesis by (rule that [of result s]) (use run get False in \<open>auto simp: order_view_def reports_def same_row_def\<close>)
  qed
qed

subsection \<open>Properties\<close>

text \<open>
  C16. A synchronisation implements the abstract one. For an order row of the shape its
  repository creates, it never raises, whatever the client does, its own exception included;
  the order's status and filled quantity become what \<open>sync_spec\<close> gives for the client's answer,
  or stay as they are for a dry-run or finished order, for which the client is not asked; no
  other order's view changes, and the result reports the view it leaves.
\<close>

theorem fill_sync_refines_spec:
  assumes "t_get ro_id i (sn_real_orders s) = Some r" and "row_valid r"
    and "ro_status r \<in> set ro_valid_statuses" and "fills_positive s"
  shows "case sync_fills t i ref (s, w) of (res, (s', w')) \<Rightarrow>
    order_view s' i = Some (if syncable r
      then sync_spec (ro_quantity r) (sync_answer t (order_ref r ref) (s, w)) (ro_status r, filled_total s i)
      else (ro_status r, filled_total s i)) \<and>
    (\<forall>j. j = i \<or> order_view s' j = order_view s j) \<and>
    (syncable r \<or> s' = s \<and> w' = w) \<and> (\<exists>result. res = Inr result \<and> reports result s' i)"
  by (rule sync_effect [OF assms, of t ref w]) (auto simp del: sync_spec.simps)

lemma spec_idem: "0 < qty \<Longrightarrow> 0 \<le> n \<Longrightarrow> st \<in> set order_non_terminal \<Longrightarrow>
  sync_spec qty a (st, n) = (st', n') \<Longrightarrow>
  st' \<in> set order_non_terminal \<Longrightarrow> sync_spec qty a (st', n') = (st', n')"
  by (cases a) (auto simp: order_non_terminal_def split: if_splits)

lemma positive_total:
  "(\<And>f. f \<in> set fills \<Longrightarrow> rf_real_order_id f = i \<and> 0 < rf_quantity f) \<Longrightarrow>
   sn_real_fills s' = sn_real_fills s @ fills \<Longrightarrow> filled_total s' i = filled_total s i + sum_list (map rf_quantity fills)"
  by (simp add: filled_total_def)

lemma sum_positive: "(\<And>f. f \<in> set fills \<Longrightarrow> 0 < rf_quantity f) \<Longrightarrow> sum_list (map rf_quantity fills) = 0 \<Longrightarrow> fills = []"
proof (cases fills)
  case (Cons f fs)
  assume pos: "\<And>f. f \<in> set fills \<Longrightarrow> 0 < rf_quantity f" and sum: "sum_list (map rf_quantity fills) = 0"
  have "0 \<le> sum_list (map rf_quantity fs)" using pos Cons by (intro sum_list_nonneg) fastforce
  moreover have "0 < rf_quantity f" using pos Cons by simp
  ultimately show "fills = []" using sum Cons by simp
qed simp

lemma sync_again:
  assumes "t_get ro_id i (sn_real_orders s) = Some r" and "row_valid r"
    and "ro_status r \<in> set ro_valid_statuses" and "fills_positive s"
    and run: "sync_fills t i ref (s, w) = (res, (s', w'))"
    and same: "sync_answer t (order_ref r ref) (s', w') = sync_answer t (order_ref r ref) (s, w)"
  shows "case sync_fills t i ref (s', w') of (res2, (s2, w2)) \<Rightarrow>
    sn_real_fills s2 = sn_real_fills s' \<and> (\<forall>j. order_view s2 j = order_view s' j)"
proof -
  have id: "ro_id r = i" using assms(1) by (auto dest: t_get_Some)
  let ?a = "sync_answer t (order_ref r ref) (s, w)" and ?n = "filled_total s i"
  obtain result s0 where e0: "sync_fills t i ref (s, w) =
       (Inr result, (s0, if syncable r then snd (snd (sync_query t (order_ref r ref) (s, w))) else w))"
    "order_view s0 i = Some (if syncable r then sync_spec (ro_quantity r) ?a (ro_status r, ?n) else (ro_status r, ?n))"
    "\<exists>new. sn_real_fills s0 = sn_real_fills s @ new \<and> (\<forall>f \<in> set new. rf_real_order_id f = i \<and> 0 < rf_quantity f)"
    "\<exists>q. t_get ro_id i (sn_real_orders s0) = Some q \<and> same_row r q"
    by (rule sync_effect [OF assms(1-4), of t ref w]) blast
  from e0(1) run have "s0 = s'" by simp
  note e = e0(2-4) [unfolded this]
  from e(3) obtain q where q: "t_get ro_id i (sn_real_orders s') = Some q" "same_row r q" by blast
  note keep = same_row_sel [OF q(2)]
  from e(1) q(1) have view: "(ro_status q, filled_total s' i) =
      (if syncable r then sync_spec (ro_quantity r) ?a (ro_status r, ?n) else (ro_status r, ?n))"
    by (simp add: order_view_def)
  have st: "ro_status q \<in> set ro_valid_statuses"
  proof (cases "syncable r")
    case True
    then have "ro_status q = fst (sync_spec (ro_quantity r) ?a (ro_status r, ?n))" using view by (metis fst_conv)
    with True show ?thesis using spec_status by (simp add: syncable_def)
  qed (use view assms(3) in simp)
  have valid: "row_valid q" using assms(2) keep by (simp add: row_valid_def)
  have pos: "fills_positive s'" using e(2) assms(4) by (auto simp: fills_positive_def)
  have ref: "order_ref q ref = order_ref r ref" using keep by (simp add: order_ref_def)
  have again: "(if syncable q then sync_spec (ro_quantity q) (sync_answer t (order_ref q ref) (s', w')) (ro_status q, filled_total s' i)
      else (ro_status q, filled_total s' i)) = (ro_status q, filled_total s' i)"
  proof (cases "syncable q")
    case True
    then have r: "syncable r" using view keep by (auto simp: syncable_def split: if_splits)
    have "sync_spec (ro_quantity r) ?a (ro_status q, filled_total s' i) = (ro_status q, filled_total s' i)"
      by (rule spec_idem [of _ ?n "ro_status r"])
        (use assms(2) filled_total_nonneg [OF assms(4)] r True view in \<open>auto simp: row_valid_def syncable_def simp del: sync_spec.simps\<close>)
    with True show ?thesis unfolding ref same by (simp add: keep del: sync_spec.simps)
  qed simp
  obtain result2 s2 w2 where e2: "sync_fills t i ref (s', w') = (Inr result2, (s2, w2))"
    "order_view s2 i = Some (ro_status q, filled_total s' i)" "\<forall>j. j \<noteq> i \<longrightarrow> order_view s2 j = order_view s' j"
    "\<exists>new. sn_real_fills s2 = sn_real_fills s' @ new \<and> (\<forall>f \<in> set new. rf_real_order_id f = i \<and> 0 < rf_quantity f)"
    by (rule sync_effect [OF q(1) valid st pos, of t ref w']) (unfold again, blast)
  from e2(4) obtain new where new: "sn_real_fills s2 = sn_real_fills s' @ new"
    "\<forall>f \<in> set new. rf_real_order_id f = i \<and> 0 < rf_quantity f" by blast
  have "filled_total s2 i = filled_total s' i" using e2(2) by (auto simp: order_view_def)
  with positive_total [of new i s2 s'] new have "sum_list (map rf_quantity new) = 0" by auto
  then have "new = []" using sum_positive new(2) by blast
  moreover have "order_view s2 j = order_view s' j" for j
    using e2(2,3) q(1) by (cases "j = i") (auto simp: order_view_def)
  ultimately show ?thesis using e2(1) new(1) by simp
qed

text \<open>
  C17. Synchronising again is harmless: when the broker gives the same answer to a second
  synchronisation, it creates no fill row and leaves every order's view as the first left it.
\<close>

theorem fill_sync_idempotent:
  assumes "t_get ro_id i (sn_real_orders s) = Some r" and "row_valid r"
    and "ro_status r \<in> set ro_valid_statuses" and "fills_positive s"
    and "sync_fills t i ref (s, w) = (res, (s', w'))"
    and "sync_answer t (order_ref r ref) (s', w') = sync_answer t (order_ref r ref) (s, w)"
  shows "case sync_fills t i ref (s', w') of (res2, (s2, w2)) \<Rightarrow>
    sn_real_fills s2 = sn_real_fills s' \<and> (\<forall>j. order_view s2 j = order_view s' j)"
  by (rule sync_again [OF assms])

text \<open>
  The fills reported with a cancellation are lost: when the broker reports an open order as
  cancelled, the status becomes \<open>CANCELED\<close> and no fill is recorded, whatever quantity the
  same answer reports as filled, and no later synchronisation asks the broker about it again.
\<close>

lemma cancellation_drops_fills:
  assumes "t_get ro_id i (sn_real_orders s) = Some r" and "row_valid r"
    and "syncable r" and "fills_positive s"
    and "sync_answer t (order_ref r ref) (s, w) = Some a" and "fr_status a = ''CANCELED''"
  shows "case sync_fills t i ref (s, w) of (res, (s', w')) \<Rightarrow>
    order_view s' i = Some (''CANCELED'', filled_total s i) \<and> sn_real_fills s' = sn_real_fills s \<and>
    snd (sync_fills t2 i ref2 (s', w'')) = (s', w'')"
proof -
  have st: "ro_status r \<in> set ro_valid_statuses"
    using assms(3) by (auto simp: syncable_def order_non_terminal_def ro_valid_statuses_def)
  obtain result s' w' where e: "sync_fills t i ref (s, w) = (Inr result, (s', w'))"
    "order_view s' i = Some (''CANCELED'', filled_total s i)"
    "\<exists>new. sn_real_fills s' = sn_real_fills s @ new \<and> (\<forall>f \<in> set new. rf_real_order_id f = i \<and> 0 < rf_quantity f)"
    "\<exists>q. t_get ro_id i (sn_real_orders s') = Some q \<and> same_row r q"
    by (rule sync_effect [OF assms(1,2) st assms(4), of t ref w]) (use assms(3,5,6) in auto)
  from e(3) obtain new where new: "sn_real_fills s' = sn_real_fills s @ new"
    "\<forall>f \<in> set new. rf_real_order_id f = i \<and> 0 < rf_quantity f" by blast
  have "filled_total s' i = filled_total s i" using e(2) by (auto simp: order_view_def)
  with positive_total [of new i s' s] new have "sum_list (map rf_quantity new) = 0" by auto
  then have "new = []" using sum_positive new(2) by blast
  moreover obtain q where q: "t_get ro_id i (sn_real_orders s') = Some q" using e(4) by blast
  then have "ro_status q = ''CANCELED''" using e(2) by (simp add: order_view_def)
  then have "ro_status q \<in> set ro_valid_statuses" "\<not> syncable q"
    by (simp_all add: ro_valid_statuses_def syncable_def order_non_terminal_def)
  from sync_skips [OF q this, of t2 ref2 w''] have "snd (sync_fills t2 i ref2 (s', w'')) = (s', w'')" by auto
  ultimately show ?thesis using e(1,2) new(1) by simp
qed

subsection \<open>A concrete order\<close>

definition submitted_order :: real_order where
  "submitted_order = \<lparr>ro_id = 3, ro_candidate_id = 7, ro_symbol = ''005930'', ro_side = ''BUY'', ro_quantity = 10,
     ro_order_type = ''MARKET'', ro_limit_price = None, ro_estimated_amount = 700000, ro_status = ''SUBMITTED'',
     ro_dry_run = False, ro_fake_order_no = None, ro_broker_order_no_hash = None, ro_request_id = None,
     ro_error_code = None, ro_error_message = None, ro_submitted_at = Some 0, ro_created_at = 0, ro_updated_at = 0\<rparr>"

definition submitted_session :: session where
  "submitted_session = empty_session\<lparr>sn_real_orders := [submitted_order]\<rparr>"

definition replying :: "reply option \<Rightarrow> kis_server" where
  "replying body sent q = HReply 200 body"

abbreviation replying_client :: "reply option \<Rightarrow> http_request list kis_transport option" where
  "replying_client body \<equiv> Some (httpx_transport demo_config (replying body))"

lemma replying_answer: "sync_answer (replying_client body) ref v = Some (classify_http_fill 200 body ref)"
  by (cases v) (simp add: sync_answer_def sync_query_def monad_simps httpx_transport_def httpx_query_fill_def
      query_fill_max_retries_def query_attempt_def http_send_def replying_def numeral_2_eq_2)

lemma submitted_ok: "t_get ro_id 3 (sn_real_orders submitted_session) = Some submitted_order" "row_valid submitted_order"
  "ro_status submitted_order \<in> set ro_valid_statuses" "fills_positive submitted_session" "syncable submitted_order"
  "order_ref submitted_order (Some ''17'') = ''17''"
  by (simp_all add: submitted_session_def submitted_order_def empty_session_def t_get_def row_valid_def ro_valid_sides_def
      ro_valid_statuses_def fills_positive_def syncable_def order_non_terminal_def order_ref_def or_text_def)

lemma submitted_view: "ro_quantity submitted_order = 10" "ro_status submitted_order = ''SUBMITTED''"
  "filled_total submitted_session 3 = 0"
  by (simp_all add: submitted_order_def submitted_session_def filled_total_def empty_session_def)

definition cancelled_reply :: "reply option" where
  "cancelled_reply = Some (RDict [(''rt_cd'', RStr ''0''), (''output1'', RList [RDict
     [(''ord_qty'', RStr ''10''), (''tot_ccld_qty'', RStr ''4''), (''cncl_yn'', RStr ''Y'')]])])"

theorem fill_sync_refines_spec_witness:
  "order_view (fst (snd (sync_fills (replying_client (demo_reply 4 ''N'')) 3 (Some ''17'') (submitted_session, [])))) 3 =
     Some (''PARTIALLY_FILLED'', 4)"
proof -
  have "fr_status (classify_http_fill 200 (demo_reply 4 ''N'') ''17'') = ''PARTIALLY_FILLED''"
    "fr_filled_quantity (classify_http_fill 200 (demo_reply 4 ''N'') ''17'') = 4" by code_simp+
  with fill_sync_refines_spec [OF submitted_ok(1-4), of "replying_client (demo_reply 4 ''N'')" "Some ''17''" "[]"]
  show ?thesis by (auto simp: submitted_ok replying_answer submitted_view split: prod.splits)
qed

theorem fill_sync_idempotent_witness:
  "case sync_fills (replying_client (demo_reply 4 ''N'')) 3 (Some ''17'') (submitted_session, []) of (res, (s', w')) \<Rightarrow>
     sn_real_fills (fst (snd (sync_fills (replying_client (demo_reply 4 ''N'')) 3 (Some ''17'') (s', w')))) = sn_real_fills s'"
proof -
  obtain res s' w' where run: "sync_fills (replying_client (demo_reply 4 ''N'')) 3 (Some ''17'') (submitted_session, []) = (res, (s', w'))"
    by (cases "sync_fills (replying_client (demo_reply 4 ''N'')) 3 (Some ''17'') (submitted_session, [])") auto
  from fill_sync_idempotent [OF submitted_ok(1-4) run] show ?thesis
    unfolding run by (simp add: replying_answer) (auto split: prod.splits)
qed

lemma cancellation_drops_fills_witness:
  "order_view (fst (snd (sync_fills (replying_client cancelled_reply) 3 (Some ''17'') (submitted_session, [])))) 3 =
     Some (''CANCELED'', 0) \<and> fr_filled_quantity (classify_http_fill 200 cancelled_reply ''17'') = 4"
proof -
  have c: "fr_status (classify_http_fill 200 cancelled_reply ''17'') = ''CANCELED''"
    "fr_filled_quantity (classify_http_fill 200 cancelled_reply ''17'') = 4" by code_simp+
  have "sync_answer (replying_client cancelled_reply) (order_ref submitted_order (Some ''17'')) (submitted_session, []) =
      Some (classify_http_fill 200 cancelled_reply ''17'')" by (simp add: replying_answer submitted_ok)
  from cancellation_drops_fills [OF submitted_ok(1,2,5,4) this c(1), of None None "[]"] c(2)
  show ?thesis by (auto simp: submitted_view split: prod.splits)
qed

end
