(* ===== verification/Real_Trading.thy ===== *)
theory Real_Trading
  imports Executor_Safety Fill_Facts
begin

text \<open>
  Real trading as a whole: any interleaving of executions, synchronisations of fills, steps of
  the approval workflow, the passing of time and whatever the broker does on its own. The
  limits of the executor hold in every reachable state.
\<close>

subsection \<open>Steps\<close>

inductive real_step :: "settings \<Rightarrow> 'c world \<Rightarrow> 'c world \<Rightarrow> bool" for cfg where
  execution: "set (ex_scrub_order ex) = set sensitive_substrings \<Longrightarrow>
    execute ex cfg i (s, w) = (res, v) \<Longrightarrow> real_step cfg (s, w) v"
| synchronisation: "sync_fills t i ref (s, w) = (res, v) \<Longrightarrow> real_step cfg (s, w) v"
| workflow: "cands_evolve s s' \<Longrightarrow> distinct (map oc_id (sn_candidates s')) \<Longrightarrow> amounts_ok s' \<Longrightarrow>
    sn_real_orders s' = sn_real_orders s \<Longrightarrow> sn_real_fills s' = sn_real_fills s \<Longrightarrow> real_step cfg (s, w) (s', w)"
| time: "real_step cfg (s, w) (s\<lparr>sn_now := t\<rparr>, w)"
| broker: "real_step cfg (s, w) (s, w')"

subsection \<open>Synchronisation keeps the limits\<close>

lemma filter_map_length:
  "(\<And>x. x \<in> set xs \<Longrightarrow> P (g x) \<Longrightarrow> Q x) \<Longrightarrow> length (filter P (map g xs)) \<le> length (filter Q xs)"
  by (induction xs) auto

lemma filter_map_sum:
  fixes amt :: "'a \<Rightarrow> rat"
  assumes "\<And>x. x \<in> set xs \<Longrightarrow> P (g x) \<Longrightarrow> Q x" and "\<And>x. x \<in> set xs \<Longrightarrow> amt (g x) = amt x \<and> 0 \<le> amt x"
  shows "sum_list (map amt (filter P (map g xs))) \<le> sum_list (map amt (filter Q xs))"
  using assms
proof (induction xs)
  case (Cons x xs)
  then have "sum_list (map amt (filter P (map g xs))) \<le> sum_list (map amt (filter Q xs))" by simp
  moreover have "amt (g x) = amt x" "0 \<le> amt x" "P (g x) \<Longrightarrow> Q x" using Cons.prems by auto
  ultimately show ?case by simp
qed simp

lemma syncable_live: "syncable r \<Longrightarrow> is_live r \<and> not_failed r"
  by (auto simp: syncable_def order_non_terminal_def is_live_def non_failed_statuses_def not_failed_def)

lemma synced_limits:
  assumes ready: "real_ready s" and limits: "within_limits cfg s"
    and r: "t_get ro_id (ro_id r) (sn_real_orders s) = Some r" and sync: "syncable r"
    and st: "st \<in> set ro_valid_statuses" and fills: "\<forall>f \<in> set fills. 0 < rf_quantity f"
  shows "within_limits cfg (synced s r st fills entry) \<and> real_ready (synced s r st fills entry)"
proof -
  let ?s = "synced s r st fills entry"
  define g where "g x = (if st \<noteq> ro_status r \<and> ro_id x = ro_id r then set_rstatus (sn_now s) st x else x)" for x
  have rows: "sn_real_orders ?s = map g (sn_real_orders s)"
    by (auto simp: t_upd_def g_def intro!: map_idI [symmetric])
  have same: "ro_id (g x) = ro_id x" "ro_candidate_id (g x) = ro_candidate_id x"
    "ro_estimated_amount (g x) = ro_estimated_amount x" "ro_created_at (g x) = ro_created_at x"
    "row_valid (g x) = row_valid x" for x
    by (simp_all add: g_def row_valid_def)
  have unique: "x = r" if "x \<in> set (sn_real_orders s)" "ro_id x = ro_id r" for x
    using ready that r t_get_Some [OF r] by (auto simp: real_ready_def distinct_map dest: inj_onD)
  have was: "is_live x" "not_failed x" if "x \<in> set (sn_real_orders s)" "g x \<noteq> x" for x
    using that unique syncable_live [OF sync] by (auto simp: g_def split: if_splits)
  have live: "length (live_orders ?s i) \<le> 1" for i
  proof -
    have "length (live_orders ?s i) \<le> length (live_orders s i)"
      unfolding live_orders_def rows using was same by (intro filter_map_length) metis
    with limits show ?thesis by (meson le_trans within_limits_def)
  qed
  have money: "0 \<le> ro_estimated_amount x" if "x \<in> set (sn_real_orders s)" for x
    using ready that by (simp add: real_ready_def orders_money_def)
  have day: "day_total ?s a d \<le> day_total s a d" for a d
    unfolding day_total_def orders_of_day_def synced_sel(3) rows
    using was same money by (intro filter_map_sum) metis+
  have "day_total ?s a d \<le> of_int (cfg_max_real_daily_order_amount cfg)" for a d
    using order_trans [OF day] limits by (simp add: within_limits_def)
  then have "within_limits cfg ?s"
    using limits live unfolding within_limits_def rows by (auto simp: same)
  moreover have "ro_status (g x) \<in> set ro_valid_statuses" if "x \<in> set (sn_real_orders s)" for x
    using ready that st by (auto simp: g_def real_ready_def)
  then have "real_ready ?s"
    using ready fills unfolding real_ready_def orders_money_def rows amounts_ok_def
    by (auto simp: same comp_def)
  ultimately show ?thesis ..
qed

lemma sync_within_limits:
  assumes ready: "real_ready s" and limits: "within_limits cfg s"
    and run: "sync_fills t i ref (s, w) = (res, (s', w'))"
  shows "within_limits cfg s' \<and> real_ready s'"
proof (cases "t_get ro_id i (sn_real_orders s)")
  case None
  with run have "s' = s" by (simp add: sync_fills_def rorder_get_by_id_def monad_simps)
  with ready limits show ?thesis by simp
next
  case (Some r)
  then have r: "ro_id r = i" "r \<in> set (sn_real_orders s)" by (auto dest: t_get_Some)
  with ready have ok: "row_valid r" "ro_status r \<in> set ro_valid_statuses" "fills_positive s"
    by (auto simp: real_ready_def fills_positive_def)
  show ?thesis
  proof (cases "syncable r")
    case False
    from sync_skips [OF Some ok(2) False, of t ref w] run have "s' = s" by auto
    with ready limits show ?thesis by simp
  next
    case True
    from sync_open [OF Some True ok(1,3), of t ref w] run obtain result where
      "dispatched s r (sync_spec (ro_quantity r) (sync_answer t (order_ref r ref) (s, w)) (ro_status r, filled_total s i)) result s'"
      by auto
    then obtain fills entry where s': "s' = synced s r (fst (sync_spec (ro_quantity r)
        (sync_answer t (order_ref r ref) (s, w)) (ro_status r, filled_total s i))) fills entry"
      and pos: "\<forall>f \<in> set fills. 0 < rf_quantity f"
      by (auto simp: dispatched_def simp del: sync_spec.simps)
    have "fst (sync_spec (ro_quantity r) (sync_answer t (order_ref r ref) (s, w)) (ro_status r, filled_total s i))
        \<in> set ro_valid_statuses"
      using True by (intro spec_status) (simp add: syncable_def)
    from synced_limits [OF ready limits _ True this pos] Some r s' show ?thesis by blast
  qed
qed

lemma workflow_within_limits:
  assumes ready: "real_ready s" and limits: "within_limits cfg s" and evolve: "cands_evolve s s'"
    and distinct: "distinct (map oc_id (sn_candidates s'))" and amounts: "amounts_ok s'"
    and same: "sn_real_orders s' = sn_real_orders s" "sn_real_fills s' = sn_real_fills s"
  shows "within_limits cfg s' \<and> real_ready s'"
proof -
  from evolve obtain old new where c: "sn_candidates s' = old @ new" "list_all2 evolves (sn_candidates s) old"
    by (auto simp: cands_evolve_def)
  have keep: "\<exists>d \<in> set old. oc_id d = oc_id x \<and> oc_account_id d = oc_account_id x"
    if "x \<in> set (sn_candidates s)" for x
  proof -
    from that obtain n where n: "n < length (sn_candidates s)" "x = sn_candidates s ! n"
      by (auto simp: in_set_conv_nth)
    with c(2) have "evolves x (old ! n)" "old ! n \<in> set old" by (auto simp: list_all2_conv_all_nth)
    then show ?thesis by (intro bexI [of _ "old ! n"]) (simp_all add: evolves_def same_request_def)
  qed
  have inj: "x = y" if "x \<in> set (sn_candidates s')" "y \<in> set (sn_candidates s')" "oc_id x = oc_id y" for x y
    using distinct that by (auto simp: distinct_map dest: inj_onD)
  have acct: "(\<exists>x \<in> set (sn_candidates s'). oc_id x = ro_candidate_id r \<and> oc_account_id x = a) \<longleftrightarrow>
      (\<exists>x \<in> set (sn_candidates s). oc_id x = ro_candidate_id r \<and> oc_account_id x = a)"
    if "r \<in> set (sn_real_orders s)" for r a
  proof -
    obtain y where y: "y \<in> set (sn_candidates s)" "oc_id y = ro_candidate_id r"
      using ready \<open>r \<in> set (sn_real_orders s)\<close> by (force simp: real_ready_def)
    from keep [OF y(1)] obtain d where d: "d \<in> set (sn_candidates s')" "oc_id d = oc_id y" "oc_account_id d = oc_account_id y"
      by (auto simp: c(1))
    have "x = y" if "x \<in> set (sn_candidates s)" "oc_id x = oc_id y" for x
      using ready that y(1) by (auto simp: real_ready_def distinct_map dest: inj_onD)
    with y d inj show ?thesis by (metis (no_types, lifting))
  qed
  have "orders_of_day s' a d = orders_of_day s a d" for a d
    unfolding orders_of_day_def same using acct by (intro filter_cong) auto
  then have "within_limits cfg s'" using limits
    by (simp add: within_limits_def day_total_def live_orders_def same)
  moreover have "ro_candidate_id r \<in> oc_id ` set (sn_candidates s')" if "r \<in> set (sn_real_orders s)" for r
  proof -
    from ready that have "ro_candidate_id r \<in> oc_id ` set (sn_candidates s)" by (simp add: real_ready_def)
    then obtain y where y: "y \<in> set (sn_candidates s)" "oc_id y = ro_candidate_id r" by auto
    from keep [OF y(1)] y(2) show ?thesis by (auto simp: c(1) image_iff intro: bexI [rotated])
  qed
  ultimately show ?thesis using ready distinct amounts
    by (simp add: real_ready_def orders_money_def same)
qed

definition caps_small :: "settings \<Rightarrow> bool" where
  "caps_small cfg \<longleftrightarrow> cfg_max_real_order_amount cfg < 10 ^ 23 \<and> cfg_max_real_daily_order_amount cfg < 10 ^ 23"

lemma step_within_limits:
  assumes "real_step cfg v v'" and "caps_small cfg" and "real_ready (fst v)" and "within_limits cfg (fst v)"
  shows "real_ready (fst v') \<and> within_limits cfg (fst v')"
  using assms(1)
proof (cases rule: real_step.cases)
  case (execution ex i s w res)
  with execute_within_limits [of ex s cfg i w] assms(2-4) show ?thesis by (auto simp: caps_small_def)
next
  case (synchronisation t i ref s w res)
  with sync_within_limits [of s cfg t i ref w res "fst v'" "snd v'"] assms(3,4) show ?thesis by auto
next
  case (workflow s s' w)
  with workflow_within_limits [of s cfg s'] assms(3,4) show ?thesis by auto
next
  case (time s w t)
  with assms(3,4) show ?thesis
    by (simp add: real_ready_def within_limits_def amounts_ok_def orders_money_def live_orders_def day_total_def orders_of_day_def)
next
  case (broker s w w')
  with assms(3,4) show ?thesis by simp
qed

text \<open>
  C14. The limits of real trading hold in every reachable state: from a session within its
  limits, no interleaving of executions with any clients and settings' caps below \<open>10 ^ 23\<close>,
  synchronisations with any answers, workflow steps and the passing of time leads to two live
  real orders for one candidate, to an order above the cap per order, or to an account whose
  orders of one Korean day exceed the daily cap.
\<close>

theorem real_limits_reachable:
  assumes "(real_step cfg)\<^sup>*\<^sup>* v v'" and "caps_small cfg" and "real_ready (fst v)" and "within_limits cfg (fst v)"
  shows "within_limits cfg (fst v') \<and> real_ready (fst v')"
  using assms(1,3,4)
proof (induction rule: rtranclp_induct)
  case (step y z)
  then show ?case using step_within_limits [OF step(2) assms(2)] by blast
qed simp

theorem real_limits_reachable_witness:
  "\<exists>v. (real_step real_settings)\<^sup>*\<^sup>* (real_session, [] :: http_request list) v \<and> length (snd v) = 2 \<and> within_limits real_settings (fst v)"
proof -
  define run where "run v = snd (execute (demo_executor dead_server) real_settings 7 v)" for v
  define v where "v = run (run (real_session, []))"
  have step: "real_step real_settings u (run u)" for u
    using real_step.execution [of "demo_executor dead_server" real_settings 7 "fst u" "snd u"]
    by (cases "execute (demo_executor dead_server) real_settings 7 u") (auto simp: demo_executor_def run_def)
  have path: "(real_step real_settings)\<^sup>*\<^sup>* (real_session, []) v"
    unfolding v_def using step by (meson converse_rtranclp_into_rtranclp r_into_rtranclp)
  have caps: "caps_small real_settings" by (simp add: caps_small_def real_settings_def demo_settings_def)
  have sent: "length (snd v) = 2" unfolding v_def run_def by (rule lost_answer_demo)
  have limits: "within_limits real_settings (fst v)"
    using real_limits_reachable [OF path caps, unfolded fst_conv, OF demo_ready] by (rule conjunct1)
  show ?thesis by (rule exI, intro conjI, rule path, rule sent, rule limits)
qed

end
