(* ===== verification/Trading_Routes.thy ===== *)
theory Trading_Routes
  imports Approval Fill_Sync Sha256
begin

text \<open>
  The HTTP routes of the trading core: \<^verbatim>\<open>app/api/approval_routes.py\<close>, \<^verbatim>\<open>paper_routes.py\<close>,
  \<^verbatim>\<open>real_order_routes.py\<close> and their request schemas. A route is a function of the committed
  database: it answers and leaves a database, the one its service wrote when the route
  reached \<open>session.commit()\<close>, and the old one when it did not, because \<open>get_session\<close> closes
  the session without committing. A response carries the rows it shows; their conversion to
  text (\<open>str\<close> of each column) is not modelled, nor are the ranges FastAPI enforces on path and
  query parameters. \<open>require_auth\<close> has run: a route is given the id
  of the user it found.
\<close>

subsection \<open>Answers\<close>

text \<open>\<open>HTTPException\<close> with its status and what it says, or an exception no handler catches.\<close>

datatype refusal = Detail string | Raised py_error

datatype 'a answer = Ok 'a | Refused int refusal | Crashed py_error

type_synonym 'a route = "session \<Rightarrow> 'a answer \<times> session"

text \<open>A service call with its exception handler, and the commit after it.\<close>

definition transact :: "(py_error \<Rightarrow> 'b answer) \<Rightarrow> ('a \<Rightarrow> session \<Rightarrow> 'b) \<Rightarrow> 'a db \<Rightarrow> 'b route" where
  "transact handler reply m s = (case m s of (r, s') \<Rightarrow>
     (case r of Inl e \<Rightarrow> (handler e, s) | Inr a \<Rightarrow> (Ok (reply a s'), s')))"

text \<open>A route that only reads.\<close>

definition read_only :: "'a db \<Rightarrow> 'a route" where
  "read_only m s = ((case fst (m s) of Inl e \<Rightarrow> Crashed e | Inr a \<Rightarrow> Ok a), s)"

definition guarded :: "bool \<Rightarrow> int \<Rightarrow> refusal \<Rightarrow> 'a route \<Rightarrow> 'a route" where
  "guarded ok code why next s = (if ok then next s else (Refused code why, s))"

text \<open>\<open>"..." in str(exc)\<close>.\<close>

fun chunk_mentions :: "string \<Rightarrow> chunk \<Rightarrow> bool" where
  "chunk_mentions p (T s) = py_contains p s"
| "chunk_mentions p (D x) = False"
| "chunk_mentions p (D6 x) = False"
| "chunk_mentions p (Cut n t) = list_ex (chunk_mentions p) t"

definition mentions :: "string \<Rightarrow> text_t \<Rightarrow> bool" where
  "mentions p t = list_ex (chunk_mentions p) t"

definition not_found_text :: string where
  "not_found_text = ''not found''"

subsection \<open>The caller\<close>

record client_request =
  rq_forwarded :: "string option"
  rq_host :: "string option"
  rq_user_agent :: "string option"

definition extract_client_ip :: "client_request \<Rightarrow> string option" where
  "extract_client_ip request =
     (let direct = rq_host request
      in case rq_forwarded request of
           None \<Rightarrow> direct
         | Some forwarded \<Rightarrow>
             if forwarded = [] then direct
             else let head' = py_strip (takeWhile (\<lambda>c. c \<noteq> CHR '','') forwarded)
                  in if head' \<noteq> [] then Some head' else direct)"

definition hash_for_audit :: "string option \<Rightarrow> string option" where
  "hash_for_audit value' =
     (case value' of
        None \<Rightarrow> None
      | Some v \<Rightarrow> let stripped = py_strip v in if stripped = [] then None else Some (sha256_hex stripped))"

definition build_actor :: "client_request \<Rightarrow> int option \<Rightarrow> actor" where
  "build_actor request user_id =
     \<lparr>ac_user_id = user_id, ac_ip_hash = hash_for_audit (extract_client_ip request),
      ac_user_agent_hash = hash_for_audit (rq_user_agent request)\<rparr>"

definition require_trading_safety_enabled :: "settings \<Rightarrow> 'a route \<Rightarrow> 'a route" where
  "require_trading_safety_enabled cfg =
     guarded (cfg_trading_safety_enabled cfg) 503 (Detail ''approval workflow is disabled'')"

definition require_kill_switch_off :: "settings \<Rightarrow> 'a route \<Rightarrow> 'a route" where
  "require_kill_switch_off cfg = guarded (\<not> cfg_kill_switch_enabled cfg) 503 (Detail ''kill switch is ON'')"

definition require_paper_trading_enabled :: "settings \<Rightarrow> 'a route \<Rightarrow> 'a route" where
  "require_paper_trading_enabled cfg =
     guarded (cfg_paper_trading_enabled cfg) 503 (Detail ''paper trading is disabled'')"

text \<open>\<open>list_by_user(user_id) or list_by_user(None)\<close>, its first row, or a 404.\<close>

definition resolve_account :: "int option \<Rightarrow> int option \<Rightarrow> (virtual_account \<Rightarrow> 'a route) \<Rightarrow> 'a route" where
  "resolve_account requested user_id next s =
     (case requested of
        Some i \<Rightarrow>
          (case t_get va_id i (sn_accounts s) of
             None \<Rightarrow> (Refused 404 (Detail ''virtual account not found''), s)
           | Some a \<Rightarrow> next a s)
      | None \<Rightarrow>
          let own = sort_key va_id (filter (\<lambda>a. va_user_id a = user_id) (sn_accounts s));
              shared = sort_key va_id (filter (\<lambda>a. va_user_id a = None) (sn_accounts s))
          in case (if own \<noteq> [] then own else shared) of
               [] \<Rightarrow> (Refused 404 (Detail ''no virtual account exists for this user''), s)
             | a # _ \<Rightarrow> next a s)"

subsection \<open>Request schemas\<close>

definition clean_choice :: "string list \<Rightarrow> string \<Rightarrow> string option" where
  "clean_choice allowed v = (let cleaned = py_upper (py_strip v) in
     if cleaned \<in> set allowed then Some cleaned else None)"

definition clean_symbol :: "string \<Rightarrow> string option" where
  "clean_symbol v = (let cleaned = py_upper (py_strip v) in
     if cleaned = [] \<or> 32 < length cleaned then None else Some cleaned)"

definition decimal_ok :: "(decimal \<Rightarrow> bool) \<Rightarrow> dec_arg option \<Rightarrow> bool" where
  "decimal_ok P v = (case v of None \<Rightarrow> True | Some BadDec \<Rightarrow> False | Some (DecArg d) \<Rightarrow> P d)"

record create_request =
  cq_symbol :: string
  cq_side :: string
  cq_quantity :: int
  cq_order_type :: string
  cq_limit_price :: "dec_arg option"
  cq_estimated_amount :: "dec_arg option"
  cq_source :: string
  cq_source_ref_id :: "int option"
  cq_account_id :: "int option"
  cq_ttl_minutes :: "int option"

text \<open>\<open>None\<close> is the 422 of a request whose validation fails.\<close>

definition validate_create_request :: "create_request \<Rightarrow> create_request option" where
  "validate_create_request q =
     (case (clean_symbol (cq_symbol q), clean_choice [''BUY'', ''SELL''] (cq_side q),
            clean_choice [''MARKET'', ''LIMIT''] (cq_order_type q),
            clean_choice [''RECOMMENDATION'', ''STRATEGY'', ''PAPER'', ''MANUAL''] (cq_source q)) of
        (Some symbol, Some side, Some order_type, Some source) \<Rightarrow>
          if 0 < cq_quantity q \<and> decimal_ok (\<lambda>d. 0 < d) (cq_limit_price q) \<and>
             decimal_ok (\<lambda>d. 0 \<le> d) (cq_estimated_amount q) \<and>
             (case cq_ttl_minutes q of None \<Rightarrow> True | Some m \<Rightarrow> 0 < m \<and> m \<le> 1440)
          then Some (q\<lparr>cq_symbol := symbol, cq_side := side, cq_order_type := order_type, cq_source := source\<rparr>)
          else None
      | _ \<Rightarrow> None)"

definition validate_reason :: "string \<Rightarrow> string option" where
  "validate_reason v = (let cleaned = py_strip v in
     if cleaned = [] \<or> 256 < length cleaned then None else Some cleaned)"

record paper_request =
  pq_symbol :: string
  pq_side :: string
  pq_quantity :: int
  pq_order_type :: string
  pq_limit_price :: "dec_arg option"
  pq_idempotency_key :: "string option"
  pq_note :: "string option"
  pq_account_id :: "int option"

definition short_text :: "nat \<Rightarrow> string option \<Rightarrow> bool" where
  "short_text n v = (case v of None \<Rightarrow> True | Some x \<Rightarrow> length x \<le> n)"

definition validate_paper_request :: "paper_request \<Rightarrow> paper_request option" where
  "validate_paper_request q =
     (case (clean_symbol (pq_symbol q), clean_choice [''BUY'', ''SELL''] (pq_side q),
            clean_choice [''MARKET'', ''LIMIT''] (pq_order_type q)) of
        (Some symbol, Some side, Some order_type) \<Rightarrow>
          if 0 < pq_quantity q \<and> decimal_ok (\<lambda>d. 0 < d) (pq_limit_price q) \<and>
             short_text 64 (pq_idempotency_key q) \<and> short_text 256 (pq_note q)
          then Some (q\<lparr>pq_symbol := symbol, pq_side := side, pq_order_type := order_type\<rparr>)
          else None
      | _ \<Rightarrow> None)"

definition validated :: "'q option \<Rightarrow> ('q \<Rightarrow> 'a route) \<Rightarrow> 'a route" where
  "validated q next s = (case q of None \<Rightarrow> (Refused 422 (Detail ''validation error''), s) | Some p \<Rightarrow> next p s)"

subsection \<open>Approval routes\<close>

definition list_candidates :: "string option \<Rightarrow> int option \<Rightarrow> nat \<Rightarrow> order_candidate list route" where
  "list_candidates status_filter account_id limit =
     guarded (case status_filter of None \<Rightarrow> True | Some st \<Rightarrow> st \<in> set oc_valid_statuses) 422
       (Detail (''status must be one of '' @ py_list_repr oc_valid_statuses))
       (read_only (case account_id of
          Some a \<Rightarrow> candidate_list_by_account a status_filter limit
        | None \<Rightarrow> (case status_filter of
            Some st \<Rightarrow> candidate_list_by_status st limit
          | None \<Rightarrow> candidate_list_pending limit)))"

definition get_candidate_detail :: "int \<Rightarrow> order_candidate route" where
  "get_candidate_detail candidate_id s =
     (case t_get oc_id candidate_id (sn_candidates s) of
        None \<Rightarrow> (Refused 404 (Detail ''order candidate not found''), s)
      | Some c \<Rightarrow> (Ok c, s))"

definition create_error :: "py_error \<Rightarrow> 'a answer" where
  "create_error e = (case e of
     KillSwitchBlockedError \<Rightarrow> Refused 503 (Raised e)
   | TradingSafetyDisabledError \<Rightarrow> Refused 503 (Raised e)
   | OrderCandidateValidationError t \<Rightarrow> Refused 422 (Raised e)
   | _ \<Rightarrow> Crashed e)"

definition create_candidate_route ::
  "settings \<Rightarrow> client_request \<Rightarrow> int option \<Rightarrow> create_request \<Rightarrow> create_candidate_result route" where
  "create_candidate_route cfg request user_id body =
     validated (validate_create_request body) (\<lambda>payload.
     require_trading_safety_enabled cfg (require_kill_switch_off cfg (
     resolve_account (cq_account_id payload) user_id (\<lambda>account.
     transact create_error (\<lambda>result _. result)
       (create_candidate cfg (va_id account) (cq_source payload) (cq_symbol payload) (cq_side payload)
          (PyInt (cq_quantity payload)) (cq_order_type payload) (cq_limit_price payload)
          (case cq_estimated_amount payload of None \<Rightarrow> DecArg 0 | Some x \<Rightarrow> x) (cq_source_ref_id payload)
          (map_option (\<lambda>m. m * 60000000) (cq_ttl_minutes payload)) (build_actor request user_id) None)))))"

text \<open>\<open>except ApprovalServiceError\<close>, whose subclasses are the three after it.\<close>

definition approve_error :: "py_error \<Rightarrow> 'a answer" where
  "approve_error e = (case e of
     KillSwitchBlockedError \<Rightarrow> Refused 503 (Raised e)
   | ApprovalDeniedError t d \<Rightarrow> Refused (if mentions not_found_text t then 404 else 409) (Raised e)
   | ApprovalServiceError t \<Rightarrow> Refused (if mentions not_found_text t then 404 else 500) (Raised e)
   | TradingSafetyDisabledError \<Rightarrow> Refused 500 (Raised e)
   | _ \<Rightarrow> Crashed e)"

definition approve_candidate_route ::
  "settings \<Rightarrow> client_request \<Rightarrow> int option \<Rightarrow> int \<Rightarrow> approve_result route" where
  "approve_candidate_route cfg request user_id candidate_id =
     require_trading_safety_enabled cfg (require_kill_switch_off cfg (
     transact approve_error (\<lambda>result _. result)
       (approve cfg candidate_id (build_actor request user_id) None)))"

definition reject_error :: "py_error \<Rightarrow> 'a answer" where
  "reject_error e = (case e of
     KillSwitchBlockedError \<Rightarrow> Refused 503 (Raised e)
   | ApprovalDeniedError t d \<Rightarrow> Refused (if mentions not_found_text t then 404 else 409) (Raised e)
   | ApprovalServiceError t \<Rightarrow> if mentions not_found_text t then Refused 404 (Raised e) else Crashed e
   | _ \<Rightarrow> Crashed e)"

definition status_reply :: "int \<Rightarrow> session \<Rightarrow> int \<times> string" where
  "status_reply i s = (i, case t_get oc_id i (sn_candidates s) of None \<Rightarrow> [] | Some c \<Rightarrow> oc_status c)"

definition reject_candidate_route ::
  "settings \<Rightarrow> client_request \<Rightarrow> int option \<Rightarrow> int \<Rightarrow> string \<Rightarrow> (int \<times> string) route" where
  "reject_candidate_route cfg request user_id candidate_id body =
     validated (validate_reason body) (\<lambda>reason.
     require_trading_safety_enabled cfg (require_kill_switch_off cfg (
     transact reject_error status_reply
       (reject cfg candidate_id (build_actor request user_id) [T reason]))))"

definition expire_error :: "py_error \<Rightarrow> 'a answer" where
  "expire_error e = (case e of
     ApprovalDeniedError t d \<Rightarrow> Refused 409 (Raised e)
   | ApprovalServiceError t \<Rightarrow> if mentions not_found_text t then Refused 404 (Raised e) else Crashed e
   | _ \<Rightarrow> Crashed e)"

definition expire_candidate_route ::
  "settings \<Rightarrow> client_request \<Rightarrow> int option \<Rightarrow> int \<Rightarrow> (int \<times> string) route" where
  "expire_candidate_route cfg request user_id candidate_id =
     require_trading_safety_enabled cfg (
     transact expire_error status_reply (expire candidate_id (build_actor request user_id)))"

definition audit_error :: "'a answer \<times> session \<Rightarrow> 'a answer \<times> session" where
  "audit_error r = (case fst r of
     Crashed (ApprovalAuditLogValidationError t) \<Rightarrow> (Refused 422 (Raised (ApprovalAuditLogValidationError t)), snd r)
   | _ \<Rightarrow> r)"

definition list_audit_logs :: "int option \<Rightarrow> string option \<Rightarrow> nat \<Rightarrow> audit_log list route" where
  "list_audit_logs candidate_id event_type limit s =
     audit_error (guarded (case event_type of None \<Rightarrow> True | Some e \<Rightarrow> e \<in> set valid_event_types) 422
       (Detail (''event_type must be one of '' @ py_list_repr valid_event_types))
       (read_only (case candidate_id of
          Some i \<Rightarrow> audit_list_by_candidate i limit
        | None \<Rightarrow> audit_list_recent event_type None limit)) s)"

subsection \<open>Paper trading routes\<close>

definition get_paper_account ::
  "int option \<Rightarrow> int option \<Rightarrow> (virtual_account \<times> pnl_snapshot option) route" where
  "get_paper_account account_id user_id =
     resolve_account account_id user_id (\<lambda>account.
     read_only (sbind (snapshot_list_by_account (va_id account) None None 1) (\<lambda>snapshots.
       sret (account, if snapshots \<noteq> [] then Some (last snapshots) else None))))"

definition list_paper_orders ::
  "int option \<Rightarrow> int option \<Rightarrow> string option \<Rightarrow> string option \<Rightarrow> nat \<Rightarrow> virtual_order list route" where
  "list_paper_orders account_id user_id status_filter symbol limit =
     resolve_account account_id user_id (\<lambda>account.
     read_only (sbind (vorder_list_by_account (va_id account) status_filter limit) (\<lambda>rows.
       sret (case symbol of None \<Rightarrow> rows
             | Some y \<Rightarrow> filter (\<lambda>o'. vo_symbol o' = py_upper (py_strip y)) rows))))"

record position_view =
  pv_position :: virtual_position
  pv_last_close :: "decimal option"
  pv_market_value :: "decimal option"
  pv_unrealized :: "decimal option"

definition position_schema :: "virtual_position \<Rightarrow> decimal option \<Rightarrow> position_view" where
  "position_schema pos last_close =
     (let market_value = (case last_close of
            Some p \<Rightarrow> if 0 < vp_quantity pos then Some (dmul p (of_int (vp_quantity pos))) else None
          | None \<Rightarrow> None);
          unrealized = map_option (\<lambda>m. dsub m (dmul (vp_avg_cost pos) (of_int (vp_quantity pos)))) market_value
      in \<lparr>pv_position = pos, pv_last_close = last_close, pv_market_value = market_value, pv_unrealized = unrealized\<rparr>)"

definition position_price_lookback_days :: int where
  "position_price_lookback_days = 14"

text \<open>\<open>today\<close> is \<open>date.today()\<close> of the server.\<close>

definition list_paper_positions :: "int \<Rightarrow> int option \<Rightarrow> int option \<Rightarrow> bool \<Rightarrow> position_view list route" where
  "list_paper_positions today account_id user_id include_closed =
     resolve_account account_id user_id (\<lambda>account.
     read_only (sbind (if include_closed then position_list_by_account (va_id account)
                       else position_list_open (va_id account)) (\<lambda>rows.
       sfold (\<lambda>pos schemas.
         sbind (price_get_latest_on_or_before (vp_symbol pos) today position_price_lookback_days) (\<lambda>bar.
         sret (schemas @ [position_schema pos (map_option dp_close bar)]))) rows [])))"

definition list_paper_pnl ::
  "int option \<Rightarrow> int option \<Rightarrow> int option \<Rightarrow> int option \<Rightarrow> nat \<Rightarrow> pnl_snapshot list route" where
  "list_paper_pnl account_id user_id from_date to_date limit =
     guarded (case (from_date, to_date) of (Some f, Some t) \<Rightarrow> f \<le> t | _ \<Rightarrow> True) 422
       (Detail ''from_date must be <= to_date'')
       (resolve_account account_id user_id (\<lambda>account.
        read_only (snapshot_list_by_account (va_id account) from_date to_date limit)))"

definition order_error :: "py_error \<Rightarrow> 'a answer" where
  "order_error e = (case e of
     PaperTradingDisabledError t \<Rightarrow> Refused 503 (Raised e)
   | SimulationBrokerError t \<Rightarrow> Refused 422 (Raised e)
   | _ \<Rightarrow> Crashed e)"

definition create_paper_order :: "settings \<Rightarrow> int option \<Rightarrow> paper_request \<Rightarrow> submit_result route" where
  "create_paper_order cfg user_id body =
     validated (validate_paper_request body) (\<lambda>payload.
     require_paper_trading_enabled cfg (
     resolve_account (pq_account_id payload) user_id (\<lambda>account.
     transact order_error (\<lambda>result _. result)
       (submit_order cfg (va_id account) (pq_symbol payload) (pq_side payload) (PyInt (pq_quantity payload))
          (pq_order_type payload) (pq_limit_price payload) (pq_idempotency_key payload) (pq_note payload)))))"

definition cancel_error :: "py_error \<Rightarrow> 'a answer" where
  "cancel_error e = (case e of
     SimulationBrokerError t \<Rightarrow> Refused (if mentions not_found_text t then 404 else 422) (Raised e)
   | _ \<Rightarrow> Crashed e)"

definition cancel_paper_order :: "settings \<Rightarrow> int \<Rightarrow> string option \<Rightarrow> int route" where
  "cancel_paper_order cfg order_id reason =
     require_paper_trading_enabled cfg (
     transact cancel_error (\<lambda>_ _. order_id)
       (cancel_order order_id (map_option (\<lambda>r. [T r]) reason)))"

subsection \<open>Real order routes\<close>

text \<open>Python slicing of the page; the rows fetched are already the first \<open>limit + offset\<close>.\<close>

definition list_real_orders ::
  "string option \<Rightarrow> int option \<Rightarrow> nat \<Rightarrow> nat \<Rightarrow> (real_order list \<times> nat) route" where
  "list_real_orders status' candidate_id limit offset =
     guarded (case status' of None \<Rightarrow> True | Some st \<Rightarrow> st \<in> set ro_valid_statuses) 422
       (Detail ''Invalid status'')
       (read_only (
          sbind (case status' of
              Some st \<Rightarrow> rorder_list_by_status st (limit + offset)
            | None \<Rightarrow> (case candidate_id of
                Some i \<Rightarrow> rorder_get_by_candidate_id i
              | None \<Rightarrow> rorder_list_recent (limit + offset))) (\<lambda>rows.
          let rows = (case (candidate_id, status') of
                (Some i, Some _) \<Rightarrow> filter (\<lambda>r. ro_candidate_id r = i) rows | _ \<Rightarrow> rows)
          in sret (take limit (drop offset rows), length rows))))"

definition get_real_order :: "int \<Rightarrow> (real_order \<times> real_fill list) route" where
  "get_real_order order_id s =
     (case t_get ro_id order_id (sn_real_orders s) of
        None \<Rightarrow> (Refused 404 (Detail (''real order '' @ str_of_int order_id @ '' not found'')), s)
      | Some order \<Rightarrow> read_only (sbind (rfill_list_by_order order_id 100) (\<lambda>fills. sret (order, fills))) s)"

text \<open>The service of the route is \<open>FillSyncService()\<close>, with its own fake client.\<close>

definition own_sync :: "int \<Rightarrow> string option \<Rightarrow> fill_sync_result db" where
  "own_sync order_id kis_order_no s =
     (case sync_fills (None :: unit kis_transport option) order_id kis_order_no (s, ()) of
        (r, (s', _)) \<Rightarrow> (r, s'))"

definition sync_message :: "fill_sync_result \<Rightarrow> string" where
  "sync_message result =
     (if ys_fill_status result = ''FAILED'' then
        ''sync failed: '' @ (case ys_skipped_reason result of None \<Rightarrow> ''transport error'' | Some r \<Rightarrow> r)
      else case ys_skipped_reason result of
        Some r \<Rightarrow> ''sync skipped: '' @ r
      | None \<Rightarrow>
          if 0 < ys_created_fill_count result
          then ''sync ok: '' @ ys_fill_status result @ '' (delta='' @ str_of_int (ys_delta result) @ '', new fill recorded)''
          else ''sync ok: '' @ ys_fill_status result @ '' (idempotent -- no new fill, delta='' @
            str_of_int (ys_delta result) @ '')'')"

definition sync_real_order_fill :: "settings \<Rightarrow> int \<Rightarrow> string option \<Rightarrow> (fill_sync_result \<times> string) route" where
  "sync_real_order_fill cfg order_id kis_order_no =
     require_trading_safety_enabled cfg (require_kill_switch_off cfg (\<lambda>s.
       case t_get ro_id order_id (sn_real_orders s) of
         None \<Rightarrow> (Refused 404 (Detail (''real order '' @ str_of_int order_id @ '' not found'')), s)
       | Some order \<Rightarrow>
           transact Crashed (\<lambda>result _. (result, sync_message result)) (own_sync order_id kis_order_no) s))"

end
