(* ===== verification/Trading_Jobs.thy ===== *)
theory Trading_Jobs
  imports Approval
begin

text \<open>
  The scheduler's job wrapper and the three jobs of the trading core,
  \<^verbatim>\<open>app/scheduler/jobs.py\<close>: matching of the paper orders, the daily snapshots and the
  expiry of overdue approvals. A job works on a session of its own, whose work the wrapper
  commits when the job returns and rolls back when it raises; the row of \<open>job_runs\<close> is
  written through another session and is always committed.
\<close>

subsection \<open>Results and outcomes\<close>

text \<open>Values of a summary. The dictionaries of failures hold an account or candidate with the
  exception it raised: the exception stands for its type name and its text cut to 256.\<close>

datatype summary_value = SJson json | SFailures "(int \<times> py_error) list"

record job_result =
  jo_status :: string
  jo_summary :: "(string \<times> summary_value) list option"
  jo_error :: "string option"

text \<open>\<open>error_message\<close>: the text of the job, or \<open>type: text\<close> of the exception it raised.\<close>

datatype job_error = Told string | Threw py_error

record job_run =
  jr_id :: int
  jr_name :: string
  jr_started_at :: int
  jr_finished_at :: "int option"
  jr_status :: string
  jr_summary :: "(string \<times> summary_value) list option"
  jr_error :: "job_error option"

type_synonym job_world = "session \<times> job_run list"

text \<open>The outcome returned is the row as committed last.\<close>

definition run_job :: "string \<Rightarrow> job_result db \<Rightarrow> job_world \<Rightarrow> job_run \<times> job_world" where
  "run_job job_name fn w =
     (let s = fst w; runs = snd w; started = sn_now s; i = t_next jr_id runs;
          running = \<lparr>jr_id = i, jr_name = job_name, jr_started_at = started, jr_finished_at = None,
                     jr_status = ''RUNNING'', jr_summary = None, jr_error = None\<rparr>
      in case fn s of (r, s') \<Rightarrow>
           (let committed = (case r of Inl e \<Rightarrow> s | Inr result \<Rightarrow> s');
                done' = (case r of
                  Inl e \<Rightarrow> running\<lparr>jr_status := ''FAILED'', jr_finished_at := Some (sn_now committed),
                            jr_summary := None, jr_error := Some (Threw e)\<rparr>
                | Inr result \<Rightarrow> running\<lparr>jr_status := jo_status result,
                            jr_finished_at := Some (sn_now committed),
                            jr_summary := jo_summary result, jr_error := map_option Told (jo_error result)\<rparr>)
            in (done', (committed, t_upd jr_id i (\<lambda>_. done') (runs @ [running])))))"

definition succeeded :: "(string \<times> summary_value) list \<Rightarrow> job_result" where
  "succeeded summary = \<lparr>jo_status = ''SUCCESS'', jo_summary = Some summary, jo_error = None\<rparr>"

text \<open>\<open>offset\<close> is that of the configured zone from UTC, in microseconds.\<close>

definition today_in_zone :: "int \<Rightarrow> int db" where
  "today_in_zone offset = sbind utc_now (\<lambda>now. sret ((now + offset) div microseconds_per_day))"

definition enabled_accounts :: "virtual_account list db" where
  "enabled_accounts = sgets (\<lambda>s. filter va_paper_trading_enabled (sn_accounts s))"

text \<open>The status of a job that works through a list and collects the failures.\<close>

definition isolated_status :: "string \<Rightarrow> nat \<Rightarrow> nat \<Rightarrow> string \<times> string option" where
  "isolated_status what failed worked =
     (if 0 < failed \<and> worked = 0 then (''FAILED'', Some (str_of_int (int failed) @ what))
      else if 0 < failed then (''PARTIAL'', Some (str_of_int (int failed) @ what))
      else (''SUCCESS'', None))"

definition jint :: "nat \<Rightarrow> summary_value" where
  "jint n = SJson (JInt (int n))"

definition jstr :: "string \<Rightarrow> summary_value" where
  "jstr x = SJson (JStr x)"

subsection \<open>Matching the paper orders\<close>

record match_totals =
  mt_filled :: nat
  mt_rejected :: nat
  mt_no_price :: nat
  mt_limit_unmet :: nat
  mt_terminal :: nat

definition add_totals :: "match_totals \<Rightarrow> exec_result \<Rightarrow> match_totals" where
  "add_totals t r =
     \<lparr>mt_filled = mt_filled t + length (er_filled r), mt_rejected = mt_rejected t + length (er_rejected r),
      mt_no_price = mt_no_price t + er_skipped_no_price r,
      mt_limit_unmet = mt_limit_unmet t + er_skipped_limit_unmet r,
      mt_terminal = mt_terminal t + er_skipped_terminal r\<rparr>"

definition account_summary :: "int \<Rightarrow> exec_result \<Rightarrow> json" where
  "account_summary i r = JObj
     [(''account_id'', JInt i), (''filled'', JInt (int (length (er_filled r)))),
      (''rejected'', JInt (int (length (er_rejected r)))),
      (''skipped_no_price'', JInt (int (er_skipped_no_price r))),
      (''skipped_limit_unmet'', JInt (int (er_skipped_limit_unmet r))),
      (''skipped_terminal'', JInt (int (er_skipped_terminal r)))]"

definition match_account ::
  "int \<Rightarrow> virtual_account \<Rightarrow> match_totals \<times> json list \<Rightarrow> (match_totals \<times> json list) db" where
  "match_account today account acc =
     sbind (execute_pending_orders default_paper_costs today (Some (va_id account)) 0) (\<lambda>result.
     sret (add_totals (fst acc) result, snd acc @ [account_summary (va_id account) result]))"

definition execute_paper_orders :: "settings \<Rightarrow> int \<Rightarrow> job_result db" where
  "execute_paper_orders cfg offset =
     (if \<not> cfg_paper_trading_enabled cfg then
        sret (succeeded [(''phase'', jstr ''v0.14-D''), (''data_status'', jstr ''SKIPPED''),
          (''reason'', jstr ''paper_trading_disabled''), (''accounts_processed'', jint 0),
          (''filled_count'', jint 0), (''rejected_count'', jint 0), (''skipped_no_price'', jint 0),
          (''skipped_limit_unmet'', jint 0)])
      else
      sbind (today_in_zone offset) (\<lambda>today.
      sbind enabled_accounts (\<lambda>rows.
      sbind (sfold (match_account today) rows
         (\<lparr>mt_filled = 0, mt_rejected = 0, mt_no_price = 0, mt_limit_unmet = 0, mt_terminal = 0\<rparr>, [])) (\<lambda>acc.
      case acc of (totals, per_account) \<Rightarrow>
      sret (succeeded [(''phase'', jstr ''v0.14-D''), (''data_status'', jstr ''SUCCESS''),
        (''as_of_date'', jstr (iso_date today)), (''accounts_processed'', jint (length rows)),
        (''filled_count'', jint (mt_filled totals)), (''rejected_count'', jint (mt_rejected totals)),
        (''skipped_no_price'', jint (mt_no_price totals)),
        (''skipped_limit_unmet'', jint (mt_limit_unmet totals)),
        (''skipped_terminal'', jint (mt_terminal totals)), (''per_account'', SJson (JList per_account))])))))"

subsection \<open>Work that isolates failures\<close>

text \<open>\<open>try: f(x); n += 1; except Exception as exc: failures.append(...)\<close>; a failure is not
  rolled back.\<close>

definition isolate :: "('x \<Rightarrow> int) \<Rightarrow> ('x \<Rightarrow> 'b db) \<Rightarrow> 'x \<Rightarrow> nat \<times> (int \<times> py_error) list \<Rightarrow>
   (nat \<times> (int \<times> py_error) list) db" where
  "isolate key f x acc = sbind (stry (f x)) (\<lambda>r.
     sret (case r of Inl e \<Rightarrow> (fst acc, snd acc @ [(key x, e)]) | Inr _ \<Rightarrow> (fst acc + 1, snd acc)))"

subsection \<open>Daily snapshots\<close>

definition create_paper_pnl_snapshot :: "settings \<Rightarrow> int \<Rightarrow> job_result db" where
  "create_paper_pnl_snapshot cfg offset =
     (if \<not> cfg_paper_trading_enabled cfg then
        sret (succeeded [(''phase'', jstr ''v0.14-D''), (''data_status'', jstr ''SKIPPED''),
          (''reason'', jstr ''paper_trading_disabled''), (''accounts_processed'', jint 0),
          (''snapshots_written'', jint 0)])
      else
      sbind (today_in_zone offset) (\<lambda>today.
      sbind enabled_accounts (\<lambda>rows.
      sbind (sfold (isolate va_id (\<lambda>account. create_daily_pnl_snapshot (va_id account) today 14)) rows (0, [])) (\<lambda>acc.
      case acc of (processed, failures) \<Rightarrow>
      let (status, message) = isolated_status '' accounts failed snapshot'' (length failures) processed
      in sret \<lparr>jo_status = status, jo_summary = Some
          [(''phase'', jstr ''v0.14-D''),
           (''data_status'', jstr (if failures = [] then ''SUCCESS'' else ''PARTIAL'')),
           (''snapshot_date'', jstr (iso_date today)), (''accounts_processed'', jint processed),
           (''snapshots_written'', jint processed), (''failures'', SFailures failures)],
         jo_error = message\<rparr>))))"

subsection \<open>Expiry of approvals\<close>

definition expire_skipped :: "string \<Rightarrow> string \<Rightarrow> job_result" where
  "expire_skipped data_status reason = succeeded
     [(''phase'', jstr ''v0.15-D''), (''data_status'', jstr data_status), (''reason'', jstr reason),
      (''expired_count'', jint 0), (''failed_count'', jint 0)]"

definition expire_pending_approvals :: "settings \<Rightarrow> job_result db" where
  "expire_pending_approvals cfg =
     (if \<not> cfg_trading_safety_enabled cfg then sret (expire_skipped ''SKIPPED'' ''trading_safety_disabled'')
      else if cfg_kill_switch_enabled cfg then sret (expire_skipped ''SKIPPED'' ''kill_switch_enabled'')
      else
      sbind utc_now (\<lambda>now.
      sbind (list_expired_pending (Some now) 200) (\<lambda>targets.
      if targets = [] then sret (expire_skipped ''SUCCESS'' ''nothing_expired'')
      else
      sbind (sfold (isolate oc_id (\<lambda>c. expire (oc_id c) system_actor)) targets (0, [])) (\<lambda>acc.
      case acc of (expired, failures) \<Rightarrow>
      let (status, message) = isolated_status '' expirations failed'' (length failures) expired
      in sret \<lparr>jo_status = status, jo_summary = Some
          [(''phase'', jstr ''v0.15-D''),
           (''data_status'', jstr (if failures = [] then ''SUCCESS'' else ''PARTIAL'')),
           (''expired_count'', jint expired), (''failed_count'', jint (length failures)),
           (''failures'', SFailures failures)],
         jo_error = message\<rparr>))))"

end
