(* ===== verification/Route_Facts.thy ===== *)
theory Route_Facts
  imports Trading_Routes Trading_Jobs Approval_Outcome Real_Executor
begin

text \<open>
  What the database holds after the routes, the jobs and the executor have committed.
\<close>

subsection \<open>Methods outside the workflow\<close>

definition same_workflow :: "session \<Rightarrow> session \<Rightarrow> bool" where
  "same_workflow s t \<longleftrightarrow> sn_candidates t = sn_candidates s \<and> sn_audits t = sn_audits s \<and>
     sn_real_orders t = sn_real_orders s"

interpretation sw: db_relation same_workflow
  by unfold_locales (auto simp: same_workflow_def)

lemma sw_modify: "(\<And>s. same_workflow s (f s)) \<Longrightarrow> follows same_workflow (smodify f)"
  by (rule sw.R_modify)

lemma sw_case_prod: "(\<And>a b. follows same_workflow (f a b)) \<Longrightarrow> follows same_workflow (case p of (a, b) \<Rightarrow> f a b)"
  by (cases p) simp

lemmas sw_rules = sw.R_db sw_modify sw_case_prod

lemma sw_orders:
  "follows same_workflow (vorder_create a y side q ot lp key r memo st)"
  "follows same_workflow (vorder_update_status i st r)"
  "follows same_workflow (vorder_cancel i r)"
  unfolding vorder_create_def vorder_update_status_def vorder_cancel_def upd_vorder_def
  by (intro sw_rules; simp add: same_workflow_def)+

lemma sw_submit: "follows same_workflow (submit_order cfg a y side q ot lp key memo)"
  unfolding submit_order_def account_get_by_id_def normalize_limit_def vorder_get_by_idempotency_key_def
  by (intro sw_rules sw_orders)

lemma sw_cancel: "follows same_workflow (cancel_order i r)"
  unfolding cancel_order_def vorder_get_by_id_def by (intro sw_rules sw_orders)

lemma sw_positions:
  "follows same_workflow (position_get_or_create a y)"
  "follows same_workflow (update_cash_balance a x)"
  unfolding position_get_or_create_def position_get_def update_cash_balance_def upd_account_def
  by (intro sw_rules; simp add: same_workflow_def)+

lemma sw_apply_fill: "follows same_workflow (apply_fill m i a y side q p t)"
  unfolding apply_fill_def account_get_by_id_def compute_costs_def apply_buy_def apply_sell_def vfill_create_def
    position_get_def upd_position_def Let_def
  by (intro sw_rules sw_positions; simp add: same_workflow_def)+

lemma sw_execute: "follows same_workflow (execute_pending_orders m day a lookback)"
  unfolding execute_pending_orders_def pending_candidates_def list_pending_global_def vorder_list_by_account_def
    execute_one_def settle_order_def reject_order_def lookup_close_price_def price_get_by_symbol_date_def
    price_get_latest_on_or_before_def limit_unmet_def
  by (intro sw_rules sw_orders sw_apply_fill)

lemma sw_snapshot: "follows same_workflow (create_daily_pnl_snapshot a day lookback)"
  unfolding create_daily_pnl_snapshot_def account_get_by_id_def position_list_by_account_def snapshot_step_def
    price_get_latest_on_or_before_def create_or_replace_snapshot_def snapshot_get_by_account_date_def Let_def
  by (intro sw_rules; simp add: same_workflow_def)+

subsection \<open>Candidates at rest\<close>

text \<open>The statuses a committed candidate has: it waits for a decision or is final.\<close>

definition rest_statuses :: "string list" where
  "rest_statuses = ''PENDING_APPROVAL'' # oc_terminal_statuses"

definition at_rest :: "session \<Rightarrow> bool" where
  "at_rest s \<longleftrightarrow> (\<forall>c \<in> set (sn_candidates s). oc_status c \<in> set rest_statuses)"

definition rest_but :: "int \<Rightarrow> session \<Rightarrow> bool" where
  "rest_but i s \<longleftrightarrow> (\<forall>c \<in> set (sn_candidates s). oc_id c \<noteq> i \<longrightarrow> oc_status c \<in> set rest_statuses)"

lemma at_rest_but: "at_rest s \<Longrightarrow> rest_but i s"
  by (simp add: at_rest_def rest_but_def)

abbreviation anything :: "py_error \<Rightarrow> session \<Rightarrow> bool" where
  "anything \<equiv> \<lambda>_ _. True"

definition same_status :: "session \<Rightarrow> session \<Rightarrow> bool" where
  "same_status s t \<longleftrightarrow> map (\<lambda>c. (oc_id c, oc_status c)) (sn_candidates t) =
     map (\<lambda>c. (oc_id c, oc_status c)) (sn_candidates s)"

interpretation ss: db_relation same_status
  by unfold_locales (auto simp: same_status_def)

lemma same_status_rest:
  assumes "same_status s t"
  shows "at_rest t = at_rest s" "rest_but i t = rest_but i s"
proof -
  let ?key = "\<lambda>c. (oc_id c, oc_status c)"
  have keys: "?key ` set (sn_candidates t) = ?key ` set (sn_candidates s)"
    using arg_cong [OF assms [unfolded same_status_def], of set] by simp
  have rest: "at_rest u \<longleftrightarrow> (\<forall>k \<in> ?key ` set (sn_candidates u). snd k \<in> set rest_statuses)"
    "rest_but i u \<longleftrightarrow> (\<forall>k \<in> ?key ` set (sn_candidates u). fst k \<noteq> i \<longrightarrow> snd k \<in> set rest_statuses)" for u
    by (auto simp: at_rest_def rest_but_def)
  show "at_rest t = at_rest s" "rest_but i t = rest_but i s"
    unfolding rest keys by (rule refl)+
qed

lemma ss_upd: "(\<And>c. oc_id (f c) = oc_id c \<and> oc_status (f c) = oc_status c) \<Longrightarrow> same_status s (set_cand i f s)"
  by (auto simp: same_status_def set_cand_def t_upd_def)

lemma ss_same: "sn_candidates t = sn_candidates s \<Longrightarrow> same_status s t"
  by (simp add: same_status_def)

lemma ss_attach: "follows same_status (attach_virtual_order i v)" "follows same_status (attach_risk_result i r)"
  by (auto simp: follows_def attach_order_cases attach_risk_result_def monad_simps upd_candidate_def ss.R_refl
      set_cand_def [symmetric] split: option.split intro!: ss_upd)

lemma ss_audit: "follows same_status (audit_as ac i e r d)"
  unfolding audit_as_def audit_append_def
  by (intro ss.R_db ss.R_modify) (simp add: same_status_def)

lemma ss_evaluate: "follows same_status (evaluate cfg c now)"
proof (rule followsI)
  fix s
  from evaluate_app [of cfg c now s] show "same_status s (snd (evaluate cfg c now s))"
    by (auto simp: ss.R_refl)
qed

lemma ss_submit: "follows same_status (submit_order cfg a y side q ot lp key memo)"
  by (rule followsI) (simp add: ss_same submit_same)

lemma ss_forward: "follows same_status (forward_to_broker cfg i)"
  unfolding forward_to_broker_def by (intro ss.R_db ss_submit)

lemma ss_gates: "follows same_status (assert_workflow_active cfg)" "follows same_status (assert_kill_switch_off cfg j ac)"
  "follows same_status (candidate_get_by_id i)"
  unfolding assert_workflow_active_def assert_kill_switch_off_def candidate_get_by_id_def
  by (intro ss.R_db ss_audit)+

lemma ss_now: "follows same_status (case now of None \<Rightarrow> utc_now | Some t \<Rightarrow> sret t)"
  by (intro ss.R_db)

lemma triple_same:
  assumes "follows same_status m"
  shows "triple at_rest m (\<lambda>_. at_rest) (\<lambda>_. at_rest)" "triple (rest_but i) m (\<lambda>_. rest_but i) anything"
  using assms by (auto intro!: tripleI dest!: followsD simp: same_status_rest split: sum.split)

lemma triple_rest_but: "triple (rest_but i) m Q E \<Longrightarrow> triple at_rest m Q E"
  by (erule triple_conseq) (auto intro: at_rest_but)

lemma tr_mark_rest:
  "triple (rest_but i) (candidate_update_status i st r u)
     (\<lambda>_. if st \<in> set rest_statuses then at_rest else rest_but i) anything"
  by (rule tripleI)
    (auto simp: update_status_cases rest_but_def at_rest_def t_upd_def split: if_splits option.splits)

lemma tr_mark_final: "st \<in> set rest_statuses \<Longrightarrow> triple (rest_but i) (candidate_update_status i st r u) (\<lambda>_. at_rest) anything"
  using tr_mark_rest [of i st r u] by simp

lemma tr_mark_again: "triple (rest_but i) (candidate_update_status i st r u) (\<lambda>_. rest_but i) anything"
  by (rule triple_conseq [OF tr_mark_rest]) (auto split: if_splits intro: at_rest_but)

lemma triple_weak: "triple P m Q E \<Longrightarrow> triple P m Q anything"
  by (erule triple_conseq) auto

lemmas rest_keep = triple_same(2) [OF ss_attach(1)] triple_same(2) [OF ss_attach(2)] triple_same(2) [OF ss_audit]
  triple_same(2) [OF ss_evaluate] triple_same(2) [OF ss_forward] triple_same(2) [OF ss_gates(1)]
  triple_same(2) [OF ss_gates(2)] triple_same(2) [OF ss_gates(3)] triple_same(2) [OF ss_now]

lemmas rest_after = triple_weak [OF triple_same(1) [OF ss_audit]]

lemma rest_const [simp]:
  "''PENDING_APPROVAL'' \<in> set rest_statuses" "''RISK_REJECTED'' \<in> set rest_statuses"
  "''EXECUTED_PAPER'' \<in> set rest_statuses" "''REJECTED'' \<in> set rest_statuses" "''EXPIRED'' \<in> set rest_statuses"
  by (simp_all add: rest_statuses_def oc_terminal_statuses_def)

lemma rs_found:
  assumes "\<And>c. oc_id c = i \<Longrightarrow> triple (rest_but i) (k c) Q anything"
  shows "triple (rest_but i) (sbind (candidate_get_by_id i) (\<lambda>found. case found of None \<Rightarrow> sthrow e | Some c \<Rightarrow> k c))
    Q anything"
proof (rule tripleI)
  fix s x t
  assume s: "rest_but i s" and
    x: "sbind (candidate_get_by_id i) (\<lambda>found. case found of None \<Rightarrow> sthrow e | Some c \<Rightarrow> k c) s = (x, t)"
  show "case x of Inl e \<Rightarrow> True | Inr a \<Rightarrow> Q a t"
  proof (cases "t_get oc_id i (sn_candidates s)")
    case (Some c)
    then have "k c s = (x, t)" and "oc_id c = i"
      using x by (auto simp: candidate_get_by_id_def monad_simps dest: t_get_Some)
    then show ?thesis using tripleD [OF assms s] by simp
  qed (use x in \<open>auto simp: candidate_get_by_id_def monad_simps\<close>)
qed

lemma rs_keep: "triple (rest_but i) (srequire b e) (\<lambda>_. rest_but i) anything"
  by (rule triple_same(2) [OF ss.R_require])

lemma rs_then: "triple at_rest (audit_as ac i e r d) (\<lambda>_. at_rest) anything"
  by (rule triple_weak [OF triple_same(1) [OF ss_audit]])

lemma rs_recheck: "triple (rest_but i) (if rr_passed r then sret () else deny_recheck i ac r) (\<lambda>_. rest_but i) anything"
  by (rule tripleI) (auto simp: deny_recheck_def sret_app sthrow_app elim!: sbind_InrE split: if_splits sum.splits)

lemma rs_approve: "triple at_rest (approve cfg i ac now) (\<lambda>_. at_rest) anything"
  unfolding approve_def
proof (rule triple_rest_but [where i = i], intro triple_bind [OF rest_keep(6)] triple_bind [OF rest_keep(9)] rs_found,
    goal_cases)
  case (1 u t c)
  show ?case
    unfolding 1
    by (intro triple_bind [OF rs_keep] triple_bind [OF rest_keep(7)] triple_bind [OF rest_keep(4)]
        triple_bind [OF rs_recheck] triple_bind [OF tr_mark_again] triple_bind [OF rest_keep(3)]
        triple_bind [OF rest_keep(5)] triple_bind [OF rest_keep(1)] triple_bind [OF tr_mark_final]
        triple_bind [OF rs_then] triple_ret) simp_all
qed

lemma rs_reject: "triple at_rest (reject cfg i ac reason) (\<lambda>_. at_rest) anything"
  unfolding reject_def candidate_reject_def
proof (rule triple_rest_but [where i = i], intro triple_bind [OF rest_keep(6)] rs_found, goal_cases)
  case (1 u c)
  show ?case
    unfolding 1
    by (intro triple_bind [OF rs_keep] triple_bind [OF rest_keep(7)] triple_bind [OF tr_mark_final]
        triple_bind [OF rs_then] triple_ret) simp_all
qed

text \<open>An expiry may fail without being rolled back, in the job: it keeps the property then too.\<close>

lemma rs_expire_mark: "triple at_rest (candidate_expire i) (\<lambda>_. at_rest) (\<lambda>_. at_rest)"
  unfolding candidate_expire_def
  by (rule tripleI)
    (auto simp: update_status_cases at_rest_def t_upd_def split: if_splits option.splits)

lemma rs_expire: "triple at_rest (expire i ac) (\<lambda>_. at_rest) (\<lambda>_. at_rest)"
  unfolding expire_def
  by (intro triple_bind [OF triple_same(1) [OF ss_gates(3)]] triple_option triple_throw
      triple_bind [OF triple_map_err [OF rs_expire_mark]] triple_bind [OF triple_same(1) [OF ss_audit]] triple_ret)

lemma rs_insert:
  "triple at_rest (candidate_create a src y side q ot lp amt ref ex st) rest_but anything"
proof (rule tripleI)
  fix s x t
  assume s: "at_rest s" and x: "candidate_create a src y side q ot lp amt ref ex st s = (x, t)"
  have lim: "follows same_workflow (candidate_limit ot lp)"
    unfolding candidate_limit_def by (intro sw_rules)
  show "case x of Inl e \<Rightarrow> True | Inr i \<Rightarrow> rest_but i t"
  proof (cases x)
    case (Inr i)
    from x [unfolded Inr candidate_create_def] s show ?thesis
      unfolding Inr
      by (cases q) (auto simp: sret_app sthrow_app utc_now_app sgets_app smodify_app rest_but_def at_rest_def
          elim!: sbind_InrE srequire_InrE dest!: followsD [OF lim] followsD [OF sw.R_dec_of] simp: same_workflow_def)
  qed simp
qed

lemma rs_row: "triple (rest_but i) (row_of f k j) (\<lambda>_. rest_but i) anything"
  by (rule triple_same(2) [OF ss.R_row])

lemma rs_create: "triple at_rest (create_candidate cfg a src y side q ot lp amt ref ttl ac now) (\<lambda>_. at_rest) anything"
proof -
  have last: "triple (rest_but i)
      (if b then candidate_update_status i ''PENDING_APPROVAL'' None None
       else sbind (candidate_update_status i ''RISK_REJECTED'' f None) (\<lambda>_.
         sbind (audit_as ac i ''RISK_REJECTED'' f d) (\<lambda>_. sret ())))
      (\<lambda>_. at_rest) anything" for b i f d
    by (intro triple_if tr_mark_final triple_bind [OF tr_mark_final] triple_bind [OF rs_then] triple_ret) simp_all
  show ?thesis
    unfolding create_candidate_def Let_def
    by (intro triple_bind [OF triple_weak [OF triple_same(1) [OF ss_gates(1)]]]
        triple_bind [OF triple_weak [OF triple_same(1) [OF ss_now]]]
        triple_bind [OF triple_weak [OF triple_same(1) [OF ss.R_require]]]
        triple_bind [OF rs_insert] triple_bind [OF rs_row] triple_bind [OF rest_keep(3)]
        triple_bind [OF tr_mark_again] triple_bind [OF rest_keep(4)] triple_bind [OF rest_keep(2)]
        triple_bind [OF last] triple_ret)
qed

end
