(* ===== verification/Committed_State.thy ===== *)
theory Committed_State
  imports Route_Facts Exposure
begin

text \<open>
  The composition of the routes, the jobs and the executor of real orders over one database:
  which states of a candidate are ever committed, and what the executor finds there.
\<close>

subsection \<open>What routes and jobs keep\<close>

definition committed_ok :: "session \<Rightarrow> bool" where
  "committed_ok s \<longleftrightarrow> at_rest s \<and> trail_ok s \<and> sn_real_orders s = []"

definition keeps :: "'a route \<Rightarrow> bool" where
  "keeps r \<longleftrightarrow> (\<forall>s. committed_ok s \<longrightarrow> committed_ok (snd (r s)))"

lemma triple_conj3:
  "triple P1 m (\<lambda>_. Q1) E1 \<Longrightarrow> triple P2 m (\<lambda>_. Q2) E2 \<Longrightarrow> triple P3 m (\<lambda>_. Q3) E3 \<Longrightarrow>
   triple (\<lambda>s. P1 s \<and> P2 s \<and> P3 s) m (\<lambda>_ s. Q1 s \<and> Q2 s \<and> Q3 s) (\<lambda>e s. E1 e s \<and> E2 e s \<and> E3 e s)"
  by (fastforce simp: triple_def split: prod.splits sum.splits)

lemma committed_triple:
  assumes "triple at_rest m (\<lambda>_. at_rest) E1" "triple trail_ok m (\<lambda>_. trail_ok) E2" "follows approval_step m"
  shows "triple committed_ok m (\<lambda>_. committed_ok) (\<lambda>e s. E1 e s \<and> E2 e s \<and> sn_real_orders s = [])"
proof -
  have "triple (\<lambda>s. sn_real_orders s = []) m (\<lambda>_ s. sn_real_orders s = []) (\<lambda>_ s. sn_real_orders s = [])"
    by (rule tripleI) (use assms(3) in \<open>auto simp: approval_step_def same_rest_def dest!: followsD split: sum.split\<close>)
  from triple_conj3 [OF assms(1,2) this] show ?thesis
    by (rule triple_conseq) (auto simp: committed_ok_def)
qed

lemma committed_weak:
  "triple at_rest m (\<lambda>_. at_rest) anything \<Longrightarrow> triple trail_ok m (\<lambda>_. trail_ok) E2 \<Longrightarrow> follows approval_step m \<Longrightarrow>
   triple committed_ok m (\<lambda>_. committed_ok) anything"
  by (rule triple_conseq [OF committed_triple]) auto

lemma committed_same:
  assumes "same_workflow s t" shows "committed_ok t = committed_ok s"
  using assms by (simp add: same_workflow_def committed_ok_def at_rest_def trail_ok_def keys_ok_def)

lemma committed_frame:
  "follows same_workflow m \<Longrightarrow> triple committed_ok m (\<lambda>_. committed_ok) (\<lambda>_. committed_ok)"
  by (auto intro!: tripleI dest!: followsD simp: committed_same split: sum.split)

lemma build_actor_ok: "actor_ok (build_actor request user)"
  by (auto simp: actor_ok_def build_actor_def hash_too_long_def hash_for_audit_def Let_def split: option.split)

lemma system_actor_ok: "actor_ok system_actor"
  by (simp add: actor_ok_def system_actor_def hash_too_long_def)

lemma keeps_transact:
  assumes "triple committed_ok m (\<lambda>_. committed_ok) anything"
  shows "keeps (transact h reply m)"
  using assms by (fastforce simp: keeps_def transact_def triple_def split: prod.splits sum.splits)

lemma keeps_refuse: "keeps (\<lambda>s. (a, s))"
  by (simp add: keeps_def)

lemma keeps_guarded: "keeps r \<Longrightarrow> keeps (guarded b code why r)"
  by (simp add: keeps_def guarded_def)

lemma keeps_required:
  "keeps r \<Longrightarrow> keeps (require_trading_safety_enabled cfg r)" "keeps r \<Longrightarrow> keeps (require_kill_switch_off cfg r)"
  "keeps r \<Longrightarrow> keeps (require_paper_trading_enabled cfg r)"
  by (simp_all add: require_trading_safety_enabled_def require_kill_switch_off_def
      require_paper_trading_enabled_def keeps_guarded)

lemma keeps_validated: "(\<And>p. keeps (r p)) \<Longrightarrow> keeps (validated q r)"
  by (simp add: keeps_def validated_def split: option.split)

lemma keeps_account: "(\<And>a. keeps (r a)) \<Longrightarrow> keeps (resolve_account i user r)"
  by (auto simp: keeps_def resolve_account_def Let_def split: option.split list.split)

lemmas keeps_rules = keeps_required keeps_validated keeps_account keeps_transact

lemma route_keeps:
  "keeps (create_candidate_route cfg request user create_body)"
  "keeps (approve_candidate_route cfg request user i)"
  "keeps (reject_candidate_route cfg request user i reason)"
  "keeps (expire_candidate_route cfg request user i)"
  "keeps (create_paper_order cfg user order_body)"
  "keeps (cancel_paper_order cfg i why)"
  unfolding create_candidate_route_def approve_candidate_route_def reject_candidate_route_def
    expire_candidate_route_def create_paper_order_def cancel_paper_order_def
  by (intro keeps_rules committed_weak [OF rs_create tr_create ap_create]
      committed_weak [OF rs_approve tr_approve ap_approve]
      committed_weak [OF rs_reject tr_reject ap_reject]
      committed_weak [OF triple_weak [OF rs_expire] tr_expire ap_expire]
      triple_weak [OF committed_frame [OF sw_submit]] triple_weak [OF committed_frame [OF sw_cancel]] build_actor_ok)+

lemma sync_keeps: "keeps (sync_real_order_fill cfg i ref)"
  unfolding sync_real_order_fill_def
  by (intro keeps_required) (simp add: keeps_def committed_ok_def t_get_def)

subsection \<open>Jobs\<close>

lemma triple_fold:
  "(\<And>x a. triple P (f x a) (\<lambda>_. P) E) \<Longrightarrow> triple P (sfold f xs acc) (\<lambda>_. P) E"
  by (induction xs arbitrary: acc) (auto intro: triple_ret triple_bind)

lemma isolate_keeps: "triple P (f x) (\<lambda>_. P) (\<lambda>_. P) \<Longrightarrow> triple P (isolate key f x acc) (\<lambda>_. P) E"
  unfolding isolate_def by (intro triple_bind [OF triple_try] triple_ret) auto

lemma run_job_keeps:
  assumes "triple committed_ok job (\<lambda>_. committed_ok) E" and "committed_ok s"
  shows "committed_ok (fst (snd (run_job name job (s, runs))))"
  using assms by (auto simp: run_job_def triple_def Let_def split: prod.splits sum.splits)

lemma sw_today: "follows same_workflow (today_in_zone offset)" "follows same_workflow enabled_accounts"
  unfolding today_in_zone_def enabled_accounts_def by (intro sw_rules)+

lemma sw_jobs:
  "follows same_workflow (execute_paper_orders cfg offset)"
  "follows same_workflow (create_paper_pnl_snapshot cfg offset)"
  unfolding execute_paper_orders_def create_paper_pnl_snapshot_def match_account_def isolate_def Let_def
  by (intro sw_rules sw_today sw_execute sw_snapshot)+

lemma expire_job_keeps: "triple committed_ok (expire_pending_approvals cfg) (\<lambda>_. committed_ok) (\<lambda>_. committed_ok)"
proof -
  have one: "triple committed_ok (expire i system_actor) (\<lambda>_. committed_ok) (\<lambda>_. committed_ok)" for i
    using committed_triple [OF rs_expire tr_expire [OF system_actor_ok] ap_expire]
    by (rule triple_conseq) (auto simp: committed_ok_def)
  have read: "triple committed_ok (list_expired_pending now n) (\<lambda>_. committed_ok) E"
    "triple committed_ok utc_now (\<lambda>_. committed_ok) E" for now n E
    by (auto simp: list_expired_pending_def monad_simps triple_def split: option.split)
  show ?thesis
    unfolding expire_pending_approvals_def
    by (intro triple_if triple_ret triple_bind [OF read(2)] triple_bind [OF read(1)]
        triple_bind [OF triple_fold [OF isolate_keeps [where f = "\<lambda>c. expire (oc_id c) system_actor", OF one]]])
      (auto simp: sret_def triple_def split: prod.splits)
qed

subsection \<open>The reachable databases\<close>

text \<open>Whatever the settings are at the time, everything that commits: the routes, the three
  jobs, an execution of a candidate, and any change outside the workflow (accounts, prices,
  time). The client of the executor has its own state \<open>w\<close>.\<close>

inductive web_step :: "'c executor \<Rightarrow> 'c world \<Rightarrow> 'c world \<Rightarrow> bool" for ex :: "'c executor" where
  create_step: "web_step ex (s, w) (snd (create_candidate_route cfg request user create_body s), w)"
| approve_step: "web_step ex (s, w) (snd (approve_candidate_route cfg request user i s), w)"
| reject_step: "web_step ex (s, w) (snd (reject_candidate_route cfg request user i reason s), w)"
| expire_step: "web_step ex (s, w) (snd (expire_candidate_route cfg request user i s), w)"
| order_step: "web_step ex (s, w) (snd (create_paper_order cfg user order_body s), w)"
| cancel_step: "web_step ex (s, w) (snd (cancel_paper_order cfg i why s), w)"
| sync_step: "web_step ex (s, w) (snd (sync_real_order_fill cfg i ref s), w)"
| job_step: "job \<in> set [execute_paper_orders cfg offset, create_paper_pnl_snapshot cfg offset,
      expire_pending_approvals cfg] \<Longrightarrow>
    web_step ex (s, w) (fst (snd (run_job name job (s, runs))), w)"
| execution_step: "execute ex cfg i (s, w) = (r, v) \<Longrightarrow> web_step ex (s, w) v"
| outside_step: "same_workflow s t \<Longrightarrow> web_step ex (s, w) (t, w)"

lemma execute_stops:
  assumes "committed_ok s"
  shows "\<exists>r. execute ex cfg i (s, w) = (Inr r, (s, w)) \<and> \<not> xe_success r \<and>
    xe_blocked_reason r = Some (if t_get oc_id i (sn_candidates s) = None then ''CANDIDATE_NOT_FOUND'' else ''NOT_APPROVED'')"
proof -
  have "oc_status c \<noteq> ''APPROVED''" if "t_get oc_id i (sn_candidates s) = Some c" for c
    using t_get_Some [OF that] assms
    by (auto simp: committed_ok_def at_rest_def rest_statuses_def oc_terminal_statuses_def)
  then show ?thesis
    by (cases "t_get oc_id i (sn_candidates s)")
      (auto simp: execute_def check_gates_def candidate_get_by_id_def Let_def monad_simps blocked_def)
qed

lemma web_step_keeps: "web_step ex v u \<Longrightarrow> committed_ok (fst v) \<Longrightarrow> committed_ok (fst u)"
proof (induction rule: web_step.induct)
  case (job_step job cfg offset s w name runs)
  have "triple committed_ok job (\<lambda>_. committed_ok) (\<lambda>_. committed_ok)"
    using job_step.hyps sw_jobs expire_job_keeps by (auto intro: committed_frame)
  from run_job_keeps [OF this] job_step.prems show ?case by simp
next
  case (execution_step cfg i s w r v)
  with execute_stops [of s ex cfg i w] show ?case by auto
qed (use route_keeps sync_keeps committed_same in \<open>simp_all add: keeps_def\<close>)

lemma reachable_committed:
  assumes "(web_step ex)\<^sup>*\<^sup>* (s0, w0) (s, w)"
    and "sn_candidates s0 = []" "sn_audits s0 = []" "sn_real_orders s0 = []"
  shows "committed_ok s"
proof -
  have "committed_ok (fst v)" if "(web_step ex)\<^sup>*\<^sup>* (s0, w0) v" for v
    using that
  proof (induction rule: rtranclp_induct)
    case base
    with assms(2-) show ?case by (simp add: committed_ok_def at_rest_def trail_ok_def keys_ok_def)
  next
    case (step v u)
    then show ?case by (blast intro: web_step_keeps)
  qed
  from this [OF assms(1)] show ?thesis by simp
qed

text \<open>
  C18. What is ever committed: starting from a database without candidates, after any sequence of
  route calls, jobs, executions and changes outside the workflow, every candidate either
  waits for a decision or is final, never \<open>DRAFT\<close>, \<open>RISK_CHECKING\<close> or \<open>APPROVED\<close>, and its
  status is the one its audit events tell.
\<close>

theorem committed_candidates_rest:
  assumes "(web_step ex)\<^sup>*\<^sup>* (s0, w0) (s, w)"
    and "sn_candidates s0 = []" "sn_audits s0 = []" "sn_real_orders s0 = []"
    and "c \<in> set (sn_candidates s)"
  shows "oc_status c \<in> {''PENDING_APPROVAL'', ''RISK_REJECTED'', ''REJECTED'', ''EXPIRED'', ''EXECUTED_PAPER''} \<and>
    replay_log (sn_audits s) (oc_id c) = oc_status c"
  using reachable_committed [OF assms(1-4)] assms(5)
  by (auto simp: committed_ok_def at_rest_def trail_ok_def rest_statuses_def oc_terminal_statuses_def)

text \<open>
  C19. The executor of real orders never executes anything: in every database the routes and
  jobs can leave, for every candidate, every setting and every client, \<open>execute\<close> stops at its
  first gate without touching the database or the client, because an approval that succeeds
  has already moved the candidate on to \<open>EXECUTED_PAPER\<close>.
\<close>

theorem real_execution_never_starts:
  assumes "(web_step ex)\<^sup>*\<^sup>* (s0, w0) (s, w)"
    and "sn_candidates s0 = []" "sn_audits s0 = []" "sn_real_orders s0 = []"
  shows "sn_real_orders s = [] \<and> (\<exists>r. execute ex cfg i (s, w) = (Inr r, (s, w)) \<and> \<not> xe_success r \<and>
    xe_blocked_reason r = Some (if t_get oc_id i (sn_candidates s) = None then ''CANDIDATE_NOT_FOUND'' else ''NOT_APPROVED''))"
  using reachable_committed [OF assms] execute_stops [of s ex cfg i w] by (auto simp: committed_ok_def)

subsection \<open>A reachable database\<close>

definition demo_request :: client_request where
  "demo_request = \<lparr>rq_forwarded = None, rq_host = None, rq_user_agent = None\<rparr>"

definition demo_body :: create_request where
  "demo_body = \<lparr>cq_symbol = ''005930'', cq_side = ''buy'', cq_quantity = 10, cq_order_type = ''MARKET'',
     cq_limit_price = None, cq_estimated_amount = Some (DecArg 700000), cq_source = ''MANUAL'',
     cq_source_ref_id = None, cq_account_id = Some 1, cq_ttl_minutes = None\<rparr>"

definition demo_committed :: session where
  "demo_committed = snd (create_candidate_route demo_settings demo_request (Some 5) demo_body demo_ledger)"

lemma demo_committed_reached: "(web_step ex)\<^sup>*\<^sup>* (demo_ledger, w) (demo_committed, w)"
  unfolding demo_committed_def by (rule r_into_rtranclp) (rule create_step)

lemma demo_ledger_empty: "sn_candidates demo_ledger = []" "sn_audits demo_ledger = []" "sn_real_orders demo_ledger = []"
  by (simp_all add: demo_ledger_def empty_session_def)

lemma demo_body_valid:
  "validate_create_request demo_body = Some (demo_body\<lparr>cq_side := ''BUY''\<rparr>)"
  by (simp add: validate_create_request_def demo_body_def clean_symbol_def clean_choice_def decimal_ok_def
      py_upper_def py_strip_def is_space_def char_upper_def Let_def) code_simp

lemma demo_created:
  "\<exists>r c. create_candidate_route demo_settings demo_request (Some 5) demo_body demo_ledger = (Ok r, demo_committed) \<and>
     cr_risk_passed r \<and> sn_candidates demo_committed = [c] \<and> oc_id c = 1 \<and> oc_status c = ''PENDING_APPROVAL''"
proof -
  let ?m = "create_candidate demo_settings 1 ''MANUAL'' ''005930'' ''BUY'' (PyInt 10) ''MARKET'' None
      (DecArg 700000) None None (build_actor demo_request (Some 5)) None"
  obtain x s' where x: "?m demo_ledger = (x, s')" by fastforce
  note eff = create_candidate_effect [OF build_actor_ok x]
  have on: "cfg_trading_safety_enabled demo_settings" "\<not> cfg_kill_switch_enabled demo_settings"
    "request_valid ''MANUAL'' ''005930'' ''BUY'' (PyInt 10) ''MARKET'' None (DecArg 700000)"
    by (simp_all add: demo_settings_def request_valid_def limit_valid_def py_strip_def is_space_def)
  with eff obtain r where r: "x = Inr r" by (cases x) auto
  with eff obtain c ex where s': "sn_candidates s' = sn_candidates demo_ledger @ [c]"
    and id: "oc_id c = t_next oc_id (sn_candidates demo_ledger)"
    and c: "requested 1 ''MANUAL'' ''005930'' ''BUY'' (PyInt 10) ''MARKET'' None (DecArg 700000) None (Some ex) c"
    and st: "cr_risk_passed r = risk_ok demo_settings demo_ledger c (eval_time demo_ledger None)"
      "oc_status c = (if cr_risk_passed r then ''PENDING_APPROVAL'' else ''RISK_REJECTED'')"
    by auto
  have "risk_ok demo_settings demo_ledger c (eval_time demo_ledger None)"
    using c by (auto simp: requested_def risk_ok_def demo_settings_def account_enabled_def
      demo_ledger_def demo_account_def empty_session_def t_get_def symbol_exposure_def day_exposure_def
      ratio_holds_def loss_holds_def no_duplicate_def estimate_total_account_value_def latest_pnl_snapshot_def
      estimate_position_market_value_def find_position_def dec_eval)
  moreover have "t_get va_id 1 (sn_accounts demo_ledger) = Some demo_account" "va_id demo_account = 1"
    by (simp_all add: demo_ledger_def demo_account_def t_get_def)
  then have "create_candidate_route demo_settings demo_request (Some 5) demo_body demo_ledger = (Ok r, s')"
    using on x unfolding r
    by (simp add: create_candidate_route_def demo_body_valid validated_def
        require_trading_safety_enabled_def require_kill_switch_off_def guarded_def resolve_account_def
        transact_def) (simp add: demo_body_def resolve_account_def transact_def)
  ultimately show ?thesis using st s' id by (auto simp: demo_ledger_empty demo_committed_def)
qed

lemma demo_committed_candidate:
  "\<exists>c. sn_candidates demo_committed = [c] \<and> oc_id c = 1 \<and> oc_status c = ''PENDING_APPROVAL''"
  using demo_created by blast

theorem committed_candidates_rest_witness:
  "\<exists>c. sn_candidates demo_committed = [c] \<and> replay_log (sn_audits demo_committed) 1 = oc_status c \<and>
     oc_status c = ''PENDING_APPROVAL''"
proof -
  obtain c where c: "sn_candidates demo_committed = [c]" "oc_id c = 1" "oc_status c = ''PENDING_APPROVAL''"
    using demo_committed_candidate by blast
  then show ?thesis
    using committed_candidates_rest [OF demo_committed_reached demo_ledger_empty, where c = c] by simp
qed

definition plain_executor :: "unit executor" where
  "plain_executor = \<lparr>ex_transport = None, ex_factory = None, ex_scrub_order = []\<rparr>"

theorem real_execution_never_starts_witness:
  "\<exists>r. execute plain_executor demo_settings 1 (demo_committed, ()) = (Inr r, (demo_committed, ())) \<and>
     xe_blocked_reason r = Some ''NOT_APPROVED''"
proof -
  obtain c where c: "sn_candidates demo_committed = [c]" "oc_id c = 1"
    using demo_committed_candidate by blast
  then have "t_get oc_id 1 (sn_candidates demo_committed) \<noteq> None" by (simp add: t_get_def)
  then show ?thesis
    using real_execution_never_starts [OF demo_committed_reached demo_ledger_empty, where i = 1 and ex = plain_executor
        and cfg = demo_settings] by auto
qed

end
