(* ===== verification/Route_Outcomes.thy ===== *)
theory Route_Outcomes
  imports Committed_State Fill_Facts
begin

text \<open>
  What single routes and jobs answer and leave behind.
\<close>

subsection \<open>An approval denied at the re-check\<close>

lemma deny_recheck_app:
  assumes c: "t_get oc_id i (sn_candidates s) = Some c" "oc_status c = ''PENDING_APPROVAL''" and ac: "actor_ok ac"
  shows "\<exists>s' d l. deny_recheck i ac risk s =
      (Inl (ApprovalDeniedError [T ''risk re-check failed at approval time''] [rule_ids_json risk]), s') \<and>
    t_get oc_id i (sn_candidates s') = Some d \<and> oc_status d = ''REJECTED'' \<and>
    sn_audits s' = sn_audits s @ [l] \<and> approval_event ''RISK_REJECTED'' i ac l"
proof -
  let ?s1 = "set_cand i (\<lambda>c. c\<lparr>oc_risk_check_result := Some risk, oc_updated_at := sn_now s\<rparr>) s"
  have a: "attach_risk_result i risk s = (Inr (), ?s1)"
    by (simp add: attach_risk_result_def monad_simps upd_candidate_def set_cand_def)
  let ?c1 = "c\<lparr>oc_risk_check_result := Some risk, oc_updated_at := sn_now s\<rparr>"
  have g1: "t_get oc_id i (sn_candidates ?s1) = Some ?c1" using c(1) by (simp add: t_get_upd)
  let ?adv = "advance (sn_now ?s1) ''REJECTED'' (Some (format_violations risk)) (ac_user_id ac)"
  have u: "candidate_update_status i ''REJECTED'' (Some (format_violations risk)) (ac_user_id ac) ?s1 = (Inr (), set_cand i ?adv ?s1)"
    by (rule update_status_ok [OF g1]) (simp add: c(2) allowed_transitions_def)
  obtain j l where l: "audit_as ac i ''RISK_REJECTED'' (Some (format_violations risk))
      (Some [(''policy_version'', JStr (rr_policy_version risk)), rule_ids_json risk, (''phase'', JStr ''approve_recheck'')])
      (set_cand i ?adv ?s1) = (Inr j, (set_cand i ?adv ?s1)\<lparr>sn_audits := sn_audits (set_cand i ?adv ?s1) @ [l]\<rparr>)"
      "approval_event ''RISK_REJECTED'' i ac l"
    using audit_as_ok [where e = "''RISK_REJECTED''" and i = i and r = "Some (format_violations risk)" and s = "set_cand i ?adv ?s1",
        OF ac _ clean_policy(3) [of "JStr (rr_policy_version risk)" risk "JStr ''approve_recheck''"]]
    by (auto simp: valid_event_types_def)
  show ?thesis
    using c(1) l by (auto simp: deny_recheck_def sbind_app sthrow_app a u t_get_upd)
qed

lemma approve_denied:
  assumes on: "cfg_trading_safety_enabled cfg" "\<not> cfg_kill_switch_enabled cfg"
    and c: "t_get oc_id i (sn_candidates s) = Some c" "oc_status c = ''PENDING_APPROVAL''" and ac: "actor_ok ac"
    and risk: "\<not> risk_ok cfg s c (eval_time s now)"
  shows "\<exists>t d s'. approve cfg i ac now s = (Inl (ApprovalDeniedError [T ''risk re-check failed at approval time''] t), s') \<and>
    t_get oc_id i (sn_candidates s') = Some d \<and> oc_status d = ''REJECTED'' \<and>
    (\<exists>l. sn_audits s' = sn_audits s @ [l] \<and> approval_event ''RISK_REJECTED'' i ac l)"
proof -
  have id: "oc_id c = i" using c(1) by (auto dest: t_get_Some)
  have now: "(case now of None \<Rightarrow> utc_now | Some t \<Rightarrow> sret t) s = (Inr (eval_time s now), s)"
    by (cases now) (simp_all add: eval_time_def monad_simps)
  obtain r where r: "evaluate cfg c (Some (eval_time s now)) s = (Inr r, s)" "\<not> rr_passed r"
    using evaluate_passed [of cfg c "Some (eval_time s now)" s] risk
    by (cases "evaluate cfg c (Some (eval_time s now)) s") (auto simp: eval_time_def)
  from deny_recheck_app [OF c ac, of r] show ?thesis
    using on c id
    by (auto simp: approve_def assert_workflow_active_def assert_kill_switch_off_def sbind_app srequire_app now
        candidate_get_by_id_def sgets_app sret_app r)
qed

lemma recheck_mentions: "\<not> mentions not_found_text [T ''risk re-check failed at approval time'']"
  by code_simp

text \<open>
  An approval denied by the risk re-check leaves no trace. The service marks the candidate
  \<open>REJECTED\<close> and logs \<open>RISK_REJECTED\<close> before it raises; the route answers 409 without
  committing, so the database is unchanged: the candidate still waits for approval and
  the log does not tell of the attempt.
\<close>

lemma denied_approval_leaves_no_trace:
  assumes "cfg_trading_safety_enabled cfg" and "\<not> cfg_kill_switch_enabled cfg"
    and "t_get oc_id i (sn_candidates s) = Some c" and "oc_status c = ''PENDING_APPROVAL''"
    and "\<not> risk_ok cfg s c (sn_now s)"
  shows "\<exists>e s' d l. approve cfg i (build_actor request user) None s = (Inl e, s') \<and>
    t_get oc_id i (sn_candidates s') = Some d \<and> oc_status d = ''REJECTED'' \<and>
    sn_audits s' = sn_audits s @ [l] \<and> al_event_type l = ''RISK_REJECTED'' \<and>
    approve_candidate_route cfg request user i s = (Refused 409 (Raised e), s)"
proof -
  note ac = build_actor_ok [of request user]
  from approve_denied [OF assms(1-4) ac, of None] assms(5)
  obtain t d s' l where "approve cfg i (build_actor request user) None s =
      (Inl (ApprovalDeniedError [T ''risk re-check failed at approval time''] t), s')"
    "t_get oc_id i (sn_candidates s') = Some d" "oc_status d = ''REJECTED''"
    "sn_audits s' = sn_audits s @ [l]" "approval_event ''RISK_REJECTED'' i (build_actor request user) l"
    by (auto simp: eval_time_def)
  then show ?thesis
    using assms(1,2) recheck_mentions
    by (simp add: approve_candidate_route_def require_trading_safety_enabled_def require_kill_switch_off_def
        guarded_def transact_def approve_error_def approval_event_def)
qed

subsection \<open>The account page\<close>

lemma first_of_sorted:
  assumes "rows \<noteq> []"
  obtains v where "take 1 (sort_key k rows) = [v]" "v \<in> set rows" "\<And>y. y \<in> set rows \<Longrightarrow> k v \<le> (k y :: int)"
proof -
  obtain v vs where v: "sort_key k rows = v # vs"
    using assms by (cases "sort_key k rows") (metis length_0_conv length_sort)
  have "sorted (map k (v # vs))" using sorted_sort_key [of k rows] v by simp
  moreover have "set rows = set (v # vs)" using set_sort [of k rows] v by simp
  ultimately show thesis using v by (intro that [of v]) auto
qed

text \<open>
  The account page shows the oldest snapshot as its latest one: for an existing account
  the route always answers, with a snapshot exactly when the account has one, and the one
  shown has the earliest date of all the account's snapshots.
\<close>

lemma account_page_shows_oldest:
  assumes "t_get va_id i (sn_accounts s) = Some a"
  shows "\<exists>shown. get_paper_account (Some i) user s = (Ok (a, shown), s) \<and>
    (case shown of
       None \<Rightarrow> \<forall>v \<in> set (sn_snapshots s). vs_account_id v \<noteq> i
     | Some v \<Rightarrow> v \<in> set (sn_snapshots s) \<and> vs_account_id v = i \<and>
         (\<forall>y \<in> set (sn_snapshots s). vs_account_id y = i \<longrightarrow> vs_snapshot_date v \<le> vs_snapshot_date y))"
proof -
  let ?rows = "filter (\<lambda>v. vs_account_id v = i) (sn_snapshots s)"
  have id: "va_id a = i" using assms by (auto dest: t_get_Some)
  have page: "get_paper_account (Some i) user s = (Ok (a, let l = take 1 (sort_key vs_snapshot_date ?rows)
      in if l \<noteq> [] then Some (last l) else None), s)"
    using assms id by (simp add: get_paper_account_def resolve_account_def read_only_def snapshot_list_by_account_def
        monad_simps Let_def)
  show ?thesis
  proof (cases "?rows = []")
    case True
    then show ?thesis unfolding page by (auto simp: filter_empty_conv)
  next
    case False
    obtain v where "take 1 (sort_key vs_snapshot_date ?rows) = [v]" "v \<in> set ?rows"
      "\<And>y. y \<in> set ?rows \<Longrightarrow> vs_snapshot_date v \<le> vs_snapshot_date y"
      by (rule first_of_sorted [OF False, of vs_snapshot_date]) blast
    then show ?thesis unfolding page by auto
  qed
qed

subsection \<open>The synchronisation route\<close>

text \<open>
  C20. The synchronisation route invents fills. For an open order it asks no broker: its
  service talks to a fake client of its own, which calls every order filled. Whatever the
  exchange did, the route commits the order as \<open>FILLED\<close> with its whole quantity recorded and
  answers \<open>FULL\<close>, as long as not more than that was recorded before.
\<close>

theorem sync_route_invents_fills:
  assumes "cfg_trading_safety_enabled cfg" and "\<not> cfg_kill_switch_enabled cfg"
    and "t_get ro_id i (sn_real_orders s) = Some r" and "row_valid r" and "syncable r"
    and "fills_positive s" and "filled_total s i \<le> ro_quantity r"
  shows "\<exists>result text s'. sync_real_order_fill cfg i ref s = (Ok (result, text), s') \<and>
    order_view s' i = Some (''FILLED'', ro_quantity r) \<and> reports result s' i"
proof -
  have st: "ro_status r \<in> set ro_valid_statuses"
    using assms(5) by (auto simp: syncable_def order_non_terminal_def ro_valid_statuses_def)
  have q: "0 < ro_quantity r" using assms(4) by (simp add: row_valid_def)
  obtain a where answer: "sync_answer (None :: unit kis_transport option) (order_ref r ref) (s, ()) = Some a"
    and a: "fr_status a = ''FILLED''" "fr_filled_quantity a = 0"
    by (simp add: sync_answer_def sync_query_def monad_simps fake_query_app)
  obtain result s' w' where run: "sync_fills (None :: unit kis_transport option) i ref (s, ()) = (Inr result, (s', w'))"
    and view: "order_view s' i = Some (sync_spec (ro_quantity r) (sync_answer (None :: unit kis_transport option)
        (order_ref r ref) (s, ())) (ro_status r, filled_total s i))" and rep: "reports result s' i"
    by (rule sync_effect [OF assms(3,4) st assms(6), of "None :: unit kis_transport option" ref "()"])
      (use assms(5) in \<open>auto simp del: sync_spec.simps\<close>)
  have "order_view s' i = Some (''FILLED'', ro_quantity r)"
    unfolding view answer using a assms(7) q filled_total_nonneg [OF assms(6), of i] by simp
  with run rep show ?thesis
    using assms(1-3) by (simp add: sync_real_order_fill_def require_trading_safety_enabled_def
        require_kill_switch_off_def guarded_def transact_def own_sync_def)
qed

subsection \<open>The declared amount\<close>

lemma create_route_app:
  assumes "validate_create_request body = Some p"
  shows "create_candidate_route cfg request user body s =
    (if \<not> cfg_trading_safety_enabled cfg then (Refused 503 (Detail ''approval workflow is disabled''), s)
     else if cfg_kill_switch_enabled cfg then (Refused 503 (Detail ''kill switch is ON''), s)
     else resolve_account (cq_account_id p) user (\<lambda>account. transact create_error (\<lambda>result _. result)
       (create_candidate cfg (va_id account) (cq_source p) (cq_symbol p) (cq_side p)
          (PyInt (cq_quantity p)) (cq_order_type p) (cq_limit_price p)
          (case cq_estimated_amount p of None \<Rightarrow> DecArg 0 | Some x \<Rightarrow> x) (cq_source_ref_id p)
          (map_option (\<lambda>m. m * 60000000) (cq_ttl_minutes p)) (build_actor request user) None)) s)"
  by (simp add: create_candidate_route_def assms validated_def require_trading_safety_enabled_def
      require_kill_switch_off_def guarded_def)

lemma resolve_account_Ok:
  assumes "resolve_account i user f s = (Ok r, s')"
  obtains a where "f a s = (Ok r, s')" "\<And>g. resolve_account i user g s = g a s"
  using assms by (auto simp: resolve_account_def Let_def split: option.splits list.splits if_splits)

lemma transact_Ok:
  assumes "transact h reply m s = (Ok r, s')" and "\<And>e. \<exists>x. h e = x \<and> (\<forall>v. x \<noteq> Ok v)"
  obtains a where "m s = (Inr a, s')" "r = reply a s'"
  using assms by (auto simp: transact_def split: prod.splits sum.splits)

lemma create_error_not_Ok: "\<exists>x. create_error e = x \<and> (\<forall>v. x \<noteq> Ok v)"
  by (simp add: create_error_def split: py_error.split)

lemma create_accepts:
  assumes "create_candidate cfg a src y side q ot lp amt ref ttl ac now s = (Inr r, s')"
  shows "request_valid src y side q ot lp amt"
proof (rule ccontr)
  assume no: "\<not> request_valid src y side q ot lp amt"
  have "candidate_create a src y side q ot lp amt ref ex ''DRAFT'' u \<noteq> (Inr i, v)" for ex u i v
    by (rule candidate_create_cases [of a src y side q ot lp amt ref ex u]) (use no in auto)
  with assms show False
    by (auto simp: create_candidate_def Let_def elim!: sbind_InrE)
qed

lemma valid_quantity:
  "validate_create_request body = Some p \<Longrightarrow> 0 < n \<Longrightarrow>
   validate_create_request (body\<lparr>cq_quantity := n\<rparr>) = Some (p\<lparr>cq_quantity := n\<rparr>)"
  by (auto simp: validate_create_request_def split: option.splits if_splits)

text \<open>
  The amount limits do not see the quantity. If a request is accepted by the route, then
  the same request with any other positive quantity is accepted too and gets the same verdict
  of the risk engine, as long as no active candidate is younger than the five minutes of the
  duplicate rule: the limits are compared with the amount the client declares, which
  nothing relates to quantity and price and which is 0 when it is left out.
\<close>

lemma verdict_ignores_quantity:
  assumes "create_candidate_route cfg request user body s = (Ok r, s1)" and "0 < n"
    and "\<forall>d \<in> set (sn_candidates s). is_active d \<longrightarrow> oc_created_at d \<le> sn_now s - 300000000"
  shows "\<exists>r' s2 c. create_candidate_route cfg request user (body\<lparr>cq_quantity := n\<rparr>) s = (Ok r', s2) \<and>
    cr_risk_passed r' = cr_risk_passed r \<and> sn_candidates s2 = sn_candidates s @ [c] \<and> oc_quantity c = n"
proof -
  obtain p where p: "validate_create_request body = Some p"
    using assms(1) by (cases "validate_create_request body") (auto simp: create_candidate_route_def validated_def)
  let ?amt = "case cq_estimated_amount p of None \<Rightarrow> DecArg 0 | Some x \<Rightarrow> x"
  let ?m = "\<lambda>q a. create_candidate cfg (va_id a) (cq_source p) (cq_symbol p) (cq_side p) (PyInt q) (cq_order_type p)
      (cq_limit_price p) ?amt (cq_source_ref_id p) (map_option (\<lambda>m. m * 60000000) (cq_ttl_minutes p))
      (build_actor request user) None"
  note ac = build_actor_ok [of request user]
  have on: "cfg_trading_safety_enabled cfg" "\<not> cfg_kill_switch_enabled cfg"
    using assms(1) by (auto simp: create_route_app [OF p] split: if_splits)
  with assms(1) have "resolve_account (cq_account_id p) user
      (\<lambda>a. transact create_error (\<lambda>result _. result) (?m (cq_quantity p) a)) s = (Ok r, s1)"
    by (simp add: create_route_app [OF p])
  then obtain a where a: "transact create_error (\<lambda>result _. result) (?m (cq_quantity p) a) s = (Ok r, s1)"
    "\<And>g :: virtual_account \<Rightarrow> create_candidate_result route. resolve_account (cq_account_id p) user g s = g a s"
    by (rule resolve_account_Ok) (rule that)
  from a(1) create_error_not_Ok have m1: "?m (cq_quantity p) a s = (Inr r, s1)"
    by (rule transact_Ok) simp
  obtain x s2 where m2: "?m n a s = (x, s2)" by fastforce
  note e1 = create_candidate_effect [OF ac m1] and e2 = create_candidate_effect [OF ac m2]
  from create_accepts [OF m1]
  have "request_valid (cq_source p) (cq_symbol p) (cq_side p) (PyInt n) (cq_order_type p) (cq_limit_price p) ?amt"
    using assms(2) by (simp add: request_valid_def)
  with e2 on obtain r' where x: "x = Inr r'" by (cases x) auto
  from e1 obtain c ex where c: "oc_id c = t_next oc_id (sn_candidates s)"
    "requested (va_id a) (cq_source p) (cq_symbol p) (cq_side p) (PyInt (cq_quantity p)) (cq_order_type p)
      (cq_limit_price p) ?amt (cq_source_ref_id p) (Some ex) c"
    "cr_risk_passed r = risk_ok cfg s c (eval_time s None)" by auto
  from e2 x obtain d ex' where d: "oc_id d = t_next oc_id (sn_candidates s)"
    "requested (va_id a) (cq_source p) (cq_symbol p) (cq_side p) (PyInt n) (cq_order_type p)
      (cq_limit_price p) ?amt (cq_source_ref_id p) (Some ex') d"
    "cr_risk_passed r' = risk_ok cfg s d (eval_time s None)" "sn_candidates s2 = sn_candidates s @ [d]" by auto
  have "no_duplicate s e (eval_time s None)" for e
    using assms(3) by (fastforce simp: no_duplicate_def eval_time_def)
  moreover have eq: "oc_id c = oc_id d" "oc_account_id c = oc_account_id d" "oc_symbol c = oc_symbol d"
    "oc_side c = oc_side d" "oc_estimated_amount c = oc_estimated_amount d"
    using c(1,2) d(1,2) by (auto simp: requested_def)
  ultimately have "risk_ok cfg s c (eval_time s None) = risk_ok cfg s d (eval_time s None)"
    unfolding risk_ok_def account_enabled_def symbol_exposure_def day_exposure_def ratio_holds_def loss_holds_def eq
    by simp
  with c(3) d(3) have same: "cr_risk_passed r' = cr_risk_passed r" by simp
  have "create_candidate_route cfg request user (body\<lparr>cq_quantity := n\<rparr>) s = (Ok r', s2)"
    using on m2 x by (simp add: create_route_app [OF valid_quantity [OF p assms(2)]] a(2) transact_def)
  with same d show ?thesis by (auto simp: requested_def)
qed

subsection \<open>The expiry job\<close>

abbreviation expired_at :: "int \<Rightarrow> order_candidate \<Rightarrow> order_candidate" where
  "expired_at now \<equiv> advance now ''EXPIRED'' (Some [T ''ttl_expired'']) None"

lemma expire_app:
  assumes "t_get oc_id i (sn_candidates s) = Some c" and "oc_status c = ''PENDING_APPROVAL''" and "actor_ok ac"
  shows "\<exists>l. expire i ac s = (Inr i, (set_cand i (expired_at (sn_now s)) s)\<lparr>sn_audits := sn_audits s @ [l]\<rparr>) \<and>
    approval_event ''EXPIRED'' i ac l"
proof -
  have id: "oc_id c = i" using assms(1) by (auto dest: t_get_Some)
  have u: "candidate_expire i s = (Inr (), set_cand i (expired_at (sn_now s)) s)"
    unfolding candidate_expire_def by (rule update_status_ok [OF assms(1)]) (simp add: assms(2) allowed_transitions_def)
  from audit_as_ok [OF assms(3), where e = "''EXPIRED''" and d = None and i = i
      and s = "set_cand i (expired_at (sn_now s)) s" and r = "Some [T ''ttl_expired'']"]
  show ?thesis
    using assms(1) id u by (auto simp: expire_def monad_simps candidate_get_by_id_def valid_event_types_def clean_details_def)
qed

definition expire_all :: "int \<Rightarrow> order_candidate list \<Rightarrow> order_candidate list \<Rightarrow> order_candidate list" where
  "expire_all now targets = map (\<lambda>c. if oc_id c \<in> oc_id ` set targets then expired_at now c else c)"

lemma expire_all_Cons:
  "oc_id c \<notin> oc_id ` set cs \<Longrightarrow> expire_all now cs (t_upd oc_id (oc_id c) (expired_at now) rows) = expire_all now (c # cs) rows"
  by (auto simp: expire_all_def t_upd_def)

lemma expire_loop:
  assumes "distinct (map oc_id cs)"
    and "\<And>c. c \<in> set cs \<Longrightarrow> t_get oc_id (oc_id c) (sn_candidates s) = Some c \<and> oc_status c = ''PENDING_APPROVAL''"
  shows "\<exists>new. sfold (isolate oc_id (\<lambda>c. expire (oc_id c) system_actor)) cs (n, fs) s =
      (Inr (n + length cs, fs), s\<lparr>sn_candidates := expire_all (sn_now s) cs (sn_candidates s), sn_audits := sn_audits s @ new\<rparr>) \<and>
    list_all2 (\<lambda>c l. approval_event ''EXPIRED'' (oc_id c) system_actor l) cs new"
  using assms
proof (induction cs arbitrary: n s)
  case Nil
  show ?case by (simp add: sret_app expire_all_def)
next
  case (Cons c cs)
  from Cons.prems(2) [of c] expire_app [OF _ _ system_actor_ok, of "oc_id c" s c]
  obtain l where l: "expire (oc_id c) system_actor s =
      (Inr (oc_id c), (set_cand (oc_id c) (expired_at (sn_now s)) s)\<lparr>sn_audits := sn_audits s @ [l]\<rparr>)"
    "approval_event ''EXPIRED'' (oc_id c) system_actor l" by auto
  let ?s = "(set_cand (oc_id c) (expired_at (sn_now s)) s)\<lparr>sn_audits := sn_audits s @ [l]\<rparr>"
  have rest: "t_get oc_id (oc_id d) (sn_candidates ?s) = Some d \<and> oc_status d = ''PENDING_APPROVAL''" if "d \<in> set cs" for d
    using that Cons.prems by (auto simp: t_get_upd)
  from Cons.IH [OF _ rest, of "n + 1"] Cons.prems(1) obtain new where
    new: "sfold (isolate oc_id (\<lambda>c. expire (oc_id c) system_actor)) cs (n + 1, fs) ?s =
      (Inr (n + 1 + length cs, fs), ?s\<lparr>sn_candidates := expire_all (sn_now ?s) cs (sn_candidates ?s), sn_audits := sn_audits ?s @ new\<rparr>)"
      "list_all2 (\<lambda>c l. approval_event ''EXPIRED'' (oc_id c) system_actor l) cs new" by auto
  have "sfold (isolate oc_id (\<lambda>c. expire (oc_id c) system_actor)) (c # cs) (n, fs) s =
    sfold (isolate oc_id (\<lambda>c. expire (oc_id c) system_actor)) cs (n + 1, fs) ?s"
    by (simp add: isolate_def monad_simps l(1))
  with new l(2) Cons.prems(1) show ?case
    by (intro exI [of _ "l # new"]) (simp add: expire_all_Cons set_cand_def)
qed

definition overdue :: "int \<Rightarrow> order_candidate \<Rightarrow> bool" where
  "overdue now c \<longleftrightarrow> oc_status c = ''PENDING_APPROVAL'' \<and>
     (case oc_expires_at c of None \<Rightarrow> False | Some t \<Rightarrow> t \<le> now)"

definition expiry_targets :: "session \<Rightarrow> order_candidate list" where
  "expiry_targets s = take 200 (sort_key oc_id (filter (overdue (sn_now s)) (sn_candidates s)))"

lemma list_expired_app: "list_expired_pending (Some (sn_now s)) 200 s = (Inr (expiry_targets s), s)"
  by (simp add: list_expired_pending_def monad_simps expiry_targets_def overdue_def [abs_def])

text \<open>
  The expiry job expires the overdue approvals and nothing else: with the workflow on and
  the kill switch off it succeeds, every pending candidate whose deadline has passed, the 200
  with the smallest ids if there are more, becomes \<open>EXPIRED\<close> with the reason
  \<open>ttl_expired\<close>, every other row stays as it is, one \<open>EXPIRED\<close> event per candidate is logged
  in the order of their ids, and the wrapper commits this and the row of the run.
\<close>

lemma expiry_job_expires_overdue:
  assumes "cfg_trading_safety_enabled cfg" and "\<not> cfg_kill_switch_enabled cfg" and "keys_ok s"
  shows "\<exists>run new. run_job name (expire_pending_approvals cfg) (s, runs) =
      (run, (s\<lparr>sn_candidates := expire_all (sn_now s) (expiry_targets s) (sn_candidates s),
               sn_audits := sn_audits s @ new\<rparr>, runs @ [run])) \<and>
    list_all2 (\<lambda>c l. approval_event ''EXPIRED'' (oc_id c) system_actor l) (expiry_targets s) new \<and>
    jr_status run = ''SUCCESS'' \<and> jr_error run = None \<and>
    (\<exists>m. jr_summary run = Some m \<and> map_of m ''expired_count'' = Some (jint (length (expiry_targets s))))"
proof -
  let ?cs = "expiry_targets s"
  have sub: "set ?cs \<subseteq> set (filter (overdue (sn_now s)) (sn_candidates s))"
    unfolding expiry_targets_def by (metis set_sort set_take_subset)
  have "distinct (map oc_id (sort_key oc_id (filter (overdue (sn_now s)) (sn_candidates s))))"
    using assms(3) by (auto simp: keys_ok_def distinct_map distinct_sort inj_on_def)
  then have dist: "distinct (map oc_id ?cs)"
    unfolding expiry_targets_def take_map [symmetric] by (rule distinct_take)
  have pend: "t_get oc_id (oc_id c) (sn_candidates s) = Some c \<and> oc_status c = ''PENDING_APPROVAL''" if "c \<in> set ?cs" for c
    using subsetD [OF sub that] assms(3) by (auto simp: overdue_def keys_ok_def intro: t_get_distinct)
  from expire_loop [OF dist pend, of 0 "[]"] obtain new where
    new: "sfold (isolate oc_id (\<lambda>c. expire (oc_id c) system_actor)) ?cs (0, []) s =
      (Inr (length ?cs, []), s\<lparr>sn_candidates := expire_all (sn_now s) ?cs (sn_candidates s), sn_audits := sn_audits s @ new\<rparr>)"
      "list_all2 (\<lambda>c l. approval_event ''EXPIRED'' (oc_id c) system_actor l) ?cs new" by auto
  have fresh: "t_upd jr_id (t_next jr_id runs) f (runs @ [x]) = runs @ [f x]" if "jr_id x = t_next jr_id runs" for f x
    using t_next_gt [of _ runs jr_id] that by (fastforce simp: t_upd_def intro!: map_idI)
  show ?thesis
  proof (cases "?cs = []")
    case True
    with new have "expire_all (sn_now s) [] (sn_candidates s) = sn_candidates s" "new = []"
      by (simp_all add: expire_all_def)
    then show ?thesis
      using assms(1,2) True
      by (simp add: run_job_def expire_pending_approvals_def monad_simps list_expired_app fresh expire_skipped_def
          succeeded_def Let_def)
  next
    case False
    then show ?thesis
      using assms(1,2) new
      by (intro exI [of _ "fst (run_job name (expire_pending_approvals cfg) (s, runs))"] exI [of _ new])
        (simp add: run_job_def expire_pending_approvals_def monad_simps list_expired_app fresh isolated_status_def Let_def)
  qed
qed

subsection \<open>Concrete cases\<close>

definition strict_settings :: settings where
  "strict_settings = demo_settings\<lparr>cfg_max_order_amount := 1\<rparr>"

lemma denied_approval_leaves_no_trace_witness:
  "\<exists>e s' d. approve strict_settings 7 (build_actor demo_request (Some 5)) None demo_workflow = (Inl e, s') \<and>
     t_get oc_id 7 (sn_candidates s') = Some d \<and> oc_status d = ''REJECTED'' \<and>
     approve_candidate_route strict_settings demo_request (Some 5) 7 demo_workflow = (Refused 409 (Raised e), demo_workflow)"
proof -
  have "\<not> risk_ok strict_settings demo_workflow demo_candidate (sn_now demo_workflow)"
    by (simp add: risk_ok_def strict_settings_def demo_settings_def symbol_exposure_def demo_workflow_def
        demo_candidate_def dec_eval)
  then show ?thesis
    using denied_approval_leaves_no_trace [of strict_settings 7 demo_workflow demo_candidate demo_request "Some 5"]
      demo_candidate_get
    by (auto simp: strict_settings_def demo_settings_def)
qed

definition demo_snapshot :: "int \<Rightarrow> int \<Rightarrow> pnl_snapshot" where
  "demo_snapshot i day = \<lparr>vs_id = i, vs_account_id = 1, vs_snapshot_date = day, vs_cash_balance = 5,
     vs_market_value = 0, vs_total_value = 5, vs_realized_pnl = 0, vs_unrealized_pnl = 0, vs_updated_at = 0\<rparr>"

lemma account_page_shows_oldest_witness:
  "\<exists>v. get_paper_account (Some 1) None (demo_ledger\<lparr>sn_snapshots := [demo_snapshot 1 20000, demo_snapshot 2 20100]\<rparr>) =
     (Ok (demo_account, Some v), demo_ledger\<lparr>sn_snapshots := [demo_snapshot 1 20000, demo_snapshot 2 20100]\<rparr>) \<and>
     vs_snapshot_date v = 20000"
proof -
  let ?s = "demo_ledger\<lparr>sn_snapshots := [demo_snapshot 1 20000, demo_snapshot 2 20100]\<rparr>"
  have a: "t_get va_id 1 (sn_accounts ?s) = Some demo_account"
    by (simp add: demo_ledger_def demo_account_def t_get_def)
  show ?thesis
    using account_page_shows_oldest [OF a, of None] by (auto simp: demo_snapshot_def split: option.splits)
qed

theorem sync_route_invents_fills_witness:
  "\<exists>result text s'. sync_real_order_fill demo_settings 3 None submitted_session = (Ok (result, text), s') \<and>
     order_view submitted_session 3 = Some (''SUBMITTED'', 0) \<and> order_view s' 3 = Some (''FILLED'', 10)"
proof -
  have "fills_positive submitted_session" "filled_total submitted_session 3 = 0" "syncable submitted_order"
    by (simp_all add: fills_positive_def filled_total_def submitted_session_def submitted_order_def syncable_def
        order_non_terminal_def empty_session_def)
  then show ?thesis
    using sync_route_invents_fills [of demo_settings 3 submitted_session submitted_order None] submitted_ok submitted_view
    by (auto simp: demo_settings_def order_view_def)
qed

lemma verdict_ignores_quantity_witness:
  "\<exists>r s c. create_candidate_route demo_settings demo_request (Some 5) (demo_body\<lparr>cq_quantity := 1000000\<rparr>) demo_ledger =
     (Ok r, s) \<and> cr_risk_passed r \<and> sn_candidates s = [c] \<and> oc_quantity c = 1000000"
proof -
  obtain r where r: "create_candidate_route demo_settings demo_request (Some 5) demo_body demo_ledger = (Ok r, demo_committed)"
    "cr_risk_passed r" using demo_created by blast
  from verdict_ignores_quantity [OF r(1), of 1000000] r(2) show ?thesis by (auto simp: demo_ledger_empty)
qed

lemma expiry_job_expires_overdue_witness:
  "\<exists>run s. run_job ''expire_pending_approvals'' (expire_pending_approvals demo_settings)
       (demo_workflow\<lparr>sn_now := 1800000000\<rparr>, []) = (run, (s, [run])) \<and>
     map oc_status (sn_candidates s) = [''EXPIRED''] \<and> jr_status run = ''SUCCESS''"
proof -
  let ?s = "demo_workflow\<lparr>sn_now := 1800000000\<rparr>"
  have t: "expiry_targets ?s = [demo_candidate]"
    by (simp add: expiry_targets_def demo_workflow_def overdue_def demo_candidate_def)
  have "keys_ok ?s" by (simp add: keys_ok_def demo_workflow_def demo_candidate_def)
  from expiry_job_expires_overdue [OF _ _ this, of demo_settings "''expire_pending_approvals''" "[]"] t
  show ?thesis by (auto simp: demo_settings_def expire_all_def demo_workflow_def demo_candidate_def)
qed

end
