(* ===== verification/Resilience.thy ===== *)
theory Resilience
  imports Schema
begin

text \<open>
  The resilience primitives of the data providers, \<^verbatim>\<open>app/data/provider_resilience.py\<close>: the
  retry helper and the circuit breaker. A provider call is a method on a world \<open>'w\<close> of its
  own; it returns a result or raises. Seconds are rational numbers in place of floats (the
  code only compares and subtracts them and doubles a delay); the clock is a function of the
  world. Logging is not modelled.
\<close>

subsection \<open>Results of provider calls\<close>

datatype provider_error_kind = TIMEOUT | RATE_LIMIT | SERVER_ERROR | CLIENT_ERROR | UNKNOWN_ERROR

record 'v call_result =
  pc_success :: bool
  pc_value :: "'v option"
  pc_error_kind :: "provider_error_kind option"
  pc_error_message :: "string option"
  pc_attempts :: int

definition call_ok :: "'v \<Rightarrow> int \<Rightarrow> 'v call_result" where
  "call_ok v attempts = \<lparr>pc_success = True, pc_value = Some v, pc_error_kind = None,
     pc_error_message = None, pc_attempts = attempts\<rparr>"

definition call_fail :: "provider_error_kind \<Rightarrow> string \<Rightarrow> int \<Rightarrow> 'v call_result" where
  "call_fail kind message attempts = \<lparr>pc_success = False, pc_value = None, pc_error_kind = Some kind,
     pc_error_message = Some message, pc_attempts = attempts\<rparr>"

text \<open>What a call can raise: the failed assertion of the helper, or its own exception.\<close>

datatype 'x call_error = AssertionFailed | CallRaised 'x

type_synonym ('w, 'x, 'v) provider_call = "('w, 'x call_error, 'v call_result) action"

subsection \<open>Retry\<close>

definition non_retryable :: "provider_error_kind option \<Rightarrow> bool" where
  "non_retryable k = (k = Some CLIENT_ERROR)"

definition backoff_delay :: "rat \<Rightarrow> rat \<Rightarrow> int \<Rightarrow> rat" where
  "backoff_delay base_delay max_delay attempt = min (base_delay * 2 ^ nat (attempt - 1)) max_delay"

text \<open>The loop over the attempts still to come; \<open>last\<close> is the last failure.\<close>

fun retry_loop ::
  "('w, 'x, 'v) provider_call \<Rightarrow> int \<Rightarrow> rat \<Rightarrow> rat \<Rightarrow> (rat \<Rightarrow> ('w, 'x call_error, unit) action) \<Rightarrow>
   'v call_result option \<Rightarrow> int list \<Rightarrow> ('w, 'x, 'v) provider_call" where
  "retry_loop fn max_attempts base_delay max_delay sleep final [] =
     (case final of None \<Rightarrow> sthrow AssertionFailed | Some r \<Rightarrow> sret r)"
| "retry_loop fn max_attempts base_delay max_delay sleep final (attempt # rest) =
     sbind fn (\<lambda>result.
     let result = result\<lparr>pc_attempts := attempt\<rparr>
     in if pc_success result then sret result
        else if non_retryable (pc_error_kind result) then sret result
        else
        sbind (if attempt < max_attempts then sleep (backoff_delay base_delay max_delay attempt) else sret ()) (\<lambda>_.
        retry_loop fn max_attempts base_delay max_delay sleep (Some result) rest))"

definition retry_with_backoff ::
  "('w, 'x, 'v) provider_call \<Rightarrow> int \<Rightarrow> rat \<Rightarrow> rat \<Rightarrow> (rat \<Rightarrow> ('w, 'x call_error, unit) action) \<Rightarrow>
   ('w, 'x, 'v) provider_call" where
  "retry_with_backoff fn max_attempts base_delay max_delay sleep =
     retry_loop fn max_attempts base_delay max_delay sleep None [1..max_attempts]"

subsection \<open>The circuit breaker\<close>

datatype breaker_state = CLOSED | OPEN | HALF_OPEN

record breaker =
  cb_failure_threshold :: int
  cb_reset_timeout :: rat
  cb_name :: string
  cb_state :: breaker_state
  cb_failure_count :: int
  cb_opened_at :: "rat option"

definition make_breaker :: "int \<Rightarrow> rat \<Rightarrow> string \<Rightarrow> breaker" where
  "make_breaker failure_threshold reset_timeout name =
     \<lparr>cb_failure_threshold = failure_threshold, cb_reset_timeout = reset_timeout, cb_name = name,
      cb_state = CLOSED, cb_failure_count = 0, cb_opened_at = None\<rparr>"

definition cb_try_reset :: "rat \<Rightarrow> breaker \<Rightarrow> breaker" where
  "cb_try_reset now b =
     (if cb_state b = OPEN \<and> (case cb_opened_at b of None \<Rightarrow> False | Some t \<Rightarrow> cb_reset_timeout b \<le> now - t)
      then b\<lparr>cb_state := HALF_OPEN\<rparr> else b)"

text \<open>The state after a call that returned at \<open>now\<close>.\<close>

definition cb_record :: "bool \<Rightarrow> rat \<Rightarrow> breaker \<Rightarrow> breaker" where
  "cb_record success now b =
     (if success then b\<lparr>cb_state := CLOSED, cb_failure_count := 0, cb_opened_at := None\<rparr>
      else
        let b' = b\<lparr>cb_failure_count := cb_failure_count b + 1\<rparr>
        in if cb_state b' = HALF_OPEN \<or> cb_failure_threshold b' \<le> cb_failure_count b'
           then b'\<lparr>cb_state := OPEN, cb_opened_at := Some now\<rparr> else b')"

definition cb_call ::
  "('w \<Rightarrow> rat) \<Rightarrow> ('w, 'x, 'v) provider_call \<Rightarrow> (breaker \<times> 'w, 'x call_error, 'v call_result) action" where
  "cb_call clock fn = (\<lambda>(b, w).
     let b1 = cb_try_reset (clock w) b
     in if cb_state b1 = OPEN
        then (Inr (call_fail UNKNOWN_ERROR (''circuit breaker '' @ py_repr (cb_name b1) @ '' is OPEN'') 1), (b1, w))
        else (case fn w of (r, w') \<Rightarrow>
          (case r of
             Inl e \<Rightarrow> (Inl e, (b1, w'))
           | Inr result \<Rightarrow> (Inr result, (cb_record (pc_success result) (clock w') b1, w')))))"

definition cb_reset :: "breaker \<Rightarrow> breaker" where
  "cb_reset b = b\<lparr>cb_state := CLOSED, cb_failure_count := 0, cb_opened_at := None\<rparr>"

end
