(* ===== verification/Resilience_Facts.thy ===== *)
theory Resilience_Facts
  imports Resilience
begin

text \<open>
  The retry helper returns the first decisive result and waits in between as specified; the
  circuit breaker lets exactly the calls through that its state machine allows and opens
  exactly after a streak of failures.
\<close>

subsection \<open>Retry\<close>

text \<open>A provider that answers with the given results in turn, in a world that also collects
  the delays slept.\<close>

fun scripted :: "('v call_result list \<times> rat list, unit, 'v) provider_call" where
  "scripted ([], slept) = (Inl AssertionFailed, ([], slept))"
| "scripted (r # rs, slept) = (Inr r, (rs, slept))"

definition note_sleep :: "rat \<Rightarrow> ('v call_result list \<times> rat list, unit call_error, unit) action" where
  "note_sleep d = (\<lambda>(rs, slept). (Inr (), (rs, slept @ [d])))"

text \<open>A result that ends the loop.\<close>

definition decisive :: "'v call_result \<Rightarrow> bool" where
  "decisive r \<longleftrightarrow> pc_success r \<or> pc_error_kind r = Some CLIENT_ERROR"

definition tried :: "nat \<Rightarrow> 'v call_result list \<Rightarrow> nat" where
  "tried n rs = (let k = length (takeWhile (\<lambda>r. \<not> decisive r) (take n rs)) in if k < n then Suc k else n)"

lemma tried_Cons:
  "tried (Suc n) (r # rs) = (if decisive r then 1 else if n = 0 then 1 else Suc (tried n rs))"
  by (auto simp: tried_def Let_def)

lemma retry_loop_scripted:
  assumes "n \<le> length rs" and "int n = m - k" and "0 \<le> k" and "n = 0 \<Longrightarrow> final \<noteq> None"
  shows "retry_loop scripted m b d note_sleep final [k + 1..m] (rs, slept) =
    (if n = 0 then (Inr (the final), (rs, slept))
     else (Inr ((rs ! (tried n rs - 1))\<lparr>pc_attempts := k + int (tried n rs)\<rparr>),
       (drop (tried n rs) rs, slept @ map (backoff_delay b d) [k + 1..k + int (tried n rs) - 1])))"
  using assms
proof (induction n arbitrary: rs k final slept)
  case 0
  then show ?case by (auto simp: sret_app)
next
  case (Suc n)
  from Suc.prems(1) obtain r rs' where rs: "rs = r # rs'" by (cases rs) auto
  have upto: "[k + 1..m] = (k + 1) # [k + 1 + 1..m]" using Suc.prems(2) by (subst upto.simps) simp
  show ?case
  proof (cases "decisive r")
    case True
    then show ?thesis
      by (auto simp: rs upto tried_Cons sbind_app sret_app decisive_def non_retryable_def Let_def)
  next
    case no: False
    then have stop: "\<not> pc_success r" "\<not> non_retryable (pc_error_kind r)"
      by (auto simp: decisive_def non_retryable_def)
    let ?r = "r\<lparr>pc_attempts := k + 1\<rparr>"
    show ?thesis
    proof (cases "n = 0")
      case True
      with Suc.prems(2) have "m = k + 1" by simp
      with True stop no show ?thesis
        by (simp add: rs tried_Cons sbind_app sret_app Let_def)
    next
      case False
      with Suc.prems(2) have lt: "k + 1 < m" by simp
      have "0 < tried n rs'" using False by (auto simp: tried_def Let_def)
      then obtain j where j: "tried n rs' = Suc j" by (cases "tried n rs'") auto
      have up: "[k + 1..k + 1 + int (tried n rs') - 1] = (k + 1) # [k + 1 + 1..k + 1 + int (tried n rs') - 1]"
        by (subst upto.simps) (simp add: j)
      have "retry_loop scripted m b d note_sleep final [k + 1..m] (rs, slept) =
          retry_loop scripted m b d note_sleep (Some ?r) [k + 1 + 1..m] (rs', slept @ [backoff_delay b d (k + 1)])"
        unfolding rs upto using stop lt by (simp add: sbind_app Let_def note_sleep_def)
      also have "\<dots> = (Inr ((rs' ! (tried n rs' - 1))\<lparr>pc_attempts := k + 1 + int (tried n rs')\<rparr>),
          (drop (tried n rs') rs', (slept @ [backoff_delay b d (k + 1)]) @
            map (backoff_delay b d) [k + 1 + 1..k + 1 + int (tried n rs') - 1]))"
        using Suc.IH [of rs' "k + 1" "Some ?r" "slept @ [backoff_delay b d (k + 1)]"] Suc.prems(1-3) False
        by (simp add: rs)
      finally show ?thesis using False no j up by (simp add: rs tried_Cons algebra_simps)
    qed
  qed
qed

lemma tried_facts:
  assumes "1 \<le> n" and "n \<le> length rs"
  shows "1 \<le> tried n rs" "tried n rs \<le> n" "j < tried n rs - 1 \<Longrightarrow> \<not> decisive (rs ! j)"
    "tried n rs < n \<Longrightarrow> decisive (rs ! (tried n rs - 1))"
proof -
  let ?k = "length (takeWhile (\<lambda>r. \<not> decisive r) (take n rs))"
  have k: "?k \<le> n" using length_takeWhile_le [of "\<lambda>r. \<not> decisive r" "take n rs"] assms(2) by simp
  show "1 \<le> tried n rs" "tried n rs \<le> n" using assms(1) by (auto simp: tried_def Let_def)
  have no: "\<not> decisive (rs ! j)" if "j < ?k" for j
  proof -
    have "takeWhile (\<lambda>r. \<not> decisive r) (take n rs) ! j \<in> set (takeWhile (\<lambda>r. \<not> decisive r) (take n rs))"
      using that by (rule nth_mem)
    then show ?thesis using that k by (auto dest!: set_takeWhileD simp: takeWhile_nth)
  qed
  show "\<not> decisive (rs ! j)" if "j < tried n rs - 1"
    using that k by (intro no) (auto simp: tried_def Let_def split: if_splits)
  show "decisive (rs ! (tried n rs - 1))" if "tried n rs < n"
    using that nth_length_takeWhile [of "\<lambda>r. \<not> decisive r" "take n rs"] assms(2)
    by (auto simp: tried_def Let_def split: if_splits)
qed

text \<open>
  Retrying returns the first decisive result, a success or a client error, among the first
  \<open>max_attempts\<close> ones, or the last of them if none is; the provider is called exactly as often
  as the number of attempts the result carries, and between two attempts the helper sleeps
  \<open>base * 2 ^ (attempt - 1)\<close> seconds, capped, and never after the last one.
\<close>

lemma retry_returns_first_decisive:
  assumes "1 \<le> n" and "n \<le> length rs"
  shows "retry_with_backoff scripted (int n) b d note_sleep (rs, []) =
    (Inr ((rs ! (tried n rs - 1))\<lparr>pc_attempts := int (tried n rs)\<rparr>),
     (drop (tried n rs) rs, map (\<lambda>k. min (b * 2 ^ nat (k - 1)) d) [1..int (tried n rs) - 1])) \<and>
    1 \<le> tried n rs \<and> tried n rs \<le> n \<and>
    (\<forall>j < tried n rs - 1. \<not> decisive (rs ! j)) \<and> (tried n rs < n \<longrightarrow> decisive (rs ! (tried n rs - 1)))"
  using retry_loop_scripted [OF assms(2), of "int n" 0 None b d "[]"] tried_facts [OF assms] assms(1)
  by (auto simp: retry_with_backoff_def backoff_delay_def [abs_def])

definition demo_call :: "bool \<Rightarrow> provider_error_kind \<Rightarrow> string call_result" where
  "demo_call ok k = (if ok then call_ok ''bars'' 1 else call_fail k ''down'' 1)"

lemma retry_returns_first_decisive_witness:
  "retry_with_backoff scripted 3 (1 / 2) 10 note_sleep
     ([demo_call False TIMEOUT, demo_call False SERVER_ERROR, demo_call True TIMEOUT, demo_call True TIMEOUT], []) =
   (Inr ((demo_call True TIMEOUT)\<lparr>pc_attempts := 3\<rparr>), ([demo_call True TIMEOUT], [1 / 2, 1]))"
proof -
  let ?rs = "[demo_call False TIMEOUT, demo_call False SERVER_ERROR, demo_call True TIMEOUT, demo_call True TIMEOUT]"
  have "tried 3 ?rs = 3" by (simp add: tried_def decisive_def demo_call_def call_ok_def call_fail_def Let_def)
  then show ?thesis
    using retry_returns_first_decisive [of 3 ?rs "1 / 2" 10] by (simp add: upto.simps numeral_2_eq_2)
qed

subsection \<open>The circuit breaker\<close>

text \<open>What holds of every breaker its own operations produce.\<close>

definition breaker_ok :: "breaker \<Rightarrow> bool" where
  "breaker_ok b \<longleftrightarrow> 0 \<le> cb_failure_count b \<and>
     (cb_state b = CLOSED \<longleftrightarrow> cb_opened_at b = None) \<and>
     (cb_state b = CLOSED \<longrightarrow> cb_failure_count b = 0 \<or> cb_failure_count b < cb_failure_threshold b)"

lemma try_reset_ok: "breaker_ok b \<Longrightarrow> breaker_ok (cb_try_reset now b)"
  by (auto simp: breaker_ok_def cb_try_reset_def split: option.splits)

lemma record_ok: "breaker_ok b \<Longrightarrow> cb_state b \<noteq> OPEN \<Longrightarrow> breaker_ok (cb_record success now b)"
  by (cases "cb_state b") (auto simp: breaker_ok_def cb_record_def Let_def)

lemma call_keeps_ok:
  assumes "breaker_ok b" and "cb_call clock fn (b, w) = (r, (b', w'))"
  shows "breaker_ok b'"
proof -
  note ok = try_reset_ok [OF assms(1), of "clock w"]
  show ?thesis
    using assms(2) ok record_ok [OF ok] by (auto simp: cb_call_def Let_def split: if_splits prod.splits sum.splits)
qed

text \<open>A provider whose calls succeed or fail as scripted; the world is what is left of the
  script, and no time passes.\<close>

fun outcome :: "(bool list, unit, unit) provider_call" where
  "outcome [] = (Inl AssertionFailed, [])"
| "outcome (ok # oks) = (Inr (if ok then call_ok () 1 else call_fail SERVER_ERROR [] 1), oks)"

text \<open>\<open>n\<close> calls through the breaker, whatever they return.\<close>

fun calls :: "nat \<Rightarrow> rat \<Rightarrow> breaker \<times> bool list \<Rightarrow> breaker \<times> bool list" where
  "calls 0 now s = s"
| "calls (Suc n) now s = calls n now (snd (cb_call (\<lambda>_. now) outcome s))"

text \<open>The reference: the number of calls made until \<open>k\<close> failures in a row, \<open>i\<close> of them
  before the script starts, and whether the streak occurs.\<close>

fun until_streak :: "int \<Rightarrow> int \<Rightarrow> bool list \<Rightarrow> bool \<times> nat" where
  "until_streak k i [] = (False, 0)"
| "until_streak k i (ok # oks) =
     (if \<not> ok \<and> k \<le> i + 1 then (True, 1)
      else let (b, n) = until_streak k (if ok then 0 else i + 1) oks in (b, Suc n))"

lemma outcome_call:
  "cb_state b = CLOSED \<Longrightarrow> snd (cb_call (\<lambda>_. now) outcome (b, ok # oks)) = (cb_record ok now b, oks)"
  by (simp add: cb_call_def cb_try_reset_def call_ok_def call_fail_def Let_def)

lemma open_stays:
  assumes "cb_state b = OPEN" and "cb_opened_at b = Some t" and "now - t < cb_reset_timeout b"
  shows "calls n now (b, oks) = (b, oks)"
  using assms by (induction n) (simp_all add: cb_call_def cb_try_reset_def Let_def)

lemma calls_until_streak:
  assumes "cb_state b = CLOSED" and "0 \<le> cb_failure_count b" and "0 < cb_reset_timeout b" and "n \<le> length oks"
  shows "cb_state (fst (calls n now (b, oks))) =
      (if fst (until_streak (cb_failure_threshold b) (cb_failure_count b) (take n oks)) then OPEN else CLOSED) \<and>
    snd (calls n now (b, oks)) =
      drop (snd (until_streak (cb_failure_threshold b) (cb_failure_count b) (take n oks))) oks"
  using assms
proof (induction n arbitrary: b oks)
  case 0
  then show ?case by simp
next
  case (Suc n)
  then obtain ok oks' where oks: "oks = ok # oks'" by (cases oks) auto
  let ?b = "cb_record ok now b"
  have step: "calls (Suc n) now (b, oks) = calls n now (?b, oks')"
    using Suc.prems(1) by (simp add: oks outcome_call)
  show ?case
  proof (cases "\<not> ok \<and> cb_failure_threshold b \<le> cb_failure_count b + 1")
    case True
    then have "cb_state ?b = OPEN" "cb_opened_at ?b = Some now" "cb_reset_timeout ?b = cb_reset_timeout b"
      by (auto simp: cb_record_def Let_def)
    then have "calls n now (?b, oks') = (?b, oks')" using Suc.prems(3) by (intro open_stays) auto
    then show ?thesis
      unfolding step using True \<open>cb_state ?b = OPEN\<close> by (simp add: oks)
  next
    case False
    then have "cb_state ?b = CLOSED" "cb_failure_count ?b = (if ok then 0 else cb_failure_count b + 1)"
      "cb_reset_timeout ?b = cb_reset_timeout b" "cb_failure_threshold ?b = cb_failure_threshold b"
      using Suc.prems(1) by (auto simp: cb_record_def Let_def)
    moreover have "n \<le> length oks'" using Suc.prems(4) oks by simp
    ultimately show ?thesis
      unfolding step using Suc.IH [of ?b oks'] Suc.prems False by (auto simp: oks split_beta Let_def)
  qed
qed

text \<open>
  C25. A fresh circuit breaker is equivalent to counting streaks of failures: after any number of
  calls within the timeout it is open exactly when \<open>failure_threshold\<close> failures in a row
  have occurred, and the provider was called for each outcome up to the end of the first such
  streak and never after it.
\<close>

theorem breaker_opens_on_streak:
  assumes "0 < timeout" and "n \<le> length oks"
  shows "cb_state (fst (calls n now (make_breaker k timeout name, oks))) =
      (if fst (until_streak k 0 (take n oks)) then OPEN else CLOSED) \<and>
    snd (calls n now (make_breaker k timeout name, oks)) = drop (snd (until_streak k 0 (take n oks))) oks"
  using calls_until_streak [of "make_breaker k timeout name" n oks now] assms by (simp add: make_breaker_def)

theorem breaker_opens_on_streak_witness:
  "cb_state (fst (calls 5 0 (make_breaker 2 60 ''dart'', [False, True, False, False, True]))) = OPEN \<and>
   snd (calls 5 0 (make_breaker 2 60 ''dart'', [False, True, False, False, True])) = [True]"
  using breaker_opens_on_streak [of 60 5 "[False, True, False, False, True]" 0 2 "''dart''"] by simp

text \<open>
  An open breaker protects the provider and recovers through one probe: while the timeout
  runs a call fails fast and touches neither the provider nor the breaker; afterwards one call
  goes through, and its success restores a closed breaker without memory of failures, its
  failure opens the breaker anew from that moment, and an exception leaves it half open.
\<close>

lemma open_breaker_probes:
  assumes "cb_state b = OPEN" and "cb_opened_at b = Some t"
  shows "cb_call clock fn (b, w) =
    (if clock w - t < cb_reset_timeout b
     then (Inr (call_fail UNKNOWN_ERROR (''circuit breaker '' @ py_repr (cb_name b) @ '' is OPEN'') 1), (b, w))
     else case fn w of
       (Inr r, w') \<Rightarrow> (Inr r, (if pc_success r then cb_reset b
          else b\<lparr>cb_failure_count := cb_failure_count b + 1, cb_opened_at := Some (clock w')\<rparr>, w'))
     | (Inl e, w') \<Rightarrow> (Inl e, (b\<lparr>cb_state := HALF_OPEN\<rparr>, w')))"
  using assms by (auto simp: cb_call_def cb_try_reset_def cb_record_def cb_reset_def Let_def not_less
      split: prod.splits sum.splits)

definition tripped_breaker :: breaker where
  "tripped_breaker = (make_breaker 2 60 ''dart'')\<lparr>cb_state := OPEN, cb_failure_count := 2, cb_opened_at := Some 100\<rparr>"

lemma open_breaker_probes_witness:
  "snd (cb_call (\<lambda>_. 130) outcome (tripped_breaker, [True])) = (tripped_breaker, [True]) \<and>
   snd (cb_call (\<lambda>_. 170) outcome (tripped_breaker, [True])) = (make_breaker 2 60 ''dart'', [])"
  using open_breaker_probes [of tripped_breaker 100 "\<lambda>_. 130" outcome "[True]"]
    open_breaker_probes [of tripped_breaker 100 "\<lambda>_. 170" outcome "[True]"]
  by (simp add: tripped_breaker_def make_breaker_def cb_reset_def call_ok_def)

end
