(* ===== verification/Login.thy ===== *)
theory Login
  imports Trading_Routes Kis_Transport
begin

text \<open>
  Authentication: the brute-force guard (\<^verbatim>\<open>app/auth/brute_force.py\<close>), password hashes, tokens
  and the login service (\<^verbatim>\<open>app/auth/security.py\<close>), the repositories of users and of the login
  audit log, the dependencies of \<^verbatim>\<open>app/auth/dependencies.py\<close> and the routes of
  \<^verbatim>\<open>app/api/auth_routes.py\<close>. The functions of the libraries (scrypt, base64, PyJWT) are
  parameters; bytes are strings. The rate limit in front of the login route is not modelled.
  Monotonic seconds are rational numbers.
\<close>

subsection \<open>The brute-force guard\<close>

text \<open>A record is the number of failures, the start of the window and the end of the lock.\<close>

record guard =
  gd_max_failures :: int
  gd_window_seconds :: rat
  gd_lockout_seconds :: rat
  gd_records :: "string \<rightharpoonup> int \<times> rat \<times> rat"

definition guard_key :: "string \<Rightarrow> string option \<Rightarrow> string" where
  "guard_key username ip_hash = sha256_hex (username @ '':'' @
     (case ip_hash of None \<Rightarrow> ''unknown'' | Some h \<Rightarrow> if h = [] then ''unknown'' else h))"

definition guard_record :: "guard \<Rightarrow> string \<Rightarrow> int \<times> rat \<times> rat" where
  "guard_record g key = (case gd_records g key of None \<Rightarrow> (0, 0, 0) | Some r \<Rightarrow> r)"

text \<open>\<open>check_allowed\<close> raises when this is false; \<open>is_locked\<close> is its negation.\<close>

definition check_allowed :: "guard \<Rightarrow> rat \<Rightarrow> string \<Rightarrow> string option \<Rightarrow> bool" where
  "check_allowed g now username ip_hash =
     (case guard_record g (guard_key username ip_hash) of (_, _, locked_until) \<Rightarrow> \<not> now < locked_until)"

definition record_failure :: "rat \<Rightarrow> string \<Rightarrow> string option \<Rightarrow> guard \<Rightarrow> guard" where
  "record_failure now username ip_hash g =
     (let key = guard_key username ip_hash
      in case guard_record g key of (count, window_start, locked_until) \<Rightarrow>
           (let expired = (locked_until \<le> now \<and> gd_window_seconds g < now - window_start);
                count = (if expired then 0 else count) + 1;
                window_start = (if expired then now else window_start);
                new_locked_until = (if gd_max_failures g \<le> count then now + gd_lockout_seconds g else locked_until)
            in g\<lparr>gd_records := (gd_records g)(key \<mapsto> (count, window_start, new_locked_until))\<rparr>))"

definition record_success :: "string \<Rightarrow> string option \<Rightarrow> guard \<Rightarrow> guard" where
  "record_success username ip_hash g =
     g\<lparr>gd_records := (gd_records g)(guard_key username ip_hash := None)\<rparr>"

definition guard_reset :: "guard \<Rightarrow> guard" where
  "guard_reset g = g\<lparr>gd_records := Map.empty\<rparr>"

subsection \<open>Libraries\<close>

datatype jwt_reply = JwtClaims "(string \<times> reply) list" | JwtExpired | JwtInvalid

record auth_libs =
  lib_scrypt :: "string \<Rightarrow> string \<Rightarrow> int \<Rightarrow> int \<Rightarrow> int \<Rightarrow> nat \<Rightarrow> string option"
  lib_b64decode :: "string \<Rightarrow> string option"
  lib_b64encode :: "string \<Rightarrow> string"
  lib_jwt_encode :: "(string \<times> reply) list \<Rightarrow> string \<Rightarrow> string \<Rightarrow> string"
  lib_jwt_decode :: "int \<Rightarrow> string \<Rightarrow> string \<Rightarrow> string \<Rightarrow> jwt_reply"

subsection \<open>Password hashes\<close>

record hasher =
  ph_n :: int
  ph_r :: int
  ph_p :: int

fun py_split :: "char \<Rightarrow> string \<Rightarrow> string list" where
  "py_split sep [] = [[]]"
| "py_split sep (c # cs) =
     (if c = sep then [] # py_split sep cs
      else (case py_split sep cs of [] \<Rightarrow> [[c]] | part # parts \<Rightarrow> (c # part) # parts))"

definition b64_pad :: "string \<Rightarrow> string" where
  "b64_pad raw = (let padding = 4 - length raw mod 4 in if padding < 4 then raw @ replicate padding (CHR ''='') else raw)"

definition b64_strip :: "string \<Rightarrow> string" where
  "b64_strip s = rev (dropWhile (\<lambda>c. c = CHR ''='') (rev s))"

definition scrypt_prefix :: string where "scrypt_prefix = ''scrypt''"

definition derived_key_bytes :: nat where "derived_key_bytes = 32"

text \<open>\<open>salt\<close> is what \<open>secrets.token_bytes\<close> returned.\<close>

definition hash_password :: "auth_libs \<Rightarrow> hasher \<Rightarrow> string \<Rightarrow> string \<Rightarrow> py_error + string" where
  "hash_password lib h salt password =
     (if password = [] then Inl (ValueError [T ''password must not be empty''])
      else case lib_scrypt lib password salt (ph_n h) (ph_r h) (ph_p h) derived_key_bytes of
        None \<Rightarrow> Inl (ValueError [T ''scrypt''])
      | Some derived \<Rightarrow> Inr (scrypt_prefix @ ''$'' @ str_of_int (ph_n h) @ ''$'' @ str_of_int (ph_r h) @ ''$'' @
          str_of_int (ph_p h) @ ''$'' @ b64_strip (lib_b64encode lib salt) @ ''$'' @ b64_strip (lib_b64encode lib derived)))"

definition verify_password :: "auth_libs \<Rightarrow> string \<Rightarrow> string \<Rightarrow> bool" where
  "verify_password lib password stored =
     (if stored = [] then False
      else case py_split (CHR ''$'') stored of
        [prefix, n, r, p, salt, expected] \<Rightarrow>
          if prefix \<noteq> scrypt_prefix then False
          else (case (py_int n, py_int r, py_int p, lib_b64decode lib (b64_pad salt), lib_b64decode lib (b64_pad expected)) of
              (Some n, Some r, Some p, Some salt, Some expected) \<Rightarrow>
                (case lib_scrypt lib password salt n r p (length expected) of
                   None \<Rightarrow> False
                 | Some derived \<Rightarrow> derived = expected)
            | _ \<Rightarrow> False)
      | _ \<Rightarrow> False)"

subsection \<open>Tokens\<close>

record issuer =
  ji_secret :: string
  ji_algorithm :: string
  ji_expires_minutes :: int

datatype auth_error = MissingSecretError | InvalidTokenError | ExpiredTokenError | AuthValueError

text \<open>Instants are microseconds, \<open>int(t.timestamp())\<close> truncates them to seconds.\<close>

definition to_seconds :: "int \<Rightarrow> int" where
  "to_seconds t = (if t < 0 then - (- t div 1000000) else t div 1000000)"

definition issue_token ::
  "auth_libs \<Rightarrow> issuer \<Rightarrow> int \<Rightarrow> int \<Rightarrow> string \<Rightarrow> auth_error + string \<times> int \<times> int" where
  "issue_token lib i now user_id username =
     (let expires = now + ji_expires_minutes i * 60000000
      in if ji_secret i = [] then Inl MissingSecretError
         else Inr (lib_jwt_encode lib
             [(''sub'', RStr (str_of_int user_id)), (''username'', RStr username),
              (''iat'', RInt (to_seconds now)), (''exp'', RInt (to_seconds expires))]
             (ji_secret i) (ji_algorithm i), now, expires))"

record decoded_token =
  dt_user_id :: int
  dt_username :: string
  dt_issued_at :: int
  dt_expires_at :: int

text \<open>\<open>int(x)\<close> of a claim; a float is truncated by the library of floats and not modelled here.\<close>

definition claim_int :: "reply \<Rightarrow> int option" where
  "claim_int v = (case v of RInt n \<Rightarrow> Some n | RBool b \<Rightarrow> Some (if b then 1 else 0) | RStr s \<Rightarrow> py_int s | _ \<Rightarrow> None)"

definition decode_token :: "auth_libs \<Rightarrow> issuer \<Rightarrow> int \<Rightarrow> string \<Rightarrow> auth_error + decoded_token" where
  "decode_token lib i now token =
     (if ji_secret i = [] then Inl MissingSecretError
      else case lib_jwt_decode lib (to_seconds now) token (ji_secret i) (ji_algorithm i) of
        JwtExpired \<Rightarrow> Inl ExpiredTokenError
      | JwtInvalid \<Rightarrow> Inl InvalidTokenError
      | JwtClaims claims \<Rightarrow>
          (case (Option.bind (map_of claims ''sub'') claim_int, map_of claims ''username'',
                 Option.bind (map_of claims ''iat'') claim_int, Option.bind (map_of claims ''exp'') claim_int) of
             (Some user_id, Some username, Some iat, Some expiry) \<Rightarrow>
               Inr \<lparr>dt_user_id = user_id, dt_username = reply_str username,
                    dt_issued_at = iat * 1000000, dt_expires_at = expiry * 1000000\<rparr>
           | _ \<Rightarrow> Inl InvalidTokenError))"

subsection \<open>Users and the login log\<close>

record user =
  us_id :: int
  us_username :: string
  us_password_hash :: string
  us_is_active :: bool
  us_is_admin :: bool
  us_last_login_at :: "int option"
  us_updated_at :: int

record login_audit =
  la_id :: int
  la_username :: "string option"
  la_user_id :: "int option"
  la_event_type :: string
  la_source_ip_hash :: "string option"
  la_user_agent_hash :: "string option"
  la_created_at :: int

record auth_db =
  ad_users :: "user list"
  ad_audits :: "login_audit list"
  ad_now :: int

type_synonym 'a auth = "(auth_db, auth_error, 'a) action"

definition user_create :: "string \<Rightarrow> string \<Rightarrow> bool \<Rightarrow> bool \<Rightarrow> int auth" where
  "user_create username password_hash admin active = (\<lambda>d.
     let i = t_next us_id (ad_users d)
     in (Inr i, d\<lparr>ad_users := ad_users d @ [\<lparr>us_id = i, us_username = username, us_password_hash = password_hash,
          us_is_active = active, us_is_admin = admin, us_last_login_at = None, us_updated_at = ad_now d\<rparr>]\<rparr>))"

definition user_get_by_id :: "int \<Rightarrow> user option auth" where
  "user_get_by_id i = sgets (\<lambda>d. t_get us_id i (ad_users d))"

text \<open>The column is unique, so the query has at most one row.\<close>

definition user_get_by_username :: "string \<Rightarrow> user option auth" where
  "user_get_by_username username = sgets (\<lambda>d. find (\<lambda>u. us_username u = username) (ad_users d))"

definition set_last_login :: "int \<Rightarrow> unit auth" where
  "set_last_login i = smodify (\<lambda>d. d\<lparr>ad_users := t_upd us_id i (\<lambda>u. u\<lparr>us_last_login_at := Some (ad_now d),
     us_updated_at := ad_now d\<rparr>) (ad_users d)\<rparr>)"

definition user_deactivate :: "int \<Rightarrow> unit auth" where
  "user_deactivate i = smodify (\<lambda>d. d\<lparr>ad_users := t_upd us_id i (\<lambda>u. u\<lparr>us_is_active := False,
     us_updated_at := ad_now d\<rparr>) (ad_users d)\<rparr>)"

definition login_event_types :: "string list" where
  "login_event_types = [''LOGIN_SUCCESS'', ''LOGIN_FAILED'', ''LOGOUT'', ''LOCKOUT_REJECTED'']"

definition login_audit_create ::
  "string \<Rightarrow> string option \<Rightarrow> int option \<Rightarrow> string option \<Rightarrow> string option \<Rightarrow> int auth" where
  "login_audit_create event_type username user_id ip_hash ua_hash =
     sbind (srequire (event_type \<in> set login_event_types) AuthValueError) (\<lambda>_ d.
     let i = t_next la_id (ad_audits d)
     in (Inr i, d\<lparr>ad_audits := ad_audits d @ [\<lparr>la_id = i, la_username = username, la_user_id = user_id,
          la_event_type = event_type, la_source_ip_hash = ip_hash, la_user_agent_hash = ua_hash,
          la_created_at = ad_now d\<rparr>]\<rparr>))"

text \<open>\<open>ORDER BY created_at DESC, id DESC\<close>.\<close>

definition newest_logins :: "login_audit list \<Rightarrow> login_audit list" where
  "newest_logins rows = rev (sort_key (\<lambda>l. (la_created_at l, la_id l)) rows)"

definition login_list_recent :: "nat \<Rightarrow> login_audit list auth" where
  "login_list_recent limit = sgets (\<lambda>d. take limit (newest_logins (ad_audits d)))"

definition login_list_by_username :: "string \<Rightarrow> nat \<Rightarrow> login_audit list auth" where
  "login_list_by_username username limit =
     sgets (\<lambda>d. take limit (newest_logins (filter (\<lambda>l. la_username l = Some username) (ad_audits d))))"

definition login_list_by_user :: "int \<Rightarrow> nat \<Rightarrow> login_audit list auth" where
  "login_list_by_user user_id limit =
     sgets (\<lambda>d. take limit (newest_logins (filter (\<lambda>l. la_user_id l = Some user_id) (ad_audits d))))"

subsection \<open>The login service\<close>

record login_result =
  lr_user :: user
  lr_token :: string
  lr_issued_at :: int
  lr_expires_at :: int

definition auth_login ::
  "auth_libs \<Rightarrow> issuer \<Rightarrow> string \<Rightarrow> string \<Rightarrow> string option \<Rightarrow> string option \<Rightarrow> login_result option auth" where
  "auth_login lib ji username password source_ip user_agent =
     (let ip_hash = hash_for_audit source_ip; ua_hash = hash_for_audit user_agent
      in sbind (user_get_by_username username) (\<lambda>user.
         case user of
           None \<Rightarrow>
             sbind (login_audit_create ''LOGIN_FAILED'' (Some username) None ip_hash ua_hash) (\<lambda>_. sret None)
         | Some u \<Rightarrow>
             if \<not> us_is_active u \<or> \<not> verify_password lib password (us_password_hash u)
             then sbind (login_audit_create ''LOGIN_FAILED'' (Some username) (Some (us_id u)) ip_hash ua_hash) (\<lambda>_.
                  sret None)
             else
               sbind (\<lambda>d. (issue_token lib ji (ad_now d) (us_id u) (us_username u), d)) (\<lambda>(token, issued_at, expires_at).
               sbind (set_last_login (us_id u)) (\<lambda>_.
               sbind (login_audit_create ''LOGIN_SUCCESS'' (Some (us_username u)) (Some (us_id u)) ip_hash ua_hash) (\<lambda>_.
               sbind (sgets (\<lambda>d. case t_get us_id (us_id u) (ad_users d) of None \<Rightarrow> u | Some x \<Rightarrow> x)) (\<lambda>row.
               sret (Some \<lparr>lr_user = row, lr_token = token, lr_issued_at = issued_at, lr_expires_at = expires_at\<rparr>)))))))"

record authenticated_user =
  au_user_id :: int
  au_username :: "string option"
  au_via :: string
  au_token :: "decoded_token option"

definition record_logout :: "authenticated_user \<Rightarrow> string option \<Rightarrow> string option \<Rightarrow> unit auth" where
  "record_logout current source_ip user_agent =
     sbind (login_audit_create ''LOGOUT'' (au_username current) (Some (au_user_id current))
       (hash_for_audit source_ip) (hash_for_audit user_agent)) (\<lambda>_. sret ())"

subsection \<open>Dependencies\<close>

record auth_settings =
  as_auth_enabled :: bool
  as_jwt_secret :: string
  as_jwt_algorithm :: string
  as_jwt_expires_minutes :: int
  as_bruteforce_enabled :: bool

definition validate_auth_settings :: "auth_settings \<Rightarrow> auth_error + unit" where
  "validate_auth_settings cfg =
     (if as_auth_enabled cfg \<and> as_jwt_secret cfg = [] then Inl MissingSecretError else Inr ())"

text \<open>\<open>dev_secret\<close> is the random secret of the process.\<close>

definition get_jwt_issuer :: "string \<Rightarrow> auth_settings \<Rightarrow> issuer" where
  "get_jwt_issuer dev_secret cfg =
     \<lparr>ji_secret = (if as_jwt_secret cfg = [] \<and> \<not> as_auth_enabled cfg then dev_secret else as_jwt_secret cfg),
      ji_algorithm = as_jwt_algorithm cfg, ji_expires_minutes = as_jwt_expires_minutes cfg\<rparr>"

definition dev_fallback_user_id :: int where "dev_fallback_user_id = 1"

text \<open>The answer of a route, or what a failing dependency makes of it.\<close>

datatype 'a auth_answer = AuthOk 'a | AuthRefused int string | AuthCrashed auth_error

text \<open>\<open>credentials\<close>: the scheme and the token of the \<open>Authorization\<close> header.\<close>

definition get_current_user ::
  "auth_libs \<Rightarrow> string \<Rightarrow> auth_settings \<Rightarrow> int \<Rightarrow> (string \<times> string) option \<Rightarrow> authenticated_user auth_answer" where
  "get_current_user lib dev_secret cfg now credentials =
     (if \<not> as_auth_enabled cfg then
        AuthOk \<lparr>au_user_id = dev_fallback_user_id, au_username = None, au_via = ''auth_disabled_fallback'', au_token = None\<rparr>
      else case credentials of
        None \<Rightarrow> AuthRefused 401 ''authentication required''
      | Some (scheme, token) \<Rightarrow>
          if py_lower scheme \<noteq> ''bearer'' then AuthRefused 401 ''authentication required''
          else (case decode_token lib (get_jwt_issuer dev_secret cfg) now token of
              Inl ExpiredTokenError \<Rightarrow> AuthRefused 401 ''token expired''
            | Inl InvalidTokenError \<Rightarrow> AuthRefused 401 ''invalid token''
            | Inl e \<Rightarrow> AuthCrashed e
            | Inr t \<Rightarrow> AuthOk \<lparr>au_user_id = dt_user_id t, au_username = Some (dt_username t), au_via = ''token'',
                au_token = Some t\<rparr>))"

definition require_auth ::
  "auth_libs \<Rightarrow> string \<Rightarrow> auth_settings \<Rightarrow> int \<Rightarrow> (string \<times> string) option \<Rightarrow> authenticated_user auth_answer" where
  "require_auth lib dev_secret cfg now credentials = get_current_user lib dev_secret cfg now credentials"

subsection \<open>Routes\<close>

text \<open>The state behind the routes: the guard of the application, if it has one, and the committed
  database. None of these routes calls \<open>session.commit()\<close>, so what the service writes is
  visible to the request alone and discarded when its session closes.\<close>

record auth_world =
  aw_guard :: "guard option"
  aw_db :: auth_db
  aw_monotonic :: rat

definition generic_login_error :: string where
  "generic_login_error = ''invalid username or password''"

record login_reply =
  ly_access_token :: string
  ly_expires_in :: int
  ly_user_id :: int
  ly_username :: string
  ly_is_admin :: bool

definition guarded_by :: "auth_settings \<Rightarrow> auth_world \<Rightarrow> guard option" where
  "guarded_by cfg w = (if as_bruteforce_enabled cfg then aw_guard w else None)"

definition login_route ::
  "auth_libs \<Rightarrow> string \<Rightarrow> auth_settings \<Rightarrow> client_request \<Rightarrow> string \<Rightarrow> string \<Rightarrow> auth_world \<Rightarrow>
   login_reply auth_answer \<times> auth_world" where
  "login_route lib dev_secret cfg request username password w =
     (if as_auth_enabled cfg \<and> as_jwt_secret cfg = []
      then (AuthRefused 503 ''auth is enabled but JWT_SECRET is not configured'', w)
      else
      let source_ip = extract_client_ip request; ip_hash = hash_for_audit source_ip;
          active = guarded_by cfg w
      in if (case active of None \<Rightarrow> False | Some g \<Rightarrow> \<not> check_allowed g (aw_monotonic w) username ip_hash)
         then (AuthRefused 401 generic_login_error, w)
         else
         case fst (auth_login lib (get_jwt_issuer dev_secret cfg) username password source_ip
                     (rq_user_agent request) (aw_db w)) of
           Inl MissingSecretError \<Rightarrow> (AuthRefused 503 ''auth is unavailable'', w)
         | Inl e \<Rightarrow> (AuthCrashed e, w)
         | Inr None \<Rightarrow> (AuthRefused 401 generic_login_error,
             w\<lparr>aw_guard := (case active of None \<Rightarrow> aw_guard w
               | Some g \<Rightarrow> Some (record_failure (aw_monotonic w) username ip_hash g))\<rparr>)
         | Inr (Some r) \<Rightarrow> (AuthOk \<lparr>ly_access_token = lr_token r,
               ly_expires_in = max 0 (to_seconds (lr_expires_at r - lr_issued_at r)), ly_user_id = us_id (lr_user r),
               ly_username = us_username (lr_user r), ly_is_admin = us_is_admin (lr_user r)\<rparr>,
             w\<lparr>aw_guard := (case active of None \<Rightarrow> aw_guard w
               | Some g \<Rightarrow> Some (record_success username ip_hash g))\<rparr>))"

definition logout_route ::
  "auth_libs \<Rightarrow> string \<Rightarrow> auth_settings \<Rightarrow> client_request \<Rightarrow> (string \<times> string) option \<Rightarrow> auth_world \<Rightarrow>
   unit auth_answer \<times> auth_world" where
  "logout_route lib dev_secret cfg request credentials w =
     (case get_current_user lib dev_secret cfg (ad_now (aw_db w)) credentials of
        AuthRefused code why \<Rightarrow> (AuthRefused code why, w)
      | AuthCrashed e \<Rightarrow> (AuthCrashed e, w)
      | AuthOk current \<Rightarrow>
          (case fst (record_logout current (extract_client_ip request) (rq_user_agent request) (aw_db w)) of
             Inl e \<Rightarrow> (AuthCrashed e, w)
           | Inr _ \<Rightarrow> (AuthOk (), w)))"

record me_reply =
  me_auth_enabled :: bool
  me_via :: string
  me_user :: "(int \<times> string \<times> bool) option"

definition me_route ::
  "auth_libs \<Rightarrow> string \<Rightarrow> auth_settings \<Rightarrow> (string \<times> string) option \<Rightarrow> auth_world \<Rightarrow>
   me_reply auth_answer \<times> auth_world" where
  "me_route lib dev_secret cfg credentials w =
     (case get_current_user lib dev_secret cfg (ad_now (aw_db w)) credentials of
        AuthRefused code why \<Rightarrow> (AuthRefused code why, w)
      | AuthCrashed e \<Rightarrow> (AuthCrashed e, w)
      | AuthOk current \<Rightarrow>
          if \<not> as_auth_enabled cfg
          then (AuthOk \<lparr>me_auth_enabled = False, me_via = au_via current, me_user = None\<rparr>, w)
          else case t_get us_id (au_user_id current) (ad_users (aw_db w)) of
            None \<Rightarrow> (AuthRefused 401 ''user no longer exists or is deactivated'', w)
          | Some u \<Rightarrow> if \<not> us_is_active u then (AuthRefused 401 ''user no longer exists or is deactivated'', w)
              else (AuthOk \<lparr>me_auth_enabled = True, me_via = au_via current,
                            me_user = Some (us_id u, us_username u, us_is_admin u)\<rparr>, w))"

end
