(* ===== verification/Login_Facts.thy ===== *)
theory Login_Facts
  imports Login
begin

text \<open>
  Facts about authentication: how many passwords a client can try on one key, which logins
  succeed and what the answers reveal, and the round trips of password hashes and of tokens.
\<close>

subsection \<open>Attempts\<close>

text \<open>The caller's clock and the database of the moment come with every attempt.\<close>

record attempt =
  at_request :: client_request
  at_username :: string
  at_password :: string
  at_time :: rat
  at_db :: auth_db

definition at_key :: "attempt \<Rightarrow> string" where
  "at_key a = guard_key (at_username a) (hash_for_audit (extract_client_ip (at_request a)))"

definition at_world :: "auth_world \<Rightarrow> attempt \<Rightarrow> auth_world" where
  "at_world w a = w\<lparr>aw_monotonic := at_time a, aw_db := at_db a\<rparr>"

definition attempt_login ::
  "auth_libs \<Rightarrow> string \<Rightarrow> auth_settings \<Rightarrow> attempt \<Rightarrow> auth_world \<Rightarrow> login_reply auth_answer \<times> auth_world" where
  "attempt_login lib dev cfg a w =
     login_route lib dev cfg (at_request a) (at_username a) (at_password a) (at_world w a)"

text \<open>Whether the route looks at the password, and whether the password is a wrong guess.\<close>

definition tried :: "auth_settings \<Rightarrow> attempt \<Rightarrow> auth_world \<Rightarrow> bool" where
  "tried cfg a w = (case guarded_by cfg w of None \<Rightarrow> True
     | Some g \<Rightarrow> check_allowed g (at_time a) (at_username a) (hash_for_audit (extract_client_ip (at_request a))))"

fun is_ok :: "'a auth_answer \<Rightarrow> bool" where
  "is_ok (AuthOk x) = True"
| "is_ok _ = False"

fun is_generic :: "'a auth_answer \<Rightarrow> bool" where
  "is_generic (AuthRefused code why) = (code = 401 \<and> why = generic_login_error)"
| "is_generic _ = False"

fun attempts_on ::
  "auth_libs \<Rightarrow> string \<Rightarrow> auth_settings \<Rightarrow> string \<Rightarrow> attempt list \<Rightarrow> auth_world \<Rightarrow> nat \<times> bool" where
  "attempts_on lib dev cfg key [] w = (0, False)"
| "attempts_on lib dev cfg key (a # as) w =
     (let (answer, w') = attempt_login lib dev cfg a w;
          (wrong, success) = attempts_on lib dev cfg key as w';
          mine = (at_key a = key)
      in (wrong + (if mine \<and> tried cfg a w \<and> is_generic answer then 1 else 0),
          success \<or> (mine \<and> is_ok answer)))"

definition wrong_guesses :: "auth_libs \<Rightarrow> string \<Rightarrow> auth_settings \<Rightarrow> string \<Rightarrow> attempt list \<Rightarrow> auth_world \<Rightarrow> nat" where
  "wrong_guesses lib dev cfg key as w = fst (attempts_on lib dev cfg key as w)"

definition succeeds :: "auth_libs \<Rightarrow> string \<Rightarrow> auth_settings \<Rightarrow> string \<Rightarrow> attempt list \<Rightarrow> auth_world \<Rightarrow> bool" where
  "succeeds lib dev cfg key as w = snd (attempts_on lib dev cfg key as w)"

subsection \<open>What the login route answers\<close>

definition credentials_ok :: "auth_libs \<Rightarrow> auth_db \<Rightarrow> string \<Rightarrow> string \<Rightarrow> bool" where
  "credentials_ok lib d username password =
     (case find (\<lambda>u. us_username u = username) (ad_users d) of
        None \<Rightarrow> False
      | Some u \<Rightarrow> us_is_active u \<and> verify_password lib password (us_password_hash u))"

lemma audit_create_ok:
  "event \<in> set login_event_types \<Longrightarrow>
   \<exists>i d'. login_audit_create event username user ip ua d = (Inr i, d') \<and> ad_users d' = ad_users d \<and> ad_now d' = ad_now d"
  by (auto simp: login_audit_create_def sbind_def srequire_def sret_def Let_def)

lemma login_events [simp]:
  "''LOGIN_FAILED'' \<in> set login_event_types" "''LOGIN_SUCCESS'' \<in> set login_event_types"
  "''LOGOUT'' \<in> set login_event_types" "''LOCKOUT_REJECTED'' \<in> set login_event_types"
  by (simp_all add: login_event_types_def)

lemma auth_login_refuses:
  assumes "\<not> credentials_ok lib d username password"
  shows "fst (auth_login lib ji username password ip ua d) = Inr None"
proof (cases "find (\<lambda>u. us_username u = username) (ad_users d)")
  case None
  then show ?thesis
    using audit_create_ok [OF login_events(1), of "Some username" None "hash_for_audit ip" "hash_for_audit ua" d]
    by (auto simp: auth_login_def user_get_by_username_def sgets_def sbind_def sret_def Let_def)
next
  case (Some u)
  with assms have "\<not> us_is_active u \<or> \<not> verify_password lib password (us_password_hash u)"
    by (auto simp: credentials_ok_def)
  then show ?thesis
    using Some audit_create_ok [OF login_events(1), of "Some username" "Some (us_id u)" "hash_for_audit ip" "hash_for_audit ua" d]
    by (auto simp: auth_login_def user_get_by_username_def sgets_def sbind_def sret_def Let_def)
qed

lemma auth_login_accepts:
  assumes found: "find (\<lambda>u. us_username u = username) (ad_users d) = Some u"
    and active: "us_is_active u" "verify_password lib password (us_password_hash u)" and secret: "ji_secret ji \<noteq> []"
  shows "\<exists>row. us_id row = us_id u \<and> fst (auth_login lib ji username password ip ua d) = Inr (Some
     \<lparr>lr_user = row, lr_token = fst (projr (issue_token lib ji (ad_now d) (us_id u) (us_username u))),
      lr_issued_at = ad_now d, lr_expires_at = ad_now d + ji_expires_minutes ji * 60000000\<rparr>)"
proof -
  define d1 where "d1 = snd (set_last_login (us_id u) d)"
  obtain i d2 where d2: "login_audit_create ''LOGIN_SUCCESS'' (Some (us_username u)) (Some (us_id u))
      (hash_for_audit ip) (hash_for_audit ua) d1 = (Inr i, d2)"
    using audit_create_ok [OF login_events(2)] by blast
  define row where "row = (case t_get us_id (us_id u) (ad_users d2) of None \<Rightarrow> u | Some x \<Rightarrow> x)"
  have "us_id row = us_id u"
    by (auto simp: row_def split: option.splits dest: t_get_Some)
  moreover have "fst (auth_login lib ji username password ip ua d) = Inr (Some
     \<lparr>lr_user = row, lr_token = fst (projr (issue_token lib ji (ad_now d) (us_id u) (us_username u))),
      lr_issued_at = ad_now d, lr_expires_at = ad_now d + ji_expires_minutes ji * 60000000\<rparr>)"
    using found active secret d2
    by (simp add: auth_login_def user_get_by_username_def sgets_def sbind_def sret_def issue_token_def d1_def
        row_def set_last_login_def smodify_def Let_def)
  ultimately show ?thesis by blast
qed

definition misconfigured :: "auth_settings \<Rightarrow> bool" where
  "misconfigured cfg \<longleftrightarrow> as_auth_enabled cfg \<and> as_jwt_secret cfg = []"

lemma issuer_secret: "dev \<noteq> [] \<Longrightarrow> \<not> misconfigured cfg \<Longrightarrow> ji_secret (get_jwt_issuer dev cfg) \<noteq> []"
  by (auto simp: get_jwt_issuer_def misconfigured_def)

lemma login_route_at:
  assumes "\<not> misconfigured cfg"
  shows "login_route lib dev cfg req username password w =
   (let ip_hash = hash_for_audit (extract_client_ip req); active = guarded_by cfg w
    in if (case active of None \<Rightarrow> False | Some g \<Rightarrow> \<not> check_allowed g (aw_monotonic w) username ip_hash)
       then (AuthRefused 401 generic_login_error, w)
       else case fst (auth_login lib (get_jwt_issuer dev cfg) username password (extract_client_ip req)
                     (rq_user_agent req) (aw_db w)) of
           Inl MissingSecretError \<Rightarrow> (AuthRefused 503 ''auth is unavailable'', w)
         | Inl e \<Rightarrow> (AuthCrashed e, w)
         | Inr None \<Rightarrow> (AuthRefused 401 generic_login_error,
             w\<lparr>aw_guard := (case active of None \<Rightarrow> aw_guard w
               | Some g \<Rightarrow> Some (record_failure (aw_monotonic w) username ip_hash g))\<rparr>)
         | Inr (Some r) \<Rightarrow> (AuthOk \<lparr>ly_access_token = lr_token r,
               ly_expires_in = max 0 (to_seconds (lr_expires_at r - lr_issued_at r)), ly_user_id = us_id (lr_user r),
               ly_username = us_username (lr_user r), ly_is_admin = us_is_admin (lr_user r)\<rparr>,
             w\<lparr>aw_guard := (case active of None \<Rightarrow> aw_guard w
               | Some g \<Rightarrow> Some (record_success username ip_hash g))\<rparr>))"
  using assms by (auto simp: login_route_def misconfigured_def Let_def)

definition locked_out :: "auth_settings \<Rightarrow> client_request \<Rightarrow> string \<Rightarrow> auth_world \<Rightarrow> bool" where
  "locked_out cfg req username w = (case guarded_by cfg w of None \<Rightarrow> False
     | Some g \<Rightarrow> \<not> check_allowed g (aw_monotonic w) username (hash_for_audit (extract_client_ip req)))"

lemma login_locked:
  "\<not> misconfigured cfg \<Longrightarrow> locked_out cfg req username w \<Longrightarrow>
   login_route lib dev cfg req username password w = (AuthRefused 401 generic_login_error, w)"
  by (simp add: login_route_at locked_out_def Let_def)

lemma login_wrong:
  "\<not> misconfigured cfg \<Longrightarrow> \<not> locked_out cfg req username w \<Longrightarrow> \<not> credentials_ok lib (aw_db w) username password \<Longrightarrow>
   login_route lib dev cfg req username password w = (AuthRefused 401 generic_login_error,
     w\<lparr>aw_guard := (case guarded_by cfg w of None \<Rightarrow> aw_guard w
        | Some g \<Rightarrow> Some (record_failure (aw_monotonic w) username (hash_for_audit (extract_client_ip req)) g))\<rparr>)"
  by (simp add: login_route_at locked_out_def auth_login_refuses Let_def)

lemma login_right:
  assumes "\<not> misconfigured cfg" "\<not> locked_out cfg req username w" "dev \<noteq> []"
    and "credentials_ok lib (aw_db w) username password"
  shows "\<exists>r. login_route lib dev cfg req username password w = (AuthOk r,
     w\<lparr>aw_guard := (case guarded_by cfg w of None \<Rightarrow> aw_guard w
        | Some g \<Rightarrow> Some (record_success username (hash_for_audit (extract_client_ip req)) g))\<rparr>) \<and>
     (\<exists>u. find (\<lambda>u. us_username u = username) (ad_users (aw_db w)) = Some u \<and> ly_user_id r = us_id u \<and>
       ly_access_token r = fst (projr (issue_token lib (get_jwt_issuer dev cfg) (ad_now (aw_db w)) (us_id u) (us_username u))))"
proof -
  obtain u where u: "find (\<lambda>u. us_username u = username) (ad_users (aw_db w)) = Some u" "us_is_active u"
      "verify_password lib password (us_password_hash u)"
    using assms(4) by (auto simp: credentials_ok_def split: option.splits)
  have "ji_secret (get_jwt_issuer dev cfg) \<noteq> []"
    using assms(1,3) by (rule issuer_secret [rotated])
  from auth_login_accepts [OF u this, of "extract_client_ip req" "rq_user_agent req"]
  obtain row where row: "us_id row = us_id u" and res: "fst (auth_login lib (get_jwt_issuer dev cfg) username password
       (extract_client_ip req) (rq_user_agent req) (aw_db w)) = Inr (Some
     \<lparr>lr_user = row, lr_token = fst (projr (issue_token lib (get_jwt_issuer dev cfg) (ad_now (aw_db w)) (us_id u) (us_username u))),
      lr_issued_at = ad_now (aw_db w), lr_expires_at = ad_now (aw_db w) + ji_expires_minutes (get_jwt_issuer dev cfg) * 60000000\<rparr>)"
    by blast
  show ?thesis
    using assms(1,2) u(1) row by (auto simp: login_route_at locked_out_def res Let_def)
qed

text \<open>
  C23. A login is granted exactly to an active user whose password verifies and whose key is not
  locked; every other login of a configured service gets the same answer, whether the name is
  unknown, the account deactivated, the password wrong or the key locked. The committed database
  is left unchanged in each case, the login log included.
\<close>

theorem login_reveals_only_success:
  assumes dev: "dev \<noteq> []" and config: "\<not> misconfigured cfg"
  shows "case login_route lib dev cfg req username password w of (answer, w') \<Rightarrow>
     is_ok answer = (\<not> locked_out cfg req username w \<and> credentials_ok lib (aw_db w) username password) \<and>
     (\<not> is_ok answer \<longrightarrow> answer = AuthRefused 401 generic_login_error) \<and> aw_db w' = aw_db w"
proof (cases "locked_out cfg req username w")
  case True
  then show ?thesis using config by (simp add: login_locked)
next
  case False
  show ?thesis
  proof (cases "credentials_ok lib (aw_db w) username password")
    case True
    from login_right [OF config False dev True] obtain r where
      "login_route lib dev cfg req username password w = (AuthOk r, w\<lparr>aw_guard := (case guarded_by cfg w of None \<Rightarrow> aw_guard w
        | Some g \<Rightarrow> Some (record_success username (hash_for_audit (extract_client_ip req)) g))\<rparr>)" by blast
    then show ?thesis using False True by simp
  next
    case no: False
    then show ?thesis using False config by (simp add: login_wrong)
  qed
qed

subsection \<open>Bounded guessing\<close>

text \<open>The most wrong guesses a record allows while the clock is between \<open>a\<close> and \<open>b\<close>.\<close>

fun guesses_left :: "rat \<Rightarrow> rat \<Rightarrow> int \<Rightarrow> int \<times> rat \<times> rat \<Rightarrow> int" where
  "guesses_left a b m (count, start, locked) =
     (if b < locked then 0 else if a \<le> start then max 1 (m - count) else max 0 (m - 1 - count) + m)"

definition guard_ok :: "guard \<Rightarrow> bool" where
  "guard_ok g \<longleftrightarrow> (\<forall>key. 0 \<le> fst (guard_record g key))"

definition same_policy :: "guard \<Rightarrow> guard \<Rightarrow> bool" where
  "same_policy g h \<longleftrightarrow> gd_max_failures g = gd_max_failures h \<and> gd_window_seconds g = gd_window_seconds h \<and>
     gd_lockout_seconds g = gd_lockout_seconds h"

lemma record_failure_other:
  "key \<noteq> guard_key username ip \<Longrightarrow> guard_record (record_failure t username ip g) key = guard_record g key"
  by (auto simp: record_failure_def guard_record_def Let_def split: prod.splits)

lemma record_success_other:
  "key \<noteq> guard_key username ip \<Longrightarrow> guard_record (record_success username ip g) key = guard_record g key"
  by (simp add: record_success_def guard_record_def)

lemma guard_ops_keep [simp]:
  "same_policy (record_failure t username ip g) h = same_policy g h"
  "same_policy (record_success username ip g) h = same_policy g h"
  by (auto simp: record_failure_def record_success_def same_policy_def Let_def split: prod.splits)

lemma record_failure_ok: "guard_ok g \<Longrightarrow> guard_ok (record_failure t username ip g)"
  unfolding guard_ok_def
proof
  fix key
  assume ok: "\<forall>key. 0 \<le> fst (guard_record g key)"
  then show "0 \<le> fst (guard_record (record_failure t username ip g) key)"
  proof (cases "key = guard_key username ip")
    case True
    have "0 \<le> fst (guard_record g (guard_key username ip))" using ok by blast
    then show ?thesis
      using True by (auto simp: record_failure_def guard_record_def Let_def split: prod.splits)
  next
    case False
    then show ?thesis using ok by (simp add: record_failure_other)
  qed
qed

lemma record_success_ok: "guard_ok g \<Longrightarrow> guard_ok (record_success username ip g)"
  by (auto simp: guard_ok_def record_success_def guard_record_def)

lemma failure_costs_a_guess:
  assumes "same_policy g h" and "1 \<le> gd_max_failures h" and "b - a \<le> gd_window_seconds h" and "b - a < gd_lockout_seconds h"
    and "a \<le> t" and "t \<le> b" and "check_allowed g t username ip"
  shows "guesses_left a b (gd_max_failures h) (guard_record (record_failure t username ip g) (guard_key username ip)) + 1
       \<le> guesses_left a b (gd_max_failures h) (guard_record g (guard_key username ip))"
proof -
  obtain c ws lu where r: "guard_record g (guard_key username ip) = (c, ws, lu)" by (metis prod_cases3)
  have "lu \<le> t" using assms(7) r by (simp add: check_allowed_def)
  then show ?thesis
    using assms(1-6) r
    by (auto simp: record_failure_def guard_record_def same_policy_def Let_def max_def)
qed

lemma login_step:
  assumes config: "\<not> misconfigured cfg" "dev \<noteq> []" "as_bruteforce_enabled cfg" and g: "aw_guard w = Some g"
  shows "\<exists>g'. aw_guard (snd (attempt_login lib dev cfg a w)) = Some g' \<and>
    g' = (if \<not> tried cfg a w then g
          else if is_ok (fst (attempt_login lib dev cfg a w))
               then record_success (at_username a) (hash_for_audit (extract_client_ip (at_request a))) g
               else record_failure (at_time a) (at_username a) (hash_for_audit (extract_client_ip (at_request a))) g)"
proof -
  let ?w = "at_world w a"
  have gd: "guarded_by cfg ?w = Some g" "guarded_by cfg w = Some g" "aw_monotonic ?w = at_time a"
    using g config by (simp_all add: guarded_by_def at_world_def)
  have lk: "locked_out cfg (at_request a) (at_username a) ?w = (\<not> tried cfg a w)"
    using gd by (simp add: locked_out_def tried_def)
  show ?thesis
  proof (cases "tried cfg a w")
    case False
    then show ?thesis
      using login_locked [OF config(1)] lk g by (simp add: attempt_login_def at_world_def)
  next
    case True
    then have un: "\<not> locked_out cfg (at_request a) (at_username a) ?w" using lk by simp
    show ?thesis
    proof (cases "credentials_ok lib (aw_db ?w) (at_username a) (at_password a)")
      case yes: True
      from login_right [OF config(1) un config(2) yes] True gd show ?thesis
        by (auto simp: attempt_login_def)
    next
      case no: False
      from login_wrong [OF config(1) un no] True gd show ?thesis
        by (auto simp: attempt_login_def)
    qed
  qed
qed

lemma guesses_bounded_from:
  assumes config: "\<not> misconfigured cfg" "dev \<noteq> []" "as_bruteforce_enabled cfg"
    and policy: "1 \<le> gd_max_failures h" "b - a \<le> gd_window_seconds h" "b - a < gd_lockout_seconds h"
  shows "aw_guard w = Some g \<Longrightarrow> same_policy g h \<Longrightarrow> \<forall>x \<in> set xs. a \<le> at_time x \<and> at_time x \<le> b \<Longrightarrow>
    \<not> succeeds lib dev cfg key xs w \<Longrightarrow>
    int (wrong_guesses lib dev cfg key xs w) \<le> guesses_left a b (gd_max_failures h) (guard_record g key)"
proof (induction xs arbitrary: w g)
  case Nil
  then show ?case
    using policy(1) by (cases "guard_record g key") (auto simp: wrong_guesses_def)
next
  case (Cons x xs)
  let ?ans = "fst (attempt_login lib dev cfg x w)"
  let ?w = "snd (attempt_login lib dev cfg x w)"
  let ?ip = "hash_for_audit (extract_client_ip (at_request x))"
  from login_step [OF config Cons.prems(1), of lib x] obtain g' where g': "aw_guard ?w = Some g'"
    "g' = (if \<not> tried cfg x w then g else if is_ok ?ans then record_success (at_username x) ?ip g
           else record_failure (at_time x) (at_username x) ?ip g)" by blast
  have pol: "same_policy g' h" using g' Cons.prems(2) by auto
  have no: "\<not> succeeds lib dev cfg key xs ?w" "\<not> (at_key x = key \<and> is_ok ?ans)"
    using Cons.prems(4) by (auto simp: succeeds_def split_beta Let_def)
  have IH: "int (wrong_guesses lib dev cfg key xs ?w) \<le> guesses_left a b (gd_max_failures h) (guard_record g' key)"
    using Cons.IH [OF g'(1) pol _ no(1)] Cons.prems(3) by simp
  have split: "wrong_guesses lib dev cfg key (x # xs) w =
     wrong_guesses lib dev cfg key xs ?w + (if at_key x = key \<and> tried cfg x w \<and> is_generic ?ans then 1 else 0)"
    by (simp add: wrong_guesses_def split_beta Let_def)
  show ?case
  proof (cases "at_key x = key \<and> tried cfg x w")
    case True
    then have "check_allowed g (at_time x) (at_username x) ?ip"
      using Cons.prems(1) config(3) by (simp add: tried_def guarded_by_def)
    moreover have "g' = record_failure (at_time x) (at_username x) ?ip g" using g' True no by auto
    ultimately show ?thesis
      using failure_costs_a_guess [OF Cons.prems(2) policy, of "at_time x" "at_username x" ?ip] Cons.prems(3) IH split True
      by (auto simp: at_key_def)
  next
    case False
    then have "guard_record g' key = guard_record g key"
      using g' by (auto simp: at_key_def record_failure_other record_success_other)
    then show ?thesis using IH split False by auto
  qed
qed

fun world_after :: "auth_libs \<Rightarrow> string \<Rightarrow> auth_settings \<Rightarrow> attempt list \<Rightarrow> auth_world \<Rightarrow> auth_world" where
  "world_after lib dev cfg [] w = w"
| "world_after lib dev cfg (a # as) w = world_after lib dev cfg as (snd (attempt_login lib dev cfg a w))"

lemma world_after_guard:
  assumes config: "\<not> misconfigured cfg" "dev \<noteq> []" "as_bruteforce_enabled cfg"
  shows "aw_guard w = Some g \<Longrightarrow> guard_ok g \<Longrightarrow> same_policy g h \<Longrightarrow>
    \<exists>g'. aw_guard (world_after lib dev cfg xs w) = Some g' \<and> guard_ok g' \<and> same_policy g' h"
proof (induction xs arbitrary: w g)
  case (Cons x xs)
  from login_step [OF config Cons.prems(1), of lib x] obtain g' where
    "aw_guard (snd (attempt_login lib dev cfg x w)) = Some g'" "guard_ok g'" "same_policy g' h"
    using Cons.prems(2,3) by (auto simp: record_failure_ok record_success_ok)
  then show ?case using Cons.IH by simp
qed auto


lemma never_right_never_in:
  assumes config: "\<not> misconfigured cfg"
  shows "\<forall>x \<in> set xs. \<not> credentials_ok lib (at_db x) (at_username x) (at_password x) \<Longrightarrow> \<not> succeeds lib dev cfg key xs w"
proof (induction xs arbitrary: w)
  case (Cons x xs)
  then have no: "\<not> credentials_ok lib (aw_db (at_world w x)) (at_username x) (at_password x)"
    by (simp add: at_world_def)
  have "\<not> is_ok (fst (attempt_login lib dev cfg x w))"
    by (cases "locked_out cfg (at_request x) (at_username x) (at_world w x)")
       (simp_all add: attempt_login_def login_locked [OF config] login_wrong [OF config _ no])
  then show ?case using Cons by (auto simp: succeeds_def split_beta Let_def)
qed (simp add: succeeds_def)

definition demo_guard :: guard where
  "demo_guard = \<lparr>gd_max_failures = 5, gd_window_seconds = 300, gd_lockout_seconds = 900, gd_records = Map.empty\<rparr>"

definition demo_auth :: auth_settings where
  "demo_auth = \<lparr>as_auth_enabled = True, as_jwt_secret = ''secret'', as_jwt_algorithm = ''HS256'',
     as_jwt_expires_minutes = 60, as_bruteforce_enabled = True\<rparr>"

text \<open>Libraries that are simple but keep their contracts: a text of four characters per byte, and
  tokens that spell out their claims.\<close>

fun demo_b64encode :: "string \<Rightarrow> string" where
  "demo_b64encode [] = []"
| "demo_b64encode (c # cs) = (if c = CHR ''$'' then ''0B'' else if c = CHR ''='' then ''1B'' else [c, CHR ''A'']) @
     ''AA'' @ demo_b64encode cs"

fun demo_b64decode :: "string \<Rightarrow> string option" where
  "demo_b64decode [] = Some []"
| "demo_b64decode (a # b # c # d # rest) = map_option (Cons (if b = CHR ''B''
     then (if a = CHR ''0'' then CHR ''$'' else CHR ''='') else a)) (demo_b64decode rest)"
| "demo_b64decode _ = None"

definition demo_jwt_encode :: "(string \<times> reply) list \<Rightarrow> string \<Rightarrow> string \<Rightarrow> string" where
  "demo_jwt_encode claims secret algorithm = (case map snd claims of
     [RStr subject, RStr username, RInt iat, RInt expiry] \<Rightarrow>
       demo_b64encode subject @ ''$'' @ demo_b64encode username @ ''$'' @ str_of_int iat @ ''$'' @ str_of_int expiry @ ''$'' @
       demo_b64encode secret @ ''$'' @ demo_b64encode algorithm
   | _ \<Rightarrow> [])"

definition demo_jwt_decode :: "int \<Rightarrow> string \<Rightarrow> string \<Rightarrow> string \<Rightarrow> jwt_reply" where
  "demo_jwt_decode now token secret algorithm = (case py_split (CHR ''$'') token of
     [subject, username, iat, expiry, key, alg] \<Rightarrow>
       (case (demo_b64decode subject, demo_b64decode username, py_int iat, py_int expiry) of
          (Some subject, Some username, Some iat, Some expiry) \<Rightarrow>
            if key \<noteq> demo_b64encode secret \<or> alg \<noteq> demo_b64encode algorithm \<or> now < iat then JwtInvalid
            else if expiry \<le> now then JwtExpired
            else JwtClaims [(''sub'', RStr subject), (''username'', RStr username), (''iat'', RInt iat), (''exp'', RInt expiry)]
        | _ \<Rightarrow> JwtInvalid)
   | _ \<Rightarrow> JwtInvalid)"

definition demo_libs :: auth_libs where
  "demo_libs = \<lparr>lib_scrypt = \<lambda>password salt n r p len. Some (take len (password @ replicate len CHR ''x'')),
     lib_b64decode = demo_b64decode, lib_b64encode = demo_b64encode,
     lib_jwt_encode = demo_jwt_encode, lib_jwt_decode = demo_jwt_decode\<rparr>"

definition demo_user :: user where
  "demo_user = \<lparr>us_id = 1, us_username = ''ann'', us_password_hash = ''scrypt$'', us_is_active = True,
     us_is_admin = False, us_last_login_at = None, us_updated_at = 0\<rparr>"

definition demo_auth_db :: auth_db where
  "demo_auth_db = \<lparr>ad_users = [demo_user], ad_audits = [], ad_now = 0\<rparr>"

definition demo_attempt :: "rat \<Rightarrow> attempt" where
  "demo_attempt t = \<lparr>at_request = \<lparr>rq_forwarded = None, rq_host = Some ''10.0.0.9'', rq_user_agent = None\<rparr>,
     at_username = ''ann'', at_password = ''guess'', at_time = t, at_db = demo_auth_db\<rparr>"

definition demo_auth_world :: auth_world where
  "demo_auth_world = \<lparr>aw_guard = Some demo_guard, aw_db = demo_auth_db, aw_monotonic = 0\<rparr>"

lemmas demo_auth_defs = demo_guard_def demo_auth_def demo_libs_def demo_user_def demo_auth_db_def
  demo_attempt_def demo_auth_world_def misconfigured_def

lemma demo_never_right: "\<not> credentials_ok demo_libs (at_db (demo_attempt t)) (at_username (demo_attempt t)) (at_password (demo_attempt t))"
  by (simp add: demo_auth_defs credentials_ok_def verify_password_def)


theorem login_reveals_only_success_witness:
  "case login_route demo_libs ''dev'' demo_auth (at_request (demo_attempt 0)) ''ann'' ''guess'' demo_auth_world of (answer, w') \<Rightarrow>
     is_ok answer = (\<not> locked_out demo_auth (at_request (demo_attempt 0)) ''ann'' demo_auth_world \<and>
        credentials_ok demo_libs (aw_db demo_auth_world) ''ann'' ''guess'') \<and>
     (\<not> is_ok answer \<longrightarrow> answer = AuthRefused 401 generic_login_error) \<and> aw_db w' = aw_db demo_auth_world"
  by (rule login_reveals_only_success) (simp_all add: demo_auth_defs)

subsection \<open>Round trips\<close>

lemma py_split_append:
  "sep \<notin> set part \<Longrightarrow> py_split sep (part @ sep # rest) = part # py_split sep rest"
  by (induction part) auto

lemma py_split_none: "sep \<notin> set part \<Longrightarrow> py_split sep part = [part]"
  by (induction part) auto

text \<open>What the code relies on of base64: it decodes what it encoded, and the text has no dollar
  sign, a length divisible by four and at most two signs of padding at its end.\<close>

definition base64_law :: "auth_libs \<Rightarrow> bool" where
  "base64_law lib \<longleftrightarrow> (\<forall>x. lib_b64decode lib (lib_b64encode lib x) = Some x \<and>
     (\<exists>body k. lib_b64encode lib x = body @ replicate k CHR ''='' \<and> k < 3 \<and> CHR ''='' \<notin> set body \<and>
        CHR ''$'' \<notin> set body \<and> (length body + k) mod 4 = 0))"

lemma b64_strip_body: "CHR ''='' \<notin> set body \<Longrightarrow> b64_strip (body @ replicate k CHR ''='') = body"
proof -
  assume no: "CHR ''='' \<notin> set body"
  have "dropWhile (\<lambda>c. c = CHR ''='') (replicate k CHR ''='' @ rev body) = dropWhile (\<lambda>c. c = CHR ''='') (rev body)"
    by (rule dropWhile_append2) simp
  also have "\<dots> = rev body" using no by (metis (full_types) dropWhile_eq_self_iff hd_in_set set_rev)
  finally show ?thesis by (simp add: b64_strip_def)
qed

lemma b64_pad_body: "k < 3 \<Longrightarrow> (length body + k) mod 4 = 0 \<Longrightarrow> b64_pad body = body @ replicate k CHR ''=''"
proof -
  assume k: "k < 3" and len: "(length body + k) mod 4 = 0"
  from k consider "k = 0" | "k = 1" | "k = 2" by linarith
  then show ?thesis
  proof cases
    case 2
    then have "length body mod 4 = 3" using len by (simp add: mod_Suc split: if_splits)
    then show ?thesis using 2 by (simp add: b64_pad_def Let_def)
  next
    case 3
    then have "length body mod 4 = 2" using len by (simp add: mod_Suc split: if_splits)
    then show ?thesis using 3 by (simp add: b64_pad_def Let_def)
  qed (use len in \<open>simp add: b64_pad_def Let_def\<close>)
qed

lemma base64_roundtrip:
  assumes "base64_law lib"
  shows "lib_b64decode lib (b64_pad (b64_strip (lib_b64encode lib x))) = Some x"
    and "CHR ''$'' \<notin> set (b64_strip (lib_b64encode lib x))"
proof -
  have x: "lib_b64decode lib (lib_b64encode lib x) = Some x \<and>
     (\<exists>body k. lib_b64encode lib x = body @ replicate k CHR ''='' \<and> k < 3 \<and> CHR ''='' \<notin> set body \<and>
        CHR ''$'' \<notin> set body \<and> (length body + k) mod 4 = 0)"
    using assms [unfolded base64_law_def] by (rule spec)
  then obtain body k where "lib_b64encode lib x = body @ replicate k CHR ''=''" "k < 3" "CHR ''='' \<notin> set body"
    "CHR ''$'' \<notin> set body" "(length body + k) mod 4 = 0" "lib_b64decode lib (lib_b64encode lib x) = Some x"
    by (elim conjE exE) (rule that)
  then show "lib_b64decode lib (b64_pad (b64_strip (lib_b64encode lib x))) = Some x"
    and "CHR ''$'' \<notin> set (b64_strip (lib_b64encode lib x))"
    by (simp_all add: b64_strip_body b64_pad_body)
qed

lemma number_no_dollar: "CHR ''$'' \<notin> set (str_of_int n)"
proof -
  have "\<not> is_digit CHR ''$''" by (simp add: is_digit_def)
  then have "CHR ''$'' \<notin> set (nat_digits m)" for m using nat_digits_chars by blast
  then show ?thesis by (simp add: str_of_int_def)
qed

lemma hash_verifies:
  assumes base64: "base64_law lib"
    and scrypt: "\<And>pw k. lib_scrypt lib pw salt (ph_n h) (ph_r h) (ph_p h) derived_key_bytes = Some k \<Longrightarrow> length k = derived_key_bytes"
    and stored: "hash_password lib h salt password = Inr stored"
  shows "verify_password lib password' stored \<longleftrightarrow>
     lib_scrypt lib password' salt (ph_n h) (ph_r h) (ph_p h) derived_key_bytes =
     lib_scrypt lib password salt (ph_n h) (ph_r h) (ph_p h) derived_key_bytes"
proof -
  obtain key where key: "lib_scrypt lib password salt (ph_n h) (ph_r h) (ph_p h) derived_key_bytes = Some key"
    and form: "stored = scrypt_prefix @ CHR ''$'' # str_of_int (ph_n h) @ CHR ''$'' # str_of_int (ph_r h) @ CHR ''$'' #
       str_of_int (ph_p h) @ CHR ''$'' # b64_strip (lib_b64encode lib salt) @ CHR ''$'' # b64_strip (lib_b64encode lib key)"
    using stored by (auto simp: hash_password_def split: if_splits option.splits)
  have "CHR ''$'' \<notin> set scrypt_prefix" by (simp add: scrypt_prefix_def)
  then have "py_split (CHR ''$'') stored = [scrypt_prefix, str_of_int (ph_n h), str_of_int (ph_r h), str_of_int (ph_p h),
      b64_strip (lib_b64encode lib salt), b64_strip (lib_b64encode lib key)]"
    by (simp add: form py_split_append py_split_none number_no_dollar base64_roundtrip(2) [OF base64])
  moreover have "stored \<noteq> []" by (simp add: form)
  moreover have "length key = derived_key_bytes" by (rule scrypt [OF key])
  ultimately show ?thesis
    by (auto simp: verify_password_def int_text_roundtrip base64_roundtrip(1) [OF base64] key split: option.splits)
qed

text \<open>
  A stored hash accepts exactly the passwords from which scrypt derives the same key, so in
  particular the password it was made from, whatever the cost parameters are now.
\<close>

lemma password_roundtrip:
  assumes base64: "base64_law lib"
    and scrypt: "\<And>pw k. lib_scrypt lib pw salt (ph_n h) (ph_r h) (ph_p h) derived_key_bytes = Some k \<Longrightarrow> length k = derived_key_bytes"
    and stored: "hash_password lib h salt password = Inr stored"
  shows "verify_password lib password' stored \<longleftrightarrow>
     lib_scrypt lib password' salt (ph_n h) (ph_r h) (ph_p h) derived_key_bytes =
     lib_scrypt lib password salt (ph_n h) (ph_r h) (ph_p h) derived_key_bytes"
  using assms by (rule hash_verifies)

text \<open>What the code relies on of PyJWT: a token decodes, under the key it was signed with, to its
  claims, until it expires.\<close>

definition jwt_law :: "auth_libs \<Rightarrow> bool" where
  "jwt_law lib \<longleftrightarrow> (\<forall>now subject username iat expiry secret algorithm.
     let claims = [(''sub'', RStr subject), (''username'', RStr username), (''iat'', RInt iat), (''exp'', RInt expiry)]
     in lib_jwt_decode lib now (lib_jwt_encode lib claims secret algorithm) secret algorithm =
        (if now < iat then JwtInvalid else if expiry \<le> now then JwtExpired else JwtClaims claims))"

text \<open>
  C24. The token a login returns identifies the same user to every later request until it expires,
  and is refused as expired from then on.
\<close>

theorem token_roundtrip:
  assumes law: "jwt_law lib" and config: "as_auth_enabled cfg" "as_jwt_secret cfg \<noteq> []" "dev \<noteq> []"
    and login: "login_route lib dev cfg req username password w = (AuthOk r, w')"
    and bearer: "py_lower scheme = ''bearer''" and later: "to_seconds (ad_now (aw_db w)) \<le> to_seconds later"
  shows "if to_seconds later < to_seconds (ad_now (aw_db w) + as_jwt_expires_minutes cfg * 60000000)
    then \<exists>t. get_current_user lib dev cfg later (Some (scheme, ly_access_token r)) =
      AuthOk \<lparr>au_user_id = ly_user_id r, au_username = Some username, au_via = ''token'', au_token = Some t\<rparr>
    else get_current_user lib dev cfg later (Some (scheme, ly_access_token r)) = AuthRefused 401 ''token expired''"
proof -
  have ok: "\<not> misconfigured cfg" using config by (simp add: misconfigured_def)
  have un: "\<not> locked_out cfg req username w" using login login_locked [OF ok] by auto
  have cred: "credentials_ok lib (aw_db w) username password" using login login_wrong [OF ok un, of lib password dev] by fastforce
  from login_right [OF ok un config(3) cred] obtain u where
    u: "find (\<lambda>u. us_username u = username) (ad_users (aw_db w)) = Some u" "ly_user_id r = us_id u"
    "ly_access_token r = fst (projr (issue_token lib (get_jwt_issuer dev cfg) (ad_now (aw_db w)) (us_id u) (us_username u)))"
    using login by auto
  have name: "us_username u = username" using u(1) by (auto simp: find_Some_iff)
  show ?thesis
    using config bearer later law
    by (simp add: get_current_user_def decode_token_def issue_token_def get_jwt_issuer_def u(2,3) name jwt_law_def
        Let_def claim_int_def int_text_roundtrip reply_str_def not_less)
qed

lemma demo_b64_roundtrip: "demo_b64decode (demo_b64encode s) = Some s"
  by (induction s) auto

lemma demo_b64_chars: "CHR ''='' \<notin> set (demo_b64encode s) \<and> CHR ''$'' \<notin> set (demo_b64encode s)"
  by (induction s) auto

lemma demo_b64_length: "length (demo_b64encode s) mod 4 = 0"
  by (induction s) (auto simp: mod_Suc)

lemma demo_base64_law: "base64_law demo_libs"
  unfolding base64_law_def
proof
  fix x
  show "lib_b64decode demo_libs (lib_b64encode demo_libs x) = Some x \<and>
     (\<exists>body k. lib_b64encode demo_libs x = body @ replicate k CHR ''='' \<and> k < 3 \<and> CHR ''='' \<notin> set body \<and>
        CHR ''$'' \<notin> set body \<and> (length body + k) mod 4 = 0)"
    using demo_b64_roundtrip [of x] demo_b64_chars [of x] demo_b64_length [of x]
    by (intro conjI exI [of _ "demo_b64encode x"] exI [of _ 0]) (simp_all add: demo_libs_def)
qed

lemma demo_jwt_law: "jwt_law demo_libs"
  using demo_b64_roundtrip demo_b64_chars number_no_dollar
  by (simp add: jwt_law_def demo_libs_def demo_jwt_encode_def demo_jwt_decode_def Let_def py_split_append py_split_none
      int_text_roundtrip)

definition demo_hasher :: hasher where "demo_hasher = \<lparr>ph_n = 16384, ph_r = 8, ph_p = 1\<rparr>"

lemma password_roundtrip_witness:
  "verify_password demo_libs ''horse'' (projr (hash_password demo_libs demo_hasher ''salt'' ''horse'')) \<longleftrightarrow>
   lib_scrypt demo_libs ''horse'' ''salt'' (ph_n demo_hasher) (ph_r demo_hasher) (ph_p demo_hasher) derived_key_bytes =
   lib_scrypt demo_libs ''horse'' ''salt'' (ph_n demo_hasher) (ph_r demo_hasher) (ph_p demo_hasher) derived_key_bytes"
  by (rule password_roundtrip [OF demo_base64_law]) (auto simp: demo_libs_def hash_password_def)

definition demo_user_db :: auth_db where
  "demo_user_db = demo_auth_db\<lparr>ad_users := [demo_user\<lparr>us_password_hash :=
     projr (hash_password demo_libs demo_hasher ''salt'' ''horse'')\<rparr>]\<rparr>"

lemma demo_verifies: "verify_password demo_libs ''horse'' (projr (hash_password demo_libs demo_hasher ''salt'' ''horse''))"
  by (subst hash_verifies [OF demo_base64_law, where h = demo_hasher and salt = "''salt''" and password = "''horse''"])
     (auto simp: demo_libs_def hash_password_def)

definition demo_user_world :: auth_world where
  "demo_user_world = demo_auth_world\<lparr>aw_db := demo_user_db\<rparr>"

definition demo_answer :: "login_reply auth_answer \<times> auth_world" where
  "demo_answer = login_route demo_libs ''dev'' demo_auth (at_request (demo_attempt 0)) ''ann'' ''horse'' demo_user_world"

lemma demo_logs_in: "\<exists>r w. demo_answer = (AuthOk r, w)"
proof -
  have "\<not> misconfigured demo_auth" "''dev'' \<noteq> []" "\<not> locked_out demo_auth (at_request (demo_attempt 0)) ''ann'' demo_user_world"
    by (simp_all add: demo_auth_defs demo_user_world_def locked_out_def guarded_by_def check_allowed_def guard_record_def)
  moreover have "credentials_ok demo_libs (aw_db demo_user_world) ''ann'' ''horse''"
    using demo_verifies by (simp add: demo_user_world_def demo_user_db_def demo_user_def credentials_ok_def)
  ultimately show ?thesis unfolding demo_answer_def using login_right by blast
qed

theorem token_roundtrip_witness:
  "\<exists>r. fst demo_answer = AuthOk r \<and> (\<exists>t. get_current_user demo_libs ''dev'' demo_auth 60000000 (Some (''Bearer'', ly_access_token r)) =
     AuthOk \<lparr>au_user_id = ly_user_id r, au_username = Some ''ann'', au_via = ''token'', au_token = Some t\<rparr>)"
proof -
  from demo_logs_in obtain r w where r: "demo_answer = (AuthOk r, w)" by blast
  have "ad_now (aw_db demo_user_world) = 0" by (simp add: demo_user_world_def demo_user_db_def demo_auth_db_def)
  moreover have "py_lower ''Bearer'' = ''bearer''" by code_simp
  ultimately show ?thesis
    using token_roundtrip [OF demo_jwt_law _ _ _ r [unfolded demo_answer_def], of "''Bearer''" 60000000]
    by (simp add: r demo_auth_def to_seconds_def)
qed

end
