(* ===== verification/Scoring.thy ===== *)
theory Scoring
  imports Decimal_Arith
begin

text \<open>
  The scores of recommendations and holdings: \<open>Decimal.quantize\<close>, the weighted total of
  \<^verbatim>\<open>app/decision/scoring_engine.py\<close> and the risk penalty of
  \<^verbatim>\<open>app/decision/risk_engine.py\<close>. A quantized result of more than 28 digits, for which Python
  raises, is outside the model. The details a risk assessment carries for the log are kept as
  values; the code stores their text. The lemmas give that rounding is monotone and keeps the
  bounds of a score.
\<close>

subsection \<open>Quantizing\<close>

text \<open>\<open>ROUND_HALF_UP\<close> rounds ties away from zero, the default \<open>ROUND_HALF_EVEN\<close> to the even neighbour.\<close>

definition round_half_up :: "rat \<Rightarrow> int" where
  "round_half_up x = (if 0 \<le> x then \<lfloor>x + 1 / 2\<rfloor> else - \<lfloor>1 / 2 - x\<rfloor>)"

definition quant_up :: "nat \<Rightarrow> decimal \<Rightarrow> decimal" where
  "quant_up places x = of_int (round_half_up (x * 10 ^ places)) / 10 ^ places"

definition quant_even :: "nat \<Rightarrow> decimal \<Rightarrow> decimal" where
  "quant_even places x = of_int (round_half_even (x * 10 ^ places)) / 10 ^ places"

lemma round_half_up_of_int [simp]: "round_half_up (of_int n) = n"
  by (simp add: round_half_up_def floor_eq_iff)

lemma round_half_up_mono: "x \<le> y \<Longrightarrow> round_half_up x \<le> round_half_up y"
proof -
  assume le: "x \<le> y"
  consider "0 \<le> x" | "x < 0" "0 \<le> y" | "y < 0" using le by linarith
  then show ?thesis
  proof cases
    case 1
    then show ?thesis using le by (simp add: round_half_up_def floor_mono)
  next
    case 2
    have "0 \<le> \<lfloor>1 / 2 - x\<rfloor>" "0 \<le> \<lfloor>y + 1 / 2\<rfloor>" using 2 by (simp_all add: le_floor_iff)
    then have "- \<lfloor>1 / 2 - x\<rfloor> \<le> \<lfloor>y + 1 / 2\<rfloor>" by linarith
    then show ?thesis using 2 by (simp add: round_half_up_def)
  next
    case 3
    then show ?thesis using le by (simp add: round_half_up_def floor_mono)
  qed
qed

lemma round_half_up_error: "\<bar>of_int (round_half_up x) - x\<bar> \<le> 1 / 2"
proof (cases "0 \<le> x")
  case True
  have "of_int \<lfloor>x + 1 / 2\<rfloor> \<le> x + 1 / 2" "x + 1 / 2 < of_int \<lfloor>x + 1 / 2\<rfloor> + 1" by linarith+
  then have "\<bar>of_int \<lfloor>x + 1 / 2\<rfloor> - x\<bar> \<le> 1 / 2" unfolding abs_le_iff by linarith
  then show ?thesis using True by (simp add: round_half_up_def)
next
  case False
  have "of_int \<lfloor>1 / 2 - x\<rfloor> \<le> 1 / 2 - x" "1 / 2 - x < of_int \<lfloor>1 / 2 - x\<rfloor> + 1" by linarith+
  then have "\<bar>- of_int \<lfloor>1 / 2 - x\<rfloor> - x\<bar> \<le> 1 / 2" unfolding abs_le_iff by linarith
  then show ?thesis using False by (simp add: round_half_up_def)
qed

lemma quant_up_mono: "x \<le> y \<Longrightarrow> quant_up n x \<le> quant_up n y"
  by (simp add: quant_up_def divide_right_mono round_half_up_mono mult_right_mono)

lemma quant_even_mono: "x \<le> y \<Longrightarrow> quant_even n x \<le> quant_even n y"
  by (simp add: quant_even_def divide_right_mono round_half_even_mono mult_right_mono)

lemma quant_up_of_int [simp]: "quant_up n (of_int i) = of_int i"
proof -
  have "of_int i * 10 ^ n = (of_int (i * 10 ^ n) :: rat)" by simp
  then show ?thesis unfolding quant_up_def by (simp only: round_half_up_of_int) simp
qed

lemma quant_even_of_int [simp]: "quant_even n (of_int i) = of_int i"
proof -
  have "of_int i * 10 ^ n = (of_int (i * 10 ^ n) :: rat)" by simp
  then show ?thesis unfolding quant_even_def by (simp only: round_half_even_of_int) simp
qed

lemma quant_numeral [simp]:
  "quant_up n 0 = 0" "quant_up n 1 = 1" "quant_up n (numeral k) = numeral k" "quant_up n (- numeral k) = - numeral k"
  "quant_even n 0 = 0" "quant_even n 1 = 1" "quant_even n (numeral k) = numeral k"
  using quant_up_of_int [of n 0] quant_up_of_int [of n 1] quant_up_of_int [of n "numeral k"] quant_up_of_int [of n "- numeral k"]
    quant_even_of_int [of n 0] quant_even_of_int [of n 1] quant_even_of_int [of n "numeral k"]
  by simp_all

lemma quant_up_error: "\<bar>quant_up n x - x\<bar> \<le> 1 / (2 * 10 ^ n)"
proof -
  have "quant_up n x - x = (of_int (round_half_up (x * 10 ^ n)) - x * 10 ^ n) / 10 ^ n"
    by (simp add: quant_up_def diff_divide_distrib)
  then have "\<bar>quant_up n x - x\<bar> = \<bar>of_int (round_half_up (x * 10 ^ n)) - x * 10 ^ n\<bar> / 10 ^ n"
    by (simp only: abs_divide) simp
  also have "\<dots> \<le> (1 / 2) / 10 ^ n"
    by (intro divide_right_mono round_half_up_error) simp
  finally show ?thesis by simp
qed

lemma quant_up_bounds: "of_int a \<le> x \<Longrightarrow> x \<le> of_int b \<Longrightarrow> of_int a \<le> quant_up n x \<and> quant_up n x \<le> of_int b"
  using quant_up_mono [of "of_int a" x n] quant_up_mono [of x "of_int b" n] by simp

lemma quant_even_bounds: "of_int a \<le> x \<Longrightarrow> x \<le> of_int b \<Longrightarrow> of_int a \<le> quant_even n x \<and> quant_even n x \<le> of_int b"
  using quant_even_mono [of "of_int a" x n] quant_even_mono [of x "of_int b" n] by simp

subsection \<open>The scoring engine\<close>

record new_score_inputs =
  ni_technical :: "decimal option"
  ni_news :: "decimal option"
  ni_supply :: "decimal option"
  ni_fundamental :: "decimal option"
  ni_ai :: "decimal option"
  ni_risk_penalty :: "decimal option"

record holding_score_inputs =
  hi_technical :: "decimal option"
  hi_news :: "decimal option"
  hi_earnings :: "decimal option"
  hi_ai :: "decimal option"
  hi_profit_management :: "decimal option"
  hi_risk_penalty :: "decimal option"

record score_breakdown =
  bd_total_score :: decimal
  bd_raw_total :: decimal
  bd_weighted :: "(string \<times> decimal) list"
  bd_risk_penalty :: decimal

definition clamp_component :: "decimal option \<Rightarrow> decimal" where
  "clamp_component value' = (case value' of None \<Rightarrow> 0 | Some v \<Rightarrow> if v < 0 then 0 else if v > 100 then 100 else v)"

definition normalize_penalty :: "decimal option \<Rightarrow> decimal" where
  "normalize_penalty value' = (case value' of None \<Rightarrow> 0 | Some v \<Rightarrow> if v < 0 then 0 else v)"

definition clamp_total :: "decimal \<Rightarrow> decimal" where
  "clamp_total v = (if v < 0 then 0 else if v > 100 then 100 else v)"

definition new_weights :: "(string \<times> decimal) list" where
  "new_weights = [(''technical'', 35 / 100), (''news'', 25 / 100), (''supply'', 15 / 100), (''fundamental'', 15 / 100),
     (''ai'', 10 / 100)]"

definition holding_weights :: "(string \<times> decimal) list" where
  "holding_weights = [(''technical'', 35 / 100), (''news'', 20 / 100), (''earnings'', 20 / 100), (''ai'', 15 / 100),
     (''profit_management'', 10 / 100)]"

text \<open>The loop adds every contribution to the total; the breakdown keeps it quantized.\<close>

fun weigh :: "(string \<times> decimal) list \<Rightarrow> (string \<times> decimal option) list \<Rightarrow> decimal \<times> (string \<times> decimal) list \<Rightarrow>
    decimal \<times> (string \<times> decimal) list" where
  "weigh weights [] acc = acc"
| "weigh weights ((name, raw_value) # components) (weighted, breakdown) =
     (let contribution = dmul (clamp_component raw_value) (the (map_of weights name))
      in weigh weights components (dadd weighted contribution, breakdown @ [(name, quant_up 4 contribution)]))"

definition compose_score ::
  "(string \<times> decimal option) list \<Rightarrow> (string \<times> decimal) list \<Rightarrow> decimal option \<Rightarrow> score_breakdown" where
  "compose_score components weights risk_penalty =
     (let (weighted_total, breakdown) = weigh weights components (0, []);
          penalty = normalize_penalty risk_penalty;
          raw_total = dsub weighted_total penalty;
          final = clamp_total raw_total
      in \<lparr>bd_total_score = quant_up 4 final, bd_raw_total = quant_up 4 raw_total, bd_weighted = breakdown,
          bd_risk_penalty = quant_up 4 penalty\<rparr>)"

definition score_new_recommendation :: "new_score_inputs \<Rightarrow> score_breakdown" where
  "score_new_recommendation i = compose_score
     [(''technical'', ni_technical i), (''news'', ni_news i), (''supply'', ni_supply i),
      (''fundamental'', ni_fundamental i), (''ai'', ni_ai i)] new_weights (ni_risk_penalty i)"

definition score_holding :: "holding_score_inputs \<Rightarrow> score_breakdown" where
  "score_holding i = compose_score
     [(''technical'', hi_technical i), (''news'', hi_news i), (''earnings'', hi_earnings i),
      (''ai'', hi_ai i), (''profit_management'', hi_profit_management i)] holding_weights (hi_risk_penalty i)"

subsection \<open>The risk engine\<close>

datatype risk_level = RISK_LOW | RISK_MEDIUM | RISK_HIGH

datatype risk_detail = DetailValue "decimal option" | DetailText "string option" | DetailCount int

record risk_assessment =
  ra_risk_penalty :: decimal
  ra_risk_level :: risk_level
  ra_risk_flags :: "string list"
  ra_details :: "(string \<times> risk_detail) list"

definition classify_risk_level :: "decimal \<Rightarrow> risk_level" where
  "classify_risk_level penalty = (if penalty \<ge> 15 then RISK_HIGH else if penalty \<ge> 5 then RISK_MEDIUM else RISK_LOW)"

text \<open>The checks run in order; each one that fires appends its flag and adds its penalty.\<close>

type_synonym risk_check = "(string \<times> decimal) option"

definition run_checks :: "risk_check list \<Rightarrow> string list \<times> decimal" where
  "run_checks checks = foldl (\<lambda>(flags, penalty) check. case check of None \<Rightarrow> (flags, penalty)
     | Some (flag, amount) \<Rightarrow> (flags @ [flag], dadd penalty amount)) ([], 0) checks"

definition check_when :: "bool \<Rightarrow> string \<Rightarrow> decimal \<Rightarrow> risk_check" where
  "check_when b flag amount = (if b then Some (flag, amount) else None)"

definition below :: "decimal option \<Rightarrow> decimal \<Rightarrow> bool" where
  "below x bound = (case x of None \<Rightarrow> False | Some v \<Rightarrow> v < bound)"

definition recommendation_checks ::
  "decimal option \<Rightarrow> string option \<Rightarrow> decimal option \<Rightarrow> int \<Rightarrow> decimal \<Rightarrow> risk_check list" where
  "recommendation_checks technical_score ma_alignment volume_ratio_20d disclosure_risk_count disclosure_penalty_addition =
     [check_when (below technical_score 20) ''LOW_TECHNICAL_SCORE'' 10,
      check_when (ma_alignment = Some ''BEAR'' \<or> ma_alignment = Some ''PERFECT_BEAR'') ''BEARISH_MA_ALIGNMENT'' 8,
      (case volume_ratio_20d of None \<Rightarrow> Some (''VOLUME_RATIO_MISSING'', 3)
         | Some v \<Rightarrow> check_when (5 \<le> v) ''VOLUME_RATIO_EXTREME'' 5),
      check_when (0 < disclosure_risk_count) ''RISK_DISCLOSURE'' disclosure_penalty_addition]"

definition holding_checks ::
  "decimal option \<Rightarrow> decimal \<Rightarrow> decimal option \<Rightarrow> decimal \<Rightarrow> decimal option \<Rightarrow> decimal option \<Rightarrow> int \<Rightarrow> decimal \<Rightarrow>
   risk_check list" where
  "holding_checks technical_score current_total_score previous_total_score current_price ma20 return_rate
     disclosure_risk_count disclosure_penalty_addition =
     [check_when (case previous_total_score of None \<Rightarrow> False | Some p \<Rightarrow> 15 \<le> dsub p current_total_score) ''SCORE_DROP'' 12,
      check_when (case ma20 of None \<Rightarrow> False | Some m \<Rightarrow> current_price < m) ''MA20_BREAKDOWN'' 8,
      check_when (case return_rate of None \<Rightarrow> False | Some r \<Rightarrow> r \<le> - 5) ''STOP_LOSS_NEAR'' 15,
      check_when (below technical_score 20) ''LOW_TECHNICAL_SCORE'' 5,
      check_when (0 < disclosure_risk_count) ''RISK_DISCLOSURE'' disclosure_penalty_addition]"

definition assess :: "risk_check list \<Rightarrow> (string \<times> risk_detail) list \<Rightarrow> risk_assessment" where
  "assess checks details =
     (let (flags, penalty) = run_checks checks; capped = quant_up 4 (min penalty 50)
      in \<lparr>ra_risk_penalty = capped, ra_risk_level = classify_risk_level capped, ra_risk_flags = flags, ra_details = details\<rparr>)"

definition evaluate_recommendation ::
  "decimal option \<Rightarrow> string option \<Rightarrow> decimal option \<Rightarrow> int \<Rightarrow> decimal \<Rightarrow> risk_assessment" where
  "evaluate_recommendation technical_score ma_alignment volume_ratio_20d disclosure_risk_count disclosure_penalty_addition =
     assess (recommendation_checks technical_score ma_alignment volume_ratio_20d disclosure_risk_count disclosure_penalty_addition)
       [(''technical_score'', DetailValue technical_score), (''ma_alignment'', DetailText ma_alignment),
        (''volume_ratio_20d'', DetailValue volume_ratio_20d), (''low_technical_score_threshold'', DetailValue (Some 20)),
        (''volume_ratio_extreme_threshold'', DetailValue (Some 5)), (''disclosure_risk_count'', DetailCount disclosure_risk_count),
        (''disclosure_penalty_addition'', DetailValue (Some disclosure_penalty_addition))]"

definition evaluate_holding ::
  "decimal option \<Rightarrow> decimal \<Rightarrow> decimal option \<Rightarrow> decimal \<Rightarrow> decimal option \<Rightarrow> decimal option \<Rightarrow> int \<Rightarrow> decimal \<Rightarrow>
   risk_assessment" where
  "evaluate_holding technical_score current_total_score previous_total_score current_price ma20 return_rate
     disclosure_risk_count disclosure_penalty_addition =
     assess (holding_checks technical_score current_total_score previous_total_score current_price ma20 return_rate
        disclosure_risk_count disclosure_penalty_addition)
       [(''previous_total_score'', DetailValue previous_total_score), (''current_total_score'', DetailValue (Some current_total_score)),
        (''ma20'', DetailValue ma20), (''current_price'', DetailValue (Some current_price)), (''return_rate'', DetailValue return_rate),
        (''technical_score'', DetailValue technical_score), (''score_drop_threshold'', DetailValue (Some 15)),
        (''stop_loss_return_threshold'', DetailValue (Some (- 5))), (''low_technical_score_threshold'', DetailValue (Some 20)),
        (''disclosure_risk_count'', DetailCount disclosure_risk_count),
        (''disclosure_penalty_addition'', DetailValue (Some disclosure_penalty_addition))]"

end
