(* ===== verification/Scoring_Facts.thy ===== *)
theory Scoring_Facts
  imports Scoring
begin

text \<open>
  Facts about scores: the total is the weighted sum of the clamped components less the penalty,
  it stays in \<open>[0, 100]\<close> and never falls when a component rises or the penalty drops; the
  level of a risk assessment follows from the conditions that hold.
\<close>

subsection \<open>Bounds and monotonicity\<close>

definition value_or_0 :: "decimal option \<Rightarrow> decimal" where
  "value_or_0 x = (case x of None \<Rightarrow> 0 | Some v \<Rightarrow> v)"

lemma clamp_component_mono: "value_or_0 a \<le> value_or_0 b \<Longrightarrow> clamp_component a \<le> clamp_component b"
  by (auto simp: value_or_0_def clamp_component_def split: option.splits)

lemma clamp_component_bounds: "0 \<le> clamp_component a" "clamp_component a \<le> 100"
  by (auto simp: clamp_component_def split: option.splits)

lemma normalize_penalty_mono: "value_or_0 a \<le> value_or_0 b \<Longrightarrow> normalize_penalty a \<le> normalize_penalty b"
  by (auto simp: value_or_0_def normalize_penalty_def split: option.splits)

lemma clamp_total_mono: "x \<le> y \<Longrightarrow> clamp_total x \<le> clamp_total y"
  by (simp add: clamp_total_def)

lemma clamp_total_bounds: "0 \<le> clamp_total x" "clamp_total x \<le> 100"
  by (simp_all add: clamp_total_def)

definition not_above :: "(string \<times> decimal option) list \<Rightarrow> (string \<times> decimal option) list \<Rightarrow> bool" where
  "not_above xs ys = list_all2 (\<lambda>(n, a) (m, b). n = m \<and> value_or_0 a \<le> value_or_0 b) xs ys"

lemma weigh_mono:
  assumes "not_above xs ys" and "\<forall>(n, a) \<in> set xs. 0 \<le> the (map_of weights n)" and "t \<le> u"
  shows "fst (weigh weights xs (t, bs)) \<le> fst (weigh weights ys (u, cs))"
  using assms(1)[unfolded not_above_def] assms(2,3)
proof (induction arbitrary: t u bs cs rule: list_all2_induct)
  case (Cons x xs y ys)
  obtain n a b where xy: "x = (n, a)" "y = (n, b)" "value_or_0 a \<le> value_or_0 b"
    using Cons.hyps(1) by (cases x; cases y) auto
  obtain v where v: "the (map_of weights n) = v" "0 \<le> v" using Cons.prems(1) xy by auto
  have "dmul (clamp_component a) v \<le> dmul (clamp_component b) v"
    unfolding dmul_def using clamp_component_mono [OF xy(3)] v(2) by (intro dec_round_mono mult_right_mono)
  then have "dadd t (dmul (clamp_component a) v) \<le> dadd u (dmul (clamp_component b) v)"
    unfolding dadd_def using Cons.prems(2) by (intro dec_round_mono add_mono)
  then show ?case using Cons.IH Cons.prems(1) xy v by (simp add: Let_def)
qed simp

lemma compose_score_mono:
  assumes "not_above xs ys" and "\<forall>(n, a) \<in> set xs. 0 \<le> the (map_of weights n)"
    and "value_or_0 q \<le> value_or_0 p"
  shows "0 \<le> bd_total_score (compose_score xs weights p) \<and>
    bd_total_score (compose_score xs weights p) \<le> bd_total_score (compose_score ys weights q) \<and>
    bd_total_score (compose_score ys weights q) \<le> 100"
proof -
  let ?x = "dsub (fst (weigh weights xs (0, []))) (normalize_penalty p)"
  let ?y = "dsub (fst (weigh weights ys (0, []))) (normalize_penalty q)"
  have "?x \<le> ?y"
    unfolding dsub_def using weigh_mono [OF assms(1,2) order_refl, of 0 "[]" "[]"] normalize_penalty_mono [OF assms(3)]
    by (intro dec_round_mono diff_mono)
  then have le: "clamp_total ?x \<le> clamp_total ?y" by (rule clamp_total_mono)
  have "0 \<le> quant_up 4 (clamp_total ?x)" "quant_up 4 (clamp_total ?y) \<le> 100"
    using quant_up_bounds [of 0 "clamp_total ?x" 100 4] quant_up_bounds [of 0 "clamp_total ?y" 100 4] clamp_total_bounds by simp_all
  then show ?thesis
    using quant_up_mono [OF le, of 4] by (simp add: compose_score_def Let_def split_beta)
qed

lemma weights_known:
  "\<forall>(n, a) \<in> set [(''technical'', x1), (''news'', x2), (''supply'', x3), (''fundamental'', x4), (''ai'', x5)].
     0 \<le> the (map_of new_weights n)"
  "\<forall>(n, a) \<in> set [(''technical'', x1), (''news'', x2), (''earnings'', x3), (''ai'', x4), (''profit_management'', x5)].
     0 \<le> the (map_of holding_weights n)"
  by (simp_all add: new_weights_def holding_weights_def)



lemma holding_score_bounds:
  "0 \<le> bd_total_score (score_holding i)" "bd_total_score (score_holding i) \<le> 100"
proof -
  let ?xs = "[(''technical'', hi_technical i), (''news'', hi_news i), (''earnings'', hi_earnings i),
      (''ai'', hi_ai i), (''profit_management'', hi_profit_management i)]"
  have "not_above ?xs ?xs" by (simp add: not_above_def)
  from compose_score_mono [OF this weights_known(2) order_refl, of "hi_risk_penalty i"]
  show "0 \<le> bd_total_score (score_holding i)" "bd_total_score (score_holding i) \<le> 100"
    by (simp_all add: score_holding_def)
qed

subsection \<open>Exactness\<close>

text \<open>Numbers with at most \<open>k\<close> decimal places.\<close>

definition places :: "nat \<Rightarrow> rat \<Rightarrow> bool" where
  "places k x \<longleftrightarrow> (\<exists>n. x = of_int n / 10 ^ k)"

definition opt_places :: "nat \<Rightarrow> decimal option \<Rightarrow> bool" where
  "opt_places k x \<longleftrightarrow> places k (value_or_0 x)"

lemma places_of_int: "places k (of_int n)"
  unfolding places_def by (rule exI [of _ "n * 10 ^ k"]) simp

lemma places_add: "places k x \<Longrightarrow> places k y \<Longrightarrow> places k (x + y)"
  unfolding places_def by (metis add_divide_distrib of_int_add)

lemma places_diff: "places k x \<Longrightarrow> places k y \<Longrightarrow> places k (x - y)"
  unfolding places_def by (metis diff_divide_distrib of_int_diff)

lemma places_mult: "places k x \<Longrightarrow> places l y \<Longrightarrow> places (k + l) (x * y)"
  unfolding places_def by (metis of_int_mult power_add times_divide_times_eq)

lemma places_more: "places k x \<Longrightarrow> k \<le> l \<Longrightarrow> places l x"
proof -
  assume "places k x" "k \<le> l"
  then obtain n where "x = of_int n / 10 ^ k" by (auto simp: places_def)
  moreover have "(10 :: rat) ^ l = 10 ^ k * 10 ^ (l - k)" using \<open>k \<le> l\<close> by (simp flip: power_add)
  ultimately have "x = of_int (n * 10 ^ (l - k)) / 10 ^ l" by simp
  then show ?thesis unfolding places_def by blast
qed

lemma places_exact: "places k x \<Longrightarrow> \<bar>x\<bar> * 10 ^ k < 10 ^ 28 \<Longrightarrow> dec_round x = x"
proof -
  assume "places k x" and small: "\<bar>x\<bar> * 10 ^ k < 10 ^ 28"
  then obtain n where n: "x = of_int n / 10 ^ k" by (auto simp: places_def)
  have "(of_int \<bar>n\<bar> :: rat) < of_int (10 ^ 28)" using small by (simp add: n abs_divide)
  then have "\<bar>n\<bar> < 10 ^ 28" by (simp only: of_int_less_iff)
  then show ?thesis using n by (intro dec_round_exact dec_fits_rep [of k]) (auto simp: dec_fits_def)
qed

lemma places_clamp: "opt_places k x \<Longrightarrow> places k (clamp_component x)"
  using places_of_int [of k 0] places_of_int [of k 100]
  by (auto simp: clamp_component_def opt_places_def value_or_0_def split: option.splits)

fun weighted_sum :: "(string \<times> decimal) list \<Rightarrow> (string \<times> decimal option) list \<Rightarrow> decimal" where
  "weighted_sum weights [] = 0"
| "weighted_sum weights ((n, x) # xs) = clamp_component x * the (map_of weights n) + weighted_sum weights xs"

lemma weigh_exact:
  assumes "\<forall>(n, a) \<in> set xs. opt_places 4 a \<and> places 2 (the (map_of weights n)) \<and> 0 \<le> the (map_of weights n) \<and>
      the (map_of weights n) \<le> 1"
    and "places 6 t" "0 \<le> t" "t + 100 * of_nat (length xs) \<le> 10000"
  shows "fst (weigh weights xs (t, bs)) = t + weighted_sum weights xs \<and> places 6 (t + weighted_sum weights xs) \<and>
     0 \<le> weighted_sum weights xs \<and> weighted_sum weights xs \<le> 100 * of_nat (length xs)"
  using assms
proof (induction xs arbitrary: t bs)
  case (Cons x xs)
  obtain n a where x: "x = (n, a)" by (cases x)
  let ?w = "the (map_of weights n)" and ?c = "clamp_component a"
  have w: "places 2 ?w" "0 \<le> ?w" "?w \<le> 1" "places 4 ?c" using Cons.prems(1) x places_clamp by auto
  have c: "0 \<le> ?c" "?c \<le> 100" by (rule clamp_component_bounds)+
  have p6: "places 6 (?c * ?w)" using places_mult [OF w(4,1)] by simp
  have b: "0 \<le> ?c * ?w" "?c * ?w \<le> 100" using w c mult_mono [of ?c 100 ?w 1] by auto
  have e1: "dmul ?c ?w = ?c * ?w" unfolding dmul_def using b by (intro places_exact [OF p6]) simp
  have t6: "places 6 (t + ?c * ?w)" by (rule places_add [OF Cons.prems(2) p6])
  have e2: "dadd t (?c * ?w) = t + ?c * ?w"
    unfolding dadd_def using b Cons.prems(3,4) by (intro places_exact [OF t6]) simp
  have "fst (weigh weights xs (t + ?c * ?w, bs @ [(n, quant_up 4 (?c * ?w))])) = t + ?c * ?w + weighted_sum weights xs \<and>
      places 6 (t + ?c * ?w + weighted_sum weights xs) \<and> 0 \<le> weighted_sum weights xs \<and>
      weighted_sum weights xs \<le> 100 * of_nat (length xs)"
    using Cons.prems b by (intro Cons.IH t6) auto
  then show ?case using b by (simp add: x Let_def e1 e2 add.assoc)
qed simp

lemma compose_exact:
  assumes "\<forall>(n, a) \<in> set xs. opt_places 4 a \<and> places 2 (the (map_of weights n)) \<and> 0 \<le> the (map_of weights n) \<and>
      the (map_of weights n) \<le> 1"
    and "length xs \<le> 10" and "opt_places 4 p" "value_or_0 p < 10 ^ 20"
  shows "bd_total_score (compose_score xs weights p) = quant_up 4 (clamp_total (weighted_sum weights xs - normalize_penalty p))"
proof -
  have len: "(of_nat (length xs) :: rat) \<le> 10" using assms(2) by simp
  have w: "fst (weigh weights xs (0, [])) = weighted_sum weights xs" "places 6 (weighted_sum weights xs)"
    "0 \<le> weighted_sum weights xs" "weighted_sum weights xs \<le> 1000"
    using weigh_exact [OF assms(1), of 0 "[]"] len places_of_int [of 6 0] by auto
  have n: "places 6 (normalize_penalty p)" "0 \<le> normalize_penalty p" "normalize_penalty p < 10 ^ 20"
    using assms(3,4) places_of_int [of 6 0] places_more [of 4 _ 6]
    by (auto simp: opt_places_def value_or_0_def normalize_penalty_def split: option.splits)
  have "dsub (weighted_sum weights xs) (normalize_penalty p) = weighted_sum weights xs - normalize_penalty p"
    unfolding dsub_def using w n by (intro places_exact [OF places_diff [OF w(2) n(1)]]) (simp add: abs_if)
  then show ?thesis using w(1) by (simp add: compose_score_def Let_def split_beta)
qed

text \<open>
  For inputs with at most four decimal places, which is what the database holds, the score of a
  recommendation is the exact weighted sum of the clamped components less the penalty, clamped and
  rounded once.
\<close>

lemma score_is_weighted_sum:
  assumes "opt_places 4 (ni_technical i)" "opt_places 4 (ni_news i)" "opt_places 4 (ni_supply i)"
    "opt_places 4 (ni_fundamental i)" "opt_places 4 (ni_ai i)" "opt_places 4 (ni_risk_penalty i)"
    and "value_or_0 (ni_risk_penalty i) < 10 ^ 20"
  shows "bd_total_score (score_new_recommendation i) = quant_up 4 (clamp_total
    (clamp_component (ni_technical i) * (35 / 100) + clamp_component (ni_news i) * (25 / 100) +
     clamp_component (ni_supply i) * (15 / 100) + clamp_component (ni_fundamental i) * (15 / 100) +
     clamp_component (ni_ai i) * (10 / 100) - max 0 (value_or_0 (ni_risk_penalty i))))"
proof -
  have "places 2 (35 / 100)" "places 2 (1 / 4)" "places 2 (3 / 20)" "places 2 (1 / 10)"
    unfolding places_def by (rule exI [of _ 35], simp, rule exI [of _ 25], simp, rule exI [of _ 15], simp, rule exI [of _ 10], simp)
  then show ?thesis
    unfolding score_new_recommendation_def using assms
    by (subst compose_exact)
       (auto simp: new_weights_def add.assoc normalize_penalty_def value_or_0_def max_def split: option.splits)
qed

lemma score_is_weighted_sum_witness:
  "bd_total_score (score_new_recommendation \<lparr>ni_technical = Some 60, ni_news = Some 40, ni_supply = None,
      ni_fundamental = Some 120, ni_ai = None, ni_risk_penalty = Some 8\<rparr>) = 38"
  using score_is_weighted_sum [of "\<lparr>ni_technical = Some 60, ni_news = Some 40, ni_supply = None,
      ni_fundamental = Some 120, ni_ai = None, ni_risk_penalty = Some 8\<rparr>"]
    places_of_int [of 4 60] places_of_int [of 4 40] places_of_int [of 4 120] places_of_int [of 4 8] places_of_int [of 4 0]
  by (simp add: opt_places_def value_or_0_def clamp_component_def clamp_total_def)

subsection \<open>Risk\<close>

text \<open>
  Without recent disclosures a new candidate is a HIGH risk exactly when its technical score is
  below 20 and its averages are bearish or its volume is extreme; it is a LOW risk exactly when at
  most a missing volume ratio speaks against it.
\<close>

lemma risk_levels_decided:
  "let level = ra_risk_level (evaluate_recommendation technical_score ma_alignment volume_ratio disclosures addition);
       weak = below technical_score 20;
       bearish = (ma_alignment = Some ''BEAR'' \<or> ma_alignment = Some ''PERFECT_BEAR'');
       extreme = (case volume_ratio of None \<Rightarrow> False | Some v \<Rightarrow> 5 \<le> v)
   in disclosures \<le> 0 \<longrightarrow>
      (level = RISK_HIGH) = (weak \<and> (bearish \<or> extreme)) \<and>
      (level = RISK_LOW) = (\<not> weak \<and> \<not> bearish \<and> \<not> extreme)"
  by (auto simp: evaluate_recommendation_def assess_def recommendation_checks_def run_checks_def check_when_def
      classify_risk_level_def dadd_def dec_round_eval min_def Let_def split: option.splits)

lemma risk_levels_decided_witness:
  "ra_risk_level (evaluate_recommendation (Some 12) (Some ''BEAR'') (Some 1) 0 0) = RISK_HIGH"
  using risk_levels_decided [of "Some 12" "Some ''BEAR''" "Some 1" 0 0] by (simp add: below_def Let_def)

end
