(* ===== verification/Technical.thy ===== *)
theory Technical
  imports Scoring
begin

text \<open>
  The technical analyzer of \<^verbatim>\<open>app/analysis/technical_analyzer.py\<close>: moving averages, RSI, MACD,
  volume ratio, breakouts, the alignment of the averages, ATR, candle patterns, the volatility
  band, the technical score and the snapshot of the latest bar. All arithmetic is \<open>Decimal\<close>
  arithmetic with its rounding. Periods are natural numbers: the code refuses a period that is
  not positive, the model has the period 0 for those.
\<close>

record bar =
  br_symbol :: string
  br_date :: int
  br_open :: decimal
  br_high :: decimal
  br_low :: decimal
  br_close :: decimal
  br_volume :: int
  br_trading_value :: "decimal option"

text \<open>The last \<open>n\<close> elements of a list, \<open>xs[-n:]\<close>.\<close>

definition last_n :: "nat \<Rightarrow> 'a list \<Rightarrow> 'a list" where
  "last_n n xs = drop (length xs - n) xs"

text \<open>\<open>xs[-(n + 1):-1]\<close>: the \<open>n\<close> elements before the last.\<close>

definition before_last :: "nat \<Rightarrow> 'a list \<Rightarrow> 'a list" where
  "before_last n xs = last_n n (butlast xs)"

subsection \<open>Averages and oscillators\<close>

definition simple_moving_average :: "decimal list \<Rightarrow> nat \<Rightarrow> decimal option" where
  "simple_moving_average closes period =
     (if period = 0 \<or> length closes < period then None
      else Some (ddiv (dsum (last_n period closes)) (of_nat period)))"

text \<open>The loop keeps the previous value and appends the next one.\<close>

fun ema_from :: "decimal \<Rightarrow> decimal \<Rightarrow> decimal \<Rightarrow> decimal list \<Rightarrow> decimal list" where
  "ema_from alpha one_minus_alpha prev [] = [prev]"
| "ema_from alpha one_minus_alpha prev (current # values) =
     prev # ema_from alpha one_minus_alpha (dadd (dmul current alpha) (dmul prev one_minus_alpha)) values"

definition exponential_moving_average :: "decimal list \<Rightarrow> nat \<Rightarrow> decimal list option" where
  "exponential_moving_average values period =
     (if period = 0 \<or> length values < period then None
      else let seed = ddiv (dsum (take period values)) (of_nat period);
               alpha = ddiv 2 (of_nat (period + 1)); one_minus_alpha = dsub 1 alpha
           in Some (ema_from alpha one_minus_alpha seed (drop period values)))"

fun diffs :: "decimal list \<Rightarrow> decimal list" where
  "diffs (a # b # xs) = dsub b a # diffs (b # xs)"
| "diffs _ = []"

definition gains :: "decimal list \<Rightarrow> decimal list" where
  "gains closes = map (\<lambda>d. if d \<ge> 0 then d else 0) (diffs closes)"

definition losses :: "decimal list \<Rightarrow> decimal list" where
  "losses closes = map (\<lambda>d. if d \<ge> 0 then 0 else dec_round (- d)) (diffs closes)"

text \<open>Wilder's smoothing: the mean of the first \<open>period\<close> values, then one step per further value.\<close>

definition wilder :: "nat \<Rightarrow> decimal list \<Rightarrow> decimal" where
  "wilder period values =
     foldl (\<lambda>avg x. ddiv (dadd (dmul avg (of_nat (period - 1))) x) (of_nat period))
       (ddiv (dsum (take period values)) (of_nat period)) (drop period values)"

definition relative_strength_index :: "decimal list \<Rightarrow> nat \<Rightarrow> decimal option" where
  "relative_strength_index closes period =
     (if period = 0 \<or> length closes < period + 1 then None
      else let avg_gain = wilder period (gains closes); avg_loss = wilder period (losses closes)
           in if avg_loss = 0 then (if avg_gain = 0 then Some 50 else Some 100)
              else let rs = ddiv avg_gain avg_loss
                   in Some (dsub 100 (ddiv 100 (dadd 1 rs))))"

definition compute_macd_at :: "decimal list \<Rightarrow> nat \<Rightarrow> nat \<Rightarrow> nat \<Rightarrow> decimal option \<times> decimal option" where
  "compute_macd_at closes fast_period slow_period signal_period =
     (if length closes < slow_period then (None, None)
      else case (exponential_moving_average closes fast_period, exponential_moving_average closes slow_period) of
        (Some fast_series, Some slow_series) \<Rightarrow>
          let aligned_fast = last_n (length slow_series) fast_series;
              macd_series = map (\<lambda>(f, s). dsub f s) (zip aligned_fast slow_series);
              macd_value = last macd_series
          in if length macd_series < signal_period then (Some macd_value, None)
             else (case exponential_moving_average macd_series signal_period of
                None \<Rightarrow> (Some macd_value, None)
              | Some signal_series \<Rightarrow> (Some macd_value, Some (last signal_series)))
      | _ \<Rightarrow> (None, None))"

definition compute_macd :: "decimal list \<Rightarrow> decimal option \<times> decimal option" where
  "compute_macd closes = compute_macd_at closes 12 26 9"

definition compute_volume_ratio :: "int list \<Rightarrow> nat \<Rightarrow> decimal option" where
  "compute_volume_ratio volumes period =
     (if period = 0 \<or> length volumes < period + 1 then None
      else let avg = ddiv (of_int (sum_list (before_last period volumes))) (of_nat period)
           in if avg = 0 then None else Some (ddiv (of_int (last volumes)) avg))"

definition compute_breakout :: "decimal list \<Rightarrow> nat \<Rightarrow> decimal \<Rightarrow> bool option" where
  "compute_breakout highs period today_close =
     (if period = 0 \<or> length highs < period + 1 then None
      else Some (Max (set (before_last period highs)) < today_close))"

subsection \<open>Alignment of the averages\<close>

datatype ma_alignment = PERFECT_BULL | BULL | RECOVER | MIXED | BEAR | PERFECT_BEAR

definition alignment_name :: "ma_alignment \<Rightarrow> string" where
  "alignment_name a = (case a of PERFECT_BULL \<Rightarrow> ''PERFECT_BULL'' | BULL \<Rightarrow> ''BULL'' | RECOVER \<Rightarrow> ''RECOVER''
     | MIXED \<Rightarrow> ''MIXED'' | BEAR \<Rightarrow> ''BEAR'' | PERFECT_BEAR \<Rightarrow> ''PERFECT_BEAR'')"

definition classify_ma_alignment ::
  "decimal option \<Rightarrow> decimal option \<Rightarrow> decimal option \<Rightarrow> decimal option \<Rightarrow> decimal option \<Rightarrow> ma_alignment option" where
  "classify_ma_alignment close' ma5 ma20 ma60 ma120 =
     (case (ma5, ma20, ma60) of
        (Some m5, Some m20, Some m60) \<Rightarrow>
          if m20 < m5 \<and> m60 < m20 then
            (if (case ma120 of None \<Rightarrow> False | Some m120 \<Rightarrow> m120 < m60) then Some PERFECT_BULL else Some BULL)
          else if m5 < m20 \<and> m20 < m60 then
            (if (case ma120 of None \<Rightarrow> False | Some m120 \<Rightarrow> m60 < m120) then Some PERFECT_BEAR else Some BEAR)
          else if (case close' of None \<Rightarrow> False | Some c \<Rightarrow> m20 < c) \<and> m20 < m60 then Some RECOVER
          else Some MIXED
      | _ \<Rightarrow> None)"

subsection \<open>Volatility and candles\<close>

definition dabs :: "decimal \<Rightarrow> decimal" where
  "dabs x = dec_round \<bar>x\<bar>"

fun true_ranges :: "bar list \<Rightarrow> decimal list" where
  "true_ranges (a # b # bars) =
     max (dsub (br_high b) (br_low b)) (max (dabs (dsub (br_high b) (br_close a))) (dabs (dsub (br_low b) (br_close a))))
     # true_ranges (b # bars)"
| "true_ranges _ = []"

definition compute_atr :: "bar list \<Rightarrow> nat \<Rightarrow> decimal option" where
  "compute_atr bars period =
     (if period = 0 \<or> length bars < period + 1 then None
      else let trs = true_ranges (sort_key br_date bars)
           in if length trs < period then None else Some (wilder period trs))"

definition body_of :: "bar \<Rightarrow> decimal" where
  "body_of b = dabs (dsub (br_close b) (br_open b))"

definition range_of :: "bar \<Rightarrow> decimal" where
  "range_of b = dsub (br_high b) (br_low b)"

definition upper_shadow :: "bar \<Rightarrow> decimal" where
  "upper_shadow b = dsub (br_high b) (max (br_open b) (br_close b))"

definition lower_shadow :: "bar \<Rightarrow> decimal" where
  "lower_shadow b = dsub (min (br_open b) (br_close b)) (br_low b)"

definition detect_doji :: "bar \<Rightarrow> bool" where
  "detect_doji b = (if br_close b \<le> 0 then False else body_of b \<le> ddiv (dmul (br_close b) (1 / 10)) 100)"

definition detect_hammer :: "bar \<Rightarrow> bool" where
  "detect_hammer b =
     (let rng = range_of b; body = body_of b
      in if rng = 0 \<or> body = 0 then False
         else ddiv body rng \<le> 34 / 100 \<and> dmul body 2 \<le> lower_shadow b \<and> upper_shadow b \<le> body)"

definition detect_shooting_star :: "bar \<Rightarrow> bool" where
  "detect_shooting_star b =
     (let rng = range_of b; body = body_of b
      in if rng = 0 \<or> body = 0 then False
         else ddiv body rng \<le> 34 / 100 \<and> dmul body 2 \<le> upper_shadow b \<and> lower_shadow b \<le> body)"

definition detect_bullish_engulfing :: "bar \<Rightarrow> bar \<Rightarrow> bool" where
  "detect_bullish_engulfing prev this_bar =
     (if br_open prev \<le> br_close prev then False
      else if br_close this_bar \<le> br_open this_bar then False
      else br_open this_bar \<le> br_close prev \<and> br_open prev \<le> br_close this_bar)"

definition detect_bearish_engulfing :: "bar \<Rightarrow> bar \<Rightarrow> bool" where
  "detect_bearish_engulfing prev this_bar =
     (if br_close prev \<le> br_open prev then False
      else if br_open this_bar \<le> br_close this_bar then False
      else br_close prev \<le> br_open this_bar \<and> br_close this_bar \<le> br_open prev)"

datatype candle = DOJI | HAMMER | SHOOTING_STAR | BULLISH_ENGULFING | BEARISH_ENGULFING

definition fires :: "bool \<Rightarrow> 'a \<Rightarrow> 'a list" where
  "fires b x = (if b then [x] else [])"

definition detect_candle_patterns :: "bar list \<Rightarrow> candle list" where
  "detect_candle_patterns bars =
     (if bars = [] then []
      else let ordered = sort_key br_date bars; last' = last ordered
           in fires (detect_doji last') DOJI @ fires (detect_hammer last') HAMMER @
              fires (detect_shooting_star last') SHOOTING_STAR @
              (if 2 \<le> length ordered then
                 let prev = last (butlast ordered)
                 in fires (detect_bullish_engulfing prev last') BULLISH_ENGULFING @
                    fires (detect_bearish_engulfing prev last') BEARISH_ENGULFING
               else []))"

datatype volatility = VOL_LOW | VOL_NORMAL | VOL_HIGH | VOL_EXTREME

definition classify_volatility :: "decimal option \<Rightarrow> decimal option \<Rightarrow> volatility option" where
  "classify_volatility atr14 latest_close =
     (case (atr14, latest_close) of
        (Some atr, Some close') \<Rightarrow>
          if close' \<le> 0 then None
          else let pct = dmul (ddiv atr close') 100
               in Some (if pct < 1 then VOL_LOW else if pct < 3 then VOL_NORMAL else if pct < 5 then VOL_HIGH else VOL_EXTREME)
      | _ \<Rightarrow> None)"

subsection \<open>The technical score\<close>

definition candle_points :: "candle \<Rightarrow> decimal" where
  "candle_points c = (case c of BULLISH_ENGULFING \<Rightarrow> 5 | HAMMER \<Rightarrow> 3 | DOJI \<Rightarrow> 0 | SHOOTING_STAR \<Rightarrow> - 3 | BEARISH_ENGULFING \<Rightarrow> - 5)"

definition candle_bonus :: "candle list option \<Rightarrow> decimal" where
  "candle_bonus patterns =
     (case patterns of None \<Rightarrow> 0
      | Some ps \<Rightarrow> if ps = [] then 0
          else let bonus = dsum (map candle_points ps) in if bonus > 5 then 5 else if bonus < - 5 then - 5 else bonus)"

definition volatility_bonus :: "volatility option \<Rightarrow> decimal" where
  "volatility_bonus band =
     (case band of None \<Rightarrow> 0 | Some VOL_LOW \<Rightarrow> 2 | Some VOL_NORMAL \<Rightarrow> 0 | Some VOL_HIGH \<Rightarrow> - 3 | Some VOL_EXTREME \<Rightarrow> - 5)"

definition trend_points :: "ma_alignment option \<Rightarrow> decimal" where
  "trend_points a = (case a of None \<Rightarrow> 0 | Some PERFECT_BULL \<Rightarrow> 30 | Some BULL \<Rightarrow> 22 | Some RECOVER \<Rightarrow> 15 | Some MIXED \<Rightarrow> 10
     | Some BEAR \<Rightarrow> 5 | Some PERFECT_BEAR \<Rightarrow> 0)"

definition volume_points :: "decimal option \<Rightarrow> decimal" where
  "volume_points ratio = (case ratio of None \<Rightarrow> 0
     | Some v \<Rightarrow> if v \<ge> 3 then 25 else if v \<ge> 2 then 20 else if v \<ge> 3 / 2 then 15 else if v \<ge> 6 / 5 then 10
         else if v \<ge> 1 then 5 else 0)"

definition breakout_points :: "bool option \<Rightarrow> bool option \<Rightarrow> decimal" where
  "breakout_points breakout_20d breakout_60d =
     (if breakout_60d = Some True then 25 else if breakout_20d = Some True then 15 else 0)"

definition rsi_points :: "decimal option \<Rightarrow> decimal" where
  "rsi_points rsi14 = (case rsi14 of None \<Rightarrow> 0
     | Some r \<Rightarrow> if 50 \<le> r \<and> r \<le> 70 then 10 else if 40 \<le> r \<and> r < 50 then 5 else if 30 \<le> r \<and> r < 40 then 2 else 0)"

definition macd_points :: "decimal option \<Rightarrow> decimal option \<Rightarrow> decimal" where
  "macd_points macd_value macd_signal =
     (case (macd_value, macd_signal) of (Some m, Some s) \<Rightarrow> if s < m then 10 else 0 | _ \<Rightarrow> 0)"

definition calculate_technical_score ::
  "ma_alignment option \<Rightarrow> decimal option \<Rightarrow> bool option \<Rightarrow> bool option \<Rightarrow> decimal option \<Rightarrow> decimal option \<Rightarrow>
   decimal option \<Rightarrow> candle list option \<Rightarrow> volatility option \<Rightarrow> decimal" where
  "calculate_technical_score ma_alignment volume_ratio_20d breakout_20d breakout_60d rsi14 macd_value macd_signal
     candle_patterns volatility_band =
     clamp_total (dsum [trend_points ma_alignment, volume_points volume_ratio_20d, breakout_points breakout_20d breakout_60d,
        rsi_points rsi14, macd_points macd_value macd_signal, candle_bonus candle_patterns, volatility_bonus volatility_band])"

subsection \<open>The snapshot\<close>

record indicator_snapshot =
  is_symbol :: string
  is_date :: int
  is_ma5 :: "decimal option"
  is_ma20 :: "decimal option"
  is_ma60 :: "decimal option"
  is_ma120 :: "decimal option"
  is_rsi14 :: "decimal option"
  is_macd :: "decimal option"
  is_macd_signal :: "decimal option"
  is_volume_ratio_20d :: "decimal option"
  is_breakout_20d :: "bool option"
  is_breakout_60d :: "bool option"
  is_ma_alignment :: "ma_alignment option"
  is_technical_score :: "decimal option"
  is_atr14 :: "decimal option"
  is_candle_patterns :: "candle list option"
  is_volatility_band :: "volatility option"

definition or_none :: "'a list \<Rightarrow> 'a list option" where
  "or_none xs = (if xs = [] then None else Some xs)"

definition analyze_latest :: "bar list \<Rightarrow> indicator_snapshot option" where
  "analyze_latest bars =
     (if bars = [] then None
      else let ordered = sort_key br_date bars; last' = last ordered;
               closes = map br_close ordered; highs = map br_high ordered; volumes = map br_volume ordered;
               ma5 = simple_moving_average closes 5; ma20 = simple_moving_average closes 20;
               ma60 = simple_moving_average closes 60; ma120 = simple_moving_average closes 120;
               rsi14 = relative_strength_index closes 14;
               (macd_value, macd_signal_value) = compute_macd closes;
               volume_ratio = compute_volume_ratio volumes 20;
               breakout20 = compute_breakout highs 20 (br_close last');
               breakout60 = compute_breakout highs 60 (br_close last');
               alignment = classify_ma_alignment (Some (br_close last')) ma5 ma20 ma60 ma120;
               atr14_value = compute_atr ordered 14;
               patterns = detect_candle_patterns ordered;
               band = classify_volatility atr14_value (Some (br_close last'));
               score = calculate_technical_score alignment volume_ratio breakout20 breakout60 rsi14 macd_value
                 macd_signal_value (or_none patterns) band
           in Some \<lparr>is_symbol = br_symbol last', is_date = br_date last', is_ma5 = map_option (quant_up 4) ma5,
                is_ma20 = map_option (quant_up 4) ma20, is_ma60 = map_option (quant_up 4) ma60,
                is_ma120 = map_option (quant_up 4) ma120, is_rsi14 = map_option (quant_up 4) rsi14,
                is_macd = map_option (quant_up 4) macd_value, is_macd_signal = map_option (quant_up 4) macd_signal_value,
                is_volume_ratio_20d = map_option (quant_up 4) volume_ratio, is_breakout_20d = breakout20,
                is_breakout_60d = breakout60, is_ma_alignment = alignment, is_technical_score = Some (quant_up 4 score),
                is_atr14 = map_option (quant_up 4) atr14_value, is_candle_patterns = or_none patterns,
                is_volatility_band = band\<rparr>)"

end
