(* ===== verification/Technical_Facts.thy ===== *)
theory Technical_Facts
  imports Technical Scoring_Facts "HOL-Library.Multiset"
begin

text \<open>
  Facts about the technical analyzer: the values of a snapshot are in their ranges and are missing
  exactly when the history is too short, and a snapshot does not depend on the order in which the
  bars are given.
\<close>

subsection \<open>Signs and ranges\<close>

lemma diffs_length: "length (diffs xs) = length xs - 1"
  by (induction xs rule: diffs.induct) auto

lemma ema_length: "length (ema_from a b p xs) = Suc (length xs)"
  by (induction xs arbitrary: p) auto

lemma ema_nonempty: "ema_from a b p xs \<noteq> []"
  by (cases xs) auto

lemma ema_series_length:
  "exponential_moving_average xs n = Some ys \<Longrightarrow> length ys = length xs - n + 1"
  by (auto simp: exponential_moving_average_def ema_length Let_def split: if_splits)

lemma ema_series_exists: "0 < n \<Longrightarrow> n \<le> length xs \<Longrightarrow> \<exists>ys. exponential_moving_average xs n = Some ys"
  by (simp add: exponential_moving_average_def Let_def)

lemma smoothing_nonneg:
  "0 \<le> c \<Longrightarrow> 0 \<le> m \<Longrightarrow> 0 \<le> avg \<Longrightarrow> \<forall>x \<in> set xs. 0 \<le> x \<Longrightarrow>
   0 \<le> foldl (\<lambda>avg x. ddiv (dadd (dmul avg c) x) m) avg xs"
  by (induction xs arbitrary: avg) (simp_all add: ddiv_nonneg dadd_nonneg dmul_nonneg)

lemma wilder_nonneg: "0 < n \<Longrightarrow> \<forall>x \<in> set xs. 0 \<le> x \<Longrightarrow> 0 \<le> wilder n xs"
  unfolding wilder_def
  by (rule smoothing_nonneg) (auto intro!: ddiv_nonneg dsum_nonneg dest: in_set_takeD in_set_dropD)

lemma gains_losses_nonneg: "\<forall>x \<in> set (gains xs). 0 \<le> x" "\<forall>x \<in> set (losses xs). 0 \<le> x"
  by (auto simp: gains_def losses_def intro: dec_round_nonneg)

lemma rsi_range: "relative_strength_index closes n = Some r \<Longrightarrow> 0 \<le> r \<and> r \<le> 100"
proof -
  assume r: "relative_strength_index closes n = Some r"
  then have n: "0 < n" by (auto simp: relative_strength_index_def split: if_splits)
  let ?g = "wilder n (gains closes)" and ?l = "wilder n (losses closes)"
  have g: "0 \<le> ?g" "0 \<le> ?l" using wilder_nonneg [OF n] gains_losses_nonneg by blast+
  consider "r = 50" | "r = 100" | "?l \<noteq> 0" "r = dsub 100 (ddiv 100 (dadd 1 (ddiv ?g ?l)))"
    using r by (auto simp: relative_strength_index_def Let_def split: if_splits)
  then show ?thesis
  proof cases
    case 3
    have one: "dec_rep (1 :: rat)" "dec_rep (100 :: rat)"
      using dec_rep_of_int [of 1] dec_rep_of_int [of 100] by simp_all
    have ge1: "1 \<le> dadd 1 (ddiv ?g ?l)" using g by (intro dadd_ge one ddiv_nonneg)
    then have "0 \<le> ddiv 100 (dadd 1 (ddiv ?g ?l))" by (intro ddiv_nonneg) auto
    moreover have "100 / dadd 1 (ddiv ?g ?l) \<le> 100" using ge1 by (simp add: divide_le_eq)
    then have "ddiv 100 (dadd 1 (ddiv ?g ?l)) \<le> 100"
      unfolding ddiv_def using dec_round_mono [of _ 100] dec_round_exact [OF one(2)] by metis
    ultimately show ?thesis
      using 3(2) dsub_nonneg [of _ 100] dsub_le [OF one(2)] by simp
  qed simp_all
qed

lemma rsi_None: "relative_strength_index closes n = None \<longleftrightarrow> n = 0 \<or> length closes < n + 1"
  by (simp add: relative_strength_index_def Let_def)

lemma sma_None: "simple_moving_average closes n = None \<longleftrightarrow> n = 0 \<or> length closes < n"
  by (simp add: simple_moving_average_def)

lemma macd_None:
  "fst (compute_macd closes) = None \<longleftrightarrow> length closes < 26"
  "snd (compute_macd closes) = None \<longleftrightarrow> length closes < 34"
proof -
  show "fst (compute_macd closes) = None \<longleftrightarrow> length closes < 26"
  proof (cases "length closes < 26")
    case False
    obtain f s where f: "exponential_moving_average closes 12 = Some f" "exponential_moving_average closes 26 = Some s"
      using ema_series_exists [of 12 closes] ema_series_exists [of 26 closes] False by auto
    then show ?thesis using False
      by (simp add: compute_macd_def compute_macd_at_def Let_def split: option.splits)
  qed (simp add: compute_macd_def compute_macd_at_def)
  show "snd (compute_macd closes) = None \<longleftrightarrow> length closes < 34"
  proof (cases "length closes < 26")
    case False
    obtain f s where f: "exponential_moving_average closes 12 = Some f" "exponential_moving_average closes 26 = Some s"
      using ema_series_exists [of 12 closes] ema_series_exists [of 26 closes] False by auto
    have len: "length f = length closes - 12 + 1" "length s = length closes - 26 + 1"
      using f ema_series_length by blast+
    let ?m = "map (\<lambda>(f, s). dsub f s) (zip (last_n (length s) f) s)"
    have m: "length ?m = length closes - 25" using len False by (simp add: last_n_def)
    show ?thesis
    proof (cases "length ?m < 9")
      case True
      then show ?thesis using f m False by (simp add: compute_macd_def compute_macd_at_def Let_def)
    next
      case no: False
      then have "9 \<le> length ?m" by linarith
      from ema_series_exists [OF _ this] obtain g where "exponential_moving_average ?m 9 = Some g" by auto
      then show ?thesis using f no m False by (simp add: compute_macd_def compute_macd_at_def Let_def)
    qed
  qed (simp add: compute_macd_def compute_macd_at_def)
qed

lemma breakout_None: "compute_breakout highs n c = None \<longleftrightarrow> n = 0 \<or> length highs < n + 1"
  by (simp add: compute_breakout_def)

lemma true_ranges_length: "length (true_ranges bars) = length bars - 1"
  by (induction bars rule: true_ranges.induct) auto

lemma dabs_nonneg: "0 \<le> dabs x"
  by (simp add: dabs_def dec_round_nonneg)

lemma true_ranges_nonneg: "x \<in> set (true_ranges bars) \<Longrightarrow> 0 \<le> x"
  by (induction bars rule: true_ranges.induct) (auto simp: dabs_nonneg le_max_iff_disj)

lemma sorted_le_last: "sorted (xs :: int list) \<Longrightarrow> x \<in> set xs \<Longrightarrow> x \<le> last xs"
  by (induction xs) auto

lemma atr_None: "compute_atr bars n = None \<longleftrightarrow> n = 0 \<or> length bars < n + 1"
  by (auto simp: compute_atr_def Let_def true_ranges_length)

lemma atr_nonneg: "compute_atr bars n = Some a \<Longrightarrow> 0 \<le> a"
  using true_ranges_nonneg by (auto simp: compute_atr_def Let_def split: if_splits intro!: wilder_nonneg)

lemma technical_score_range:
  "0 \<le> calculate_technical_score a b c d e f g h i" "calculate_technical_score a b c d e f g h i \<le> 100"
  by (simp_all add: calculate_technical_score_def clamp_total_bounds)

definition in_percent :: "decimal option \<Rightarrow> bool" where
  "in_percent x \<longleftrightarrow> (case x of None \<Rightarrow> True | Some v \<Rightarrow> 0 \<le> v \<and> v \<le> 100)"

lemma in_percent_quant: "in_percent x \<Longrightarrow> in_percent (map_option (quant_up 4) x)"
  using quant_up_bounds [of 0 _ 100 4] by (auto simp: in_percent_def split: option.splits)

lemma analyze_fields:
  assumes "analyze_latest bars = Some s"
  defines "ordered \<equiv> sort_key br_date bars"
  shows "is_ma5 s = map_option (quant_up 4) (simple_moving_average (map br_close ordered) 5)"
    "is_ma20 s = map_option (quant_up 4) (simple_moving_average (map br_close ordered) 20)"
    "is_ma60 s = map_option (quant_up 4) (simple_moving_average (map br_close ordered) 60)"
    "is_ma120 s = map_option (quant_up 4) (simple_moving_average (map br_close ordered) 120)"
    "is_rsi14 s = map_option (quant_up 4) (relative_strength_index (map br_close ordered) 14)"
    "is_macd s = map_option (quant_up 4) (fst (compute_macd (map br_close ordered)))"
    "is_macd_signal s = map_option (quant_up 4) (snd (compute_macd (map br_close ordered)))"
    "is_breakout_20d s = compute_breakout (map br_high ordered) 20 (br_close (last ordered))"
    "is_breakout_60d s = compute_breakout (map br_high ordered) 60 (br_close (last ordered))"
    "is_atr14 s = map_option (quant_up 4) (compute_atr ordered 14)"
    "\<exists>v. is_technical_score s = Some (quant_up 4 v) \<and> 0 \<le> v \<and> v \<le> 100"
    "is_date s = br_date (last ordered)"
  using assms technical_score_range
  by (auto simp: analyze_latest_def Let_def split_beta split: if_splits)


definition demo_bars :: "bar list" where
  "demo_bars = map (\<lambda>i. \<lparr>br_symbol = ''005930'', br_date = int i, br_open = 100, br_high = 110, br_low = 90,
     br_close = of_nat (100 + i mod 3), br_volume = 1000, br_trading_value = None\<rparr>) [2, 0, 1]"


subsection \<open>Independence of the order\<close>

text \<open>
  The analyzer gives the same snapshot for every order of the same bars, provided no two bars
  have the same date.
\<close>

lemma analyze_order_free:
  assumes "mset bars = mset bars'" and "distinct (map br_date bars)"
  shows "analyze_latest bars = analyze_latest bars'"
proof -
  have "inj_on br_date (set bars)" using assms(2) by (simp add: distinct_map)
  moreover have "mset bars = mset (sort_key br_date bars')" using assms(1) by simp
  ultimately have "sort_key br_date bars = sort_key br_date bars'"
    by (intro sort_key_inj_key_eq) simp_all
  moreover have "bars = [] \<longleftrightarrow> bars' = []" using assms(1) by (metis mset_zero_iff)
  ultimately show ?thesis unfolding analyze_latest_def by (simp only:)
qed

lemma analyze_order_free_witness:
  "analyze_latest demo_bars = analyze_latest (rev demo_bars)"
  by (rule analyze_order_free) (simp_all add: demo_bars_def)

end
