(* ===== verification/Research_Tables.thy ===== *)
theory Research_Tables
  imports Paper_Ledger "HOL-Library.Product_Lexorder"
begin

text \<open>
  The research side of the database: stocks, indicators, universes, news, fundamentals, earnings,
  analyst reports, recommendations and their results, holdings and their checks, snapshots and
  decision logs (the rows of \<^verbatim>\<open>app/db/models.py\<close>), and the repositories of
  \<^verbatim>\<open>app/data/repositories\<close> that read and write them. The trading session is a part of the
  state, because the daily prices live there.

  In a \<open>json\<close> value, which is what a JSON column holds, \<open>JDec d\<close> stands for the text \<open>str(d)\<close> of a
  decimal, whose digits the model does not spell out. The reasons of recommendations and checks
  are Korean sentences; the model keeps what they state. Where an \<open>ORDER BY\<close> leaves the order of
  rows open, the model takes the order of insertion.
\<close>

definition json_opt :: "('a \<Rightarrow> json) \<Rightarrow> 'a option \<Rightarrow> json" where
  "json_opt f x = (case x of None \<Rightarrow> JNull | Some v \<Rightarrow> f v)"

text \<open>\<open>{**base, **more}\<close>: a later binding replaces an earlier one in place.\<close>

fun dict_put :: "('k \<times> 'a) list \<Rightarrow> 'k \<times> 'a \<Rightarrow> ('k \<times> 'a) list" where
  "dict_put [] (k, v) = [(k, v)]"
| "dict_put ((k', v') # d) (k, v) = (if k' = k then (k, v) # d else (k', v') # dict_put d (k, v))"

definition dict_merge :: "(string \<times> 'a) list \<Rightarrow> (string \<times> 'a) list \<Rightarrow> (string \<times> 'a) list" where
  "dict_merge base extra = foldl dict_put base extra"

subsection \<open>Rows\<close>

record stock =
  st_id :: int
  st_market :: string
  st_symbol :: string
  st_name :: string
  st_sector :: "string option"

record holding =
  ho_id :: int
  ho_symbol :: string
  ho_quantity :: decimal
  ho_avg_buy_price :: decimal
  ho_is_active :: bool

record stock_indicator =
  si_id :: int
  si_symbol :: string
  si_date :: int
  si_ma5 :: "decimal option"
  si_ma20 :: "decimal option"
  si_ma60 :: "decimal option"
  si_ma120 :: "decimal option"
  si_rsi14 :: "decimal option"
  si_macd :: "decimal option"
  si_macd_signal :: "decimal option"
  si_volume_ratio_20d :: "decimal option"
  si_breakout_20d :: "bool option"
  si_breakout_60d :: "bool option"
  si_ma_alignment :: "string option"
  si_technical_score :: "decimal option"
  si_atr14 :: "decimal option"
  si_candle_patterns :: "string list option"
  si_volatility_band :: "string option"

record stock_universe =
  un_universe_id :: int
  un_name :: string
  un_description :: "string option"

record universe_member =
  um_id :: int
  um_universe_id :: int
  um_symbol :: string
  um_reason :: "string option"

record news_item =
  nw_id :: int
  nw_published_at :: int
  nw_available_at :: "int option"
  nw_source :: string
  nw_title :: string
  nw_url :: "string option"
  nw_related_symbols :: "string list option"
  nw_sentiment :: "string option"
  nw_importance :: "string option"
  nw_theme :: "string option"
  nw_category :: "string option"

record market_regime =
  mr_id :: int
  mr_date :: int
  mr_market :: string
  mr_regime :: string

record data_snapshot =
  ds_snapshot_id :: int
  ds_snapshot_time :: int
  ds_symbol :: string
  ds_snapshot_type :: string
  ds_price_data :: json
  ds_indicator_data :: json
  ds_market_context :: json

record recommendation_run =
  rn_run_id :: int
  rn_run_date :: int
  rn_started_at :: int
  rn_finished_at :: "int option"
  rn_market_summary :: json
  rn_status :: string
  rn_telegram_sent :: bool

text \<open>What the reason of a row states.\<close>

datatype reason = WatchCandidate "decimal option" "string option" "decimal option"
  | HoldingReason string "decimal option" decimal "string list"

record recommendation =
  rc_id :: int
  rc_run_id :: int
  rc_rank :: int
  rc_market :: string
  rc_symbol :: string
  rc_name :: string
  rc_grade :: "string option"
  rc_total_score :: "decimal option"
  rc_technical_score :: "decimal option"
  rc_news_score :: "decimal option"
  rc_supply_score :: "decimal option"
  rc_fundamental_score :: "decimal option"
  rc_ai_score :: "decimal option"
  rc_risk_score :: "decimal option"
  rc_reason :: reason
  rc_risk_note :: string
  rc_snapshot_id :: "int option"

record recommendation_result =
  rr_id :: int
  rr_recommendation_id :: int
  rr_days_after :: int
  rr_result_date :: int
  rr_open_return :: "decimal option"
  rr_high_return :: "decimal option"
  rr_low_return :: "decimal option"
  rr_close_return :: "decimal option"
  rr_max_return :: "decimal option"
  rr_max_drawdown :: "decimal option"
  rr_result_status :: "string option"

record holding_check =
  hc_id :: int
  hc_check_date :: int
  hc_check_type :: string
  hc_symbol :: string
  hc_current_price :: "decimal option"
  hc_avg_buy_price :: "decimal option"
  hc_return_rate :: "decimal option"
  hc_technical_score :: "decimal option"
  hc_news_score :: "decimal option"
  hc_earnings_score :: "decimal option"
  hc_ai_score :: "decimal option"
  hc_risk_score :: "decimal option"
  hc_total_score :: "decimal option"
  hc_grade :: "string option"
  hc_decision :: "string option"
  hc_reason :: "reason option"
  hc_alert :: bool
  hc_snapshot_id :: "int option"

record decision_log =
  dl_decision_id :: int
  dl_decision_type :: string
  dl_symbol :: string
  dl_input_snapshot_id :: "int option"
  dl_rule_result :: json
  dl_risk_result :: json
  dl_final_decision :: string
  dl_reason :: reason

record fundamental =
  fs_id :: int
  fs_symbol :: string
  fs_snapshot_date :: int
  fs_fiscal_year :: int
  fs_fiscal_quarter :: "int option"
  fs_per :: "decimal option"
  fs_pbr :: "decimal option"
  fs_roe :: "decimal option"
  fs_debt_ratio :: "decimal option"
  fs_dividend_yield :: "decimal option"
  fs_revenue_growth_yoy :: "decimal option"
  fs_operating_income_growth_yoy :: "decimal option"

record earnings_event =
  ee_id :: int
  ee_symbol :: string
  ee_event_date :: int
  ee_fiscal_year :: int
  ee_fiscal_quarter :: "int option"
  ee_event_type :: string
  ee_operating_income_actual :: "decimal option"
  ee_operating_income_consensus :: "decimal option"
  ee_surprise_type :: "string option"
  ee_surprise_pct :: "decimal option"

record report_theme =
  rt_id :: int
  rt_theme_name :: string
  rt_theme_category :: string

record theme_mapping =
  tm_id :: int
  tm_theme_id :: int
  tm_symbol :: string
  tm_impact_direction :: string
  tm_impact_strength :: "decimal option"
  tm_impact_path :: "string option"
  tm_reason :: "string option"

record signal_event =
  se_id :: int
  se_symbol :: "string option"
  se_event_type :: string
  se_direction :: string
  se_strength :: "decimal option"
  se_summary :: "string option"

record consensus =
  cs_id :: int
  cs_symbol :: string
  cs_snapshot_date :: int
  cs_window_days :: int
  cs_report_count :: int
  cs_avg_target_price :: "decimal option"
  cs_strong_buy_count :: int
  cs_buy_count :: int
  cs_hold_count :: int
  cs_sell_count :: int
  cs_strong_sell_count :: int
  cs_latest_published_at :: "int option"

record score_log =
  sl_id :: int
  sl_symbol :: string
  sl_score_date :: int
  sl_report_count :: int
  sl_evidence :: json
  sl_report_score :: "decimal option"
  sl_theme_signal_score :: "decimal option"
  sl_theme_count :: "int option"
  sl_signal_event_count :: "int option"
  sl_target_upside_pct :: "decimal option"
  sl_rating_score_avg :: "decimal option"
  sl_recency_bonus :: "decimal option"
  sl_theme_signal_bonus :: "decimal option"
  sl_event_signal_bonus :: "decimal option"
  sl_risk_penalty :: "decimal option"
  sl_recommendation_run_id :: "int option"

text \<open>A value for each of the horizons of 1, 3, 5 and 20 days.\<close>

record 'a by_horizon =
  hz_1d :: 'a
  hz_3d :: 'a
  hz_5d :: 'a
  hz_20d :: 'a

record backtest_run =
  bq_id :: int
  bq_strategy_name :: string
  bq_strategy_version :: string
  bq_run_date :: int
  bq_start_date :: "int option"
  bq_end_date :: "int option"
  bq_signal_count :: nat
  bq_buy_count :: nat
  bq_avoid_count :: nat
  bq_pass_count :: nat
  bq_win_rate :: "decimal option by_horizon"
  bq_avg_return :: "decimal option by_horizon"
  bq_max_drawdown :: "decimal option"
  bq_status :: string
  bq_error_message :: "string option"
  bq_config :: json
  bq_summary :: json

record backtest_result =
  bt_id :: int
  bt_run_id :: int
  bt_symbol :: string
  bt_recommendation_id :: "int option"
  bt_recommendation_result_id :: "int option"
  bt_signal_action :: string
  bt_confidence :: "decimal option"
  bt_reason :: "text_t option"
  bt_grade :: "string option"
  bt_total_score :: "decimal option"
  bt_returns :: "decimal option by_horizon"
  bt_max_drawdown :: "decimal option"
  bt_result_status :: "string option"
  bt_cost_adjusted_return_5d :: "decimal option"
  bt_regime :: "string option"
  bt_evidence :: json

record research =
  rs_session :: session
  rs_stocks :: "stock list"
  rs_holdings :: "holding list"
  rs_indicators :: "stock_indicator list"
  rs_universes :: "stock_universe list"
  rs_members :: "universe_member list"
  rs_news :: "news_item list"
  rs_regimes :: "market_regime list"
  rs_data_snapshots :: "data_snapshot list"
  rs_runs :: "recommendation_run list"
  rs_recommendations :: "recommendation list"
  rs_results :: "recommendation_result list"
  rs_checks :: "holding_check list"
  rs_decisions :: "decision_log list"
  rs_fundamentals :: "fundamental list"
  rs_earnings :: "earnings_event list"
  rs_themes :: "report_theme list"
  rs_theme_mappings :: "theme_mapping list"
  rs_signal_events :: "signal_event list"
  rs_consensus :: "consensus list"
  rs_score_logs :: "score_log list"
  rs_backtest_runs :: "backtest_run list"
  rs_backtest_results :: "backtest_result list"

type_synonym 'a rdb = "(research, py_error, 'a) action"

text \<open>An operation on the trading session, run inside the larger state.\<close>

definition in_session :: "'a db \<Rightarrow> 'a rdb" where
  "in_session m = (\<lambda>d. case m (rs_session d) of (r, s) \<Rightarrow> (r, d\<lparr>rs_session := s\<rparr>))"

definition research_now :: "int rdb" where
  "research_now = sgets (\<lambda>d. sn_now (rs_session d))"

subsection \<open>Repositories of market data\<close>

definition stock_get_by_symbol :: "string \<Rightarrow> stock option rdb" where
  "stock_get_by_symbol symbol = sgets (\<lambda>d. find (\<lambda>s. st_symbol s = symbol) (rs_stocks d))"

definition stock_upsert :: "string \<Rightarrow> string \<Rightarrow> string \<Rightarrow> string option \<Rightarrow> bool rdb" where
  "stock_upsert symbol market name sector =
     sbind (stock_get_by_symbol symbol) (\<lambda>existing.
     case existing of
       None \<Rightarrow> sbind (smodify (\<lambda>d. d\<lparr>rs_stocks := rs_stocks d @ [\<lparr>st_id = t_next st_id (rs_stocks d), st_market = market,
           st_symbol = symbol, st_name = name, st_sector = sector\<rparr>]\<rparr>)) (\<lambda>_. sret True)
     | Some s \<Rightarrow> sbind (smodify (\<lambda>d. d\<lparr>rs_stocks := t_upd st_id (st_id s) (\<lambda>r. r\<lparr>st_market := market, st_name := name,
           st_sector := (case sector of None \<Rightarrow> st_sector r | Some x \<Rightarrow> Some x)\<rparr>) (rs_stocks d)\<rparr>)) (\<lambda>_. sret False))"

definition indicator_get_by_symbol_date :: "string \<Rightarrow> int \<Rightarrow> stock_indicator option rdb" where
  "indicator_get_by_symbol_date symbol indicator_date =
     sgets (\<lambda>d. find (\<lambda>i. si_symbol i = symbol \<and> si_date i = indicator_date) (rs_indicators d))"

definition indicator_get_latest_by_symbol :: "string \<Rightarrow> stock_indicator option rdb" where
  "indicator_get_latest_by_symbol symbol =
     sgets (\<lambda>d. latest_by si_date (filter (\<lambda>i. si_symbol i = symbol) (rs_indicators d)))"

text \<open>The row carries the values to store; its id is the one the database gives.\<close>

definition indicator_upsert :: "stock_indicator \<Rightarrow> unit rdb" where
  "indicator_upsert row =
     sbind (indicator_get_by_symbol_date (si_symbol row) (si_date row)) (\<lambda>existing.
     smodify (\<lambda>d. d\<lparr>rs_indicators := (case existing of
         None \<Rightarrow> rs_indicators d @ [row\<lparr>si_id := t_next si_id (rs_indicators d)\<rparr>]
       | Some e \<Rightarrow> t_upd si_id (si_id e) (\<lambda>r. row\<lparr>si_id := si_id r\<rparr>) (rs_indicators d))\<rparr>))"

definition universe_get_by_name :: "string \<Rightarrow> stock_universe option rdb" where
  "universe_get_by_name name = sgets (\<lambda>d. find (\<lambda>u. un_name u = name) (rs_universes d))"

definition universe_get_or_create :: "string \<Rightarrow> string option \<Rightarrow> (int \<times> bool) rdb" where
  "universe_get_or_create name description =
     sbind (universe_get_by_name name) (\<lambda>existing.
     case existing of
       Some u \<Rightarrow> sret (un_universe_id u, False)
     | None \<Rightarrow> (\<lambda>d. let i = t_next un_universe_id (rs_universes d)
         in (Inr (i, True), d\<lparr>rs_universes := rs_universes d @
              [\<lparr>un_universe_id = i, un_name = name, un_description = description\<rparr>]\<rparr>)))"

definition member_list_by_universe :: "int \<Rightarrow> universe_member list rdb" where
  "member_list_by_universe universe_id =
     sgets (\<lambda>d. sort_key um_symbol (filter (\<lambda>m. um_universe_id m = universe_id) (rs_members d)))"

definition member_find :: "int \<Rightarrow> string \<Rightarrow> universe_member option rdb" where
  "member_find universe_id symbol =
     sgets (\<lambda>d. find (\<lambda>m. um_universe_id m = universe_id \<and> um_symbol m = symbol) (rs_members d))"

definition member_add_if_missing :: "int \<Rightarrow> string \<Rightarrow> string option \<Rightarrow> bool rdb" where
  "member_add_if_missing universe_id symbol why =
     sbind (member_find universe_id symbol) (\<lambda>existing.
     case existing of
       Some m \<Rightarrow> sret False
     | None \<Rightarrow> sbind (smodify (\<lambda>d. d\<lparr>rs_members := rs_members d @ [\<lparr>um_id = t_next um_id (rs_members d),
         um_universe_id = universe_id, um_symbol = symbol, um_reason = why\<rparr>]\<rparr>)) (\<lambda>_. sret True))"

definition holding_get_active_by_symbol :: "string \<Rightarrow> holding option rdb" where
  "holding_get_active_by_symbol symbol = (\<lambda>d.
     case filter (\<lambda>h. ho_symbol h = symbol \<and> ho_is_active h) (rs_holdings d) of
       [] \<Rightarrow> (Inr None, d) | [h] \<Rightarrow> (Inr (Some h), d) | _ \<Rightarrow> (Inl MultipleResultsFound, d))"

definition holding_list_active :: "holding list rdb" where
  "holding_list_active = sgets (\<lambda>d. filter ho_is_active (rs_holdings d))"

definition regime_get_by_date_market :: "int \<Rightarrow> string \<Rightarrow> market_regime option rdb" where
  "regime_get_by_date_market regime_date market =
     sgets (\<lambda>d. find (\<lambda>r. mr_date r = regime_date \<and> mr_market r = market) (rs_regimes d))"

definition regime_latest :: "string option \<Rightarrow> market_regime option rdb" where
  "regime_latest market = sgets (\<lambda>d. latest_by mr_date
     (filter (\<lambda>r. case market of None \<Rightarrow> True | Some m \<Rightarrow> mr_market r = m) (rs_regimes d)))"

subsection \<open>Repositories of news, fundamentals and earnings\<close>

definition news_newest :: "news_item list \<Rightarrow> news_item list" where
  "news_newest rows = sort_key (\<lambda>n. - nw_published_at n) rows"

definition since_ok :: "int option \<Rightarrow> news_item \<Rightarrow> bool" where
  "since_ok since n = (case since of None \<Rightarrow> True | Some t \<Rightarrow> t \<le> nw_published_at n)"

definition news_list_by_time_range :: "int \<Rightarrow> int \<Rightarrow> news_item list rdb" where
  "news_list_by_time_range start_time end_time =
     sgets (\<lambda>d. news_newest (filter (\<lambda>n. start_time \<le> nw_published_at n \<and> nw_published_at n \<le> end_time) (rs_news d)))"

definition news_get_by_url :: "string \<Rightarrow> news_item option rdb" where
  "news_get_by_url url = sgets (\<lambda>d. find (\<lambda>n. nw_url n = Some url) (rs_news d))"

definition news_upsert_by_url :: "string \<Rightarrow> news_item \<Rightarrow> bool rdb" where
  "news_upsert_by_url url row =
     sbind (srequire (url \<noteq> []) (ValueError [T ''upsert_by_url requires a non-empty url''])) (\<lambda>_.
     sbind (news_get_by_url url) (\<lambda>existing.
     case existing of
       Some n \<Rightarrow> sret False
     | None \<Rightarrow> sbind (smodify (\<lambda>d. d\<lparr>rs_news := rs_news d @
         [row\<lparr>nw_id := t_next nw_id (rs_news d), nw_url := Some url\<rparr>]\<rparr>)) (\<lambda>_. sret True)))"

definition news_list_recent_by_symbol :: "string \<Rightarrow> int option \<Rightarrow> nat \<Rightarrow> news_item list rdb" where
  "news_list_recent_by_symbol symbol since limit =
     sgets (\<lambda>d. take limit (filter (\<lambda>n. case nw_related_symbols n of None \<Rightarrow> False | Some xs \<Rightarrow> symbol \<in> set xs)
       (news_newest (filter (since_ok since) (rs_news d)))))"

definition news_list_recent_by_category :: "string \<Rightarrow> int option \<Rightarrow> nat \<Rightarrow> news_item list rdb" where
  "news_list_recent_by_category category since limit =
     sgets (\<lambda>d. take limit (news_newest (filter (\<lambda>n. nw_category n = Some category \<and> since_ok since n) (rs_news d))))"

text \<open>\<open>NULL\<close> sorts below every quarter, as SQLite does.\<close>

definition quarter_rank :: "int option \<Rightarrow> int \<times> int" where
  "quarter_rank q = (case q of None \<Rightarrow> (0, 0) | Some x \<Rightarrow> (1, x))"

definition fundamental_newest :: "fundamental list \<Rightarrow> fundamental list" where
  "fundamental_newest rows = rev (sort_key (\<lambda>f. (fs_snapshot_date f, fs_fiscal_year f, quarter_rank (fs_fiscal_quarter f))) rows)"

definition fundamental_get_latest_by_symbol :: "string \<Rightarrow> fundamental option rdb" where
  "fundamental_get_latest_by_symbol symbol = sgets (\<lambda>d.
     case fundamental_newest (filter (\<lambda>f. fs_symbol f = symbol) (rs_fundamentals d)) of [] \<Rightarrow> None | f # _ \<Rightarrow> Some f)"

definition fundamental_list_recent_by_symbol :: "string \<Rightarrow> nat \<Rightarrow> fundamental list rdb" where
  "fundamental_list_recent_by_symbol symbol limit = sgets (\<lambda>d.
     take limit (fundamental_newest (filter (\<lambda>f. fs_symbol f = symbol) (rs_fundamentals d))))"

definition earnings_newest :: "earnings_event list \<Rightarrow> earnings_event list" where
  "earnings_newest rows = rev (sort_key (\<lambda>e. (ee_event_date e, ee_id e)) rows)"

definition earnings_get_latest_by_symbol :: "string \<Rightarrow> earnings_event option rdb" where
  "earnings_get_latest_by_symbol symbol = sgets (\<lambda>d.
     case earnings_newest (filter (\<lambda>e. ee_symbol e = symbol) (rs_earnings d)) of [] \<Rightarrow> None | e # _ \<Rightarrow> Some e)"

definition earnings_list_recent_by_symbol :: "string \<Rightarrow> nat \<Rightarrow> earnings_event list rdb" where
  "earnings_list_recent_by_symbol symbol limit = sgets (\<lambda>d.
     take limit (earnings_newest (filter (\<lambda>e. ee_symbol e = symbol) (rs_earnings d))))"

subsection \<open>Repositories of analyst reports\<close>

definition theme_mapping_list :: "(theme_mapping \<Rightarrow> bool) \<Rightarrow> nat \<Rightarrow> theme_mapping list rdb" where
  "theme_mapping_list P limit = sgets (\<lambda>d. take limit (rev (sort_key tm_id (filter P (rs_theme_mappings d)))))"

definition theme_mapping_get :: "int \<Rightarrow> string \<Rightarrow> theme_mapping option rdb" where
  "theme_mapping_get theme_id symbol =
     sgets (\<lambda>d. find (\<lambda>m. tm_theme_id m = theme_id \<and> tm_symbol m = symbol) (rs_theme_mappings d))"

text \<open>An existing mapping is returned as it is.\<close>

definition theme_mapping_upsert :: "theme_mapping \<Rightarrow> int rdb" where
  "theme_mapping_upsert row =
     sbind (theme_mapping_get (tm_theme_id row) (tm_symbol row)) (\<lambda>existing.
     case existing of
       Some m \<Rightarrow> sret (tm_id m)
     | None \<Rightarrow> (\<lambda>d. let i = t_next tm_id (rs_theme_mappings d)
         in (Inr i, d\<lparr>rs_theme_mappings := rs_theme_mappings d @ [row\<lparr>tm_id := i\<rparr>]\<rparr>)))"

definition theme_mapping_list_by_theme :: "int \<Rightarrow> theme_mapping list rdb" where
  "theme_mapping_list_by_theme theme_id =
     sgets (\<lambda>d. sort_key tm_id (filter (\<lambda>m. tm_theme_id m = theme_id) (rs_theme_mappings d)))"

definition theme_mapping_list_by_symbol :: "string \<Rightarrow> theme_mapping list rdb" where
  "theme_mapping_list_by_symbol symbol = theme_mapping_list (\<lambda>m. tm_symbol m = symbol) 50"

definition theme_mapping_list_positive :: "string \<Rightarrow> nat \<Rightarrow> theme_mapping list rdb" where
  "theme_mapping_list_positive symbol limit =
     theme_mapping_list (\<lambda>m. tm_symbol m = symbol \<and> tm_impact_direction m = ''POSITIVE'') limit"

definition theme_mapping_list_negative :: "string \<Rightarrow> nat \<Rightarrow> theme_mapping list rdb" where
  "theme_mapping_list_negative symbol limit =
     theme_mapping_list (\<lambda>m. tm_symbol m = symbol \<and> tm_impact_direction m = ''NEGATIVE'') limit"

definition theme_mapping_list_by_impact_path :: "string \<Rightarrow> nat \<Rightarrow> theme_mapping list rdb" where
  "theme_mapping_list_by_impact_path impact_path limit = theme_mapping_list (\<lambda>m. tm_impact_path m = Some impact_path) limit"

definition signal_event_list :: "(signal_event \<Rightarrow> bool) \<Rightarrow> nat \<Rightarrow> signal_event list rdb" where
  "signal_event_list P limit = sgets (\<lambda>d. take limit (rev (sort_key se_id (filter P (rs_signal_events d)))))"

definition signal_event_list_by_symbol :: "string \<Rightarrow> signal_event list rdb" where
  "signal_event_list_by_symbol symbol = signal_event_list (\<lambda>e. se_symbol e = Some symbol) 50"

definition signal_event_list_by_event_type :: "string \<Rightarrow> nat \<Rightarrow> signal_event list rdb" where
  "signal_event_list_by_event_type event_type limit = signal_event_list (\<lambda>e. se_event_type e = event_type) limit"

definition signal_event_list_recent :: "nat \<Rightarrow> signal_event list rdb" where
  "signal_event_list_recent limit = signal_event_list (\<lambda>e. True) limit"

definition signal_event_list_positive :: "string \<Rightarrow> nat \<Rightarrow> signal_event list rdb" where
  "signal_event_list_positive symbol limit =
     signal_event_list (\<lambda>e. se_symbol e = Some symbol \<and> se_direction e = ''POSITIVE'') limit"

definition signal_event_list_negative :: "string \<Rightarrow> nat \<Rightarrow> signal_event list rdb" where
  "signal_event_list_negative symbol limit =
     signal_event_list (\<lambda>e. se_symbol e = Some symbol \<and> se_direction e = ''NEGATIVE'') limit"

definition consensus_get_by_unique :: "string \<Rightarrow> int \<Rightarrow> int \<Rightarrow> consensus option rdb" where
  "consensus_get_by_unique symbol snapshot_date window_days = sgets (\<lambda>d. find (\<lambda>c. cs_symbol c = symbol \<and>
     cs_snapshot_date c = snapshot_date \<and> cs_window_days c = window_days) (rs_consensus d))"

definition consensus_upsert :: "consensus \<Rightarrow> unit rdb" where
  "consensus_upsert row =
     sbind (consensus_get_by_unique (cs_symbol row) (cs_snapshot_date row) (cs_window_days row)) (\<lambda>existing.
     smodify (\<lambda>d. d\<lparr>rs_consensus := (case existing of
         None \<Rightarrow> rs_consensus d @ [row\<lparr>cs_id := t_next cs_id (rs_consensus d)\<rparr>]
       | Some e \<Rightarrow> t_upd cs_id (cs_id e) (\<lambda>r. row\<lparr>cs_id := cs_id r\<rparr>) (rs_consensus d))\<rparr>))"

definition consensus_get_latest_by_symbol :: "string \<Rightarrow> int option \<Rightarrow> consensus option rdb" where
  "consensus_get_latest_by_symbol symbol window_days = sgets (\<lambda>d. latest_by cs_snapshot_date
     (filter (\<lambda>c. cs_symbol c = symbol \<and> (case window_days of None \<Rightarrow> True | Some w \<Rightarrow> cs_window_days c = w)) (rs_consensus d)))"

definition consensus_list_recent :: "nat \<Rightarrow> consensus list rdb" where
  "consensus_list_recent limit = sgets (\<lambda>d. take limit (sort_key (\<lambda>c. - cs_snapshot_date c) (rs_consensus d)))"

definition score_log_create :: "score_log \<Rightarrow> int rdb" where
  "score_log_create row = (\<lambda>d. let i = t_next sl_id (rs_score_logs d)
     in (Inr i, d\<lparr>rs_score_logs := rs_score_logs d @ [row\<lparr>sl_id := i\<rparr>]\<rparr>))"

definition score_log_newest :: "score_log list \<Rightarrow> score_log list" where
  "score_log_newest rows = rev (sort_key (\<lambda>l. (sl_score_date l, sl_id l)) rows)"

definition score_log_get_latest_by_symbol :: "string \<Rightarrow> score_log option rdb" where
  "score_log_get_latest_by_symbol symbol = sgets (\<lambda>d.
     case score_log_newest (filter (\<lambda>l. sl_symbol l = symbol) (rs_score_logs d)) of [] \<Rightarrow> None | l # _ \<Rightarrow> Some l)"

definition score_log_get_by_run_symbol :: "int \<Rightarrow> string \<Rightarrow> score_log option rdb" where
  "score_log_get_by_run_symbol run_id symbol = sgets (\<lambda>d.
     latest_by sl_id (filter (\<lambda>l. sl_recommendation_run_id l = Some run_id \<and> sl_symbol l = symbol) (rs_score_logs d)))"

definition score_log_list_recent_by_symbol :: "string \<Rightarrow> nat \<Rightarrow> score_log list rdb" where
  "score_log_list_recent_by_symbol symbol limit = sgets (\<lambda>d.
     take limit (score_log_newest (filter (\<lambda>l. sl_symbol l = symbol) (rs_score_logs d))))"

definition score_log_list_by_run :: "int \<Rightarrow> score_log list rdb" where
  "score_log_list_by_run run_id = sgets (\<lambda>d.
     sort_key sl_symbol (filter (\<lambda>l. sl_recommendation_run_id l = Some run_id) (rs_score_logs d)))"

subsection \<open>Repositories of recommendations, checks and logs\<close>

definition snapshot_add :: "data_snapshot \<Rightarrow> int rdb" where
  "snapshot_add row = (\<lambda>d. let i = t_next ds_snapshot_id (rs_data_snapshots d)
     in (Inr i, d\<lparr>rs_data_snapshots := rs_data_snapshots d @ [row\<lparr>ds_snapshot_id := i\<rparr>]\<rparr>))"

definition data_snapshot_list_by_symbol :: "string \<Rightarrow> data_snapshot list rdb" where
  "data_snapshot_list_by_symbol symbol =
     sgets (\<lambda>d. sort_key (\<lambda>s. - ds_snapshot_time s) (filter (\<lambda>s. ds_symbol s = symbol) (rs_data_snapshots d)))"

definition decision_add :: "decision_log \<Rightarrow> int rdb" where
  "decision_add row = (\<lambda>d. let i = t_next dl_decision_id (rs_decisions d)
     in (Inr i, d\<lparr>rs_decisions := rs_decisions d @ [row\<lparr>dl_decision_id := i\<rparr>]\<rparr>))"

definition run_add :: "recommendation_run \<Rightarrow> int rdb" where
  "run_add row = (\<lambda>d. let i = t_next rn_run_id (rs_runs d)
     in (Inr i, d\<lparr>rs_runs := rs_runs d @ [row\<lparr>rn_run_id := i\<rparr>]\<rparr>))"

definition run_update :: "int \<Rightarrow> (recommendation_run \<Rightarrow> recommendation_run) \<Rightarrow> unit rdb" where
  "run_update i f = smodify (\<lambda>d. d\<lparr>rs_runs := t_upd rn_run_id i f (rs_runs d)\<rparr>)"

definition run_latest :: "recommendation_run option rdb" where
  "run_latest = sgets (\<lambda>d. case rev (sort_key (\<lambda>r. (rn_run_date r, rn_started_at r, rn_run_id r)) (rs_runs d)) of
     [] \<Rightarrow> None | r # _ \<Rightarrow> Some r)"

definition run_list_by_date_range :: "int \<Rightarrow> int \<Rightarrow> recommendation_run list rdb" where
  "run_list_by_date_range start_date end_date =
     sgets (\<lambda>d. sort_key rn_run_date (filter (\<lambda>r. start_date \<le> rn_run_date r \<and> rn_run_date r \<le> end_date) (rs_runs d)))"

definition recommendation_add :: "recommendation \<Rightarrow> int rdb" where
  "recommendation_add row = (\<lambda>d. let i = t_next rc_id (rs_recommendations d)
     in (Inr i, d\<lparr>rs_recommendations := rs_recommendations d @ [row\<lparr>rc_id := i\<rparr>]\<rparr>))"

definition recommendation_list_by_run_id :: "int \<Rightarrow> recommendation list rdb" where
  "recommendation_list_by_run_id run_id =
     sgets (\<lambda>d. sort_key rc_rank (filter (\<lambda>r. rc_run_id r = run_id) (rs_recommendations d)))"

definition result_list_by_recommendation :: "int \<Rightarrow> recommendation_result list rdb" where
  "result_list_by_recommendation recommendation_id =
     sgets (\<lambda>d. sort_key rr_days_after (filter (\<lambda>r. rr_recommendation_id r = recommendation_id) (rs_results d)))"

definition result_get :: "int \<Rightarrow> int \<Rightarrow> recommendation_result option rdb" where
  "result_get recommendation_id days_after = sgets (\<lambda>d. find (\<lambda>r. rr_recommendation_id r = recommendation_id \<and>
     rr_days_after r = days_after) (rs_results d))"

definition result_upsert :: "recommendation_result \<Rightarrow> unit rdb" where
  "result_upsert row =
     sbind (result_get (rr_recommendation_id row) (rr_days_after row)) (\<lambda>existing.
     smodify (\<lambda>d. d\<lparr>rs_results := (case existing of
         None \<Rightarrow> rs_results d @ [row\<lparr>rr_id := t_next rr_id (rs_results d)\<rparr>]
       | Some e \<Rightarrow> t_upd rr_id (rr_id e) (\<lambda>r. row\<lparr>rr_id := rr_id r\<rparr>) (rs_results d))\<rparr>))"

text \<open>The rank of a check type: before the market opens, after it closed, anything else.\<close>

definition type_order :: "string \<Rightarrow> int" where
  "type_order t = (if t = ''PRE_MARKET'' then 0 else if t = ''POST_MARKET'' then 1 else 99)"

definition check_rank :: "holding_check \<Rightarrow> int \<times> int" where
  "check_rank c = (hc_check_date c, type_order (hc_check_type c))"

definition check_list_by_symbol :: "string \<Rightarrow> holding_check list rdb" where
  "check_list_by_symbol symbol =
     sgets (\<lambda>d. sort_key (\<lambda>c. - hc_check_date c) (filter (\<lambda>c. hc_symbol c = symbol) (rs_checks d)))"

definition check_list_recent_alerts :: "nat \<Rightarrow> holding_check list rdb" where
  "check_list_recent_alerts limit =
     sgets (\<lambda>d. take limit (rev (sort_key (\<lambda>c. (hc_check_date c, hc_id c)) (filter hc_alert (rs_checks d)))))"

text \<open>The dictionary keeps the last row of each symbol.\<close>

definition check_list_latest_per_symbol :: "string option \<Rightarrow> holding_check list rdb" where
  "check_list_latest_per_symbol check_type = sgets (\<lambda>d.
     let rows = sort_key check_rank (filter (\<lambda>c. case check_type of None \<Rightarrow> True | Some t \<Rightarrow> hc_check_type c = t) (rs_checks d));
         latest_by_symbol = foldl (\<lambda>m c. dict_put m (hc_symbol c, c)) [] rows
     in sort_key hc_symbol (map snd latest_by_symbol))"

definition check_get :: "int \<Rightarrow> string \<Rightarrow> string \<Rightarrow> holding_check option rdb" where
  "check_get check_date check_type symbol = sgets (\<lambda>d. find (\<lambda>c. hc_check_date c = check_date \<and>
     hc_check_type c = check_type \<and> hc_symbol c = symbol) (rs_checks d))"

definition check_list_by_date_type :: "int \<Rightarrow> string \<Rightarrow> holding_check list rdb" where
  "check_list_by_date_type check_date check_type =
     sgets (\<lambda>d. sort_key hc_symbol (filter (\<lambda>c. hc_check_date c = check_date \<and> hc_check_type c = check_type) (rs_checks d)))"

definition check_find_previous :: "string \<Rightarrow> int \<Rightarrow> string \<Rightarrow> holding_check option rdb" where
  "check_find_previous symbol before_date before_type = sgets (\<lambda>d.
     let earlier = filter (\<lambda>c. hc_symbol c = symbol \<and> check_rank c < (before_date, type_order before_type)) (rs_checks d)
     in if earlier = [] then None else Some (last (sort_key check_rank earlier)))"

definition check_upsert :: "holding_check \<Rightarrow> int rdb" where
  "check_upsert row =
     sbind (check_get (hc_check_date row) (hc_check_type row) (hc_symbol row)) (\<lambda>existing d.
     case existing of
       None \<Rightarrow> (let i = t_next hc_id (rs_checks d) in (Inr i, d\<lparr>rs_checks := rs_checks d @ [row\<lparr>hc_id := i\<rparr>]\<rparr>))
     | Some e \<Rightarrow> (Inr (hc_id e), d\<lparr>rs_checks := t_upd hc_id (hc_id e) (\<lambda>r. row\<lparr>hc_id := hc_id r\<rparr>) (rs_checks d)\<rparr>))"

end
