(* ===== verification/Score_Producers.thy ===== *)
theory Score_Producers
  imports Research_Tables Scoring
begin

text \<open>
  Where component scores come from: the reliability policy of a data source
  (\<^verbatim>\<open>app/scoring/provider_policy.py\<close>), the recorded difference it makes
  (\<^verbatim>\<open>app/scoring/score_delta.py\<close>), the scores of analyst reports and themes
  (\<^verbatim>\<open>app/analysis/report_score_calculator.py\<close>) and the producers of
  \<^verbatim>\<open>app/analysis/score_producers.py\<close>, which wrap one another. The attribute \<open>data_source\<close>
  that the producers ask of news, fundamentals and earnings is on none of the rows, so
  \<open>getattr\<close> gives \<open>None\<close>. Instants and dates in evidence are numbers instead of their text.
\<close>

subsection \<open>The reliability policy\<close>

definition reliability :: "string \<Rightarrow> decimal" where
  "reliability source = (if source = ''PROVIDER'' then 1 else if source = ''CSV'' then 9 / 10
     else if source = ''MANUAL'' then 8 / 10 else 1)"

definition apply_policy :: "bool \<Rightarrow> decimal \<Rightarrow> string option \<Rightarrow> decimal" where
  "apply_policy enabled score data_source =
     (if \<not> enabled then score
      else if data_source = Some ''FAKE'' then score
      else quant_up 4 (dmul score (reliability (case data_source of None \<Rightarrow> [] | Some s \<Rightarrow> s))))"

record component_delta =
  cd_name :: string
  cd_data_source :: "string option"
  cd_factor :: decimal
  cd_before :: decimal
  cd_after :: decimal

record score_delta =
  sd_policy_enabled :: bool
  sd_score_before :: decimal
  sd_score_after :: decimal
  sd_delta :: decimal
  sd_components :: "component_delta list"

definition effective_factor :: "bool \<Rightarrow> string option \<Rightarrow> decimal" where
  "effective_factor enabled data_source =
     (if \<not> enabled then 1
      else case data_source of None \<Rightarrow> 1 | Some s \<Rightarrow> if s = ''FAKE'' \<or> s = [] then 1 else reliability s)"

definition component_delta_of :: "bool \<Rightarrow> string \<times> decimal option \<times> string option \<Rightarrow> component_delta" where
  "component_delta_of enabled = (\<lambda>(name, raw_score, data_source).
     let score = (case raw_score of None \<Rightarrow> 0 | Some v \<Rightarrow> v)
     in \<lparr>cd_name = name, cd_data_source = data_source, cd_factor = effective_factor enabled data_source,
         cd_before = quant_up 4 score, cd_after = quant_up 4 (apply_policy enabled score data_source)\<rparr>)"

definition compute_score_delta :: "(string \<times> decimal option \<times> string option) list \<Rightarrow> bool \<Rightarrow> score_delta" where
  "compute_score_delta components enabled =
     (let deltas = map (component_delta_of enabled) components;
          before = quant_up 4 (dsum (map cd_before deltas)); after = quant_up 4 (dsum (map cd_after deltas))
      in \<lparr>sd_policy_enabled = enabled, sd_score_before = before, sd_score_after = after,
          sd_delta = quant_up 4 (dsub after before), sd_components = deltas\<rparr>)"

definition delta_json :: "score_delta \<Rightarrow> json" where
  "delta_json s = JObj [(''policy_enabled'', JBool (sd_policy_enabled s)), (''score_before'', JDec (sd_score_before s)),
     (''score_after'', JDec (sd_score_after s)), (''delta'', JDec (sd_delta s)),
     (''components'', JList (map (\<lambda>c. JObj [(''name'', JStr (cd_name c)), (''data_source'', json_opt JStr (cd_data_source c)),
        (''factor'', JDec (cd_factor c)), (''before'', JDec (cd_before c)), (''after'', JDec (cd_after c))]) (sd_components s)))]"

subsection \<open>Scores of analyst reports and themes\<close>

definition clip :: "decimal \<Rightarrow> decimal \<Rightarrow> decimal \<Rightarrow> decimal" where
  "clip value' lower upper = max lower (min upper value')"

record report_score =
  ps_report_score :: "decimal option"
  ps_report_count :: int
  ps_target_upside_pct :: "decimal option"
  ps_rating_score_avg :: "decimal option"
  ps_recency_bonus :: "decimal option"

record theme_signal_score =
  ts_score :: "decimal option"
  ts_theme_count :: int
  ts_signal_event_count :: int
  ts_theme_signal_bonus :: "decimal option"
  ts_event_signal_bonus :: "decimal option"
  ts_risk_penalty :: "decimal option"
  ts_evidence :: "(string \<times> json) list"

record score_adjustment =
  sa_report_score_adjustment :: decimal
  sa_theme_signal_adjustment :: decimal
  sa_total_score_after :: decimal

definition recency_bonus :: "int \<Rightarrow> int option \<Rightarrow> decimal option" where
  "recency_bonus as_of latest_published_at =
     map_option (\<lambda>p. let age_days = as_of - p in if age_days \<le> 14 then 5 else if age_days \<le> 30 then 3 else 0) latest_published_at"

definition rating_score_avg :: "int \<Rightarrow> int \<Rightarrow> int \<Rightarrow> int \<Rightarrow> int \<Rightarrow> int \<Rightarrow> decimal option" where
  "rating_score_avg report_count strong_buy buy hold sell strong_sell =
     (if report_count \<le> 0 then None
      else let weighted = dadd (dadd (dadd (dadd (dmul (of_int strong_buy) 2) (dmul (of_int buy) 1)) (dmul (of_int hold) 0))
                 (dmul (of_int sell) (- 1))) (dmul (of_int strong_sell) (- 2))
           in Some (quant_up 4 (ddiv weighted (of_int report_count))))"

definition target_upside_pct :: "decimal option \<Rightarrow> decimal option \<Rightarrow> decimal option" where
  "target_upside_pct avg_target_price latest_close =
     (case (avg_target_price, latest_close) of
        (Some target, Some close') \<Rightarrow>
          if close' \<le> 0 then None
          else Some (quant_up 4 (clip (dmul (ddiv (dsub target close') close') 100) (- 40) 60))
      | _ \<Rightarrow> None)"

definition add_opt :: "decimal \<Rightarrow> decimal option \<Rightarrow> decimal" where
  "add_opt score bonus = (case bonus of None \<Rightarrow> score | Some b \<Rightarrow> dadd score b)"

definition calculate_report_score ::
  "int \<Rightarrow> int \<Rightarrow> decimal option \<Rightarrow> decimal option \<Rightarrow> int \<times> int \<times> int \<times> int \<times> int \<Rightarrow> int option \<Rightarrow> report_score" where
  "calculate_report_score as_of report_count avg_target_price latest_close counts latest_published_at =
     (if report_count \<le> 0 then \<lparr>ps_report_score = None, ps_report_count = 0, ps_target_upside_pct = None,
        ps_rating_score_avg = None, ps_recency_bonus = None\<rparr>
      else case counts of (strong_buy, buy, hold, sell, strong_sell) \<Rightarrow>
        let upside = target_upside_pct avg_target_price latest_close;
            rating = rating_score_avg report_count strong_buy buy hold sell strong_sell;
            recency = recency_bonus as_of latest_published_at;
            score = add_opt (add_opt (add_opt 50 (map_option (\<lambda>u. dmul u (1 / 2)) upside))
              (map_option (\<lambda>r. dmul r 10) rating)) recency
        in \<lparr>ps_report_score = Some (quant_up 2 (clip score 0 100)), ps_report_count = report_count,
            ps_target_upside_pct = upside, ps_rating_score_avg = rating, ps_recency_bonus = recency\<rparr>)"

definition direction_weight :: "string \<Rightarrow> decimal" where
  "direction_weight direction = (let d = py_upper direction in
     if d = ''POSITIVE'' then 1 else if d = ''NEGATIVE'' then - 1 else 0)"

definition strength_of :: "decimal option \<Rightarrow> decimal" where
  "strength_of s = (case s of None \<Rightarrow> 1 | Some v \<Rightarrow> clip v 0 1)"

definition average_signal_points :: "decimal list \<Rightarrow> nat \<Rightarrow> decimal option" where
  "average_signal_points values count =
     (if count = 0 then None else Some (quant_up 2 (dmul (ddiv (dsum values) (of_nat count)) 10)))"

definition theme_mapping_evidence :: "(int \<Rightarrow> report_theme option) \<Rightarrow> theme_mapping \<Rightarrow> json" where
  "theme_mapping_evidence theme_of m = JObj
     [(''theme_name'', json_opt (\<lambda>t. JStr (rt_theme_name t)) (theme_of (tm_theme_id m))),
      (''theme_category'', json_opt (\<lambda>t. JStr (rt_theme_category t)) (theme_of (tm_theme_id m))),
      (''impact_direction'', JStr (tm_impact_direction m)), (''impact_strength'', json_opt JDec (tm_impact_strength m)),
      (''impact_path'', json_opt JStr (tm_impact_path m)), (''reason'', json_opt JStr (tm_reason m))]"

definition signal_event_evidence :: "signal_event \<Rightarrow> json" where
  "signal_event_evidence e = JObj [(''event_type'', JStr (se_event_type e)), (''direction'', JStr (se_direction e)),
     (''strength'', json_opt JDec (se_strength e)), (''summary'', json_opt JStr (se_summary e))]"

definition calculate_theme_signal_score ::
  "(int \<Rightarrow> report_theme option) \<Rightarrow> theme_mapping list \<Rightarrow> signal_event list \<Rightarrow> theme_signal_score" where
  "calculate_theme_signal_score theme_of theme_mappings signal_events =
     (if theme_mappings = [] \<and> signal_events = [] then
        \<lparr>ts_score = None, ts_theme_count = 0, ts_signal_event_count = 0, ts_theme_signal_bonus = None,
         ts_event_signal_bonus = None, ts_risk_penalty = None,
         ts_evidence = [(''top_themes'', JList []), (''top_events'', JList [])]\<rparr>
      else
        let theme_points = map (\<lambda>m. dmul (direction_weight (tm_impact_direction m)) (strength_of (tm_impact_strength m))) theme_mappings;
            event_points = map (\<lambda>e. dmul (direction_weight (se_direction e)) (strength_of (se_strength e))) signal_events;
            risk_warning_count = length (filter (\<lambda>e. py_upper (se_event_type e) = ''RISK_WARNING'') signal_events);
            theme_bonus = average_signal_points theme_points (length theme_mappings);
            event_bonus = average_signal_points event_points (length signal_events);
            penalty = quant_up 2 (clip (dmul (of_nat risk_warning_count) (5 / 2)) 0 10);
            score = dsub (add_opt (add_opt 50 theme_bonus) event_bonus) penalty
        in \<lparr>ts_score = Some (quant_up 2 (clip score 0 100)), ts_theme_count = int (length theme_mappings),
            ts_signal_event_count = int (length signal_events), ts_theme_signal_bonus = theme_bonus,
            ts_event_signal_bonus = event_bonus, ts_risk_penalty = Some penalty,
            ts_evidence = [(''top_themes'', JList (map (theme_mapping_evidence theme_of) (take 3 theme_mappings))),
              (''top_events'', JList (map signal_event_evidence (take 3 signal_events))),
              (''risk_warning_count'', JInt (int risk_warning_count))]\<rparr>)"

definition adjustment_of :: "decimal option \<Rightarrow> decimal" where
  "adjustment_of score = (case score of None \<Rightarrow> 0 | Some s \<Rightarrow> clip (dmul (dsub s 50) (1 / 10)) (- 5) 5)"

definition calculate_score_adjustment :: "decimal \<Rightarrow> decimal option \<Rightarrow> decimal option \<Rightarrow> score_adjustment" where
  "calculate_score_adjustment base_total_score report_score theme_signal_score =
     (let report_adjustment = adjustment_of report_score; theme_adjustment = adjustment_of theme_signal_score;
          after = clip (dadd (dadd base_total_score report_adjustment) theme_adjustment) 0 100
      in \<lparr>sa_report_score_adjustment = quant_up 2 report_adjustment,
          sa_theme_signal_adjustment = quant_up 2 theme_adjustment, sa_total_score_after = quant_up 4 after\<rparr>)"

subsection \<open>Producers\<close>

record component_scores =
  co_news_score :: decimal
  co_supply_score :: decimal
  co_fundamental_score :: decimal
  co_ai_score :: decimal
  co_metadata :: "(string \<times> json) list"

record holding_component_scores =
  hs_news_score :: decimal
  hs_earnings_score :: decimal
  hs_ai_score :: decimal
  hs_metadata :: "(string \<times> json) list"

definition score_supply :: "decimal option \<Rightarrow> decimal \<times> string" where
  "score_supply volume_ratio_20d = (case volume_ratio_20d of None \<Rightarrow> (50, ''neutral_missing_volume_ratio'')
     | Some v \<Rightarrow> if 2 \<le> v then (55, ''positive_volume_ratio_20d_gte_2'')
         else if v \<le> 7 / 10 then (45, ''negative_volume_ratio_20d_lte_0_7'') else (50, ''neutral_volume_ratio_20d''))"

definition score_ai_placeholder :: "string option \<Rightarrow> decimal \<times> string" where
  "score_ai_placeholder ma_alignment =
     (let normalized = py_upper (case ma_alignment of None \<Rightarrow> [] | Some a \<Rightarrow> a)
      in if py_contains ''BULL'' normalized then (55, ''positive_bullish_ma_alignment'')
         else if py_contains ''BEAR'' normalized then (45, ''negative_bearish_ma_alignment'') else (50, ''neutral_ma_alignment''))"

definition sentiment_value :: "string option \<Rightarrow> int" where
  "sentiment_value s = (if s = Some ''POSITIVE'' then 1 else if s = Some ''NEGATIVE'' then - 1 else 0)"

definition recency_factor :: "int \<Rightarrow> int \<Rightarrow> decimal" where
  "recency_factor now published_at =
     (let delta = now - published_at
      in if delta < 0 then 1 else if delta \<le> 86400000000 then 1 else if delta \<le> 3 * 86400000000 then 7 / 10
         else if delta \<le> 7 * 86400000000 then 3 / 10 else 0)"

definition safe_news_evidence :: "news_item \<Rightarrow> json" where
  "safe_news_evidence n = JObj [(''title'', JStr (nw_title n)), (''url'', json_opt JStr (nw_url n)),
     (''provider'', JStr (nw_source n)), (''published_at'', JInt (nw_published_at n)), (''sentiment'', json_opt JStr (nw_sentiment n))]"

definition count_of :: "('a \<Rightarrow> bool) \<Rightarrow> 'a list \<Rightarrow> json" where
  "count_of P xs = JInt (int (length (filter P xs)))"

definition calculate_news_score :: "news_item list \<Rightarrow> int \<Rightarrow> decimal \<times> json" where
  "calculate_news_score rows now =
     (if rows = [] then (50, JObj [(''news_count'', JInt 0), (''positive_count'', JInt 0), (''neutral_count'', JInt 0),
        (''negative_count'', JInt 0), (''latest_news_at'', JNull), (''top_news'', JList [])])
      else
        let weighted = dsum (map (\<lambda>n. dmul (of_int (sentiment_value (nw_sentiment n))) (recency_factor now (nw_published_at n))) rows);
            raw = dadd 50 (ddiv (dmul weighted 5) (of_nat (length rows)));
            score = max (min raw 100) 0;
            ordered = news_newest rows
        in (score, JObj [(''news_count'', JInt (int (length rows))),
             (''positive_count'', count_of (\<lambda>n. 0 < sentiment_value (nw_sentiment n)) rows),
             (''neutral_count'', count_of (\<lambda>n. sentiment_value (nw_sentiment n) = 0) rows),
             (''negative_count'', count_of (\<lambda>n. sentiment_value (nw_sentiment n) < 0) rows),
             (''latest_news_at'', JInt (nw_published_at (hd ordered))),
             (''top_news'', JList (map safe_news_evidence (take 3 ordered)))]))"

definition clip_score :: "decimal \<Rightarrow> decimal" where
  "clip_score v = max (min v 100) 0"

definition fundamental_evidence :: "fundamental option \<Rightarrow> json" where
  "fundamental_evidence snapshot = (case snapshot of None \<Rightarrow> JObj [(''reason'', JStr ''no_fundamental_snapshot'')]
     | Some f \<Rightarrow> JObj [(''snapshot_date'', JInt (fs_snapshot_date f)), (''fiscal_year'', JInt (fs_fiscal_year f)),
        (''fiscal_quarter'', json_opt JInt (fs_fiscal_quarter f)), (''per'', json_opt JDec (fs_per f)), (''pbr'', json_opt JDec (fs_pbr f)),
        (''roe'', json_opt JDec (fs_roe f)), (''debt_ratio'', json_opt JDec (fs_debt_ratio f)),
        (''revenue_growth_yoy'', json_opt JDec (fs_revenue_growth_yoy f)),
        (''operating_income_growth_yoy'', json_opt JDec (fs_operating_income_growth_yoy f)),
        (''dividend_yield'', json_opt JDec (fs_dividend_yield f))])"

definition roe_points :: "decimal \<Rightarrow> decimal" where
  "roe_points roe = dmul (min (max roe (- 10)) 25) (6 / 10)"

definition per_points :: "decimal \<Rightarrow> decimal" where
  "per_points per = (if per \<le> 8 then 8 else if per \<le> 15 then 4 else if per \<le> 25 then 0 else if per \<le> 40 then - 6 else - 12)"

definition pbr_points :: "decimal \<Rightarrow> decimal" where
  "pbr_points pbr = (if pbr \<le> 1 then 4 else if 4 \<le> pbr then - 8 else if 5 / 2 \<le> pbr then - 4 else 0)"

definition growth_points :: "decimal \<Rightarrow> decimal \<Rightarrow> decimal \<Rightarrow> decimal" where
  "growth_points lower upper growth = dmul (min (max growth lower) upper) (1 / 4)"

definition debt_points :: "decimal \<Rightarrow> decimal" where
  "debt_points ratio = (if 200 \<le> ratio then - 15 else if 100 \<le> ratio then - 8 else if ratio \<le> 50 then 3 else 0)"

definition dividend_points :: "decimal \<Rightarrow> decimal" where
  "dividend_points y = (if 0 < y then dmul (min y 5) (8 / 10) else 0)"

definition score_fundamental :: "fundamental option \<Rightarrow> decimal" where
  "score_fundamental snapshot = (case snapshot of None \<Rightarrow> 50
     | Some f \<Rightarrow> clip_score (foldl add_opt 50 [map_option roe_points (fs_roe f), map_option per_points (fs_per f),
        map_option pbr_points (fs_pbr f), map_option (growth_points (- 20) 30) (fs_revenue_growth_yoy f),
        map_option (growth_points (- 30) 50) (fs_operating_income_growth_yoy f), map_option debt_points (fs_debt_ratio f),
        map_option dividend_points (fs_dividend_yield f)]))"

definition earnings_evidence :: "earnings_event option \<Rightarrow> json" where
  "earnings_evidence event = (case event of None \<Rightarrow> JObj [(''reason'', JStr ''no_earnings_event'')]
     | Some e \<Rightarrow> JObj [(''latest_event_date'', JInt (ee_event_date e)), (''fiscal_year'', JInt (ee_fiscal_year e)),
        (''fiscal_quarter'', json_opt JInt (ee_fiscal_quarter e)), (''event_type'', JStr (ee_event_type e)),
        (''surprise_type'', json_opt JStr (ee_surprise_type e)), (''surprise_pct'', json_opt JDec (ee_surprise_pct e)),
        (''operating_income_actual'', json_opt JDec (ee_operating_income_actual e)),
        (''operating_income_consensus'', json_opt JDec (ee_operating_income_consensus e))])"

definition recency_multiplier :: "int \<Rightarrow> int \<Rightarrow> decimal" where
  "recency_multiplier event_date as_of =
     (let age_days = as_of - event_date
      in if age_days < 0 then 1 / 2 else if age_days \<le> 30 then 1 else if age_days \<le> 90 then 6 / 10 else 3 / 10)"

definition score_earnings :: "earnings_event option \<Rightarrow> int \<Rightarrow> decimal" where
  "score_earnings event as_of = (case event of None \<Rightarrow> 50
     | Some e \<Rightarrow>
         let base_delta = (if ee_surprise_type e = Some ''BEAT'' then 10 else if ee_surprise_type e = Some ''MISS'' then - 10 else 0);
             surprise_delta = (case ee_surprise_pct e of None \<Rightarrow> 0 | Some p \<Rightarrow> max (min (dmul p (1 / 2)) 10) (- 10))
         in clip_score (dadd 50 (dmul (dadd base_delta surprise_delta) (recency_multiplier (ee_event_date e) as_of))))"

text \<open>A producer is the dummy one or wraps a fallback. It knows the fixed clock, if it was given
  one, whether its policy is enabled and, for news, the source.\<close>

datatype producer = DummyProducer
  | RealNews "int option" bool "string option" producer
  | RealFundamental bool producer
  | RealEarnings "int option" bool producer

definition clock_or :: "int option \<Rightarrow> int rdb" where
  "clock_or fixed = sbind research_now (\<lambda>now. sret (case fixed of None \<Rightarrow> now | Some t \<Rightarrow> t))"

definition compute_news :: "int option \<Rightarrow> string \<Rightarrow> (decimal \<times> json) rdb" where
  "compute_news fixed symbol =
     sbind (clock_or fixed) (\<lambda>now.
     sbind (news_list_recent_by_symbol symbol (Some (now - 7 * 86400000000)) 50) (\<lambda>rows.
     sret (calculate_news_score rows now)))"

definition today_or :: "int option \<Rightarrow> int rdb" where
  "today_or as_of = sbind research_now (\<lambda>now. sret (case as_of of None \<Rightarrow> now div 86400000000 | Some day \<Rightarrow> day))"

fun score_recommendation :: "producer \<Rightarrow> stock \<Rightarrow> stock_indicator \<Rightarrow> component_scores rdb" where
  "score_recommendation DummyProducer s i =
     (let (supply_score, supply_rule) = score_supply (si_volume_ratio_20d i);
          (ai_score, ai_rule) = score_ai_placeholder (si_ma_alignment i)
      in sret \<lparr>co_news_score = 50, co_supply_score = supply_score, co_fundamental_score = 50, co_ai_score = ai_score,
           co_metadata = [(''producer'', JStr ''DummyScoreProducer''), (''mode'', JStr ''rule_based_dummy''),
             (''symbol'', JStr (st_symbol s)), (''rules'', JObj [(''news'', JStr ''neutral_no_news_pipeline''),
               (''supply'', JStr supply_rule), (''fundamental'', JStr ''neutral_no_fundamental_pipeline''), (''ai'', JStr ai_rule)])]\<rparr>)"
| "score_recommendation (RealNews fixed enabled source fallback) s i =
     sbind (score_recommendation fallback s i) (\<lambda>base.
     sbind (compute_news fixed (st_symbol s)) (\<lambda>(score, evidence).
     sret (base\<lparr>co_news_score := apply_policy enabled score source,
       co_metadata := dict_merge (co_metadata base)
         [(''news_producer'', JStr ''RealNewsScoreProducer''), (''news_evidence'', evidence)]\<rparr>)))"
| "score_recommendation (RealFundamental enabled fallback) s i =
     sbind (score_recommendation fallback s i) (\<lambda>base.
     sbind (fundamental_get_latest_by_symbol (st_symbol s)) (\<lambda>snapshot.
     sret (base\<lparr>co_fundamental_score := apply_policy enabled (score_fundamental snapshot) None,
       co_metadata := dict_merge (co_metadata base)
         [(''fundamental_producer'', JStr ''RealFundamentalScoreProducer''),
          (''fundamental_evidence'', fundamental_evidence snapshot)]\<rparr>)))"
| "score_recommendation (RealEarnings as_of enabled fallback) s i = score_recommendation fallback s i"

fun score_holding_components :: "producer \<Rightarrow> holding \<Rightarrow> stock_indicator \<Rightarrow> holding_component_scores rdb" where
  "score_holding_components DummyProducer h i =
     (let (ai_score, ai_rule) = score_ai_placeholder (si_ma_alignment i)
      in sret \<lparr>hs_news_score = 50, hs_earnings_score = 50, hs_ai_score = ai_score,
           hs_metadata = [(''producer'', JStr ''DummyScoreProducer''), (''mode'', JStr ''rule_based_dummy''),
             (''symbol'', JStr (ho_symbol h)), (''rules'', JObj [(''news'', JStr ''neutral_no_news_pipeline''),
               (''earnings'', JStr ''neutral_no_earnings_pipeline''), (''ai'', JStr ai_rule)])]\<rparr>)"
| "score_holding_components (RealNews fixed enabled source fallback) h i =
     sbind (score_holding_components fallback h i) (\<lambda>base.
     sbind (compute_news fixed (ho_symbol h)) (\<lambda>(score, evidence).
     sret (base\<lparr>hs_news_score := apply_policy enabled score source,
       hs_metadata := dict_merge (hs_metadata base)
         [(''news_producer'', JStr ''RealNewsScoreProducer''), (''news_evidence'', evidence)]\<rparr>)))"
| "score_holding_components (RealFundamental enabled fallback) h i = score_holding_components fallback h i"
| "score_holding_components (RealEarnings as_of enabled fallback) h i =
     sbind (score_holding_components fallback h i) (\<lambda>base.
     sbind (earnings_get_latest_by_symbol (ho_symbol h)) (\<lambda>event.
     sbind (today_or as_of) (\<lambda>today.
     sret (base\<lparr>hs_earnings_score := apply_policy enabled (score_earnings event today) None,
       hs_metadata := dict_merge (hs_metadata base)
         [(''earnings_producer'', JStr ''RealEarningsScoreProducer''), (''earnings_evidence'', earnings_evidence event)]\<rparr>))))"

subsection \<open>Disclosures\<close>

record disclosure_risk =
  dr_count :: int
  dr_penalty_addition :: decimal
  dr_flag :: "string option"
  dr_evidence :: json

definition safe_disclosure_evidence :: "news_item \<Rightarrow> json" where
  "safe_disclosure_evidence n = JObj [(''title'', JStr (nw_title n)), (''url'', json_opt JStr (nw_url n)),
     (''provider'', JStr (nw_source n)), (''published_at'', JInt (nw_published_at n))]"

definition disclosure_evaluate :: "int option \<Rightarrow> string \<Rightarrow> disclosure_risk rdb" where
  "disclosure_evaluate fixed symbol =
     sbind (clock_or fixed) (\<lambda>now.
     sbind (news_list_recent_by_symbol symbol (Some (now - 14 * 86400000000)) 50) (\<lambda>recent.
     let risk_rows = filter (\<lambda>n. nw_category n = Some ''RISK_DISCLOSURE'') recent; count = length risk_rows
     in sret (if count = 0 then \<lparr>dr_count = 0, dr_penalty_addition = 0, dr_flag = None,
             dr_evidence = JObj [(''risk_disclosure_count'', JInt 0), (''recent_risk_disclosures'', JList [])]\<rparr>
           else \<lparr>dr_count = int count, dr_penalty_addition = min (dmul (of_nat count) 3) 10, dr_flag = Some ''RISK_DISCLOSURE'',
             dr_evidence = JObj [(''risk_disclosure_count'', JInt (int count)),
               (''recent_risk_disclosures'', JList (map safe_disclosure_evidence (take 3 (news_newest risk_rows))))]\<rparr>)))"

end
