(* ===== verification/Recommendations.thy ===== *)
theory Recommendations
  imports Score_Producers
begin

text \<open>
  The recommendation engine of \<^verbatim>\<open>app/decision/recommendation_engine.py\<close>: it evaluates the
  members of a universe that have a stock and an indicator, ranks them by their score and stores
  the best with a snapshot, a recommendation, a score log and a decision log each.
\<close>

record recommendation_config =
  rg_producer :: producer
  rg_policy :: "bool option"
  rg_report_repositories :: bool
  rg_score_log_repository :: bool
  rg_disclosure_producer :: "int option option"

record candidate =
  ca_stock :: stock
  ca_indicator :: stock_indicator
  ca_components :: component_scores
  ca_score :: score_breakdown
  ca_total_score :: decimal
  ca_risk :: risk_assessment
  ca_report_score :: "report_score option"
  ca_theme_score :: "theme_signal_score option"
  ca_adjustment :: "score_adjustment option"
  ca_disclosure_evidence :: "json option"
  ca_score_delta :: "score_delta option"

record run_result =
  ru_run_id :: int
  ru_run_date :: int
  ru_status :: string
  ru_candidate_count :: nat
  ru_saved_count :: nat
  ru_skipped_no_indicator :: nat
  ru_skipped_no_stock_master :: nat

definition grade_for_score :: "decimal \<Rightarrow> string" where
  "grade_for_score score = (if 85 \<le> score then ''S'' else if 70 \<le> score then ''A'' else if 55 \<le> score then ''B''
     else if 40 \<le> score then ''C'' else ''D'')"

definition watch_candidate_reason :: "stock_indicator \<Rightarrow> reason" where
  "watch_candidate_reason i = WatchCandidate (si_technical_score i)
     (case si_ma_alignment i of None \<Rightarrow> None | Some a \<Rightarrow> if a = [] then None else Some a) (si_volume_ratio_20d i)"

definition serialize_indicator :: "stock_indicator \<Rightarrow> json" where
  "serialize_indicator i = JObj [(''date'', JInt (si_date i)), (''ma5'', json_opt JDec (si_ma5 i)), (''ma20'', json_opt JDec (si_ma20 i)),
     (''ma60'', json_opt JDec (si_ma60 i)), (''ma120'', json_opt JDec (si_ma120 i)), (''rsi14'', json_opt JDec (si_rsi14 i)),
     (''macd'', json_opt JDec (si_macd i)), (''macd_signal'', json_opt JDec (si_macd_signal i)),
     (''volume_ratio_20d'', json_opt JDec (si_volume_ratio_20d i)), (''breakout_20d'', json_opt JBool (si_breakout_20d i)),
     (''breakout_60d'', json_opt JBool (si_breakout_60d i)), (''ma_alignment'', json_opt JStr (si_ma_alignment i)),
     (''technical_score'', json_opt JDec (si_technical_score i))]"

definition serialize_score_components :: "score_breakdown \<Rightarrow> (string \<times> json) list" where
  "serialize_score_components b = [(''weighted_components'', JObj (map (\<lambda>(n, v). (n, JDec v)) (bd_weighted b))),
     (''raw_total'', JDec (bd_raw_total b)), (''total_score'', JDec (bd_total_score b)), (''risk_penalty'', JDec (bd_risk_penalty b))]"

definition level_json :: "risk_level \<Rightarrow> json" where
  "level_json l = JStr (case l of RISK_LOW \<Rightarrow> ''LOW'' | RISK_MEDIUM \<Rightarrow> ''MEDIUM'' | RISK_HIGH \<Rightarrow> ''HIGH'')"

definition detail_json :: "risk_detail \<Rightarrow> json" where
  "detail_json x = (case x of DetailValue v \<Rightarrow> json_opt JDec v | DetailText t \<Rightarrow> json_opt JStr t | DetailCount n \<Rightarrow> JInt n)"

definition serialize_risk_summary :: "risk_assessment \<Rightarrow> json" where
  "serialize_risk_summary a = JObj [(''level'', level_json (ra_risk_level a)), (''flags'', JList (map JStr (ra_risk_flags a))),
     (''penalty'', JDec (ra_risk_penalty a))]"

definition serialize_risk_details :: "risk_assessment \<Rightarrow> json" where
  "serialize_risk_details a = JObj (dict_merge (map (\<lambda>(k, v). (k, detail_json v)) (ra_details a))
     [(''alerts'', JList (map JStr (ra_risk_flags a))), (''risk_penalty'', JDec (ra_risk_penalty a)),
      (''risk_level'', level_json (ra_risk_level a))])"

definition serialize_report_evidence ::
  "report_score option \<Rightarrow> theme_signal_score option \<Rightarrow> score_adjustment option \<Rightarrow> json" where
  "serialize_report_evidence report theme adjustment =
     (if report = None \<and> theme = None then JNull
      else let r = (\<lambda>f. json_opt JDec (Option.bind report f)); t = (\<lambda>f. json_opt JDec (Option.bind theme f))
           in JObj (dict_merge
        [(''report_score'', r ps_report_score), (''theme_signal_score'', t ts_score),
         (''report_count'', JInt (case report of None \<Rightarrow> 0 | Some x \<Rightarrow> ps_report_count x)),
         (''theme_count'', JInt (case theme of None \<Rightarrow> 0 | Some x \<Rightarrow> ts_theme_count x)),
         (''signal_event_count'', JInt (case theme of None \<Rightarrow> 0 | Some x \<Rightarrow> ts_signal_event_count x)),
         (''target_upside_pct'', r ps_target_upside_pct), (''rating_score_avg'', r ps_rating_score_avg),
         (''recency_bonus'', r ps_recency_bonus), (''theme_signal_bonus'', t ts_theme_signal_bonus),
         (''event_signal_bonus'', t ts_event_signal_bonus), (''risk_penalty'', t ts_risk_penalty),
         (''report_score_adjustment'', JDec (case adjustment of None \<Rightarrow> 0 | Some a \<Rightarrow> sa_report_score_adjustment a)),
         (''theme_signal_adjustment'', JDec (case adjustment of None \<Rightarrow> 0 | Some a \<Rightarrow> sa_theme_signal_adjustment a)),
         (''total_score_after'', json_opt (\<lambda>a. JDec (sa_total_score_after a)) adjustment)]
        (case theme of None \<Rightarrow> [] | Some x \<Rightarrow> ts_evidence x)))"

text \<open>The source a component is said to come from, \<open>_src\<close>.\<close>

definition delta_source :: "(string \<times> json) list \<Rightarrow> string \<Rightarrow> string option" where
  "delta_source meta name =
     (if map_of meta ''mode'' = Some (JStr ''rule_based_dummy'') then Some ''FAKE''
      else case map_of meta (name @ ''_data_source'') of Some (JStr s) \<Rightarrow> if s = [] then Some ''FAKE'' else Some s | _ \<Rightarrow> Some ''FAKE'')"

definition recommendation_delta_components :: "component_scores \<Rightarrow> (string \<times> decimal option \<times> string option) list" where
  "recommendation_delta_components c =
     [(''news'', Some (co_news_score c), delta_source (co_metadata c) ''news''),
      (''supply'', Some (co_supply_score c), delta_source (co_metadata c) ''supply''),
      (''fundamental'', Some (co_fundamental_score c), delta_source (co_metadata c) ''fundamental''),
      (''ai'', Some (co_ai_score c), delta_source (co_metadata c) ''ai'')]"

subsection \<open>Evaluation of a member\<close>

definition theme_lookup :: "research \<Rightarrow> int \<Rightarrow> report_theme option" where
  "theme_lookup d i = t_get rt_id i (rs_themes d)"

definition report_intelligence ::
  "recommendation_config \<Rightarrow> string \<Rightarrow> int \<Rightarrow> decimal \<Rightarrow>
   (report_score option \<times> theme_signal_score option \<times> score_adjustment option) rdb" where
  "report_intelligence cfg symbol run_date base_total_score =
     (if \<not> rg_report_repositories cfg then sret (None, None, None)
      else
        sbind (in_session (price_get_latest_on_or_before symbol run_date 14)) (\<lambda>latest_price.
        sbind (consensus_get_latest_by_symbol symbol None) (\<lambda>latest_consensus.
        sbind (theme_mapping_list_by_symbol symbol) (\<lambda>mappings.
        sbind (signal_event_list_by_symbol symbol) (\<lambda>events.
        sbind (sgets theme_lookup) (\<lambda>theme_of.
        let report = (case latest_consensus of
               None \<Rightarrow> calculate_report_score run_date 0 None (map_option dp_close latest_price) (0, 0, 0, 0, 0) None
             | Some c \<Rightarrow> calculate_report_score run_date (cs_report_count c) (cs_avg_target_price c) (map_option dp_close latest_price)
                 (cs_strong_buy_count c, cs_buy_count c, cs_hold_count c, cs_sell_count c, cs_strong_sell_count c)
                 (cs_latest_published_at c));
            theme = calculate_theme_signal_score theme_of mappings events
        in sret (Some report, Some theme, Some (calculate_score_adjustment base_total_score (ps_report_score report) (ts_score theme)))))))))"

definition disclosure_of :: "recommendation_config \<Rightarrow> string \<Rightarrow> disclosure_risk option rdb" where
  "disclosure_of cfg symbol = (case rg_disclosure_producer cfg of None \<Rightarrow> sret None
     | Some fixed \<Rightarrow> sbind (disclosure_evaluate fixed symbol) (\<lambda>r. sret (Some r)))"

definition evaluate_member :: "recommendation_config \<Rightarrow> int \<Rightarrow> stock \<Rightarrow> stock_indicator \<Rightarrow> candidate rdb" where
  "evaluate_member cfg run_date s i =
     sbind (disclosure_of cfg (st_symbol s)) (\<lambda>disclosure.
     let risk = evaluate_recommendation (si_technical_score i) (si_ma_alignment i) (si_volume_ratio_20d i)
           (case disclosure of None \<Rightarrow> 0 | Some r \<Rightarrow> dr_count r) (case disclosure of None \<Rightarrow> 0 | Some r \<Rightarrow> dr_penalty_addition r)
     in sbind (score_recommendation (rg_producer cfg) s i) (\<lambda>components.
     let score = score_new_recommendation \<lparr>ni_technical = si_technical_score i, ni_news = Some (co_news_score components),
           ni_supply = Some (co_supply_score components), ni_fundamental = Some (co_fundamental_score components),
           ni_ai = Some (co_ai_score components), ni_risk_penalty = Some (ra_risk_penalty risk)\<rparr>
     in sbind (report_intelligence cfg (st_symbol s) run_date (bd_total_score score)) (\<lambda>(report, theme, adjustment).
     sret \<lparr>ca_stock = s, ca_indicator = i, ca_components = components, ca_score = score,
       ca_total_score = (case adjustment of None \<Rightarrow> bd_total_score score | Some a \<Rightarrow> sa_total_score_after a),
       ca_risk = risk, ca_report_score = report, ca_theme_score = theme, ca_adjustment = adjustment,
       ca_disclosure_evidence = map_option dr_evidence disclosure,
       ca_score_delta = map_option (compute_score_delta (recommendation_delta_components components)) (rg_policy cfg)\<rparr>)))"

text \<open>The loop over the members: the candidates and the two counters of skipped members.\<close>

fun evaluate_members ::
  "recommendation_config \<Rightarrow> int \<Rightarrow> universe_member list \<Rightarrow> candidate list \<times> nat \<times> nat \<Rightarrow> (candidate list \<times> nat \<times> nat) rdb" where
  "evaluate_members cfg run_date [] acc = sret acc"
| "evaluate_members cfg run_date (m # ms) (candidates, no_indicator, no_stock) =
     sbind (stock_get_by_symbol (um_symbol m)) (\<lambda>found.
     case found of
       None \<Rightarrow> evaluate_members cfg run_date ms (candidates, no_indicator, no_stock + 1)
     | Some s \<Rightarrow>
         sbind (indicator_get_latest_by_symbol (um_symbol m)) (\<lambda>latest.
         case latest of
           None \<Rightarrow> evaluate_members cfg run_date ms (candidates, no_indicator + 1, no_stock)
         | Some i \<Rightarrow>
             sbind (evaluate_member cfg run_date s i) (\<lambda>c.
             evaluate_members cfg run_date ms (candidates @ [c], no_indicator, no_stock))))"

subsection \<open>Ranking and storing\<close>

text \<open>Two stable sorts: by symbol, then by descending score.\<close>

definition rank_candidates :: "candidate list \<Rightarrow> candidate list" where
  "rank_candidates cs = sort_key (\<lambda>c. - ca_total_score c) (sort_key (\<lambda>c. st_symbol (ca_stock c)) cs)"

definition persist_score_log :: "recommendation_config \<Rightarrow> int \<Rightarrow> int \<Rightarrow> candidate \<Rightarrow> json \<Rightarrow> unit rdb" where
  "persist_score_log cfg run_id run_date c evidence =
     (if \<not> rg_score_log_repository cfg then sret ()
      else sbind (score_log_create
        \<lparr>sl_id = 0, sl_symbol = st_symbol (ca_stock c), sl_score_date = run_date,
         sl_report_count = (case ca_report_score c of None \<Rightarrow> 0 | Some r \<Rightarrow> ps_report_count r), sl_evidence = evidence,
         sl_report_score = Option.bind (ca_report_score c) ps_report_score,
         sl_theme_signal_score = Option.bind (ca_theme_score c) ts_score,
         sl_theme_count = map_option ts_theme_count (ca_theme_score c),
         sl_signal_event_count = map_option ts_signal_event_count (ca_theme_score c),
         sl_target_upside_pct = Option.bind (ca_report_score c) ps_target_upside_pct,
         sl_rating_score_avg = Option.bind (ca_report_score c) ps_rating_score_avg,
         sl_recency_bonus = Option.bind (ca_report_score c) ps_recency_bonus,
         sl_theme_signal_bonus = Option.bind (ca_theme_score c) ts_theme_signal_bonus,
         sl_event_signal_bonus = Option.bind (ca_theme_score c) ts_event_signal_bonus,
         sl_risk_penalty = Option.bind (ca_theme_score c) ts_risk_penalty, sl_recommendation_run_id = Some run_id\<rparr>) (\<lambda>_. sret ()))"

definition meta_get :: "(string \<times> json) list \<Rightarrow> string \<Rightarrow> json" where
  "meta_get meta k = (case map_of meta k of None \<Rightarrow> JNull | Some v \<Rightarrow> v)"

definition persist_candidate ::
  "recommendation_config \<Rightarrow> int \<Rightarrow> nat \<Rightarrow> candidate \<Rightarrow> int \<Rightarrow> int \<Rightarrow> string \<Rightarrow> unit rdb" where
  "persist_candidate cfg run_id rank c run_date started_at universe_name =
     (let s = ca_stock c; i = ca_indicator c; meta = co_metadata (ca_components c);
          evidence = serialize_report_evidence (ca_report_score c) (ca_theme_score c) (ca_adjustment c);
          evidences = [(''report_evidence'', evidence), (''news_evidence'', meta_get meta ''news_evidence''),
            (''fundamental_evidence'', meta_get meta ''fundamental_evidence''),
            (''disclosure_risk_evidence'', json_opt id (ca_disclosure_evidence c))];
          why = watch_candidate_reason i
      in sbind (snapshot_add \<lparr>ds_snapshot_id = 0, ds_snapshot_time = started_at, ds_symbol = st_symbol s,
           ds_snapshot_type = ''RECOMMENDATION'', ds_price_data = JNull, ds_indicator_data = serialize_indicator i,
           ds_market_context = JObj ([(''universe'', JStr universe_name), (''run_date'', JInt run_date), (''run_id'', JInt run_id),
             (''phase'', JStr ''5-3''), (''component_score_metadata'', JObj meta), (''risk_summary'', serialize_risk_summary (ca_risk c))]
             @ evidences @ [(''score_delta'', json_opt delta_json (ca_score_delta c))])\<rparr>) (\<lambda>snapshot_id.
         sbind (recommendation_add \<lparr>rc_id = 0, rc_run_id = run_id, rc_rank = int rank, rc_market = st_market s, rc_symbol = st_symbol s,
           rc_name = st_name s, rc_grade = Some (grade_for_score (ca_total_score c)), rc_total_score = Some (ca_total_score c),
           rc_technical_score = si_technical_score i, rc_news_score = Some (co_news_score (ca_components c)),
           rc_supply_score = Some (co_supply_score (ca_components c)),
           rc_fundamental_score = Some (co_fundamental_score (ca_components c)),
           rc_ai_score = Some (co_ai_score (ca_components c)), rc_risk_score = Some (ra_risk_penalty (ca_risk c)), rc_reason = why,
           rc_risk_note = ''Phase 5-3: dummy/rule-based component scores; risk_level='' @
             (case level_json (ra_risk_level (ca_risk c)) of JStr l \<Rightarrow> l | _ \<Rightarrow> []), rc_snapshot_id = Some snapshot_id\<rparr>) (\<lambda>_.
         sbind (persist_score_log cfg run_id run_date c evidence) (\<lambda>_.
         sbind (decision_add \<lparr>dl_decision_id = 0, dl_decision_type = ''RECOMMENDATION'', dl_symbol = st_symbol s,
           dl_input_snapshot_id = Some snapshot_id,
           dl_rule_result = JObj (dict_merge (serialize_score_components (ca_score c))
             ([(''base_total_score'', JDec (bd_total_score (ca_score c))), (''total_score_after'', JDec (ca_total_score c)),
               (''component_scores'', JObj [(''news'', JDec (co_news_score (ca_components c))), (''supply'', JDec (co_supply_score (ca_components c))),
                 (''fundamental'', JDec (co_fundamental_score (ca_components c))), (''ai'', JDec (co_ai_score (ca_components c)))]),
               (''score_producer'', JObj meta)] @ evidences)),
           dl_risk_result = serialize_risk_details (ca_risk c),
           dl_final_decision = ''WATCH_CANDIDATE_RANK_'' @ str_of_int (int rank), dl_reason = why\<rparr>) (\<lambda>_. sret ())))))"

fun persist_all ::
  "recommendation_config \<Rightarrow> int \<Rightarrow> nat \<Rightarrow> candidate list \<Rightarrow> int \<Rightarrow> int \<Rightarrow> string \<Rightarrow> unit rdb" where
  "persist_all cfg run_id rank [] run_date started_at universe_name = sret ()"
| "persist_all cfg run_id rank (c # cs) run_date started_at universe_name =
     sbind (persist_candidate cfg run_id rank c run_date started_at universe_name) (\<lambda>_.
     persist_all cfg run_id (rank + 1) cs run_date started_at universe_name)"

definition generate :: "recommendation_config \<Rightarrow> int \<Rightarrow> string option \<Rightarrow> int \<Rightarrow> run_result rdb" where
  "generate cfg run_date universe_name top_n =
     (let target = (case universe_name of None \<Rightarrow> ''MARKET_CAP_TOP_500'' | Some n \<Rightarrow> if n = [] then ''MARKET_CAP_TOP_500'' else n)
      in sbind research_now (\<lambda>started_at.
         sbind (run_add \<lparr>rn_run_id = 0, rn_run_date = run_date, rn_started_at = started_at, rn_finished_at = None,
           rn_market_summary = JNull, rn_status = ''RUNNING'', rn_telegram_sent = False\<rparr>) (\<lambda>run_id.
         sbind (universe_get_by_name target) (\<lambda>universe.
         sbind (case universe of None \<Rightarrow> sret [] | Some u \<Rightarrow> member_list_by_universe (un_universe_id u)) (\<lambda>members.
         sbind (evaluate_members cfg run_date members ([], 0, 0)) (\<lambda>(candidates, no_indicator, no_stock).
         let top = take (nat top_n) (rank_candidates candidates) in
         sbind (persist_all cfg run_id 1 top run_date started_at target) (\<lambda>_.
         sbind research_now (\<lambda>finished_at.
         let status = (if top = [] then ''EMPTY'' else ''SUCCESS'');
             summary = [(''universe'', JStr target), (''universe_found'', JBool (universe \<noteq> None)),
               (''member_count'', JInt (int (length members))), (''candidate_count'', JInt (int (length candidates))),
               (''saved_count'', JInt (int (length top))), (''skipped_no_indicator'', JInt (int no_indicator)),
               (''skipped_no_stock_master'', JInt (int no_stock)), (''phase'', JStr ''5-3''),
               (''score_components'', JList (map JStr [''news'', ''supply'', ''fundamental'', ''ai''])),
               (''score_producer'', JStr ''DummyScoreProducer'')] @
               (if rg_score_log_repository cfg then [(''report_intelligence'', JStr ''ReportScoreCalculator'')] else [])
         in sbind (run_update run_id (\<lambda>r. r\<lparr>rn_finished_at := Some finished_at, rn_status := status,
              rn_market_summary := JObj summary\<rparr>)) (\<lambda>_.
         sret \<lparr>ru_run_id = run_id, ru_run_date = run_date, ru_status = status, ru_candidate_count = length candidates,
           ru_saved_count = length top, ru_skipped_no_indicator = no_indicator, ru_skipped_no_stock_master = no_stock\<rparr>)))))))))"

end
