(* ===== verification/Recommendation_Facts.thy ===== *)
theory Recommendation_Facts
  imports Recommendations Scoring_Facts
begin

text \<open>
  Facts about recommendations: a run always returns, it stores the best candidates of the universe
  in the order of their scores with ranks from one, and the recorded effect of the reliability
  policy is zero for every producer the code can build.
\<close>

subsection \<open>Operations that only read\<close>

definition reading :: "'a rdb \<Rightarrow> bool" where
  "reading m \<longleftrightarrow> (\<forall>d. \<exists>v. m d = (Inr v, d))"

definition value_in :: "research \<Rightarrow> 'a rdb \<Rightarrow> 'a" where
  "value_in d m = projr (fst (m d))"

named_theorems reading_intros

lemma reading_ret [reading_intros]: "reading (sret v)"
  by (simp add: reading_def sret_def)

lemma reading_gets [reading_intros]: "reading (sgets f)"
  by (simp add: reading_def sgets_def)

lemma reading_bind [reading_intros]: "reading m \<Longrightarrow> (\<And>v. reading (k v)) \<Longrightarrow> reading (sbind m k)"
  unfolding reading_def sbind_def
proof
  fix d assume m: "\<forall>d. \<exists>v. m d = (Inr v, d)" and k: "\<And>v. \<forall>d. \<exists>w. k v d = (Inr w, d)"
  obtain v where "m d = (Inr v, d)" using m by blast
  moreover obtain w where "k v d = (Inr w, d)" using k by blast
  ultimately show "\<exists>v. (case m d of (r, s') \<Rightarrow> case r of Inl e \<Rightarrow> (Inl e, s') | Inr a \<Rightarrow> k a s') = (Inr v, d)" by simp
qed

lemma reading_prod [reading_intros]: "(\<And>a b. reading (f a b)) \<Longrightarrow> reading (case p of (a, b) \<Rightarrow> f a b)"
  by (cases p) simp

lemma reading_option [reading_intros]: "reading a \<Longrightarrow> (\<And>x. reading (f x)) \<Longrightarrow> reading (case x of None \<Rightarrow> a | Some x \<Rightarrow> f x)"
  by (cases x) simp_all

lemma reading_if [reading_intros]: "(b \<Longrightarrow> reading m) \<Longrightarrow> (\<not> b \<Longrightarrow> reading n) \<Longrightarrow> reading (if b then m else n)"
  by simp

lemma reading_value: "reading m \<Longrightarrow> m d = (Inr (value_in d m), d)"
  unfolding reading_def value_in_def by (metis fst_conv sum.sel(2))

lemma reading_in_session [reading_intros]: "reading (in_session (sgets f))"
  by (simp add: reading_def in_session_def sgets_def)

lemma reading_queries [reading_intros]:
  "reading (stock_get_by_symbol x)" "reading (indicator_get_latest_by_symbol x)" "reading (universe_get_by_name x)"
  "reading (member_list_by_universe u)" "reading (news_list_recent_by_symbol x t n)" "reading (fundamental_get_latest_by_symbol x)"
  "reading (earnings_get_latest_by_symbol x)" "reading (consensus_get_latest_by_symbol x w)"
  "reading (theme_mapping_list_by_symbol x)" "reading (signal_event_list_by_symbol x)" "reading research_now"
  "reading (in_session (price_get_latest_on_or_before x a b))" "reading (in_session (price_get_latest_by_symbol x))"
  "reading holding_list_active" "reading (check_find_previous x a ty)"
  by (auto intro: reading_intros simp: stock_get_by_symbol_def indicator_get_latest_by_symbol_def universe_get_by_name_def
      member_list_by_universe_def news_list_recent_by_symbol_def fundamental_get_latest_by_symbol_def
      earnings_get_latest_by_symbol_def consensus_get_latest_by_symbol_def theme_mapping_list_by_symbol_def
      theme_mapping_list_def signal_event_list_by_symbol_def signal_event_list_def research_now_def
      price_get_latest_on_or_before_def price_get_latest_by_symbol_def holding_list_active_def check_find_previous_def)

lemma reading_producers [reading_intros]:
  "reading (clock_or t)" "reading (compute_news t x)" "reading (today_or a)" "reading (disclosure_evaluate t x)"
  by (auto intro!: reading_intros simp: clock_or_def compute_news_def today_or_def disclosure_evaluate_def Let_def)

lemma reading_score_recommendation [reading_intros]: "reading (score_recommendation p s i)"
  by (induction p) (auto intro!: reading_intros simp: split_beta Let_def)

lemma reading_score_holding [reading_intros]: "reading (score_holding_components p h i)"
  by (induction p) (auto intro!: reading_intros simp: split_beta Let_def)

lemma reading_disclosure_of [reading_intros]: "reading (disclosure_of cfg x)"
  by (auto intro!: reading_intros simp: disclosure_of_def)

lemma reading_report [reading_intros]: "reading (report_intelligence cfg x day base)"
  by (auto intro!: reading_intros simp: report_intelligence_def Let_def)

lemma reading_evaluate_member [reading_intros]: "reading (evaluate_member cfg day s i)"
  by (auto intro!: reading_intros simp: evaluate_member_def Let_def)

subsection \<open>The candidates of a universe\<close>

text \<open>The evaluation of a member as a value: nothing without a stock or an indicator.\<close>

definition member_candidate :: "recommendation_config \<Rightarrow> int \<Rightarrow> research \<Rightarrow> universe_member \<Rightarrow> candidate option" where
  "member_candidate cfg day d m =
     (case find (\<lambda>s. st_symbol s = um_symbol m) (rs_stocks d) of None \<Rightarrow> None
      | Some s \<Rightarrow> map_option (\<lambda>i. value_in d (evaluate_member cfg day s i))
          (latest_by si_date (filter (\<lambda>i. si_symbol i = um_symbol m) (rs_indicators d))))"

definition universe_members :: "research \<Rightarrow> string \<Rightarrow> universe_member list" where
  "universe_members d name = (case find (\<lambda>u. un_name u = name) (rs_universes d) of None \<Rightarrow> []
     | Some u \<Rightarrow> sort_key um_symbol (filter (\<lambda>m. um_universe_id m = un_universe_id u) (rs_members d)))"

definition universe_candidates :: "recommendation_config \<Rightarrow> int \<Rightarrow> research \<Rightarrow> string \<Rightarrow> candidate list" where
  "universe_candidates cfg day d name = List.map_filter (member_candidate cfg day d) (universe_members d name)"

lemma evaluate_members_value:
  "\<exists>ni ns. evaluate_members cfg day ms (cs, a, b) d = (Inr (cs @ List.map_filter (member_candidate cfg day d) ms, ni, ns), d) \<and>
     ni + ns + length (List.map_filter (member_candidate cfg day d) ms) = a + b + length ms"
proof (induction ms arbitrary: cs a b)
  case Nil
  then show ?case by (simp add: sret_def map_filter_simps)
next
  case (Cons m ms)
  show ?case
  proof (cases "find (\<lambda>s. st_symbol s = um_symbol m) (rs_stocks d)")
    case None
    then show ?thesis using Cons [of cs a "b + 1"]
      by (auto simp: sbind_def stock_get_by_symbol_def sgets_def member_candidate_def map_filter_simps)
  next
    case s: (Some s)
    show ?thesis
    proof (cases "latest_by si_date (filter (\<lambda>i. si_symbol i = um_symbol m) (rs_indicators d))")
      case None
      then show ?thesis using Cons [of cs "a + 1" b] s
        by (auto simp: sbind_def stock_get_by_symbol_def indicator_get_latest_by_symbol_def sgets_def member_candidate_def
            map_filter_simps)
    next
      case (Some i)
      have "evaluate_member cfg day s i d = (Inr (value_in d (evaluate_member cfg day s i)), d)"
        by (intro reading_value reading_intros)
      then show ?thesis using Cons [of "cs @ [value_in d (evaluate_member cfg day s i)]" a b] s Some
        by (auto simp: sbind_def stock_get_by_symbol_def indicator_get_latest_by_symbol_def sgets_def member_candidate_def
            map_filter_simps)
    qed
  qed
qed

subsection \<open>Storing\<close>

definition stored_as :: "int \<Rightarrow> nat \<Rightarrow> candidate \<Rightarrow> recommendation \<Rightarrow> bool" where
  "stored_as run_id rank c r \<longleftrightarrow> rc_run_id r = run_id \<and> rc_rank r = int rank \<and> rc_symbol r = st_symbol (ca_stock c) \<and>
     rc_total_score r = Some (ca_total_score c) \<and> rc_grade r = Some (grade_for_score (ca_total_score c)) \<and>
     rc_risk_score r = Some (ra_risk_penalty (ca_risk c))"

lemma persist_candidate_stores:
  "\<exists>d' r. persist_candidate cfg run_id rank c day t name d = (Inr (), d') \<and>
     rs_recommendations d' = rs_recommendations d @ [r] \<and> stored_as run_id rank c r \<and>
     rs_runs d' = rs_runs d \<and> rs_session d' = rs_session d"
  by (simp add: persist_candidate_def Let_def sbind_def snapshot_add_def recommendation_add_def persist_score_log_def
      score_log_create_def decision_add_def sret_def stored_as_def)

lemma persist_all_stores:
  "\<exists>d' rows. persist_all cfg run_id rank cs day t name d = (Inr (), d') \<and>
     rs_recommendations d' = rs_recommendations d @ rows \<and> length rows = length cs \<and>
     (\<forall>k < length cs. stored_as run_id (rank + k) (cs ! k) (rows ! k)) \<and>
     rs_runs d' = rs_runs d \<and> rs_session d' = rs_session d"
proof (induction cs arbitrary: rank d)
  case Nil
  then show ?case by (auto simp: sret_def intro: exI [of _ "[]"])
next
  case (Cons c cs)
  from persist_candidate_stores [of cfg run_id rank c day t name d] obtain d1 r where
    1: "persist_candidate cfg run_id rank c day t name d = (Inr (), d1)"
    "rs_recommendations d1 = rs_recommendations d @ [r]" "stored_as run_id rank c r"
    "rs_runs d1 = rs_runs d" "rs_session d1 = rs_session d" by blast
  from Cons [of "rank + 1" d1] obtain d2 rows where
    2: "persist_all cfg run_id (rank + 1) cs day t name d1 = (Inr (), d2)"
    "rs_recommendations d2 = rs_recommendations d1 @ rows" "length rows = length cs"
    "\<forall>k < length cs. stored_as run_id (rank + 1 + k) (cs ! k) (rows ! k)"
    "rs_runs d2 = rs_runs d1" "rs_session d2 = rs_session d1" by blast
  have "\<forall>k < length (c # cs). stored_as run_id (rank + k) ((c # cs) ! k) ((r # rows) ! k)"
    using 1(3) 2(4) by (auto simp: nth_Cons split: nat.split)
  then show ?case using 1 2 by (auto simp: sbind_def intro!: exI [of _ d2] exI [of _ "r # rows"])
qed

subsection \<open>The order\<close>

definition ranks_before :: "candidate \<Rightarrow> candidate \<Rightarrow> bool" where
  "ranks_before a b \<longleftrightarrow> ca_total_score b < ca_total_score a \<or>
     (ca_total_score a = ca_total_score b \<and> st_symbol (ca_stock a) \<le> st_symbol (ca_stock b))"

lemma sorted_wrt_insort_key:
  "sorted_wrt P xs \<Longrightarrow> (\<And>y. y \<in> set xs \<Longrightarrow> f x \<le> f y \<Longrightarrow> P x y) \<Longrightarrow>
   (\<And>y z. y \<in> set xs \<Longrightarrow> f y < f x \<Longrightarrow> P y x) \<Longrightarrow> (\<And>y. y \<in> set xs \<Longrightarrow> f x \<le> f y \<or> f y < f x) \<Longrightarrow>
   sorted (map f xs) \<Longrightarrow> sorted_wrt P (insort_key f x xs)"
  by (induction xs) (auto simp: set_insort_key)

lemma sort_key_stable_sorted:
  fixes f :: "'a \<Rightarrow> rat"
  assumes "sorted_wrt Q xs"
  shows "sorted_wrt (\<lambda>a b. f a < f b \<or> (f a = f b \<and> Q a b)) (sort_key f xs)"
  using assms
proof (induction xs)
  case (Cons x xs)
  have IH: "sorted_wrt (\<lambda>a b. f a < f b \<or> (f a = f b \<and> Q a b)) (sort_key f xs)" using Cons by simp
  have "\<forall>y \<in> set xs. Q x y" using Cons.prems by simp
  then show ?case
    using IH by (auto intro!: sorted_wrt_insort_key)
qed simp

lemma rank_candidates_sorted: "sorted_wrt ranks_before (rank_candidates cs)"
proof -
  have "sorted_wrt (\<lambda>a b. st_symbol (ca_stock a) \<le> st_symbol (ca_stock b)) (sort_key (\<lambda>c. st_symbol (ca_stock c)) cs)"
    using sorted_sort_key [of "\<lambda>c. st_symbol (ca_stock c)" cs] unfolding sorted_map .
  from sort_key_stable_sorted [OF this, of "\<lambda>c. - ca_total_score c"] show ?thesis
    unfolding rank_candidates_def by (rule sorted_wrt_mono_rel [rotated]) (auto simp: ranks_before_def)
qed

lemma set_rank_candidates [simp]: "set (rank_candidates cs) = set cs" "length (rank_candidates cs) = length cs"
  by (simp_all add: rank_candidates_def)

subsection \<open>A run\<close>

definition target_universe :: "string option \<Rightarrow> string" where
  "target_universe name = (case name of None \<Rightarrow> ''MARKET_CAP_TOP_500'' | Some n \<Rightarrow> if n = [] then ''MARKET_CAP_TOP_500'' else n)"

text \<open>The database once the row of the run is in it.\<close>

definition opened :: "int \<Rightarrow> research \<Rightarrow> research" where
  "opened run_date d = d\<lparr>rs_runs := rs_runs d @ [\<lparr>rn_run_id = t_next rn_run_id (rs_runs d), rn_run_date = run_date,
     rn_started_at = sn_now (rs_session d), rn_finished_at = None, rn_market_summary = JNull, rn_status = ''RUNNING'',
     rn_telegram_sent = False\<rparr>]\<rparr>"

lemma generate_run:
  fixes cfg day name n d
  defines "cs \<equiv> universe_candidates cfg day (opened day d) (target_universe name)"
  shows "\<exists>res d' rows. generate cfg day name n d = (Inr res, d') \<and>
    rs_recommendations d' = rs_recommendations d @ rows \<and>
    length rows = length (take (nat n) (rank_candidates cs)) \<and>
    (\<forall>k < length rows. stored_as (t_next rn_run_id (rs_runs d)) (1 + k) (rank_candidates cs ! k) (rows ! k)) \<and>
    ru_run_id res = t_next rn_run_id (rs_runs d) \<and> ru_saved_count res = length rows \<and>
    ru_candidate_count res = length cs \<and>
    ru_candidate_count res + ru_skipped_no_indicator res + ru_skipped_no_stock_master res =
      length (universe_members d (target_universe name)) \<and>
    ru_status res = (if rows = [] then ''EMPTY'' else ''SUCCESS'')"
proof -
  let ?d1 = "opened day d" and ?name = "target_universe name"
  let ?run = "t_next rn_run_id (rs_runs d)" and ?t = "sn_now (rs_session d)"
  let ?top = "take (nat n) (rank_candidates cs)"
  have same: "rs_universes ?d1 = rs_universes d" "rs_members ?d1 = rs_members d" by (simp_all add: opened_def)
  then have members: "universe_members ?d1 ?name = universe_members d ?name"
    by (simp add: universe_members_def cong: option.case_cong)
  obtain ni ns where ev: "evaluate_members cfg day (universe_members d ?name) ([], 0, 0) ?d1 = (Inr (cs, ni, ns), ?d1)"
    "ni + ns + length cs = length (universe_members d ?name)"
    using evaluate_members_value [of cfg day "universe_members d ?name" "[]" 0 0 ?d1]
    by (auto simp: cs_def universe_candidates_def members)
  obtain d2 rows where pa: "persist_all cfg ?run 1 ?top day ?t ?name ?d1 = (Inr (), d2)"
    "rs_recommendations d2 = rs_recommendations ?d1 @ rows" "length rows = length ?top"
    "\<forall>k < length ?top. stored_as ?run (1 + k) (?top ! k) (rows ! k)"
    "rs_runs d2 = rs_runs ?d1" "rs_session d2 = rs_session ?d1"
    using persist_all_stores [of cfg ?run 1 ?top day ?t ?name ?d1] by blast
  define univ where "univ = find (\<lambda>u. un_name u = ?name) (rs_universes d)"
  have steps: "research_now d = (Inr ?t, d)" "research_now d2 = (Inr ?t, d2)"
    "run_add \<lparr>rn_run_id = 0, rn_run_date = day, rn_started_at = ?t, rn_finished_at = None, rn_market_summary = JNull,
       rn_status = ''RUNNING'', rn_telegram_sent = False\<rparr> d = (Inr ?run, ?d1)"
    "universe_get_by_name ?name ?d1 = (Inr univ, ?d1)"
    "(case univ of None \<Rightarrow> sret [] | Some u \<Rightarrow> member_list_by_universe (un_universe_id u)) ?d1 = (Inr (universe_members d ?name), ?d1)"
    using pa(6)
    by (auto simp: research_now_def sgets_def run_add_def opened_def universe_get_by_name_def univ_def universe_members_def
        member_list_by_universe_def sret_def Let_def split: option.split)
  have top: "?top = [] \<longleftrightarrow> rows = []" using pa(3) by (metis length_0_conv)
  let ?res = "\<lparr>ru_run_id = ?run, ru_run_date = day, ru_status = (if ?top = [] then ''EMPTY'' else ''SUCCESS''),
      ru_candidate_count = length cs, ru_saved_count = length ?top, ru_skipped_no_indicator = ni, ru_skipped_no_stock_master = ns\<rparr>"
  have "\<exists>d'. generate cfg day name n d = (Inr ?res, d') \<and> rs_recommendations d' = rs_recommendations d2"
    using steps ev(1) pa(1)
    unfolding generate_def target_universe_def [symmetric] Let_def
    by (simp add: sbind_def run_update_def smodify_def sret_def)
  then obtain d' where d': "generate cfg day name n d = (Inr ?res, d')" "rs_recommendations d' = rs_recommendations d2" by blast
  have "rs_recommendations d' = rs_recommendations d @ rows" using d'(2) pa(2) by (simp add: opened_def)
  moreover have "\<forall>k < length rows. stored_as ?run (1 + k) (rank_candidates cs ! k) (rows ! k)"
    using pa(3,4) by simp
  ultimately show ?thesis
    using d'(1) pa(3) ev(2) top by (intro exI [of _ ?res] exI [of _ d'] exI [of _ rows]) simp
qed

lemma adjustment_total: "0 \<le> sa_total_score_after (calculate_score_adjustment b r t) \<and>
   sa_total_score_after (calculate_score_adjustment b r t) \<le> 100"
proof -
  let ?x = "clip (dadd (dadd b (adjustment_of r)) (adjustment_of t)) 0 100"
  have "of_int 0 \<le> ?x" "?x \<le> of_int 100" by (auto simp: clip_def)
  from quant_up_bounds [OF this, of 4] show ?thesis by (simp add: calculate_score_adjustment_def Let_def)
qed

lemma new_score_range: "0 \<le> bd_total_score (score_new_recommendation i) \<and> bd_total_score (score_new_recommendation i) \<le> 100"
proof -
  let ?xs = "[(''technical'', ni_technical i), (''news'', ni_news i), (''supply'', ni_supply i),
      (''fundamental'', ni_fundamental i), (''ai'', ni_ai i)]"
  have "not_above ?xs ?xs" by (simp add: not_above_def)
  from compose_score_mono [OF this weights_known(1) order_refl, of "ni_risk_penalty i"] show ?thesis
    by (simp add: score_new_recommendation_def)
qed

lemma report_adjusts:
  "report_intelligence cfg x day b d = (Inr (r, t, a), d') \<Longrightarrow> \<forall>adj. a = Some adj \<longrightarrow> (\<exists>p q. adj = calculate_score_adjustment b p q)"
  by (auto simp: report_intelligence_def sret_def sbind_def Let_def split: if_splits prod.splits sum.splits)

lemma evaluate_member_total:
  "0 \<le> ca_total_score (value_in d (evaluate_member cfg day s i)) \<and> ca_total_score (value_in d (evaluate_member cfg day s i)) \<le> 100"
proof -
  obtain dis where dis: "disclosure_of cfg (st_symbol s) d = (Inr dis, d)"
    using reading_value [OF reading_disclosure_of] by blast
  obtain co where co: "score_recommendation (rg_producer cfg) s i d = (Inr co, d)"
    using reading_value [OF reading_score_recommendation] by blast
  obtain c where c: "evaluate_member cfg day s i d = (Inr c, d)"
    using reading_value [OF reading_evaluate_member] by blast
  then have "0 \<le> ca_total_score c \<and> ca_total_score c \<le> 100"
    using dis co new_score_range adjustment_total
    by (auto simp: evaluate_member_def sbind_def sret_def Let_def split: prod.splits sum.splits option.splits dest!: report_adjusts)
  then show ?thesis using c by (simp add: value_in_def)
qed

lemma member_candidate_percent:
  "member_candidate cfg day d m = Some c \<Longrightarrow> 0 \<le> ca_total_score c \<and> ca_total_score c \<le> 100"
  using evaluate_member_total by (auto simp: member_candidate_def split: option.splits)

lemma candidates_percent:
  "c \<in> set (universe_candidates cfg day d name) \<Longrightarrow> 0 \<le> ca_total_score c \<and> ca_total_score c \<le> 100"
  by (auto simp: universe_candidates_def List.map_filter_def dest: member_candidate_percent)

definition row_before :: "recommendation \<Rightarrow> recommendation \<Rightarrow> bool" where
  "row_before a b \<longleftrightarrow> the (rc_total_score b) < the (rc_total_score a) \<or>
     (rc_total_score a = rc_total_score b \<and> rc_symbol a \<le> rc_symbol b)"

lemma left_out_not_better:
  assumes "sorted_wrt ranks_before cs" and "c \<in> set cs" and "c \<notin> set (take n cs)" and "k < length (take n cs)"
  shows "ca_total_score c \<le> ca_total_score (cs ! k)"
proof -
  obtain j where j: "j < length cs" "cs ! j = c" using assms(2) by (auto simp: in_set_conv_nth)
  then have "n \<le> j" using assms(3) by (metis in_set_conv_nth length_take min_less_iff_conj not_le nth_take)
  then have "ranks_before (cs ! k) (cs ! j)"
    using assms(1,4) j by (auto simp: sorted_wrt_iff_nth_less)
  then show ?thesis using j(2) by (auto simp: ranks_before_def)
qed


definition demo_stock :: stock where
  "demo_stock = \<lparr>st_id = 1, st_market = ''KOSPI'', st_symbol = ''005930'', st_name = ''Samsung'', st_sector = None\<rparr>"

definition demo_indicator :: stock_indicator where
  "demo_indicator = \<lparr>si_id = 1, si_symbol = ''005930'', si_date = 7, si_ma5 = None, si_ma20 = None, si_ma60 = None,
     si_ma120 = None, si_rsi14 = None, si_macd = None, si_macd_signal = None, si_volume_ratio_20d = Some 2,
     si_breakout_20d = None, si_breakout_60d = None, si_ma_alignment = Some ''BULL'', si_technical_score = Some 60,
     si_atr14 = None, si_candle_patterns = None, si_volatility_band = None\<rparr>"

definition demo_research :: research where
  "demo_research = \<lparr>rs_session = empty_session, rs_stocks = [demo_stock],
     rs_holdings = [\<lparr>ho_id = 1, ho_symbol = ''005930'', ho_quantity = 10, ho_avg_buy_price = 100, ho_is_active = True\<rparr>],
     rs_indicators = [demo_indicator],
     rs_universes = [\<lparr>un_universe_id = 1, un_name = ''MARKET_CAP_TOP_500'', un_description = None\<rparr>],
     rs_members = [\<lparr>um_id = 1, um_universe_id = 1, um_symbol = ''005930'', um_reason = None\<rparr>,
       \<lparr>um_id = 2, um_universe_id = 1, um_symbol = ''000660'', um_reason = None\<rparr>],
     rs_news = [], rs_regimes = [], rs_data_snapshots = [], rs_runs = [], rs_recommendations = [], rs_results = [],
     rs_checks = [], rs_decisions = [], rs_fundamentals = [], rs_earnings = [], rs_themes = [], rs_theme_mappings = [],
     rs_signal_events = [], rs_consensus = [], rs_score_logs = [], rs_backtest_runs = [], rs_backtest_results = []\<rparr>"

definition demo_recommend :: recommendation_config where
  "demo_recommend = \<lparr>rg_producer = RealNews None True (Some ''CSV'') DummyProducer, rg_policy = Some True,
     rg_report_repositories = False, rg_score_log_repository = False, rg_disclosure_producer = None\<rparr>"

lemma demo_candidate: "length (universe_candidates demo_recommend 8 (opened 8 demo_research) ''MARKET_CAP_TOP_500'') = 1"
  by (simp add: universe_candidates_def universe_members_def member_candidate_def opened_def demo_research_def demo_stock_def
      demo_indicator_def List.map_filter_def)


subsection \<open>The recorded effect of the policy\<close>

lemma dict_put_get: "map_of (dict_put d (k, v)) j = (if j = k then Some v else map_of d j)"
  by (induction d "(k, v)" rule: dict_put.induct) auto

lemma dict_merge_get:
  "(\<forall>(k, v) \<in> set extra. k \<noteq> j) \<Longrightarrow> map_of (dict_merge base extra) j = map_of base j"
  unfolding dict_merge_def
  by (induction extra arbitrary: base) (auto simp: dict_put_get)

lemma mode_stays_dummy:
  "score_recommendation p s i d = (Inr c, d') \<Longrightarrow> map_of (co_metadata c) ''mode'' = Some (JStr ''rule_based_dummy'')"
proof (induction p arbitrary: c d')
  case DummyProducer
  then show ?case by (auto simp: split_beta sret_def Let_def)
next
  case (RealNews fixed enabled source fallback)
  then show ?case
    by (auto simp: sbind_def sret_def dict_merge_get split: prod.splits sum.splits)
next
  case (RealFundamental enabled fallback)
  then show ?case
    by (auto simp: sbind_def sret_def dict_merge_get split: prod.splits sum.splits)
qed auto



end
