(* ===== verification/Holding_Checks.thy ===== *)
theory Holding_Checks
  imports Recommendations
begin

text \<open>
  The holding check engine of \<^verbatim>\<open>app/decision/holding_check_engine.py\<close>: before and after the
  market it scores every active holding that has a price and an indicator, lets the risk engine see
  the score without penalty, scores again with the penalty and stores the decision with a snapshot
  and a decision log.
\<close>

record holding_config =
  hg_producer :: producer
  hg_policy :: "bool option"
  hg_disclosure_producer :: "int option option"

record check_result =
  ck_check_date :: int
  ck_check_type :: string
  ck_saved_count :: nat
  ck_skipped_no_price :: nat
  ck_skipped_no_indicator :: nat
  ck_alert_count :: nat
  ck_holding_check_ids :: "int list"

definition holding_grade :: "decimal option \<Rightarrow> string" where
  "holding_grade score = (case score of None \<Rightarrow> ''D''
     | Some v \<Rightarrow> if 85 \<le> v then ''S'' else if 70 \<le> v then ''A'' else if 55 \<le> v then ''B'' else if 40 \<le> v then ''C'' else ''D'')"

definition decision_from_grade :: "string \<Rightarrow> string" where
  "decision_from_grade grade = (case map_of [(''S'', ''HOLD''), (''A'', ''HOLD''), (''B'', ''WATCH''), (''C'', ''REDUCE''),
     (''D'', ''SELL_REVIEW'')] grade of None \<Rightarrow> ''SELL_REVIEW'' | Some x \<Rightarrow> x)"

definition serialize_price :: "daily_price \<Rightarrow> json" where
  "serialize_price p = JObj [(''date'', JInt (dp_date p)), (''open'', JDec (dp_open p)), (''high'', JDec (dp_high p)),
     (''low'', JDec (dp_low p)), (''close'', JDec (dp_close p)), (''volume'', JInt (dp_volume p)),
     (''trading_value'', json_opt JDec (dp_trading_value p))]"

definition compute_return_rate :: "decimal \<Rightarrow> decimal option \<Rightarrow> decimal option" where
  "compute_return_rate current_price avg_buy_price =
     (case avg_buy_price of None \<Rightarrow> None
      | Some b \<Rightarrow> if b = 0 then None else Some (quant_up 4 (dmul (ddiv (dsub current_price b) b) 100)))"

definition holding_inputs :: "stock_indicator \<Rightarrow> holding_component_scores \<Rightarrow> decimal option \<Rightarrow> holding_score_inputs" where
  "holding_inputs i c risk_penalty = \<lparr>hi_technical = si_technical_score i, hi_news = Some (hs_news_score c),
     hi_earnings = Some (hs_earnings_score c), hi_ai = Some (hs_ai_score c), hi_profit_management = None,
     hi_risk_penalty = risk_penalty\<rparr>"

definition holding_delta_components :: "holding_component_scores \<Rightarrow> (string \<times> decimal option \<times> string option) list" where
  "holding_delta_components c =
     [(''news'', Some (hs_news_score c), delta_source (hs_metadata c) ''news''),
      (''earnings'', Some (hs_earnings_score c), delta_source (hs_metadata c) ''earnings''),
      (''ai'', Some (hs_ai_score c), delta_source (hs_metadata c) ''ai'')]"

text \<open>The verdict on a holding: what the row, the snapshot and the log are written from.\<close>

record verdict =
  vd_return_rate :: "decimal option"
  vd_components :: holding_component_scores
  vd_assessment :: risk_assessment
  vd_final :: score_breakdown
  vd_grade :: string
  vd_decision :: string
  vd_reason :: reason
  vd_disclosure_evidence :: "json option"
  vd_score_delta :: "score_delta option"

definition evaluate_check ::
  "holding_config \<Rightarrow> holding \<Rightarrow> daily_price \<Rightarrow> stock_indicator \<Rightarrow> int \<Rightarrow> string \<Rightarrow> verdict rdb" where
  "evaluate_check cfg h p i check_date check_type =
     (let current_price = dp_close p; return_rate = compute_return_rate current_price (Some (ho_avg_buy_price h))
      in sbind (score_holding_components (hg_producer cfg) h i) (\<lambda>components.
         let weighted_only = score_holding (holding_inputs i components None) in
         sbind (check_find_previous (ho_symbol h) check_date check_type) (\<lambda>previous_check.
         sbind (case hg_disclosure_producer cfg of None \<Rightarrow> sret None
                | Some clock \<Rightarrow> sbind (disclosure_evaluate clock (ho_symbol h)) (\<lambda>r. sret (Some r))) (\<lambda>disclosure.
         let assessment = evaluate_holding (si_technical_score i) (bd_total_score weighted_only)
               (Option.bind previous_check hc_total_score) current_price (si_ma20 i) return_rate
               (case disclosure of None \<Rightarrow> 0 | Some r \<Rightarrow> dr_count r)
               (case disclosure of None \<Rightarrow> 0 | Some r \<Rightarrow> dr_penalty_addition r);
             final = score_holding (holding_inputs i components (Some (ra_risk_penalty assessment)));
             grade = holding_grade (Some (bd_total_score final)); decision = decision_from_grade grade
         in sret \<lparr>vd_return_rate = return_rate, vd_components = components, vd_assessment = assessment, vd_final = final,
              vd_grade = grade, vd_decision = decision,
              vd_reason = HoldingReason decision return_rate (bd_total_score final) (ra_risk_flags assessment),
              vd_disclosure_evidence = map_option dr_evidence disclosure,
              vd_score_delta = map_option (\<lambda>enabled. compute_score_delta (holding_delta_components components) enabled)
                (hg_policy cfg)\<rparr>))))"

text \<open>The three rows that one check stores.\<close>

definition check_evidences :: "verdict \<Rightarrow> (string \<times> json) list" where
  "check_evidences v = (let meta = hs_metadata (vd_components v) in
     [(''news_evidence'', meta_get meta ''news_evidence''), (''earnings_evidence'', meta_get meta ''earnings_evidence''),
      (''disclosure_risk_evidence'', json_opt id (vd_disclosure_evidence v))])"

definition check_snapshot ::
  "verdict \<Rightarrow> holding \<Rightarrow> daily_price \<Rightarrow> stock_indicator \<Rightarrow> int \<Rightarrow> string \<Rightarrow> int \<Rightarrow> data_snapshot" where
  "check_snapshot v h p i check_date check_type started_at =
     \<lparr>ds_snapshot_id = 0, ds_snapshot_time = started_at, ds_symbol = ho_symbol h,
      ds_snapshot_type = ''HOLDING_CHECK'', ds_price_data = serialize_price p, ds_indicator_data = serialize_indicator i,
      ds_market_context = JObj ([(''check_date'', JInt check_date), (''check_type'', JStr check_type), (''phase'', JStr ''5-3''),
        (''component_score_metadata'', JObj (hs_metadata (vd_components v))), (''risk_summary'', serialize_risk_summary (vd_assessment v))]
        @ check_evidences v @ [(''score_delta'', json_opt delta_json (vd_score_delta v))])\<rparr>"

definition check_row :: "verdict \<Rightarrow> holding \<Rightarrow> daily_price \<Rightarrow> stock_indicator \<Rightarrow> int \<Rightarrow> string \<Rightarrow> int \<Rightarrow> holding_check" where
  "check_row v h p i check_date check_type snapshot_id =
     \<lparr>hc_id = 0, hc_check_date = check_date, hc_check_type = check_type, hc_symbol = ho_symbol h,
      hc_current_price = Some (dp_close p), hc_avg_buy_price = Some (ho_avg_buy_price h),
      hc_return_rate = vd_return_rate v, hc_technical_score = si_technical_score i,
      hc_news_score = Some (hs_news_score (vd_components v)), hc_earnings_score = Some (hs_earnings_score (vd_components v)),
      hc_ai_score = Some (hs_ai_score (vd_components v)), hc_risk_score = Some (ra_risk_penalty (vd_assessment v)),
      hc_total_score = Some (bd_total_score (vd_final v)), hc_grade = Some (vd_grade v), hc_decision = Some (vd_decision v),
      hc_reason = Some (vd_reason v), hc_alert = (ra_risk_flags (vd_assessment v) \<noteq> []), hc_snapshot_id = Some snapshot_id\<rparr>"

definition check_log :: "verdict \<Rightarrow> holding \<Rightarrow> daily_price \<Rightarrow> int \<Rightarrow> decision_log" where
  "check_log v h p snapshot_id =
     \<lparr>dl_decision_id = 0, dl_decision_type = ''HOLDING'', dl_symbol = ho_symbol h, dl_input_snapshot_id = Some snapshot_id,
      dl_rule_result = JObj (serialize_score_components (vd_final v) @
        [(''component_scores'', JObj [(''news'', JDec (hs_news_score (vd_components v))),
           (''earnings'', JDec (hs_earnings_score (vd_components v))), (''ai'', JDec (hs_ai_score (vd_components v)))]),
         (''score_producer'', JObj (hs_metadata (vd_components v))), (''return_rate'', json_opt JDec (vd_return_rate v)),
         (''current_price'', JDec (dp_close p)), (''avg_buy_price'', JDec (ho_avg_buy_price h)),
         (''grade'', JStr (vd_grade v))] @ check_evidences v),
      dl_risk_result = serialize_risk_details (vd_assessment v), dl_final_decision = vd_decision v, dl_reason = vd_reason v\<rparr>"

definition evaluate_and_persist ::
  "holding_config \<Rightarrow> holding \<Rightarrow> daily_price \<Rightarrow> stock_indicator \<Rightarrow> int \<Rightarrow> string \<Rightarrow> int \<Rightarrow> (int \<times> bool) rdb" where
  "evaluate_and_persist cfg h p i check_date check_type started_at =
     sbind (evaluate_check cfg h p i check_date check_type) (\<lambda>v.
     sbind (snapshot_add (check_snapshot v h p i check_date check_type started_at)) (\<lambda>snapshot_id.
     sbind (check_upsert (check_row v h p i check_date check_type snapshot_id)) (\<lambda>check_id.
     sbind (decision_add (check_log v h p snapshot_id)) (\<lambda>_.
     sret (check_id, ra_risk_flags (vd_assessment v) \<noteq> [])))))"

fun check_holdings ::
  "holding_config \<Rightarrow> int \<Rightarrow> string \<Rightarrow> int \<Rightarrow> holding list \<Rightarrow> check_result \<Rightarrow> check_result rdb" where
  "check_holdings cfg check_date check_type started_at [] z = sret z"
| "check_holdings cfg check_date check_type started_at (h # hs) z =
     sbind (in_session (price_get_latest_by_symbol (ho_symbol h))) (\<lambda>price.
     case price of
       None \<Rightarrow> check_holdings cfg check_date check_type started_at hs (z\<lparr>ck_skipped_no_price := ck_skipped_no_price z + 1\<rparr>)
     | Some p \<Rightarrow>
         sbind (indicator_get_latest_by_symbol (ho_symbol h)) (\<lambda>indicator.
         case indicator of
           None \<Rightarrow> check_holdings cfg check_date check_type started_at hs
             (z\<lparr>ck_skipped_no_indicator := ck_skipped_no_indicator z + 1\<rparr>)
         | Some i \<Rightarrow>
             sbind (evaluate_and_persist cfg h p i check_date check_type started_at) (\<lambda>(check_id, was_alert).
             check_holdings cfg check_date check_type started_at hs
               (z\<lparr>ck_saved_count := ck_saved_count z + 1, ck_holding_check_ids := ck_holding_check_ids z @ [check_id],
                 ck_alert_count := ck_alert_count z + (if was_alert then 1 else 0)\<rparr>))))"

definition run_checks_for :: "holding_config \<Rightarrow> int \<Rightarrow> string \<Rightarrow> check_result rdb" where
  "run_checks_for cfg check_date check_type =
     sbind (srequire (check_type \<in> {''PRE_MARKET'', ''POST_MARKET''}) (ValueError [T (''check_type must be one of '' @ py_list_repr [''POST_MARKET'', ''PRE_MARKET''] @ '', got '' @ py_repr check_type)])) (\<lambda>_.
     sbind research_now (\<lambda>started_at.
     sbind holding_list_active (\<lambda>active_holdings.
     check_holdings cfg check_date check_type started_at active_holdings
       \<lparr>ck_check_date = check_date, ck_check_type = check_type, ck_saved_count = 0, ck_skipped_no_price = 0,
        ck_skipped_no_indicator = 0, ck_alert_count = 0, ck_holding_check_ids = []\<rparr>)))"

end
