(* ===== verification/Market_Services.thy ===== *)
theory Market_Services
  imports Research_Tables Technical
begin

text \<open>
  Two services over daily prices: the indicator service of \<^verbatim>\<open>app/analysis/indicator_service.py\<close>,
  which stores the snapshot of a symbol's latest bar, and the result service of
  \<^verbatim>\<open>app/decision/recommendation_result_service.py\<close>, which measures what became of past
  recommendations.
\<close>

subsection \<open>Indicators\<close>

definition bar_of :: "daily_price \<Rightarrow> bar" where
  "bar_of p = \<lparr>br_symbol = dp_symbol p, br_date = dp_date p, br_open = dp_open p, br_high = dp_high p, br_low = dp_low p,
     br_close = dp_close p, br_volume = dp_volume p, br_trading_value = dp_trading_value p\<rparr>"

definition candle_name :: "candle \<Rightarrow> string" where
  "candle_name c = (case c of DOJI \<Rightarrow> ''DOJI'' | HAMMER \<Rightarrow> ''HAMMER'' | SHOOTING_STAR \<Rightarrow> ''SHOOTING_STAR''
     | BULLISH_ENGULFING \<Rightarrow> ''BULLISH_ENGULFING'' | BEARISH_ENGULFING \<Rightarrow> ''BEARISH_ENGULFING'')"

definition volatility_name :: "volatility \<Rightarrow> string" where
  "volatility_name v = (case v of VOL_LOW \<Rightarrow> ''LOW'' | VOL_NORMAL \<Rightarrow> ''NORMAL'' | VOL_HIGH \<Rightarrow> ''HIGH'' | VOL_EXTREME \<Rightarrow> ''EXTREME'')"

definition indicator_row :: "indicator_snapshot \<Rightarrow> stock_indicator" where
  "indicator_row s = \<lparr>si_id = 0, si_symbol = is_symbol s, si_date = is_date s, si_ma5 = is_ma5 s, si_ma20 = is_ma20 s,
     si_ma60 = is_ma60 s, si_ma120 = is_ma120 s, si_rsi14 = is_rsi14 s, si_macd = is_macd s, si_macd_signal = is_macd_signal s,
     si_volume_ratio_20d = is_volume_ratio_20d s, si_breakout_20d = is_breakout_20d s, si_breakout_60d = is_breakout_60d s,
     si_ma_alignment = map_option alignment_name (is_ma_alignment s), si_technical_score = is_technical_score s,
     si_atr14 = is_atr14 s, si_candle_patterns = map_option (map candle_name) (is_candle_patterns s),
     si_volatility_band = map_option volatility_name (is_volatility_band s)\<rparr>"

definition analyze_and_store :: "string \<Rightarrow> nat option \<Rightarrow> indicator_snapshot option rdb" where
  "analyze_and_store symbol lookback_days =
     sbind (in_session (price_list_by_symbol symbol (Some (case lookback_days of None \<Rightarrow> 250 | Some n \<Rightarrow> n)))) (\<lambda>bars.
     if bars = [] then sret None
     else case analyze_latest (map bar_of bars) of
       None \<Rightarrow> sret None
     | Some snapshot \<Rightarrow> sbind (indicator_upsert (indicator_row snapshot)) (\<lambda>_. sret (Some snapshot)))"

fun analyze_and_store_many :: "string list \<Rightarrow> nat option \<Rightarrow> indicator_snapshot list rdb" where
  "analyze_and_store_many [] lookback_days = sret []"
| "analyze_and_store_many (symbol # symbols) lookback_days =
     sbind (analyze_and_store symbol lookback_days) (\<lambda>snapshot.
     sbind (analyze_and_store_many symbols lookback_days) (\<lambda>results.
     sret (case snapshot of None \<Rightarrow> results | Some s \<Rightarrow> s # results)))"

subsection \<open>Results of recommendations\<close>

record result_summary =
  rz_as_of :: int
  rz_processed_runs :: nat
  rz_processed_recommendations :: nat
  rz_upserted_results :: nat
  rz_pending_count :: nat
  rz_success_count :: nat
  rz_failed_count :: nat
  rz_skipped_no_reference :: nat

record computed_result =
  cr_result_date :: int
  cr_open_return :: "decimal option"
  cr_high_return :: "decimal option"
  cr_low_return :: "decimal option"
  cr_close_return :: "decimal option"
  cr_max_return :: "decimal option"
  cr_max_drawdown :: "decimal option"
  cr_result_status :: string

definition pct_change :: "decimal \<Rightarrow> decimal \<Rightarrow> decimal" where
  "pct_change v base = dmul (ddiv (dsub v base) base) 100"

definition classify_result :: "decimal \<Rightarrow> decimal \<Rightarrow> decimal \<Rightarrow> string" where
  "classify_result high_return low_return close_return =
     (if low_return \<le> - 5 then ''FAILED''
      else if 3 \<le> high_return \<or> 1 \<le> close_return then ''SUCCESS''
      else ''PENDING'')"

text \<open>A price on the day of the run, or the latest within the 14 days before.\<close>

definition resolve_reference :: "string \<Rightarrow> int \<Rightarrow> (int \<times> decimal) option rdb" where
  "resolve_reference symbol run_date =
     sbind (in_session (price_get_by_symbol_date symbol run_date)) (\<lambda>exact.
     case exact of
       Some p \<Rightarrow> sret (Some (dp_date p, dp_close p))
     | None \<Rightarrow> sbind (in_session (price_get_latest_on_or_before symbol run_date 14)) (\<lambda>fallback.
         sret (map_option (\<lambda>p. (dp_date p, dp_close p)) fallback)))"

text \<open>Division by a reference close of zero raises.\<close>

definition compute_for_days_after :: "string \<Rightarrow> int \<Rightarrow> decimal \<Rightarrow> int \<Rightarrow> int \<Rightarrow> computed_result rdb" where
  "compute_for_days_after symbol reference_date reference_close days_after as_of =
     (let target_date = reference_date + days_after
      in sbind (in_session (price_list_in_range symbol (reference_date + 1) (target_date + 5))) (\<lambda>bars.
         let bars_in_window = filter (\<lambda>b. dp_date b \<le> target_date) bars
         in if bars_in_window = [] then
              sret \<lparr>cr_result_date = as_of, cr_open_return = None, cr_high_return = None, cr_low_return = None,
                cr_close_return = None, cr_max_return = None, cr_max_drawdown = None, cr_result_status = ''PENDING''\<rparr>
            else
              sbind (srequire (reference_close \<noteq> 0) InvalidOperation) (\<lambda>_.
              let verification = last bars_in_window;
                  open_return = pct_change (dp_open verification) reference_close;
                  close_return = pct_change (dp_close verification) reference_close;
                  max_high = Max (set (map dp_high bars_in_window)); min_low = Min (set (map dp_low bars_in_window));
                  high_return = pct_change max_high reference_close; low_return = pct_change min_low reference_close;
                  peak = max reference_close max_high; max_drawdown = pct_change min_low peak
              in sbind (srequire (peak \<noteq> 0) InvalidOperation) (\<lambda>_.
                 sret \<lparr>cr_result_date = dp_date verification, cr_open_return = Some (quant_up 4 open_return),
                   cr_high_return = Some (quant_up 4 high_return), cr_low_return = Some (quant_up 4 low_return),
                   cr_close_return = Some (quant_up 4 close_return), cr_max_return = Some (quant_up 4 high_return),
                   cr_max_drawdown = Some (quant_up 4 max_drawdown),
                   cr_result_status = classify_result high_return low_return close_return\<rparr>))))"

definition result_row :: "int \<Rightarrow> int \<Rightarrow> computed_result \<Rightarrow> recommendation_result" where
  "result_row recommendation_id days_after c = \<lparr>rr_id = 0, rr_recommendation_id = recommendation_id, rr_days_after = days_after,
     rr_result_date = cr_result_date c, rr_open_return = cr_open_return c, rr_high_return = cr_high_return c,
     rr_low_return = cr_low_return c, rr_close_return = cr_close_return c, rr_max_return = cr_max_return c,
     rr_max_drawdown = cr_max_drawdown c, rr_result_status = Some (cr_result_status c)\<rparr>"

definition pending_row :: "int \<Rightarrow> int \<Rightarrow> int \<Rightarrow> recommendation_result" where
  "pending_row recommendation_id days_after as_of = \<lparr>rr_id = 0, rr_recommendation_id = recommendation_id,
     rr_days_after = days_after, rr_result_date = as_of, rr_open_return = None, rr_high_return = None, rr_low_return = None,
     rr_close_return = None, rr_max_return = None, rr_max_drawdown = None, rr_result_status = Some ''PENDING''\<rparr>"

definition count_status :: "string \<Rightarrow> result_summary \<Rightarrow> result_summary" where
  "count_status status z =
     (let z = z\<lparr>rz_upserted_results := rz_upserted_results z + 1\<rparr>
      in if status = ''SUCCESS'' then z\<lparr>rz_success_count := rz_success_count z + 1\<rparr>
         else if status = ''FAILED'' then z\<lparr>rz_failed_count := rz_failed_count z + 1\<rparr>
         else z\<lparr>rz_pending_count := rz_pending_count z + 1\<rparr>)"

text \<open>The inner loop over the horizons of one recommendation.\<close>

fun update_horizons ::
  "recommendation \<Rightarrow> (int \<times> decimal) option \<Rightarrow> int \<Rightarrow> int list \<Rightarrow> result_summary \<Rightarrow> result_summary rdb" where
  "update_horizons rec reference as_of [] z = sret z"
| "update_horizons rec reference as_of (n # ns) z =
     (case reference of
        None \<Rightarrow>
          sbind (result_upsert (pending_row (rc_id rec) n as_of)) (\<lambda>_.
          update_horizons rec reference as_of ns (count_status ''PENDING'' z))
      | Some (reference_date, reference_close) \<Rightarrow>
          sbind (compute_for_days_after (rc_symbol rec) reference_date reference_close n as_of) (\<lambda>c.
          sbind (result_upsert (result_row (rc_id rec) n c)) (\<lambda>_.
          update_horizons rec reference as_of ns (count_status (cr_result_status c) z))))"

fun update_recommendations ::
  "int \<Rightarrow> int \<Rightarrow> int list \<Rightarrow> recommendation list \<Rightarrow> result_summary \<Rightarrow> result_summary rdb" where
  "update_recommendations run_date as_of horizons [] z = sret z"
| "update_recommendations run_date as_of horizons (rec # recs) z =
     sbind (resolve_reference (rc_symbol rec) run_date) (\<lambda>reference.
     let z = z\<lparr>rz_processed_recommendations := rz_processed_recommendations z + 1,
               rz_skipped_no_reference := rz_skipped_no_reference z + (if reference = None then 1 else 0)\<rparr>
     in sbind (update_horizons rec reference as_of horizons z) (\<lambda>z.
        update_recommendations run_date as_of horizons recs z))"

fun update_runs :: "int \<Rightarrow> int list \<Rightarrow> recommendation_run list \<Rightarrow> result_summary \<Rightarrow> result_summary rdb" where
  "update_runs as_of horizons [] z = sret z"
| "update_runs as_of horizons (run # runs) z =
     sbind (recommendation_list_by_run_id (rn_run_id run)) (\<lambda>recs.
     sbind (update_recommendations (rn_run_date run) as_of horizons recs z) (\<lambda>z.
     update_runs as_of horizons runs z))"

definition default_days_after :: "int list" where
  "default_days_after = [1, 3, 5, 20]"

definition update_results :: "int \<Rightarrow> int list option \<Rightarrow> int \<Rightarrow> result_summary rdb" where
  "update_results as_of days_after lookback_days =
     (let target_days = (case days_after of None \<Rightarrow> default_days_after | Some [] \<Rightarrow> default_days_after | Some ds \<Rightarrow> ds)
      in sbind (run_list_by_date_range (as_of - lookback_days) as_of) (\<lambda>runs.
         update_runs as_of target_days runs \<lparr>rz_as_of = as_of, rz_processed_runs = length runs,
           rz_processed_recommendations = 0, rz_upserted_results = 0, rz_pending_count = 0, rz_success_count = 0,
           rz_failed_count = 0, rz_skipped_no_reference = 0\<rparr>))"

end
