(* ===== verification/Decision_Facts.thy ===== *)
theory Decision_Facts
  imports Holding_Checks Market_Services Recommendation_Facts
begin

text \<open>
  Facts about holding checks and the results of recommendations: a check of the holdings keeps the
  table of checks keyed and its rows consistent, the results of an update account for every horizon
  of every recommendation, and the result of a horizon looks at no price outside its window.
\<close>

subsection \<open>Tables with a unique key\<close>

text \<open>
  The contract of an upsert: rows have an identifier and a key, and a row is stored with an
  identifier of the table's choice.
\<close>

locale keyed_table =
  fixes ident :: "'r \<Rightarrow> int" and key :: "'r \<Rightarrow> 'k" and with_id :: "int \<Rightarrow> 'r \<Rightarrow> 'r"
  assumes ident_with_id: "ident (with_id i r) = i" and key_with_id: "key (with_id i r) = key r"
begin

definition upsert :: "'r \<Rightarrow> 'r list \<Rightarrow> 'r list" where
  "upsert row rows = (case find (\<lambda>r. key r = key row) rows of
     None \<Rightarrow> rows @ [with_id (t_next ident rows) row]
   | Some e \<Rightarrow> t_upd ident (ident e) (\<lambda>r. with_id (ident r) row) rows)"

definition keyed :: "'r list \<Rightarrow> bool" where
  "keyed rows \<longleftrightarrow> distinct (map ident rows) \<and> distinct (map key rows)"

lemma upsert_new: "find (\<lambda>r. key r = key row) rows = None \<Longrightarrow> key row \<notin> key ` set rows"
  by (auto simp: find_None_iff)

lemma upsert_known:
  assumes "keyed rows" and "find (\<lambda>r. key r = key row) rows = Some e"
  shows "e \<in> set rows" "key e = key row" "r \<in> set rows \<Longrightarrow> ident r = ident e \<Longrightarrow> r = e"
proof -
  from assms(2) show e: "e \<in> set rows" "key e = key row" by (auto simp: find_Some_iff)
  show "r \<in> set rows \<Longrightarrow> ident r = ident e \<Longrightarrow> r = e"
    using assms(1) e(1) by (auto simp: keyed_def distinct_map dest: inj_onD)
qed

lemma map_key_known:
  assumes "keyed rows" and "find (\<lambda>r. key r = key row) rows = Some e"
  shows "map key (t_upd ident (ident e) (\<lambda>r. with_id (ident r) row) rows) = map key rows"
  unfolding t_upd_def map_map comp_def
proof (rule map_cong [OF refl])
  fix r assume "r \<in> set rows"
  then show "key (if ident r = ident e then with_id (ident r) row else r) = key r"
    using upsert_known(2) [OF assms] upsert_known(3) [OF assms, of r] by (cases "ident r = ident e") (simp_all add: key_with_id)
qed

lemma upsert_keyed: "keyed rows \<Longrightarrow> keyed (upsert row rows)"
proof (cases "find (\<lambda>r. key r = key row) rows")
  case None
  assume "keyed rows"
  moreover have "t_next ident rows \<notin> ident ` set rows" using t_next_gt [of _ rows ident] by force
  ultimately show ?thesis using upsert_new [OF None] None by (simp add: upsert_def keyed_def ident_with_id key_with_id)
next
  case (Some e)
  assume k: "keyed rows"
  have "map ident (t_upd ident (ident e) (\<lambda>r. with_id (ident r) row) rows) = map ident rows"
    by (simp add: t_upd_def ident_with_id)
  then show ?thesis using map_key_known [OF k Some] Some k by (simp add: upsert_def keyed_def)
qed

lemma upsert_keys: "keyed rows \<Longrightarrow> key ` set (upsert row rows) = insert (key row) (key ` set rows)"
proof (cases "find (\<lambda>r. key r = key row) rows")
  case None
  then show ?thesis by (simp add: upsert_def key_with_id)
next
  case (Some e)
  assume k: "keyed rows"
  from map_key_known [OF k Some] have "key ` set (upsert row rows) = key ` set rows"
    using Some by (simp add: upsert_def flip: set_map)
  moreover have "key row \<in> key ` set rows" using upsert_known(1,2) [OF k Some] by (metis imageI)
  ultimately show ?thesis by auto
qed

lemma upsert_rows: "keyed rows \<Longrightarrow> \<exists>i. set (upsert row rows) \<subseteq> insert (with_id i row) {r \<in> set rows. key r \<noteq> key row}"
proof (cases "find (\<lambda>r. key r = key row) rows")
  case None
  then show ?thesis using upsert_new [OF None]
    by (intro exI [of _ "t_next ident rows"]) (auto simp: upsert_def intro: image_eqI [OF sym])
next
  case (Some e)
  assume k: "keyed rows"
  have "x \<in> insert (with_id (ident e) row) {r \<in> set rows. key r \<noteq> key row}" if "x \<in> set (upsert row rows)" for x
  proof -
    from that obtain r where r: "r \<in> set rows" "x = (if ident r = ident e then with_id (ident r) row else r)"
      by (auto simp: upsert_def Some t_upd_def)
    have "r = e" if "key r = key row"
      using that r(1) upsert_known(1,2) [OF k Some] k by (simp add: keyed_def distinct_map inj_on_def)
    with r show ?thesis by auto
  qed
  then show ?thesis by blast
qed

end

interpretation checks: keyed_table hc_id "\<lambda>c. (hc_check_date c, hc_check_type c, hc_symbol c)" "\<lambda>i c. c\<lparr>hc_id := i\<rparr>"
  by unfold_locales simp_all

interpretation results: keyed_table rr_id "\<lambda>r. (rr_recommendation_id r, rr_days_after r)" "\<lambda>i r. r\<lparr>rr_id := i\<rparr>"
  by unfold_locales simp_all

lemma check_upsert_value:
  "\<exists>i. check_upsert row d = (Inr i, d\<lparr>rs_checks := checks.upsert row (rs_checks d)\<rparr>)"
  by (auto simp: check_upsert_def check_get_def sbind_def sgets_def checks.upsert_def Let_def split: option.splits)

lemma result_upsert_value:
  "result_upsert row d = (Inr (), d\<lparr>rs_results := results.upsert row (rs_results d)\<rparr>)"
  by (auto simp: result_upsert_def result_get_def sbind_def sgets_def smodify_def results.upsert_def split: option.splits)

subsection \<open>Holding checks\<close>

text \<open>A row whose grade and decision are those of its score, and whose score is a percentage.\<close>

definition check_row_ok :: "holding_check \<Rightarrow> bool" where
  "check_row_ok c \<longleftrightarrow> (\<exists>v. hc_total_score c = Some v \<and> 0 \<le> v \<and> v \<le> 100 \<and> hc_grade c = Some (holding_grade (Some v)) \<and>
     hc_decision c = Some (decision_from_grade (holding_grade (Some v))) \<and>
     (v < 70 \<longrightarrow> hc_decision c \<noteq> Some ''HOLD'') \<and> (55 \<le> v \<longrightarrow> hc_decision c \<noteq> Some ''SELL_REVIEW''))"

definition checks_consistent :: "research \<Rightarrow> bool" where
  "checks_consistent d \<longleftrightarrow> checks.keyed (rs_checks d) \<and> list_all check_row_ok (rs_checks d)"

lemma grade_decision:
  "v < 70 \<Longrightarrow> decision_from_grade (holding_grade (Some v)) \<noteq> ''HOLD''"
  "55 \<le> v \<Longrightarrow> decision_from_grade (holding_grade (Some v)) \<noteq> ''SELL_REVIEW''"
  by (auto simp: decision_from_grade_def holding_grade_def)

lemma check_row_ok_id [simp]: "check_row_ok (c\<lparr>hc_id := i\<rparr>) = check_row_ok c"
  by (simp add: check_row_ok_def)

lemma reading_evaluate_check [reading_intros]: "reading (evaluate_check cfg h p i day ty)"
  by (auto intro!: reading_intros simp: evaluate_check_def Let_def)

definition verdict_of :: "holding_config \<Rightarrow> research \<Rightarrow> holding \<Rightarrow> daily_price \<Rightarrow> stock_indicator \<Rightarrow> int \<Rightarrow> string \<Rightarrow> verdict" where
  "verdict_of cfg d h p i day ty = value_in d (evaluate_check cfg h p i day ty)"

lemma verdict_fields:
  "vd_grade (verdict_of cfg d h p i day ty) = holding_grade (Some (bd_total_score (vd_final (verdict_of cfg d h p i day ty))))"
  "vd_decision (verdict_of cfg d h p i day ty) = decision_from_grade (vd_grade (verdict_of cfg d h p i day ty))"
  "\<exists>x. vd_final (verdict_of cfg d h p i day ty) = score_holding x"
proof -
  obtain co where co: "score_holding_components (hg_producer cfg) h i d = (Inr co, d)"
    using reading_value [OF reading_score_holding] by blast
  obtain prev where prev: "check_find_previous (ho_symbol h) day ty d = (Inr prev, d)"
    using reading_value [OF reading_queries(15)] by blast
  have "reading (case hg_disclosure_producer cfg of None \<Rightarrow> sret None
                | Some clock \<Rightarrow> sbind (disclosure_evaluate clock (ho_symbol h)) (\<lambda>r. sret (Some r)))"
    by (auto intro!: reading_intros)
  then obtain dis where dis: "(case hg_disclosure_producer cfg of None \<Rightarrow> sret None
                | Some clock \<Rightarrow> sbind (disclosure_evaluate clock (ho_symbol h)) (\<lambda>r. sret (Some r))) d = (Inr dis, d)"
    using reading_value by blast
  show "vd_grade (verdict_of cfg d h p i day ty) = holding_grade (Some (bd_total_score (vd_final (verdict_of cfg d h p i day ty))))"
    "vd_decision (verdict_of cfg d h p i day ty) = decision_from_grade (vd_grade (verdict_of cfg d h p i day ty))"
    "\<exists>x. vd_final (verdict_of cfg d h p i day ty) = score_holding x"
    by (auto simp: verdict_of_def value_in_def evaluate_check_def sbind_def co prev dis sret_def Let_def)
qed

text \<open>What one check leaves behind.\<close>

lemma evaluate_and_persist_value:
  "\<exists>i al row s l. evaluate_and_persist cfg h p ind day ty now d =
      (Inr (i, al), d\<lparr>rs_data_snapshots := rs_data_snapshots d @ [s], rs_checks := checks.upsert row (rs_checks d),
        rs_decisions := rs_decisions d @ [l]\<rparr>) \<and>
     check_row_ok row \<and> (hc_check_date row, hc_check_type row, hc_symbol row) = (day, ty, ho_symbol h) \<and>
     hc_alert row = al \<and> dl_symbol l = ho_symbol h \<and> Some (dl_final_decision l) = hc_decision row"
proof -
  let ?v = "verdict_of cfg d h p ind day ty"
  have v: "evaluate_check cfg h p ind day ty d = (Inr ?v, d)"
    unfolding verdict_of_def by (rule reading_value [OF reading_evaluate_check])
  obtain x where x: "vd_final ?v = score_holding x" using verdict_fields(3) by blast
  let ?sid = "t_next ds_snapshot_id (rs_data_snapshots d)"
  let ?row = "check_row ?v h p ind day ty ?sid"
  let ?s = "(check_snapshot ?v h p ind day ty now)\<lparr>ds_snapshot_id := ?sid\<rparr>"
  let ?l = "(check_log ?v h p ?sid)\<lparr>dl_decision_id := t_next dl_decision_id (rs_decisions d)\<rparr>"
  obtain ci where ci: "check_upsert ?row (d\<lparr>rs_data_snapshots := rs_data_snapshots d @ [?s]\<rparr>) =
      (Inr ci, d\<lparr>rs_data_snapshots := rs_data_snapshots d @ [?s], rs_checks := checks.upsert ?row (rs_checks d)\<rparr>)"
    using check_upsert_value [of ?row "d\<lparr>rs_data_snapshots := rs_data_snapshots d @ [?s]\<rparr>"] by auto
  have "evaluate_and_persist cfg h p ind day ty now d =
      (Inr (ci, ra_risk_flags (vd_assessment ?v) \<noteq> []), d\<lparr>rs_data_snapshots := rs_data_snapshots d @ [?s],
        rs_checks := checks.upsert ?row (rs_checks d), rs_decisions := rs_decisions d @ [?l]\<rparr>)"
    by (simp add: evaluate_and_persist_def sbind_def v snapshot_add_def Let_def ci decision_add_def sret_def)
  moreover have "check_row_ok ?row"
    using holding_score_bounds [of x] grade_decision [of "bd_total_score (vd_final ?v)"]
    by (auto simp: check_row_def check_row_ok_def verdict_fields(1,2) x)
  ultimately show ?thesis
    by (intro exI [of _ ci] exI [of _ "ra_risk_flags (vd_assessment ?v) \<noteq> []"] exI [of _ ?row] exI [of _ ?s] exI [of _ ?l])
       (simp add: check_row_def check_log_def)
qed

text \<open>The parts of the tables that the checks of one date and type leave alone.\<close>

definition other_checks :: "int \<Rightarrow> string \<Rightarrow> research \<Rightarrow> holding_check set" where
  "other_checks day ty d = {c \<in> set (rs_checks d). (hc_check_date c, hc_check_type c) \<noteq> (day, ty)}"

definition check_counts :: "check_result \<Rightarrow> nat" where
  "check_counts z = ck_saved_count z + ck_skipped_no_price z + ck_skipped_no_indicator z"

definition checked :: "int \<Rightarrow> string \<Rightarrow> research \<Rightarrow> string set" where
  "checked day ty d = {y. \<exists>c \<in> set (rs_checks d). (hc_check_date c, hc_check_type c, hc_symbol c) = (day, ty, y)}"

lemma upserted_check:
  assumes "checks_consistent d" and "check_row_ok row" and "(hc_check_date row, hc_check_type row) = (day, ty)"
    and "d' = d\<lparr>rs_data_snapshots := s, rs_checks := checks.upsert row (rs_checks d), rs_decisions := l\<rparr>"
  shows "checks_consistent d'" "other_checks day ty d' \<subseteq> other_checks day ty d"
    "checked day ty d' = insert (hc_symbol row) (checked day ty d)"
proof -
  have k: "checks.keyed (rs_checks d)" using assms(1) by (simp add: checks_consistent_def)
  obtain i where i: "set (checks.upsert row (rs_checks d)) \<subseteq>
      insert (row\<lparr>hc_id := i\<rparr>) {r \<in> set (rs_checks d). (hc_check_date r, hc_check_type r, hc_symbol r) \<noteq>
        (hc_check_date row, hc_check_type row, hc_symbol row)}"
    using checks.upsert_rows [OF k] by blast
  show "checks_consistent d'"
    using assms(1,2) checks.upsert_keyed [OF k] i unfolding checks_consistent_def list_all_iff
    by (auto simp: assms(4))
  show "other_checks day ty d' \<subseteq> other_checks day ty d" using i assms(3) by (auto simp: other_checks_def assms(4))
  have c: "checked day ty x = {y. (day, ty, y) \<in> (\<lambda>c. (hc_check_date c, hc_check_type c, hc_symbol c)) ` set (rs_checks x)}" for x
    by (auto simp: checked_def image_iff)
  show "checked day ty d' = insert (hc_symbol row) (checked day ty d)"
    using checks.upsert_keys [OF k, of row] assms(3) by (auto simp: c assms(4))
qed

lemma check_holdings_value:
  assumes "checks_consistent d"
  shows "\<exists>z' d'. check_holdings cfg day ty now hs z d = (Inr z', d') \<and>
     check_counts z' = check_counts z + length hs \<and> ck_saved_count z' + length (ck_holding_check_ids z) =
       ck_saved_count z + length (ck_holding_check_ids z') \<and>
     ck_alert_count z' + ck_saved_count z \<le> ck_alert_count z + ck_saved_count z' \<and>
     checks_consistent d' \<and> other_checks day ty d' \<subseteq> other_checks day ty d \<and>
     checked day ty d \<subseteq> checked day ty d' \<and> checked day ty d' \<subseteq> checked day ty d \<union> set (map ho_symbol hs) \<and>
     length (rs_decisions d') + ck_saved_count z = length (rs_decisions d) + ck_saved_count z' \<and>
     rs_holdings d' = rs_holdings d"
  using assms
proof (induction hs arbitrary: z d)
  case Nil
  show ?case using Nil by (simp add: sret_def)
next
  case (Cons h hs)
  obtain price where p: "in_session (price_get_latest_by_symbol (ho_symbol h)) d = (Inr price, d)"
    using reading_value [OF reading_queries(13)] by blast
  obtain ind where i: "indicator_get_latest_by_symbol (ho_symbol h) d = (Inr ind, d)"
    using reading_value [OF reading_queries(2)] by blast
  show ?case
  proof (cases price)
    case None
    then show ?thesis using Cons.IH [OF Cons.prems, of "z\<lparr>ck_skipped_no_price := ck_skipped_no_price z + 1\<rparr>"] p
      by (fastforce simp: sbind_def check_counts_def)
  next
    case pr: (Some pr)
    show ?thesis
    proof (cases ind)
      case None
      then show ?thesis using Cons.IH [OF Cons.prems, of "z\<lparr>ck_skipped_no_indicator := ck_skipped_no_indicator z + 1\<rparr>"] p i pr
        by (fastforce simp: sbind_def check_counts_def)
    next
      case (Some ix)
      obtain ci al row s l where e: "evaluate_and_persist cfg h pr ix day ty now d =
          (Inr (ci, al), d\<lparr>rs_data_snapshots := rs_data_snapshots d @ [s], rs_checks := checks.upsert row (rs_checks d),
            rs_decisions := rs_decisions d @ [l]\<rparr>)" "check_row_ok row"
          "(hc_check_date row, hc_check_type row, hc_symbol row) = (day, ty, ho_symbol h)"
        using evaluate_and_persist_value [of cfg h pr ix day ty now d] by (elim exE conjE) (rule that; assumption)
      let ?d = "d\<lparr>rs_data_snapshots := rs_data_snapshots d @ [s], rs_checks := checks.upsert row (rs_checks d),
            rs_decisions := rs_decisions d @ [l]\<rparr>"
      let ?z = "z\<lparr>ck_saved_count := ck_saved_count z + 1, ck_holding_check_ids := ck_holding_check_ids z @ [ci],
                 ck_alert_count := ck_alert_count z + (if al then 1 else 0)\<rparr>"
      have u: "checks_consistent ?d" "other_checks day ty ?d \<subseteq> other_checks day ty d"
        "checked day ty ?d = insert (ho_symbol h) (checked day ty d)"
        using upserted_check [OF Cons.prems e(2) _ refl, of day ty] e(3) by auto
      note step = Cons.IH [OF u(1), of ?z]
      obtain z' d' where IH: "check_holdings cfg day ty now hs ?z ?d = (Inr z', d')" "check_counts z' = check_counts ?z + length hs"
        "ck_saved_count z' + length (ck_holding_check_ids ?z) = ck_saved_count ?z + length (ck_holding_check_ids z')"
        "ck_alert_count z' + ck_saved_count ?z \<le> ck_alert_count ?z + ck_saved_count z'"
        "checks_consistent d'" "other_checks day ty d' \<subseteq> other_checks day ty ?d" "checked day ty ?d \<subseteq> checked day ty d'"
        "checked day ty d' \<subseteq> checked day ty ?d \<union> set (map ho_symbol hs)"
        "length (rs_decisions d') + ck_saved_count ?z = length (rs_decisions ?d) + ck_saved_count z'" "rs_holdings d' = rs_holdings ?d"
        using step by (elim exE conjE) (rule that; assumption)
      show ?thesis
      proof (intro exI [of _ z'] exI [of _ d'] conjI)
        show "check_holdings cfg day ty now (h # hs) z d = (Inr z', d')"
          using IH(1) by (simp add: sbind_def p i pr Some e(1))
        show "check_counts z' = check_counts z + length (h # hs)" using IH(2) by (simp add: check_counts_def)
        show "ck_saved_count z' + length (ck_holding_check_ids z) = ck_saved_count z + length (ck_holding_check_ids z')"
          using IH(3) by simp
        show "ck_alert_count z' + ck_saved_count z \<le> ck_alert_count z + ck_saved_count z'"
          using IH(4) by (cases al) simp_all
        show "checks_consistent d'" by (rule IH(5))
        show "other_checks day ty d' \<subseteq> other_checks day ty d" using IH(6) u(2) by (rule subset_trans)
        show "checked day ty d \<subseteq> checked day ty d'" using IH(7) unfolding u(3) by simp
        show "checked day ty d' \<subseteq> checked day ty d \<union> set (map ho_symbol (h # hs))" using IH(8) unfolding u(3) by simp
        show "length (rs_decisions d') + ck_saved_count z = length (rs_decisions d) + ck_saved_count z'" using IH(9) by simp
        show "rs_holdings d' = rs_holdings d" using IH(10) by simp
      qed
    qed
  qed
qed

text \<open>
  C34. A check of the holdings raises a value error for any type but the two known ones and then
  changes nothing. For a known type it returns for every database. Every active holding is stored
  or counted as skipped, with one decision logged for each stored one and alerts among them only;
  the checks of other dates and types stay as they were; no row of another symbol is added, and if
  the table of checks was keyed by date, type and symbol with every decision the one of the grade of
  its score, it still is: below 70 points no row says to hold, from 55 on none asks to review a sale.
\<close>

theorem holding_checks_consistent:
  assumes "checks_consistent d"
  shows "if ty \<noteq> ''PRE_MARKET'' \<and> ty \<noteq> ''POST_MARKET''
    then \<exists>msg. run_checks_for cfg day ty d = (Inl (ValueError msg), d)
    else \<exists>res d'. run_checks_for cfg day ty d = (Inr res, d') \<and> checks_consistent d' \<and>
      (let active = filter ho_is_active (rs_holdings d)
       in ck_saved_count res + ck_skipped_no_price res + ck_skipped_no_indicator res = length active \<and>
          length (ck_holding_check_ids res) = ck_saved_count res \<and> ck_alert_count res \<le> ck_saved_count res \<and>
          length (rs_decisions d') = length (rs_decisions d) + ck_saved_count res \<and>
          other_checks day ty d' \<subseteq> other_checks day ty d \<and> checked day ty d \<subseteq> checked day ty d' \<and>
          checked day ty d' \<subseteq> checked day ty d \<union> set (map ho_symbol active))"
proof -
  let ?z = "\<lparr>ck_check_date = day, ck_check_type = ty, ck_saved_count = 0, ck_skipped_no_price = 0,
        ck_skipped_no_indicator = 0, ck_alert_count = 0, ck_holding_check_ids = []\<rparr>"
  let ?active = "filter ho_is_active (rs_holdings d)"
  obtain now where now: "research_now d = (Inr now, d)" using reading_value [OF reading_queries(11)] by blast
  have act: "holding_list_active d = (Inr ?active, d)"
    by (simp add: holding_list_active_def sgets_def)
  obtain res d' where r: "check_holdings cfg day ty now ?active ?z d = (Inr res, d')"
    "check_counts res = check_counts ?z + length ?active"
    "ck_saved_count res + length (ck_holding_check_ids ?z) = ck_saved_count ?z + length (ck_holding_check_ids res)"
    "ck_alert_count res + ck_saved_count ?z \<le> ck_alert_count ?z + ck_saved_count res"
    "checks_consistent d'" "other_checks day ty d' \<subseteq> other_checks day ty d" "checked day ty d \<subseteq> checked day ty d'"
    "checked day ty d' \<subseteq> checked day ty d \<union> set (map ho_symbol ?active)"
    "length (rs_decisions d') + ck_saved_count ?z = length (rs_decisions d) + ck_saved_count res"
    using check_holdings_value [OF assms, of cfg day ty now "?active" ?z] by (elim exE conjE) (rule that; assumption)
  have run: "run_checks_for cfg day ty d = (Inr res, d')" if "ty = ''PRE_MARKET'' \<or> ty = ''POST_MARKET''"
    using that r(1) now act by (auto simp: run_checks_for_def sbind_def srequire_def sret_def)
  have bad: "\<exists>msg. run_checks_for cfg day ty d = (Inl (ValueError msg), d)" if "ty \<noteq> ''PRE_MARKET''" "ty \<noteq> ''POST_MARKET''"
    using that by (simp add: run_checks_for_def sbind_def srequire_def sthrow_def)
  show ?thesis
    using bad run r(2-) by (auto simp: check_counts_def Let_def)
qed

definition demo_holdings :: research where
  "demo_holdings = demo_research\<lparr>rs_session := empty_session\<lparr>sn_prices := [\<lparr>dp_symbol = ''005930'', dp_date = 7,
     dp_open = 100, dp_high = 110, dp_low = 95, dp_close = 105, dp_volume = 1, dp_trading_value = None,
     dp_adjusted_close = None\<rparr>]\<rparr>\<rparr>"

theorem holding_checks_consistent_witness:
  "\<exists>res d'. run_checks_for \<lparr>hg_producer = DummyProducer, hg_policy = None, hg_disclosure_producer = None\<rparr> 7 ''PRE_MARKET''
     demo_holdings = (Inr res, d') \<and> checks_consistent d' \<and>
     ck_saved_count res + ck_skipped_no_price res + ck_skipped_no_indicator res = 1"
proof -
  have "checks_consistent demo_holdings" "length (filter ho_is_active (rs_holdings demo_holdings)) = 1"
    by (simp_all add: demo_holdings_def demo_research_def checks_consistent_def checks.keyed_def)
  then show ?thesis
    using holding_checks_consistent [of demo_holdings "''PRE_MARKET''" "\<lparr>hg_producer = DummyProducer, hg_policy = None,
      hg_disclosure_producer = None\<rparr>" 7] by (auto simp: Let_def)
qed

subsection \<open>Results of recommendations\<close>

definition prices_positive :: "research \<Rightarrow> bool" where
  "prices_positive d \<longleftrightarrow> (\<forall>p \<in> set (sn_prices (rs_session d)). 0 < dp_close p)"

definition result_keys :: "research \<Rightarrow> (int \<times> int) set" where
  "result_keys d = (\<lambda>r. (rr_recommendation_id r, rr_days_after r)) ` set (rs_results d)"

definition tally :: "result_summary \<Rightarrow> nat" where
  "tally z = rz_pending_count z + rz_success_count z + rz_failed_count z"

lemma count_status_simps [simp]:
  "tally (count_status s z) = tally z + 1" "rz_upserted_results (count_status s z) = rz_upserted_results z + 1"
  "rz_processed_recommendations (count_status s z) = rz_processed_recommendations z"
  "rz_processed_runs (count_status s z) = rz_processed_runs z"
  "rz_skipped_no_reference (count_status s z) = rz_skipped_no_reference z"
  by (simp_all add: count_status_def tally_def Let_def)

lemma reading_results [reading_intros]:
  "reading (in_session (price_get_by_symbol_date x a))" "reading (in_session (price_list_in_range x a b))"
  "reading (recommendation_list_by_run_id i)" "reading (run_list_by_date_range a b)" "reading (resolve_reference x a)"
  by (auto intro!: reading_intros simp: price_get_by_symbol_date_def price_list_in_range_def
      recommendation_list_by_run_id_def run_list_by_date_range_def resolve_reference_def)

lemma resolve_reference_positive:
  assumes "prices_positive d" and "resolve_reference x day d = (Inr (Some (a, c)), d)"
  shows "0 < c"
  using assms
  by (auto simp: resolve_reference_def sbind_def in_session_def price_get_by_symbol_date_def price_get_latest_on_or_before_def
      sgets_def sret_def prices_positive_def find_Some_iff split: option.splits dest!: latest_by_in)

lemma compute_returns:
  assumes "0 < close"
  shows "\<exists>c. compute_for_days_after x day close n as_of d = (Inr c, d)"
proof -
  obtain bars where bars: "in_session (price_list_in_range x (day + 1) (day + n + 5)) d = (Inr bars, d)"
    using reading_value [OF reading_results(2)] by blast
  have "max close y \<noteq> 0" for y using assms by (simp add: max_def)
  then show ?thesis using assms
    by (auto simp: compute_for_days_after_def Let_def sbind_def bars sret_def srequire_def)
qed

lemma upserted_result:
  assumes "results.keyed (rs_results d)"
  shows "results.keyed (rs_results (d\<lparr>rs_results := results.upsert row (rs_results d)\<rparr>))"
    "result_keys (d\<lparr>rs_results := results.upsert row (rs_results d)\<rparr>) =
       insert (rr_recommendation_id row, rr_days_after row) (result_keys d)"
  using results.upsert_keyed [OF assms] results.upsert_keys [OF assms, of row] by (simp_all add: result_keys_def)

lemma update_horizons_value:
  assumes "results.keyed (rs_results d)" and "\<forall>a c. ref = Some (a, c) \<longrightarrow> 0 < c"
  shows "\<exists>z' rows. update_horizons rec ref as_of ns z d = (Inr z', d\<lparr>rs_results := rows\<rparr>) \<and>
     results.keyed rows \<and> result_keys (d\<lparr>rs_results := rows\<rparr>) = result_keys d \<union> Pair (rc_id rec) ` set ns \<and>
     tally z' = tally z + length ns \<and> rz_upserted_results z' = rz_upserted_results z + length ns \<and>
     rz_processed_recommendations z' = rz_processed_recommendations z \<and> rz_processed_runs z' = rz_processed_runs z"
  using assms(1)
proof (induction ns arbitrary: z d)
  case Nil
  then show ?case by (intro exI [of _ z] exI [of _ "rs_results d"]) (simp add: sret_def)
next
  case (Cons n ns)
  obtain s row where row: "rr_recommendation_id row = rc_id rec" "rr_days_after row = n"
    "update_horizons rec ref as_of (n # ns) z d =
       update_horizons rec ref as_of ns (count_status s z) (d\<lparr>rs_results := results.upsert row (rs_results d)\<rparr>)"
  proof (cases ref)
    case None
    then show thesis
      by (intro that [of "pending_row (rc_id rec) n as_of" "''PENDING''"])
         (simp_all add: sbind_def result_upsert_value pending_row_def)
  next
    case (Some p)
    obtain a c where p: "p = (a, c)" by (cases p)
    then obtain r where r: "compute_for_days_after (rc_symbol rec) a c n as_of d = (Inr r, d)"
      using compute_returns assms(2) Some by blast
    show thesis
      by (intro that [of "result_row (rc_id rec) n r" "cr_result_status r"])
         (simp_all add: sbind_def r result_upsert_value Some p result_row_def)
  qed
  let ?d = "d\<lparr>rs_results := results.upsert row (rs_results d)\<rparr>"
  have k: "results.keyed (rs_results ?d)" "result_keys ?d = insert (rc_id rec, n) (result_keys d)"
    using upserted_result [OF Cons.prems, of row] row(1,2) by simp_all
  obtain z' rows where IH: "update_horizons rec ref as_of ns (count_status s z) ?d = (Inr z', ?d\<lparr>rs_results := rows\<rparr>)"
    "results.keyed rows" "result_keys (?d\<lparr>rs_results := rows\<rparr>) = result_keys ?d \<union> Pair (rc_id rec) ` set ns"
    "tally z' = tally (count_status s z) + length ns" "rz_upserted_results z' = rz_upserted_results (count_status s z) + length ns"
    "rz_processed_recommendations z' = rz_processed_recommendations (count_status s z)"
    "rz_processed_runs z' = rz_processed_runs (count_status s z)"
    using Cons.IH [OF k(1), of "count_status s z"] by (elim exE conjE) (rule that; assumption)
  then show ?case
    using row(3) k(2) by (intro exI [of _ z'] exI [of _ rows]) simp
qed

lemma update_recommendations_value:
  assumes "results.keyed (rs_results d)" and "prices_positive d"
  shows "\<exists>z' rows. update_recommendations run_date as_of ns recs z d = (Inr z', d\<lparr>rs_results := rows\<rparr>) \<and>
     results.keyed rows \<and> result_keys (d\<lparr>rs_results := rows\<rparr>) = result_keys d \<union> (rc_id ` set recs \<times> set ns) \<and>
     tally z' = tally z + length recs * length ns \<and> rz_upserted_results z' = rz_upserted_results z + length recs * length ns \<and>
     rz_processed_recommendations z' = rz_processed_recommendations z + length recs \<and> rz_processed_runs z' = rz_processed_runs z"
  using assms
proof (induction recs arbitrary: z d)
  case Nil
  then show ?case by (intro exI [of _ z] exI [of _ "rs_results d"]) (simp add: sret_def)
next
  case (Cons rec recs)
  obtain ref where ref: "resolve_reference (rc_symbol rec) run_date d = (Inr ref, d)"
    using reading_value [OF reading_results(5)] by blast
  have pos: "\<forall>a c. ref = Some (a, c) \<longrightarrow> 0 < c" using resolve_reference_positive [OF Cons.prems(2)] ref by auto
  let ?z = "z\<lparr>rz_processed_recommendations := rz_processed_recommendations z + 1,
               rz_skipped_no_reference := rz_skipped_no_reference z + (if ref = None then 1 else 0)\<rparr>"
  obtain z1 rows1 where one: "update_horizons rec ref as_of ns ?z d = (Inr z1, d\<lparr>rs_results := rows1\<rparr>)"
    "results.keyed rows1" "result_keys (d\<lparr>rs_results := rows1\<rparr>) = result_keys d \<union> Pair (rc_id rec) ` set ns"
    "tally z1 = tally ?z + length ns" "rz_upserted_results z1 = rz_upserted_results ?z + length ns"
    "rz_processed_recommendations z1 = rz_processed_recommendations ?z" "rz_processed_runs z1 = rz_processed_runs ?z"
    using update_horizons_value [of d ref rec as_of ns ?z, OF Cons.prems(1) pos]
    by (elim exE conjE) (rule that; assumption)
  let ?d = "d\<lparr>rs_results := rows1\<rparr>"
  have "results.keyed (rs_results ?d)" "prices_positive ?d" using one(2) Cons.prems(2) by (simp_all add: prices_positive_def)
  from Cons.IH [OF this, of z1] obtain z2 rows2 where two: "update_recommendations run_date as_of ns recs z1 ?d = (Inr z2, ?d\<lparr>rs_results := rows2\<rparr>)"
    "results.keyed rows2" "result_keys (?d\<lparr>rs_results := rows2\<rparr>) = result_keys ?d \<union> (rc_id ` set recs \<times> set ns)"
    "tally z2 = tally z1 + length recs * length ns" "rz_upserted_results z2 = rz_upserted_results z1 + length recs * length ns"
    "rz_processed_recommendations z2 = rz_processed_recommendations z1 + length recs" "rz_processed_runs z2 = rz_processed_runs z1"
    by (elim exE conjE) (rule that; assumption)
  have "update_recommendations run_date as_of ns (rec # recs) z d = (Inr z2, d\<lparr>rs_results := rows2\<rparr>)"
    using two(1) one(1) ref by (cases ref) (simp_all add: sbind_def Let_def)
  moreover have "tally ?z = tally z" by (simp add: tally_def)
  ultimately show ?case
    using one(3-) two(2-) by (intro exI [of _ z2] exI [of _ rows2]) auto
qed

definition run_recommendations :: "research \<Rightarrow> recommendation_run \<Rightarrow> recommendation list" where
  "run_recommendations d run = filter (\<lambda>r. rc_run_id r = rn_run_id run) (rs_recommendations d)"

lemma update_runs_value:
  assumes "results.keyed (rs_results d)" and "prices_positive d"
  shows "\<exists>z' rows. update_runs as_of ns runs z d = (Inr z', d\<lparr>rs_results := rows\<rparr>) \<and>
     results.keyed rows \<and> result_keys (d\<lparr>rs_results := rows\<rparr>) =
       result_keys d \<union> (rc_id ` set (concat (map (run_recommendations d) runs)) \<times> set ns) \<and>
     tally z' = tally z + length (concat (map (run_recommendations d) runs)) * length ns \<and>
     rz_upserted_results z' = rz_upserted_results z + length (concat (map (run_recommendations d) runs)) * length ns \<and>
     rz_processed_recommendations z' = rz_processed_recommendations z + length (concat (map (run_recommendations d) runs)) \<and>
     rz_processed_runs z' = rz_processed_runs z"
  using assms
proof (induction runs arbitrary: z d)
  case Nil
  then show ?case by (intro exI [of _ z] exI [of _ "rs_results d"]) (simp add: sret_def)
next
  case (Cons run runs)
  let ?recs = "sort_key rc_rank (run_recommendations d run)"
  have recs: "recommendation_list_by_run_id (rn_run_id run) d = (Inr ?recs, d)"
    by (simp add: recommendation_list_by_run_id_def run_recommendations_def sgets_def)
  obtain z1 rows1 where one: "update_recommendations (rn_run_date run) as_of ns ?recs z d = (Inr z1, d\<lparr>rs_results := rows1\<rparr>)"
    "results.keyed rows1" "result_keys (d\<lparr>rs_results := rows1\<rparr>) = result_keys d \<union> (rc_id ` set ?recs \<times> set ns)"
    "tally z1 = tally z + length ?recs * length ns" "rz_upserted_results z1 = rz_upserted_results z + length ?recs * length ns"
    "rz_processed_recommendations z1 = rz_processed_recommendations z + length ?recs" "rz_processed_runs z1 = rz_processed_runs z"
    using update_recommendations_value [OF Cons.prems, of "rn_run_date run" as_of ns ?recs z]
    by (elim exE conjE) (rule that; assumption)
  let ?d = "d\<lparr>rs_results := rows1\<rparr>"
  have same: "run_recommendations ?d = run_recommendations d" by (simp add: run_recommendations_def fun_eq_iff)
  have "results.keyed (rs_results ?d)" "prices_positive ?d" using one(2) Cons.prems(2) by (simp_all add: prices_positive_def)
  from Cons.IH [OF this, of z1] obtain z2 rows2 where two: "update_runs as_of ns runs z1 ?d = (Inr z2, ?d\<lparr>rs_results := rows2\<rparr>)"
    "results.keyed rows2" "result_keys (?d\<lparr>rs_results := rows2\<rparr>) =
       result_keys ?d \<union> (rc_id ` set (concat (map (run_recommendations ?d) runs)) \<times> set ns)"
    "tally z2 = tally z1 + length (concat (map (run_recommendations ?d) runs)) * length ns"
    "rz_upserted_results z2 = rz_upserted_results z1 + length (concat (map (run_recommendations ?d) runs)) * length ns"
    "rz_processed_recommendations z2 = rz_processed_recommendations z1 + length (concat (map (run_recommendations ?d) runs))"
    "rz_processed_runs z2 = rz_processed_runs z1"
    by (elim exE conjE) (rule that; assumption)
  have "update_runs as_of ns (run # runs) z d = (Inr z2, d\<lparr>rs_results := rows2\<rparr>)"
    using two(1) by (simp add: sbind_def recs one(1))
  moreover have "result_keys (d\<lparr>rs_results := rows2\<rparr>) =
      result_keys d \<union> (rc_id ` set (concat (map (run_recommendations d) (run # runs))) \<times> set ns)"
    using one(3) two(3) unfolding same by auto
  ultimately show ?case
    using one(4-) two(2,4-) unfolding same
    by (intro exI [of _ z2] exI [of _ rows2]) (simp add: algebra_simps)
qed


definition demo_results :: research where
  "demo_results = demo_holdings\<lparr>
     rs_runs := [\<lparr>rn_run_id = 1, rn_run_date = 7, rn_started_at = 0, rn_finished_at = None, rn_market_summary = JNull,
       rn_status = ''SUCCESS'', rn_telegram_sent = False\<rparr>],
     rs_recommendations := [\<lparr>rc_id = 4, rc_run_id = 1, rc_rank = 1, rc_market = ''KOSPI'', rc_symbol = ''005930'',
       rc_name = ''Samsung'', rc_grade = Some ''S'', rc_total_score = Some 90, rc_technical_score = None, rc_news_score = None,
       rc_supply_score = None, rc_fundamental_score = None, rc_ai_score = None, rc_risk_score = None,
       rc_reason = WatchCandidate None None None, rc_risk_note = [], rc_snapshot_id = None\<rparr>]\<rparr>"


text \<open>
  A horizon that has not elapsed is measured by what has: as long as no bar lies between the ends of
  two windows, the shorter and the longer horizon get the same result.
\<close>

lemma partial_window:
  assumes "n \<le> m" and "\<forall>p \<in> set (sn_prices (rs_session d)). dp_symbol p = x \<longrightarrow> dp_date p \<le> day + n \<or> day + m + 5 < dp_date p"
  shows "compute_for_days_after x day close m as_of d = compute_for_days_after x day close n as_of d"
proof -
  let ?bars = "\<lambda>k. sort_key dp_date (filter (\<lambda>p. dp_symbol p = x \<and> day + 1 \<le> dp_date p \<and> dp_date p \<le> day + k + 5)
      (sn_prices (rs_session d)))"
  have bars: "in_session (price_list_in_range x (day + 1) (day + k + 5)) d = (Inr (?bars k), d)" for k
    by (simp add: in_session_def price_list_in_range_def sgets_def)
  have "?bars m = ?bars n" using assms by (intro arg_cong [of _ _ "sort_key dp_date"] filter_cong [OF refl]) force
  moreover have "filter (\<lambda>b. dp_date b \<le> day + m) (?bars n) = filter (\<lambda>b. dp_date b \<le> day + n) (?bars n)"
    using assms by (intro filter_cong [OF refl]) force
  ultimately show ?thesis
    by (simp add: compute_for_days_after_def Let_def sbind_def bars)
qed

end
