(* ===== verification/Strategies.thy ===== *)
theory Strategies
  imports Research_Tables
begin

text \<open>
  The strategies of \<^verbatim>\<open>app/strategy\<close>: the interface and its signal, the three rule-based
  strategies and the registry. A strategy is the record of what \<open>StrategyInterface\<close> asks for; the
  engine is modelled for an arbitrary one. A signal with an unknown action raises. In the evidence
  of a snapshot a count is an integer, a flag, or text; the text of a \<open>Decimal\<close> counts as no
  integer, because the model of a \<open>Decimal\<close> keeps no exponent.
\<close>

subsection \<open>The interface\<close>

record signal =
  sg_action :: string
  sg_confidence :: decimal
  sg_reason :: text_t
  sg_evidence :: json

definition clamp_confidence :: "decimal \<Rightarrow> decimal" where
  "clamp_confidence v = (if v < 0 then 0 else if 1 < v then 1 else v)"

definition strategy_actions :: "string list" where
  "strategy_actions = [''BUY'', ''PASS'', ''AVOID'']"

definition strategy_signal :: "string \<Rightarrow> decimal \<Rightarrow> text_t \<Rightarrow> json \<Rightarrow> py_error + signal" where
  "strategy_signal action confidence why evidence =
     (if action \<notin> set strategy_actions
      then Inl (ValueError [T (''invalid action '' @ py_repr action @ ''; expected one of '' @
        py_list_repr [''AVOID'', ''BUY'', ''PASS''])])
      else Inr \<lparr>sg_action = action, sg_confidence = clamp_confidence confidence, sg_reason = why, sg_evidence = evidence\<rparr>)"

record score_snapshot =
  sp_symbol :: string
  sp_total_score :: "decimal option"
  sp_grade :: "string option"
  sp_technical_score :: "decimal option"
  sp_news_score :: "decimal option"
  sp_supply_score :: "decimal option"
  sp_fundamental_score :: "decimal option"
  sp_earnings_score :: "decimal option"
  sp_ai_score :: "decimal option"
  sp_report_score :: "decimal option"
  sp_theme_signal_score :: "decimal option"
  sp_risk_level :: "string option"
  sp_risk_flags :: "string list"
  sp_evidence :: "(string \<times> json) list option"

record strategy =
  sy_name :: string
  sy_version :: string
  sy_evaluate :: "score_snapshot \<Rightarrow> py_error + signal"

subsection \<open>TopGradeStrategy\<close>

definition top_grade_confidence :: "string \<Rightarrow> decimal" where
  "top_grade_confidence grade = (case map_of [(''S'', 9 / 10), (''A'', 75 / 100), (''D'', 75 / 100)] grade of
     None \<Rightarrow> 1 / 2 | Some c \<Rightarrow> c)"

definition top_grade_evaluate :: "score_snapshot \<Rightarrow> py_error + signal" where
  "top_grade_evaluate snap =
     (let grade = py_upper (case sp_grade snap of None \<Rightarrow> [] | Some g \<Rightarrow> g)
      in if grade = ''S'' \<or> grade = ''A'' then
           strategy_signal ''BUY'' (top_grade_confidence grade) [T (''grade='' @ grade)] (JObj [(''grade'', JStr grade)])
         else if grade = ''D'' then
           strategy_signal ''AVOID'' (top_grade_confidence ''D'') [T ''grade=D''] (JObj [(''grade'', JStr grade)])
         else
           strategy_signal ''PASS'' (1 / 2) [T (''grade='' @ (if grade = [] then ''unknown'' else grade))]
             (JObj [(''grade'', if grade = [] then JNull else JStr grade)]))"

subsection \<open>HighScoreStrategy\<close>

definition high_score_evaluate :: "score_snapshot \<Rightarrow> py_error + signal" where
  "high_score_evaluate snap =
     (case sp_total_score snap of
        None \<Rightarrow> strategy_signal ''PASS'' (1 / 2) [T ''total_score=None''] (JObj [(''total_score'', JNull)])
      | Some score \<Rightarrow>
          let evidence = JObj [(''total_score'', JDec score)]
          in if 75 \<le> score then
               strategy_signal ''BUY'' (dadd (6 / 10) (dmul (dsub score 75) (16 / 1000)))
                 [T ''total_score='', D score, T '' >= 75''] evidence
             else if score \<le> 35 then
               strategy_signal ''AVOID'' (dadd (6 / 10) (dmul (dsub 35 score) (11 / 1000)))
                 [T ''total_score='', D score, T '' <= 35''] evidence
             else
               strategy_signal ''PASS'' (1 / 2) [T ''total_score='', D score, T '' (mid-range)''] evidence)"

subsection \<open>MultiSignalStrategy\<close>

definition has_risk_disclosure :: "score_snapshot \<Rightarrow> bool" where
  "has_risk_disclosure snap = (''RISK_DISCLOSURE'' \<in> set (sp_risk_flags snap))"

definition evidence_part :: "(string \<times> json) list option \<Rightarrow> string \<Rightarrow> (string \<times> json) list option" where
  "evidence_part evidence k = (case evidence of None \<Rightarrow> None | Some kvs \<Rightarrow>
     (case map_of kvs k of Some (JObj part) \<Rightarrow> Some part | _ \<Rightarrow> None))"

definition earnings_surprise_type :: "(string \<times> json) list option \<Rightarrow> json" where
  "earnings_surprise_type evidence = (case evidence_part evidence ''earnings_evidence'' of None \<Rightarrow> JNull
     | Some part \<Rightarrow> (case map_of part ''surprise_type'' of None \<Rightarrow> JNull | Some v \<Rightarrow> v))"

text \<open>\<open>int(d.get(k, 0) or 0)\<close>; nothing where it raises.\<close>

definition count_field :: "(string \<times> json) list \<Rightarrow> string \<Rightarrow> int option" where
  "count_field part k = (case map_of part k of None \<Rightarrow> Some 0 | Some v \<Rightarrow>
     (case v of JNull \<Rightarrow> Some 0 | JBool b \<Rightarrow> Some (if b then 1 else 0) | JInt n \<Rightarrow> Some n
      | JStr s \<Rightarrow> if s = [] then Some 0 else py_int s
      | JList xs \<Rightarrow> if xs = [] then Some 0 else None | JObj kvs \<Rightarrow> if kvs = [] then Some 0 else None
      | _ \<Rightarrow> None))"

definition news_sentiment_skew :: "(string \<times> json) list option \<Rightarrow> int" where
  "news_sentiment_skew evidence = (case evidence_part evidence ''news_evidence'' of None \<Rightarrow> 0
     | Some part \<Rightarrow> (case (count_field part ''positive_count'', count_field part ''negative_count'') of
         (Some p, Some n) \<Rightarrow> p - n | _ \<Rightarrow> 0))"

definition at_least :: "decimal option \<Rightarrow> decimal \<Rightarrow> bool" where
  "at_least x bound = (case x of None \<Rightarrow> False | Some v \<Rightarrow> bound \<le> v)"

definition buy_conditions_met :: "score_snapshot \<Rightarrow> bool" where
  "buy_conditions_met snap \<longleftrightarrow> at_least (sp_total_score snap) 65 \<and> at_least (sp_fundamental_score snap) 60 \<and>
     at_least (sp_news_score snap) 50 \<and> (sp_earnings_score snap = None \<or> at_least (sp_earnings_score snap) 50)"

definition score_text :: "decimal option \<Rightarrow> text_t" where
  "score_text x = (case x of None \<Rightarrow> [T ''None''] | Some v \<Rightarrow> [D v])"

definition multi_evidence :: "score_snapshot \<Rightarrow> json" where
  "multi_evidence snap = JObj [(''total_score'', json_opt JDec (sp_total_score snap)),
     (''fundamental_score'', json_opt JDec (sp_fundamental_score snap)), (''news_score'', json_opt JDec (sp_news_score snap)),
     (''earnings_score'', json_opt JDec (sp_earnings_score snap)), (''risk_level'', json_opt JStr (sp_risk_level snap))]"

definition multi_signal_evaluate :: "score_snapshot \<Rightarrow> py_error + signal" where
  "multi_signal_evaluate snap =
     (if py_upper (case sp_risk_level snap of None \<Rightarrow> [] | Some l \<Rightarrow> l) = ''HIGH'' then
        strategy_signal ''AVOID'' (85 / 100) [T ''risk_level=HIGH''] (JObj [(''risk_level'', json_opt JStr (sp_risk_level snap))])
      else if has_risk_disclosure snap then
        strategy_signal ''AVOID'' (85 / 100) [T ''RISK_DISCLOSURE flag'']
          (JObj [(''risk_flags'', JList (map JStr (sp_risk_flags snap)))])
      else if (case sp_total_score snap of None \<Rightarrow> False | Some v \<Rightarrow> v \<le> 35) then
        strategy_signal ''AVOID'' (7 / 10) ([T ''total_score=''] @ score_text (sp_total_score snap) @ [T '' <= 35''])
          (JObj [(''total_score'', json_opt JDec (sp_total_score snap))])
      else if buy_conditions_met snap then
        let beat = (earnings_surprise_type (sp_evidence snap) = JStr ''BEAT'');
            positive = (0 < news_sentiment_skew (sp_evidence snap));
            confidence = 7 / 10;
            confidence = (if beat then dadd confidence (1 / 10) else confidence);
            confidence = (if positive then dadd confidence (5 / 100) else confidence)
        in strategy_signal ''BUY'' confidence
             ([T ''total=''] @ score_text (sp_total_score snap) @ [T ''; fundamental=''] @ score_text (sp_fundamental_score snap) @
              [T ''; news=''] @ score_text (sp_news_score snap) @
              (if sp_earnings_score snap = None then [T ''; earnings=N/A'']
               else [T ''; earnings=''] @ score_text (sp_earnings_score snap)) @
              (if beat then [T ''; earnings BEAT boost''] else []) @
              (if positive then [T ''; news sentiment skew positive''] else []))
             (multi_evidence snap)
      else strategy_signal ''PASS'' (1 / 2) [T ''conditions not met for BUY/AVOID''] (multi_evidence snap))"

subsection \<open>The registry\<close>

definition strategy_registry :: "(string \<times> strategy) list" where
  "strategy_registry =
     [(''top_grade'', \<lparr>sy_name = ''TopGradeStrategy'', sy_version = ''v1.0.0'', sy_evaluate = top_grade_evaluate\<rparr>),
      (''high_score'', \<lparr>sy_name = ''HighScoreStrategy'', sy_version = ''v1.0.0'', sy_evaluate = high_score_evaluate\<rparr>),
      (''multi_signal'', \<lparr>sy_name = ''MultiSignalStrategy'', sy_version = ''v1.0.0'', sy_evaluate = multi_signal_evaluate\<rparr>)]"

definition get_strategy :: "string \<Rightarrow> py_error + strategy" where
  "get_strategy name = (case map_of strategy_registry name of
     Some s \<Rightarrow> Inr s
   | None \<Rightarrow> Inl (UnknownStrategyError [T (''unknown strategy '' @ py_repr name @ ''; expected one of '' @
       py_list_repr [''high_score'', ''multi_signal'', ''top_grade''])]))"

end
