(* ===== verification/Backtest_Engine.thy ===== *)
theory Backtest_Engine
  imports Strategies Cost_Model Scoring
begin

text \<open>
  The backtest engine of \<^verbatim>\<open>app/backtest/engine.py\<close> with the regime of
  \<^verbatim>\<open>app/backtest/regime_split.py\<close> and the repositories \<^verbatim>\<open>backtest_runs.py\<close> and
  \<^verbatim>\<open>backtest_results.py\<close>: it replays a strategy over stored recommendations, pairs every
  signal with the returns recorded for it and aggregates the signals to buy.
  The columns \<open>created_at\<close> and \<open>updated_at\<close> are not modelled.
\<close>

subsection \<open>Repositories\<close>

definition no_horizons :: "decimal option by_horizon" where
  "no_horizons = \<lparr>hz_1d = None, hz_3d = None, hz_5d = None, hz_20d = None\<rparr>"

definition backtest_run_create ::
  "string \<Rightarrow> string \<Rightarrow> int \<Rightarrow> int option \<Rightarrow> int option \<Rightarrow> string \<Rightarrow> json \<Rightarrow> int rdb" where
  "backtest_run_create strategy_name strategy_version run_date start_date end_date status config =
     (\<lambda>d. let i = t_next bq_id (rs_backtest_runs d)
      in (Inr i, d\<lparr>rs_backtest_runs := rs_backtest_runs d @ [\<lparr>bq_id = i, bq_strategy_name = strategy_name,
           bq_strategy_version = strategy_version, bq_run_date = run_date, bq_start_date = start_date, bq_end_date = end_date,
           bq_signal_count = 0, bq_buy_count = 0, bq_avoid_count = 0, bq_pass_count = 0, bq_win_rate = no_horizons,
           bq_avg_return = no_horizons, bq_max_drawdown = None, bq_status = status, bq_error_message = None,
           bq_config = config, bq_summary = JNull\<rparr>]\<rparr>))"

definition backtest_run_get :: "int \<Rightarrow> backtest_run option rdb" where
  "backtest_run_get run_id = sgets (\<lambda>d. t_get bq_id run_id (rs_backtest_runs d))"

definition newest_runs :: "backtest_run list \<Rightarrow> backtest_run list" where
  "newest_runs rows = rev (sort_key (\<lambda>r. (bq_run_date r, bq_id r)) rows)"

definition backtest_run_list_recent :: "nat \<Rightarrow> backtest_run list rdb" where
  "backtest_run_list_recent limit = sgets (\<lambda>d. take limit (newest_runs (rs_backtest_runs d)))"

definition backtest_run_list_by_strategy :: "string \<Rightarrow> nat \<Rightarrow> backtest_run list rdb" where
  "backtest_run_list_by_strategy strategy_name limit =
     sgets (\<lambda>d. take limit (newest_runs (filter (\<lambda>r. bq_strategy_name r = strategy_name) (rs_backtest_runs d))))"

definition mark_backtest_finished ::
  "int \<Rightarrow> nat \<times> nat \<times> nat \<times> nat \<Rightarrow> decimal option by_horizon \<Rightarrow> decimal option by_horizon \<Rightarrow> decimal option \<Rightarrow> json \<Rightarrow>
   unit rdb" where
  "mark_backtest_finished run_id = (\<lambda>(signal_count, buy_count, avoid_count, pass_count) win_rate avg_return max_drawdown summary.
     smodify (\<lambda>d. d\<lparr>rs_backtest_runs := t_upd bq_id run_id (\<lambda>r. r\<lparr>bq_signal_count := signal_count, bq_buy_count := buy_count,
       bq_avoid_count := avoid_count, bq_pass_count := pass_count, bq_win_rate := win_rate, bq_avg_return := avg_return,
       bq_max_drawdown := max_drawdown, bq_summary := summary, bq_status := ''SUCCESS'', bq_error_message := None\<rparr>)
       (rs_backtest_runs d)\<rparr>))"

definition mark_backtest_failed :: "int \<Rightarrow> string \<Rightarrow> unit rdb" where
  "mark_backtest_failed run_id error_message = smodify (\<lambda>d. d\<lparr>rs_backtest_runs := t_upd bq_id run_id
     (\<lambda>r. r\<lparr>bq_status := ''FAILED'', bq_error_message := Some error_message\<rparr>) (rs_backtest_runs d)\<rparr>)"

definition backtest_result_create :: "backtest_result \<Rightarrow> int rdb" where
  "backtest_result_create row = (\<lambda>d. let i = t_next bt_id (rs_backtest_results d)
     in (Inr i, d\<lparr>rs_backtest_results := rs_backtest_results d @ [row\<lparr>bt_id := i\<rparr>]\<rparr>))"

fun backtest_bulk_insert :: "backtest_result list \<Rightarrow> unit rdb" where
  "backtest_bulk_insert [] = sret ()"
| "backtest_bulk_insert (row # rows) = sbind (backtest_result_create row) (\<lambda>_. backtest_bulk_insert rows)"

definition backtest_list_by_run :: "int \<Rightarrow> backtest_result list rdb" where
  "backtest_list_by_run run_id = sgets (\<lambda>d. sort_key bt_id (filter (\<lambda>r. bt_run_id r = run_id) (rs_backtest_results d)))"

definition backtest_list_by_symbol :: "string \<Rightarrow> nat \<Rightarrow> backtest_result list rdb" where
  "backtest_list_by_symbol symbol limit =
     sgets (\<lambda>d. take limit (sort_key bt_id (filter (\<lambda>r. bt_symbol r = symbol) (rs_backtest_results d))))"

definition bump_count :: "(string \<times> nat) list \<Rightarrow> string \<Rightarrow> (string \<times> nat) list" where
  "bump_count m k = dict_put m (k, (case map_of m k of None \<Rightarrow> 0 | Some n \<Rightarrow> n) + 1)"

definition backtest_aggregate_by_run :: "int \<Rightarrow> (string \<times> nat) list rdb" where
  "backtest_aggregate_by_run run_id = sgets (\<lambda>d.
     foldl (\<lambda>m r. bump_count m (bt_signal_action r)) [] (filter (\<lambda>r. bt_run_id r = run_id) (rs_backtest_results d)))"

definition backtest_list_by_action :: "string \<Rightarrow> nat \<Rightarrow> backtest_result list rdb" where
  "backtest_list_by_action signal_action limit =
     sgets (\<lambda>d. take limit (sort_key bt_id (filter (\<lambda>r. bt_signal_action r = signal_action) (rs_backtest_results d))))"

subsection \<open>Regimes\<close>

definition assign_regime :: "int \<Rightarrow> string \<Rightarrow> string option rdb" where
  "assign_regime signal_date market = sgets (\<lambda>d. map_option mr_regime
     (latest_by mr_date (filter (\<lambda>r. mr_market r = market \<and> mr_date r \<le> signal_date) (rs_regimes d))))"

definition label_or :: "string \<Rightarrow> string option \<Rightarrow> string" where
  "label_or dflt x = (case x of None \<Rightarrow> dflt | Some s \<Rightarrow> if s = [] then dflt else s)"

definition display_bucket :: "string option \<Rightarrow> string" where
  "display_bucket regime = label_or ''UNCLASSIFIED'' regime"

definition backtest_aggregate_by_regime :: "int \<Rightarrow> string \<Rightarrow> (string \<times> nat) list rdb" where
  "backtest_aggregate_by_regime run_id unclassified_label = sgets (\<lambda>d.
     foldl (\<lambda>m r. bump_count m (label_or unclassified_label (bt_regime r))) []
       (filter (\<lambda>r. bt_run_id r = run_id) (rs_backtest_results d)))"

subsection \<open>Snapshots\<close>

definition json_dict :: "json option \<Rightarrow> (string \<times> json) list option" where
  "json_dict v = (case v of Some (JObj kvs) \<Rightarrow> Some kvs | _ \<Rightarrow> None)"

definition json_strings :: "json option \<Rightarrow> string list" where
  "json_strings v = (case v of Some (JList xs) \<Rightarrow> List.map_filter (\<lambda>x. case x of JStr s \<Rightarrow> Some s | _ \<Rightarrow> None) xs | _ \<Rightarrow> [])"

definition evidence_keys :: "string list" where
  "evidence_keys = [''news_evidence'', ''disclosure_risk_evidence'', ''fundamental_evidence'', ''earnings_evidence'']"

definition build_score_snapshot :: "recommendation \<Rightarrow> data_snapshot option \<Rightarrow> score_snapshot" where
  "build_score_snapshot rec snapshot =
     (let context' = (case json_dict (map_option ds_market_context snapshot) of None \<Rightarrow> [] | Some kvs \<Rightarrow> kvs);
          risk_summary = (case json_dict (map_of context' ''risk_summary'') of None \<Rightarrow> [] | Some kvs \<Rightarrow> kvs);
          evidence = List.map_filter (\<lambda>k. map_option (\<lambda>part. (k, JObj part)) (json_dict (map_of context' k))) evidence_keys
      in \<lparr>sp_symbol = rc_symbol rec, sp_total_score = rc_total_score rec, sp_grade = rc_grade rec,
          sp_technical_score = rc_technical_score rec, sp_news_score = rc_news_score rec, sp_supply_score = rc_supply_score rec,
          sp_fundamental_score = rc_fundamental_score rec, sp_earnings_score = None, sp_ai_score = rc_ai_score rec,
          sp_report_score = None, sp_theme_signal_score = None,
          sp_risk_level = (case map_of risk_summary ''level'' of Some (JStr l) \<Rightarrow> Some l | _ \<Rightarrow> None),
          sp_risk_flags = json_strings (map_of risk_summary ''flags''),
          sp_evidence = (if evidence = [] then None else Some evidence)\<rparr>)"

subsection \<open>Evaluation\<close>

record horizon_return =
  hr_close :: "decimal option"
  hr_status :: "string option"
  hr_max_drawdown :: "decimal option"
  hr_result_id :: "int option"

definition empty_horizon :: horizon_return where
  "empty_horizon = \<lparr>hr_close = None, hr_status = None, hr_max_drawdown = None, hr_result_id = None\<rparr>"

definition backtest_horizons :: "int list" where
  "backtest_horizons = [1, 3, 5, 20]"

record evaluated_row =
  ev_recommendation :: recommendation
  ev_run :: recommendation_run
  ev_snapshot :: "data_snapshot option"
  ev_signal_action :: string
  ev_confidence :: decimal
  ev_reason :: text_t
  ev_evidence :: json
  ev_returns :: "decimal option by_horizon"
  ev_max_drawdown :: "decimal option"
  ev_result_status :: "string option"
  ev_result_id :: "int option"
  ev_cost_adjusted_return_5d :: "decimal option"
  ev_regime :: "string option"

text \<open>Recommendations with their run and snapshot, newest run first, each run by rank.\<close>

definition in_dates :: "int option \<Rightarrow> int option \<Rightarrow> int \<Rightarrow> bool" where
  "in_dates start_date end_date day \<longleftrightarrow> (case start_date of None \<Rightarrow> True | Some a \<Rightarrow> a \<le> day) \<and>
     (case end_date of None \<Rightarrow> True | Some b \<Rightarrow> day \<le> b)"

definition limited :: "int option \<Rightarrow> 'a list \<Rightarrow> 'a list" where
  "limited limit xs = (case limit of None \<Rightarrow> xs | Some n \<Rightarrow> if 0 < n then take (nat n) xs else xs)"

definition joined_recommendations ::
  "research \<Rightarrow> int option \<Rightarrow> int option \<Rightarrow> (recommendation \<times> recommendation_run \<times> data_snapshot option) list" where
  "joined_recommendations d start_date end_date =
     List.map_filter (\<lambda>rec. case find (\<lambda>r. rn_run_id r = rc_run_id rec) (rs_runs d) of None \<Rightarrow> None
       | Some run \<Rightarrow> if in_dates start_date end_date (rn_run_date run)
           then Some (rec, run, Option.bind (rc_snapshot_id rec) (\<lambda>i. find (\<lambda>s. ds_snapshot_id s = i) (rs_data_snapshots d)))
           else None) (rs_recommendations d)"

definition fetch_recommendations ::
  "int option \<Rightarrow> int option \<Rightarrow> int option \<Rightarrow> (recommendation \<times> recommendation_run \<times> data_snapshot option) list rdb" where
  "fetch_recommendations start_date end_date limit = sgets (\<lambda>d. limited limit
     (sort_key (\<lambda>(rec, run, _). (- rn_run_date run, - rn_run_id run, rc_rank rec)) (joined_recommendations d start_date end_date)))"

definition fetch_horizon_returns :: "int \<Rightarrow> (int \<times> horizon_return) list rdb" where
  "fetch_horizon_returns recommendation_id = sgets (\<lambda>d. foldl (\<lambda>m r. dict_put m (rr_days_after r,
       \<lparr>hr_close = rr_close_return r, hr_status = rr_result_status r, hr_max_drawdown = rr_max_drawdown r, hr_result_id = Some (rr_id r)\<rparr>)) []
     (filter (\<lambda>r. rr_recommendation_id r = recommendation_id \<and> rr_days_after r \<in> set backtest_horizons) (rs_results d)))"

definition least :: "decimal list \<Rightarrow> decimal option" where
  "least vs = (if vs = [] then None else Some (Min (set vs)))"

definition min_max_drawdown :: "(int \<times> horizon_return) list \<Rightarrow> decimal option" where
  "min_max_drawdown horizons = least (List.map_filter (\<lambda>(_, h). hr_max_drawdown h) horizons)"

definition signal_of :: "strategy \<Rightarrow> score_snapshot \<Rightarrow> signal rdb" where
  "signal_of strat snap = (case sy_evaluate strat snap of Inl e \<Rightarrow> sthrow e | Inr s \<Rightarrow> sret s)"

definition evaluate_row ::
  "cost_model \<Rightarrow> string \<Rightarrow> strategy \<Rightarrow> recommendation \<times> recommendation_run \<times> data_snapshot option \<Rightarrow> evaluated_row rdb" where
  "evaluate_row costs regime_market strat = (\<lambda>(rec, run, snapshot).
     sbind (signal_of strat (build_score_snapshot rec snapshot)) (\<lambda>s.
     sbind (fetch_horizon_returns (rc_id rec)) (\<lambda>horizons.
     let hor = (\<lambda>n. case map_of horizons n of None \<Rightarrow> empty_horizon | Some h \<Rightarrow> h); return_5d = hr_close (hor 5)
     in sbind (assign_regime (rn_run_date run) regime_market) (\<lambda>regime.
        sret \<lparr>ev_recommendation = rec, ev_run = run, ev_snapshot = snapshot, ev_signal_action = sg_action s,
          ev_confidence = sg_confidence s, ev_reason = sg_reason s, ev_evidence = sg_evidence s,
          ev_returns = \<lparr>hz_1d = hr_close (hor 1), hz_3d = hr_close (hor 3), hz_5d = return_5d, hz_20d = hr_close (hor 20)\<rparr>,
          ev_max_drawdown = min_max_drawdown horizons, ev_result_status = hr_status (hor 5), ev_result_id = hr_result_id (hor 5),
          ev_cost_adjusted_return_5d = (if sg_action s = ''BUY'' then cost_apply costs return_5d else None),
          ev_regime = regime\<rparr>))))"

fun evaluate_rows ::
  "cost_model \<Rightarrow> string \<Rightarrow> strategy \<Rightarrow> (recommendation \<times> recommendation_run \<times> data_snapshot option) list \<Rightarrow>
   evaluated_row list rdb" where
  "evaluate_rows costs regime_market strat [] = sret []"
| "evaluate_rows costs regime_market strat (row # rows) =
     sbind (evaluate_row costs regime_market strat row) (\<lambda>e.
     sbind (evaluate_rows costs regime_market strat rows) (\<lambda>es. sret (e # es)))"

subsection \<open>Aggregation\<close>

definition mean4 :: "decimal list \<Rightarrow> decimal option" where
  "mean4 vs = (if vs = [] then None else Some (quant_even 4 (ddiv (dsum vs) (of_nat (length vs)))))"

definition win_rate4 :: "decimal list \<Rightarrow> decimal option" where
  "win_rate4 vs = (if vs = [] then None
     else Some (quant_even 4 (ddiv (of_nat (length (filter (\<lambda>v. 0 < v) vs))) (of_nat (length vs)))))"

definition present :: "('r \<Rightarrow> 'v option) \<Rightarrow> 'r list \<Rightarrow> 'v list" where
  "present f rows = List.map_filter f rows"

definition per_horizon :: "(decimal option by_horizon \<Rightarrow> decimal option) \<Rightarrow> evaluated_row list \<Rightarrow> decimal list" where
  "per_horizon h rows = present (\<lambda>r. h (ev_returns r)) rows"

definition for_horizons :: "((decimal option by_horizon \<Rightarrow> decimal option) \<Rightarrow> 'a) \<Rightarrow> 'a by_horizon" where
  "for_horizons f = \<lparr>hz_1d = f hz_1d, hz_3d = f hz_3d, hz_5d = f hz_5d, hz_20d = f hz_20d\<rparr>"

record aggregate_stats =
  as_signal_count :: nat
  as_buy_count :: nat
  as_pass_count :: nat
  as_avoid_count :: nat
  as_win_rate :: "decimal option by_horizon"
  as_avg_return :: "decimal option by_horizon"
  as_max_drawdown :: "decimal option"
  as_cost_adjusted_avg_return_5d :: "decimal option"
  as_missing :: "nat by_horizon"

definition with_action :: "string \<Rightarrow> evaluated_row list \<Rightarrow> evaluated_row list" where
  "with_action action rows = filter (\<lambda>r. ev_signal_action r = action) rows"

definition aggregate :: "evaluated_row list \<Rightarrow> aggregate_stats" where
  "aggregate rows =
     (let buys = with_action ''BUY'' rows
      in \<lparr>as_signal_count = length rows, as_buy_count = length buys, as_pass_count = length (with_action ''PASS'' rows),
          as_avoid_count = length (with_action ''AVOID'' rows),
          as_win_rate = for_horizons (\<lambda>h. win_rate4 (per_horizon h buys)),
          as_avg_return = for_horizons (\<lambda>h. mean4 (per_horizon h buys)),
          as_max_drawdown = least (present ev_max_drawdown buys),
          as_cost_adjusted_avg_return_5d = mean4 (present ev_cost_adjusted_return_5d buys),
          as_missing = for_horizons (\<lambda>h. length buys - length (per_horizon h buys))\<rparr>)"

record regime_entry =
  rb_regime :: string
  rb_buy_count :: nat
  rb_win_rate_5d :: "decimal option"
  rb_avg_return_5d :: "decimal option"
  rb_cost_adjusted_avg_return_5d :: "decimal option"

text \<open>\<open>d.setdefault(key, []).append(x)\<close> for every \<open>x\<close>.\<close>

definition group_rows :: "('r \<Rightarrow> string) \<Rightarrow> 'r list \<Rightarrow> (string \<times> 'r list) list" where
  "group_rows key rows = foldl (\<lambda>m r. dict_put m (key r, (case map_of m (key r) of None \<Rightarrow> [] | Some l \<Rightarrow> l) @ [r])) [] rows"

definition regime_entry_of :: "string \<times> evaluated_row list \<Rightarrow> regime_entry" where
  "regime_entry_of = (\<lambda>(bucket, rows). \<lparr>rb_regime = bucket, rb_buy_count = length rows,
     rb_win_rate_5d = win_rate4 (per_horizon hz_5d rows), rb_avg_return_5d = mean4 (per_horizon hz_5d rows),
     rb_cost_adjusted_avg_return_5d = mean4 (present ev_cost_adjusted_return_5d rows)\<rparr>)"

definition build_regime_breakdown :: "evaluated_row list \<Rightarrow> regime_entry list" where
  "build_regime_breakdown rows = sort_key (\<lambda>e. (- int (rb_buy_count e), rb_regime e))
     (map regime_entry_of (group_rows (\<lambda>r. display_bucket (ev_regime r)) (with_action ''BUY'' rows)))"

subsection \<open>Runs\<close>

definition buy_only_note :: string where
  "buy_only_note = ''win_rate / avg_return / max_drawdown are computed over BUY signals only. PASS / AVOID signals are counted in *_count but excluded from these aggregates.''"

definition cost_model_version :: string where
  "cost_model_version = ''constant-v1''"

record backtest_summary =
  bs_strategy_name :: string
  bs_strategy_version :: string
  bs_run_date :: int
  bs_start_date :: "int option"
  bs_end_date :: "int option"
  bs_dry_run :: bool
  bs_backtest_run_id :: "int option"
  bs_evaluated_count :: nat
  bs_stats :: aggregate_stats
  bs_cost_model_version :: string
  bs_total_cost :: decimal
  bs_regime_breakdown :: "regime_entry list"
  bs_notes :: string

definition regime_entry_json :: "regime_entry \<Rightarrow> json" where
  "regime_entry_json e = JObj [(''regime'', JStr (rb_regime e)), (''buy_count'', JInt (int (rb_buy_count e))),
     (''win_rate_5d'', json_opt JDec (rb_win_rate_5d e)), (''avg_return_5d'', json_opt JDec (rb_avg_return_5d e)),
     (''cost_adjusted_avg_return_5d'', json_opt JDec (rb_cost_adjusted_avg_return_5d e))]"

definition missing_json :: "nat by_horizon \<Rightarrow> json" where
  "missing_json m = JObj [(''1'', JInt (int (hz_1d m))), (''3'', JInt (int (hz_3d m))), (''5'', JInt (int (hz_5d m))),
     (''20'', JInt (int (hz_20d m)))]"

definition result_record :: "int \<Rightarrow> evaluated_row \<Rightarrow> backtest_result" where
  "result_record run_id e = \<lparr>bt_id = 0, bt_run_id = run_id, bt_symbol = rc_symbol (ev_recommendation e),
     bt_recommendation_id = Some (rc_id (ev_recommendation e)), bt_recommendation_result_id = ev_result_id e,
     bt_signal_action = ev_signal_action e, bt_confidence = Some (ev_confidence e), bt_reason = Some (ev_reason e),
     bt_grade = rc_grade (ev_recommendation e), bt_total_score = rc_total_score (ev_recommendation e),
     bt_returns = ev_returns e, bt_max_drawdown = ev_max_drawdown e, bt_result_status = ev_result_status e,
     bt_cost_adjusted_return_5d = ev_cost_adjusted_return_5d e, bt_regime = ev_regime e, bt_evidence = ev_evidence e\<rparr>"

definition day_or_today :: "int option \<Rightarrow> int rdb" where
  "day_or_today run_date = sbind research_now (\<lambda>now. sret (case run_date of None \<Rightarrow> now div 86400000000 | Some day \<Rightarrow> day))"

definition store_backtest ::
  "cost_model \<Rightarrow> string \<Rightarrow> strategy \<Rightarrow> int option \<Rightarrow> int option \<Rightarrow> int option \<Rightarrow> int \<Rightarrow> evaluated_row list \<Rightarrow> int rdb" where
  "store_backtest costs regime_market strat start_date end_date limit run_date evaluated =
     (let stats = aggregate evaluated
      in sbind (backtest_run_create (sy_name strat) (sy_version strat) run_date start_date end_date ''DRY_RUN''
           (JObj [(''limit'', json_opt JInt limit), (''horizons'', JList (map JInt backtest_horizons)),
             (''cost_model_version'', JStr cost_model_version), (''regime_market'', JStr regime_market)])) (\<lambda>run_id.
         sbind (backtest_bulk_insert (map (result_record run_id) evaluated)) (\<lambda>_.
         sbind (mark_backtest_finished run_id (as_signal_count stats, as_buy_count stats, as_avoid_count stats, as_pass_count stats)
           (as_win_rate stats) (as_avg_return stats) (as_max_drawdown stats)
           (JObj [(''missing_result_count_per_horizon'', missing_json (as_missing stats)),
             (''cost_model_version'', JStr cost_model_version), (''total_cost'', JDec (total_cost costs)),
             (''cost_adjusted_avg_return_5d'', json_opt JDec (as_cost_adjusted_avg_return_5d stats)),
             (''regime_breakdown'', JList (map regime_entry_json (build_regime_breakdown evaluated))),
             (''notes'', JStr buy_only_note)])) (\<lambda>_.
         sret run_id))))"

definition run_backtest ::
  "cost_model \<Rightarrow> string \<Rightarrow> strategy \<Rightarrow> int option \<Rightarrow> int option \<Rightarrow> bool \<Rightarrow> int option \<Rightarrow> int option \<Rightarrow>
   backtest_summary rdb" where
  "run_backtest costs regime_market strat start_date end_date dry_run limit run_date =
     sbind (fetch_recommendations start_date end_date limit) (\<lambda>rows.
     sbind (evaluate_rows costs regime_market strat rows) (\<lambda>evaluated.
     sbind (day_or_today run_date) (\<lambda>day.
     sbind (if dry_run then sret None
            else sbind (store_backtest costs regime_market strat start_date end_date limit day evaluated) (\<lambda>i. sret (Some i)))
       (\<lambda>run_id.
     sret \<lparr>bs_strategy_name = sy_name strat, bs_strategy_version = sy_version strat, bs_run_date = day,
       bs_start_date = start_date, bs_end_date = end_date, bs_dry_run = dry_run, bs_backtest_run_id = run_id,
       bs_evaluated_count = length evaluated, bs_stats = aggregate evaluated, bs_cost_model_version = cost_model_version,
       bs_total_cost = total_cost costs, bs_regime_breakdown = build_regime_breakdown evaluated, bs_notes = buy_only_note\<rparr>))))"

end
