(* ===== verification/Backtest_Variants.thy ===== *)
theory Backtest_Variants
  imports Backtest_Engine
begin

text \<open>
  The two runners on top of the backtest engine: walk-forward validation
  (\<^verbatim>\<open>app/backtest/walk_forward.py\<close>), whose loop over the folds need not end, and the comparison
  of strategies (\<^verbatim>\<open>app/backtest/multi_strategy_runner.py\<close>) with the breakdown by sector of
  \<^verbatim>\<open>app/backtest/regime_breakdown.py\<close>. Dates are day numbers without the bounds of Python's
  \<^verbatim>\<open>date\<close>.
\<close>

subsection \<open>Folds\<close>

record fold =
  fd_index :: nat
  fd_train_start :: int
  fd_train_end :: int
  fd_validate_start :: int
  fd_validate_end :: int

definition fold_at :: "int \<Rightarrow> int \<Rightarrow> int \<Rightarrow> nat \<Rightarrow> int \<Rightarrow> fold" where
  "fold_at train_window validate_window gap_days index cursor =
     (let train_end = cursor + train_window - 1; validate_start = train_end + gap_days + 1
      in \<lparr>fd_index = index, fd_train_start = cursor, fd_train_end = train_end, fd_validate_start = validate_start,
          fd_validate_end = validate_start + validate_window - 1\<rparr>)"

text \<open>The loop; \<open>None\<close> when it never breaks.\<close>

partial_function (option) fold_loop :: "int \<Rightarrow> int \<Rightarrow> int \<Rightarrow> int \<Rightarrow> nat \<Rightarrow> int \<Rightarrow> fold list option" where
  "fold_loop end_date train_window validate_window gap_days index cursor =
     (let f = fold_at train_window validate_window gap_days index cursor
      in if end_date < fd_validate_end f then Some []
         else Option.bind (fold_loop end_date train_window validate_window gap_days (index + 1) (cursor + validate_window))
           (\<lambda>folds. Some (f # folds)))"

definition generate_folds :: "int \<Rightarrow> int \<Rightarrow> int \<Rightarrow> int \<Rightarrow> int \<Rightarrow> fold list option" where
  "generate_folds start_date end_date train_window validate_window gap_days =
     fold_loop end_date train_window validate_window gap_days 0 start_date"

subsection \<open>Walk-forward validation\<close>

record walk_forward_config =
  wf_costs :: cost_model
  wf_regime_market :: string
  wf_train_window :: int
  wf_validate_window :: int
  wf_gap_days :: int

record fold_result =
  fr_fold :: fold
  fr_is_metrics :: backtest_summary
  fr_oos_metrics :: backtest_summary
  fr_is_oos_gap :: int
  fr_signal_count :: nat
  fr_buy_count :: nat

record walk_forward_summary =
  ws_strategy_name :: string
  ws_strategy_version :: string
  ws_run_date :: int
  ws_start_date :: int
  ws_end_date :: int
  ws_train_window :: int
  ws_validate_window :: int
  ws_gap_days :: int
  ws_dry_run :: bool
  ws_backtest_run_id :: "int option"
  ws_total_folds :: nat
  ws_fold_results :: "fold_result list"
  ws_avg_oos_win_rate_5d :: "decimal option"
  ws_avg_oos_avg_return_5d :: "decimal option"

definition win_rate_5d :: "backtest_summary \<Rightarrow> decimal option" where
  "win_rate_5d s = hz_5d (as_win_rate (bs_stats s))"

definition avg_return_5d :: "backtest_summary \<Rightarrow> decimal option" where
  "avg_return_5d s = hz_5d (as_avg_return (bs_stats s))"

definition fold_json :: "fold_result \<Rightarrow> json" where
  "fold_json r = (let f = fr_fold r; i = fr_is_metrics r; o' = fr_oos_metrics r
     in JObj [(''fold_index'', JInt (int (fd_index f))), (''train_start'', JInt (fd_train_start f)),
       (''train_end'', JInt (fd_train_end f)), (''validate_start'', JInt (fd_validate_start f)),
       (''validate_end'', JInt (fd_validate_end f)), (''is_oos_gap'', JInt (fr_is_oos_gap r)),
       (''is_signal_count'', JInt (int (as_signal_count (bs_stats i)))), (''is_buy_count'', JInt (int (as_buy_count (bs_stats i)))),
       (''is_win_rate_5d'', json_opt JDec (win_rate_5d i)), (''is_avg_return_5d'', json_opt JDec (avg_return_5d i)),
       (''oos_signal_count'', JInt (int (as_signal_count (bs_stats o')))), (''oos_buy_count'', JInt (int (as_buy_count (bs_stats o')))),
       (''oos_win_rate_5d'', json_opt JDec (win_rate_5d o')), (''oos_avg_return_5d'', json_opt JDec (avg_return_5d o'))])"

definition run_fold :: "walk_forward_config \<Rightarrow> strategy \<Rightarrow> fold \<Rightarrow> fold_result rdb" where
  "run_fold cfg strat f =
     sbind (run_backtest (wf_costs cfg) (wf_regime_market cfg) strat (Some (fd_train_start f)) (Some (fd_train_end f)) True None None)
       (\<lambda>is_metrics.
     sbind (run_backtest (wf_costs cfg) (wf_regime_market cfg) strat (Some (fd_validate_start f)) (Some (fd_validate_end f)) True None None)
       (\<lambda>oos_metrics.
     sret \<lparr>fr_fold = f, fr_is_metrics = is_metrics, fr_oos_metrics = oos_metrics, fr_is_oos_gap = wf_gap_days cfg,
       fr_signal_count = as_signal_count (bs_stats oos_metrics), fr_buy_count = as_buy_count (bs_stats oos_metrics)\<rparr>))"

fun run_folds :: "walk_forward_config \<Rightarrow> strategy \<Rightarrow> fold list \<Rightarrow> fold_result list rdb" where
  "run_folds cfg strat [] = sret []"
| "run_folds cfg strat (f # fs) =
     sbind (run_fold cfg strat f) (\<lambda>r. sbind (run_folds cfg strat fs) (\<lambda>rs. sret (r # rs)))"

definition avg_oos_metrics :: "fold_result list \<Rightarrow> decimal option \<times> decimal option" where
  "avg_oos_metrics results =
     (mean4 (present (\<lambda>r. win_rate_5d (fr_oos_metrics r)) results),
      mean4 (present (\<lambda>r. avg_return_5d (fr_oos_metrics r)) results))"

definition sum_oos :: "(aggregate_stats \<Rightarrow> nat) \<Rightarrow> fold_result list \<Rightarrow> nat" where
  "sum_oos count results = sum_list (map (\<lambda>r. count (bs_stats (fr_oos_metrics r))) results)"

definition only_5d :: "decimal option \<Rightarrow> decimal option by_horizon" where
  "only_5d x = no_horizons\<lparr>hz_5d := x\<rparr>"

definition store_walk_forward :: "walk_forward_config \<Rightarrow> strategy \<Rightarrow> int \<Rightarrow> int \<Rightarrow> int \<Rightarrow> fold_result list \<Rightarrow> int rdb" where
  "store_walk_forward cfg strat start_date end_date run_date results =
     (let (win, ret) = avg_oos_metrics results
      in sbind (backtest_run_create (sy_name strat) (sy_version strat) run_date (Some start_date) (Some end_date) ''DRY_RUN''
           (JObj [(''mode'', JStr ''walk_forward''), (''train_window_days'', JInt (wf_train_window cfg)),
             (''validate_window_days'', JInt (wf_validate_window cfg)), (''gap_days'', JInt (wf_gap_days cfg)),
             (''cost_model_version'', JStr cost_model_version), (''regime_market'', JStr (wf_regime_market cfg))])) (\<lambda>run_id.
         sbind (mark_backtest_finished run_id (sum_oos as_signal_count results, sum_oos as_buy_count results,
             sum_oos as_avoid_count results, sum_oos as_pass_count results) (only_5d win) (only_5d ret) None
           (JObj [(''mode'', JStr ''walk_forward''), (''total_folds'', JInt (int (length results))),
             (''avg_oos_win_rate_5d'', json_opt JDec win), (''avg_oos_avg_return_5d'', json_opt JDec ret),
             (''walk_forward_folds'', JList (map fold_json results)), (''notes'', JStr buy_only_note)])) (\<lambda>_.
         sret run_id)))"

definition walk_folds ::
  "walk_forward_config \<Rightarrow> strategy \<Rightarrow> int \<Rightarrow> int \<Rightarrow> bool \<Rightarrow> int option \<Rightarrow> fold list \<Rightarrow> walk_forward_summary rdb" where
  "walk_folds cfg strat start_date end_date dry_run run_date folds =
     sbind (run_folds cfg strat folds) (\<lambda>results.
     let (win, ret) = avg_oos_metrics results
     in sbind (day_or_today run_date) (\<lambda>day.
        sbind (if dry_run then sret None
               else sbind (store_walk_forward cfg strat start_date end_date day results) (\<lambda>i. sret (Some i))) (\<lambda>run_id.
        sret \<lparr>ws_strategy_name = sy_name strat, ws_strategy_version = sy_version strat, ws_run_date = day,
          ws_start_date = start_date, ws_end_date = end_date, ws_train_window = wf_train_window cfg,
          ws_validate_window = wf_validate_window cfg, ws_gap_days = wf_gap_days cfg, ws_dry_run = dry_run,
          ws_backtest_run_id = run_id, ws_total_folds = length results, ws_fold_results = results,
          ws_avg_oos_win_rate_5d = win, ws_avg_oos_avg_return_5d = ret\<rparr>)))"

definition run_walk_forward ::
  "walk_forward_config \<Rightarrow> strategy \<Rightarrow> int \<Rightarrow> int \<Rightarrow> bool \<Rightarrow> int option \<Rightarrow> research \<Rightarrow>
   ((py_error + walk_forward_summary) \<times> research) option" where
  "run_walk_forward cfg strat start_date end_date dry_run run_date d =
     map_option (\<lambda>folds. walk_folds cfg strat start_date end_date dry_run run_date folds d)
       (generate_folds start_date end_date (wf_train_window cfg) (wf_validate_window cfg) (wf_gap_days cfg))"

subsection \<open>Sectors\<close>

record sector_entry =
  se_sector :: string
  se_signal_count :: nat
  se_buy_count :: nat
  se_win_rate_5d :: "decimal option"
  se_avg_return_5d :: "decimal option"

type_synonym triple = "string option \<times> string \<times> decimal option"

definition sector_entry_of :: "string \<times> triple list \<Rightarrow> sector_entry" where
  "sector_entry_of = (\<lambda>(sector, signals).
     let buys = filter (\<lambda>(_, action, _). action = ''BUY'') signals; returns = present (\<lambda>(_, _, r). r) buys
     in \<lparr>se_sector = sector, se_signal_count = length signals, se_buy_count = length buys,
         se_win_rate_5d = win_rate4 returns, se_avg_return_5d = mean4 returns\<rparr>)"

definition aggregate_sector_breakdown :: "triple list \<Rightarrow> sector_entry list" where
  "aggregate_sector_breakdown triples = sort_key (\<lambda>e. (- int (se_buy_count e), se_sector e))
     (map sector_entry_of (group_rows (\<lambda>(sector, _, _). label_or ''UNKNOWN'' sector) triples))"

subsection \<open>Comparison of strategies\<close>

record runner_config =
  mc_costs :: cost_model
  mc_regime_market :: string
  mc_with_regime :: bool
  mc_with_sector :: bool

record strategy_result =
  sr_strategy_name :: string
  sr_strategy_version :: string
  sr_stats :: aggregate_stats
  sr_regime_breakdown :: "regime_entry list"
  sr_sector_breakdown :: "sector_entry list"

record comparison =
  cs_start_date :: int
  cs_end_date :: int
  cs_run_date :: int
  cs_dry_run :: bool
  cs_backtest_run_id :: "int option"
  cs_total_strategies :: nat
  cs_results :: "strategy_result list"
  cs_best_win_rate :: "string option"
  cs_best_avg_return :: "string option"

text \<open>The outer join with the stocks gives one row for every stock with the symbol, or one without a sector.\<close>

definition sectors_of :: "research \<Rightarrow> string \<Rightarrow> string option list" where
  "sectors_of d symbol = (case filter (\<lambda>s. st_symbol s = symbol) (rs_stocks d) of [] \<Rightarrow> [None] | ss \<Rightarrow> map st_sector ss)"

definition fetch_recs_with_sector ::
  "int \<Rightarrow> int \<Rightarrow> int option \<Rightarrow> (recommendation \<times> data_snapshot option \<times> string option) list rdb" where
  "fetch_recs_with_sector start_date end_date limit = sgets (\<lambda>d.
     map (\<lambda>(rec, run, snapshot, sector). (rec, snapshot, sector)) (limited limit
       (sort_key (\<lambda>(rec, run, _). (- rn_run_date run, - rn_run_id run, rc_rank rec))
         (concat (map (\<lambda>(rec, run, snapshot). map (\<lambda>sector. (rec, run, snapshot, sector)) (sectors_of d (rc_symbol rec)))
           (joined_recommendations d (Some start_date) (Some end_date)))))))"

definition fetch_returns_map :: "int list \<Rightarrow> (int \<times> decimal option) list rdb" where
  "fetch_returns_map rec_ids = sgets (\<lambda>d. if rec_ids = [] then []
     else foldl (\<lambda>m r. dict_put m (rr_recommendation_id r, rr_close_return r)) []
       (filter (\<lambda>r. rr_recommendation_id r \<in> set rec_ids \<and> rr_days_after r = 5) (rs_results d)))"

fun sector_triples ::
  "strategy \<Rightarrow> (int \<times> decimal option) list \<Rightarrow> (recommendation \<times> data_snapshot option \<times> string option) list \<Rightarrow> triple list rdb"
where
  "sector_triples strat returns [] = sret []"
| "sector_triples strat returns ((rec, snapshot, sector) # rows) =
     sbind (signal_of strat (build_score_snapshot rec snapshot)) (\<lambda>s.
     sbind (sector_triples strat returns rows) (\<lambda>triples.
     sret ((sector, sg_action s, (case map_of returns (rc_id rec) of None \<Rightarrow> None | Some r \<Rightarrow> r)) # triples)))"

fun compare_strategies ::
  "runner_config \<Rightarrow> (recommendation \<times> data_snapshot option \<times> string option) list \<Rightarrow> (int \<times> decimal option) list \<Rightarrow>
   int \<Rightarrow> int \<Rightarrow> int option \<Rightarrow> strategy list \<Rightarrow> strategy_result list rdb" where
  "compare_strategies cfg rows returns start_date end_date limit [] = sret []"
| "compare_strategies cfg rows returns start_date end_date limit (strat # strats) =
     sbind (run_backtest (mc_costs cfg) (mc_regime_market cfg) strat (Some start_date) (Some end_date) True limit None) (\<lambda>summary.
     sbind (if mc_with_sector cfg then sbind (sector_triples strat returns rows) (\<lambda>ts. sret (aggregate_sector_breakdown ts))
            else sret []) (\<lambda>sectors.
     sbind (compare_strategies cfg rows returns start_date end_date limit strats) (\<lambda>results.
     sret (\<lparr>sr_strategy_name = bs_strategy_name summary, sr_strategy_version = bs_strategy_version summary,
       sr_stats = bs_stats summary, sr_regime_breakdown = (if mc_with_regime cfg then bs_regime_breakdown summary else []),
       sr_sector_breakdown = sectors\<rparr> # results))))"

text \<open>Python's \<^verbatim>\<open>max\<close> keeps the first of equal maxima.\<close>

fun first_max :: "(string \<times> decimal) list \<Rightarrow> (string \<times> decimal) option" where
  "first_max [] = None"
| "first_max (x # xs) = (case first_max xs of None \<Rightarrow> Some x | Some y \<Rightarrow> if snd x < snd y then Some y else Some x)"

definition best_by :: "(strategy_result \<Rightarrow> decimal option) \<Rightarrow> strategy_result list \<Rightarrow> string option" where
  "best_by metric results = map_option fst
     (first_max (present (\<lambda>r. map_option (\<lambda>v. (sr_strategy_name r, v)) (metric r)) results))"

definition find_best :: "strategy_result list \<Rightarrow> string option \<times> string option" where
  "find_best results = (best_by (\<lambda>r. hz_5d (as_win_rate (sr_stats r))) results,
     best_by (\<lambda>r. hz_5d (as_avg_return (sr_stats r))) results)"

definition sector_entry_json :: "sector_entry \<Rightarrow> json" where
  "sector_entry_json e = JObj [(''sector'', JStr (se_sector e)), (''signal_count'', JInt (int (se_signal_count e))),
     (''buy_count'', JInt (int (se_buy_count e))), (''win_rate_5d'', json_opt JDec (se_win_rate_5d e)),
     (''avg_return_5d'', json_opt JDec (se_avg_return_5d e))]"

definition horizon_json :: "string \<Rightarrow> decimal option by_horizon \<Rightarrow> (string \<times> json) list" where
  "horizon_json prefix h = [(prefix @ ''1d'', json_opt JDec (hz_1d h)), (prefix @ ''3d'', json_opt JDec (hz_3d h)),
     (prefix @ ''5d'', json_opt JDec (hz_5d h)), (prefix @ ''20d'', json_opt JDec (hz_20d h))]"

definition strategy_result_json :: "strategy_result \<Rightarrow> json" where
  "strategy_result_json r = (let s = sr_stats r in JObj ([(''strategy_name'', JStr (sr_strategy_name r)),
     (''strategy_version'', JStr (sr_strategy_version r)), (''signal_count'', JInt (int (as_signal_count s))),
     (''buy_count'', JInt (int (as_buy_count s))), (''pass_count'', JInt (int (as_pass_count s))),
     (''avoid_count'', JInt (int (as_avoid_count s)))] @ horizon_json ''win_rate_'' (as_win_rate s) @
     horizon_json ''avg_return_'' (as_avg_return s) @
     [(''cost_adjusted_avg_return_5d'', json_opt JDec (as_cost_adjusted_avg_return_5d s)),
      (''max_drawdown'', json_opt JDec (as_max_drawdown s)),
      (''regime_breakdown'', JList (map regime_entry_json (sr_regime_breakdown r))),
      (''sector_breakdown'', JList (map sector_entry_json (sr_sector_breakdown r)))]))"

definition store_comparison ::
  "runner_config \<Rightarrow> strategy list \<Rightarrow> int \<Rightarrow> int \<Rightarrow> int option \<Rightarrow> int \<Rightarrow> strategy_result list \<Rightarrow> nat \<Rightarrow> int rdb" where
  "store_comparison cfg strats start_date end_date limit run_date results ref_signals =
     (let (win, ret) = find_best results
      in sbind (backtest_run_create ''MULTI'' ''multi'' run_date (Some start_date) (Some end_date) ''DRY_RUN''
           (JObj [(''mode'', JStr ''multi_strategy_comparison''), (''strategies'', JList (map (\<lambda>s. JStr (sy_name s)) strats)),
             (''with_regime_breakdown'', JBool (mc_with_regime cfg)), (''with_sector_breakdown'', JBool (mc_with_sector cfg)),
             (''limit'', json_opt JInt limit), (''cost_model_version'', JStr cost_model_version),
             (''regime_market'', JStr (mc_regime_market cfg))])) (\<lambda>run_id.
         sbind (mark_backtest_finished run_id (ref_signals, 0, 0, 0) no_horizons no_horizons None
           (JObj [(''mode'', JStr ''multi_strategy_comparison''), (''total_strategies'', JInt (int (length results))),
             (''best_strategy_by_win_rate_5d'', json_opt JStr win), (''best_strategy_by_avg_return_5d'', json_opt JStr ret),
             (''multi_strategy_comparison'', JList (map strategy_result_json results)), (''notes'', JStr buy_only_note)])) (\<lambda>_.
         sret run_id)))"

definition run_comparison ::
  "runner_config \<Rightarrow> strategy list \<Rightarrow> int \<Rightarrow> int \<Rightarrow> bool \<Rightarrow> int option \<Rightarrow> int option \<Rightarrow> comparison rdb" where
  "run_comparison cfg strats start_date end_date dry_run limit run_date =
     sbind (if mc_with_sector cfg \<and> strats \<noteq> [] then fetch_recs_with_sector start_date end_date limit else sret []) (\<lambda>rows.
     sbind (if mc_with_sector cfg \<and> strats \<noteq> [] then fetch_returns_map (map (rc_id \<circ> fst) rows) else sret []) (\<lambda>returns.
     sbind (compare_strategies cfg rows returns start_date end_date limit strats) (\<lambda>results.
     let (win, ret) = find_best results
     in sbind (day_or_today run_date) (\<lambda>day.
        sbind (case results of [] \<Rightarrow> sret None
               | ref # _ \<Rightarrow> if dry_run then sret None
                   else sbind (store_comparison cfg strats start_date end_date limit day results (as_signal_count (sr_stats ref)))
                     (\<lambda>i. sret (Some i))) (\<lambda>run_id.
        sret \<lparr>cs_start_date = start_date, cs_end_date = end_date, cs_run_date = day, cs_dry_run = dry_run,
          cs_backtest_run_id = run_id, cs_total_strategies = length results, cs_results = results,
          cs_best_win_rate = win, cs_best_avg_return = ret\<rparr>)))))"

end
