(* ===== verification/Backtest_Facts.thy ===== *)
theory Backtest_Facts
  imports Backtest_Variants Recommendation_Facts "HOL-Library.Multiset"
begin

text \<open>
  Facts about strategies and backtests: what the combined strategy decides, that a backtest stores
  exactly what it replayed and that its counts add up, when the loop over the folds ends and what
  it yields, and that the comparison of strategies counts the same universe by sector.
\<close>

subsection \<open>Strategies\<close>

definition total_strategy :: "strategy \<Rightarrow> bool" where
  "total_strategy strat \<longleftrightarrow> (\<forall>snap. \<exists>s. sy_evaluate strat snap = Inr s \<and>
     (sg_action s = ''BUY'' \<or> sg_action s = ''PASS'' \<or> sg_action s = ''AVOID''))"

lemma strategy_signal_ok:
  "action \<in> {''BUY'', ''PASS'', ''AVOID''} \<Longrightarrow> strategy_signal action c t e =
     Inr \<lparr>sg_action = action, sg_confidence = clamp_confidence c, sg_reason = t, sg_evidence = e\<rparr>"
  by (auto simp: strategy_signal_def strategy_actions_def)

lemma clamp_confidence_range: "0 \<le> clamp_confidence c" "clamp_confidence c \<le> 1"
  by (auto simp: clamp_confidence_def)

lemma registered_total: "get_strategy name = Inr strat \<Longrightarrow> total_strategy strat"
  by (auto simp: get_strategy_def strategy_registry_def total_strategy_def top_grade_evaluate_def high_score_evaluate_def
      multi_signal_evaluate_def Let_def strategy_signal_ok split: if_splits option.splits)

text \<open>
  The combined strategy returns a signal for every snapshot, with a confidence between 0 and 1.
  It avoids exactly the snapshots whose risk level is HIGH, which carry a disclosure risk or score at
  most 35; it buys exactly the others that score at least 65 with fundamentals of at least 60, news of
  at least 50 and earnings unknown or of at least 50; otherwise it passes.
\<close>

lemma multi_signal_decides:
  "\<exists>s. multi_signal_evaluate snap = Inr s \<and> 0 \<le> sg_confidence s \<and> sg_confidence s \<le> 1 \<and>
     (let high = (\<exists>l. sp_risk_level snap = Some l \<and> py_upper l = ''HIGH'');
          avoid = (high \<or> ''RISK_DISCLOSURE'' \<in> set (sp_risk_flags snap) \<or> (\<exists>v. sp_total_score snap = Some v \<and> v \<le> 35));
          buy = (\<not> avoid \<and> (\<exists>v. sp_total_score snap = Some v \<and> 65 \<le> v) \<and> (\<exists>v. sp_fundamental_score snap = Some v \<and> 60 \<le> v) \<and>
            (\<exists>v. sp_news_score snap = Some v \<and> 50 \<le> v) \<and>
            (sp_earnings_score snap = None \<or> (\<exists>v. sp_earnings_score snap = Some v \<and> 50 \<le> v)))
      in sg_action s = (if avoid then ''AVOID'' else if buy then ''BUY'' else ''PASS''))"
proof -
  have upper_Nil: "py_upper [] \<noteq> ''HIGH''" by (simp add: py_upper_def)
  have at: "at_least x b \<longleftrightarrow> (\<exists>v. x = Some v \<and> b \<le> v)" for x b by (cases x) (auto simp: at_least_def)
  have hi: "py_upper (case sp_risk_level snap of None \<Rightarrow> [] | Some l \<Rightarrow> l) = ''HIGH'' \<longleftrightarrow>
      (\<exists>l. sp_risk_level snap = Some l \<and> py_upper l = ''HIGH'')"
    using upper_Nil by (cases "sp_risk_level snap") auto
  have low: "(case sp_total_score snap of None \<Rightarrow> False | Some v \<Rightarrow> v \<le> 35) \<longleftrightarrow> (\<exists>v. sp_total_score snap = Some v \<and> v \<le> 35)"
    by (cases "sp_total_score snap") auto
  show ?thesis
    unfolding multi_signal_evaluate_def hi low buy_conditions_met_def at has_risk_disclosure_def Let_def
    by (auto simp: strategy_signal_ok clamp_confidence_range)
qed

subsection \<open>A run of the engine\<close>

lemma reading_backtest [reading_intros]:
  "reading (fetch_recommendations a b l)" "reading (fetch_horizon_returns i)" "reading (assign_regime day market)"
  "reading (day_or_today r)" "reading (fetch_recs_with_sector x y l)" "reading (fetch_returns_map ids)"
  by (auto intro!: reading_intros simp: fetch_recommendations_def fetch_horizon_returns_def assign_regime_def day_or_today_def
      fetch_recs_with_sector_def fetch_returns_map_def)

lemma signal_of_total:
  assumes "total_strategy strat"
  obtains s where "signal_of strat snap = sret s" "sy_evaluate strat snap = Inr s"
    "sg_action s = ''BUY'' \<or> sg_action s = ''PASS'' \<or> sg_action s = ''AVOID''"
  using assms unfolding total_strategy_def signal_of_def by (metis sum.simps(6))

lemma reading_signal: "total_strategy strat \<Longrightarrow> reading (signal_of strat snap)"
  using signal_of_total [of strat snap] by (metis reading_ret)

lemma reading_evaluate_row: "total_strategy strat \<Longrightarrow> reading (evaluate_row costs market strat row)"
  by (auto intro!: reading_intros reading_signal simp: evaluate_row_def Let_def split: prod.splits)

text \<open>What a run makes of one stored recommendation.\<close>

definition replay :: "cost_model \<Rightarrow> string \<Rightarrow> strategy \<Rightarrow> research \<Rightarrow>
    recommendation \<times> recommendation_run \<times> data_snapshot option \<Rightarrow> evaluated_row" where
  "replay costs market strat d row = value_in d (evaluate_row costs market strat row)"

lemma evaluate_rows_value:
  assumes "total_strategy strat"
  shows "evaluate_rows costs market strat rows d = (Inr (map (replay costs market strat d) rows), d)"
proof (induction rows)
  case Nil
  show ?case by (simp add: sret_def)
next
  case (Cons row rows)
  have "evaluate_row costs market strat row d = (Inr (replay costs market strat d row), d)"
    unfolding replay_def by (rule reading_value [OF reading_evaluate_row [OF assms]])
  then show ?case using Cons by (simp add: sbind_def sret_def)
qed

lemma replay_fields:
  assumes "total_strategy strat"
  shows "ev_recommendation (replay costs market strat d row) = fst row" "ev_run (replay costs market strat d row) = fst (snd row)"
    "ev_signal_action (replay costs market strat d row) \<in> {''BUY'', ''PASS'', ''AVOID''}"
    "Inr (ev_signal_action (replay costs market strat d row)) =
       map_sum id sg_action (sy_evaluate strat (build_score_snapshot (fst row) (snd (snd row))))"
proof -
  obtain rec run snap where row: "row = (rec, run, snap)" by (cases row) auto
  obtain s where s: "signal_of strat (build_score_snapshot rec snap) = sret s"
    "sy_evaluate strat (build_score_snapshot rec snap) = Inr s"
    "sg_action s = ''BUY'' \<or> sg_action s = ''PASS'' \<or> sg_action s = ''AVOID''"
    using signal_of_total [OF assms, of "build_score_snapshot rec snap"] by blast
  obtain h where h: "fetch_horizon_returns (rc_id rec) d = (Inr h, d)"
    using reading_value [OF reading_backtest(2)] by blast
  obtain g where g: "assign_regime (rn_run_date run) market d = (Inr g, d)"
    using reading_value [OF reading_backtest(3)] by blast
  show "ev_recommendation (replay costs market strat d row) = fst row" "ev_run (replay costs market strat d row) = fst (snd row)"
    "ev_signal_action (replay costs market strat d row) \<in> {''BUY'', ''PASS'', ''AVOID''}"
    "Inr (ev_signal_action (replay costs market strat d row)) =
       map_sum id sg_action (sy_evaluate strat (build_score_snapshot (fst row) (snd (snd row))))"
    using s h g by (simp_all add: replay_def value_in_def evaluate_row_def row sbind_def sret_def Let_def)
qed

definition universe :: "research \<Rightarrow> int option \<Rightarrow> int option \<Rightarrow> int option \<Rightarrow>
    (recommendation \<times> recommendation_run \<times> data_snapshot option) list" where
  "universe d a b limit = limited limit
     (sort_key (\<lambda>(rec, run, _). (- rn_run_date run, - rn_run_id run, rc_rank rec)) (joined_recommendations d a b))"

lemma bulk_insert_value:
  "\<exists>rows'. backtest_bulk_insert rows d = (Inr (), d\<lparr>rs_backtest_results := rs_backtest_results d @ rows'\<rparr>) \<and>
     map (\<lambda>r. r\<lparr>bt_id := 0\<rparr>) rows' = map (\<lambda>r. r\<lparr>bt_id := 0\<rparr>) rows"
proof (induction rows arbitrary: d)
  case Nil
  show ?case by (intro exI [of _ "[]"]) (simp add: sret_def)
next
  case (Cons r rows)
  let ?i = "t_next bt_id (rs_backtest_results d)"
  let ?d = "d\<lparr>rs_backtest_results := rs_backtest_results d @ [r\<lparr>bt_id := ?i\<rparr>]\<rparr>"
  obtain rows' where "backtest_bulk_insert rows ?d = (Inr (), ?d\<lparr>rs_backtest_results := rs_backtest_results ?d @ rows'\<rparr>)"
    "map (\<lambda>r. r\<lparr>bt_id := 0\<rparr>) rows' = map (\<lambda>r. r\<lparr>bt_id := 0\<rparr>) rows" using Cons [of ?d] by blast
  then show ?case
    by (intro exI [of _ "r\<lparr>bt_id := ?i\<rparr> # rows'"]) (simp add: sbind_def backtest_result_create_def Let_def)
qed

text \<open>The row a finished run leaves behind.\<close>

definition run_row_ok :: "backtest_run \<Rightarrow> aggregate_stats \<Rightarrow> bool" where
  "run_row_ok r stats \<longleftrightarrow> bq_status r = ''SUCCESS'' \<and> bq_signal_count r = as_signal_count stats \<and>
     bq_buy_count r = as_buy_count stats \<and> bq_pass_count r = as_pass_count stats \<and> bq_avoid_count r = as_avoid_count stats \<and>
     bq_win_rate r = as_win_rate stats \<and> bq_avg_return r = as_avg_return stats \<and> bq_max_drawdown r = as_max_drawdown stats"

lemma t_upd_append_new:
  assumes "\<And>r. r \<in> set rows \<Longrightarrow> key r \<noteq> i"
  shows "t_upd key i f (rows @ [x]) = rows @ [if key x = i then f x else x]"
  using assms by (simp add: t_upd_def map_idI)

lemma t_next_fresh: "r \<in> set rows \<Longrightarrow> key r \<noteq> t_next key rows"
  by (metis less_irrefl t_next_gt)


lemma store_backtest_value:
  "\<exists>r rows. store_backtest costs market strat a b limit day ev d =
      (Inr (bq_id r), d\<lparr>rs_backtest_runs := rs_backtest_runs d @ [r], rs_backtest_results := rs_backtest_results d @ rows\<rparr>) \<and>
     run_row_ok r (aggregate ev) \<and> bq_strategy_name r = sy_name strat \<and>
     map (\<lambda>x. x\<lparr>bt_id := 0\<rparr>) rows = map (result_record (bq_id r)) ev"
proof -
  let ?i = "t_next bq_id (rs_backtest_runs d)"
  obtain r0 where r0: "backtest_run_create (sy_name strat) (sy_version strat) day a b ''DRY_RUN''
           (JObj [(''limit'', json_opt JInt limit), (''horizons'', JList (map JInt backtest_horizons)),
             (''cost_model_version'', JStr cost_model_version), (''regime_market'', JStr market)]) d =
       (Inr ?i, d\<lparr>rs_backtest_runs := rs_backtest_runs d @ [r0]\<rparr>)" "bq_id r0 = ?i" "bq_strategy_name r0 = sy_name strat"
    by (simp add: backtest_run_create_def Let_def)
  let ?d = "d\<lparr>rs_backtest_runs := rs_backtest_runs d @ [r0]\<rparr>"
  obtain rows where rows: "backtest_bulk_insert (map (result_record ?i) ev) ?d =
      (Inr (), ?d\<lparr>rs_backtest_results := rs_backtest_results ?d @ rows\<rparr>)"
    "map (\<lambda>r. r\<lparr>bt_id := 0\<rparr>) rows = map (\<lambda>r. r\<lparr>bt_id := 0\<rparr>) (map (result_record ?i) ev)"
    using bulk_insert_value by blast
  have "map (\<lambda>r. r\<lparr>bt_id := 0\<rparr>) (map (result_record ?i) ev) = map (result_record ?i) ev"
    by (simp add: result_record_def)
  note rows = rows(1) rows(2) [unfolded this]
  have upd: "t_upd bq_id ?i f (rs_backtest_runs d @ [r0]) = rs_backtest_runs d @ [f r0]" for f
    by (subst t_upd_append_new) (auto simp: r0(2) dest: t_next_fresh)
  define summary where "summary = JObj [(''missing_result_count_per_horizon'', missing_json (as_missing (aggregate ev))),
     (''cost_model_version'', JStr cost_model_version), (''total_cost'', JDec (total_cost costs)),
     (''cost_adjusted_avg_return_5d'', json_opt JDec (as_cost_adjusted_avg_return_5d (aggregate ev))),
     (''regime_breakdown'', JList (map regime_entry_json (build_regime_breakdown ev))), (''notes'', JStr buy_only_note)]"
  define r where "r = r0\<lparr>bq_signal_count := as_signal_count (aggregate ev), bq_buy_count := as_buy_count (aggregate ev),
     bq_avoid_count := as_avoid_count (aggregate ev), bq_pass_count := as_pass_count (aggregate ev),
     bq_win_rate := as_win_rate (aggregate ev), bq_avg_return := as_avg_return (aggregate ev),
     bq_max_drawdown := as_max_drawdown (aggregate ev), bq_summary := summary, bq_status := ''SUCCESS'', bq_error_message := None\<rparr>"
  let ?d2 = "?d\<lparr>rs_backtest_results := rs_backtest_results ?d @ rows\<rparr>"
  have mark: "mark_backtest_finished ?i (as_signal_count (aggregate ev), as_buy_count (aggregate ev), as_avoid_count (aggregate ev),
        as_pass_count (aggregate ev)) (as_win_rate (aggregate ev)) (as_avg_return (aggregate ev)) (as_max_drawdown (aggregate ev))
      summary ?d2 = (Inr (), d\<lparr>rs_backtest_runs := rs_backtest_runs d @ [r], rs_backtest_results := rs_backtest_results d @ rows\<rparr>)"
    by (simp add: mark_backtest_finished_def smodify_def upd r_def)
  have "store_backtest costs market strat a b limit day ev d =
      (Inr ?i, d\<lparr>rs_backtest_runs := rs_backtest_runs d @ [r], rs_backtest_results := rs_backtest_results d @ rows\<rparr>)"
    unfolding store_backtest_def Let_def summary_def [symmetric]
    by (simp only: sbind_def r0(1) rows(1) mark prod.case sum.case sret_def)
  moreover have "run_row_ok r (aggregate ev)" "bq_strategy_name r = sy_name strat" "bq_id r = ?i"
    by (simp_all add: run_row_ok_def r_def r0)
  ultimately show ?thesis
    using rows(2) by (intro exI [of _ r] exI [of _ rows]) (simp add: result_record_def)
qed


subsection \<open>Counting\<close>

lemma action_counts:
  assumes "\<And>r. r \<in> set rows \<Longrightarrow> ev_signal_action r \<in> {''BUY'', ''PASS'', ''AVOID''}"
  shows "as_buy_count (aggregate rows) + as_pass_count (aggregate rows) + as_avoid_count (aggregate rows) = length rows"
    "as_signal_count (aggregate rows) = length rows"
proof -
  have "length (with_action ''BUY'' rows) + length (with_action ''PASS'' rows) + length (with_action ''AVOID'' rows) = length rows"
    using assms
  proof (induction rows)
    case Nil
    show ?case by (simp add: with_action_def)
  next
    case (Cons r rows)
    from Cons.IH Cons.prems have "length (with_action ''BUY'' rows) + length (with_action ''PASS'' rows) +
        length (with_action ''AVOID'' rows) = length rows" by simp
    moreover from Cons.prems [of r] have "ev_signal_action r \<in> {''BUY'', ''PASS'', ''AVOID''}" by simp
    ultimately show ?case by (auto simp: with_action_def)
  qed
  then show "as_buy_count (aggregate rows) + as_pass_count (aggregate rows) + as_avoid_count (aggregate rows) = length rows"
    "as_signal_count (aggregate rows) = length rows" by (simp_all add: aggregate_def Let_def)
qed

lemma win_rate4_range: "win_rate4 vs = Some w \<Longrightarrow> 0 \<le> w \<and> w \<le> 1"
proof -
  assume w: "win_rate4 vs = Some w"
  let ?q = "of_nat (length (filter (\<lambda>v. 0 < v) vs)) / of_nat (length vs) :: rat"
  from w have ne: "vs \<noteq> []" by (auto simp: win_rate4_def split: if_splits)
  have q: "0 \<le> ?q" "?q \<le> 1" using ne length_filter_le [of "\<lambda>v. 0 < v" vs] by (auto simp: divide_le_eq)
  have "dec_round ?q \<le> dec_round 1" using q(2) by (rule dec_round_mono)
  also have "dec_round 1 = 1" using dec_rep_of_int [of 1] by (simp add: dec_round_exact flip: dec_rep_def)
  finally have "0 \<le> ddiv (of_nat (length (filter (\<lambda>v. 0 < v) vs))) (of_nat (length vs))"
    "ddiv (of_nat (length (filter (\<lambda>v. 0 < v) vs))) (of_nat (length vs)) \<le> 1"
    using dec_round_nonneg [OF q(1)] by (simp_all add: ddiv_def)
  then show ?thesis
    using w quant_even_bounds [of 0 _ 1 4] by (auto simp: win_rate4_def split: if_splits)
qed

lemma dict_put_keys: "set (map fst (dict_put d (k, v))) = insert k (set (map fst d))"
  by (induction d "(k, v)" rule: dict_put.induct) auto

lemma dict_put_distinct: "distinct (map fst d) \<Longrightarrow> distinct (map fst (dict_put d (k, v)))"
proof (induction d "(k, v)" rule: dict_put.induct)
  case (2 k' v' d)
  then show ?case using dict_put_keys [of d k v] by auto
qed simp

lemma dict_put_append:
  "mset (concat (map snd (dict_put d (k, (case map_of d k of None \<Rightarrow> [] | Some l \<Rightarrow> l) @ [x])))) =
     add_mset x (mset (concat (map snd d)))"
  by (induction d) auto

definition grouped :: "('r \<Rightarrow> string) \<Rightarrow> (string \<times> 'r list) list \<Rightarrow> bool" where
  "grouped key m \<longleftrightarrow> distinct (map fst m) \<and> (\<forall>(k, l) \<in> set m. l \<noteq> [] \<and> (\<forall>x \<in> set l. key x = k))"

lemma grouped_get: "grouped key m \<Longrightarrow> map_of m k = Some l \<Longrightarrow> \<forall>x \<in> set l. key x = k"
  by (auto simp: grouped_def dest: map_of_SomeD)

lemma dict_put_set: "set (dict_put d (k, v)) \<subseteq> insert (k, v) (set d)"
  by (induction d "(k, v)" rule: dict_put.induct) auto

lemma group_rows_ok: "grouped key (group_rows key rows) \<and> mset (concat (map snd (group_rows key rows))) = mset rows"
proof (induction rows rule: rev_induct)
  case Nil
  show ?case by (simp add: group_rows_def grouped_def)
next
  case (snoc r rows)
  let ?m = "group_rows key rows" and ?l = "(case map_of (group_rows key rows) (key r) of None \<Rightarrow> [] | Some l \<Rightarrow> l) @ [r]"
  have step: "group_rows key (rows @ [r]) = dict_put ?m (key r, ?l)" by (simp add: group_rows_def)
  have "\<forall>x \<in> set ?l. key x = key r" using snoc grouped_get [of key ?m "key r"]
    by (cases "map_of ?m (key r)") auto
  then have "grouped key (dict_put ?m (key r, ?l))"
    using snoc dict_put_distinct [of ?m "key r" ?l] subsetD [OF dict_put_set [of ?m "key r" ?l]]
    unfolding grouped_def by blast
  then show ?case using snoc dict_put_append [of ?m "key r" r] by (simp add: step)
qed

lemma sum_concat: "(\<Sum>x \<leftarrow> concat (map snd m). g x) = (\<Sum>p \<leftarrow> m. \<Sum>x \<leftarrow> snd p. (g x :: nat))"
  by (induction m) auto

lemma sum_by_group:
  assumes "\<And>p. f p = (\<Sum>x \<leftarrow> snd p. g x)"
  shows "(\<Sum>p \<leftarrow> group_rows key rows. f p) = ((\<Sum>x \<leftarrow> rows. g x) :: nat)"
proof -
  have "(\<Sum>p \<leftarrow> group_rows key rows. f p) = (\<Sum>x \<leftarrow> concat (map snd (group_rows key rows)). g x)"
    using assms by (simp add: sum_concat)
  also have "\<dots> = sum_mset (image_mset g (mset (concat (map snd (group_rows key rows)))))"
    by (metis mset_map sum_mset_sum_list)
  also have "\<dots> = (\<Sum>x \<leftarrow> rows. g x)"
    using group_rows_ok [of key rows] by (metis mset_map sum_mset_sum_list)
  finally show ?thesis .
qed


lemma regime_buys: "(\<Sum>e \<leftarrow> build_regime_breakdown rows. rb_buy_count e) = as_buy_count (aggregate rows)"
proof -
  let ?es = "map regime_entry_of (group_rows (\<lambda>r. display_bucket (ev_regime r)) (with_action ''BUY'' rows))"
  have "(\<Sum>e \<leftarrow> build_regime_breakdown rows. rb_buy_count e) = (\<Sum>e \<leftarrow> ?es. rb_buy_count e)"
    unfolding build_regime_breakdown_def by (simp add: multiset.map_comp comp_def flip: sum_mset_sum_list)
  also have "\<dots> = (\<Sum>p \<leftarrow> group_rows (\<lambda>r. display_bucket (ev_regime r)) (with_action ''BUY'' rows). rb_buy_count (regime_entry_of p))"
    by (simp add: comp_def)
  also have "\<dots> = (\<Sum>x \<leftarrow> with_action ''BUY'' rows. 1)"
    by (rule sum_by_group) (simp add: regime_entry_of_def sum_list_triv split: prod.splits)
  finally show ?thesis by (simp add: aggregate_def Let_def sum_list_triv)
qed

lemma regime_distinct: "distinct (map rb_regime (build_regime_breakdown rows))"
proof -
  have "rb_regime \<circ> regime_entry_of = fst" by (auto simp: regime_entry_of_def)
  then have "distinct (map rb_regime (map regime_entry_of (group_rows (\<lambda>r. display_bucket (ev_regime r)) (with_action ''BUY'' rows))))"
    using group_rows_ok [of "\<lambda>r. display_bucket (ev_regime r)" "with_action ''BUY'' rows"] by (simp add: grouped_def)
  then show ?thesis unfolding build_regime_breakdown_def by (simp only: distinct_map set_sort distinct_sort)
qed

definition replayed :: "cost_model \<Rightarrow> string \<Rightarrow> strategy \<Rightarrow> int option \<Rightarrow> int option \<Rightarrow> int option \<Rightarrow> research \<Rightarrow> evaluated_row list" where
  "replayed costs market strat a b limit d = map (replay costs market strat d) (universe d a b limit)"

lemma run_backtest_value:
  assumes "total_strategy strat"
  shows "\<exists>res d'. run_backtest costs market strat a b dry limit rd d = (Inr res, d') \<and>
     bs_stats res = aggregate (replayed costs market strat a b limit d) \<and>
     bs_regime_breakdown res = build_regime_breakdown (replayed costs market strat a b limit d) \<and>
     bs_evaluated_count res = length (replayed costs market strat a b limit d) \<and> bs_strategy_name res = sy_name strat \<and>
     bs_strategy_version res = sy_version strat \<and>
     (if dry then d' = d \<and> bs_backtest_run_id res = None
      else \<exists>r rows. d' = d\<lparr>rs_backtest_runs := rs_backtest_runs d @ [r], rs_backtest_results := rs_backtest_results d @ rows\<rparr> \<and>
        bs_backtest_run_id res = Some (bq_id r) \<and> run_row_ok r (bs_stats res) \<and> bq_strategy_name r = sy_name strat \<and>
        map (\<lambda>x. x\<lparr>bt_id := 0\<rparr>) rows = map (result_record (bq_id r)) (replayed costs market strat a b limit d))"
proof -
  let ?ev = "replayed costs market strat a b limit d"
  have f: "fetch_recommendations a b limit d = (Inr (universe d a b limit), d)"
    by (simp add: fetch_recommendations_def universe_def sgets_def)
  have e: "evaluate_rows costs market strat (universe d a b limit) d = (Inr ?ev, d)"
    unfolding replayed_def by (rule evaluate_rows_value [OF assms])
  obtain day where day: "day_or_today rd d = (Inr day, d)" using reading_value [OF reading_backtest(4)] by blast
  obtain r rows where st: "store_backtest costs market strat a b limit day ?ev d =
      (Inr (bq_id r), d\<lparr>rs_backtest_runs := rs_backtest_runs d @ [r], rs_backtest_results := rs_backtest_results d @ rows\<rparr>)"
     "run_row_ok r (aggregate ?ev)" "bq_strategy_name r = sy_name strat"
     "map (\<lambda>x. x\<lparr>bt_id := 0\<rparr>) rows = map (result_record (bq_id r)) ?ev"
    using store_backtest_value by metis
  show ?thesis
  proof (cases dry)
    case True
    then show ?thesis by (simp add: run_backtest_def sbind_def f e day sret_def)
  next
    case False
    then have "\<exists>res. run_backtest costs market strat a b dry limit rd d =
        (Inr res, d\<lparr>rs_backtest_runs := rs_backtest_runs d @ [r], rs_backtest_results := rs_backtest_results d @ rows\<rparr>) \<and>
        bs_stats res = aggregate ?ev \<and> bs_regime_breakdown res = build_regime_breakdown ?ev \<and> bs_evaluated_count res = length ?ev \<and>
        bs_strategy_name res = sy_name strat \<and> bs_strategy_version res = sy_version strat \<and> bs_backtest_run_id res = Some (bq_id r)"
      by (simp add: run_backtest_def sbind_def f e day st(1) sret_def)
    then show ?thesis using False st(2-4) by fastforce
  qed
qed

lemma replayed_actions:
  assumes "total_strategy strat"
  shows "r \<in> set (replayed costs market strat a b limit d) \<Longrightarrow> ev_signal_action r \<in> {''BUY'', ''PASS'', ''AVOID''}"
proof -
  assume "r \<in> set (replayed costs market strat a b limit d)"
  then obtain row where "r = replay costs market strat d row" by (auto simp: replayed_def)
  then show ?thesis by (simp only: replay_fields(3) [OF assms])
qed

definition share_or_none :: "decimal option \<Rightarrow> bool" where
  "share_or_none x = (case x of None \<Rightarrow> True | Some w \<Rightarrow> 0 \<le> w \<and> w \<le> 1)"

lemma share_win_rate4 [simp]: "share_or_none (win_rate4 vs)"
  using win_rate4_range [of vs] by (cases "win_rate4 vs") (auto simp: share_or_none_def)

definition rates_are_shares :: "decimal option by_horizon \<Rightarrow> bool" where
  "rates_are_shares h \<longleftrightarrow> share_or_none (hz_1d h) \<and> share_or_none (hz_3d h) \<and> share_or_none (hz_5d h) \<and> share_or_none (hz_20d h)"

lemma aggregate_rates: "rates_are_shares (as_win_rate (aggregate rows))"
  by (simp add: aggregate_def Let_def for_horizons_def rates_are_shares_def)

lemma stored_actions:
  assumes "map (\<lambda>x. x\<lparr>bt_id := 0\<rparr>) rows = map (result_record i) ev"
  shows "length rows = length ev" "map bt_signal_action rows = map ev_signal_action ev"
    "map bt_recommendation_id rows = map (\<lambda>e. Some (rc_id (ev_recommendation e))) ev" "map bt_run_id rows = map (\<lambda>e. i) ev"
proof -
  show "length rows = length ev" using arg_cong [OF assms, of length] by simp
  have f: "map (g \<circ> (\<lambda>x. x\<lparr>bt_id := 0\<rparr>)) rows = map (g \<circ> result_record i) ev" for g :: "backtest_result \<Rightarrow> 'v"
    using arg_cong [OF assms, of "map g"] by simp
  show "map bt_signal_action rows = map ev_signal_action ev"
    "map bt_recommendation_id rows = map (\<lambda>e. Some (rc_id (ev_recommendation e))) ev" "map bt_run_id rows = map (\<lambda>e. i) ev"
    using f [of bt_signal_action] f [of bt_recommendation_id] f [of bt_run_id] by (simp_all add: comp_def result_record_def)
qed

lemma count_in_map: "length (filter (\<lambda>x. f x = a) xs) = length (filter ((=) a) (map f xs))"
  by (induction xs) auto


definition demo_backtest :: research where
  "demo_backtest = demo_research\<lparr>
     rs_runs := [\<lparr>rn_run_id = 1, rn_run_date = 10, rn_started_at = 0, rn_finished_at = None, rn_market_summary = JNull,
       rn_status = ''SUCCESS'', rn_telegram_sent = False\<rparr>],
     rs_recommendations := [\<lparr>rc_id = 4, rc_run_id = 1, rc_rank = 1, rc_market = ''KOSPI'', rc_symbol = ''005930'',
       rc_name = ''Samsung'', rc_grade = Some ''S'', rc_total_score = Some 90, rc_technical_score = None, rc_news_score = None,
       rc_supply_score = None, rc_fundamental_score = None, rc_ai_score = None, rc_risk_score = None,
       rc_reason = WatchCandidate None None None, rc_risk_note = [], rc_snapshot_id = None\<rparr>],
     rs_results := [\<lparr>rr_id = 9, rr_recommendation_id = 4, rr_days_after = 5, rr_result_date = 15, rr_open_return = None,
       rr_high_return = None, rr_low_return = None, rr_close_return = Some 2, rr_max_return = None, rr_max_drawdown = None,
       rr_result_status = Some ''SUCCESS''\<rparr>]\<rparr>"

definition demo_strategy :: strategy where
  "demo_strategy = \<lparr>sy_name = ''TopGradeStrategy'', sy_version = ''v1.0.0'', sy_evaluate = top_grade_evaluate\<rparr>"

lemma demo_strategy_registered: "get_strategy ''top_grade'' = Inr demo_strategy"
  by (simp add: get_strategy_def strategy_registry_def demo_strategy_def)

lemma demo_universe: "length (universe demo_backtest None None None) = 1"
  by code_simp


subsection \<open>Folds\<close>

text \<open>The folds of a walk-forward run, starting from a cursor: as many as fit.\<close>

definition fold_sequence :: "int \<Rightarrow> int \<Rightarrow> int \<Rightarrow> nat \<Rightarrow> int \<Rightarrow> nat \<Rightarrow> fold list" where
  "fold_sequence train validate gap index cursor n =
     map (\<lambda>i. fold_at train validate gap (index + i) (cursor + int i * validate)) [0..<n]"

lemma fold_at_end: "fd_validate_end (fold_at train validate gap i c) = c + train + gap + validate - 1"
  by (simp add: fold_at_def Let_def)

lemma fold_sequence_Suc: "fold_sequence train validate gap index cursor (Suc n) =
    fold_at train validate gap index cursor # fold_sequence train validate gap (index + 1) (cursor + validate) n"
  by (simp add: fold_sequence_def map_upt_Suc algebra_simps del: upt_Suc)

lemma fold_loop_fits:
  assumes "0 < validate"
  shows "\<exists>n. fold_loop end_date train validate gap index cursor = Some (fold_sequence train validate gap index cursor n) \<and>
     (\<forall>i < n. cursor + int i * validate + train + gap + validate - 1 \<le> end_date) \<and>
     end_date < cursor + int n * validate + train + gap + validate - 1"
proof (induction "nat (end_date - cursor - train - gap + 1)" arbitrary: index cursor rule: less_induct)
  case less
  show ?case
  proof (cases "end_date < fd_validate_end (fold_at train validate gap index cursor)")
    case True
    then show ?thesis
      by (intro exI [of _ 0]) (simp add: fold_loop.simps [of end_date] Let_def fold_at_end fold_sequence_def)
  next
    case False
    then have fits: "cursor + train + gap + validate - 1 \<le> end_date" by (simp add: fold_at_end)
    with assms have "nat (end_date - (cursor + validate) - train - gap + 1) < nat (end_date - cursor - train - gap + 1)" by simp
    from less [OF this, of "index + 1"] obtain n where
      n: "fold_loop end_date train validate gap (index + 1) (cursor + validate) =
           Some (fold_sequence train validate gap (index + 1) (cursor + validate) n)"
        "\<forall>i < n. cursor + validate + int i * validate + train + gap + validate - 1 \<le> end_date"
        "end_date < cursor + validate + int n * validate + train + gap + validate - 1" by auto
    have "\<forall>i < Suc n. cursor + int i * validate + train + gap + validate - 1 \<le> end_date"
    proof (intro allI impI)
      fix i assume "i < Suc n"
      then show "cursor + int i * validate + train + gap + validate - 1 \<le> end_date"
        using fits n(2) by (cases i) (auto simp: algebra_simps)
    qed
    with False n(1,3) show ?thesis
      by (intro exI [of _ "Suc n"])
         (simp add: fold_loop.simps [of end_date train validate gap index] Let_def fold_sequence_Suc algebra_simps)
  qed
qed

lemma fold_loop_stuck:
  assumes "cursor + train + gap - 1 \<le> end_date"
  shows "fold_loop end_date train 0 gap index cursor = None"
proof -
  have "fold_loop end_date train 0 gap index cursor = Some folds \<longrightarrow> False" for folds index
  proof (induction folds arbitrary: index)
    case Nil
    show ?case using assms
      by (subst fold_loop.simps) (auto simp: Let_def fold_at_end bind_eq_Some_conv)
  next
    case (Cons f folds)
    show ?case using assms Cons
      by (subst fold_loop.simps) (auto simp: Let_def fold_at_end bind_eq_Some_conv)
  qed
  then show ?thesis by (cases "fold_loop end_date train 0 gap index cursor") auto
qed

text \<open>
  C31. For a positive validation window the loop over the folds ends. It yields as many folds as fit
  into the period; fold \<open>i\<close> trains on the window that starts \<open>i\<close> validation windows after the start
  date and validates on a window of the given length after it, so no day is validated before it
  could have been trained on, and consecutive validation windows abut without overlap.
\<close>

theorem folds_slide:
  assumes "0 < validate" and "0 < train" and "0 \<le> gap"
  shows "\<exists>folds. generate_folds start_date end_date train validate gap = Some folds \<and>
     (\<forall>i < length folds. let f = folds ! i in fd_index f = i \<and> fd_train_start f = start_date + int i * validate \<and>
        fd_train_end f - fd_train_start f + 1 = train \<and> fd_validate_start f = fd_train_end f + gap + 1 \<and>
        fd_validate_end f - fd_validate_start f + 1 = validate \<and> fd_validate_end f \<le> end_date) \<and>
     (\<forall>i < length folds - 1. fd_validate_start (folds ! (i + 1)) = fd_validate_end (folds ! i) + 1) \<and>
     length folds = nat ((end_date - start_date - train - gap + 1) div validate)"
proof -
  obtain n where n: "fold_loop end_date train validate gap 0 start_date = Some (fold_sequence train validate gap 0 start_date n)"
      "\<forall>i < n. start_date + int i * validate + train + gap + validate - 1 \<le> end_date"
      "end_date < start_date + int n * validate + train + gap + validate - 1"
    using fold_loop_fits [OF assms(1)] by metis
  let ?fs = "fold_sequence train validate gap 0 start_date n" and ?q = "end_date - start_date - train - gap + 1"
  have nth: "?fs ! i = fold_at train validate gap i (start_date + int i * validate)" if "i < n" for i
    using that by (simp add: fold_sequence_def)
  have len: "length ?fs = n" by (simp add: fold_sequence_def)
  have "n = nat (?q div validate)"
  proof (cases n)
    case 0
    then have "?q < validate" using n(3) by simp
    then have "?q div validate \<le> 0" using assms(1) by (metis div_pos_pos_trivial div_neg_pos_less0 le_less linorder_not_less)
    then show ?thesis using 0 by simp
  next
    case (Suc m)
    have "int n * validate \<le> ?q" using n(2) Suc by (auto simp: algebra_simps)
    moreover have "?q < int n * validate + validate" using n(3) by simp
    ultimately have "?q div validate = int n"
      using assms(1) by (intro int_div_pos_eq [of _ _ _ "?q - validate * int n"]) (auto simp: algebra_simps)
    then show ?thesis by simp
  qed
  with n(1,2) nth len show ?thesis
    by (intro exI [of _ ?fs])
       (auto simp: generate_folds_def Let_def fold_at_def algebra_simps)
qed

theorem folds_slide_witness:
  "\<exists>folds. generate_folds 0 120 60 20 0 = Some folds \<and> length folds = 3"
  using folds_slide [of 20 60 0 0 120] by auto

text \<open>With a validation window of zero days the loop never ends as soon as one fold fits.\<close>

lemma empty_window_hangs:
  assumes "start_date + train + gap - 1 \<le> end_date"
  shows "generate_folds start_date end_date train 0 gap = None"
    "run_walk_forward \<lparr>wf_costs = costs, wf_regime_market = market, wf_train_window = train, wf_validate_window = 0,
       wf_gap_days = gap\<rparr> strat start_date end_date dry_run run_date d = None"
  using fold_loop_stuck [OF assms] by (simp_all add: generate_folds_def run_walk_forward_def)

subsection \<open>Walk-forward runs\<close>

lemma run_fold_value:
  assumes "total_strategy strat"
  shows "\<exists>r. run_fold cfg strat f d = (Inr r, d) \<and> fr_fold r = f \<and>
     bs_stats (fr_oos_metrics r) = aggregate (replayed (wf_costs cfg) (wf_regime_market cfg) strat
       (Some (fd_validate_start f)) (Some (fd_validate_end f)) None d)"
proof -
  let ?run = "\<lambda>a b. run_backtest (wf_costs cfg) (wf_regime_market cfg) strat (Some a) (Some b) True None None d"
  obtain i where i: "?run (fd_train_start f) (fd_train_end f) = (Inr i, d)"
    using run_backtest_value [OF assms, of _ _ _ _ True] by fastforce
  obtain oos where oos: "?run (fd_validate_start f) (fd_validate_end f) = (Inr oos, d)"
    "bs_stats oos = aggregate (replayed (wf_costs cfg) (wf_regime_market cfg) strat
       (Some (fd_validate_start f)) (Some (fd_validate_end f)) None d)"
    using run_backtest_value [OF assms, of _ _ _ _ True] by fastforce
  show ?thesis by (simp add: run_fold_def sbind_def i oos sret_def)
qed

lemma run_folds_value:
  assumes "total_strategy strat"
  shows "\<exists>rs. run_folds cfg strat fs d = (Inr rs, d) \<and> map fr_fold rs = fs \<and>
     map (\<lambda>r. bs_stats (fr_oos_metrics r)) rs = map (\<lambda>f. aggregate (replayed (wf_costs cfg) (wf_regime_market cfg) strat
       (Some (fd_validate_start f)) (Some (fd_validate_end f)) None d)) fs"
proof (induction fs)
  case Nil
  show ?case by (simp add: sret_def)
next
  case (Cons f fs)
  obtain rs where rs: "run_folds cfg strat fs d = (Inr rs, d)" "map fr_fold rs = fs"
    "map (\<lambda>r. bs_stats (fr_oos_metrics r)) rs = map (\<lambda>f. aggregate (replayed (wf_costs cfg) (wf_regime_market cfg) strat
       (Some (fd_validate_start f)) (Some (fd_validate_end f)) None d)) fs" using Cons by blast
  obtain r where "run_fold cfg strat f d = (Inr r, d)" "fr_fold r = f"
    "bs_stats (fr_oos_metrics r) = aggregate (replayed (wf_costs cfg) (wf_regime_market cfg) strat
       (Some (fd_validate_start f)) (Some (fd_validate_end f)) None d)" using run_fold_value [OF assms] by blast
  with rs show ?case by (simp add: sbind_def sret_def)
qed

lemma create_then_finish:
  "\<exists>r. sbind (backtest_run_create n v day a b ''DRY_RUN'' config) (\<lambda>i.
       sbind (mark_backtest_finished i (s, bu, av, pa) win ret dd summary) (\<lambda>_. sret i)) d =
     (Inr (bq_id r), d\<lparr>rs_backtest_runs := rs_backtest_runs d @ [r]\<rparr>) \<and> bq_strategy_name r = n \<and>
     bq_status r = ''SUCCESS'' \<and> bq_signal_count r = s \<and> bq_buy_count r = bu \<and> bq_avoid_count r = av \<and> bq_pass_count r = pa \<and>
     bq_win_rate r = win \<and> bq_avg_return r = ret"
proof -
  let ?i = "t_next bq_id (rs_backtest_runs d)"
  have upd: "t_upd bq_id ?i f (rs_backtest_runs d @ [x]) = rs_backtest_runs d @ [f x]" if "bq_id x = ?i" for f x
    using that by (subst t_upd_append_new) (auto dest: t_next_fresh)
  obtain r0 where r0: "backtest_run_create n v day a b ''DRY_RUN'' config d =
       (Inr ?i, d\<lparr>rs_backtest_runs := rs_backtest_runs d @ [r0]\<rparr>)" "bq_id r0 = ?i" "bq_strategy_name r0 = n"
    by (simp add: backtest_run_create_def Let_def)
  show ?thesis
    by (intro exI [of _ "r0\<lparr>bq_signal_count := s, bq_buy_count := bu, bq_avoid_count := av, bq_pass_count := pa,
          bq_win_rate := win, bq_avg_return := ret, bq_max_drawdown := dd, bq_summary := summary, bq_status := ''SUCCESS'',
          bq_error_message := None\<rparr>"])
       (simp add: sbind_def r0 mark_backtest_finished_def smodify_def sret_def upd)
qed

text \<open>
  C32. Walk-forward validation of a registered strategy with a positive validation window returns. A
  dry run changes nothing; otherwise exactly one run is added and no results, and its counts are the
  sums over the folds of what a backtest of the validation windows counts, training windows excluded.
\<close>

theorem walk_forward_adds_one_run:
  assumes "get_strategy name = Inr strat" and "0 < wf_validate_window cfg"
  shows "\<exists>folds res d'. run_walk_forward cfg strat start_date end_date dry rd d = Some (Inr res, d') \<and>
     generate_folds start_date end_date (wf_train_window cfg) (wf_validate_window cfg) (wf_gap_days cfg) = Some folds \<and>
     map fr_fold (ws_fold_results res) = folds \<and> ws_total_folds res = length folds \<and>
     (let oos = map (\<lambda>f. aggregate (replayed (wf_costs cfg) (wf_regime_market cfg) strat (Some (fd_validate_start f))
                (Some (fd_validate_end f)) None d)) folds
      in if dry then d' = d
         else \<exists>r. d' = d\<lparr>rs_backtest_runs := rs_backtest_runs d @ [r]\<rparr> \<and> ws_backtest_run_id res = Some (bq_id r) \<and>
           bq_status r = ''SUCCESS'' \<and> bq_signal_count r = sum_list (map as_signal_count oos) \<and>
           bq_buy_count r = sum_list (map as_buy_count oos) \<and> bq_pass_count r = sum_list (map as_pass_count oos) \<and>
           bq_avoid_count r = sum_list (map as_avoid_count oos))"
proof -
  from assms(1) have tot: "total_strategy strat" by (rule registered_total)
  obtain folds where folds: "generate_folds start_date end_date (wf_train_window cfg) (wf_validate_window cfg) (wf_gap_days cfg) = Some folds"
    using fold_loop_fits [OF assms(2)] unfolding generate_folds_def by metis
  let ?oos = "map (\<lambda>f. aggregate (replayed (wf_costs cfg) (wf_regime_market cfg) strat (Some (fd_validate_start f))
                (Some (fd_validate_end f)) None d)) folds"
  obtain rs where rs: "run_folds cfg strat folds d = (Inr rs, d)" "map fr_fold rs = folds"
    "map (\<lambda>r. bs_stats (fr_oos_metrics r)) rs = ?oos" using run_folds_value [OF tot] by blast
  obtain day where day: "day_or_today rd d = (Inr day, d)" using reading_value [OF reading_backtest(4)] by blast
  obtain win ret where w: "avg_oos_metrics rs = (win, ret)" by fastforce
  have "\<exists>r. store_walk_forward cfg strat start_date end_date day rs d =
      (Inr (bq_id r), d\<lparr>rs_backtest_runs := rs_backtest_runs d @ [r]\<rparr>) \<and> bq_strategy_name r = sy_name strat \<and>
      bq_status r = ''SUCCESS'' \<and> bq_signal_count r = sum_oos as_signal_count rs \<and> bq_buy_count r = sum_oos as_buy_count rs \<and>
      bq_avoid_count r = sum_oos as_avoid_count rs \<and> bq_pass_count r = sum_oos as_pass_count rs \<and>
      bq_win_rate r = only_5d win \<and> bq_avg_return r = only_5d ret"
    unfolding store_walk_forward_def w Let_def prod.case by (rule create_then_finish)
  then obtain r where st: "store_walk_forward cfg strat start_date end_date day rs d =
      (Inr (bq_id r), d\<lparr>rs_backtest_runs := rs_backtest_runs d @ [r]\<rparr>)" "bq_status r = ''SUCCESS''"
      "bq_signal_count r = sum_oos as_signal_count rs" "bq_buy_count r = sum_oos as_buy_count rs"
      "bq_avoid_count r = sum_oos as_avoid_count rs" "bq_pass_count r = sum_oos as_pass_count rs" by blast
  have sums: "sum_oos f rs = sum_list (map f ?oos)" for f
    using arg_cong [OF rs(3), of "map f"] by (simp add: sum_oos_def comp_def)
  have len: "length rs = length folds" using rs(2) by (metis length_map)
  obtain res d' where "walk_folds cfg strat start_date end_date dry rd folds d = (Inr res, d')" "ws_fold_results res = rs"
     "ws_total_folds res = length rs" "if dry then d' = d else d' = d\<lparr>rs_backtest_runs := rs_backtest_runs d @ [r]\<rparr> \<and>
       ws_backtest_run_id res = Some (bq_id r)"
    by (cases dry) (auto simp: walk_folds_def sbind_def rs(1) day st(1) sret_def Let_def w)
  then show ?thesis
    using folds rs(2) st(2-) len
    by (intro exI [of _ folds] exI [of _ res] exI [of _ d'])
       (auto simp: run_walk_forward_def sums Let_def)
qed

theorem walk_forward_adds_one_run_witness:
  "\<exists>res d'. run_walk_forward \<lparr>wf_costs = default_cost_model, wf_regime_market = ''KOSPI'', wf_train_window = 4,
       wf_validate_window = 2, wf_gap_days = 0\<rparr> demo_strategy 0 20 False None demo_backtest = Some (Inr res, d') \<and>
     length (rs_backtest_runs d') = 1"
proof -
  have "rs_backtest_runs demo_backtest = []" by (simp add: demo_backtest_def demo_research_def)
  then show ?thesis
    using walk_forward_adds_one_run [OF demo_strategy_registered, of "\<lparr>wf_costs = default_cost_model, wf_regime_market = ''KOSPI'',
       wf_train_window = 4, wf_validate_window = 2, wf_gap_days = 0\<rparr>" 0 20 False None demo_backtest]
    by (auto simp: Let_def)
qed

subsection \<open>The comparison of strategies\<close>

lemma insort_key_map: "insort_key k (f x) (map f xs) = map f (insort_key (\<lambda>y. k (f y)) x xs)"
  by (induction xs) auto

lemma sort_key_map: "sort_key k (map f xs) = map f (sort_key (\<lambda>y. k (f y)) xs)"
  by (induction xs) (simp_all add: insort_key_map)

lemma limited_map: "limited limit (map f xs) = map f (limited limit xs)"
  by (simp add: limited_def take_map split: option.splits)

lemma sectors_of_single:
  assumes "distinct (map st_symbol (rs_stocks d))"
  shows "\<exists>s. sectors_of d y = [s]"
proof -
  have "length (filter (\<lambda>s. st_symbol s = y) rows) \<le> 1" if "distinct (map st_symbol rows)" for rows
    using that
  proof (induction rows)
    case (Cons r rows)
    have "filter (\<lambda>s. st_symbol s = st_symbol r) rows = []" using Cons.prems unfolding filter_empty_conv by (auto, metis image_eqI)
    with Cons show ?case by auto
  qed simp
  from this [OF assms] show ?thesis
    by (cases "filter (\<lambda>s. st_symbol s = y) (rs_stocks d)") (auto simp: sectors_of_def)
qed

definition sector_of :: "research \<Rightarrow> string \<Rightarrow> string option" where
  "sector_of d y = hd (sectors_of d y)"

definition sector_rows :: "research \<Rightarrow> (recommendation \<times> recommendation_run \<times> data_snapshot option) list \<Rightarrow>
    (recommendation \<times> data_snapshot option \<times> string option) list" where
  "sector_rows d rows = map (\<lambda>(rec, run, snapshot). (rec, snapshot, sector_of d (rc_symbol rec))) rows"

lemma fetch_recs_with_sector_value:
  assumes "distinct (map st_symbol (rs_stocks d))"
  shows "fetch_recs_with_sector a b limit d = (Inr (sector_rows d (universe d (Some a) (Some b) limit)), d)"
proof -
  let ?f = "\<lambda>(rec, run, snapshot). (rec, run, snapshot, sector_of d (rc_symbol rec))"
  have s: "sectors_of d y = [sector_of d y]" for y using sectors_of_single [OF assms] by (metis list.sel(1) sector_of_def)
  have c: "concat (map (\<lambda>(rec, run, snapshot). map (\<lambda>sector. (rec, run, snapshot, sector)) (sectors_of d (rc_symbol rec))) rows) = map ?f rows"
    for rows :: "(recommendation \<times> recommendation_run \<times> data_snapshot option) list"
    by (induction rows) (auto simp: s)
  show ?thesis
    unfolding fetch_recs_with_sector_def sgets_def c sort_key_map limited_map
    by (simp add: sector_rows_def universe_def case_prod_unfold)
qed

lemma sector_triples_value:
  assumes "total_strategy strat"
  shows "\<exists>ts. sector_triples strat returns (sector_rows d rows) d = (Inr ts, d) \<and>
     map (fst \<circ> snd) ts = map ev_signal_action (map (replay costs market strat d) rows)"
proof (induction rows)
  case Nil
  show ?case by (simp add: sector_rows_def sret_def)
next
  case (Cons row rows)
  obtain rec run snap where row: "row = (rec, run, snap)" by (cases row) auto
  obtain s where s: "signal_of strat (build_score_snapshot rec snap) = sret s" "sy_evaluate strat (build_score_snapshot rec snap) = Inr s"
    using signal_of_total [OF assms] by metis
  have "ev_signal_action (replay costs market strat d row) = sg_action s"
    using replay_fields(4) [OF assms, of costs market d row] s(2) by (simp add: row)
  with Cons s(1) show ?case by (auto simp: sector_rows_def row sbind_def sret_def)
qed

lemma sector_sums:
  "(\<Sum>e \<leftarrow> aggregate_sector_breakdown ts. se_signal_count e) = length ts"
  "(\<Sum>e \<leftarrow> aggregate_sector_breakdown ts. se_buy_count e) = length (filter (\<lambda>t. fst (snd t) = ''BUY'') ts)"
proof -
  let ?g = "group_rows (\<lambda>(sector, _, _). label_or ''UNKNOWN'' sector) ts"
  have perm: "(\<Sum>e \<leftarrow> aggregate_sector_breakdown ts. f e) = (\<Sum>p \<leftarrow> ?g. f (sector_entry_of p))" for f :: "sector_entry \<Rightarrow> nat"
    unfolding aggregate_sector_breakdown_def by (simp add: multiset.map_comp comp_def flip: sum_mset_sum_list)
  have "(\<Sum>p \<leftarrow> ?g. se_signal_count (sector_entry_of p)) = (\<Sum>t \<leftarrow> ts. 1)"
    by (rule sum_by_group) (simp add: sector_entry_of_def sum_list_triv Let_def split: prod.splits)
  then show "(\<Sum>e \<leftarrow> aggregate_sector_breakdown ts. se_signal_count e) = length ts" by (simp add: perm sum_list_triv)
  have one: "length (filter (\<lambda>t. fst (snd t) = ''BUY'') xs) = (\<Sum>t \<leftarrow> xs. if fst (snd t) = ''BUY'' then 1 else 0)" for xs :: "triple list"
    by (induction xs) auto
  have "(\<Sum>p \<leftarrow> ?g. se_buy_count (sector_entry_of p)) = (\<Sum>t \<leftarrow> ts. if fst (snd t) = ''BUY'' then 1 else 0)"
    by (rule sum_by_group) (simp add: sector_entry_of_def Let_def one [symmetric] case_prod_unfold)
  then show "(\<Sum>e \<leftarrow> aggregate_sector_breakdown ts. se_buy_count e) = length (filter (\<lambda>t. fst (snd t) = ''BUY'') ts)"
    by (simp add: perm one)
qed

definition same_universe :: "nat \<Rightarrow> strategy_result \<Rightarrow> bool" where
  "same_universe n r \<longleftrightarrow> as_signal_count (sr_stats r) = n \<and>
     (\<Sum>e \<leftarrow> sr_sector_breakdown r. se_signal_count e) = n \<and>
     (\<Sum>e \<leftarrow> sr_sector_breakdown r. se_buy_count e) = as_buy_count (sr_stats r)"

lemma compare_strategies_value:
  assumes "mc_with_sector cfg" and "\<And>s. s \<in> set strats \<Longrightarrow> total_strategy s"
  shows "\<exists>rs. compare_strategies cfg (sector_rows d (universe d (Some a) (Some b) limit)) returns a b limit strats d = (Inr rs, d) \<and>
     map sr_strategy_name rs = map sy_name strats \<and> list_all (same_universe (length (universe d (Some a) (Some b) limit))) rs"
  using assms(2)
proof (induction strats)
  case Nil
  show ?case by (simp add: sret_def)
next
  case (Cons strat strats)
  let ?u = "universe d (Some a) (Some b) limit"
  let ?ev = "replayed (mc_costs cfg) (mc_regime_market cfg) strat (Some a) (Some b) limit d"
  have tot: "total_strategy strat" using Cons.prems by simp
  from Cons obtain rs where rs: "compare_strategies cfg (sector_rows d ?u) returns a b limit strats d = (Inr rs, d)"
    "map sr_strategy_name rs = map sy_name strats" "list_all (same_universe (length ?u)) rs" by auto
  have "\<exists>summary. run_backtest (mc_costs cfg) (mc_regime_market cfg) strat (Some a) (Some b) True limit None d = (Inr summary, d) \<and>
     bs_stats summary = aggregate ?ev \<and> bs_strategy_name summary = sy_name strat"
    using run_backtest_value [OF tot, of "mc_costs cfg" "mc_regime_market cfg" "Some a" "Some b" True limit None d] by auto
  then obtain summary where run: "run_backtest (mc_costs cfg) (mc_regime_market cfg) strat (Some a) (Some b) True limit None d = (Inr summary, d)"
    "bs_stats summary = aggregate ?ev" "bs_strategy_name summary = sy_name strat" by blast
  obtain ts where ts: "sector_triples strat returns (sector_rows d ?u) d = (Inr ts, d)"
    "map (fst \<circ> snd) ts = map ev_signal_action ?ev"
    unfolding replayed_def using sector_triples_value [OF tot] by blast
  have len: "length ts = length ?u" using arg_cong [OF ts(2), of length] by (simp add: replayed_def)
  have buys: "length (filter (\<lambda>t. fst (snd t) = ''BUY'') ts) = as_buy_count (aggregate ?ev)"
    using ts(2) by (simp add: aggregate_def Let_def with_action_def count_in_map comp_def)
  have signals: "as_signal_count (aggregate ?ev) = length ?u" by (simp add: aggregate_def Let_def replayed_def)
  show ?case
    using rs run(2,3) assms(1) sector_sums [of ts] len buys signals
    by (simp add: sbind_def run(1) ts(1) sret_def same_universe_def [abs_def])
qed

lemma first_max_spec:
  "case first_max xs of None \<Rightarrow> xs = [] | Some y \<Rightarrow> y \<in> set xs \<and> (\<forall>x \<in> set xs. snd x \<le> snd y)"
  by (induction xs) (fastforce split: option.splits)+

definition best_result :: "(strategy_result \<Rightarrow> decimal option) \<Rightarrow> strategy_result list \<Rightarrow> string option \<Rightarrow> bool" where
  "best_result metric results best \<longleftrightarrow> (case best of
     None \<Rightarrow> \<forall>r \<in> set results. metric r = None
   | Some n \<Rightarrow> \<exists>r \<in> set results. sr_strategy_name r = n \<and> (\<exists>v. metric r = Some v \<and>
       (\<forall>q \<in> set results. \<forall>w. metric q = Some w \<longrightarrow> w \<le> v)))"

lemma best_by_ok: "best_result metric results (best_by metric results)"
proof -
  let ?xs = "present (\<lambda>r. map_option (\<lambda>v. (sr_strategy_name r, v)) (metric r)) results"
  have mem: "x \<in> set ?xs \<longleftrightarrow> (\<exists>r \<in> set results. \<exists>v. metric r = Some v \<and> x = (sr_strategy_name r, v))" for x
    by (force simp: present_def List.map_filter_def)
  show ?thesis
  proof (cases "first_max ?xs")
    case None
    then have "?xs = []" using first_max_spec [of ?xs] by simp
    then have "\<forall>r \<in> set results. metric r = None" using mem by (metis empty_iff list.set(1) option.exhaust)
    then show ?thesis using None by (simp add: best_result_def best_by_def)
  next
    case (Some y)
    then have y: "y \<in> set ?xs" "\<forall>x \<in> set ?xs. snd x \<le> snd y" using first_max_spec [of ?xs] by simp_all
    then obtain r v where r: "r \<in> set results" "metric r = Some v" "y = (sr_strategy_name r, v)" using mem by blast
    have "\<forall>q \<in> set results. \<forall>w. metric q = Some w \<longrightarrow> w \<le> v" using y(2) mem r(3) by force
    then show ?thesis using r Some by (auto simp: best_result_def best_by_def)
  qed
qed

text \<open>
  C33. If no two stocks share a symbol, the comparison of registered strategies returns one result for
  each, in order. Every strategy is judged on the same recommendations: its signals, and those of
  its sectors, number the universe, and the buys of its sectors are the buys of its backtest. The
  strategies named best have the highest win rate and the highest average return over five days.
  A dry run changes nothing; otherwise a comparison of at least one strategy adds exactly one run.
\<close>

theorem comparison_uses_one_universe:
  assumes "distinct (map st_symbol (rs_stocks d))" and "\<forall>s \<in> set strats. \<exists>name. get_strategy name = Inr s"
    and "mc_with_sector cfg" and "strats \<noteq> []"
  shows "\<exists>res d'. run_comparison cfg strats a b dry limit rd d = (Inr res, d') \<and>
     map sr_strategy_name (cs_results res) = map sy_name strats \<and>
     list_all (same_universe (length (universe d (Some a) (Some b) limit))) (cs_results res) \<and>
     best_result (\<lambda>r. hz_5d (as_win_rate (sr_stats r))) (cs_results res) (cs_best_win_rate res) \<and>
     best_result (\<lambda>r. hz_5d (as_avg_return (sr_stats r))) (cs_results res) (cs_best_avg_return res) \<and>
     (if dry then d' = d
      else \<exists>r. d' = d\<lparr>rs_backtest_runs := rs_backtest_runs d @ [r]\<rparr> \<and> cs_backtest_run_id res = Some (bq_id r) \<and>
        bq_strategy_name r = ''MULTI'' \<and> bq_status r = ''SUCCESS'' \<and>
        bq_signal_count r = length (universe d (Some a) (Some b) limit))"
proof -
  let ?u = "universe d (Some a) (Some b) limit"
  have tot: "\<And>s. s \<in> set strats \<Longrightarrow> total_strategy s" using assms(2) registered_total by blast
  have rows: "fetch_recs_with_sector a b limit d = (Inr (sector_rows d ?u), d)" by (rule fetch_recs_with_sector_value [OF assms(1)])
  obtain returns where returns: "fetch_returns_map (map (rc_id \<circ> fst) (sector_rows d ?u)) d = (Inr returns, d)"
    using reading_value [OF reading_backtest(6)] by blast
  obtain rs where rs: "compare_strategies cfg (sector_rows d ?u) returns a b limit strats d = (Inr rs, d)"
    "map sr_strategy_name rs = map sy_name strats" "list_all (same_universe (length ?u)) rs"
    using compare_strategies_value [OF assms(3) tot] by blast
  obtain r0 rs' where r0: "rs = r0 # rs'" using rs(2) assms(4) by (cases rs) auto
  then have ref: "as_signal_count (sr_stats r0) = length ?u" using rs(3) by (simp add: same_universe_def)
  obtain day where day: "day_or_today rd d = (Inr day, d)" using reading_value [OF reading_backtest(4)] by blast
  obtain win ret where w: "find_best rs = (win, ret)" by fastforce
  then have best: "win = best_by (\<lambda>r. hz_5d (as_win_rate (sr_stats r))) rs" "ret = best_by (\<lambda>r. hz_5d (as_avg_return (sr_stats r))) rs"
    by (simp_all add: find_best_def)
  have "\<exists>r. store_comparison cfg strats a b limit day rs (length ?u) d =
      (Inr (bq_id r), d\<lparr>rs_backtest_runs := rs_backtest_runs d @ [r]\<rparr>) \<and> bq_strategy_name r = ''MULTI'' \<and>
      bq_status r = ''SUCCESS'' \<and> bq_signal_count r = length ?u \<and> bq_buy_count r = 0 \<and>
      bq_avoid_count r = 0 \<and> bq_pass_count r = 0 \<and> bq_win_rate r = no_horizons \<and> bq_avg_return r = no_horizons"
    unfolding store_comparison_def w Let_def prod.case by (rule create_then_finish)
  then obtain r where st: "store_comparison cfg strats a b limit day rs (length ?u) d =
      (Inr (bq_id r), d\<lparr>rs_backtest_runs := rs_backtest_runs d @ [r]\<rparr>)" "bq_strategy_name r = ''MULTI''"
      "bq_status r = ''SUCCESS''" "bq_signal_count r = length ?u" by blast
  have "\<exists>res d'. run_comparison cfg strats a b dry limit rd d = (Inr res, d') \<and> cs_results res = rs \<and> cs_best_win_rate res = win \<and>
      cs_best_avg_return res = ret \<and> (if dry then d' = d else d' = d\<lparr>rs_backtest_runs := rs_backtest_runs d @ [r]\<rparr> \<and>
        cs_backtest_run_id res = Some (bq_id r))"
    using assms(3,4) st(1) w
    by (cases dry) (simp_all add: run_comparison_def sbind_def rows returns rs(1) day sret_def r0 ref Let_def)
  then show ?thesis using rs st(2-4) best best_by_ok by (cases dry) fastforce+
qed

theorem comparison_uses_one_universe_witness:
  "\<exists>res d'. run_comparison \<lparr>mc_costs = default_cost_model, mc_regime_market = ''KOSPI'', mc_with_regime = True,
       mc_with_sector = True\<rparr> [demo_strategy] 0 20 False None None demo_backtest = (Inr res, d') \<and>
     map sr_strategy_name (cs_results res) = [''TopGradeStrategy''] \<and> length (rs_backtest_runs d') = 1"
proof -
  have "rs_backtest_runs demo_backtest = []" "distinct (map st_symbol (rs_stocks demo_backtest))"
    by (simp_all add: demo_backtest_def demo_research_def)
  moreover have "sy_name demo_strategy = ''TopGradeStrategy''" by (simp add: demo_strategy_def)
  ultimately show ?thesis
    using comparison_uses_one_universe [of demo_backtest "[demo_strategy]" "\<lparr>mc_costs = default_cost_model, mc_regime_market = ''KOSPI'',
       mc_with_regime = True, mc_with_sector = True\<rparr>" 0 20 False None None] demo_strategy_registered
    by fastforce
qed

subsection \<open>What the recommendation engine does not record\<close>

text \<open>
  The combined strategy raises its confidence after an earnings beat, which it reads from the
  snapshot of the recommendation. The snapshots of the recommendation engine carry no evidence of
  earnings, so for them the surprise is never known.
\<close>

lemma map_of_map_filter_keys:
  "map_of (List.map_filter (\<lambda>k. map_option (\<lambda>part. (k, JObj part)) (f k)) keys) j =
     (if j \<in> set keys then map_option JObj (f j) else None)"
  by (induction keys) (auto simp: List.map_filter_simps split: option.splits)

lemma earnings_never_seen:
  assumes "ds_market_context snapshot = JObj kvs" and "map_of kvs ''earnings_evidence'' = None"
  shows "earnings_surprise_type (sp_evidence (build_score_snapshot rec (Some snapshot))) = JNull"
    "sp_earnings_score (build_score_snapshot rec (Some snapshot)) = None"
  using assms
  by (auto simp: build_score_snapshot_def Let_def earnings_surprise_type_def evidence_part_def json_dict_def
      map_of_map_filter_keys split: option.splits)

definition context_has :: "string \<Rightarrow> data_snapshot \<Rightarrow> bool" where
  "context_has k s \<longleftrightarrow> (case ds_market_context s of JObj kvs \<Rightarrow> map_of kvs k \<noteq> None | _ \<Rightarrow> False)"

lemma persisted_snapshot:
  assumes "persist_candidate cfg run_id rank c day now name d = (Inr u, d')"
  shows "\<exists>s. rs_data_snapshots d' = rs_data_snapshots d @ [s] \<and> (\<exists>kvs. ds_market_context s = JObj kvs) \<and>
     \<not> context_has ''earnings_evidence'' s"
  using assms
  by (auto simp: persist_candidate_def persist_score_log_def snapshot_add_def recommendation_add_def decision_add_def
      score_log_create_def sbind_def sret_def Let_def context_has_def split: if_splits prod.splits sum.splits)

end
