(* ===== verification/Watchlists.thy ===== *)
theory Watchlists
  imports Login Research_Tables
begin

text \<open>
  Watchlists and user preferences: the tables \<^verbatim>\<open>watchlists\<close>, \<^verbatim>\<open>watchlist_items\<close> and
  \<^verbatim>\<open>user_preferences\<close> of \<^verbatim>\<open>app/db/models.py\<close> with their unique constraints and foreign keys, the
  repositories of \<^verbatim>\<open>app/data/repositories\<close> for them, and the routes of
  \<^verbatim>\<open>app/api/watchlist_routes.py\<close> and \<^verbatim>\<open>app/api/preferences_routes.py\<close>. A violated constraint is
  the exception \<open>IntegrityError\<close> of the flush; a route that rolls back answers with the state it
  began with. \<open>wd_foreign_keys\<close> says whether the database enforces its foreign keys: SQLite, the
  default of the settings, does not unless told to by a pragma, and the session module does not.
\<close>

subsection \<open>Tables\<close>

record watchlist =
  wl_id :: int
  wl_user_id :: int
  wl_name :: string
  wl_is_default :: bool
  wl_created_at :: int
  wl_updated_at :: int

record watchlist_item =
  wi_id :: int
  wi_watchlist_id :: int
  wi_symbol :: string
  wi_memo :: "string option"
  wi_created_at :: int
  wi_updated_at :: int

record user_preference =
  up_id :: int
  up_user_id :: int
  up_default_watchlist_id :: "int option"
  up_default_market :: "string option"
  up_default_strategy :: "string option"
  up_dashboard_layout :: "reply option"
  up_notification_preferences :: "reply option"
  up_created_at :: int
  up_updated_at :: int

record watch_db =
  wd_users :: "user list"
  wd_stocks :: "stock list"
  wd_watchlists :: "watchlist list"
  wd_items :: "watchlist_item list"
  wd_preferences :: "user_preference list"
  wd_foreign_keys :: bool
  wd_now :: int

datatype watch_error = IntegrityError | WatchValueError string

type_synonym 'a wdb = "(watch_db, watch_error, 'a) action"

text \<open>What the database checks when a row is flushed.\<close>

definition user_exists :: "int \<Rightarrow> watch_db \<Rightarrow> bool" where
  "user_exists u d \<longleftrightarrow> \<not> wd_foreign_keys d \<or> u \<in> us_id ` set (wd_users d)"

definition watchlist_exists :: "int \<Rightarrow> watch_db \<Rightarrow> bool" where
  "watchlist_exists w d \<longleftrightarrow> \<not> wd_foreign_keys d \<or> w \<in> wl_id ` set (wd_watchlists d)"

definition name_taken :: "int \<Rightarrow> int \<Rightarrow> string \<Rightarrow> watch_db \<Rightarrow> bool" where
  "name_taken own u name d \<longleftrightarrow>
     (\<exists>w \<in> set (wd_watchlists d). wl_id w \<noteq> own \<and> wl_user_id w = u \<and> wl_name w = name)"

definition symbol_taken :: "int \<Rightarrow> string \<Rightarrow> watch_db \<Rightarrow> bool" where
  "symbol_taken w symbol d \<longleftrightarrow> (\<exists>i \<in> set (wd_items d). wi_watchlist_id i = w \<and> wi_symbol i = symbol)"

subsection \<open>The watchlist repository\<close>

definition default_watchlist_name :: string where
  "default_watchlist_name = map char_of [234, 184, 176, 235, 179, 184 :: nat]"

definition clear_default_for_user :: "int \<Rightarrow> unit wdb" where
  "clear_default_for_user u = smodify (\<lambda>d. d\<lparr>wd_watchlists := map (\<lambda>w.
     if wl_user_id w = u \<and> wl_is_default w then w\<lparr>wl_is_default := False, wl_updated_at := wd_now d\<rparr> else w)
     (wd_watchlists d)\<rparr>)"

definition watchlist_add :: "int \<Rightarrow> string \<Rightarrow> bool \<Rightarrow> int wdb" where
  "watchlist_add u name is_default = (\<lambda>d.
     let i = t_next wl_id (wd_watchlists d)
     in if name_taken i u name d \<or> \<not> user_exists u d then (Inl IntegrityError, d)
        else (Inr i, d\<lparr>wd_watchlists := wd_watchlists d @ [\<lparr>wl_id = i, wl_user_id = u, wl_name = name,
          wl_is_default = is_default, wl_created_at = wd_now d, wl_updated_at = wd_now d\<rparr>]\<rparr>))"

definition watchlist_create :: "int \<Rightarrow> string \<Rightarrow> bool \<Rightarrow> int wdb" where
  "watchlist_create u name is_default =
     sbind (if is_default then clear_default_for_user u else sret ()) (\<lambda>_. watchlist_add u name is_default)"

definition get_default_for_user :: "int \<Rightarrow> watchlist option wdb" where
  "get_default_for_user u = sgets (\<lambda>d. find (\<lambda>w. wl_user_id w = u \<and> wl_is_default w) (wd_watchlists d))"

definition get_or_create_default :: "int \<Rightarrow> int wdb" where
  "get_or_create_default u = sbind (get_default_for_user u) (\<lambda>existing.
     case existing of Some w \<Rightarrow> sret (wl_id w) | None \<Rightarrow> watchlist_create u default_watchlist_name True)"

text \<open>\<open>w\<close> is the row the caller loaded; assigning an attribute and flushing writes its key.\<close>

definition watchlist_rename :: "watchlist \<Rightarrow> string \<Rightarrow> unit wdb" where
  "watchlist_rename w name = (\<lambda>d.
     if name_taken (wl_id w) (wl_user_id w) name d then (Inl IntegrityError, d)
     else (Inr (), d\<lparr>wd_watchlists := t_upd wl_id (wl_id w)
            (\<lambda>r. r\<lparr>wl_name := name, wl_updated_at := wd_now d\<rparr>) (wd_watchlists d)\<rparr>))"

definition set_default :: "watchlist \<Rightarrow> unit wdb" where
  "set_default w =
     (if wl_is_default w then sret ()
      else sbind (clear_default_for_user (wl_user_id w)) (\<lambda>_.
           smodify (\<lambda>d. d\<lparr>wd_watchlists := t_upd wl_id (wl_id w)
             (\<lambda>r. r\<lparr>wl_is_default := True, wl_updated_at := wd_now d\<rparr>) (wd_watchlists d)\<rparr>)))"

text \<open>The items go by the cascade of the mapper; the reference of a preference is cleared by the
  database, when it enforces foreign keys.\<close>

definition watchlist_delete :: "watchlist \<Rightarrow> unit wdb" where
  "watchlist_delete w = smodify (\<lambda>d. d\<lparr>
     wd_watchlists := filter (\<lambda>r. wl_id r \<noteq> wl_id w) (wd_watchlists d),
     wd_items := filter (\<lambda>i. wi_watchlist_id i \<noteq> wl_id w) (wd_items d),
     wd_preferences := (if wd_foreign_keys d
       then map (\<lambda>p. if up_default_watchlist_id p = Some (wl_id w) then p\<lparr>up_default_watchlist_id := None\<rparr> else p)
              (wd_preferences d)
       else wd_preferences d)\<rparr>)"

definition get_by_user_and_id :: "int \<Rightarrow> int \<Rightarrow> watchlist option wdb" where
  "get_by_user_and_id u i = sgets (\<lambda>d. find (\<lambda>w. wl_id w = i \<and> wl_user_id w = u) (wd_watchlists d))"

text \<open>\<open>ORDER BY is_default DESC, id ASC\<close>.\<close>

definition list_by_user :: "int \<Rightarrow> watchlist list wdb" where
  "list_by_user u = sgets (\<lambda>d. sort_key (\<lambda>w. (if wl_is_default w then 0 else 1 :: int, wl_id w))
     (filter (\<lambda>w. wl_user_id w = u) (wd_watchlists d)))"

definition relationship_items :: "watch_db \<Rightarrow> int \<Rightarrow> watchlist_item list" where
  "relationship_items d w = filter (\<lambda>i. wi_watchlist_id i = w) (wd_items d)"

subsection \<open>The item repository\<close>

definition max_memo_length :: nat where "max_memo_length = 500"

definition normalize_symbol :: "string \<Rightarrow> watch_error + string" where
  "normalize_symbol symbol = (let cleaned = py_upper (py_strip symbol)
     in if cleaned = [] then Inl (WatchValueError ''symbol must not be empty'') else Inr cleaned)"

definition validate_memo :: "string option \<Rightarrow> watch_error + unit" where
  "validate_memo memo = (case memo of None \<Rightarrow> Inr ()
     | Some m \<Rightarrow> if max_memo_length < length m
         then Inl (WatchValueError (''memo must be at most 500 chars (got '' @ str_of_int (int (length m)) @ '')''))
         else Inr ())"

definition lift_result :: "watch_error + 'a \<Rightarrow> 'a wdb" where
  "lift_result r = (\<lambda>d. (r, d))"

definition item_add :: "int \<Rightarrow> string \<Rightarrow> string option \<Rightarrow> int wdb" where
  "item_add w symbol memo = (\<lambda>d.
     if symbol_taken w symbol d \<or> \<not> watchlist_exists w d then (Inl IntegrityError, d)
     else let i = t_next wi_id (wd_items d)
          in (Inr i, d\<lparr>wd_items := wd_items d @ [\<lparr>wi_id = i, wi_watchlist_id = w, wi_symbol = symbol,
            wi_memo = memo, wi_created_at = wd_now d, wi_updated_at = wd_now d\<rparr>]\<rparr>))"

definition add_item :: "int \<Rightarrow> string \<Rightarrow> string option \<Rightarrow> int wdb" where
  "add_item w symbol memo =
     sbind (lift_result (normalize_symbol symbol)) (\<lambda>canonical.
     sbind (lift_result (validate_memo memo)) (\<lambda>_. item_add w canonical memo))"

definition update_memo :: "int \<Rightarrow> string option \<Rightarrow> unit wdb" where
  "update_memo i memo =
     sbind (lift_result (validate_memo memo)) (\<lambda>_.
     smodify (\<lambda>d. d\<lparr>wd_items := t_upd wi_id i (\<lambda>r. r\<lparr>wi_memo := memo, wi_updated_at := wd_now d\<rparr>) (wd_items d)\<rparr>))"

definition get_item :: "int \<Rightarrow> string \<Rightarrow> watchlist_item option wdb" where
  "get_item w symbol =
     sbind (lift_result (normalize_symbol symbol)) (\<lambda>canonical.
     sgets (\<lambda>d. find (\<lambda>i. wi_watchlist_id i = w \<and> wi_symbol i = canonical) (wd_items d)))"

definition remove_item :: "int \<Rightarrow> string \<Rightarrow> bool wdb" where
  "remove_item w symbol =
     sbind (lift_result (normalize_symbol symbol)) (\<lambda>canonical.
     sbind (get_item w canonical) (\<lambda>item. case item of
       None \<Rightarrow> sret False
     | Some i \<Rightarrow> sbind (smodify (\<lambda>d. d\<lparr>wd_items := filter (\<lambda>r. wi_id r \<noteq> wi_id i) (wd_items d)\<rparr>)) (\<lambda>_. sret True)))"

definition list_items :: "int \<Rightarrow> watchlist_item list wdb" where
  "list_items w = sgets (\<lambda>d. sort_key wi_id (filter (\<lambda>i. wi_watchlist_id i = w) (wd_items d)))"

definition list_symbols :: "int \<Rightarrow> string list wdb" where
  "list_symbols w = sgets (\<lambda>d. sort_key (\<lambda>s. s)
     (map wi_symbol (filter (\<lambda>i. wi_watchlist_id i = w) (wd_items d))))"

definition item_exists :: "int \<Rightarrow> string \<Rightarrow> bool wdb" where
  "item_exists w symbol = sbind (get_item w symbol) (\<lambda>i. sret (i \<noteq> None))"

subsection \<open>The preference repository\<close>

definition preference_of_user :: "int \<Rightarrow> user_preference option wdb" where
  "preference_of_user u = sgets (\<lambda>d. find (\<lambda>p. up_user_id p = u) (wd_preferences d))"

definition preference_add :: "int \<Rightarrow> int wdb" where
  "preference_add u = (\<lambda>d.
     if u \<in> up_user_id ` set (wd_preferences d) \<or> \<not> user_exists u d then (Inl IntegrityError, d)
     else let i = t_next up_id (wd_preferences d)
          in (Inr i, d\<lparr>wd_preferences := wd_preferences d @ [\<lparr>up_id = i, up_user_id = u,
            up_default_watchlist_id = None, up_default_market = None, up_default_strategy = None,
            up_dashboard_layout = None, up_notification_preferences = None,
            up_created_at = wd_now d, up_updated_at = wd_now d\<rparr>]\<rparr>))"

definition get_or_create_for_user :: "int \<Rightarrow> int wdb" where
  "get_or_create_for_user u = sbind (preference_of_user u) (\<lambda>existing.
     case existing of Some p \<Rightarrow> sret (up_id p) | None \<Rightarrow> preference_add u)"

text \<open>One flush of new values in the row; a watchlist that does not exist violates its foreign key.\<close>

definition preference_write :: "int \<Rightarrow> (user_preference \<Rightarrow> user_preference) \<Rightarrow> unit wdb" where
  "preference_write i f = (\<lambda>d.
     if (\<exists>p \<in> set (wd_preferences d). up_id p = i \<and>
           (case up_default_watchlist_id (f p) of None \<Rightarrow> False | Some w \<Rightarrow> \<not> watchlist_exists w d))
     then (Inl IntegrityError, d)
     else (Inr (), d\<lparr>wd_preferences := t_upd up_id i (\<lambda>p. (f p)\<lparr>up_updated_at := wd_now d\<rparr>) (wd_preferences d)\<rparr>))"

text \<open>A keyword that is not given (\<open>_UNSET\<close>) is \<open>None\<close>, a given one \<open>Some\<close> of its value.\<close>

definition given :: "'a option \<Rightarrow> 'a \<Rightarrow> 'a" where
  "given v old = (case v of None \<Rightarrow> old | Some x \<Rightarrow> x)"

definition preference_update ::
  "int \<Rightarrow> int option option \<Rightarrow> string option option \<Rightarrow> string option option \<Rightarrow>
   reply option option \<Rightarrow> reply option option \<Rightarrow> unit wdb" where
  "preference_update i watchlist_id market strategy layout notification =
     preference_write i (\<lambda>p. p\<lparr>
       up_default_watchlist_id := given watchlist_id (up_default_watchlist_id p),
       up_default_market := given market (up_default_market p),
       up_default_strategy := given strategy (up_default_strategy p),
       up_dashboard_layout := given layout (up_dashboard_layout p),
       up_notification_preferences := given notification (up_notification_preferences p)\<rparr>)"

definition set_default_watchlist :: "int \<Rightarrow> int option \<Rightarrow> unit wdb" where
  "set_default_watchlist i watchlist_id = preference_write i (\<lambda>p. p\<lparr>up_default_watchlist_id := watchlist_id\<rparr>)"

definition update_dashboard_layout :: "int \<Rightarrow> reply option \<Rightarrow> unit wdb" where
  "update_dashboard_layout i layout = preference_write i (\<lambda>p. p\<lparr>up_dashboard_layout := layout\<rparr>)"

definition update_notification_preferences :: "int \<Rightarrow> reply option \<Rightarrow> unit wdb" where
  "update_notification_preferences i preferences =
     preference_write i (\<lambda>p. p\<lparr>up_notification_preferences := preferences\<rparr>)"

end
