(* ===== verification/Watch_Routes.thy ===== *)
theory Watch_Routes
  imports Watchlists
begin

text \<open>
  The routes of \<^verbatim>\<open>app/api/watchlist_routes.py\<close> and \<^verbatim>\<open>app/api/preferences_routes.py\<close>, each from the
  identity that \<open>require_auth\<close> gave it and the parsed fields of the request to its answer and the
  committed database. The validators of the request models and of the path and query parameters
  answer 422. \<open>serve\<close> is the router with the authentication in front.
\<close>

datatype 'a watch_answer = WatchOk 'a | WatchRefused int string | WatchCrashed watch_error

type_synonym 'a watch_route = "watch_db \<Rightarrow> 'a watch_answer \<times> watch_db"

text \<open>A route that runs \<open>m\<close>, commits on success and otherwise answers by \<open>handler\<close>; what was flushed
  is rolled back or discarded with the session.\<close>

definition committing :: "(watch_error \<Rightarrow> 'b watch_answer) \<Rightarrow> ('a \<Rightarrow> watch_db \<Rightarrow> 'b watch_answer) \<Rightarrow>
    'a wdb \<Rightarrow> 'b watch_route" where
  "committing handler reply m d = (case m d of (r, d') \<Rightarrow>
     (case r of Inl e \<Rightarrow> (handler e, d) | Inr a \<Rightarrow> (reply a d', d')))"

definition conflict :: "string \<Rightarrow> watch_error \<Rightarrow> 'a watch_answer" where
  "conflict detail e = (case e of IntegrityError \<Rightarrow> WatchRefused 409 detail | _ \<Rightarrow> WatchCrashed e)"

definition invalid_value :: "watch_error \<Rightarrow> 'a watch_answer" where
  "invalid_value e = (case e of WatchValueError why \<Rightarrow> WatchRefused 422 why | _ \<Rightarrow> WatchCrashed e)"

subsection \<open>Validation and replies\<close>

definition name_not_empty :: "string \<Rightarrow> string option" where
  "name_not_empty value = (let cleaned = py_strip value
     in if cleaned = [] \<or> 64 < length cleaned then None else Some cleaned)"

definition name_valid :: "string option \<Rightarrow> string option option" where
  "name_valid value = (case value of None \<Rightarrow> Some None | Some v \<Rightarrow> map_option Some (name_not_empty v))"

definition symbol_not_empty :: "string \<Rightarrow> string option" where
  "symbol_not_empty value = (case normalize_symbol value of Inl _ \<Rightarrow> None | Inr s \<Rightarrow> Some s)"

definition memo_length :: "string option \<Rightarrow> bool" where
  "memo_length memo = (case memo of None \<Rightarrow> True | Some m \<Rightarrow> length m \<le> max_memo_length)"

definition unprocessable :: "'a watch_answer" where
  "unprocessable = WatchRefused 422 ''validation error''"

record item_reply =
  ir_id :: int
  ir_symbol :: string
  ir_memo :: "string option"
  ir_created_at :: int
  ir_updated_at :: int

record watchlist_reply =
  wr_id :: int
  wr_name :: string
  wr_is_default :: bool
  wr_item_count :: nat
  wr_created_at :: int
  wr_updated_at :: int

definition item_schema :: "watchlist_item \<Rightarrow> item_reply" where
  "item_schema i = \<lparr>ir_id = wi_id i, ir_symbol = wi_symbol i, ir_memo = wi_memo i,
     ir_created_at = wi_created_at i, ir_updated_at = wi_updated_at i\<rparr>"

definition to_summary :: "watchlist \<Rightarrow> nat \<Rightarrow> watchlist_reply" where
  "to_summary w item_count = \<lparr>wr_id = wl_id w, wr_name = wl_name w, wr_is_default = wl_is_default w,
     wr_item_count = item_count, wr_created_at = wl_created_at w, wr_updated_at = wl_updated_at w\<rparr>"

text \<open>The re-read after a commit; its assertion cannot be modelled as an answer of the route.\<close>

definition load_owned_watchlist ::
  "int \<Rightarrow> int \<Rightarrow> (watchlist \<Rightarrow> 'a watch_route) \<Rightarrow> 'a watch_route" where
  "load_owned_watchlist u i k d =
     (case fst (get_by_user_and_id u i d) of
        Inr (Some w) \<Rightarrow> k w d
      | Inr None \<Rightarrow> (WatchRefused 404 ''watchlist not found'', d)
      | Inl e \<Rightarrow> (WatchCrashed e, d))"

definition refreshed_summary :: "int \<Rightarrow> int \<Rightarrow> watch_db \<Rightarrow> watchlist_reply watch_answer" where
  "refreshed_summary u i d =
     (case fst (get_by_user_and_id u i d) of
        Inr (Some w) \<Rightarrow> WatchOk (to_summary w (length (relationship_items d (wl_id w))))
      | _ \<Rightarrow> WatchCrashed (WatchValueError ''assertion''))"

definition item_answer :: "int \<Rightarrow> watch_db \<Rightarrow> item_reply watch_answer" where
  "item_answer i d = (case t_get wi_id i (wd_items d) of
     Some item \<Rightarrow> WatchOk (item_schema item) | None \<Rightarrow> WatchCrashed (WatchValueError ''detached''))"

subsection \<open>Watchlist routes\<close>

definition list_watchlists :: "int \<Rightarrow> watchlist_reply list watch_route" where
  "list_watchlists u d = (case fst (list_by_user u d) of
     Inl e \<Rightarrow> (WatchCrashed e, d)
   | Inr rows \<Rightarrow> (WatchOk (map (\<lambda>w. to_summary w (length (relationship_items d (wl_id w)))) rows), d))"

definition get_watchlist :: "int \<Rightarrow> int \<Rightarrow> (watchlist_reply \<times> item_reply list) watch_route" where
  "get_watchlist u i d =
     (if i < 1 then (unprocessable, d)
      else load_owned_watchlist u i (\<lambda>w d.
        (WatchOk (to_summary w (length (relationship_items d (wl_id w))),
                  map item_schema (relationship_items d (wl_id w))), d)) d)"

definition create_watchlist :: "int \<Rightarrow> string \<Rightarrow> bool \<Rightarrow> watchlist_reply watch_route" where
  "create_watchlist u name is_default d =
     (case name_not_empty name of
        None \<Rightarrow> (unprocessable, d)
      | Some cleaned \<Rightarrow>
          committing (conflict ''watchlist name already exists for this user'') (refreshed_summary u)
            (watchlist_create u cleaned is_default) d)"

definition add_watchlist_item :: "int \<Rightarrow> int \<Rightarrow> string \<Rightarrow> string option \<Rightarrow> item_reply watch_route" where
  "add_watchlist_item u i symbol memo d =
     (case symbol_not_empty symbol of
        None \<Rightarrow> (unprocessable, d)
      | Some canonical \<Rightarrow>
          if i < 1 \<or> \<not> memo_length memo then (unprocessable, d)
          else load_owned_watchlist u i (\<lambda>w d.
            if find (\<lambda>s. st_symbol s = canonical) (wd_stocks d) = None
            then (WatchRefused 404 ''symbol not found in stocks'', d)
            else committing (conflict ''symbol already in this watchlist'') item_answer
                   (add_item (wl_id w) canonical memo) d) d)"

definition path_symbol_ok :: "string \<Rightarrow> bool" where
  "path_symbol_ok symbol = (1 \<le> length symbol \<and> length symbol \<le> 32)"

definition remove_watchlist_item :: "int \<Rightarrow> int \<Rightarrow> string \<Rightarrow> unit watch_route" where
  "remove_watchlist_item u i symbol d =
     (if i < 1 \<or> \<not> path_symbol_ok symbol then (unprocessable, d)
      else load_owned_watchlist u i (\<lambda>w d.
        case remove_item (wl_id w) symbol d of (r, d') \<Rightarrow>
          (case r of
             Inl e \<Rightarrow> (invalid_value e, d)
           | Inr removed \<Rightarrow> if removed then (WatchOk (), d')
               else (WatchRefused 404 ''symbol not in this watchlist'', d))) d)"

definition patch_watchlist :: "int \<Rightarrow> int \<Rightarrow> string option \<Rightarrow> bool option \<Rightarrow> watchlist_reply watch_route" where
  "patch_watchlist u i name is_default d =
     (case name_valid name of
        None \<Rightarrow> (unprocessable, d)
      | Some name \<Rightarrow>
          if i < 1 then (unprocessable, d)
          else if name = None \<and> is_default = None
          then (WatchRefused 422 ''at least one of name or is_default must be provided'', d)
          else load_owned_watchlist u i (\<lambda>w.
            committing (conflict ''watchlist name already exists for this user'') (\<lambda>_. refreshed_summary u i)
              (sbind (case name of None \<Rightarrow> sret () | Some n \<Rightarrow> watchlist_rename w n) (\<lambda>_.
               if is_default = Some True then set_default w else sret ()))) d)"

definition delete_watchlist :: "int \<Rightarrow> int \<Rightarrow> unit watch_route" where
  "delete_watchlist u i d =
     (if i < 1 then (unprocessable, d)
      else load_owned_watchlist u i (\<lambda>w. committing WatchCrashed (\<lambda>_ _. WatchOk ()) (watchlist_delete w)) d)"

record items_page =
  ip_items :: "item_reply list"
  ip_count :: nat
  ip_limit :: int
  ip_offset :: int

definition list_watchlist_items :: "int \<Rightarrow> int \<Rightarrow> int \<Rightarrow> int \<Rightarrow> string option \<Rightarrow> items_page watch_route" where
  "list_watchlist_items u i limit offset symbol_prefix d =
     (if i < 1 \<or> limit < 1 \<or> 200 < limit \<or> offset < 0
         \<or> (case symbol_prefix of None \<Rightarrow> False | Some p \<Rightarrow> 32 < length p)
      then (unprocessable, d)
      else load_owned_watchlist u i (\<lambda>w d.
        case fst (list_items (wl_id w) d) of
          Inl e \<Rightarrow> (WatchCrashed e, d)
        | Inr rows \<Rightarrow>
            let chosen = (case symbol_prefix of
                  None \<Rightarrow> rows
                | Some p \<Rightarrow> if p = [] then rows
                    else (let prefix = py_upper (py_strip p)
                          in filter (\<lambda>r. take (length prefix) (wi_symbol r) = prefix) rows))
            in (WatchOk \<lparr>ip_items = map item_schema (take (nat limit) (drop (nat offset) chosen)),
                  ip_count = length chosen, ip_limit = limit, ip_offset = offset\<rparr>, d)) d)"

definition patch_watchlist_item :: "int \<Rightarrow> int \<Rightarrow> string \<Rightarrow> string option \<Rightarrow> item_reply watch_route" where
  "patch_watchlist_item u i symbol memo d =
     (if \<not> memo_length memo \<or> i < 1 \<or> \<not> path_symbol_ok symbol then (unprocessable, d)
      else load_owned_watchlist u i (\<lambda>w d.
        case fst (get_item (wl_id w) symbol d) of
          Inl e \<Rightarrow> (invalid_value e, d)
        | Inr None \<Rightarrow> (WatchRefused 404 ''symbol not in this watchlist'', d)
        | Inr (Some item) \<Rightarrow>
            committing invalid_value (\<lambda>_. item_answer (wi_id item)) (update_memo (wi_id item) memo) d) d)"

subsection \<open>Preference routes\<close>

record preference_reply =
  pr_user_id :: int
  pr_default_watchlist_id :: "int option"
  pr_default_market :: "string option"
  pr_default_strategy :: "string option"
  pr_dashboard_layout :: "reply option"
  pr_notification_preferences :: "reply option"
  pr_created_at :: int
  pr_updated_at :: int

record preference_request =
  pq_default_watchlist_id :: "int option"
  pq_default_market :: "string option"
  pq_default_strategy :: "string option"
  pq_dashboard_layout :: "reply option"
  pq_notification_preferences :: "reply option"

definition forbidden_preference_keys :: "string list" where
  "forbidden_preference_keys = [''password'', ''token'', ''secret'', ''jwt_secret'', ''access_token'']"

definition no_secrets_in_notification :: "reply option \<Rightarrow> bool" where
  "no_secrets_in_notification v = (case v of
     Some (RDict entries) \<Rightarrow> set (map (py_lower \<circ> fst) entries) \<inter> set forbidden_preference_keys = {}
   | _ \<Rightarrow> True)"

definition preference_request_ok :: "preference_request \<Rightarrow> bool" where
  "preference_request_ok q \<longleftrightarrow>
     (case pq_default_market q of None \<Rightarrow> True | Some m \<Rightarrow> length m \<le> 32) \<and>
     (case pq_default_strategy q of None \<Rightarrow> True | Some s \<Rightarrow> length s \<le> 64) \<and>
     no_secrets_in_notification (pq_notification_preferences q)"

definition preference_schema :: "user_preference \<Rightarrow> preference_reply" where
  "preference_schema p = \<lparr>pr_user_id = up_user_id p, pr_default_watchlist_id = up_default_watchlist_id p,
     pr_default_market = up_default_market p, pr_default_strategy = up_default_strategy p,
     pr_dashboard_layout = up_dashboard_layout p,
     pr_notification_preferences = up_notification_preferences p,
     pr_created_at = up_created_at p, pr_updated_at = up_updated_at p\<rparr>"

definition preference_answer :: "int \<Rightarrow> watch_db \<Rightarrow> preference_reply watch_answer" where
  "preference_answer i d = (case t_get up_id i (wd_preferences d) of
     Some p \<Rightarrow> WatchOk (preference_schema p) | None \<Rightarrow> WatchCrashed (WatchValueError ''detached''))"

definition get_preferences :: "int \<Rightarrow> preference_reply watch_route" where
  "get_preferences u = committing WatchCrashed preference_answer (get_or_create_for_user u)"

definition put_preferences :: "int \<Rightarrow> preference_request \<Rightarrow> preference_reply watch_route" where
  "put_preferences u q d =
     (if \<not> preference_request_ok q then (unprocessable, d)
      else (case pq_default_watchlist_id q of None \<Rightarrow> (\<lambda>k. k) | Some i \<Rightarrow> (\<lambda>k. load_owned_watchlist u i (\<lambda>_. k)))
        (committing WatchCrashed preference_answer
           (sbind (get_or_create_for_user u) (\<lambda>i.
            sbind (preference_update i (Some (pq_default_watchlist_id q)) (Some (pq_default_market q))
              (Some (pq_default_strategy q)) (Some (pq_dashboard_layout q)) (Some (pq_notification_preferences q)))
              (\<lambda>_. sret i)))) d)"

subsection \<open>The router\<close>

datatype watch_request =
    ListWatchlists
  | GetWatchlist int
  | CreateWatchlist string bool
  | PatchWatchlist int "string option" "bool option"
  | DeleteWatchlist int
  | ListItems int int int "string option"
  | AddItem int string "string option"
  | PatchItem int string "string option"
  | RemoveItem int string
  | GetPreferences
  | PutPreferences preference_request

datatype watch_reply =
    Summaries "watchlist_reply list"
  | Detail watchlist_reply "item_reply list"
  | Summary watchlist_reply
  | ItemsPage items_page
  | Item item_reply
  | Preferences preference_reply
  | StatusOk

fun map_answer :: "('a \<Rightarrow> 'b) \<Rightarrow> 'a watch_answer \<times> watch_db \<Rightarrow> 'b watch_answer \<times> watch_db" where
  "map_answer f (WatchOk a, d) = (WatchOk (f a), d)"
| "map_answer f (WatchRefused code why, d) = (WatchRefused code why, d)"
| "map_answer f (WatchCrashed e, d) = (WatchCrashed e, d)"

fun handle :: "int \<Rightarrow> watch_request \<Rightarrow> watch_reply watch_route" where
  "handle u ListWatchlists d = map_answer Summaries (list_watchlists u d)"
| "handle u (GetWatchlist i) d = map_answer (\<lambda>(w, items). Detail w items) (get_watchlist u i d)"
| "handle u (CreateWatchlist name is_default) d = map_answer Summary (create_watchlist u name is_default d)"
| "handle u (PatchWatchlist i name is_default) d = map_answer Summary (patch_watchlist u i name is_default d)"
| "handle u (DeleteWatchlist i) d = map_answer (\<lambda>_. StatusOk) (delete_watchlist u i d)"
| "handle u (ListItems i limit offset prefix) d = map_answer ItemsPage (list_watchlist_items u i limit offset prefix d)"
| "handle u (AddItem i symbol memo) d = map_answer Item (add_watchlist_item u i symbol memo d)"
| "handle u (PatchItem i symbol memo) d = map_answer Item (patch_watchlist_item u i symbol memo d)"
| "handle u (RemoveItem i symbol) d = map_answer (\<lambda>_. StatusOk) (remove_watchlist_item u i symbol d)"
| "handle u GetPreferences d = map_answer Preferences (get_preferences u d)"
| "handle u (PutPreferences q) d = map_answer Preferences (put_preferences u q d)"

definition serve ::
  "auth_libs \<Rightarrow> string \<Rightarrow> auth_settings \<Rightarrow> (string \<times> string) option \<Rightarrow> watch_request \<Rightarrow> watch_reply watch_route" where
  "serve lib dev_secret cfg credentials request d =
     (case require_auth lib dev_secret cfg (wd_now d) credentials of
        AuthOk current \<Rightarrow> handle (au_user_id current) request d
      | AuthRefused code why \<Rightarrow> (WatchRefused code why, d)
      | AuthCrashed _ \<Rightarrow> (WatchCrashed (WatchValueError ''authentication''), d))"

end
