(* ===== verification/Watch_Facts.thy ===== *)
theory Watch_Facts
  imports Watch_Routes
begin

text \<open>
  Properties of the watchlist and preference routes: the constraints that every request keeps
  (\<open>watch_ok\<close>), what a request leaves of the rows of other users, and that the answers to a user
  are computed from the rows of that user.
\<close>

subsection \<open>Canonical symbols and names\<close>

lemma hd_dropWhile_space: "dropWhile is_space s \<noteq> [] \<Longrightarrow> \<not> is_space (hd (dropWhile is_space s))"
  by (rule hd_dropWhile)

lemma py_strip_ends:
  assumes "py_strip s \<noteq> []"
  shows "\<not> is_space (hd (py_strip s)) \<and> \<not> is_space (last (py_strip s))"
proof -
  let ?t = "dropWhile is_space s" and ?r = "dropWhile is_space (rev (dropWhile is_space s))"
  from assms have r: "?r \<noteq> []" by (simp add: py_strip_def)
  then have t: "?t \<noteq> []" by (metis dropWhile.simps(1) rev.simps(1))
  obtain p where p: "rev ?t = p @ ?r" by (metis takeWhile_dropWhile_id)
  then have "?t = rev ?r @ rev p" by (metis rev_append rev_rev_ident)
  with r have "hd ?t = hd (rev ?r)" by (metis hd_append2 rev_is_Nil_conv)
  moreover have "last (rev ?r) = hd ?r" using r by (simp add: last_rev)
  ultimately show ?thesis
    using hd_dropWhile [OF r] hd_dropWhile [OF t] by (simp add: py_strip_def)
qed

lemma py_strip_idem [simp]: "py_strip (py_strip s) = py_strip s"
proof (cases "py_strip s = []")
  case False
  with py_strip_ends [OF False] show ?thesis by (intro py_strip_id) auto
next
  case True
  then show ?thesis by (simp only: True) (simp add: py_strip_def)
qed

lemma char_upper_space: "is_space (char_upper c) = is_space c"
  by (auto simp: is_space_def char_upper_def Let_def)

lemma char_upper_idem: "char_upper (char_upper c) = char_upper c"
  by (auto simp: char_upper_def Let_def)

lemma py_upper_idem [simp]: "py_upper (py_upper s) = py_upper s"
  by (simp add: py_upper_def char_upper_idem)

lemma py_strip_upper: "py_strip (py_upper s) = py_upper (py_strip s)"
proof -
  have "(\<lambda>c. is_space (char_upper c)) = is_space" by (simp add: char_upper_space fun_eq_iff)
  then have "dropWhile is_space (map char_upper xs) = map char_upper (dropWhile is_space xs)" for xs
    by (simp add: dropWhile_map comp_def)
  then show ?thesis by (simp add: py_strip_def py_upper_def rev_map)
qed

lemma normalize_symbol_idem: "normalize_symbol s = Inr c \<Longrightarrow> normalize_symbol c = Inr c"
  by (auto simp: normalize_symbol_def Let_def py_strip_upper split: if_splits)

lemma name_not_empty_idem: "name_not_empty s = Some c \<Longrightarrow> name_not_empty c = Some c"
  by (auto simp: name_not_empty_def Let_def split: if_splits)

subsection \<open>The constraints\<close>

definition unique_names :: "watchlist list \<Rightarrow> bool" where
  "unique_names ws \<longleftrightarrow> (\<forall>w \<in> set ws. \<forall>x \<in> set ws.
     wl_user_id w = wl_user_id x \<longrightarrow> wl_name w = wl_name x \<longrightarrow> wl_id w = wl_id x)"

definition single_default :: "watchlist list \<Rightarrow> bool" where
  "single_default ws \<longleftrightarrow> (\<forall>w \<in> set ws. \<forall>x \<in> set ws.
     wl_user_id w = wl_user_id x \<longrightarrow> wl_is_default w \<longrightarrow> wl_is_default x \<longrightarrow> wl_id w = wl_id x)"

definition lists_ok :: "watchlist list \<Rightarrow> bool" where
  "lists_ok ws \<longleftrightarrow> distinct (map wl_id ws) \<and> unique_names ws \<and> single_default ws \<and>
     (\<forall>w \<in> set ws. name_not_empty (wl_name w) = Some (wl_name w))"

definition items_ok :: "watchlist list \<Rightarrow> stock list \<Rightarrow> watchlist_item list \<Rightarrow> bool" where
  "items_ok ws stocks is \<longleftrightarrow> distinct (map wi_id is) \<and>
     distinct (map (\<lambda>i. (wi_watchlist_id i, wi_symbol i)) is) \<and>
     (\<forall>i \<in> set is. wi_watchlist_id i \<in> wl_id ` set ws \<and> normalize_symbol (wi_symbol i) = Inr (wi_symbol i) \<and>
        wi_symbol i \<in> st_symbol ` set stocks \<and> memo_length (wi_memo i))"

definition preferences_ok :: "bool \<Rightarrow> watchlist list \<Rightarrow> user_preference list \<Rightarrow> bool" where
  "preferences_ok fk ws ps \<longleftrightarrow> distinct (map up_id ps) \<and> distinct (map up_user_id ps) \<and>
     (\<forall>p \<in> set ps. no_secrets_in_notification (up_notification_preferences p)) \<and>
     (fk \<longrightarrow> (\<forall>p \<in> set ps. \<forall>i. up_default_watchlist_id p = Some i \<longrightarrow>
        (\<exists>w \<in> set ws. wl_id w = i \<and> wl_user_id w = up_user_id p)))"

definition watch_ok :: "watch_db \<Rightarrow> bool" where
  "watch_ok d \<longleftrightarrow> lists_ok (wd_watchlists d) \<and> items_ok (wd_watchlists d) (wd_stocks d) (wd_items d) \<and>
     preferences_ok (wd_foreign_keys d) (wd_watchlists d) (wd_preferences d)"

text \<open>The rows of user \<open>v\<close>: watchlists, the items on them, preferences.\<close>

definition lists_of :: "int \<Rightarrow> watchlist list \<Rightarrow> watchlist list" where
  "lists_of v ws = filter (\<lambda>w. wl_user_id w = v) ws"

definition rows_of :: "int \<Rightarrow> watch_db \<Rightarrow> watchlist list \<times> watchlist_item list \<times> user_preference list" where
  "rows_of v d = (lists_of v (wd_watchlists d),
     filter (\<lambda>i. wi_watchlist_id i \<in> wl_id ` set (lists_of v (wd_watchlists d))) (wd_items d),
     filter (\<lambda>p. up_user_id p = v) (wd_preferences d))"

text \<open>What a method of a request of user \<open>u\<close> that began in \<open>d\<close> keeps.\<close>

definition own_step :: "int \<Rightarrow> watch_db \<Rightarrow> watch_db \<Rightarrow> bool" where
  "own_step u d s \<longleftrightarrow> watch_ok s \<and> (\<forall>v. v \<noteq> u \<longrightarrow> rows_of v s = rows_of v d) \<and>
     wd_stocks s = wd_stocks d \<and> wd_users s = wd_users d \<and> wd_foreign_keys s = wd_foreign_keys d"

lemma own_step_refl: "watch_ok d \<Longrightarrow> own_step u d d"
  by (simp add: own_step_def)

lemma own_step_trans: "own_step u d s \<Longrightarrow> own_step u s t \<Longrightarrow> own_step u d t"
  by (simp add: own_step_def)

text \<open>Row \<open>w\<close> is still a watchlist of its user.\<close>

definition still :: "watchlist \<Rightarrow> watch_db \<Rightarrow> bool" where
  "still w d \<longleftrightarrow> (\<exists>r \<in> set (wd_watchlists d). wl_id r = wl_id w \<and> wl_user_id r = wl_user_id w)"

subsection \<open>One flush at a time\<close>

text \<open>A change of watchlists that keeps their ids and users keeps what items and preferences need.\<close>

lemma lists_of_map:
  "(\<And>w. wl_user_id (f w) = wl_user_id w) \<Longrightarrow> (\<And>w. wl_user_id w = v \<Longrightarrow> w \<in> set ws \<Longrightarrow> f w = w) \<Longrightarrow>
   lists_of v (map f ws) = lists_of v ws"
  by (induction ws) (auto simp: lists_of_def)

lemma own_step_lists:
  assumes ok: "watch_ok d"
    and same: "\<And>w. wl_id (f w) = wl_id w" "\<And>w. wl_user_id (f w) = wl_user_id w"
    and others: "\<And>w. w \<in> set (wd_watchlists d) \<Longrightarrow> wl_user_id w \<noteq> u \<Longrightarrow> f w = w"
    and lists: "lists_ok (map f (wd_watchlists d))"
  shows "own_step u d (d\<lparr>wd_watchlists := map f (wd_watchlists d)\<rparr>)"
proof -
  have ids: "wl_id ` set (map f (wd_watchlists d)) = wl_id ` set (wd_watchlists d)"
    using same(1) by (force simp: image_iff)
  have "preferences_ok (wd_foreign_keys d) (map f (wd_watchlists d)) (wd_preferences d)"
    using ok same by (fastforce simp: watch_ok_def preferences_ok_def)
  moreover have "items_ok (map f (wd_watchlists d)) (wd_stocks d) (wd_items d)"
    using ok ids by (simp add: watch_ok_def items_ok_def)
  moreover have "lists_of v (map f (wd_watchlists d)) = lists_of v (wd_watchlists d)" if "v \<noteq> u" for v
    using that others same by (intro lists_of_map) auto
  ultimately show ?thesis
    using lists by (simp add: own_step_def watch_ok_def rows_of_def)
qed

lemma lists_ok_map:
  assumes ok: "lists_ok ws"
    and same: "\<And>w. wl_id (f w) = wl_id w" "\<And>w. wl_user_id (f w) = wl_user_id w" "\<And>w. wl_name (f w) = wl_name w"
    and default: "single_default (map f ws)"
  shows "lists_ok (map f ws)"
proof -
  have "map wl_id (map f ws) = map wl_id ws" by (simp add: same)
  moreover have "unique_names (map f ws)" using ok
    by (simp only: lists_ok_def unique_names_def set_map ball_simps same) blast
  ultimately show ?thesis using ok default by (simp add: lists_ok_def same del: map_map)
qed

lemma single_default_fewer:
  assumes "single_default ws" and "\<And>w. wl_id (f w) = wl_id w" and "\<And>w. wl_user_id (f w) = wl_user_id w"
    and "\<And>w. wl_is_default (f w) \<Longrightarrow> wl_is_default w"
  shows "single_default (map f ws)"
  using assms(1,4) unfolding single_default_def by (simp only: set_map ball_simps assms(2,3)) blast

definition cleared :: "int \<Rightarrow> int \<Rightarrow> watchlist \<Rightarrow> watchlist" where
  "cleared now u w = (if wl_user_id w = u \<and> wl_is_default w then w\<lparr>wl_is_default := False, wl_updated_at := now\<rparr> else w)"

lemma cleared_simps [simp]:
  "wl_id (cleared now u w) = wl_id w" "wl_user_id (cleared now u w) = wl_user_id w"
  "wl_name (cleared now u w) = wl_name w"
  "wl_is_default (cleared now u w) \<longleftrightarrow> wl_is_default w \<and> wl_user_id w \<noteq> u"
  by (auto simp: cleared_def)

lemma clear_default_eq:
  "clear_default_for_user u d = (Inr (), d\<lparr>wd_watchlists := map (cleared (wd_now d) u) (wd_watchlists d)\<rparr>)"
  by (simp add: clear_default_for_user_def smodify_def cleared_def [abs_def])

lemma lists_ok_cleared: "lists_ok ws \<Longrightarrow> lists_ok (map (cleared now u) ws)"
  by (rule lists_ok_map, assumption) (auto simp: lists_ok_def intro!: single_default_fewer)

lemma clear_default_step:
  assumes "watch_ok d"
  shows "own_step u d (d\<lparr>wd_watchlists := map (cleared (wd_now d) u) (wd_watchlists d)\<rparr>)"
proof (rule own_step_lists [OF assms])
  show "lists_ok (map (cleared (wd_now d) u) (wd_watchlists d))"
    using assms by (intro lists_ok_cleared) (simp add: watch_ok_def)
qed (simp_all, simp add: cleared_def)

text \<open>Items and preferences need only that no watchlist they name disappears.\<close>

lemma items_ok_more:
  "items_ok ws stocks is \<Longrightarrow> wl_id ` set ws \<subseteq> wl_id ` set ws' \<Longrightarrow> items_ok ws' stocks is"
  by (auto simp: items_ok_def)

lemma preferences_ok_more:
  "preferences_ok fk ws ps \<Longrightarrow> set ws \<subseteq> set ws' \<Longrightarrow> preferences_ok fk ws' ps"
  unfolding preferences_ok_def by blast

lemma preferences_ok_map:
  assumes ok: "preferences_ok fk ws ps"
    and same: "\<And>p. up_id (f p) = up_id p" "\<And>p. up_user_id (f p) = up_user_id p"
    and clean: "\<And>p. p \<in> set ps \<Longrightarrow> no_secrets_in_notification (up_notification_preferences (f p))"
    and refs: "\<And>p i. fk \<Longrightarrow> p \<in> set ps \<Longrightarrow> up_default_watchlist_id (f p) = Some i \<Longrightarrow>
      \<exists>w \<in> set ws'. wl_id w = i \<and> wl_user_id w = up_user_id p"
  shows "preferences_ok fk ws' (map f ps)"
proof -
  have "map up_id (map f ps) = map up_id ps" "map up_user_id (map f ps) = map up_user_id ps" by (simp_all add: same)
  with ok clean refs show ?thesis unfolding preferences_ok_def by (simp only: set_map ball_simps same) blast
qed

lemma unique_names_snoc:
  assumes "unique_names ws" and "\<forall>x \<in> set ws. wl_user_id x = wl_user_id w \<longrightarrow> wl_name x \<noteq> wl_name w"
  shows "unique_names (ws @ [w])"
  using assms unfolding unique_names_def set_append list.set by (metis UnE empty_iff insert_iff)

lemma single_default_snoc:
  assumes "single_default ws"
    and "wl_is_default w \<Longrightarrow> \<forall>x \<in> set ws. wl_user_id x = wl_user_id w \<longrightarrow> \<not> wl_is_default x"
  shows "single_default (ws @ [w])"
  using assms unfolding single_default_def set_append list.set by (metis UnE empty_iff insert_iff)

lemma watchlist_add_step:
  assumes ok: "watch_ok d" and name: "name_not_empty name = Some name"
    and free: "is_default \<Longrightarrow> \<forall>w \<in> set (wd_watchlists d). wl_user_id w = u \<longrightarrow> \<not> wl_is_default w"
    and run: "watchlist_add u name is_default d = (Inr i, d')"
  shows "own_step u d d'"
proof -
  let ?ws = "wd_watchlists d"
  let ?w = "\<lparr>wl_id = t_next wl_id ?ws, wl_user_id = u, wl_name = name, wl_is_default = is_default,
    wl_created_at = wd_now d, wl_updated_at = wd_now d\<rparr>"
  have d': "d' = d\<lparr>wd_watchlists := ?ws @ [?w]\<rparr>" and new: "\<not> name_taken (t_next wl_id ?ws) u name d"
    using run by (auto simp: watchlist_add_def Let_def split: if_splits)
  have fresh: "\<forall>w \<in> set ?ws. wl_id w \<noteq> t_next wl_id ?ws" by (auto dest: t_next_gt [of _ _ wl_id])
  have lists: "lists_ok ?ws" using ok by (simp add: watch_ok_def)
  have "distinct (map wl_id (?ws @ [?w]))"
    using lists fresh unfolding lists_ok_def by (simp only: map_append distinct_append) auto
  moreover have "unique_names (?ws @ [?w])"
  proof -
    have "\<forall>w \<in> set ?ws. wl_user_id w = u \<longrightarrow> wl_name w \<noteq> name"
      using new fresh unfolding name_taken_def by blast
    then show ?thesis using lists by (intro unique_names_snoc) (auto simp: lists_ok_def)
  qed
  moreover have "single_default (?ws @ [?w])"
  proof (rule single_default_snoc)
    show "single_default ?ws" using lists by (simp only: lists_ok_def)
  next
    assume "wl_is_default ?w"
    then have is_default by simp
    with free show "\<forall>x \<in> set ?ws. wl_user_id x = wl_user_id ?w \<longrightarrow> \<not> wl_is_default x" by simp
  qed
  ultimately have "lists_ok (?ws @ [?w])" using lists name by (simp add: lists_ok_def)
  moreover have "items_ok (?ws @ [?w]) (wd_stocks d) (wd_items d)"
    by (rule items_ok_more [of ?ws]) (use ok in \<open>auto simp: watch_ok_def\<close>)
  moreover have "preferences_ok (wd_foreign_keys d) (?ws @ [?w]) (wd_preferences d)"
    by (rule preferences_ok_more [of _ ?ws]) (use ok in \<open>auto simp: watch_ok_def\<close>)
  moreover have "rows_of v d' = rows_of v d" if "v \<noteq> u" for v
    using that by (simp add: rows_of_def lists_of_def d')
  ultimately show ?thesis by (simp add: own_step_def watch_ok_def d')
qed

lemma watchlist_create_step:
  assumes ok: "watch_ok d" and name: "name_not_empty name = Some name"
    and run: "watchlist_create u name is_default d = (Inr i, d')"
  shows "own_step u d d'"
proof (cases is_default)
  case True
  let ?d = "d\<lparr>wd_watchlists := map (cleared (wd_now d) u) (wd_watchlists d)\<rparr>"
  from run True have add: "watchlist_add u name True ?d = (Inr i, d')"
    by (simp add: watchlist_create_def sbind_def clear_default_eq)
  have cleared: "own_step u d ?d" by (rule clear_default_step [OF ok])
  then have "watch_ok ?d" by (simp add: own_step_def)
  from watchlist_add_step [OF this name _ add] have "own_step u ?d d'" by auto
  with cleared show ?thesis by (rule own_step_trans)
next
  case False
  with run have "watchlist_add u name False d = (Inr i, d')"
    by (simp add: watchlist_create_def monad_simps)
  from watchlist_add_step [OF ok name _ this] show ?thesis by simp
qed

text \<open>Rows updated by key: \<open>w\<close> is the loaded row, still there.\<close>

lemma still_user: "watch_ok d \<Longrightarrow> still w d \<Longrightarrow> r \<in> set (wd_watchlists d) \<Longrightarrow> wl_id r = wl_id w \<Longrightarrow>
    wl_user_id r = wl_user_id w"
  unfolding still_def watch_ok_def lists_ok_def distinct_map by (metis inj_onD)

lemma still_map:
  assumes "\<And>r. wl_id (f r) = wl_id r" and "\<And>r. wl_user_id (f r) = wl_user_id r" and "still w d"
  shows "still w (d\<lparr>wd_watchlists := map f (wd_watchlists d)\<rparr>)"
  using assms(3) by (simp add: still_def assms(1,2))

lemma rename_step:
  assumes ok: "watch_ok d" and w: "still w d" "wl_user_id w = u" and name: "name_not_empty name = Some name"
    and run: "watchlist_rename w name d = (Inr (), d')"
  shows "own_step u d d' \<and> still w d'"
proof -
  let ?ws = "wd_watchlists d"
  let ?f = "\<lambda>r. if wl_id r = wl_id w then r\<lparr>wl_name := name, wl_updated_at := wd_now d\<rparr> else r"
  have d': "d' = d\<lparr>wd_watchlists := map ?f ?ws\<rparr>" and new: "\<not> name_taken (wl_id w) u name d"
    using run w(2) by (auto simp: watchlist_rename_def t_upd_def split: if_splits)
  have lists: "lists_ok ?ws" using ok by (simp add: watch_ok_def)
  have owner: "wl_user_id r = u" if "r \<in> set ?ws" "wl_id r = wl_id w" for r
    using still_user [OF ok w(1) that] w(2) by simp
  have ids: "map wl_id (map ?f ?ws) = map wl_id ?ws" by simp
  have "unique_names (map ?f ?ws)"
    unfolding unique_names_def set_map ball_simps
  proof (intro ballI impI)
    fix x y assume xy: "x \<in> set ?ws" "y \<in> set ?ws" 
      and same: "wl_user_id (?f x) = wl_user_id (?f y)" "wl_name (?f x) = wl_name (?f y)"
    have other: "wl_name r \<noteq> name" if "r \<in> set ?ws" "wl_id r \<noteq> wl_id w" "wl_user_id r = u" for r
      using new that unfolding name_taken_def by blast
    have apart: "wl_id x = wl_id y" if "wl_user_id x = wl_user_id y" "wl_name x = wl_name y"
      using lists xy that unfolding lists_ok_def unique_names_def by blast
    have "wl_id x = wl_id y"
    proof (cases "wl_id x = wl_id w \<longleftrightarrow> wl_id y = wl_id w")
      case True
      with same apart show ?thesis by (cases "wl_id x = wl_id w") simp_all
    next
      case False
      with same owner [OF xy(1)] owner [OF xy(2)] other [OF xy(1)] other [OF xy(2)] show ?thesis
        by (cases "wl_id x = wl_id w") auto
    qed
    then show "wl_id (?f x) = wl_id (?f y)" by simp
  qed
  moreover have "single_default (map ?f ?ws)"
    using lists by (intro single_default_fewer) (auto simp: lists_ok_def split: if_splits)
  moreover have "\<forall>r \<in> set (map ?f ?ws). name_not_empty (wl_name r) = Some (wl_name r)"
    using lists name unfolding lists_ok_def set_map ball_simps by simp
  ultimately have "lists_ok (map ?f ?ws)"
    using lists ids unfolding lists_ok_def by (simp only:)
  then have "own_step u d d'"
    unfolding d' using owner by (intro own_step_lists [OF ok]) auto
  moreover have "still w d'" unfolding d' by (rule still_map [OF _ _ w(1)]) simp_all
  ultimately show ?thesis by simp
qed

lemma set_default_step:
  assumes ok: "watch_ok d" and w: "still w d" "wl_user_id w = u" and run: "set_default w d = (Inr (), d')"
  shows "own_step u d d'"
proof (cases "wl_is_default w")
  case True
  with run ok show ?thesis by (simp add: set_default_def monad_simps own_step_refl)
next
  case False
  let ?ws = "map (cleared (wd_now d) u) (wd_watchlists d)"
  let ?f = "\<lambda>r. if wl_id r = wl_id w then r\<lparr>wl_is_default := True, wl_updated_at := wd_now d\<rparr> else r"
  let ?d = "d\<lparr>wd_watchlists := ?ws\<rparr>"
  from run False have d': "d' = ?d\<lparr>wd_watchlists := map ?f (wd_watchlists ?d)\<rparr>"
    by (simp add: set_default_def sbind_def clear_default_eq w(2) smodify_def t_upd_def cong: if_cong)
  have cleared: "own_step u d ?d" by (rule clear_default_step [OF ok])
  then have ok': "watch_ok ?d" by (simp add: own_step_def)
  then have lists: "lists_ok ?ws" by (simp add: watch_ok_def)
  have there: "still w ?d" by (rule still_map [OF _ _ w(1)]) simp_all
  have owner: "wl_user_id r = u" if "r \<in> set ?ws" "wl_id r = wl_id w" for r
    using still_user [OF ok' there, of r] that w(2) by simp
  have plain: "\<not> wl_is_default r" if "r \<in> set ?ws" "wl_user_id r = u" for r
  proof -
    from that(1) obtain x where "r = cleared (wd_now d) u x" by auto
    with that(2) show ?thesis by simp
  qed
  have "single_default (map ?f ?ws)"
    unfolding single_default_def set_map [of ?f] ball_simps
  proof (intro ballI impI)
    fix x y assume xy: "x \<in> set ?ws" "y \<in> set ?ws" and user: "wl_user_id (?f x) = wl_user_id (?f y)"
      and default: "wl_is_default (?f x)" "wl_is_default (?f y)"
    have apart: "wl_id x = wl_id y" if "wl_is_default x" "wl_is_default y"
    proof -
      from user have "wl_user_id x = wl_user_id y" by (simp split: if_splits)
      with lists xy that show ?thesis unfolding lists_ok_def single_default_def by blast
    qed
    have "wl_id x = wl_id y"
    proof (cases "wl_id x = wl_id w \<longleftrightarrow> wl_id y = wl_id w")
      case True
      with default apart show ?thesis by (cases "wl_id x = wl_id w") simp_all
    next
      case False
      have users: "wl_user_id x = wl_user_id y" using user by (simp split: if_splits)
      from False consider "wl_id x = wl_id w" "wl_is_default y" | "wl_id y = wl_id w" "wl_is_default x"
        using default by (auto split: if_splits)
      then have False
      proof cases
        case 1
        then have "wl_user_id y = u" using owner [OF xy(1)] users by metis
        then show False using plain [OF xy(2)] 1(2) by blast
      next
        case 2
        then have "wl_user_id x = u" using owner [OF xy(2)] users by metis
        then show False using plain [OF xy(1)] 2(2) by blast
      qed
      then show ?thesis ..
    qed
    then show "wl_id (?f x) = wl_id (?f y)" by simp
  qed
  then have "lists_ok (map ?f ?ws)" by (intro lists_ok_map [OF lists]) simp_all
  moreover have sel: "wd_watchlists ?d = ?ws" by simp
  ultimately have lists': "lists_ok (map ?f (wd_watchlists ?d))" by (simp only:)
  have "own_step u ?d d'"
    unfolding d'
  proof (rule own_step_lists [OF ok' _ _ _ lists'])
    fix r assume "r \<in> set (wd_watchlists ?d)" "wl_user_id r \<noteq> u"
    with owner [of r] have "wl_id r \<noteq> wl_id w" by (simp only: sel) blast
    then show "?f r = r" by simp
  qed simp_all
  with cleared show ?thesis by (rule own_step_trans)
qed

lemma lists_ok_filter:
  assumes "lists_ok ws"
  shows "lists_ok (filter P ws)"
proof -
  have "unique_names (filter P ws)" "single_default (filter P ws)"
    using assms unfolding lists_ok_def unique_names_def single_default_def set_filter by blast+
  with assms show ?thesis unfolding lists_ok_def by (simp only: distinct_map_filter set_filter) blast
qed

lemma watchlist_delete_step:
  assumes ok: "watch_ok d" and w: "still w d" "wl_user_id w = u" and run: "watchlist_delete w d = (Inr (), d')"
  shows "own_step u d d'"
proof -
  let ?ws = "filter (\<lambda>r. wl_id r \<noteq> wl_id w) (wd_watchlists d)"
  let ?is = "filter (\<lambda>i. wi_watchlist_id i \<noteq> wl_id w) (wd_items d)"
  let ?f = "\<lambda>p. if up_default_watchlist_id p = Some (wl_id w) then p\<lparr>up_default_watchlist_id := None\<rparr> else p"
  let ?ps = "if wd_foreign_keys d then map ?f (wd_preferences d) else wd_preferences d"
  have d': "d' = d\<lparr>wd_watchlists := ?ws, wd_items := ?is, wd_preferences := ?ps\<rparr>"
    using run by (simp add: watchlist_delete_def smodify_def)
  have owner: "wl_user_id r = u" if "r \<in> set (wd_watchlists d)" "wl_id r = wl_id w" for r
    using still_user [OF ok w(1) that] w(2) by simp
  have "lists_ok ?ws" using ok by (auto simp: watch_ok_def intro: lists_ok_filter)
  moreover have "items_ok ?ws (wd_stocks d) ?is"
    using ok unfolding watch_ok_def items_ok_def by (auto simp: distinct_map_filter)
  moreover have "preferences_ok (wd_foreign_keys d) ?ws ?ps"
  proof (cases "wd_foreign_keys d")
    case True
    have "\<exists>r \<in> set ?ws. wl_id r = i \<and> wl_user_id r = up_user_id p"
      if p: "p \<in> set (wd_preferences d)" and i: "up_default_watchlist_id (?f p) = Some i" for p i
    proof -
      from i have "up_default_watchlist_id p = Some i" "i \<noteq> wl_id w" by (auto split: if_splits)
      with ok True p show ?thesis unfolding watch_ok_def preferences_ok_def by fastforce
    qed
    then have "preferences_ok True ?ws (map ?f (wd_preferences d))"
      using ok True by (intro preferences_ok_map [of True "wd_watchlists d"]) (auto simp: watch_ok_def preferences_ok_def)
    with True show ?thesis by simp
  next
    case False
    with ok show ?thesis by (simp add: watch_ok_def preferences_ok_def)
  qed
  moreover have "rows_of v d' = rows_of v d" if v: "v \<noteq> u" for v
  proof -
    have same: "lists_of v ?ws = lists_of v (wd_watchlists d)"
      unfolding lists_of_def filter_filter using owner v by (intro filter_cong) auto
    have "wl_id w \<notin> wl_id ` set (lists_of v (wd_watchlists d))" using owner v by (auto simp: lists_of_def)
    then have items: "filter (\<lambda>i. wi_watchlist_id i \<in> wl_id ` set (lists_of v (wd_watchlists d))) ?is =
        filter (\<lambda>i. wi_watchlist_id i \<in> wl_id ` set (lists_of v (wd_watchlists d))) (wd_items d)"
      unfolding filter_filter by (intro filter_cong) auto
    have "filter (\<lambda>p. up_user_id p = v) ?ps = filter (\<lambda>p. up_user_id p = v) (wd_preferences d)"
    proof (cases "wd_foreign_keys d")
      case True
      have "?f p = p" if "p \<in> set (wd_preferences d)" "up_user_id p = v" for p
        using ok True that owner v unfolding watch_ok_def preferences_ok_def by fastforce
      then have "filter (\<lambda>p. up_user_id p = v) (map ?f (wd_preferences d)) = filter (\<lambda>p. up_user_id p = v) (wd_preferences d)"
        by (induction "wd_preferences d") (auto simp: filter_map comp_def intro!: map_idI)
      with True show ?thesis by simp
    qed simp
    with same items show ?thesis by (simp add: rows_of_def d')
  qed
  ultimately show ?thesis by (simp add: own_step_def watch_ok_def d')
qed

lemma items_ok_map:
  assumes ok: "items_ok ws stocks is"
    and same: "\<And>i. wi_id (f i) = wi_id i" "\<And>i. wi_watchlist_id (f i) = wi_watchlist_id i"
      "\<And>i. wi_symbol (f i) = wi_symbol i"
    and memo: "\<And>i. i \<in> set is \<Longrightarrow> memo_length (wi_memo (f i))"
  shows "items_ok ws stocks (map f is)"
proof -
  have "map wi_id (map f is) = map wi_id is"
    "map (\<lambda>i. (wi_watchlist_id i, wi_symbol i)) (map f is) = map (\<lambda>i. (wi_watchlist_id i, wi_symbol i)) is"
    by (simp_all add: same)
  with ok memo show ?thesis unfolding items_ok_def by (simp only: set_map ball_simps same) blast
qed

text \<open>A change of the items on watchlists of \<open>u\<close> is invisible to the others.\<close>

lemma owner_unique:
  assumes "watch_ok d" and "still w d" and "v \<noteq> wl_user_id w"
  shows "wl_id w \<notin> wl_id ` set (lists_of v (wd_watchlists d))"
  using still_user [OF assms(1,2)] assms(3) by (auto simp: lists_of_def)

lemma own_step_items:
  assumes ok: "watch_ok d" and w: "still w d" "wl_user_id w = u"
    and items: "items_ok (wd_watchlists d) (wd_stocks d) is"
    and elsewhere: "filter (\<lambda>i. wi_watchlist_id i \<noteq> wl_id w) is = filter (\<lambda>i. wi_watchlist_id i \<noteq> wl_id w) (wd_items d)"
  shows "own_step u d (d\<lparr>wd_items := is\<rparr>)"
proof -
  have "filter (\<lambda>i. wi_watchlist_id i \<in> A) is = filter (\<lambda>i. wi_watchlist_id i \<in> A) (wd_items d)"
    if "wl_id w \<notin> A" for A
  proof -
    have "filter (\<lambda>i. wi_watchlist_id i \<in> A) xs =
        filter (\<lambda>i. wi_watchlist_id i \<in> A) (filter (\<lambda>i. wi_watchlist_id i \<noteq> wl_id w) xs)" for xs :: "watchlist_item list"
      unfolding filter_filter using that by (intro filter_cong) auto
    from this [of "is"] this [of "wd_items d"] show ?thesis by (simp only: elsewhere)
  qed
  then show ?thesis
    using ok items owner_unique [OF ok w(1)] w(2) by (simp add: own_step_def watch_ok_def rows_of_def)
qed

lemma item_add_step:
  assumes ok: "watch_ok d" and w: "still w d" "wl_user_id w = u"
    and canonical: "normalize_symbol symbol = Inr symbol" and stock: "symbol \<in> st_symbol ` set (wd_stocks d)"
    and memo: "memo_length memo" and run: "item_add (wl_id w) symbol memo d = (Inr i, d')"
  shows "own_step u d d'"
proof -
  let ?i = "\<lparr>wi_id = t_next wi_id (wd_items d), wi_watchlist_id = wl_id w, wi_symbol = symbol, wi_memo = memo,
    wi_created_at = wd_now d, wi_updated_at = wd_now d\<rparr>"
  have d': "d' = d\<lparr>wd_items := wd_items d @ [?i]\<rparr>" and new: "\<not> symbol_taken (wl_id w) symbol d"
    using run by (auto simp: item_add_def Let_def split: if_splits)
  have there: "wl_id w \<in> wl_id ` set (wd_watchlists d)" using w(1) unfolding still_def by (metis image_eqI)
  have fresh: "t_next wi_id (wd_items d) \<notin> wi_id ` set (wd_items d)" by (auto dest: t_next_gt [of _ _ wi_id])
  have pair: "(wl_id w, symbol) \<notin> (\<lambda>i. (wi_watchlist_id i, wi_symbol i)) ` set (wd_items d)"
    using new by (auto simp: symbol_taken_def)
  have "items_ok (wd_watchlists d) (wd_stocks d) (wd_items d @ [?i])"
    using ok there fresh pair canonical stock memo
    by (simp add: watch_ok_def items_ok_def)
  then show ?thesis unfolding d' by (intro own_step_items [OF ok w]) simp_all
qed

lemma update_memo_step:
  assumes ok: "watch_ok d" and w: "still w d" "wl_user_id w = u"
    and item: "item \<in> set (wd_items d)" "wi_watchlist_id item = wl_id w"
    and memo: "memo_length memo" and run: "update_memo (wi_id item) memo d = (Inr x, d')"
  shows "own_step u d d'"
proof -
  let ?f = "\<lambda>r. if wi_id r = wi_id item then r\<lparr>wi_memo := memo, wi_updated_at := wd_now d\<rparr> else r"
  have d': "d' = d\<lparr>wd_items := map ?f (wd_items d)\<rparr>"
    using run by (auto simp: update_memo_def lift_result_def monad_simps t_upd_def split: sum.splits)
  have "r = item" if "r \<in> set (wd_items d)" "wi_id r = wi_id item" for r
    using ok item(1) that unfolding watch_ok_def items_ok_def distinct_map by (metis inj_onD)
  then have moved: "wi_watchlist_id r = wl_id w" if "r \<in> set (wd_items d)" "wi_id r = wi_id item" for r
    using that item(2) by metis
  have "items_ok (wd_watchlists d) (wd_stocks d) (map ?f (wd_items d))"
    using ok memo by (intro items_ok_map) (auto simp: watch_ok_def items_ok_def)
  moreover have "filter (\<lambda>i. wi_watchlist_id i \<noteq> wl_id w) (map ?f xs) = filter (\<lambda>i. wi_watchlist_id i \<noteq> wl_id w) xs"
    if "set xs \<subseteq> set (wd_items d)" for xs
    using that by (induction xs) (auto dest: moved)
  ultimately show ?thesis unfolding d' by (intro own_step_items [OF ok w]) auto
qed

lemma find_in: "find P xs = Some x \<Longrightarrow> x \<in> set xs \<and> P x"
  by (auto simp: find_Some_iff)

lemma remove_item_step:
  assumes ok: "watch_ok d" and w: "still w d" "wl_user_id w = u"
    and run: "remove_item (wl_id w) symbol d = (Inr b, d')"
  shows "own_step u d d'"
proof -
  from run obtain canonical item where
    "d' = d \<or> d' = d\<lparr>wd_items := filter (\<lambda>r. wi_id r \<noteq> wi_id item) (wd_items d)\<rparr> \<and>
      item \<in> set (wd_items d) \<and> wi_watchlist_id item = wl_id w"
    by (auto simp: remove_item_def get_item_def lift_result_def monad_simps
        split: sum.splits option.splits dest!: find_in)
  then consider "d' = d"
    | "d' = d\<lparr>wd_items := filter (\<lambda>r. wi_id r \<noteq> wi_id item) (wd_items d)\<rparr>" "item \<in> set (wd_items d)"
      "wi_watchlist_id item = wl_id w" by blast
  then show ?thesis
  proof cases
    case 1
    then show ?thesis by (simp add: own_step_refl [OF ok])
  next
    case 2
    have "r = item" if "r \<in> set (wd_items d)" "wi_id r = wi_id item" for r
      using ok 2(2) that unfolding watch_ok_def items_ok_def distinct_map by (metis inj_onD)
    then have "filter (\<lambda>i. wi_watchlist_id i \<noteq> wl_id w) (filter (\<lambda>r. wi_id r \<noteq> wi_id item) (wd_items d)) =
        filter (\<lambda>i. wi_watchlist_id i \<noteq> wl_id w) (wd_items d)"
      unfolding filter_filter using 2(3) by (intro filter_cong) auto
    moreover have "items_ok (wd_watchlists d) (wd_stocks d) (filter (\<lambda>r. wi_id r \<noteq> wi_id item) (wd_items d))"
      using ok by (auto simp: watch_ok_def items_ok_def distinct_map_filter)
    ultimately show ?thesis unfolding 2(1) by (intro own_step_items [OF ok w])
  qed
qed

lemma own_step_preferences:
  assumes ok: "watch_ok d" and prefs: "preferences_ok (wd_foreign_keys d) (wd_watchlists d) ps"
    and elsewhere: "filter (\<lambda>p. up_user_id p \<noteq> u) ps = filter (\<lambda>p. up_user_id p \<noteq> u) (wd_preferences d)"
  shows "own_step u d (d\<lparr>wd_preferences := ps\<rparr>)"
proof -
  have "filter (\<lambda>p. up_user_id p = v) ps = filter (\<lambda>p. up_user_id p = v) (wd_preferences d)" if "v \<noteq> u" for v
  proof -
    have "filter (\<lambda>p. up_user_id p = v) xs = filter (\<lambda>p. up_user_id p = v) (filter (\<lambda>p. up_user_id p \<noteq> u) xs)"
      for xs :: "user_preference list"
      unfolding filter_filter using that by (intro filter_cong) auto
    from this [of ps] this [of "wd_preferences d"] show ?thesis by (simp only: elsewhere)
  qed
  then show ?thesis using ok prefs by (simp add: own_step_def watch_ok_def rows_of_def)
qed

text \<open>\<open>holds u i d\<close>: row \<open>i\<close> holds the preferences of \<open>u\<close>.\<close>

definition holds :: "int \<Rightarrow> int \<Rightarrow> watch_db \<Rightarrow> bool" where
  "holds u i d \<longleftrightarrow> (\<exists>p \<in> set (wd_preferences d). up_id p = i \<and> up_user_id p = u)"

lemma holds_user: "watch_ok d \<Longrightarrow> holds u i d \<Longrightarrow> p \<in> set (wd_preferences d) \<Longrightarrow> up_id p = i \<Longrightarrow> up_user_id p = u"
  unfolding holds_def watch_ok_def preferences_ok_def distinct_map by (metis inj_onD)

lemma preference_add_step:
  assumes ok: "watch_ok d" and run: "preference_add u d = (Inr i, d')"
  shows "own_step u d d' \<and> holds u i d'"
proof -
  let ?p = "\<lparr>up_id = t_next up_id (wd_preferences d), up_user_id = u, up_default_watchlist_id = None,
    up_default_market = None, up_default_strategy = None, up_dashboard_layout = None,
    up_notification_preferences = None, up_created_at = wd_now d, up_updated_at = wd_now d\<rparr>"
  have d': "d' = d\<lparr>wd_preferences := wd_preferences d @ [?p]\<rparr>" and i: "i = t_next up_id (wd_preferences d)"
    and new: "u \<notin> up_user_id ` set (wd_preferences d)"
    using run by (auto simp: preference_add_def Let_def split: if_splits)
  have fresh: "t_next up_id (wd_preferences d) \<notin> up_id ` set (wd_preferences d)"
    by (auto dest: t_next_gt [of _ _ up_id])
  have "preferences_ok (wd_foreign_keys d) (wd_watchlists d) (wd_preferences d @ [?p])"
    using ok new fresh by (simp add: watch_ok_def preferences_ok_def no_secrets_in_notification_def)
  then have "own_step u d d'" unfolding d' by (intro own_step_preferences [OF ok]) simp_all
  then show ?thesis by (simp add: holds_def d' i)
qed

lemma get_or_create_step:
  assumes ok: "watch_ok d" and run: "get_or_create_for_user u d = (Inr i, d')"
  shows "own_step u d d' \<and> holds u i d'"
proof (cases "find (\<lambda>p. up_user_id p = u) (wd_preferences d)")
  case None
  with run have "preference_add u d = (Inr i, d')"
    by (simp add: get_or_create_for_user_def preference_of_user_def monad_simps)
  then show ?thesis by (rule preference_add_step [OF ok])
next
  case (Some p)
  with run have "i = up_id p" "d' = d"
    by (simp_all add: get_or_create_for_user_def preference_of_user_def monad_simps)
  with find_in [OF Some] own_step_refl [OF ok] show ?thesis by (auto simp: holds_def)
qed

lemma preference_write_step:
  assumes ok: "watch_ok d" and row: "holds u i d"
    and same: "\<And>p. up_id (f p) = up_id p" "\<And>p. up_user_id (f p) = up_user_id p"
    and clean: "\<And>p. p \<in> set (wd_preferences d) \<Longrightarrow> no_secrets_in_notification (up_notification_preferences (f p))"
    and refs: "\<And>p j. p \<in> set (wd_preferences d) \<Longrightarrow> up_default_watchlist_id (f p) = Some j \<Longrightarrow>
      up_default_watchlist_id p = Some j \<or> (\<exists>w \<in> set (wd_watchlists d). wl_id w = j \<and> wl_user_id w = u)"
    and run: "preference_write i f d = (Inr x, d')"
  shows "own_step u d d'"
proof -
  let ?g = "\<lambda>p. if up_id p = i then (f p)\<lparr>up_updated_at := wd_now d\<rparr> else p"
  have d': "d' = d\<lparr>wd_preferences := map ?g (wd_preferences d)\<rparr>"
    using run by (auto simp: preference_write_def t_upd_def split: if_splits)
  have old: "\<exists>w \<in> set (wd_watchlists d). wl_id w = j \<and> wl_user_id w = up_user_id p"
    if "wd_foreign_keys d" "p \<in> set (wd_preferences d)" "up_default_watchlist_id p = Some j" for p j
    using ok that unfolding watch_ok_def preferences_ok_def by blast
  have "preferences_ok (wd_foreign_keys d) (wd_watchlists d) (map ?g (wd_preferences d))"
  proof (rule preferences_ok_map [of _ "wd_watchlists d"])
    show "preferences_ok (wd_foreign_keys d) (wd_watchlists d) (wd_preferences d)" using ok by (simp add: watch_ok_def)
    show "no_secrets_in_notification (up_notification_preferences (?g p))" if "p \<in> set (wd_preferences d)" for p
      using that clean ok by (auto simp: watch_ok_def preferences_ok_def)
    show "\<exists>w \<in> set (wd_watchlists d). wl_id w = j \<and> wl_user_id w = up_user_id p"
      if fk: "wd_foreign_keys d" and p: "p \<in> set (wd_preferences d)" and j: "up_default_watchlist_id (?g p) = Some j" for p j
    proof (cases "up_id p = i")
      case True
      with j have "up_default_watchlist_id (f p) = Some j" by simp
      from refs [OF p this] old [OF fk p] show ?thesis unfolding holds_user [OF ok row p True] by (elim disjE)
    next
      case False
      with j old [OF fk p] show ?thesis by simp
    qed
  qed (simp_all add: same)
  moreover have "filter (\<lambda>p. up_user_id p \<noteq> u) (map ?g xs) = filter (\<lambda>p. up_user_id p \<noteq> u) xs"
    if "set xs \<subseteq> set (wd_preferences d)" for xs
    using that by (induction xs) (auto simp: same dest: holds_user [OF ok row])
  ultimately show ?thesis unfolding d' by (intro own_step_preferences [OF ok]) auto
qed

subsection \<open>Requests\<close>

lemma committing_step:
  assumes "watch_ok d" and "\<And>a d'. m d = (Inr a, d') \<Longrightarrow> own_step u d d'"
  shows "own_step u d (snd (committing handler reply m d))"
  using assms by (auto simp: committing_def own_step_refl split: prod.splits sum.splits)

lemma load_owned_step:
  assumes "watch_ok d"
    and "\<And>w. w \<in> set (wd_watchlists d) \<Longrightarrow> wl_id w = i \<Longrightarrow> wl_user_id w = u \<Longrightarrow> own_step u d (snd (k w d))"
  shows "own_step u d (snd (load_owned_watchlist u i k d))"
  using assms
  by (auto simp: load_owned_watchlist_def get_by_user_and_id_def sgets_def own_step_refl
      split: option.splits dest!: find_in)

lemma still_self: "w \<in> set (wd_watchlists d) \<Longrightarrow> still w d"
  by (auto simp: still_def)

lemma snd_map_answer [simp]: "snd (map_answer f r) = snd r"
  by (cases r; cases "fst r") auto

lemma create_watchlist_step: "watch_ok d \<Longrightarrow> own_step u d (snd (create_watchlist u name is_default d))"
  by (auto simp: create_watchlist_def own_step_refl split: option.splits dest: name_not_empty_idem
      intro!: committing_step watchlist_create_step)

lemma delete_watchlist_step: "watch_ok d \<Longrightarrow> own_step u d (snd (delete_watchlist u i d))"
  by (auto simp: delete_watchlist_def own_step_refl
      intro!: load_owned_step committing_step watchlist_delete_step still_self)

lemma patch_watchlist_step:
  assumes ok: "watch_ok d"
  shows "own_step u d (snd (patch_watchlist u i name is_default d))"
proof -
  have "own_step u d d'"
    if w: "w \<in> set (wd_watchlists d)" "wl_user_id w = u" and valid: "name_valid name = Some n"
      and run: "sbind (case n of None \<Rightarrow> sret () | Some x \<Rightarrow> watchlist_rename w x)
         (\<lambda>_. if is_default = Some True then set_default w else sret ()) d = (Inr a, d')" for w n a d'
  proof -
    from run obtain s where first: "(case n of None \<Rightarrow> sret () | Some x \<Rightarrow> watchlist_rename w x) d = (Inr (), s)"
      and rest: "(if is_default = Some True then set_default w else sret ()) s = (Inr a, d')"
      by (elim sbind_InrE) simp
    have s: "own_step u d s \<and> still w s"
    proof (cases n)
      case None
      with first own_step_refl [OF ok] still_self [OF w(1)] show ?thesis by (simp add: monad_simps)
    next
      case (Some x)
      with valid have "name_not_empty x = Some x"
        by (auto simp: name_valid_def split: option.splits dest: name_not_empty_idem)
      with first Some rename_step [OF ok still_self [OF w(1)] w(2)] show ?thesis by simp
    qed
    then have "watch_ok s" by (simp add: own_step_def)
    have "own_step u s d'"
    proof (cases "is_default = Some True")
      case True
      with rest set_default_step [OF \<open>watch_ok s\<close> _ w(2)] s show ?thesis by simp
    next
      case False
      with rest own_step_refl [OF \<open>watch_ok s\<close>] show ?thesis by (simp add: monad_simps)
    qed
    with s show ?thesis by (blast intro: own_step_trans)
  qed
  then show ?thesis
    using ok by (auto simp: patch_watchlist_def own_step_refl split: option.splits
      intro!: load_owned_step committing_step)
qed

lemma get_item_Some:
  "get_item w symbol d = (Inr (Some item), d') \<Longrightarrow> item \<in> set (wd_items d) \<and> wi_watchlist_id item = w"
  by (auto simp: get_item_def lift_result_def monad_simps split: sum.splits dest: find_in)

lemma add_item_step:
  assumes ok: "watch_ok d"
  shows "own_step u d (snd (add_watchlist_item u i symbol memo d))"
proof -
  have "own_step u d d'"
    if canonical: "normalize_symbol symbol = Inr c" and memo: "memo_length memo" and w: "w \<in> set (wd_watchlists d)"
      and stock: "find (\<lambda>s. st_symbol s = c) (wd_stocks d) = Some s" and run: "add_item (wl_id w) c memo d = (Inr a, d')"
      and u: "wl_user_id w = u" for c w s a d'
  proof -
    from canonical have c: "normalize_symbol c = Inr c" by (rule normalize_symbol_idem)
    with run have "item_add (wl_id w) c memo d = (Inr a, d')"
      by (auto simp: add_item_def lift_result_def monad_simps split: sum.splits)
    moreover have "c \<in> st_symbol ` set (wd_stocks d)" using find_in [OF stock] by auto
    ultimately show ?thesis using item_add_step [OF ok still_self [OF w] u c _ memo] by blast
  qed
  then show ?thesis
    using ok by (auto simp: add_watchlist_item_def symbol_not_empty_def own_step_refl
        split: option.splits sum.splits intro!: load_owned_step committing_step)
qed

lemma patch_item_step:
  assumes ok: "watch_ok d"
  shows "own_step u d (snd (patch_watchlist_item u i symbol memo d))"
proof -
  have "own_step u d (snd (case fst (get_item (wl_id w) symbol d) of
          Inl e \<Rightarrow> (invalid_value e, d)
        | Inr None \<Rightarrow> (WatchRefused 404 ''symbol not in this watchlist'', d)
        | Inr (Some item) \<Rightarrow>
            committing invalid_value (\<lambda>_. item_answer (wi_id item)) (update_memo (wi_id item) memo) d))"
    if w: "w \<in> set (wd_watchlists d)" "wl_user_id w = u" and memo: "memo_length memo" for w
  proof -
    have "own_step u d d'" if "fst (get_item (wl_id w) symbol d) = Inr (Some item)"
      "update_memo (wi_id item) memo d = (Inr a, d')" for item a d'
      using that update_memo_step [OF ok still_self [OF w(1)] w(2) _ _ memo]
        get_item_Some [of "wl_id w" symbol d item "snd (get_item (wl_id w) symbol d)"]
      by (metis prod.collapse)
    then show ?thesis
      using ok by (auto simp: own_step_refl split: sum.splits option.splits intro!: committing_step)
  qed
  then show ?thesis
    using ok by (auto simp: patch_watchlist_item_def own_step_refl intro!: load_owned_step)
qed

lemma remove_watchlist_item_step:
  assumes ok: "watch_ok d"
  shows "own_step u d (snd (remove_watchlist_item u i symbol d))"
proof -
  have "own_step u d d'" if "w \<in> set (wd_watchlists d)" "wl_user_id w = u" "remove_item (wl_id w) symbol d = (Inr b, d')"
    for w b d'
    by (rule remove_item_step [OF ok still_self [OF that(1)] that(2,3)])
  then show ?thesis
    using ok by (auto simp: remove_watchlist_item_def own_step_refl split: prod.splits sum.splits
      intro!: load_owned_step)
qed

lemma get_preferences_step: "watch_ok d \<Longrightarrow> own_step u d (snd (get_preferences u d))"
  unfolding get_preferences_def by (rule committing_step) (auto dest: get_or_create_step)

lemma put_preferences_step:
  assumes ok: "watch_ok d"
  shows "own_step u d (snd (put_preferences u q d))"
proof -
  have "own_step u d d'"
    if valid: "preference_request_ok q"
      and owned: "\<And>j. pq_default_watchlist_id q = Some j \<Longrightarrow> \<exists>w \<in> set (wd_watchlists d). wl_id w = j \<and> wl_user_id w = u"
      and run: "sbind (get_or_create_for_user u) (\<lambda>i. sbind (preference_update i (Some (pq_default_watchlist_id q))
        (Some (pq_default_market q)) (Some (pq_default_strategy q)) (Some (pq_dashboard_layout q))
        (Some (pq_notification_preferences q))) (\<lambda>_. sret i)) d = (Inr a, d')" for a d'
  proof -
    let ?f = "\<lambda>p. p\<lparr>up_default_watchlist_id := pq_default_watchlist_id q, up_default_market := pq_default_market q,
      up_default_strategy := pq_default_strategy q, up_dashboard_layout := pq_dashboard_layout q,
      up_notification_preferences := pq_notification_preferences q\<rparr>"
    from run obtain i s where first: "get_or_create_for_user u d = (Inr i, s)"
      and second: "preference_write i ?f s = (Inr (), d')"
      by (elim sbind_InrE) (auto simp: preference_update_def given_def monad_simps)
    from get_or_create_step [OF ok first] have s: "own_step u d s" "holds u i s" by auto
    have lists: "wd_watchlists s = wd_watchlists d"
      using first by (auto simp: get_or_create_for_user_def preference_of_user_def preference_add_def monad_simps Let_def
          split: option.splits if_splits)
    from s(1) have "watch_ok s" by (simp add: own_step_def)
    from preference_write_step [OF this s(2) _ _ _ _ second] valid owned lists
    have "own_step u s d'" by (auto simp: preference_request_ok_def)
    with s(1) show ?thesis by (rule own_step_trans)
  qed
  note run = this
  let ?update = "sbind (get_or_create_for_user u) (\<lambda>i. sbind (preference_update i (Some (pq_default_watchlist_id q))
        (Some (pq_default_market q)) (Some (pq_default_strategy q)) (Some (pq_dashboard_layout q))
        (Some (pq_notification_preferences q))) (\<lambda>_. sret i))"
  show ?thesis
  proof (cases "preference_request_ok q")
    case False
    with own_step_refl [OF ok] show ?thesis by (simp add: put_preferences_def)
  next
    case valid: True
    show ?thesis
    proof (cases "pq_default_watchlist_id q")
      case None
      have "own_step u d (snd (committing WatchCrashed preference_answer ?update d))"
        by (rule committing_step [OF ok], rule run [OF valid]) (simp_all add: None)
      with None valid show ?thesis by (simp add: put_preferences_def)
    next
      case (Some j)
      have "own_step u d (snd (load_owned_watchlist u j (\<lambda>_. committing WatchCrashed preference_answer ?update) d))"
        by (rule load_owned_step [OF ok], rule committing_step [OF ok], rule run [OF valid]) (auto simp: Some)
      with Some valid show ?thesis by (simp add: put_preferences_def)
    qed
  qed
qed

lemma handle_step: "watch_ok d \<Longrightarrow> own_step u d (snd (handle u request d))"
  by (cases request)
    (simp_all add: create_watchlist_step patch_watchlist_step delete_watchlist_step add_item_step patch_item_step
      remove_watchlist_item_step get_preferences_step put_preferences_step,
     auto simp: list_watchlists_def get_watchlist_def list_watchlist_items_def own_step_refl Let_def
      split: sum.splits intro!: load_owned_step)

end
