(* ===== verification/Watch_Isolation.thy ===== *)
theory Watch_Isolation
  imports Watch_Facts Login_Facts
begin

text \<open>
  The answers to a user are computed from the rows of that user. Two databases look alike to
  \<open>u\<close> when the rows of \<open>u\<close>, the clock and the foreign key setting agree; a method that is
  \<open>blind\<close> returns the same for databases that look alike and leaves databases that look alike.
  The last section states the properties of the router.
\<close>

subsection \<open>Methods that see one user\<close>

definition alike :: "int \<Rightarrow> watch_db \<Rightarrow> watch_db \<Rightarrow> bool" where
  "alike u d e \<longleftrightarrow> rows_of u d = rows_of u e \<and> wd_now d = wd_now e \<and> wd_foreign_keys d = wd_foreign_keys e"

definition blind :: "int \<Rightarrow> (watch_db \<Rightarrow> 'a \<times> watch_db) \<Rightarrow> bool" where
  "blind u m \<longleftrightarrow> (\<forall>d e. alike u d e \<longrightarrow> fst (m d) = fst (m e) \<and> alike u (snd (m d)) (snd (m e)))"

lemma blindD: "blind u m \<Longrightarrow> alike u d e \<Longrightarrow> fst (m d) = fst (m e) \<and> alike u (snd (m d)) (snd (m e))"
  by (simp add: blind_def)

lemma blind_ret: "blind u (sret x)"
  by (simp add: blind_def sret_def)

lemma blind_gets: "(\<And>d e. alike u d e \<Longrightarrow> f d = f e) \<Longrightarrow> blind u (sgets f)"
  by (simp add: blind_def sgets_def)

lemma blind_modify: "(\<And>d e. alike u d e \<Longrightarrow> alike u (f d) (f e)) \<Longrightarrow> blind u (smodify f)"
  by (simp add: blind_def smodify_def)

lemma blind_lift: "blind u (lift_result r)"
  by (simp add: blind_def lift_result_def)

lemma blind_bind:
  assumes m: "blind u m" and k: "\<And>a. blind u (k a)"
  shows "blind u (sbind m k)"
  unfolding blind_def
proof (intro allI impI)
  fix d e assume de: "alike u d e"
  obtain r d' where d': "m d = (r, d')" by (cases "m d")
  obtain r' e' where e': "m e = (r', e')" by (cases "m e")
  from blindD [OF m de] have "r' = r" "alike u d' e'" by (simp_all add: d' e')
  with blindD [OF k] show "fst (sbind m k d) = fst (sbind m k e) \<and> alike u (snd (sbind m k d)) (snd (sbind m k e))"
    by (cases r) (auto simp: sbind_def d' e')
qed

lemma alike_views:
  assumes "alike u d e"
  shows "lists_of u (wd_watchlists d) = lists_of u (wd_watchlists e)"
    and "filter (\<lambda>i. wi_watchlist_id i \<in> wl_id ` set (lists_of u (wd_watchlists d))) (wd_items d) =
      filter (\<lambda>i. wi_watchlist_id i \<in> wl_id ` set (lists_of u (wd_watchlists e))) (wd_items e)"
    and "filter (\<lambda>p. up_user_id p = u) (wd_preferences d) = filter (\<lambda>p. up_user_id p = u) (wd_preferences e)"
    and "wd_now d = wd_now e" and "wd_foreign_keys d = wd_foreign_keys e"
  using assms unfolding alike_def rows_of_def prod.inject by - ((elim conjE, assumption)+)

lemma find_filter: "find P (filter Q xs) = find (\<lambda>x. P x \<and> Q x) xs"
  by (induction xs) auto

lemma find_owned: "find (\<lambda>w. wl_id w = i \<and> wl_user_id w = u) ws = find (\<lambda>w. wl_id w = i) (lists_of u ws)"
  by (simp add: lists_of_def find_filter)

lemma alike_owned:
  "alike u d e \<Longrightarrow> fst (get_by_user_and_id u i d) = fst (get_by_user_and_id u i e)"
  by (simp add: get_by_user_and_id_def sgets_def find_owned alike_views(1))

lemma alike_items:
  assumes de: "alike u d e" and w: "w \<in> set (lists_of u (wd_watchlists d))"
  shows "relationship_items d (wl_id w) = relationship_items e (wl_id w)"
proof -
  let ?A = "wl_id ` set (lists_of u (wd_watchlists d))"
  have step: "filter (\<lambda>i. wi_watchlist_id i = wl_id w) is =
      filter (\<lambda>i. wi_watchlist_id i = wl_id w) (filter (\<lambda>i. wi_watchlist_id i \<in> ?A) is)"
    for "is" :: "watchlist_item list"
    unfolding filter_filter using w by (intro filter_cong) auto
  have same: "filter (\<lambda>i. wi_watchlist_id i \<in> ?A) (wd_items d) = filter (\<lambda>i. wi_watchlist_id i \<in> ?A) (wd_items e)"
    using alike_views(2) [OF de] unfolding alike_views(1) [OF de] .
  show ?thesis unfolding relationship_items_def step [of "wd_items d"] step [of "wd_items e"] same ..
qed

lemma alike_lists:
  assumes de: "alike u d e" and same: "\<And>w. wl_id (f w) = wl_id w" "\<And>w. wl_user_id (f w) = wl_user_id w"
  shows "alike u (d\<lparr>wd_watchlists := map f (wd_watchlists d)\<rparr>) (e\<lparr>wd_watchlists := map f (wd_watchlists e)\<rparr>)"
proof -
  have lists: "lists_of u (map f ws) = map f (lists_of u ws)" for ws
    by (simp add: lists_of_def filter_map comp_def same)
  have ids: "wl_id ` f ` A = wl_id ` A" for A by (simp add: image_image same)
  show ?thesis using alike_views [OF de] by (simp add: alike_def rows_of_def lists ids)
qed

lemma blind_committing:
  assumes m: "blind u m" and reply: "\<And>a d e. alike u d e \<Longrightarrow> reply a d = reply a e"
  shows "blind u (committing handler reply m)"
  unfolding blind_def
proof (intro allI impI)
  fix d e assume de: "alike u d e"
  obtain r d' where d': "m d = (r, d')" by (cases "m d")
  obtain r' e' where e': "m e = (r', e')" by (cases "m e")
  from blindD [OF m de] have "r' = r" "alike u d' e'" by (simp_all add: d' e')
  with reply de show "fst (committing handler reply m d) = fst (committing handler reply m e) \<and>
      alike u (snd (committing handler reply m d)) (snd (committing handler reply m e))"
    by (cases r) (auto simp: committing_def d' e')
qed

text \<open>A route behind the ownership check, with the loaded row among the rows of both databases.\<close>

lemma alike_load_owned:
  assumes de: "alike u d e"
    and k: "\<And>w. w \<in> set (lists_of u (wd_watchlists d)) \<Longrightarrow>
      fst (k w d) = fst (k w e) \<and> alike u (snd (k w d)) (snd (k w e))"
  shows "fst (load_owned_watchlist u i k d) = fst (load_owned_watchlist u i k e) \<and>
    alike u (snd (load_owned_watchlist u i k d)) (snd (load_owned_watchlist u i k e))"
proof -
  from alike_views(1) [OF de] have same: "find (\<lambda>w. wl_id w = i \<and> wl_user_id w = u) (wd_watchlists e) =
      find (\<lambda>w. wl_id w = i \<and> wl_user_id w = u) (wd_watchlists d)" by (simp add: find_owned)
  show ?thesis
  proof (cases "find (\<lambda>w. wl_id w = i \<and> wl_user_id w = u) (wd_watchlists d)")
    case None
    with same de show ?thesis by (simp add: load_owned_watchlist_def get_by_user_and_id_def sgets_def)
  next
    case (Some w)
    then have "w \<in> set (lists_of u (wd_watchlists d))" using find_in [OF Some] by (simp add: lists_of_def)
    from k [OF this] same Some show ?thesis by (simp add: load_owned_watchlist_def get_by_user_and_id_def sgets_def)
  qed
qed

lemma alike_summary:
  assumes "alike u d e"
  shows "refreshed_summary u i d = refreshed_summary u i e"
proof (cases "find (\<lambda>w. wl_id w = i) (lists_of u (wd_watchlists d))")
  case None
  with alike_views(1) [OF assms] show ?thesis
    by (simp add: refreshed_summary_def get_by_user_and_id_def sgets_def find_owned)
next
  case (Some w)
  from find_in [OF Some] have "w \<in> set (lists_of u (wd_watchlists d))" "wl_id w = i" by auto
  from alike_items [OF assms this(1)] this(2) Some alike_views(1) [OF assms] show ?thesis
    by (simp add: refreshed_summary_def get_by_user_and_id_def sgets_def find_owned)
qed

subsection \<open>Blind methods\<close>

lemma lists_of_filter_id: "lists_of u (filter P ws) = filter P (lists_of u ws)"
  by (simp add: lists_of_def conj_commute)

lemma blind_clear_default: "blind u (clear_default_for_user u)"
  unfolding blind_def by (auto simp: clear_default_eq alike_views(4) intro: alike_lists)

lemma alike_name_taken:
  assumes "alike u d e" and "wl_user_id w = u"
  shows "name_taken (wl_id w) (wl_user_id w) name d = name_taken (wl_id w) (wl_user_id w) name e"
proof -
  have "name_taken own u name d \<longleftrightarrow> (\<exists>x \<in> set (lists_of u (wd_watchlists d)). wl_id x \<noteq> own \<and> wl_name x = name)" for own d
    by (auto simp: name_taken_def lists_of_def)
  with assms alike_views(1) [OF assms(1)] show ?thesis by simp
qed

lemma blind_rename: "wl_user_id w = u \<Longrightarrow> blind u (watchlist_rename w name)"
  unfolding blind_def
  by (auto simp: watchlist_rename_def t_upd_def alike_views(4) alike_name_taken intro!: alike_lists)

lemma blind_set_default:
  assumes "wl_user_id w = u"
  shows "blind u (set_default w)"
proof -
  have "blind u (smodify (\<lambda>d. d\<lparr>wd_watchlists := t_upd wl_id (wl_id w)
      (\<lambda>r. r\<lparr>wl_is_default := True, wl_updated_at := wd_now d\<rparr>) (wd_watchlists d)\<rparr>))"
    by (rule blind_modify) (auto simp: t_upd_def alike_views(4) intro!: alike_lists)
  with assms show ?thesis unfolding set_default_def by (auto intro!: blind_bind blind_ret blind_clear_default)
qed

lemma blind_delete: "blind u (watchlist_delete w)"
  unfolding watchlist_delete_def
proof (rule blind_modify)
  fix d e assume de: "alike u d e"
  note views = alike_views [OF de]
  let ?P = "\<lambda>r. wl_id r \<noteq> wl_id w" and ?Q = "\<lambda>i. wi_watchlist_id i \<noteq> wl_id w"
  let ?f = "\<lambda>p. if up_default_watchlist_id p = Some (wl_id w) then p\<lparr>up_default_watchlist_id := None\<rparr> else p"
  let ?A = "wl_id ` set (lists_of u (wd_watchlists d))"
  have lists: "lists_of u (filter ?P (wd_watchlists d)) = lists_of u (filter ?P (wd_watchlists e))"
    by (simp only: lists_of_filter_id views(1))
  have items: "filter (\<lambda>i. wi_watchlist_id i \<in> wl_id ` set (filter ?P (lists_of u (wd_watchlists d)))) (filter ?Q is) =
      filter ?Q (filter (\<lambda>i. wi_watchlist_id i \<in> ?A) is)" for "is" :: "watchlist_item list"
    unfolding filter_filter by (intro filter_cong) auto
  have same: "filter (\<lambda>i. wi_watchlist_id i \<in> ?A) (wd_items d) = filter (\<lambda>i. wi_watchlist_id i \<in> ?A) (wd_items e)"
    using views(2) unfolding views(1) .
  have both: "filter (\<lambda>i. wi_watchlist_id i \<in> wl_id ` set (filter ?P (lists_of u (wd_watchlists d)))) (filter ?Q (wd_items d)) =
      filter (\<lambda>i. wi_watchlist_id i \<in> wl_id ` set (filter ?P (lists_of u (wd_watchlists d)))) (filter ?Q (wd_items e))"
    by (simp only: items same)
  have "filter (\<lambda>p. up_user_id p = u) (map ?f ps) = map ?f (filter (\<lambda>p. up_user_id p = u) ps)"
    for ps :: "user_preference list"
    by (simp add: filter_map comp_def if_distrib cong: if_cong)
  then have prefs: "filter (\<lambda>p. up_user_id p = u) (map ?f (wd_preferences d)) = filter (\<lambda>p. up_user_id p = u) (map ?f (wd_preferences e))"
    by (simp only: views(3))
  show "alike u (d\<lparr>wd_watchlists := filter ?P (wd_watchlists d), wd_items := filter ?Q (wd_items d),
      wd_preferences := if wd_foreign_keys d then map ?f (wd_preferences d) else wd_preferences d\<rparr>)
    (e\<lparr>wd_watchlists := filter ?P (wd_watchlists e), wd_items := filter ?Q (wd_items e),
      wd_preferences := if wd_foreign_keys e then map ?f (wd_preferences e) else wd_preferences e\<rparr>)"
    using lists prefs both views by (simp add: alike_def rows_of_def lists_of_filter_id del: filter_filter)
qed

text \<open>An item of \<open>u\<close> is found among the items of \<open>u\<close>.\<close>

definition owns :: "int \<Rightarrow> int \<Rightarrow> watch_db \<Rightarrow> bool" where
  "owns u w d \<longleftrightarrow> w \<in> wl_id ` set (lists_of u (wd_watchlists d))"

lemma alike_get_item:
  assumes de: "alike u d e" and w: "owns u w d"
  shows "fst (get_item w symbol d) = fst (get_item w symbol e)"
proof -
  from w obtain r where r: "r \<in> set (lists_of u (wd_watchlists d))" "w = wl_id r" by (auto simp: owns_def)
  have "find (\<lambda>i. wi_watchlist_id i = w \<and> wi_symbol i = c) (wd_items s) =
      find (\<lambda>i. wi_symbol i = c) (relationship_items s w)" for c s
    by (simp add: relationship_items_def find_filter conj_commute)
  with alike_items [OF de r(1)] r(2) show ?thesis
    by (simp add: get_item_def sbind_def lift_result_def sgets_def split: sum.splits)
qed

lemma alike_change_items:
  assumes de: "alike u d e"
    and comm: "\<And>A is. filter (\<lambda>i. wi_watchlist_id i \<in> A) (g is) = g (filter (\<lambda>i. wi_watchlist_id i \<in> A) is)"
  shows "alike u (d\<lparr>wd_items := g (wd_items d)\<rparr>) (e\<lparr>wd_items := g (wd_items e)\<rparr>)"
proof -
  note views = alike_views [OF de]
  have "filter (\<lambda>i. wi_watchlist_id i \<in> wl_id ` set (lists_of u (wd_watchlists d))) (g (wd_items d)) =
      filter (\<lambda>i. wi_watchlist_id i \<in> wl_id ` set (lists_of u (wd_watchlists e))) (g (wd_items e))"
    by (simp only: comm views(2))
  with views(1,3,4,5) show ?thesis unfolding alike_def rows_of_def by simp
qed

lemma filter_commute: "filter P (filter Q xs) = filter Q (filter P xs)"
  by (simp add: conj_commute)

lemma alike_remove_item:
  assumes de: "alike u d e" and w: "owns u w d"
  shows "fst (remove_item w symbol d) = fst (remove_item w symbol e) \<and>
    alike u (snd (remove_item w symbol d)) (snd (remove_item w symbol e))"
proof (cases "normalize_symbol symbol")
  case (Inl x)
  with de show ?thesis by (simp add: remove_item_def lift_result_def sbind_def)
next
  case (Inr c)
  have frame: "get_item w c s = (fst (get_item w c s), s)" for s
    by (simp add: get_item_def sbind_def lift_result_def sgets_def split: sum.splits)
  have "alike u (d\<lparr>wd_items := filter (\<lambda>r. wi_id r \<noteq> i) (wd_items d)\<rparr>) (e\<lparr>wd_items := filter (\<lambda>r. wi_id r \<noteq> i) (wd_items e)\<rparr>)" for i
    by (rule alike_change_items [OF de filter_commute])
  with de Inr show ?thesis
    using frame [of d] frame [of e] alike_get_item [OF de w, of c]
    by (cases "fst (get_item w c e)")
      (auto simp: remove_item_def lift_result_def sbind_def smodify_def sret_def split: prod.splits option.splits)
qed

subsection \<open>Blind routes\<close>

lemma alike_refl_answer: "alike u d e \<Longrightarrow> fst (x, d) = fst (x, e) \<and> alike u (snd (x, d)) (snd (x, e))"
  by simp

lemma owns_loaded: "w \<in> set (lists_of u (wd_watchlists d)) \<Longrightarrow> owns u (wl_id w) d"
  by (auto simp: owns_def)

lemma lists_of_user: "w \<in> set (lists_of u ws) \<Longrightarrow> wl_user_id w = u"
  by (simp add: lists_of_def)

lemma blind_list_watchlists: "blind u (list_watchlists u)"
proof -
  let ?key = "\<lambda>w. (if wl_is_default w then 0 else 1 :: int, wl_id w)"
  have "map (\<lambda>w. to_summary w (length (relationship_items d (wl_id w)))) (sort_key ?key (lists_of u (wd_watchlists d))) =
      map (\<lambda>w. to_summary w (length (relationship_items e (wl_id w)))) (sort_key ?key (lists_of u (wd_watchlists e)))"
    if de: "alike u d e" for d e
    unfolding alike_views(1) [OF de]
    by (rule map_cong) (auto simp: alike_views(1) [OF de, symmetric] alike_items [OF de])
  then show ?thesis by (simp add: blind_def list_watchlists_def list_by_user_def sgets_def lists_of_def)
qed

lemma blind_get_watchlist: "blind u (get_watchlist u i)"
  unfolding blind_def get_watchlist_def
  by (auto simp: alike_items dest: alike_load_owned intro!: alike_load_owned)

lemma blind_list_items: "blind u (list_watchlist_items u i limit offset prefix)"
proof -
  have "fst (list_items (wl_id w) d) = fst (list_items (wl_id w) e)"
    if "alike u d e" "w \<in> set (lists_of u (wd_watchlists d))" for d e w
    using alike_items [OF that] by (simp add: list_items_def sgets_def relationship_items_def)
  then show ?thesis
    unfolding blind_def list_watchlist_items_def
    by (auto simp: Let_def split: sum.splits option.splits intro!: alike_load_owned)
qed

lemma blind_patch_watchlist: "blind u (patch_watchlist u i name is_default)"
proof -
  let ?m = "\<lambda>n w. committing (conflict ''watchlist name already exists for this user'') (\<lambda>_. refreshed_summary u i)
      (sbind (case n of None \<Rightarrow> sret () | Some x \<Rightarrow> watchlist_rename w x)
        (\<lambda>_. if is_default = Some True then set_default w else sret ()))"
  have "blind u (?m n w)" if "wl_user_id w = u" for w n
    using that by (intro blind_committing blind_bind) (auto simp: blind_rename blind_ret blind_set_default
      alike_summary split: option.splits)
  then have routed: "fst (load_owned_watchlist u i (?m n) d) = fst (load_owned_watchlist u i (?m n) e) \<and>
      alike u (snd (load_owned_watchlist u i (?m n) d)) (snd (load_owned_watchlist u i (?m n) e))"
    if "alike u d e" for d e n
    using that by (intro alike_load_owned blindD) (auto dest: lists_of_user)
  show ?thesis
    unfolding blind_def
  proof (intro allI impI)
    fix d e assume de: "alike u d e"
    show "fst (patch_watchlist u i name is_default d) = fst (patch_watchlist u i name is_default e) \<and>
        alike u (snd (patch_watchlist u i name is_default d)) (snd (patch_watchlist u i name is_default e))"
    proof (cases "name_valid name")
      case None
      with de show ?thesis by (simp add: patch_watchlist_def)
    next
      case (Some n)
      with de routed [OF de, of n] show ?thesis
        by (cases "i < 1"; cases "n = None \<and> is_default = None")
          (simp_all only: patch_watchlist_def option.case if_True if_False fst_conv snd_conv simp_thms)
    qed
  qed
qed

lemma blind_delete_watchlist: "blind u (delete_watchlist u i)"
proof -
  have "blind u (committing WatchCrashed (\<lambda>_ _. WatchOk ()) (watchlist_delete w))" for w
    by (rule blind_committing [OF blind_delete]) simp
  then show ?thesis
    unfolding blind_def delete_watchlist_def by (auto intro!: alike_load_owned simp: blind_def)
qed

lemma blind_remove_watchlist_item: "blind u (remove_watchlist_item u i symbol)"
proof -
  have "fst (case remove_item (wl_id w) symbol d of (r, d') \<Rightarrow>
          (case r of Inl x \<Rightarrow> (invalid_value x, d) | Inr removed \<Rightarrow> if removed then (WatchOk (), d') else (n, d))) =
        fst (case remove_item (wl_id w) symbol e of (r, d') \<Rightarrow>
          (case r of Inl x \<Rightarrow> (invalid_value x, e) | Inr removed \<Rightarrow> if removed then (WatchOk (), d') else (n, e))) \<and>
      alike u (snd (case remove_item (wl_id w) symbol d of (r, d') \<Rightarrow>
          (case r of Inl x \<Rightarrow> (invalid_value x, d) | Inr removed \<Rightarrow> if removed then (WatchOk (), d') else (n, d))))
        (snd (case remove_item (wl_id w) symbol e of (r, d') \<Rightarrow>
          (case r of Inl x \<Rightarrow> (invalid_value x, e) | Inr removed \<Rightarrow> if removed then (WatchOk (), d') else (n, e))))"
    if "alike u d e" "w \<in> set (lists_of u (wd_watchlists d))" for d e w and n :: "unit watch_answer"
    using alike_remove_item [OF that(1) owns_loaded [OF that(2)], of symbol] that(1)
    by (auto split: prod.splits sum.splits)
  then show ?thesis
    unfolding blind_def remove_watchlist_item_def by (auto intro!: alike_load_owned)
qed

lemma item_answer_updated:
  assumes ok: "watch_ok d" and item: "item \<in> set (wd_items d)"
  shows "item_answer (wi_id item) (d\<lparr>wd_items := t_upd wi_id (wi_id item)
      (\<lambda>r. r\<lparr>wi_memo := memo, wi_updated_at := wd_now d\<rparr>) (wd_items d)\<rparr>) =
    WatchOk (item_schema (item\<lparr>wi_memo := memo, wi_updated_at := wd_now d\<rparr>))"
proof -
  have "distinct (map wi_id (wd_items d))" using ok by (simp add: watch_ok_def items_ok_def)
  from t_get_distinct [OF this item refl] show ?thesis by (simp add: item_answer_def t_get_upd)
qed

lemma alike_patch_item:
  assumes de: "alike u d e" and ok: "watch_ok d" "watch_ok e"
  shows "fst (patch_watchlist_item u i symbol memo d) = fst (patch_watchlist_item u i symbol memo e) \<and>
    alike u (snd (patch_watchlist_item u i symbol memo d)) (snd (patch_watchlist_item u i symbol memo e))"
proof (cases "\<not> memo_length memo \<or> i < 1 \<or> \<not> path_symbol_ok symbol")
  case True
  with de show ?thesis by (simp add: patch_watchlist_item_def)
next
  case False
  let ?k = "\<lambda>w d. case fst (get_item (wl_id w) symbol d) of
          Inl e \<Rightarrow> (invalid_value e, d)
        | Inr None \<Rightarrow> (WatchRefused 404 ''symbol not in this watchlist'', d)
        | Inr (Some item) \<Rightarrow>
            committing invalid_value (\<lambda>_. item_answer (wi_id item)) (update_memo (wi_id item) memo) d"
  let ?upd = "\<lambda>item s. s\<lparr>wd_items := t_upd wi_id (wi_id item) (\<lambda>r. r\<lparr>wi_memo := memo, wi_updated_at := wd_now s\<rparr>) (wd_items s)\<rparr>"
  have valid: "validate_memo memo = Inr ()"
    using False by (auto simp: memo_length_def validate_memo_def split: option.splits)
  have run: "?k w s = (WatchOk (item_schema (item\<lparr>wi_memo := memo, wi_updated_at := wd_now s\<rparr>)), ?upd item s)"
    if "watch_ok s" "fst (get_item (wl_id w) symbol s) = Inr (Some item)" for w s item
  proof -
    have "item \<in> set (wd_items s)" using get_item_Some [of "wl_id w" symbol s item] that(2) by (metis prod.collapse)
    from item_answer_updated [OF that(1) this] that(2) show ?thesis
      by (simp add: committing_def update_memo_def lift_result_def valid monad_simps)
  qed
  have "fst (?k w d) = fst (?k w e) \<and> alike u (snd (?k w d)) (snd (?k w e))"
    if w: "w \<in> set (lists_of u (wd_watchlists d))" for w
  proof -
    from alike_get_item [OF de owns_loaded [OF w]] have got: "fst (get_item (wl_id w) symbol e) = fst (get_item (wl_id w) symbol d)"
      by simp
    have upd: "alike u (?upd item d) (?upd item e)" for item
      unfolding alike_views(4) [OF de]
      by (rule alike_change_items [OF de]) (simp add: t_upd_def filter_map comp_def if_distrib cong: if_cong)
    show ?thesis
    proof (cases "\<exists>item. fst (get_item (wl_id w) symbol d) = Inr (Some item)")
      case True
      then obtain item where item: "fst (get_item (wl_id w) symbol d) = Inr (Some item)" ..
      with got have "fst (get_item (wl_id w) symbol e) = Inr (Some item)" by simp
      from run [OF ok(1) item] run [OF ok(2) this] upd [of item] alike_views(4) [OF de] show ?thesis by simp
    next
      case False
      with got de show ?thesis by (auto split: sum.splits option.splits)
    qed
  qed
  from alike_load_owned [where k = ?k, OF de this] False show ?thesis by (simp add: patch_watchlist_item_def)
qed

text \<open>The requests that may insert a row, whose key counts the rows of all users.\<close>

fun inserts :: "watch_request \<Rightarrow> bool" where
  "inserts (CreateWatchlist name is_default) = True"
| "inserts (AddItem i symbol memo) = True"
| "inserts GetPreferences = True"
| "inserts (PutPreferences q) = True"
| "inserts _ = False"

lemma blind_handle:
  assumes "alike u d e" and "watch_ok d" and "watch_ok e" and "\<not> inserts request"
  shows "fst (handle u request d) = fst (handle u request e) \<and> alike u (snd (handle u request d)) (snd (handle u request e))"
proof -
  have answer: "fst (map_answer f r) = fst (map_answer f s)" if "fst r = fst s" for f :: "'c \<Rightarrow> watch_reply" and r s
    using that by (cases r; cases s; cases "fst r") auto
  show ?thesis
    using assms blindD [OF blind_list_watchlists assms(1)] blindD [OF blind_get_watchlist assms(1)]
      blindD [OF blind_list_items assms(1)] blindD [OF blind_patch_watchlist assms(1)]
      blindD [OF blind_delete_watchlist assms(1)] blindD [OF blind_remove_watchlist_item assms(1)]
      alike_patch_item [OF assms(1-3)]
    by (cases request) (auto intro: answer)
qed

subsection \<open>The router\<close>

lemma serve_cases:
  obtains current where "require_auth lib secret cfg (wd_now d) credentials = AuthOk current"
    "serve lib secret cfg credentials request d = handle (au_user_id current) request d"
  | "\<And>current. require_auth lib secret cfg (wd_now d) credentials \<noteq> AuthOk current"
    "snd (serve lib secret cfg credentials request d) = d"
  by (cases "require_auth lib secret cfg (wd_now d) credentials") (auto simp: serve_def)

text \<open>The databases that requests of any clients can produce, while time passes and accounts and
  stocks come and go elsewhere (a stock on a watchlist is never deleted by the code).\<close>

inductive watch_reachable :: "watch_db \<Rightarrow> bool" where
  start: "wd_watchlists d = [] \<Longrightarrow> wd_items d = [] \<Longrightarrow> wd_preferences d = [] \<Longrightarrow> watch_reachable d"
| request: "watch_reachable d \<Longrightarrow> watch_reachable (snd (serve lib secret cfg credentials request d))"
| time: "watch_reachable d \<Longrightarrow> watch_reachable (d\<lparr>wd_now := t\<rparr>)"
| accounts: "watch_reachable d \<Longrightarrow> watch_reachable (d\<lparr>wd_users := users\<rparr>)"
| stocks: "watch_reachable d \<Longrightarrow> watch_reachable (d\<lparr>wd_stocks := wd_stocks d @ more_stocks\<rparr>)"

lemma reachable_ok: "watch_reachable d \<Longrightarrow> watch_ok d"
proof (induction rule: watch_reachable.induct)
  case (start d)
  then show ?case
    by (simp add: watch_ok_def lists_ok_def unique_names_def single_default_def items_ok_def preferences_ok_def)
next
  case (request d lib secret cfg credentials request)
  show ?case
  proof (rule serve_cases [of lib secret cfg d credentials request], goal_cases)
    case (1 current)
    with handle_step [OF request.IH] show ?thesis by (simp add: own_step_def)
  next
    case 2
    with request.IH show ?thesis by simp
  qed
qed (auto simp: watch_ok_def items_ok_def)

text \<open>
  C36. Whatever requests arrive, the tables of watchlists stay consistent: ids and names (per
  user) are unique, every user has at most one default watchlist, every item lies on an existing
  watchlist with a canonical symbol of a known stock that occurs once on it, every user has at
  most one row of preferences without secret keys in its notification settings, and when the
  database enforces foreign keys the preferred watchlist is one of the user's own.
\<close>

theorem watchlists_stay_consistent:
  assumes "watch_reachable d"
  shows "watch_ok d \<and> length (filter (\<lambda>w. wl_user_id w = u \<and> wl_is_default w) (wd_watchlists d)) \<le> 1"
proof
  show ok: "watch_ok d" by (rule reachable_ok [OF assms])
  let ?ds = "filter (\<lambda>w. wl_user_id w = u \<and> wl_is_default w) (wd_watchlists d)"
  have ids: "distinct (map wl_id ?ds)" using ok by (simp add: watch_ok_def lists_ok_def distinct_map_filter)
  have same: "wl_id w = wl_id x" if "w \<in> set ?ds" "x \<in> set ?ds" for w x
    using ok that unfolding watch_ok_def lists_ok_def single_default_def by simp
  show "length ?ds \<le> 1"
  proof (rule ccontr)
    assume "\<not> length ?ds \<le> 1"
    then obtain w x rest where ds: "?ds = w # x # rest"
      by (cases ?ds; cases "tl ?ds") auto
    then have "wl_id w = wl_id x" by (intro same) simp_all
    with ids show False unfolding ds by simp
  qed
qed

definition watch_user :: "int \<Rightarrow> user" where
  "watch_user i = \<lparr>us_id = i, us_username = ''u'', us_password_hash = ''h'', us_is_active = True, us_is_admin = False,
     us_last_login_at = None, us_updated_at = 0\<rparr>"

definition demo_watch :: "bool \<Rightarrow> watch_db" where
  "demo_watch fk = \<lparr>wd_users = [watch_user 1, watch_user 2],
     wd_stocks = [\<lparr>st_id = 1, st_market = ''KOSPI'', st_symbol = ''005930'', st_name = ''Samsung'', st_sector = None\<rparr>],
     wd_watchlists = [], wd_items = [], wd_preferences = [], wd_foreign_keys = fk, wd_now = 5\<rparr>"

definition preferring :: "int \<Rightarrow> preference_request" where
  "preferring i = \<lparr>pq_default_watchlist_id = Some i, pq_default_market = None, pq_default_strategy = None,
     pq_dashboard_layout = None, pq_notification_preferences = None\<rparr>"

definition demo_lists :: "bool \<Rightarrow> watch_db" where
  "demo_lists fk = snd (handle 1 (AddItem 1 '' 005930 '' None) (snd (handle 1 (PutPreferences (preferring 1))
     (snd (handle 1 (CreateWatchlist '' a '' True) (demo_watch fk))))))"

lemma demo_lists_eq:
  "fk = True \<or> fk = False \<Longrightarrow> (wd_watchlists (demo_lists fk), wd_items (demo_lists fk), wd_preferences (demo_lists fk)) =
     ([\<lparr>wl_id = 1, wl_user_id = 1, wl_name = ''a'', wl_is_default = True, wl_created_at = 5, wl_updated_at = 5\<rparr>],
      [\<lparr>wi_id = 1, wi_watchlist_id = 1, wi_symbol = ''005930'', wi_memo = None, wi_created_at = 5, wi_updated_at = 5\<rparr>],
      [\<lparr>up_id = 1, up_user_id = 1, up_default_watchlist_id = Some 1, up_default_market = None,
        up_default_strategy = None, up_dashboard_layout = None, up_notification_preferences = None,
        up_created_at = 5, up_updated_at = 5\<rparr>])"
  by (elim disjE; hypsubst) code_simp+

definition open_auth :: auth_settings where
  "open_auth = demo_auth\<lparr>as_auth_enabled := False\<rparr>"

lemma serve_open: "serve demo_libs ''key'' open_auth None request d = handle 1 request d"
  by (simp add: serve_def require_auth_def get_current_user_def open_auth_def dev_fallback_user_id_def)

lemma demo_lists_reachable: "watch_reachable (demo_lists fk)"
proof -
  have step: "watch_reachable d \<Longrightarrow> watch_reachable (snd (handle 1 request d))" for d request
    using watch_reachable.request [of d demo_libs "''key''" open_auth None request] by (simp add: serve_open)
  have "watch_reachable (demo_watch fk)" by (rule watch_reachable.start) (simp_all add: demo_watch_def)
  then show ?thesis unfolding demo_lists_def by (intro step)
qed

theorem watchlists_stay_consistent_witness:
  "watch_ok (demo_lists True) \<and>
   length (filter (\<lambda>w. wl_user_id w = 1 \<and> wl_is_default w) (wd_watchlists (demo_lists True))) \<le> 1"
  by (rule watchlists_stay_consistent [OF demo_lists_reachable])


text \<open>Beside the lists of user 1, user 2 has one of the same name.\<close>

definition demo_two :: watch_db where
  "demo_two = snd (handle 2 (CreateWatchlist ''a'' True) (demo_lists False))"

lemma demo_two_ok: "watch_ok demo_two"
  using handle_step [OF reachable_ok [OF demo_lists_reachable], of 2 False "CreateWatchlist ''a'' True"]
  by (simp add: own_step_def demo_two_def)


subsection \<open>What is left of a deleted watchlist\<close>

text \<open>
  The route documents that deleting a watchlist clears the preference that names it. That is the
  work of the foreign key, so with SQLite as it is configured the preference keeps the id, and
  when the id is given out again it names a watchlist of another user.
\<close>

definition after_delete :: "bool \<Rightarrow> watch_db" where
  "after_delete fk = snd (handle 2 (CreateWatchlist ''b'' False) (snd (handle 1 (DeleteWatchlist 1) (demo_lists fk))))"

lemma preference_dangles:
  "map (\<lambda>p. (up_user_id p, up_default_watchlist_id p)) (wd_preferences (after_delete False)) = [(1, Some 1)] \<and>
   map (\<lambda>w. (wl_id w, wl_user_id w)) (wd_watchlists (after_delete False)) = [(1, 2)] \<and>
   map (\<lambda>p. (up_user_id p, up_default_watchlist_id p)) (wd_preferences (after_delete True)) = [(1, None)]"
  by code_simp

text \<open>What a client stores as preferences is what it reads back.\<close>

lemma preferences_roundtrip:
  assumes ok: "watch_ok d" and put: "put_preferences u q d = (WatchOk r, d')"
  shows "get_preferences u d' = (WatchOk r, d') \<and> pr_default_watchlist_id r = pq_default_watchlist_id q \<and>
    pr_default_market r = pq_default_market q \<and> pr_default_strategy r = pq_default_strategy q \<and>
    pr_dashboard_layout r = pq_dashboard_layout q \<and>
    pr_notification_preferences r = pq_notification_preferences q"
proof -
  have ok': "watch_ok d'" using put_preferences_step [OF ok, of u q] put by (simp add: own_step_def)
  let ?f = "\<lambda>p. p\<lparr>up_default_watchlist_id := pq_default_watchlist_id q, up_default_market := pq_default_market q,
    up_default_strategy := pq_default_strategy q, up_dashboard_layout := pq_dashboard_layout q,
    up_notification_preferences := pq_notification_preferences q\<rparr>"
  let ?m = "sbind (get_or_create_for_user u) (\<lambda>i. sbind (preference_update i (Some (pq_default_watchlist_id q))
    (Some (pq_default_market q)) (Some (pq_default_strategy q)) (Some (pq_dashboard_layout q))
    (Some (pq_notification_preferences q))) (\<lambda>_. sret i))"
  from put have "\<exists>i. ?m d = (Inr i, d') \<and> preference_answer i d' = WatchOk r"
    by (auto simp: put_preferences_def committing_def load_owned_watchlist_def unprocessable_def
        split: if_splits option.splits prod.splits sum.splits)
  then obtain i where run: "?m d = (Inr i, d')" and answer: "preference_answer i d' = WatchOk r" by blast
  from run obtain s where first: "get_or_create_for_user u d = (Inr i, s)" and second: "preference_write i ?f s = (Inr (), d')"
    by (elim sbind_InrE) (auto simp: preference_update_def given_def monad_simps)
  have d': "wd_preferences d' = t_upd up_id i (\<lambda>p. (?f p)\<lparr>up_updated_at := wd_now s\<rparr>) (wd_preferences s)"
    using second by (auto simp: preference_write_def split: if_splits)
  from answer obtain p where p: "t_get up_id i (wd_preferences d') = Some p" and r: "r = preference_schema p"
    by (auto simp: preference_answer_def split: option.splits)
  from p obtain p0 where p0: "t_get up_id i (wd_preferences s) = Some p0" "p = (?f p0)\<lparr>up_updated_at := wd_now s\<rparr>"
    unfolding d' by (auto simp: t_get_upd)
  have "holds u i s" and "watch_ok s" using get_or_create_step [OF ok first] by (simp_all add: own_step_def)
  from holds_user [OF this(2,1)] t_get_Some [OF p0(1)] have "up_user_id p0 = u" by blast
  then have user: "up_user_id p = u" using p0(2) by simp
  have "find (\<lambda>p. up_user_id p = u) (wd_preferences d') = Some p"
    using t_get_distinct [of up_user_id "wd_preferences d'" p u] ok' t_get_Some [OF p] user
    by (simp add: watch_ok_def preferences_ok_def t_get_def)
  then have "get_preferences u d' = (preference_answer (up_id p) d', d')"
    by (simp add: get_preferences_def committing_def get_or_create_for_user_def preference_of_user_def monad_simps)
  with t_get_Some [OF p] answer have "get_preferences u d' = (WatchOk r, d')" by simp
  then show ?thesis by (simp add: r p0(2) preference_schema_def)
qed

end
