(* ===== verification/Notifications.thy ===== *)
theory Notifications
  imports Holding_Checks Market_Services Backtest_Engine Kis_Transport Trading_Jobs
begin

text \<open>
  Notifications: the Telegram client and the service that logs every send
  (\<^verbatim>\<open>app/notification/telegram_notifier.py\<close>, \<^verbatim>\<open>notification_service.py\<close>), the text of the reports
  (\<^verbatim>\<open>report_generator.py\<close>), the dispatchers (\<^verbatim>\<open>dispatchers.py\<close>) and the scheduler jobs that use
  them. A report is the list of its lines; a line is a constructor with the values it prints, in
  place of the Korean text around them, and no report ends in a blank line. The Telegram server
  is a function of the posts so far. The state is the research database with the notification
  log and the posts.
\<close>

subsection \<open>Lines of a report\<close>

datatype report_line =
    ReportTitle string int
  | BlankLine
  | MarketHeading
  | CountsLine json json
  | UniverseLine json
  | NoCandidates
  | TopHeading nat
  | CandidateLine int string string string "decimal option"
  | CandidateReason reason
  | RiskLine string "string list"
  | DashboardFooter
  | NoHoldings
  | WarnHeading nat
  | NormalHeading
  | HoldingEntry int string string "decimal option"
  | ReturnLine "decimal option"
  | DecisionLine string
  | AlertHeading string
  | ScoreLine "decimal option"
  | AlertFooter

record recommendation_line =
  rl_recommendation :: recommendation
  rl_risk_level :: string
  rl_risk_flags :: "string list"

record holding_line =
  hl_check :: holding_check
  hl_risk_level :: string
  hl_risk_flags :: "string list"

text \<open>\<open>x or y\<close> of an optional text.\<close>

definition text_or :: "string option \<Rightarrow> string \<Rightarrow> string" where
  "text_or v dflt = (case v of None \<Rightarrow> dflt | Some t \<Rightarrow> if t = [] then dflt else t)"

definition obj_get :: "json \<Rightarrow> string \<Rightarrow> json option" where
  "obj_get j k = (case j of JObj kvs \<Rightarrow> map_of kvs k | _ \<Rightarrow> None)"

text \<open>The engines store the summary as an object with a text and a list of texts.\<close>

definition extract_risk_summary :: "data_snapshot option \<Rightarrow> string \<times> string list" where
  "extract_risk_summary snapshot =
     (case snapshot of None \<Rightarrow> (''LOW'', [])
      | Some s \<Rightarrow>
          let summary = (case obj_get (ds_market_context s) ''risk_summary'' of None \<Rightarrow> JObj [] | Some j \<Rightarrow> j);
              level = (case obj_get summary ''level'' of Some (JStr t) \<Rightarrow> text_or (Some t) ''LOW'' | _ \<Rightarrow> ''LOW'')
          in (level, json_strings (obj_get summary ''flags'')))"

text \<open>Two decimals, ties to even, as \<open>format\<close> rounds.\<close>

definition format_score :: "decimal option \<Rightarrow> decimal option" where
  "format_score value = map_option (quant_even 2) value"

definition risk_level_rank :: "string \<Rightarrow> int" where
  "risk_level_rank level = (if level = ''HIGH'' then 0 else if level = ''MEDIUM'' then 1 else if level = ''LOW'' then 2 else 99)"

definition sort_holding_lines_by_risk :: "holding_line list \<Rightarrow> holding_line list" where
  "sort_holding_lines_by_risk lines = sort_key (\<lambda>l. (risk_level_rank (hl_risk_level l), hc_symbol (hl_check l))) lines"

definition summary_value_or :: "json \<Rightarrow> string \<Rightarrow> json \<Rightarrow> json" where
  "summary_value_or summary k dflt = (case obj_get summary k of None \<Rightarrow> dflt | Some v \<Rightarrow> v)"

definition recommendation_report :: "recommendation_run \<Rightarrow> recommendation_line list \<Rightarrow> report_line list" where
  "recommendation_report run lines =
     (let summary = rn_market_summary run; n = JInt (int (length lines));
          header = [ReportTitle ''RECOMMENDATION'' (rn_run_date run), BlankLine, MarketHeading,
            CountsLine (summary_value_or summary ''candidate_count'' n) (summary_value_or summary ''saved_count'' n),
            UniverseLine (summary_value_or summary ''universe'' (JStr ''MARKET_CAP_TOP_500'')), BlankLine]
      in if lines = [] then header @ [NoCandidates]
         else header @ [TopHeading (length lines), BlankLine] @
           concat (map (\<lambda>l. let rec = rl_recommendation l in
             [CandidateLine (rc_rank rec) (rc_name rec) (rc_symbol rec) (text_or (rc_grade rec) ''-'')
                (format_score (rc_total_score rec)),
              CandidateReason (rc_reason rec), RiskLine (rl_risk_level l) (rl_risk_flags l), BlankLine])
             (sort_key (\<lambda>l. rc_rank (rl_recommendation l)) lines)) @ [DashboardFooter])"

fun render_holding_block :: "holding_line list \<Rightarrow> int \<Rightarrow> report_line list" where
  "render_holding_block [] rank = []"
| "render_holding_block (l # ls) rank =
     [HoldingEntry rank (hc_symbol (hl_check l)) (text_or (hc_grade (hl_check l)) ''-'') (format_score (hc_total_score (hl_check l))),
      ReturnLine (format_score (hc_return_rate (hl_check l))), DecisionLine (text_or (hc_decision (hl_check l)) ''-''),
      RiskLine (hl_risk_level l) (hl_risk_flags l), BlankLine] @ render_holding_block ls (rank + 1)"

definition holding_report :: "report_line \<Rightarrow> holding_line list \<Rightarrow> report_line list" where
  "holding_report title lines =
     (let sorted_lines = sort_holding_lines_by_risk lines;
          high_lines = filter (\<lambda>l. hl_risk_level l = ''HIGH'') sorted_lines;
          other_lines = filter (\<lambda>l. hl_risk_level l \<noteq> ''HIGH'') sorted_lines
      in if sorted_lines = [] then [title, BlankLine, NoHoldings]
         else [title, BlankLine] @
           (if high_lines = [] then [] else [WarnHeading (length high_lines), BlankLine] @ render_holding_block high_lines 1) @
           (if other_lines = [] then [] else [NormalHeading, BlankLine] @
              render_holding_block other_lines (int (length high_lines) + 1)) @
           [DashboardFooter])"

definition pre_market_holding_report :: "int \<Rightarrow> holding_line list \<Rightarrow> report_line list" where
  "pre_market_holding_report check_date lines = holding_report (ReportTitle ''PRE_MARKET'' check_date) lines"

definition post_market_holding_report :: "int \<Rightarrow> holding_line list \<Rightarrow> report_line list" where
  "post_market_holding_report check_date lines = holding_report (ReportTitle ''POST_MARKET'' check_date) lines"

definition risk_alert :: "holding_line \<Rightarrow> report_line list" where
  "risk_alert l = [AlertHeading (hc_symbol (hl_check l)), BlankLine, ReturnLine (format_score (hc_return_rate (hl_check l))),
     ScoreLine (format_score (hc_total_score (hl_check l))), DecisionLine (text_or (hc_decision (hl_check l)) ''-''),
     RiskLine (hl_risk_level l) (hl_risk_flags l), BlankLine, AlertFooter]"

subsection \<open>The Telegram client\<close>

record telegram_settings =
  tg_enabled :: bool
  tg_bot_token :: string
  tg_chat_id :: string

record telegram_post =
  tp_path :: string
  tp_chat_id :: string
  tp_text :: "report_line list"

type_synonym telegram_server = "telegram_post list \<Rightarrow> telegram_post \<Rightarrow> http_outcome"

record notification_log =
  nl_id :: int
  nl_channel :: string
  nl_message_type :: string
  nl_target :: string
  nl_sent_at :: "int option"
  nl_status :: string
  nl_error_message :: "string option"
  nl_related_job_id :: "int option"

record desk =
  dk_research :: research
  dk_logs :: "notification_log list"
  dk_posts :: "telegram_post list"

type_synonym 'a ndb = "(desk, py_error, 'a) action"

record notification_result =
  nr_channel :: string
  nr_sent :: bool
  nr_target :: string
  nr_status :: string
  nr_error_message :: "string option"

definition mask_chat_id :: "string \<Rightarrow> string" where
  "mask_chat_id chat_id =
     (if chat_id = [] then []
      else if length chat_id \<le> 4 then ''****''
      else take 2 chat_id @ ''****'' @ drop (length chat_id - 2) chat_id)"

definition unsent :: "telegram_settings \<Rightarrow> string \<Rightarrow> string option \<Rightarrow> notification_result" where
  "unsent cfg status why = \<lparr>nr_channel = ''TELEGRAM'', nr_sent = False, nr_target = mask_chat_id (tg_chat_id cfg),
     nr_status = status, nr_error_message = why\<rparr>"

text \<open>What the reply of the server means; \<open>HRaise\<close> is an exception that is no \<open>HTTPError\<close>.\<close>

definition telegram_result :: "telegram_settings \<Rightarrow> http_outcome \<Rightarrow> py_error + notification_result" where
  "telegram_result cfg out = (case out of
      HTimeout \<Rightarrow> Inr (unsent cfg ''FAILED'' (Some ''timeout''))
    | HNetwork name \<Rightarrow> Inr (unsent cfg ''FAILED'' (Some (''http error: '' @ name)))
    | HRaise \<Rightarrow> Inl TransportError
    | HReply code body \<Rightarrow>
        if 400 \<le> code then Inr (unsent cfg ''FAILED'' (Some (''HTTP '' @ str_of_int code)))
        else (case body of
          None \<Rightarrow> Inr (unsent cfg ''FAILED'' (Some ''invalid telegram response (not JSON)''))
        | Some (RDict entries) \<Rightarrow>
            if (case map_of entries ''ok'' of None \<Rightarrow> False | Some v \<Rightarrow> truthy v)
            then Inr \<lparr>nr_channel = ''TELEGRAM'', nr_sent = True, nr_target = mask_chat_id (tg_chat_id cfg),
                   nr_status = ''SUCCESS'', nr_error_message = None\<rparr>
            else Inr (unsent cfg ''FAILED'' (Some (text_field entries ''description'' ''telegram api error'')))
        | Some _ \<Rightarrow> Inr (unsent cfg ''FAILED'' (Some ''telegram api error''))))"

definition telegram_send :: "telegram_settings \<Rightarrow> telegram_server \<Rightarrow> report_line list \<Rightarrow> notification_result ndb" where
  "telegram_send cfg server message =
     (if \<not> tg_enabled cfg then sret (unsent cfg ''DRY_RUN'' None)
      else if tg_bot_token cfg = [] \<or> tg_chat_id cfg = [] then sret (unsent cfg ''DISABLED'' (Some ''missing telegram credentials''))
      else (\<lambda>d. let post = \<lparr>tp_path = ''/bot'' @ tg_bot_token cfg @ ''/sendMessage'', tp_chat_id = tg_chat_id cfg, tp_text = message\<rparr>
                in (telegram_result cfg (server (dk_posts d) post), d\<lparr>dk_posts := dk_posts d @ [post]\<rparr>)))"

subsection \<open>The service\<close>

record notification_outcome =
  no_log_id :: int
  no_channel :: string
  no_status :: string
  no_sent :: bool
  no_target :: string
  no_error_message :: "string option"

definition in_research :: "'a rdb \<Rightarrow> 'a ndb" where
  "in_research m = (\<lambda>d. case m (dk_research d) of (r, s) \<Rightarrow> (r, d\<lparr>dk_research := s\<rparr>))"

definition desk_now :: "desk \<Rightarrow> int" where
  "desk_now d = sn_now (rs_session (dk_research d))"

definition notification_log_list_by_status :: "string \<Rightarrow> notification_log list ndb" where
  "notification_log_list_by_status status = sgets (\<lambda>d. filter (\<lambda>l. nl_status l = status) (dk_logs d))"

text \<open>\<open>list(limit=100, offset=0)\<close> of the base repository.\<close>

definition notification_log_list :: "nat \<Rightarrow> nat \<Rightarrow> notification_log list ndb" where
  "notification_log_list limit offset = sgets (\<lambda>d. take limit (drop offset (dk_logs d)))"

definition record_log :: "notification_result \<Rightarrow> string \<Rightarrow> string option \<Rightarrow> int option \<Rightarrow> notification_log ndb" where
  "record_log result message_type target related_job_id = (\<lambda>d.
     let l = \<lparr>nl_id = t_next nl_id (dk_logs d), nl_channel = nr_channel result, nl_message_type = message_type,
              nl_target = text_or target (nr_target result),
              nl_sent_at = (if nr_sent result then Some (desk_now d) else None), nl_status = nr_status result,
              nl_error_message = nr_error_message result, nl_related_job_id = related_job_id\<rparr>
     in (Inr l, d\<lparr>dk_logs := dk_logs d @ [l]\<rparr>))"

definition send_telegram ::
  "telegram_settings \<Rightarrow> telegram_server \<Rightarrow> report_line list \<Rightarrow> string \<Rightarrow> string option \<Rightarrow> int option \<Rightarrow>
   notification_outcome ndb" where
  "send_telegram cfg server message message_type target related_job_id =
     sbind (telegram_send cfg server message) (\<lambda>result.
     sbind (record_log result message_type target related_job_id) (\<lambda>l.
     sret \<lparr>no_log_id = nl_id l, no_channel = nr_channel result, no_status = nr_status result, no_sent = nr_sent result,
           no_target = nl_target l, no_error_message = nr_error_message result\<rparr>))"

subsection \<open>Dispatchers\<close>

record dispatch_outcome =
  do_count :: nat
  do_notification :: notification_outcome
  do_message :: "report_line list"
  do_flag_updated :: bool

definition data_snapshot_of :: "int option \<Rightarrow> data_snapshot option ndb" where
  "data_snapshot_of i = sgets (\<lambda>d. Option.bind i (\<lambda>i. t_get ds_snapshot_id i (rs_data_snapshots (dk_research d))))"

text \<open>The loop that pairs every row with the risk of its snapshot.\<close>

definition risk_lines :: "(string \<Rightarrow> string list \<Rightarrow> 'r \<Rightarrow> 'l) \<Rightarrow> ('r \<Rightarrow> int option) \<Rightarrow> 'r list \<Rightarrow> 'l list ndb" where
  "risk_lines mk snapshot_id rows = sfold (\<lambda>r acc.
     sbind (data_snapshot_of (snapshot_id r)) (\<lambda>snapshot.
     case extract_risk_summary snapshot of (level, flags) \<Rightarrow> sret (acc @ [mk level flags r]))) rows []"

definition recommendation_line_of :: "string \<Rightarrow> string list \<Rightarrow> recommendation \<Rightarrow> recommendation_line" where
  "recommendation_line_of level flags r =
     \<lparr>rl_recommendation = r, rl_risk_level = level, rl_risk_flags = flags\<rparr>"

definition holding_line_of :: "string \<Rightarrow> string list \<Rightarrow> holding_check \<Rightarrow> holding_line" where
  "holding_line_of level flags c = \<lparr>hl_check = c, hl_risk_level = level, hl_risk_flags = flags\<rparr>"

definition dispatch_recommendations ::
  "telegram_settings \<Rightarrow> telegram_server \<Rightarrow> int \<Rightarrow> int option \<Rightarrow> dispatch_outcome ndb" where
  "dispatch_recommendations cfg server run_id related_job_id =
     sbind (sgets (\<lambda>d. t_get rn_run_id run_id (rs_runs (dk_research d)))) (\<lambda>found. case found of
       None \<Rightarrow> sthrow (ValueError [T (''recommendation run '' @ str_of_int run_id @ '' not found'')])
     | Some run \<Rightarrow>
         sbind (in_research (recommendation_list_by_run_id run_id)) (\<lambda>recommendations.
         sbind (risk_lines recommendation_line_of rc_snapshot_id recommendations) (\<lambda>lines.
         let message = recommendation_report run lines
         in sbind (send_telegram cfg server message ''REPORT'' None related_job_id) (\<lambda>notification.
            sbind (if no_sent notification then in_research (run_update run_id (\<lambda>r. r\<lparr>rn_telegram_sent := True\<rparr>)) else sret ()) (\<lambda>_.
            sret \<lparr>do_count = length recommendations, do_notification = notification, do_message = message,
                  do_flag_updated = no_sent notification\<rparr>)))))"

definition valid_holding_check_types :: "string list" where
  "valid_holding_check_types = [''PRE_MARKET'', ''POST_MARKET'']"

definition dispatch_holding_checks ::
  "telegram_settings \<Rightarrow> telegram_server \<Rightarrow> int \<Rightarrow> string \<Rightarrow> int option \<Rightarrow> dispatch_outcome ndb" where
  "dispatch_holding_checks cfg server check_date check_type related_job_id =
     (if check_type \<notin> set valid_holding_check_types
      then sthrow (ValueError [T (''check_type must be one of '' @ py_list_repr [''POST_MARKET'', ''PRE_MARKET''] @ '', got '' @ py_repr check_type)])
      else
      sbind (in_research (check_list_by_date_type check_date check_type)) (\<lambda>checks.
      sbind (risk_lines holding_line_of hc_snapshot_id checks) (\<lambda>lines.
      let message = (if check_type = ''PRE_MARKET'' then pre_market_holding_report check_date lines
                     else post_market_holding_report check_date lines)
      in sbind (send_telegram cfg server message ''REPORT'' None related_job_id) (\<lambda>notification.
         sret \<lparr>do_count = length checks, do_notification = notification, do_message = message, do_flag_updated = False\<rparr>))))"

definition resolve_alert_type :: "bool \<Rightarrow> string \<Rightarrow> string option" where
  "resolve_alert_type alert risk_level =
     (if risk_level = ''HIGH'' then Some ''HIGH_RISK'' else if alert then Some ''CHECK_ALERT'' else None)"

definition holding_alert_target :: "string \<Rightarrow> int \<Rightarrow> string \<Rightarrow> string \<Rightarrow> string" where
  "holding_alert_target symbol check_date check_type alert_type =
     ''ALERT_HOLDING:'' @ symbol @ '':'' @ iso_date check_date @ '':'' @ check_type @ '':'' @ alert_type"

text \<open>\<open>if check.snapshot_id\<close>: no snapshot for the id 0 either.\<close>

definition truthy_id :: "int option \<Rightarrow> int option" where
  "truthy_id i = (if i = Some 0 then None else i)"

definition alert_step ::
  "telegram_settings \<Rightarrow> telegram_server \<Rightarrow> int \<Rightarrow> string \<Rightarrow> int option \<Rightarrow> holding_check \<Rightarrow>
   string list \<times> nat \<Rightarrow> (string list \<times> nat) ndb" where
  "alert_step cfg server check_date check_type related_job_id c acc =
     sbind (data_snapshot_of (truthy_id (hc_snapshot_id c))) (\<lambda>snapshot.
     case extract_risk_summary snapshot of (level, flags) \<Rightarrow>
     (case resolve_alert_type (hc_alert c) level of
        None \<Rightarrow> sret acc
      | Some alert_type \<Rightarrow>
          let dedup_target = holding_alert_target (hc_symbol c) check_date check_type alert_type
          in if dedup_target \<in> set (fst acc) then sret acc
             else sbind (send_telegram cfg server (risk_alert (holding_line_of level flags c)) ''ALERT'' (Some dedup_target)
                    related_job_id) (\<lambda>_. sret (dedup_target # fst acc, snd acc + 1))))"

definition dispatch_alerts ::
  "telegram_settings \<Rightarrow> telegram_server \<Rightarrow> int \<Rightarrow> string \<Rightarrow> int option \<Rightarrow> nat ndb" where
  "dispatch_alerts cfg server check_date check_type related_job_id =
     (if check_type \<notin> set valid_holding_check_types
      then sthrow (ValueError [T (''invalid check_type: '' @ check_type)])
      else
      sbind (in_research (check_list_by_date_type check_date check_type)) (\<lambda>checks.
      sbind (notification_log_list 100 0) (\<lambda>logs.
      sbind (sfold (alert_step cfg server check_date check_type related_job_id) checks
        (map nl_target (filter (\<lambda>l. nl_message_type l = ''ALERT'') logs), 0)) (\<lambda>acc.
      sret (snd acc)))))"

subsection \<open>Scheduler jobs\<close>

text \<open>\<open>message_length\<close> is missing in the summaries, the texts being structured.\<close>

definition dispatched_statuses :: "string list" where
  "dispatched_statuses = [''SUCCESS'', ''DRY_RUN'']"

definition jbool :: "bool \<Rightarrow> summary_value" where
  "jbool b = SJson (JBool b)"

definition report_summary :: "int option \<Rightarrow> string option \<Rightarrow> string \<Rightarrow> bool \<Rightarrow> bool \<Rightarrow> int option \<Rightarrow> nat \<Rightarrow>
    (string \<times> summary_value) list" where
  "report_summary run_id run_date status sent flag_updated log_id n =
     [(''phase'', jstr ''8-followup''), (''run_id'', SJson (json_opt JInt run_id)), (''run_date'', SJson (json_opt JStr run_date)),
      (''recommendation_count'', jint n), (''telegram_sent'', jbool sent), (''dry_run'', jbool (status = ''DRY_RUN'')),
      (''telegram_sent_flag_updated'', jbool flag_updated), (''notification_status'', jstr status),
      (''notification_log_id'', SJson (json_opt JInt log_id))]"

definition send_recommendation_report :: "telegram_settings \<Rightarrow> telegram_server \<Rightarrow> int option \<Rightarrow> job_result ndb" where
  "send_recommendation_report cfg server job_run_id =
     sbind (in_research run_latest) (\<lambda>latest. case latest of
       None \<Rightarrow> sret (succeeded (report_summary None None ''NO_DATA'' False False None 0))
     | Some run \<Rightarrow>
         sbind (dispatch_recommendations cfg server (rn_run_id run) job_run_id) (\<lambda>dispatch.
         let n = do_notification dispatch
         in sret \<lparr>jo_status = (if no_status n \<in> set dispatched_statuses then ''SUCCESS'' else ''PARTIAL''),
              jo_summary = Some (report_summary (Some (rn_run_id run)) (Some (iso_date (rn_run_date run))) (no_status n)
                (no_sent n) (do_flag_updated dispatch) (Some (no_log_id n)) (do_count dispatch)), jo_error = None\<rparr>))"

definition holding_summary ::
  "int \<Rightarrow> string \<Rightarrow> check_result option \<Rightarrow> dispatch_outcome option \<Rightarrow> nat \<Rightarrow> (string \<times> summary_value) list" where
  "holding_summary check_date check_type result dispatch alerts =
     (let z = (\<lambda>f. case result of None \<Rightarrow> 0 | Some r \<Rightarrow> f r);
          status = (case dispatch of None \<Rightarrow> ''NO_DATA'' | Some o' \<Rightarrow> no_status (do_notification o'))
      in [(''phase'', jstr ''8-followup''), (''check_date'', jstr (iso_date check_date)), (''check_type'', jstr check_type),
          (''checked_count'', jint (z ck_saved_count)), (''saved_count'', jint (z ck_saved_count)),
          (''skipped_no_price'', jint (z ck_skipped_no_price)), (''skipped_no_indicator'', jint (z ck_skipped_no_indicator)),
          (''alert_count'', jint (z ck_alert_count)),
          (''holding_check_count'', jint (case dispatch of None \<Rightarrow> 0 | Some o' \<Rightarrow> do_count o')), (''alert_sent_count'', jint alerts),
          (''telegram_sent'', jbool (case dispatch of None \<Rightarrow> False | Some o' \<Rightarrow> no_sent (do_notification o'))),
          (''dry_run'', jbool (status = ''DRY_RUN'')), (''notification_status'', jstr status),
          (''notification_log_id'', SJson (json_opt JInt (map_option (\<lambda>o'. no_log_id (do_notification o')) dispatch)))])"

definition run_holding_check_job ::
  "telegram_settings \<Rightarrow> telegram_server \<Rightarrow> holding_config \<Rightarrow> int \<Rightarrow> string \<Rightarrow> int option \<Rightarrow> job_result ndb" where
  "run_holding_check_job cfg server engine offset check_type job_run_id =
     sbind (in_research (in_session (today_in_zone offset))) (\<lambda>check_date.
     sbind (in_research holding_list_active) (\<lambda>active_holdings.
     if active_holdings = [] then sret (succeeded (holding_summary check_date check_type None None 0))
     else
     sbind (in_research (run_checks_for engine check_date check_type)) (\<lambda>result.
     sbind (dispatch_holding_checks cfg server check_date check_type job_run_id) (\<lambda>dispatch.
     sbind (dispatch_alerts cfg server check_date check_type job_run_id) (\<lambda>alerts.
     let has_skips = (0 < ck_skipped_no_price result \<or> 0 < ck_skipped_no_indicator result);
         ok = (no_status (do_notification dispatch) \<in> set dispatched_statuses)
     in sret \<lparr>jo_status = (if ok \<and> \<not> has_skips then ''SUCCESS'' else ''PARTIAL''),
          jo_summary = Some (holding_summary check_date check_type (Some result) (Some dispatch) alerts), jo_error = None\<rparr>)))))"

definition run_pre_market_holding_check ::
  "telegram_settings \<Rightarrow> telegram_server \<Rightarrow> holding_config \<Rightarrow> int \<Rightarrow> int option \<Rightarrow> job_result ndb" where
  "run_pre_market_holding_check cfg server engine offset job_run_id =
     run_holding_check_job cfg server engine offset ''PRE_MARKET'' job_run_id"

definition run_post_market_holding_check ::
  "telegram_settings \<Rightarrow> telegram_server \<Rightarrow> holding_config \<Rightarrow> int \<Rightarrow> int option \<Rightarrow> job_result ndb" where
  "run_post_market_holding_check cfg server engine offset job_run_id =
     run_holding_check_job cfg server engine offset ''POST_MARKET'' job_run_id"

definition default_lookback_days :: int where "default_lookback_days = 60"

definition update_recommendation_results :: "int \<Rightarrow> job_result rdb" where
  "update_recommendation_results offset =
     sbind (in_session (today_in_zone offset)) (\<lambda>as_of.
     sbind (update_results as_of None default_lookback_days) (\<lambda>z.
     let (data_status, status, message) =
           (if rz_processed_recommendations z = 0 then (''NO_DATA'', ''SUCCESS'', None)
            else if 0 < rz_skipped_no_reference z
            then (''PARTIAL'', ''PARTIAL'', Some (str_of_int (int (rz_skipped_no_reference z)) @ '' recommendations had no reference price''))
            else (''SUCCESS'', ''SUCCESS'', None))
     in sret \<lparr>jo_status = status, jo_summary = Some
         [(''phase'', jstr ''5-followup''), (''as_of'', jstr (iso_date (rz_as_of z))),
          (''lookback_days'', SJson (JInt default_lookback_days)), (''data_status'', jstr data_status),
          (''processed_runs'', jint (rz_processed_runs z)), (''processed_count'', jint (rz_processed_recommendations z)),
          (''processed_recommendations'', jint (rz_processed_recommendations z)),
          (''upserted_results'', jint (rz_upserted_results z)), (''pending_count'', jint (rz_pending_count z)),
          (''success_count'', jint (rz_success_count z)), (''failed_count'', jint (rz_failed_count z)),
          (''skipped_no_reference'', jint (rz_skipped_no_reference z))], jo_error = message\<rparr>))"

end
