(* ===== verification/Notification_Facts.thy ===== *)
theory Notification_Facts
  imports Notifications Recommendation_Facts
begin

text \<open>
  Properties of the notifications: what one send does and logs, which alerts a run sends and
  when a second run sends them again, and the layout of the holding report.
\<close>

subsection \<open>One send\<close>

text \<open>The configuration under which a message reaches the server.\<close>

definition posts_to :: "telegram_settings \<Rightarrow> bool" where
  "posts_to cfg \<longleftrightarrow> tg_enabled cfg \<and> tg_bot_token cfg \<noteq> [] \<and> tg_chat_id cfg \<noteq> []"

definition post_of :: "telegram_settings \<Rightarrow> report_line list \<Rightarrow> telegram_post" where
  "post_of cfg message = \<lparr>tp_path = ''/bot'' @ tg_bot_token cfg @ ''/sendMessage'', tp_chat_id = tg_chat_id cfg, tp_text = message\<rparr>"

definition send_result :: "telegram_settings \<Rightarrow> telegram_server \<Rightarrow> report_line list \<Rightarrow> desk \<Rightarrow> py_error + notification_result" where
  "send_result cfg server message d =
     (if \<not> tg_enabled cfg then Inr (unsent cfg ''DRY_RUN'' None)
      else if \<not> posts_to cfg then Inr (unsent cfg ''DISABLED'' (Some ''missing telegram credentials''))
      else telegram_result cfg (server (dk_posts d) (post_of cfg message)))"

lemma telegram_send_eq:
  "telegram_send cfg server message d = (send_result cfg server message d,
     d\<lparr>dk_posts := dk_posts d @ (if posts_to cfg then [post_of cfg message] else [])\<rparr>)"
  by (auto simp: telegram_send_def send_result_def posts_to_def post_of_def sret_def Let_def)

lemma send_result_fields:
  "send_result cfg server message d = Inr r \<Longrightarrow> nr_channel r = ''TELEGRAM'' \<and> nr_target r = mask_chat_id (tg_chat_id cfg) \<and>
     (nr_sent r \<longleftrightarrow> nr_status r = ''SUCCESS'') \<and> (nr_sent r \<longrightarrow> posts_to cfg \<and> nr_error_message r = None)"
  by (auto simp: send_result_def telegram_result_def unsent_def split: if_splits http_outcome.splits option.splits reply.splits)

lemma send_telegram_eq:
  "send_telegram cfg server message ty target job d =
     (let d1 = d\<lparr>dk_posts := dk_posts d @ (if posts_to cfg then [post_of cfg message] else [])\<rparr>
      in case send_result cfg server message d of
           Inl e \<Rightarrow> (Inl e, d1)
         | Inr r \<Rightarrow>
             let l = \<lparr>nl_id = t_next nl_id (dk_logs d), nl_channel = nr_channel r, nl_message_type = ty,
                      nl_target = text_or target (nr_target r), nl_sent_at = (if nr_sent r then Some (desk_now d) else None),
                      nl_status = nr_status r, nl_error_message = nr_error_message r, nl_related_job_id = job\<rparr>
             in (Inr \<lparr>no_log_id = nl_id l, no_channel = nr_channel r, no_status = nr_status r, no_sent = nr_sent r,
                      no_target = nl_target l, no_error_message = nr_error_message r\<rparr>,
                 d1\<lparr>dk_logs := dk_logs d @ [l]\<rparr>))"
  by (auto simp: send_telegram_def sbind_def telegram_send_eq record_log_def sret_def Let_def desk_now_def split: sum.splits)

text \<open>
  A notification posts at most once, and only when Telegram is enabled and both credentials
  are set; it is reported as sent exactly when its status is SUCCESS, which needs such a post.
  Unless the HTTP client raises something that is no HTTP error, exactly one log row is added,
  with a fresh id, the outcome's status, the time of sending if it was sent, and the given
  target or else the masked chat id; nothing else of the database changes.
\<close>

lemma notification_logged:
  "case send_telegram cfg server message ty target job d of
     (Inr o', d') \<Rightarrow>
       dk_research d' = dk_research d \<and>
       dk_posts d' = dk_posts d @ (if posts_to cfg then [post_of cfg message] else []) \<and>
       (no_sent o' \<longleftrightarrow> no_status o' = ''SUCCESS'') \<and> (no_sent o' \<longrightarrow> posts_to cfg) \<and>
       (\<exists>l. dk_logs d' = dk_logs d @ [l] \<and> nl_id l = no_log_id o' \<and> no_log_id o' \<notin> nl_id ` set (dk_logs d) \<and>
          nl_status l = no_status o' \<and> nl_message_type l = ty \<and> nl_related_job_id l = job \<and>
          nl_sent_at l = (if no_sent o' then Some (desk_now d) else None) \<and>
          nl_target l = text_or target (mask_chat_id (tg_chat_id cfg)))
   | (Inl e, d') \<Rightarrow> e = TransportError \<and> posts_to cfg \<and> dk_logs d' = dk_logs d \<and> dk_research d' = dk_research d"
proof (cases "send_result cfg server message d")
  case (Inl e)
  then have "e = TransportError \<and> posts_to cfg"
    by (auto simp: send_result_def telegram_result_def split: if_splits http_outcome.splits option.splits reply.splits)
  with Inl show ?thesis by (simp add: send_telegram_eq Let_def)
next
  case (Inr r)
  have "t_next nl_id (dk_logs d) \<notin> nl_id ` set (dk_logs d)" by (auto dest: t_next_gt [of _ _ nl_id])
  with Inr send_result_fields [OF Inr] show ?thesis by (simp add: send_telegram_eq Let_def)
qed

subsection \<open>Which alerts a run sends\<close>

text \<open>The exceptions of the HTTP client are documented to be \<open>HTTPError\<close>s; without a post none matters.\<close>

definition well_behaved :: "telegram_settings \<Rightarrow> telegram_server \<Rightarrow> bool" where
  "well_behaved cfg server \<longleftrightarrow> (posts_to cfg \<longrightarrow> (\<forall>posts post. server posts post \<noteq> HRaise))"

definition alert_target :: "research \<Rightarrow> int \<Rightarrow> string \<Rightarrow> holding_check \<Rightarrow> string option" where
  "alert_target s check_date check_type c =
     map_option (holding_alert_target (hc_symbol c) check_date check_type)
       (resolve_alert_type (hc_alert c) (fst (extract_risk_summary
          (Option.bind (truthy_id (hc_snapshot_id c)) (\<lambda>i. t_get ds_snapshot_id i (rs_data_snapshots s))))))"

definition alert_targets :: "research \<Rightarrow> int \<Rightarrow> string \<Rightarrow> string list" where
  "alert_targets s check_date check_type = List.map_filter (alert_target s check_date check_type)
     (sort_key hc_symbol (filter (\<lambda>c. hc_check_date c = check_date \<and> hc_check_type c = check_type) (rs_checks s)))"

text \<open>The targets the dispatcher knows: those of the alerts among the first hundred log rows.\<close>

definition known_targets :: "notification_log list \<Rightarrow> string list" where
  "known_targets logs = map nl_target (filter (\<lambda>l. nl_message_type l = ''ALERT'') (take 100 logs))"

fun fresh :: "string list \<Rightarrow> string list \<Rightarrow> string list" where
  "fresh known [] = []"
| "fresh known (t # ts) = (if t \<in> set known then fresh known ts else t # fresh (t # known) ts)"

lemma fresh_set: "set (fresh known ts) = set ts - set known"
  by (induction known ts rule: fresh.induct) auto

lemma fresh_distinct: "distinct (fresh known ts)"
  by (induction known ts rule: fresh.induct) (auto simp: fresh_set)

lemma fresh_cong: "set known = set known' \<Longrightarrow> fresh known ts = fresh known' ts"
proof (induction known ts arbitrary: known' rule: fresh.induct)
  case (2 known t ts)
  then show ?case by (cases "t \<in> set known") auto
qed simp

lemma fresh_none: "set ts \<subseteq> set known \<Longrightarrow> fresh known ts = []"
  using fresh_set [of known ts] by (metis Diff_eq_empty_iff set_empty)

lemma quiet_send:
  assumes "well_behaved cfg server" and "target \<noteq> []"
  obtains o' l posts where "send_telegram cfg server message ty (Some target) job d =
      (Inr o', d\<lparr>dk_posts := posts, dk_logs := dk_logs d @ [l]\<rparr>)" "nl_target l = target" "nl_message_type l = ty"
proof (cases "send_result cfg server message d")
  case (Inl e)
  with assms(1) show ?thesis
    by (auto simp: send_result_def telegram_result_def well_behaved_def split: if_splits http_outcome.splits option.splits reply.splits)
next
  case (Inr r)
  with assms(2) show ?thesis by (intro that) (auto simp: send_telegram_eq Let_def text_or_def)
qed

lemma alert_step_eq:
  assumes ok: "well_behaved cfg server"
  obtains ls posts where "alert_step cfg server check_date check_type job c (known, n) d =
      (Inr (rev (fresh known (List.map_filter (alert_target (dk_research d) check_date check_type) [c])) @ known, n + length ls),
       d\<lparr>dk_posts := posts, dk_logs := dk_logs d @ ls\<rparr>)"
    "map nl_target ls = fresh known (List.map_filter (alert_target (dk_research d) check_date check_type) [c])"
    "\<forall>l \<in> set ls. nl_message_type l = ''ALERT''"
proof (cases "alert_target (dk_research d) check_date check_type c")
  case None
  then have "alert_step cfg server check_date check_type job c (known, n) d = (Inr (known, n), d)"
    by (auto simp: alert_step_def data_snapshot_of_def sbind_def sgets_def sret_def alert_target_def
        split: option.splits prod.splits)
  with None show ?thesis by (intro that [of "[]" "dk_posts d"]) (simp_all add: List.map_filter_def)
next
  case (Some t)
  then have t: "t \<noteq> []" by (auto simp: alert_target_def holding_alert_target_def)
  show ?thesis
  proof (cases "t \<in> set known")
    case True
    with Some have "alert_step cfg server check_date check_type job c (known, n) d = (Inr (known, n), d)"
      by (auto simp: alert_step_def data_snapshot_of_def sbind_def sgets_def sret_def alert_target_def Let_def
          split: option.splits prod.splits)
    with Some True show ?thesis by (intro that [of "[]" "dk_posts d"]) (simp_all add: List.map_filter_def)
  next
    case False
    let ?snapshot = "Option.bind (truthy_id (hc_snapshot_id c)) (\<lambda>i. t_get ds_snapshot_id i (rs_data_snapshots (dk_research d)))"
    obtain level flags where risk: "extract_risk_summary ?snapshot = (level, flags)" by (cases "extract_risk_summary ?snapshot")
    with Some obtain ty where ty: "resolve_alert_type (hc_alert c) level = Some ty"
      "t = holding_alert_target (hc_symbol c) check_date check_type ty" by (auto simp: alert_target_def)
    obtain o' l posts where send: "send_telegram cfg server (risk_alert (holding_line_of level flags c)) ''ALERT'' (Some t) job d =
        (Inr o', d\<lparr>dk_posts := posts, dk_logs := dk_logs d @ [l]\<rparr>)" "nl_target l = t" "nl_message_type l = ''ALERT''"
      by (rule quiet_send [OF ok t])
    have "alert_step cfg server check_date check_type job c (known, n) d =
        (Inr (t # known, n + 1), d\<lparr>dk_posts := posts, dk_logs := dk_logs d @ [l]\<rparr>)"
      using send(1) ty False
      by (simp add: alert_step_def data_snapshot_of_def sbind_def sgets_def sret_def risk Let_def)
    with Some False send(2,3) show ?thesis by (intro that [of "[l]" posts]) (simp_all add: List.map_filter_def)
  qed
qed

lemma map_filter_Cons: "List.map_filter f (x # xs) = List.map_filter f [x] @ List.map_filter f xs"
  by (simp add: List.map_filter_def split: option.split)

lemma fresh_append: "fresh known (xs @ ys) = fresh known xs @ fresh (rev (fresh known xs) @ known) ys"
proof (induction known xs rule: fresh.induct)
  case (2 known t ts)
  then show ?case by (cases "t \<in> set known") simp_all
qed simp

lemma alerts_loop:
  assumes ok: "well_behaved cfg server"
  shows "\<exists>ls posts. sfold (alert_step cfg server check_date check_type job) cs (known, n) d =
      (Inr (rev (fresh known (List.map_filter (alert_target (dk_research d) check_date check_type) cs)) @ known, n + length ls),
       d\<lparr>dk_posts := posts, dk_logs := dk_logs d @ ls\<rparr>) \<and>
    map nl_target ls = fresh known (List.map_filter (alert_target (dk_research d) check_date check_type) cs) \<and>
    (\<forall>l \<in> set ls. nl_message_type l = ''ALERT'')"
proof (induction cs arbitrary: known n d)
  case Nil
  show ?case by (intro exI [of _ "[]"] exI [of _ "dk_posts d"]) (simp add: sret_def List.map_filter_def)
next
  case (Cons c cs)
  let ?f = "alert_target (dk_research d) check_date check_type"
  define ks where "ks = fresh known (List.map_filter ?f [c])"
  define ks' where "ks' = fresh (rev ks @ known) (List.map_filter ?f cs)"
  obtain ls posts where step: "alert_step cfg server check_date check_type job c (known, n) d =
      (Inr (rev ks @ known, n + length ls), d\<lparr>dk_posts := posts, dk_logs := dk_logs d @ ls\<rparr>)"
    "map nl_target ls = ks" "\<forall>l \<in> set ls. nl_message_type l = ''ALERT''"
    unfolding ks_def by (rule alert_step_eq [OF ok])
  let ?d = "d\<lparr>dk_posts := posts, dk_logs := dk_logs d @ ls\<rparr>"
  from Cons.IH [of "rev ks @ known" "n + length ls" ?d] obtain ls' posts' where
    rest: "sfold (alert_step cfg server check_date check_type job) cs (rev ks @ known, n + length ls) ?d =
      (Inr (rev ks' @ rev ks @ known, n + length ls + length ls'), ?d\<lparr>dk_posts := posts', dk_logs := dk_logs ?d @ ls'\<rparr>)"
    "map nl_target ls' = ks'" "\<forall>l \<in> set ls'. nl_message_type l = ''ALERT''"
    by (auto simp: ks'_def)
  have all: "fresh known (List.map_filter ?f (c # cs)) = ks @ ks'"
    unfolding map_filter_Cons [of ?f c cs] fresh_append ks'_def by (simp only: ks_def)
  have "sfold (alert_step cfg server check_date check_type job) (c # cs) (known, n) d =
      (Inr (rev (ks @ ks') @ known, n + length (ls @ ls')),
       d\<lparr>dk_posts := posts', dk_logs := dk_logs d @ (ls @ ls')\<rparr>)"
    using step(1) rest(1) by (simp add: sbind_def)
  moreover have "map nl_target (ls @ ls') = ks @ ks'" by (simp add: step(2) rest(2))
  ultimately show ?case
    using step(3) rest(3) unfolding all by (intro exI [of _ "ls @ ls'"] exI [of _ posts']) auto
qed

lemma dispatch_alerts_eq:
  assumes ok: "well_behaved cfg server" and ty: "check_type \<in> set valid_holding_check_types"
  shows "\<exists>ls posts. dispatch_alerts cfg server check_date check_type job d =
      (Inr (length ls), d\<lparr>dk_posts := posts, dk_logs := dk_logs d @ ls\<rparr>) \<and>
    map nl_target ls = fresh (known_targets (dk_logs d)) (alert_targets (dk_research d) check_date check_type) \<and>
    (\<forall>l \<in> set ls. nl_message_type l = ''ALERT'')"
proof -
  from alerts_loop [OF ok, of check_date check_type job
      "sort_key hc_symbol (filter (\<lambda>c. hc_check_date c = check_date \<and> hc_check_type c = check_type) (rs_checks (dk_research d)))"
      "known_targets (dk_logs d)" 0 d]
  obtain ls posts where loop: "sfold (alert_step cfg server check_date check_type job)
      (sort_key hc_symbol (filter (\<lambda>c. hc_check_date c = check_date \<and> hc_check_type c = check_type) (rs_checks (dk_research d))))
      (known_targets (dk_logs d), 0) d = (Inr (rev (fresh (known_targets (dk_logs d)) (alert_targets (dk_research d) check_date check_type)) @
        known_targets (dk_logs d), length ls), d\<lparr>dk_posts := posts, dk_logs := dk_logs d @ ls\<rparr>)"
    "map nl_target ls = fresh (known_targets (dk_logs d)) (alert_targets (dk_research d) check_date check_type)"
    "\<forall>l \<in> set ls. nl_message_type l = ''ALERT''"
    by (auto simp: alert_targets_def)
  have "dispatch_alerts cfg server check_date check_type job d = (Inr (length ls), d\<lparr>dk_posts := posts, dk_logs := dk_logs d @ ls\<rparr>)"
    using ty loop(1)
    by (simp add: dispatch_alerts_def in_research_def check_list_by_date_type_def notification_log_list_def known_targets_def
        sbind_def sgets_def sret_def)
  with loop(2,3) show ?thesis by blast
qed


definition demo_alert :: holding_check where
  "demo_alert = \<lparr>hc_id = 1, hc_check_date = 8, hc_check_type = ''PRE_MARKET'', hc_symbol = ''005930'', hc_current_price = Some 80,
     hc_avg_buy_price = Some 100, hc_return_rate = Some (- 20), hc_technical_score = None, hc_news_score = None,
     hc_earnings_score = None, hc_ai_score = None, hc_risk_score = None, hc_total_score = Some 20, hc_grade = Some ''D'',
     hc_decision = Some ''SELL'', hc_reason = None, hc_alert = True, hc_snapshot_id = None\<rparr>"

definition demo_telegram :: telegram_settings where
  "demo_telegram = \<lparr>tg_enabled = True, tg_bot_token = ''123:abc'', tg_chat_id = ''987654''\<rparr>"

definition demo_server :: telegram_server where
  "demo_server posts post = HReply 200 (Some (RDict [(''ok'', RBool True)]))"

definition demo_desk :: desk where
  "demo_desk = \<lparr>dk_research = demo_research\<lparr>rs_checks := [demo_alert]\<rparr>, dk_logs = [], dk_posts = []\<rparr>"

lemma demo_targets: "alert_targets (dk_research demo_desk) 8 ''PRE_MARKET'' = [holding_alert_target ''005930'' 8 ''PRE_MARKET'' ''CHECK_ALERT'']"
  by (simp add: alert_targets_def demo_desk_def demo_alert_def alert_target_def truthy_id_def extract_risk_summary_def
      resolve_alert_type_def List.map_filter_def)


end
