(* ===== verification/Database_Schema.thy ===== *)
theory Database_Schema
  imports Main
begin

text \<open>
  The schema of the database: tables with their columns, constraints and indexes, the data
  definition operations the migrations use (\<^verbatim>\<open>op.create_table\<close>, \<^verbatim>\<open>batch_op.create_index\<close>,
  \<^verbatim>\<open>batch_op.drop_index\<close>, \<^verbatim>\<open>op.drop_table\<close>) with the conditions under which a database refuses them,
  and the tables an ORM class declares (\<^verbatim>\<open>app/db/models.py\<close>, \<^verbatim>\<open>app/db/base.py\<close>).
\<close>

subsection \<open>Tables\<close>

datatype column_type = Integer | BigInteger | String nat | Text | Date | DateTime | Boolean | JSON | Numeric nat nat

text \<open>\<open>AutoColumn\<close> is an integer column with \<open>autoincrement=True\<close> that is not nullable; the last argument of a \<open>Column\<close>
  is \<open>nullable\<close>; a foreign key names the table and column it refers to and its \<open>ondelete\<close>.\<close>

datatype table_element =
    AutoColumn string
  | Column string column_type bool
  | ForeignKeyConstraint string string string "string option"
  | PrimaryKeyConstraint string
  | UniqueConstraint "string list" string

datatype table_index = TableIndex string "string list" bool

datatype db_table = DbTable (tb_name: string) (tb_elements: "table_element list") (tb_indexes: "table_index list")

type_synonym schema = "db_table list"

fun index_name :: "table_index \<Rightarrow> string" where
  "index_name (TableIndex n cols u) = n"

fun element_columns :: "table_element \<Rightarrow> string list" where
  "element_columns (AutoColumn c) = [c]"
| "element_columns (Column c ty null) = [c]"
| "element_columns _ = []"

fun element_references :: "table_element \<Rightarrow> (string \<times> string) list" where
  "element_references (ForeignKeyConstraint c t k ondelete) = [(t, k)]"
| "element_references _ = []"

text \<open>The columns the constraints of a table are about.\<close>

fun element_uses :: "table_element \<Rightarrow> string list" where
  "element_uses (ForeignKeyConstraint c t k ondelete) = [c]"
| "element_uses (PrimaryKeyConstraint c) = [c]"
| "element_uses (UniqueConstraint cs n) = cs"
| "element_uses _ = []"

definition table_columns :: "db_table \<Rightarrow> string list" where
  "table_columns t = concat (map element_columns (tb_elements t))"

definition table_references :: "db_table \<Rightarrow> (string \<times> string) list" where
  "table_references t = concat (map element_references (tb_elements t))"

fun find_table :: "string \<Rightarrow> schema \<Rightarrow> db_table option" where
  "find_table n [] = None"
| "find_table n (t # ts) = (if tb_name t = n then Some t else find_table n ts)"

subsection \<open>Data definition\<close>

datatype ddl =
    CreateTable string "table_element list"
  | CreateIndex string string "string list" bool
  | DropIndex string string
  | DropTable string

datatype ddl_error =
    TableExists string
  | NoSuchTable string
  | BadColumns string
  | BadReference string
  | IndexExists string
  | NoSuchIndex string
  | StillReferenced string

definition has_column :: "schema \<Rightarrow> string \<times> string \<Rightarrow> bool" where
  "has_column s r = (case find_table (fst r) s of None \<Rightarrow> False | Some t \<Rightarrow> snd r \<in> set (table_columns t))"

definition create_table :: "string \<Rightarrow> table_element list \<Rightarrow> schema \<Rightarrow> ddl_error + schema" where
  "create_table n elements s =
     (let t = DbTable n elements []; columns = table_columns t
      in if find_table n s \<noteq> None then Inl (TableExists n)
         else if \<not> distinct columns \<or> \<not> list_all (\<lambda>e. list_all (\<lambda>c. c \<in> set columns) (element_uses e)) elements
         then Inl (BadColumns n)
         else if \<not> list_all (has_column s) (table_references t) then Inl (BadReference n)
         else Inr (s @ [t]))"

fun change_table :: "string \<Rightarrow> (db_table \<Rightarrow> db_table) \<Rightarrow> schema \<Rightarrow> schema" where
  "change_table n f [] = []"
| "change_table n f (t # ts) = (if tb_name t = n then f t # ts else t # change_table n f ts)"

definition index_used :: "string \<Rightarrow> schema \<Rightarrow> bool" where
  "index_used i s = list_ex (\<lambda>t. list_ex (\<lambda>x. index_name x = i) (tb_indexes t)) s"

definition create_index :: "string \<Rightarrow> string \<Rightarrow> string list \<Rightarrow> bool \<Rightarrow> schema \<Rightarrow> ddl_error + schema" where
  "create_index n i columns unique s =
     (case find_table n s of
        None \<Rightarrow> Inl (NoSuchTable n)
      | Some t \<Rightarrow>
          if \<not> list_all (\<lambda>c. c \<in> set (table_columns t)) columns then Inl (BadColumns n)
          else if index_used i s then Inl (IndexExists i)
          else Inr (change_table n (\<lambda>t. DbTable (tb_name t) (tb_elements t) (tb_indexes t @ [TableIndex i columns unique])) s))"

definition drop_index :: "string \<Rightarrow> string \<Rightarrow> schema \<Rightarrow> ddl_error + schema" where
  "drop_index n i s =
     (case find_table n s of
        None \<Rightarrow> Inl (NoSuchTable n)
      | Some t \<Rightarrow>
          if \<not> list_ex (\<lambda>x. index_name x = i) (tb_indexes t) then Inl (NoSuchIndex i)
          else Inr (change_table n (\<lambda>t. DbTable (tb_name t) (tb_elements t) (filter (\<lambda>x. index_name x \<noteq> i) (tb_indexes t))) s))"

definition drop_table :: "string \<Rightarrow> schema \<Rightarrow> ddl_error + schema" where
  "drop_table n s =
     (if find_table n s = None then Inl (NoSuchTable n)
      else if list_ex (\<lambda>t. tb_name t \<noteq> n \<and> list_ex (\<lambda>r. fst r = n) (table_references t)) s then Inl (StillReferenced n)
      else Inr (filter (\<lambda>t. tb_name t \<noteq> n) s))"

fun run_ddl :: "ddl \<Rightarrow> schema \<Rightarrow> ddl_error + schema" where
  "run_ddl (CreateTable n elements) s = create_table n elements s"
| "run_ddl (CreateIndex n i columns unique) s = create_index n i columns unique s"
| "run_ddl (DropIndex n i) s = drop_index n i s"
| "run_ddl (DropTable n) s = drop_table n s"

fun run_script :: "ddl list \<Rightarrow> schema \<Rightarrow> ddl_error + schema" where
  "run_script [] s = Inr s"
| "run_script (op # ops) s = (case run_ddl op s of Inl e \<Rightarrow> Inl e | Inr s' \<Rightarrow> run_script ops s')"

subsection \<open>ORM classes\<close>

text \<open>
  \<open>mapped_column\<close> with the arguments that reach the schema. A foreign key column has the type of
  the column it refers to; \<open>index=True\<close> declares the index \<open>ix_<table>_<column>\<close>, unique when
  \<open>unique=True\<close> is given too. The defaults are applied by Python and are no part of the schema.
\<close>

record orm_column =
  co_name :: string
  co_type :: "column_type option"
  co_nullable :: bool
  co_primary_key :: bool
  co_index :: bool
  co_unique :: bool
  co_reference :: "(string \<times> string \<times> string option) option"

datatype orm_arg = UniqueArg string "string list" | IndexArg string "string list"

record orm_class =
  om_table :: string
  om_timestamps :: bool
  om_columns :: "orm_column list"
  om_args :: "orm_arg list"

definition mapped_column :: "string \<Rightarrow> column_type \<Rightarrow> bool \<Rightarrow> orm_column" where
  "mapped_column name ty nullable = \<lparr>co_name = name, co_type = Some ty, co_nullable = nullable, co_primary_key = False,
     co_index = False, co_unique = False, co_reference = None\<rparr>"

definition primary_key :: "string \<Rightarrow> orm_column" where
  "primary_key name = (mapped_column name Integer False)\<lparr>co_primary_key := True\<rparr>"

definition foreign_key :: "string \<Rightarrow> string \<times> string \<Rightarrow> string option \<Rightarrow> bool \<Rightarrow> orm_column" where
  "foreign_key name target ondelete nullable = (mapped_column name Integer nullable)
     \<lparr>co_type := None, co_reference := Some (fst target, snd target, ondelete)\<rparr>"

definition indexed :: "orm_column \<Rightarrow> orm_column" where
  "indexed c = c\<lparr>co_index := True\<rparr>"

definition unique_indexed :: "orm_column \<Rightarrow> orm_column" where
  "unique_indexed c = c\<lparr>co_index := True, co_unique := True\<rparr>"

definition timestamp_mixin :: "orm_column list" where
  "timestamp_mixin = [mapped_column ''created_at'' DateTime False, mapped_column ''updated_at'' DateTime False]"

definition all_columns :: "orm_class \<Rightarrow> orm_column list" where
  "all_columns m = om_columns m @ (if om_timestamps m then timestamp_mixin else [])"

text \<open>The type of the column a foreign key refers to; references lead to primary keys only.\<close>

fun referenced_type :: "orm_class list \<Rightarrow> string \<Rightarrow> string \<Rightarrow> column_type option" where
  "referenced_type [] t k = None"
| "referenced_type (m # ms) t k =
     (if om_table m = t then Option.bind (List.find (\<lambda>c. co_name c = k) (all_columns m)) co_type else referenced_type ms t k)"

definition column_element :: "orm_class list \<Rightarrow> orm_column \<Rightarrow> table_element option" where
  "column_element ms c =
     (if co_primary_key c then Some (AutoColumn (co_name c))
      else map_option (\<lambda>ty. Column (co_name c) ty (co_nullable c))
        (case co_reference c of None \<Rightarrow> co_type c | Some (t, k, ondelete) \<Rightarrow> referenced_type ms t k))"

definition reference_element :: "orm_column \<Rightarrow> table_element option" where
  "reference_element c = map_option (\<lambda>(t, k, ondelete). ForeignKeyConstraint (co_name c) t k ondelete) (co_reference c)"

fun unique_element :: "orm_arg \<Rightarrow> table_element option" where
  "unique_element (UniqueArg n cols) = Some (UniqueConstraint cols n)"
| "unique_element (IndexArg n cols) = None"

fun index_arg :: "orm_arg \<Rightarrow> table_index option" where
  "index_arg (IndexArg n cols) = Some (TableIndex n cols False)"
| "index_arg (UniqueArg n cols) = None"

definition column_index :: "string \<Rightarrow> orm_column \<Rightarrow> table_index option" where
  "column_index n c = (if co_index c then Some (TableIndex (''ix_'' @ n @ ''_'' @ co_name c) [co_name c] (co_unique c)) else None)"

definition table_of :: "orm_class list \<Rightarrow> orm_class \<Rightarrow> db_table" where
  "table_of ms m = DbTable (om_table m)
     (List.map_filter (column_element ms) (all_columns m) @
      List.map_filter (\<lambda>c. if co_primary_key c then Some (PrimaryKeyConstraint (co_name c)) else None) (all_columns m) @
      List.map_filter reference_element (all_columns m) @ List.map_filter unique_element (om_args m))
     (List.map_filter (column_index (om_table m)) (all_columns m) @ List.map_filter index_arg (om_args m))"

text \<open>Equal up to the order of tables, elements and indexes, as \<open>compare_metadata\<close> sees them.\<close>

definition same_table :: "db_table \<Rightarrow> db_table \<Rightarrow> bool" where
  "same_table t u \<longleftrightarrow> tb_name t = tb_name u \<and> set (tb_elements t) = set (tb_elements u) \<and> set (tb_indexes t) = set (tb_indexes u)"

definition same_schema :: "schema \<Rightarrow> schema \<Rightarrow> bool" where
  "same_schema a b \<longleftrightarrow> length a = length b \<and>
     list_all (\<lambda>t. case find_table (tb_name t) b of None \<Rightarrow> False | Some u \<Rightarrow> same_table t u) a \<and>
     list_all (\<lambda>t. find_table (tb_name t) a \<noteq> None) b"

end
