(* ===== verification/Baseline_Migration.thy ===== *)
theory Baseline_Migration
  imports Database_Schema
begin

text \<open>
  The baseline revision (\<^verbatim>\<open>alembic/versions/0001_baseline_v0_7.py\<close>): one script for every table it creates
  and one for every table it drops, in the order of the file. The calls on a batch of a table are
  operations that name the table.
\<close>

record revision =
  rv_id :: string
  rv_down :: "string option"
  rv_upgrade :: "ddl list"
  rv_downgrade :: "ddl list"

subsection \<open>\<^verbatim>\<open>0001_baseline_v0_7.py\<close>\<close>

definition create_analyst_reports :: "ddl list" where
  "create_analyst_reports =
    [CreateTable ''analyst_reports''
      [AutoColumn ''id'', Column ''symbol'' (String 32) True, Column ''company_name'' (String 255) True,
       Column ''market'' (String 32) True, Column ''exchange'' (String 32) True, Column ''country'' (String 32) True,
       Column ''report_type'' (String 32) False, Column ''broker_name'' (String 64) False,
       Column ''broker_country'' (String 32) True, Column ''analyst_name'' (String 64) True,
       Column ''published_at'' Date False, Column ''title'' (String 255) False, Column ''rating'' (String 32) True,
       Column ''normalized_rating'' (String 16) True, Column ''target_price'' (Numeric 20 4) True,
       Column ''previous_target_price'' (Numeric 20 4) True, Column ''current_price_at_report'' (Numeric 20 4) True,
       Column ''currency'' (String 8) True, Column ''summary'' (String 500) True,
       Column ''positive_points'' Text True, Column ''risk_points'' Text True,
       Column ''source_url'' (String 500) True, Column ''source_file_path'' (String 500) True,
       Column ''language'' (String 8) True, Column ''source_reliability_score'' (Numeric 5 2) True,
       Column ''extraction_method'' (String 16) False, Column ''extraction_confidence'' (Numeric 4 3) True,
       Column ''duplicate_group_key'' (String 64) True, Column ''created_at'' DateTime False,
       Column ''updated_at'' DateTime False, PrimaryKeyConstraint ''id'',
       UniqueConstraint [''broker_name'', ''published_at'', ''title''] ''uq_analyst_reports_broker_pub_title''],
     CreateIndex ''analyst_reports'' ''ix_analyst_reports_duplicate_group_key'' [''duplicate_group_key''] False,
     CreateIndex ''analyst_reports'' ''ix_analyst_reports_published_at'' [''published_at''] False,
     CreateIndex ''analyst_reports'' ''ix_analyst_reports_report_type'' [''report_type''] False,
     CreateIndex ''analyst_reports'' ''ix_analyst_reports_symbol'' [''symbol''] False]"

definition create_backtest_runs :: "ddl list" where
  "create_backtest_runs =
    [CreateTable ''backtest_runs''
      [AutoColumn ''id'', Column ''strategy_name'' (String 64) False, Column ''strategy_version'' (String 32) False,
       Column ''run_date'' Date False, Column ''start_date'' Date True, Column ''end_date'' Date True,
       Column ''signal_count'' Integer False, Column ''buy_count'' Integer False,
       Column ''avoid_count'' Integer False, Column ''pass_count'' Integer False,
       Column ''win_rate_1d'' (Numeric 6 4) True, Column ''win_rate_3d'' (Numeric 6 4) True,
       Column ''win_rate_5d'' (Numeric 6 4) True, Column ''win_rate_20d'' (Numeric 6 4) True,
       Column ''avg_return_1d'' (Numeric 12 4) True, Column ''avg_return_3d'' (Numeric 12 4) True,
       Column ''avg_return_5d'' (Numeric 12 4) True, Column ''avg_return_20d'' (Numeric 12 4) True,
       Column ''max_drawdown'' (Numeric 12 4) True, Column ''status'' (String 16) False,
       Column ''error_message'' Text True, Column ''config_json'' JSON True, Column ''summary_json'' JSON True,
       Column ''created_at'' DateTime False, Column ''updated_at'' DateTime False, PrimaryKeyConstraint ''id''],
     CreateIndex ''backtest_runs'' ''ix_backtest_runs_run_date'' [''run_date''] False,
     CreateIndex ''backtest_runs'' ''ix_backtest_runs_strategy_name'' [''strategy_name''] False]"

definition create_daily_prices :: "ddl list" where
  "create_daily_prices =
    [CreateTable ''daily_prices''
      [AutoColumn ''id'', Column ''date'' Date False, Column ''symbol'' (String 32) False,
       Column ''open'' (Numeric 20 4) False, Column ''high'' (Numeric 20 4) False,
       Column ''low'' (Numeric 20 4) False, Column ''close'' (Numeric 20 4) False, Column ''volume'' BigInteger False,
       Column ''trading_value'' (Numeric 24 4) True, Column ''adjusted_close'' (Numeric 20 4) True,
       Column ''created_at'' DateTime False, PrimaryKeyConstraint ''id'',
       UniqueConstraint [''symbol'', ''date''] ''uq_daily_prices_symbol_date''],
     CreateIndex ''daily_prices'' ''ix_daily_prices_date'' [''date''] False,
     CreateIndex ''daily_prices'' ''ix_daily_prices_symbol'' [''symbol''] False,
     CreateIndex ''daily_prices'' ''ix_daily_prices_symbol_date'' [''symbol'', ''date''] False]"

definition create_data_snapshots :: "ddl list" where
  "create_data_snapshots =
    [CreateTable ''data_snapshots''
      [AutoColumn ''snapshot_id'', Column ''snapshot_time'' DateTime False, Column ''symbol'' (String 32) False,
       Column ''snapshot_type'' (String 64) False, Column ''price_data_json'' JSON True,
       Column ''indicator_data_json'' JSON True, Column ''news_data_json'' JSON True,
       Column ''market_context_json'' JSON True, Column ''created_at'' DateTime False,
       PrimaryKeyConstraint ''snapshot_id''],
     CreateIndex ''data_snapshots'' ''ix_data_snapshots_snapshot_time'' [''snapshot_time''] False,
     CreateIndex ''data_snapshots'' ''ix_data_snapshots_snapshot_type'' [''snapshot_type''] False,
     CreateIndex ''data_snapshots'' ''ix_data_snapshots_symbol'' [''symbol''] False,
     CreateIndex ''data_snapshots'' ''ix_data_snapshots_symbol_type_time'' [''symbol'', ''snapshot_type'', ''snapshot_time''] False]"

definition create_earnings_events :: "ddl list" where
  "create_earnings_events =
    [CreateTable ''earnings_events''
      [AutoColumn ''id'', Column ''symbol'' (String 32) False, Column ''company_name'' (String 255) True,
       Column ''event_date'' Date False, Column ''fiscal_year'' Integer False, Column ''fiscal_quarter'' Integer True,
       Column ''event_type'' (String 16) False, Column ''revenue_actual'' (Numeric 24 4) True,
       Column ''revenue_consensus'' (Numeric 24 4) True, Column ''operating_income_actual'' (Numeric 24 4) True,
       Column ''operating_income_consensus'' (Numeric 24 4) True, Column ''net_income_actual'' (Numeric 24 4) True,
       Column ''net_income_consensus'' (Numeric 24 4) True, Column ''eps_actual'' (Numeric 20 4) True,
       Column ''eps_consensus'' (Numeric 20 4) True, Column ''surprise_type'' (String 16) True,
       Column ''surprise_pct'' (Numeric 12 4) True, Column ''source'' (String 64) True,
       Column ''memo'' (String 500) True, Column ''created_at'' DateTime False, Column ''updated_at'' DateTime False,
       PrimaryKeyConstraint ''id'',
       UniqueConstraint [''symbol'', ''event_date'', ''fiscal_year'', ''fiscal_quarter'', ''event_type''] ''uq_earnings_events_symbol_event''],
     CreateIndex ''earnings_events'' ''ix_earnings_events_event_date'' [''event_date''] False,
     CreateIndex ''earnings_events'' ''ix_earnings_events_surprise_type'' [''surprise_type''] False,
     CreateIndex ''earnings_events'' ''ix_earnings_events_symbol'' [''symbol''] False]"

definition create_fundamental_snapshots :: "ddl list" where
  "create_fundamental_snapshots =
    [CreateTable ''fundamental_snapshots''
      [AutoColumn ''id'', Column ''symbol'' (String 32) False, Column ''snapshot_date'' Date False,
       Column ''fiscal_year'' Integer False, Column ''fiscal_quarter'' Integer True,
       Column ''revenue'' (Numeric 24 4) True, Column ''operating_income'' (Numeric 24 4) True,
       Column ''net_income'' (Numeric 24 4) True, Column ''total_assets'' (Numeric 24 4) True,
       Column ''total_liabilities'' (Numeric 24 4) True, Column ''total_equity'' (Numeric 24 4) True,
       Column ''eps'' (Numeric 20 4) True, Column ''bps'' (Numeric 20 4) True, Column ''per'' (Numeric 12 4) True,
       Column ''pbr'' (Numeric 12 4) True, Column ''roe'' (Numeric 12 4) True,
       Column ''debt_ratio'' (Numeric 12 4) True, Column ''dividend_yield'' (Numeric 12 4) True,
       Column ''revenue_growth_yoy'' (Numeric 12 4) True, Column ''operating_income_growth_yoy'' (Numeric 12 4) True,
       Column ''source'' (String 64) True, Column ''created_at'' DateTime False, Column ''updated_at'' DateTime False,
       PrimaryKeyConstraint ''id'',
       UniqueConstraint [''symbol'', ''snapshot_date'', ''fiscal_year'', ''fiscal_quarter''] ''uq_fundamental_snapshots_symbol_period''],
     CreateIndex ''fundamental_snapshots'' ''ix_fundamental_snapshots_fiscal_year'' [''fiscal_year''] False,
     CreateIndex ''fundamental_snapshots'' ''ix_fundamental_snapshots_snapshot_date'' [''snapshot_date''] False,
     CreateIndex ''fundamental_snapshots'' ''ix_fundamental_snapshots_symbol'' [''symbol''] False]"

definition create_holdings :: "ddl list" where
  "create_holdings =
    [CreateTable ''holdings''
      [AutoColumn ''id'', Column ''symbol'' (String 32) False, Column ''quantity'' (Numeric 20 4) False,
       Column ''avg_buy_price'' (Numeric 20 4) False, Column ''buy_date'' Date True,
       Column ''strategy_type'' (String 32) True, Column ''target_price'' (Numeric 20 4) True,
       Column ''stop_loss_price'' (Numeric 20 4) True, Column ''memo'' Text True, Column ''is_active'' Boolean False,
       Column ''created_at'' DateTime False, Column ''updated_at'' DateTime False, PrimaryKeyConstraint ''id''],
     CreateIndex ''holdings'' ''ix_holdings_symbol'' [''symbol''] False,
     CreateIndex ''holdings'' ''ix_holdings_symbol_active'' [''symbol'', ''is_active''] False]"

definition create_job_runs :: "ddl list" where
  "create_job_runs =
    [CreateTable ''job_runs''
      [AutoColumn ''job_id'', Column ''job_name'' (String 128) False, Column ''started_at'' DateTime False,
       Column ''finished_at'' DateTime True, Column ''status'' (String 32) False, Column ''error_message'' Text True,
       Column ''result_summary'' JSON True, PrimaryKeyConstraint ''job_id''],
     CreateIndex ''job_runs'' ''ix_job_runs_job_name'' [''job_name''] False,
     CreateIndex ''job_runs'' ''ix_job_runs_name_status'' [''job_name'', ''status''] False,
     CreateIndex ''job_runs'' ''ix_job_runs_status'' [''status''] False]"

definition create_market_cap_rankings :: "ddl list" where
  "create_market_cap_rankings =
    [CreateTable ''market_cap_rankings''
      [AutoColumn ''id'', Column ''rank_date'' Date False, Column ''market'' (String 32) False,
       Column ''rank'' Integer False, Column ''symbol'' (String 32) False, Column ''name'' (String 255) False,
       Column ''market_cap'' (Numeric 24 4) True, Column ''close_price'' (Numeric 20 4) True,
       Column ''listed_shares'' BigInteger True, Column ''sector'' (String 255) True,
       Column ''trading_value'' (Numeric 24 4) True, Column ''is_analysis_target'' Boolean False,
       Column ''created_at'' DateTime False, Column ''updated_at'' DateTime False, PrimaryKeyConstraint ''id'',
       UniqueConstraint [''rank_date'', ''market'', ''rank''] ''uq_market_cap_rank_date_market_rank'',
       UniqueConstraint [''rank_date'', ''market'', ''symbol''] ''uq_market_cap_rank_date_market_symbol''],
     CreateIndex ''market_cap_rankings'' ''ix_market_cap_rankings_date_market'' [''rank_date'', ''market''] False,
     CreateIndex ''market_cap_rankings'' ''ix_market_cap_rankings_market'' [''market''] False,
     CreateIndex ''market_cap_rankings'' ''ix_market_cap_rankings_rank_date'' [''rank_date''] False,
     CreateIndex ''market_cap_rankings'' ''ix_market_cap_rankings_symbol'' [''symbol''] False,
     CreateIndex ''market_cap_rankings'' ''ix_market_cap_rankings_symbol_date'' [''symbol'', ''rank_date''] False]"

definition create_market_regimes :: "ddl list" where
  "create_market_regimes =
    [CreateTable ''market_regimes''
      [AutoColumn ''id'', Column ''date'' Date False, Column ''market'' (String 32) False,
       Column ''regime'' (String 64) False, Column ''market_score'' (Numeric 10 4) True,
       Column ''risk_level'' (String 32) True, Column ''reason'' Text True, Column ''created_at'' DateTime False,
       PrimaryKeyConstraint ''id'', UniqueConstraint [''date'', ''market''] ''uq_market_regimes_date_market''],
     CreateIndex ''market_regimes'' ''ix_market_regimes_date'' [''date''] False,
     CreateIndex ''market_regimes'' ''ix_market_regimes_market'' [''market''] False,
     CreateIndex ''market_regimes'' ''ix_market_regimes_market_date'' [''market'', ''date''] False]"

definition create_news_items :: "ddl list" where
  "create_news_items =
    [CreateTable ''news_items''
      [AutoColumn ''id'', Column ''published_at'' DateTime False, Column ''available_at'' DateTime True,
       Column ''source'' (String 128) False, Column ''title'' (String 500) False, Column ''url'' (String 1000) True,
       Column ''related_symbols'' JSON True, Column ''sentiment'' (String 32) True,
       Column ''importance'' (String 32) True, Column ''theme'' (String 128) True,
       Column ''category'' (String 32) True, Column ''created_at'' DateTime False, PrimaryKeyConstraint ''id'',
       UniqueConstraint [''source'', ''url''] ''uq_news_items_source_url''],
     CreateIndex ''news_items'' ''ix_news_items_category'' [''category''] False,
     CreateIndex ''news_items'' ''ix_news_items_published_at'' [''published_at''] False,
     CreateIndex ''news_items'' ''ix_news_items_published_source'' [''published_at'', ''source''] False,
     CreateIndex ''news_items'' ''ix_news_items_source'' [''source''] False,
     CreateIndex ''news_items'' ''ix_news_items_theme'' [''theme''] False]"

definition create_recommendation_runs :: "ddl list" where
  "create_recommendation_runs =
    [CreateTable ''recommendation_runs''
      [AutoColumn ''run_id'', Column ''run_date'' Date False, Column ''started_at'' DateTime False,
       Column ''finished_at'' DateTime True, Column ''market_summary'' JSON True, Column ''status'' (String 32) False,
       Column ''telegram_sent'' Boolean False, PrimaryKeyConstraint ''run_id''],
     CreateIndex ''recommendation_runs'' ''ix_recommendation_runs_date_status'' [''run_date'', ''status''] False,
     CreateIndex ''recommendation_runs'' ''ix_recommendation_runs_run_date'' [''run_date''] False,
     CreateIndex ''recommendation_runs'' ''ix_recommendation_runs_status'' [''status''] False]"

definition create_report_consensus_snapshots :: "ddl list" where
  "create_report_consensus_snapshots =
    [CreateTable ''report_consensus_snapshots''
      [AutoColumn ''id'', Column ''symbol'' (String 32) False, Column ''snapshot_date'' Date False,
       Column ''window_days'' Integer False, Column ''report_count'' Integer False,
       Column ''avg_target_price'' (Numeric 20 4) True, Column ''min_target_price'' (Numeric 20 4) True,
       Column ''max_target_price'' (Numeric 20 4) True, Column ''strong_buy_count'' Integer False,
       Column ''buy_count'' Integer False, Column ''hold_count'' Integer False, Column ''sell_count'' Integer False,
       Column ''strong_sell_count'' Integer False, Column ''latest_published_at'' Date True,
       Column ''created_at'' DateTime False, PrimaryKeyConstraint ''id'',
       UniqueConstraint [''symbol'', ''snapshot_date'', ''window_days''] ''uq_report_consensus_symbol_date_window''],
     CreateIndex ''report_consensus_snapshots'' ''ix_report_consensus_snapshots_snapshot_date'' [''snapshot_date''] False,
     CreateIndex ''report_consensus_snapshots'' ''ix_report_consensus_snapshots_symbol'' [''symbol''] False]"

definition create_stock_indicators :: "ddl list" where
  "create_stock_indicators =
    [CreateTable ''stock_indicators''
      [AutoColumn ''id'', Column ''date'' Date False, Column ''symbol'' (String 32) False,
       Column ''ma5'' (Numeric 20 4) True, Column ''ma20'' (Numeric 20 4) True, Column ''ma60'' (Numeric 20 4) True,
       Column ''ma120'' (Numeric 20 4) True, Column ''rsi14'' (Numeric 10 4) True,
       Column ''macd'' (Numeric 20 4) True, Column ''macd_signal'' (Numeric 20 4) True,
       Column ''volume_ratio_20d'' (Numeric 12 4) True, Column ''breakout_20d'' Boolean True,
       Column ''breakout_60d'' Boolean True, Column ''ma_alignment'' (String 32) True,
       Column ''technical_score'' (Numeric 10 4) True, Column ''atr14'' (Numeric 20 4) True,
       Column ''candle_patterns'' JSON True, Column ''volatility_band'' (String 16) True,
       Column ''created_at'' DateTime False, Column ''updated_at'' DateTime False, PrimaryKeyConstraint ''id'',
       UniqueConstraint [''symbol'', ''date''] ''uq_stock_indicators_symbol_date''],
     CreateIndex ''stock_indicators'' ''ix_stock_indicators_date'' [''date''] False,
     CreateIndex ''stock_indicators'' ''ix_stock_indicators_symbol'' [''symbol''] False,
     CreateIndex ''stock_indicators'' ''ix_stock_indicators_symbol_date'' [''symbol'', ''date''] False]"

definition create_stock_universes :: "ddl list" where
  "create_stock_universes =
    [CreateTable ''stock_universes''
      [AutoColumn ''universe_id'', Column ''name'' (String 128) False, Column ''description'' Text True,
       Column ''is_active'' Boolean False, Column ''created_at'' DateTime False, Column ''updated_at'' DateTime False,
       PrimaryKeyConstraint ''universe_id''],
     CreateIndex ''stock_universes'' ''ix_stock_universes_name'' [''name''] True]"

definition create_stocks :: "ddl list" where
  "create_stocks =
    [CreateTable ''stocks''
      [AutoColumn ''id'', Column ''market'' (String 32) False, Column ''symbol'' (String 32) False,
       Column ''name'' (String 255) False, Column ''sector'' (String 255) True, Column ''theme_tags'' JSON True,
       Column ''is_active'' Boolean False, Column ''created_at'' DateTime False, Column ''updated_at'' DateTime False,
       PrimaryKeyConstraint ''id''],
     CreateIndex ''stocks'' ''ix_stocks_market'' [''market''] False,
     CreateIndex ''stocks'' ''ix_stocks_symbol'' [''symbol''] True]"

definition create_decision_logs :: "ddl list" where
  "create_decision_logs =
    [CreateTable ''decision_logs''
      [AutoColumn ''decision_id'', Column ''decision_type'' (String 64) False, Column ''symbol'' (String 32) False,
       Column ''input_snapshot_id'' Integer True, Column ''rule_result_json'' JSON True,
       Column ''ai_result_json'' JSON True, Column ''risk_result_json'' JSON True,
       Column ''final_decision'' (String 128) False, Column ''reason'' Text True,
       Column ''created_at'' DateTime False,
       ForeignKeyConstraint ''input_snapshot_id'' ''data_snapshots'' ''snapshot_id'' None,
       PrimaryKeyConstraint ''decision_id''],
     CreateIndex ''decision_logs'' ''ix_decision_logs_decision_type'' [''decision_type''] False,
     CreateIndex ''decision_logs'' ''ix_decision_logs_input_snapshot_id'' [''input_snapshot_id''] False,
     CreateIndex ''decision_logs'' ''ix_decision_logs_symbol'' [''symbol''] False,
     CreateIndex ''decision_logs'' ''ix_decision_logs_type_symbol'' [''decision_type'', ''symbol''] False]"

definition create_holding_checks :: "ddl list" where
  "create_holding_checks =
    [CreateTable ''holding_checks''
      [AutoColumn ''id'', Column ''check_date'' Date False, Column ''check_type'' (String 32) False,
       Column ''symbol'' (String 32) False, Column ''current_price'' (Numeric 20 4) True,
       Column ''avg_buy_price'' (Numeric 20 4) True, Column ''return_rate'' (Numeric 12 4) True,
       Column ''technical_score'' (Numeric 10 4) True, Column ''news_score'' (Numeric 10 4) True,
       Column ''earnings_score'' (Numeric 10 4) True, Column ''ai_score'' (Numeric 10 4) True,
       Column ''risk_score'' (Numeric 10 4) True, Column ''total_score'' (Numeric 10 4) True,
       Column ''grade'' (String 8) True, Column ''decision'' (String 64) True, Column ''reason'' Text True,
       Column ''alert'' Boolean False, Column ''snapshot_id'' Integer True,
       ForeignKeyConstraint ''snapshot_id'' ''data_snapshots'' ''snapshot_id'' None, PrimaryKeyConstraint ''id'',
       UniqueConstraint [''check_date'', ''check_type'', ''symbol''] ''uq_holding_checks_date_type_symbol''],
     CreateIndex ''holding_checks'' ''ix_holding_checks_check_date'' [''check_date''] False,
     CreateIndex ''holding_checks'' ''ix_holding_checks_check_type'' [''check_type''] False,
     CreateIndex ''holding_checks'' ''ix_holding_checks_snapshot_id'' [''snapshot_id''] False,
     CreateIndex ''holding_checks'' ''ix_holding_checks_symbol'' [''symbol''] False,
     CreateIndex ''holding_checks'' ''ix_holding_checks_symbol_date'' [''symbol'', ''check_date''] False]"

definition create_notification_logs :: "ddl list" where
  "create_notification_logs =
    [CreateTable ''notification_logs''
      [AutoColumn ''id'', Column ''channel'' (String 32) False, Column ''message_type'' (String 64) False,
       Column ''target'' (String 255) True, Column ''sent_at'' DateTime True, Column ''status'' (String 32) False,
       Column ''error_message'' Text True, Column ''related_job_id'' Integer True,
       ForeignKeyConstraint ''related_job_id'' ''job_runs'' ''job_id'' None, PrimaryKeyConstraint ''id''],
     CreateIndex ''notification_logs'' ''ix_notification_logs_channel'' [''channel''] False,
     CreateIndex ''notification_logs'' ''ix_notification_logs_channel_status'' [''channel'', ''status''] False,
     CreateIndex ''notification_logs'' ''ix_notification_logs_message_type'' [''message_type''] False,
     CreateIndex ''notification_logs'' ''ix_notification_logs_related_job_id'' [''related_job_id''] False,
     CreateIndex ''notification_logs'' ''ix_notification_logs_status'' [''status''] False]"

definition create_recommendations :: "ddl list" where
  "create_recommendations =
    [CreateTable ''recommendations''
      [AutoColumn ''id'', Column ''run_id'' Integer False, Column ''rank'' Integer False,
       Column ''market'' (String 32) False, Column ''symbol'' (String 32) False, Column ''name'' (String 255) False,
       Column ''grade'' (String 8) True, Column ''total_score'' (Numeric 10 4) True,
       Column ''technical_score'' (Numeric 10 4) True, Column ''news_score'' (Numeric 10 4) True,
       Column ''supply_score'' (Numeric 10 4) True, Column ''fundamental_score'' (Numeric 10 4) True,
       Column ''ai_score'' (Numeric 10 4) True, Column ''risk_score'' (Numeric 10 4) True,
       Column ''reason'' Text True, Column ''risk_note'' Text True, Column ''watch_condition'' Text True,
       Column ''invalid_condition'' Text True, Column ''snapshot_id'' Integer True,
       ForeignKeyConstraint ''run_id'' ''recommendation_runs'' ''run_id'' None,
       ForeignKeyConstraint ''snapshot_id'' ''data_snapshots'' ''snapshot_id'' None, PrimaryKeyConstraint ''id'',
       UniqueConstraint [''run_id'', ''rank''] ''uq_recommendations_run_rank'',
       UniqueConstraint [''run_id'', ''symbol''] ''uq_recommendations_run_symbol''],
     CreateIndex ''recommendations'' ''ix_recommendations_market'' [''market''] False,
     CreateIndex ''recommendations'' ''ix_recommendations_run_id'' [''run_id''] False,
     CreateIndex ''recommendations'' ''ix_recommendations_run_symbol'' [''run_id'', ''symbol''] False,
     CreateIndex ''recommendations'' ''ix_recommendations_snapshot_id'' [''snapshot_id''] False,
     CreateIndex ''recommendations'' ''ix_recommendations_symbol'' [''symbol''] False]"

definition create_report_score_logs :: "ddl list" where
  "create_report_score_logs =
    [CreateTable ''report_score_logs''
      [AutoColumn ''id'', Column ''symbol'' (String 32) False, Column ''score_date'' Date False,
       Column ''report_score'' (Numeric 6 2) True, Column ''theme_signal_score'' (Numeric 6 2) True,
       Column ''report_count'' Integer False, Column ''theme_count'' Integer True,
       Column ''signal_event_count'' Integer True, Column ''target_upside_pct'' (Numeric 8 4) True,
       Column ''rating_score_avg'' (Numeric 6 4) True, Column ''recency_bonus'' (Numeric 4 2) True,
       Column ''theme_signal_bonus'' (Numeric 4 2) True, Column ''event_signal_bonus'' (Numeric 4 2) True,
       Column ''risk_penalty'' (Numeric 4 2) True, Column ''evidence_json'' JSON True,
       Column ''recommendation_run_id'' Integer True, Column ''created_at'' DateTime False,
       ForeignKeyConstraint ''recommendation_run_id'' ''recommendation_runs'' ''run_id'' None,
       PrimaryKeyConstraint ''id'',
       UniqueConstraint [''symbol'', ''score_date'', ''recommendation_run_id''] ''uq_report_score_logs_symbol_date_run''],
     CreateIndex ''report_score_logs'' ''ix_report_score_logs_recommendation_run_id'' [''recommendation_run_id''] False,
     CreateIndex ''report_score_logs'' ''ix_report_score_logs_score_date'' [''score_date''] False,
     CreateIndex ''report_score_logs'' ''ix_report_score_logs_symbol'' [''symbol''] False]"

definition create_report_themes :: "ddl list" where
  "create_report_themes =
    [CreateTable ''report_themes''
      [AutoColumn ''id'', Column ''theme_name'' (String 128) False, Column ''theme_category'' (String 32) False,
       Column ''direction'' (String 16) False, Column ''confidence'' (Numeric 4 3) True,
       Column ''time_horizon'' (String 16) False, Column ''summary'' (String 500) True,
       Column ''source_report_id'' Integer False, Column ''extraction_method'' (String 16) False,
       Column ''extraction_confidence'' (Numeric 4 3) True, Column ''created_at'' DateTime False,
       Column ''updated_at'' DateTime False,
       ForeignKeyConstraint ''source_report_id'' ''analyst_reports'' ''id'' None, PrimaryKeyConstraint ''id'',
       UniqueConstraint [''source_report_id'', ''theme_name''] ''uq_report_themes_report_theme''],
     CreateIndex ''report_themes'' ''ix_report_themes_direction'' [''direction''] False,
     CreateIndex ''report_themes'' ''ix_report_themes_source_report_id'' [''source_report_id''] False,
     CreateIndex ''report_themes'' ''ix_report_themes_theme_category'' [''theme_category''] False,
     CreateIndex ''report_themes'' ''ix_report_themes_theme_name'' [''theme_name''] False]"

definition create_stock_universe_members :: "ddl list" where
  "create_stock_universe_members =
    [CreateTable ''stock_universe_members''
      [AutoColumn ''id'', Column ''universe_id'' Integer False, Column ''symbol'' (String 32) False,
       Column ''added_at'' DateTime False, Column ''removed_at'' DateTime True, Column ''reason'' Text True,
       ForeignKeyConstraint ''universe_id'' ''stock_universes'' ''universe_id'' None, PrimaryKeyConstraint ''id'',
       UniqueConstraint [''universe_id'', ''symbol''] ''uq_stock_universe_members_universe_symbol''],
     CreateIndex ''stock_universe_members'' ''ix_stock_universe_members_symbol'' [''symbol''] False,
     CreateIndex ''stock_universe_members'' ''ix_stock_universe_members_symbol_universe'' [''symbol'', ''universe_id''] False,
     CreateIndex ''stock_universe_members'' ''ix_stock_universe_members_universe_id'' [''universe_id''] False]"

definition create_recommendation_results :: "ddl list" where
  "create_recommendation_results =
    [CreateTable ''recommendation_results''
      [AutoColumn ''id'', Column ''recommendation_id'' Integer False, Column ''result_date'' Date False,
       Column ''days_after'' Integer False, Column ''open_return'' (Numeric 12 4) True,
       Column ''high_return'' (Numeric 12 4) True, Column ''low_return'' (Numeric 12 4) True,
       Column ''close_return'' (Numeric 12 4) True, Column ''max_return'' (Numeric 12 4) True,
       Column ''max_drawdown'' (Numeric 12 4) True, Column ''result_status'' (String 32) True,
       ForeignKeyConstraint ''recommendation_id'' ''recommendations'' ''id'' None, PrimaryKeyConstraint ''id'',
       UniqueConstraint [''recommendation_id'', ''days_after''] ''uq_recommendation_results_recommendation_days''],
     CreateIndex ''recommendation_results'' ''ix_recommendation_results_recommendation_id'' [''recommendation_id''] False,
     CreateIndex ''recommendation_results'' ''ix_recommendation_results_result_date'' [''result_date''] False]"

definition create_report_signal_events :: "ddl list" where
  "create_report_signal_events =
    [CreateTable ''report_signal_events''
      [AutoColumn ''id'', Column ''report_id'' Integer False, Column ''symbol'' (String 32) True,
       Column ''theme_id'' Integer True, Column ''event_type'' (String 32) False,
       Column ''direction'' (String 16) False, Column ''strength'' (Numeric 4 3) True,
       Column ''time_horizon'' (String 16) False, Column ''summary'' (String 500) True,
       Column ''evidence_json'' JSON True, Column ''extraction_method'' (String 16) False,
       Column ''extraction_confidence'' (Numeric 4 3) True, Column ''created_at'' DateTime False,
       Column ''updated_at'' DateTime False, ForeignKeyConstraint ''report_id'' ''analyst_reports'' ''id'' None,
       ForeignKeyConstraint ''theme_id'' ''report_themes'' ''id'' None, PrimaryKeyConstraint ''id'',
       UniqueConstraint [''report_id'', ''event_type'', ''symbol'', ''theme_id''] ''uq_report_signal_events_report_event_symbol_theme''],
     CreateIndex ''report_signal_events'' ''ix_report_signal_events_direction'' [''direction''] False,
     CreateIndex ''report_signal_events'' ''ix_report_signal_events_event_type'' [''event_type''] False,
     CreateIndex ''report_signal_events'' ''ix_report_signal_events_report_id'' [''report_id''] False,
     CreateIndex ''report_signal_events'' ''ix_report_signal_events_symbol'' [''symbol''] False,
     CreateIndex ''report_signal_events'' ''ix_report_signal_events_theme_id'' [''theme_id''] False]"

definition create_theme_stock_mappings :: "ddl list" where
  "create_theme_stock_mappings =
    [CreateTable ''theme_stock_mappings''
      [AutoColumn ''id'', Column ''theme_id'' Integer False, Column ''symbol'' (String 32) False,
       Column ''company_name'' (String 255) True, Column ''market'' (String 32) True,
       Column ''exchange'' (String 32) True, Column ''country'' (String 32) True,
       Column ''relation_type'' (String 32) True, Column ''impact_direction'' (String 16) False,
       Column ''impact_strength'' (Numeric 4 3) True, Column ''impact_path'' (String 32) True,
       Column ''benefit_type'' (String 32) True, Column ''time_lag'' (String 16) True,
       Column ''reason'' (String 500) True, Column ''source_sentence_summary'' (String 500) True,
       Column ''extraction_method'' (String 16) False, Column ''extraction_confidence'' (Numeric 4 3) True,
       Column ''created_at'' DateTime False, Column ''updated_at'' DateTime False,
       ForeignKeyConstraint ''theme_id'' ''report_themes'' ''id'' None, PrimaryKeyConstraint ''id'',
       UniqueConstraint [''theme_id'', ''symbol''] ''uq_theme_stock_mappings_theme_symbol''],
     CreateIndex ''theme_stock_mappings'' ''ix_theme_stock_mappings_impact_direction'' [''impact_direction''] False,
     CreateIndex ''theme_stock_mappings'' ''ix_theme_stock_mappings_impact_path'' [''impact_path''] False,
     CreateIndex ''theme_stock_mappings'' ''ix_theme_stock_mappings_symbol'' [''symbol''] False,
     CreateIndex ''theme_stock_mappings'' ''ix_theme_stock_mappings_theme_id'' [''theme_id''] False]"

definition create_backtest_results :: "ddl list" where
  "create_backtest_results =
    [CreateTable ''backtest_results''
      [AutoColumn ''id'', Column ''backtest_run_id'' Integer False, Column ''symbol'' (String 32) False,
       Column ''recommendation_id'' Integer True, Column ''recommendation_result_id'' Integer True,
       Column ''signal_action'' (String 8) False, Column ''confidence'' (Numeric 5 4) True,
       Column ''reason'' Text True, Column ''grade'' (String 8) True, Column ''total_score'' (Numeric 10 4) True,
       Column ''return_1d'' (Numeric 12 4) True, Column ''return_3d'' (Numeric 12 4) True,
       Column ''return_5d'' (Numeric 12 4) True, Column ''return_20d'' (Numeric 12 4) True,
       Column ''max_drawdown'' (Numeric 12 4) True, Column ''result_status'' (String 32) True,
       Column ''cost_adjusted_return_5d'' (Numeric 12 4) True, Column ''regime'' (String 32) True,
       Column ''evidence_json'' JSON True, Column ''created_at'' DateTime False,
       ForeignKeyConstraint ''backtest_run_id'' ''backtest_runs'' ''id'' (Some ''CASCADE''),
       ForeignKeyConstraint ''recommendation_id'' ''recommendations'' ''id'' None,
       ForeignKeyConstraint ''recommendation_result_id'' ''recommendation_results'' ''id'' None,
       PrimaryKeyConstraint ''id'',
       UniqueConstraint [''backtest_run_id'', ''recommendation_id''] ''uq_backtest_results_run_recommendation''],
     CreateIndex ''backtest_results'' ''ix_backtest_results_backtest_run_id'' [''backtest_run_id''] False,
     CreateIndex ''backtest_results'' ''ix_backtest_results_regime'' [''regime''] False,
     CreateIndex ''backtest_results'' ''ix_backtest_results_signal_action'' [''signal_action''] False,
     CreateIndex ''backtest_results'' ''ix_backtest_results_symbol'' [''symbol''] False]"

definition drop_backtest_results :: "ddl list" where
  "drop_backtest_results =
    [DropIndex ''backtest_results'' ''ix_backtest_results_symbol'',
     DropIndex ''backtest_results'' ''ix_backtest_results_signal_action'',
     DropIndex ''backtest_results'' ''ix_backtest_results_regime'',
     DropIndex ''backtest_results'' ''ix_backtest_results_backtest_run_id'',
     DropTable ''backtest_results'']"

definition drop_theme_stock_mappings :: "ddl list" where
  "drop_theme_stock_mappings =
    [DropIndex ''theme_stock_mappings'' ''ix_theme_stock_mappings_theme_id'',
     DropIndex ''theme_stock_mappings'' ''ix_theme_stock_mappings_symbol'',
     DropIndex ''theme_stock_mappings'' ''ix_theme_stock_mappings_impact_path'',
     DropIndex ''theme_stock_mappings'' ''ix_theme_stock_mappings_impact_direction'',
     DropTable ''theme_stock_mappings'']"

definition drop_report_signal_events :: "ddl list" where
  "drop_report_signal_events =
    [DropIndex ''report_signal_events'' ''ix_report_signal_events_theme_id'',
     DropIndex ''report_signal_events'' ''ix_report_signal_events_symbol'',
     DropIndex ''report_signal_events'' ''ix_report_signal_events_report_id'',
     DropIndex ''report_signal_events'' ''ix_report_signal_events_event_type'',
     DropIndex ''report_signal_events'' ''ix_report_signal_events_direction'',
     DropTable ''report_signal_events'']"

definition drop_recommendation_results :: "ddl list" where
  "drop_recommendation_results =
    [DropIndex ''recommendation_results'' ''ix_recommendation_results_result_date'',
     DropIndex ''recommendation_results'' ''ix_recommendation_results_recommendation_id'',
     DropTable ''recommendation_results'']"

definition drop_stock_universe_members :: "ddl list" where
  "drop_stock_universe_members =
    [DropIndex ''stock_universe_members'' ''ix_stock_universe_members_universe_id'',
     DropIndex ''stock_universe_members'' ''ix_stock_universe_members_symbol_universe'',
     DropIndex ''stock_universe_members'' ''ix_stock_universe_members_symbol'',
     DropTable ''stock_universe_members'']"

definition drop_report_themes :: "ddl list" where
  "drop_report_themes =
    [DropIndex ''report_themes'' ''ix_report_themes_theme_name'',
     DropIndex ''report_themes'' ''ix_report_themes_theme_category'',
     DropIndex ''report_themes'' ''ix_report_themes_source_report_id'',
     DropIndex ''report_themes'' ''ix_report_themes_direction'',
     DropTable ''report_themes'']"

definition drop_report_score_logs :: "ddl list" where
  "drop_report_score_logs =
    [DropIndex ''report_score_logs'' ''ix_report_score_logs_symbol'',
     DropIndex ''report_score_logs'' ''ix_report_score_logs_score_date'',
     DropIndex ''report_score_logs'' ''ix_report_score_logs_recommendation_run_id'',
     DropTable ''report_score_logs'']"

definition drop_recommendations :: "ddl list" where
  "drop_recommendations =
    [DropIndex ''recommendations'' ''ix_recommendations_symbol'',
     DropIndex ''recommendations'' ''ix_recommendations_snapshot_id'',
     DropIndex ''recommendations'' ''ix_recommendations_run_symbol'',
     DropIndex ''recommendations'' ''ix_recommendations_run_id'',
     DropIndex ''recommendations'' ''ix_recommendations_market'',
     DropTable ''recommendations'']"

definition drop_notification_logs :: "ddl list" where
  "drop_notification_logs =
    [DropIndex ''notification_logs'' ''ix_notification_logs_status'',
     DropIndex ''notification_logs'' ''ix_notification_logs_related_job_id'',
     DropIndex ''notification_logs'' ''ix_notification_logs_message_type'',
     DropIndex ''notification_logs'' ''ix_notification_logs_channel_status'',
     DropIndex ''notification_logs'' ''ix_notification_logs_channel'',
     DropTable ''notification_logs'']"

definition drop_holding_checks :: "ddl list" where
  "drop_holding_checks =
    [DropIndex ''holding_checks'' ''ix_holding_checks_symbol_date'',
     DropIndex ''holding_checks'' ''ix_holding_checks_symbol'',
     DropIndex ''holding_checks'' ''ix_holding_checks_snapshot_id'',
     DropIndex ''holding_checks'' ''ix_holding_checks_check_type'',
     DropIndex ''holding_checks'' ''ix_holding_checks_check_date'',
     DropTable ''holding_checks'']"

definition drop_decision_logs :: "ddl list" where
  "drop_decision_logs =
    [DropIndex ''decision_logs'' ''ix_decision_logs_type_symbol'',
     DropIndex ''decision_logs'' ''ix_decision_logs_symbol'',
     DropIndex ''decision_logs'' ''ix_decision_logs_input_snapshot_id'',
     DropIndex ''decision_logs'' ''ix_decision_logs_decision_type'',
     DropTable ''decision_logs'']"

definition drop_stocks :: "ddl list" where
  "drop_stocks =
    [DropIndex ''stocks'' ''ix_stocks_symbol'',
     DropIndex ''stocks'' ''ix_stocks_market'',
     DropTable ''stocks'']"

definition drop_stock_universes :: "ddl list" where
  "drop_stock_universes =
    [DropIndex ''stock_universes'' ''ix_stock_universes_name'',
     DropTable ''stock_universes'']"

definition drop_stock_indicators :: "ddl list" where
  "drop_stock_indicators =
    [DropIndex ''stock_indicators'' ''ix_stock_indicators_symbol_date'',
     DropIndex ''stock_indicators'' ''ix_stock_indicators_symbol'',
     DropIndex ''stock_indicators'' ''ix_stock_indicators_date'',
     DropTable ''stock_indicators'']"

definition drop_report_consensus_snapshots :: "ddl list" where
  "drop_report_consensus_snapshots =
    [DropIndex ''report_consensus_snapshots'' ''ix_report_consensus_snapshots_symbol'',
     DropIndex ''report_consensus_snapshots'' ''ix_report_consensus_snapshots_snapshot_date'',
     DropTable ''report_consensus_snapshots'']"

definition drop_recommendation_runs :: "ddl list" where
  "drop_recommendation_runs =
    [DropIndex ''recommendation_runs'' ''ix_recommendation_runs_status'',
     DropIndex ''recommendation_runs'' ''ix_recommendation_runs_run_date'',
     DropIndex ''recommendation_runs'' ''ix_recommendation_runs_date_status'',
     DropTable ''recommendation_runs'']"

definition drop_news_items :: "ddl list" where
  "drop_news_items =
    [DropIndex ''news_items'' ''ix_news_items_theme'',
     DropIndex ''news_items'' ''ix_news_items_source'',
     DropIndex ''news_items'' ''ix_news_items_published_source'',
     DropIndex ''news_items'' ''ix_news_items_published_at'',
     DropIndex ''news_items'' ''ix_news_items_category'',
     DropTable ''news_items'']"

definition drop_market_regimes :: "ddl list" where
  "drop_market_regimes =
    [DropIndex ''market_regimes'' ''ix_market_regimes_market_date'',
     DropIndex ''market_regimes'' ''ix_market_regimes_market'',
     DropIndex ''market_regimes'' ''ix_market_regimes_date'',
     DropTable ''market_regimes'']"

definition drop_market_cap_rankings :: "ddl list" where
  "drop_market_cap_rankings =
    [DropIndex ''market_cap_rankings'' ''ix_market_cap_rankings_symbol_date'',
     DropIndex ''market_cap_rankings'' ''ix_market_cap_rankings_symbol'',
     DropIndex ''market_cap_rankings'' ''ix_market_cap_rankings_rank_date'',
     DropIndex ''market_cap_rankings'' ''ix_market_cap_rankings_market'',
     DropIndex ''market_cap_rankings'' ''ix_market_cap_rankings_date_market'',
     DropTable ''market_cap_rankings'']"

definition drop_job_runs :: "ddl list" where
  "drop_job_runs =
    [DropIndex ''job_runs'' ''ix_job_runs_status'',
     DropIndex ''job_runs'' ''ix_job_runs_name_status'',
     DropIndex ''job_runs'' ''ix_job_runs_job_name'',
     DropTable ''job_runs'']"

definition drop_holdings :: "ddl list" where
  "drop_holdings =
    [DropIndex ''holdings'' ''ix_holdings_symbol_active'',
     DropIndex ''holdings'' ''ix_holdings_symbol'',
     DropTable ''holdings'']"

definition drop_fundamental_snapshots :: "ddl list" where
  "drop_fundamental_snapshots =
    [DropIndex ''fundamental_snapshots'' ''ix_fundamental_snapshots_symbol'',
     DropIndex ''fundamental_snapshots'' ''ix_fundamental_snapshots_snapshot_date'',
     DropIndex ''fundamental_snapshots'' ''ix_fundamental_snapshots_fiscal_year'',
     DropTable ''fundamental_snapshots'']"

definition drop_earnings_events :: "ddl list" where
  "drop_earnings_events =
    [DropIndex ''earnings_events'' ''ix_earnings_events_symbol'',
     DropIndex ''earnings_events'' ''ix_earnings_events_surprise_type'',
     DropIndex ''earnings_events'' ''ix_earnings_events_event_date'',
     DropTable ''earnings_events'']"

definition drop_data_snapshots :: "ddl list" where
  "drop_data_snapshots =
    [DropIndex ''data_snapshots'' ''ix_data_snapshots_symbol_type_time'',
     DropIndex ''data_snapshots'' ''ix_data_snapshots_symbol'',
     DropIndex ''data_snapshots'' ''ix_data_snapshots_snapshot_type'',
     DropIndex ''data_snapshots'' ''ix_data_snapshots_snapshot_time'',
     DropTable ''data_snapshots'']"

definition drop_daily_prices :: "ddl list" where
  "drop_daily_prices =
    [DropIndex ''daily_prices'' ''ix_daily_prices_symbol_date'',
     DropIndex ''daily_prices'' ''ix_daily_prices_symbol'',
     DropIndex ''daily_prices'' ''ix_daily_prices_date'',
     DropTable ''daily_prices'']"

definition drop_backtest_runs :: "ddl list" where
  "drop_backtest_runs =
    [DropIndex ''backtest_runs'' ''ix_backtest_runs_strategy_name'',
     DropIndex ''backtest_runs'' ''ix_backtest_runs_run_date'',
     DropTable ''backtest_runs'']"

definition drop_analyst_reports :: "ddl list" where
  "drop_analyst_reports =
    [DropIndex ''analyst_reports'' ''ix_analyst_reports_symbol'',
     DropIndex ''analyst_reports'' ''ix_analyst_reports_report_type'',
     DropIndex ''analyst_reports'' ''ix_analyst_reports_published_at'',
     DropIndex ''analyst_reports'' ''ix_analyst_reports_duplicate_group_key'',
     DropTable ''analyst_reports'']"

definition upgrade_0001 :: "ddl list" where
  "upgrade_0001 = concat
    [create_analyst_reports, create_backtest_runs, create_daily_prices, create_data_snapshots, create_earnings_events,
     create_fundamental_snapshots, create_holdings, create_job_runs, create_market_cap_rankings,
     create_market_regimes, create_news_items, create_recommendation_runs, create_report_consensus_snapshots,
     create_stock_indicators, create_stock_universes, create_stocks, create_decision_logs, create_holding_checks,
     create_notification_logs, create_recommendations, create_report_score_logs, create_report_themes,
     create_stock_universe_members, create_recommendation_results, create_report_signal_events,
     create_theme_stock_mappings, create_backtest_results]"

definition downgrade_0001 :: "ddl list" where
  "downgrade_0001 = concat
    [drop_backtest_results, drop_theme_stock_mappings, drop_report_signal_events, drop_recommendation_results,
     drop_stock_universe_members, drop_report_themes, drop_report_score_logs, drop_recommendations,
     drop_notification_logs, drop_holding_checks, drop_decision_logs, drop_stocks, drop_stock_universes,
     drop_stock_indicators, drop_report_consensus_snapshots, drop_recommendation_runs, drop_news_items,
     drop_market_regimes, drop_market_cap_rankings, drop_job_runs, drop_holdings, drop_fundamental_snapshots,
     drop_earnings_events, drop_data_snapshots, drop_daily_prices, drop_backtest_runs, drop_analyst_reports]"

definition revision_0001 :: revision where
  "revision_0001 = \<lparr>rv_id = ''0001_baseline_v0_7'', rv_down = None,
     rv_upgrade = upgrade_0001, rv_downgrade = downgrade_0001\<rparr>"

end
