(* ===== verification/Later_Migrations.thy ===== *)
theory Later_Migrations
  imports Baseline_Migration
begin

text \<open>
  The revisions after the baseline (\<^verbatim>\<open>alembic/versions/0002\<close> to \<^verbatim>\<open>0010\<close>) and the chain they form.
\<close>

subsection \<open>\<^verbatim>\<open>0002_auth_foundation.py\<close>\<close>

definition upgrade_0002 :: "ddl list" where
  "upgrade_0002 =
    [CreateTable ''users''
      [AutoColumn ''id'', Column ''username'' (String 64) False, Column ''password_hash'' (String 255) False,
       Column ''is_active'' Boolean False, Column ''is_admin'' Boolean False, Column ''last_login_at'' DateTime True,
       Column ''created_at'' DateTime False, Column ''updated_at'' DateTime False, PrimaryKeyConstraint ''id''],
     CreateIndex ''users'' ''ix_users_username'' [''username''] True,
     CreateTable ''login_audit_logs''
      [AutoColumn ''id'', Column ''username'' (String 64) True, Column ''user_id'' Integer True,
       Column ''event_type'' (String 32) False, Column ''source_ip_hash'' (String 64) True,
       Column ''user_agent_hash'' (String 64) True, Column ''created_at'' DateTime False,
       ForeignKeyConstraint ''user_id'' ''users'' ''id'' None, PrimaryKeyConstraint ''id''],
     CreateIndex ''login_audit_logs'' ''ix_login_audit_logs_created_at'' [''created_at''] False,
     CreateIndex ''login_audit_logs'' ''ix_login_audit_logs_event_created'' [''event_type'', ''created_at''] False,
     CreateIndex ''login_audit_logs'' ''ix_login_audit_logs_event_type'' [''event_type''] False,
     CreateIndex ''login_audit_logs'' ''ix_login_audit_logs_user_id'' [''user_id''] False,
     CreateIndex ''login_audit_logs'' ''ix_login_audit_logs_username'' [''username''] False,
     CreateIndex ''login_audit_logs'' ''ix_login_audit_logs_username_created'' [''username'', ''created_at''] False]"

definition downgrade_0002 :: "ddl list" where
  "downgrade_0002 =
    [DropIndex ''login_audit_logs'' ''ix_login_audit_logs_username_created'',
     DropIndex ''login_audit_logs'' ''ix_login_audit_logs_username'',
     DropIndex ''login_audit_logs'' ''ix_login_audit_logs_user_id'',
     DropIndex ''login_audit_logs'' ''ix_login_audit_logs_event_type'',
     DropIndex ''login_audit_logs'' ''ix_login_audit_logs_event_created'',
     DropIndex ''login_audit_logs'' ''ix_login_audit_logs_created_at'',
     DropTable ''login_audit_logs'',
     DropIndex ''users'' ''ix_users_username'',
     DropTable ''users'']"

definition revision_0002 :: revision where
  "revision_0002 = \<lparr>rv_id = ''0002_auth_foundation'', rv_down = Some ''0001_baseline_v0_7'',
     rv_upgrade = upgrade_0002, rv_downgrade = downgrade_0002\<rparr>"

subsection \<open>\<^verbatim>\<open>0003_watchlist.py\<close>\<close>

definition upgrade_0003 :: "ddl list" where
  "upgrade_0003 =
    [CreateTable ''watchlists''
      [AutoColumn ''id'', Column ''user_id'' Integer False, Column ''name'' (String 64) False,
       Column ''is_default'' Boolean False, Column ''created_at'' DateTime False,
       Column ''updated_at'' DateTime False, ForeignKeyConstraint ''user_id'' ''users'' ''id'' None,
       PrimaryKeyConstraint ''id'', UniqueConstraint [''user_id'', ''name''] ''uq_watchlists_user_name''],
     CreateIndex ''watchlists'' ''ix_watchlists_user_id'' [''user_id''] False,
     CreateTable ''watchlist_items''
      [AutoColumn ''id'', Column ''watchlist_id'' Integer False, Column ''symbol'' (String 32) False,
       Column ''memo'' (String 500) True, Column ''created_at'' DateTime False, Column ''updated_at'' DateTime False,
       ForeignKeyConstraint ''watchlist_id'' ''watchlists'' ''id'' (Some ''CASCADE''), PrimaryKeyConstraint ''id'',
       UniqueConstraint [''watchlist_id'', ''symbol''] ''uq_watchlist_items_watchlist_symbol''],
     CreateIndex ''watchlist_items'' ''ix_watchlist_items_symbol'' [''symbol''] False,
     CreateIndex ''watchlist_items'' ''ix_watchlist_items_watchlist_id'' [''watchlist_id''] False]"

definition downgrade_0003 :: "ddl list" where
  "downgrade_0003 =
    [DropIndex ''watchlist_items'' ''ix_watchlist_items_watchlist_id'',
     DropIndex ''watchlist_items'' ''ix_watchlist_items_symbol'',
     DropTable ''watchlist_items'',
     DropIndex ''watchlists'' ''ix_watchlists_user_id'',
     DropTable ''watchlists'']"

definition revision_0003 :: revision where
  "revision_0003 = \<lparr>rv_id = ''0003_watchlist'', rv_down = Some ''0002_auth_foundation'',
     rv_upgrade = upgrade_0003, rv_downgrade = downgrade_0003\<rparr>"

subsection \<open>\<^verbatim>\<open>0004_user_preferences.py\<close>\<close>

definition upgrade_0004 :: "ddl list" where
  "upgrade_0004 =
    [CreateTable ''user_preferences''
      [AutoColumn ''id'', Column ''user_id'' Integer False, Column ''default_watchlist_id'' Integer True,
       Column ''default_market'' (String 32) True, Column ''default_strategy'' (String 64) True,
       Column ''dashboard_layout_json'' JSON True, Column ''notification_preferences_json'' JSON True,
       Column ''created_at'' DateTime False, Column ''updated_at'' DateTime False,
       ForeignKeyConstraint ''default_watchlist_id'' ''watchlists'' ''id'' (Some ''SET NULL''),
       ForeignKeyConstraint ''user_id'' ''users'' ''id'' None, PrimaryKeyConstraint ''id''],
     CreateIndex ''user_preferences'' ''ix_user_preferences_user_id'' [''user_id''] True]"

definition downgrade_0004 :: "ddl list" where
  "downgrade_0004 =
    [DropIndex ''user_preferences'' ''ix_user_preferences_user_id'',
     DropTable ''user_preferences'']"

definition revision_0004 :: revision where
  "revision_0004 = \<lparr>rv_id = ''0004_user_preferences'', rv_down = Some ''0003_watchlist'',
     rv_upgrade = upgrade_0004, rv_downgrade = downgrade_0004\<rparr>"

subsection \<open>\<^verbatim>\<open>0005_virtual_trading_core.py\<close>\<close>

definition upgrade_0005 :: "ddl list" where
  "upgrade_0005 =
    [CreateTable ''virtual_accounts''
      [AutoColumn ''id'', Column ''user_id'' Integer True, Column ''name'' (String 64) False,
       Column ''initial_cash'' (Numeric 18 4) False, Column ''cash_balance'' (Numeric 18 4) False,
       Column ''currency'' (String 8) False, Column ''paper_trading_enabled'' Boolean False,
       Column ''created_at'' DateTime False, Column ''updated_at'' DateTime False,
       ForeignKeyConstraint ''user_id'' ''users'' ''id'' None, PrimaryKeyConstraint ''id'',
       UniqueConstraint [''user_id'', ''name''] ''uq_virtual_accounts_user_name''],
     CreateIndex ''virtual_accounts'' ''ix_virtual_accounts_user_id'' [''user_id''] False,
     CreateTable ''virtual_orders''
      [AutoColumn ''id'', Column ''account_id'' Integer False, Column ''symbol'' (String 32) False,
       Column ''side'' (String 8) False, Column ''quantity'' Integer False, Column ''order_type'' (String 16) False,
       Column ''limit_price'' (Numeric 18 4) True, Column ''status'' (String 20) False,
       Column ''idempotency_key'' (String 64) True, Column ''reason'' (String 256) True,
       Column ''note'' (String 256) True, Column ''created_at'' DateTime False, Column ''updated_at'' DateTime False,
       ForeignKeyConstraint ''account_id'' ''virtual_accounts'' ''id'' (Some ''CASCADE''),
       PrimaryKeyConstraint ''id'',
       UniqueConstraint [''account_id'', ''idempotency_key''] ''uq_virtual_orders_account_idempotency''],
     CreateIndex ''virtual_orders'' ''ix_virtual_orders_account_id'' [''account_id''] False,
     CreateIndex ''virtual_orders'' ''ix_virtual_orders_symbol'' [''symbol''] False,
     CreateIndex ''virtual_orders'' ''ix_virtual_orders_status'' [''status''] False,
     CreateIndex ''virtual_orders'' ''ix_virtual_orders_account_status'' [''account_id'', ''status''] False]"

definition downgrade_0005 :: "ddl list" where
  "downgrade_0005 =
    [DropIndex ''virtual_orders'' ''ix_virtual_orders_account_status'',
     DropIndex ''virtual_orders'' ''ix_virtual_orders_status'',
     DropIndex ''virtual_orders'' ''ix_virtual_orders_symbol'',
     DropIndex ''virtual_orders'' ''ix_virtual_orders_account_id'',
     DropTable ''virtual_orders'',
     DropIndex ''virtual_accounts'' ''ix_virtual_accounts_user_id'',
     DropTable ''virtual_accounts'']"

definition revision_0005 :: revision where
  "revision_0005 = \<lparr>rv_id = ''0005_virtual_trading_core'', rv_down = Some ''0004_user_preferences'',
     rv_upgrade = upgrade_0005, rv_downgrade = downgrade_0005\<rparr>"

subsection \<open>\<^verbatim>\<open>0006_virtual_positions.py\<close>\<close>

definition upgrade_0006 :: "ddl list" where
  "upgrade_0006 =
    [CreateTable ''virtual_positions''
      [AutoColumn ''id'', Column ''account_id'' Integer False, Column ''symbol'' (String 32) False,
       Column ''quantity'' Integer False, Column ''avg_cost'' (Numeric 18 4) False,
       Column ''realized_pnl'' (Numeric 18 4) False, Column ''created_at'' DateTime False,
       Column ''updated_at'' DateTime False,
       ForeignKeyConstraint ''account_id'' ''virtual_accounts'' ''id'' (Some ''CASCADE''),
       PrimaryKeyConstraint ''id'',
       UniqueConstraint [''account_id'', ''symbol''] ''uq_virtual_positions_account_symbol''],
     CreateIndex ''virtual_positions'' ''ix_virtual_positions_account_id'' [''account_id''] False,
     CreateIndex ''virtual_positions'' ''ix_virtual_positions_symbol'' [''symbol''] False,
     CreateTable ''virtual_fills''
      [AutoColumn ''id'', Column ''order_id'' Integer False, Column ''account_id'' Integer False,
       Column ''symbol'' (String 32) False, Column ''side'' (String 8) False, Column ''quantity'' Integer False,
       Column ''fill_price'' (Numeric 18 4) False, Column ''fee'' (Numeric 18 4) False,
       Column ''stamp_tax'' (Numeric 18 4) False, Column ''slippage'' (Numeric 18 4) False,
       Column ''gross_amount'' (Numeric 18 4) False, Column ''net_amount'' (Numeric 18 4) False,
       Column ''filled_at'' DateTime False,
       ForeignKeyConstraint ''order_id'' ''virtual_orders'' ''id'' (Some ''CASCADE''),
       ForeignKeyConstraint ''account_id'' ''virtual_accounts'' ''id'' (Some ''CASCADE''), PrimaryKeyConstraint ''id''],
     CreateIndex ''virtual_fills'' ''ix_virtual_fills_order_id'' [''order_id''] False,
     CreateIndex ''virtual_fills'' ''ix_virtual_fills_account_id'' [''account_id''] False,
     CreateIndex ''virtual_fills'' ''ix_virtual_fills_symbol'' [''symbol''] False,
     CreateIndex ''virtual_fills'' ''ix_virtual_fills_filled_at'' [''filled_at''] False,
     CreateIndex ''virtual_fills'' ''ix_virtual_fills_account_symbol'' [''account_id'', ''symbol''] False,
     CreateTable ''virtual_pnl_snapshots''
      [AutoColumn ''id'', Column ''account_id'' Integer False, Column ''snapshot_date'' Date False,
       Column ''cash_balance'' (Numeric 18 4) False, Column ''market_value'' (Numeric 18 4) False,
       Column ''total_value'' (Numeric 18 4) False, Column ''realized_pnl'' (Numeric 18 4) False,
       Column ''unrealized_pnl'' (Numeric 18 4) False, Column ''created_at'' DateTime False,
       Column ''updated_at'' DateTime False,
       ForeignKeyConstraint ''account_id'' ''virtual_accounts'' ''id'' (Some ''CASCADE''),
       PrimaryKeyConstraint ''id'',
       UniqueConstraint [''account_id'', ''snapshot_date''] ''uq_virtual_pnl_snapshots_account_date''],
     CreateIndex ''virtual_pnl_snapshots'' ''ix_virtual_pnl_snapshots_account_id'' [''account_id''] False,
     CreateIndex ''virtual_pnl_snapshots'' ''ix_virtual_pnl_snapshots_snapshot_date'' [''snapshot_date''] False,
     CreateIndex ''virtual_pnl_snapshots'' ''ix_virtual_pnl_snapshots_account_date'' [''account_id'', ''snapshot_date''] False]"

definition downgrade_0006 :: "ddl list" where
  "downgrade_0006 =
    [DropIndex ''virtual_pnl_snapshots'' ''ix_virtual_pnl_snapshots_account_date'',
     DropIndex ''virtual_pnl_snapshots'' ''ix_virtual_pnl_snapshots_snapshot_date'',
     DropIndex ''virtual_pnl_snapshots'' ''ix_virtual_pnl_snapshots_account_id'',
     DropTable ''virtual_pnl_snapshots'',
     DropIndex ''virtual_fills'' ''ix_virtual_fills_account_symbol'',
     DropIndex ''virtual_fills'' ''ix_virtual_fills_filled_at'',
     DropIndex ''virtual_fills'' ''ix_virtual_fills_symbol'',
     DropIndex ''virtual_fills'' ''ix_virtual_fills_account_id'',
     DropIndex ''virtual_fills'' ''ix_virtual_fills_order_id'',
     DropTable ''virtual_fills'',
     DropIndex ''virtual_positions'' ''ix_virtual_positions_symbol'',
     DropIndex ''virtual_positions'' ''ix_virtual_positions_account_id'',
     DropTable ''virtual_positions'']"

definition revision_0006 :: revision where
  "revision_0006 = \<lparr>rv_id = ''0006_virtual_positions'', rv_down = Some ''0005_virtual_trading_core'',
     rv_upgrade = upgrade_0006, rv_downgrade = downgrade_0006\<rparr>"

subsection \<open>\<^verbatim>\<open>0007_order_candidates.py\<close>\<close>

definition upgrade_0007 :: "ddl list" where
  "upgrade_0007 =
    [CreateTable ''order_candidates''
      [AutoColumn ''id'', Column ''account_id'' Integer False, Column ''source'' (String 16) False,
       Column ''source_ref_id'' Integer True, Column ''symbol'' (String 32) False, Column ''side'' (String 8) False,
       Column ''quantity'' Integer False, Column ''order_type'' (String 16) False,
       Column ''limit_price'' (Numeric 18 4) True, Column ''estimated_amount'' (Numeric 18 4) False,
       Column ''status'' (String 20) False, Column ''risk_check_result_json'' JSON True,
       Column ''approver_user_id'' Integer True, Column ''rejection_reason'' (String 256) True,
       Column ''expires_at'' DateTime True, Column ''virtual_order_id'' Integer True,
       Column ''created_at'' DateTime False, Column ''updated_at'' DateTime False,
       ForeignKeyConstraint ''account_id'' ''virtual_accounts'' ''id'' (Some ''CASCADE''),
       ForeignKeyConstraint ''approver_user_id'' ''users'' ''id'' None,
       ForeignKeyConstraint ''virtual_order_id'' ''virtual_orders'' ''id'' None, PrimaryKeyConstraint ''id''],
     CreateIndex ''order_candidates'' ''ix_order_candidates_account_id'' [''account_id''] False,
     CreateIndex ''order_candidates'' ''ix_order_candidates_symbol'' [''symbol''] False,
     CreateIndex ''order_candidates'' ''ix_order_candidates_status'' [''status''] False,
     CreateIndex ''order_candidates'' ''ix_order_candidates_expires_at'' [''expires_at''] False,
     CreateIndex ''order_candidates'' ''ix_order_candidates_account_status'' [''account_id'', ''status''] False]"

definition downgrade_0007 :: "ddl list" where
  "downgrade_0007 =
    [DropIndex ''order_candidates'' ''ix_order_candidates_account_status'',
     DropIndex ''order_candidates'' ''ix_order_candidates_expires_at'',
     DropIndex ''order_candidates'' ''ix_order_candidates_status'',
     DropIndex ''order_candidates'' ''ix_order_candidates_symbol'',
     DropIndex ''order_candidates'' ''ix_order_candidates_account_id'',
     DropTable ''order_candidates'']"

definition revision_0007 :: revision where
  "revision_0007 = \<lparr>rv_id = ''0007_order_candidates'', rv_down = Some ''0006_virtual_positions'',
     rv_upgrade = upgrade_0007, rv_downgrade = downgrade_0007\<rparr>"

subsection \<open>\<^verbatim>\<open>0008_approval_audit_logs.py\<close>\<close>

definition upgrade_0008 :: "ddl list" where
  "upgrade_0008 =
    [CreateTable ''approval_audit_logs''
      [AutoColumn ''id'', Column ''candidate_id'' Integer False, Column ''event_type'' (String 32) False,
       Column ''user_id'' Integer True, Column ''reason'' (String 256) True, Column ''details_json'' JSON True,
       Column ''ip_hash'' (String 64) True, Column ''user_agent_hash'' (String 64) True,
       Column ''created_at'' DateTime False,
       ForeignKeyConstraint ''candidate_id'' ''order_candidates'' ''id'' (Some ''CASCADE''),
       ForeignKeyConstraint ''user_id'' ''users'' ''id'' None, PrimaryKeyConstraint ''id''],
     CreateIndex ''approval_audit_logs'' ''ix_approval_audit_logs_candidate_id'' [''candidate_id''] False,
     CreateIndex ''approval_audit_logs'' ''ix_approval_audit_logs_event_type'' [''event_type''] False,
     CreateIndex ''approval_audit_logs'' ''ix_approval_audit_logs_created_at'' [''created_at''] False,
     CreateIndex ''approval_audit_logs'' ''ix_approval_audit_logs_candidate_event'' [''candidate_id'', ''event_type''] False]"

definition downgrade_0008 :: "ddl list" where
  "downgrade_0008 =
    [DropIndex ''approval_audit_logs'' ''ix_approval_audit_logs_candidate_event'',
     DropIndex ''approval_audit_logs'' ''ix_approval_audit_logs_created_at'',
     DropIndex ''approval_audit_logs'' ''ix_approval_audit_logs_event_type'',
     DropIndex ''approval_audit_logs'' ''ix_approval_audit_logs_candidate_id'',
     DropTable ''approval_audit_logs'']"

definition revision_0008 :: revision where
  "revision_0008 = \<lparr>rv_id = ''0008_approval_audit_logs'', rv_down = Some ''0007_order_candidates'',
     rv_upgrade = upgrade_0008, rv_downgrade = downgrade_0008\<rparr>"

subsection \<open>\<^verbatim>\<open>0009_real_orders.py\<close>\<close>

definition upgrade_0009 :: "ddl list" where
  "upgrade_0009 =
    [CreateTable ''real_orders''
      [AutoColumn ''id'', Column ''candidate_id'' Integer False, Column ''symbol'' (String 32) False,
       Column ''side'' (String 8) False, Column ''quantity'' Integer False, Column ''order_type'' (String 16) False,
       Column ''limit_price'' (Numeric 18 4) True, Column ''estimated_amount'' (Numeric 18 4) False,
       Column ''status'' (String 24) False, Column ''dry_run'' Boolean False,
       Column ''fake_order_no'' (String 32) True, Column ''broker_order_no_hash'' (String 64) True,
       Column ''request_id'' (String 64) True, Column ''error_code'' (String 32) True,
       Column ''error_message'' (String 500) True, Column ''submitted_at'' DateTime True,
       Column ''created_at'' DateTime False, Column ''updated_at'' DateTime False,
       ForeignKeyConstraint ''candidate_id'' ''order_candidates'' ''id'' (Some ''CASCADE''),
       PrimaryKeyConstraint ''id''],
     CreateIndex ''real_orders'' ''ix_real_orders_candidate_id'' [''candidate_id''] False,
     CreateIndex ''real_orders'' ''ix_real_orders_symbol'' [''symbol''] False,
     CreateIndex ''real_orders'' ''ix_real_orders_status'' [''status''] False,
     CreateIndex ''real_orders'' ''ix_real_orders_submitted_at'' [''submitted_at''] False,
     CreateIndex ''real_orders'' ''ix_real_orders_candidate_status'' [''candidate_id'', ''status''] False]"

definition downgrade_0009 :: "ddl list" where
  "downgrade_0009 =
    [DropIndex ''real_orders'' ''ix_real_orders_candidate_status'',
     DropIndex ''real_orders'' ''ix_real_orders_submitted_at'',
     DropIndex ''real_orders'' ''ix_real_orders_status'',
     DropIndex ''real_orders'' ''ix_real_orders_symbol'',
     DropIndex ''real_orders'' ''ix_real_orders_candidate_id'',
     DropTable ''real_orders'']"

definition revision_0009 :: revision where
  "revision_0009 = \<lparr>rv_id = ''0009_real_orders'', rv_down = Some ''0008_approval_audit_logs'',
     rv_upgrade = upgrade_0009, rv_downgrade = downgrade_0009\<rparr>"

subsection \<open>\<^verbatim>\<open>0010_real_fills.py\<close>\<close>

definition upgrade_0010 :: "ddl list" where
  "upgrade_0010 =
    [CreateTable ''real_fills''
      [AutoColumn ''id'', Column ''real_order_id'' Integer False, Column ''symbol'' (String 32) False,
       Column ''side'' (String 8) False, Column ''quantity'' Integer False,
       Column ''fill_price'' (Numeric 18 4) False, Column ''fee'' (Numeric 18 4) False,
       Column ''tax'' (Numeric 18 4) False, Column ''gross_amount'' (Numeric 18 4) False,
       Column ''net_amount'' (Numeric 18 4) False, Column ''fill_status'' (String 16) False,
       Column ''filled_at'' DateTime False, Column ''created_at'' DateTime False,
       ForeignKeyConstraint ''real_order_id'' ''real_orders'' ''id'' (Some ''CASCADE''), PrimaryKeyConstraint ''id''],
     CreateIndex ''real_fills'' ''ix_real_fills_real_order_id'' [''real_order_id''] False,
     CreateIndex ''real_fills'' ''ix_real_fills_symbol'' [''symbol''] False,
     CreateIndex ''real_fills'' ''ix_real_fills_filled_at'' [''filled_at''] False,
     CreateIndex ''real_fills'' ''ix_real_fills_order_filled_at'' [''real_order_id'', ''filled_at''] False]"

definition downgrade_0010 :: "ddl list" where
  "downgrade_0010 =
    [DropIndex ''real_fills'' ''ix_real_fills_order_filled_at'',
     DropIndex ''real_fills'' ''ix_real_fills_filled_at'',
     DropIndex ''real_fills'' ''ix_real_fills_symbol'',
     DropIndex ''real_fills'' ''ix_real_fills_real_order_id'',
     DropTable ''real_fills'']"

definition revision_0010 :: revision where
  "revision_0010 = \<lparr>rv_id = ''0010_real_fills'', rv_down = Some ''0009_real_orders'',
     rv_upgrade = upgrade_0010, rv_downgrade = downgrade_0010\<rparr>"

subsection \<open>The chain\<close>

definition revisions :: "revision list" where
  "revisions =
    [revision_0001, revision_0002, revision_0003, revision_0004, revision_0005, revision_0006, revision_0007,
     revision_0008, revision_0009, revision_0010]"

end
