(* ===== verification/Orm_Tables.thy ===== *)
theory Orm_Tables
  imports Database_Schema
begin

text \<open>
  The tables the ORM classes of \<^verbatim>\<open>app/db/models.py\<close> declare, class by class: columns with the
  arguments that reach the schema and the table arguments. Relationships and the Python-side
  defaults are no part of the schema.
\<close>

definition orm_stocks :: orm_class where
  "orm_stocks = \<lparr>om_table = ''stocks'', om_timestamps = True,
     om_columns =
      [primary_key ''id'', indexed (mapped_column ''market'' (String 32) False),
       unique_indexed (mapped_column ''symbol'' (String 32) False), mapped_column ''name'' (String 255) False,
       mapped_column ''sector'' (String 255) True, mapped_column ''theme_tags'' JSON True,
       mapped_column ''is_active'' Boolean False],
     om_args = []\<rparr>"

definition orm_holdings :: orm_class where
  "orm_holdings = \<lparr>om_table = ''holdings'', om_timestamps = True,
     om_columns =
      [primary_key ''id'', indexed (mapped_column ''symbol'' (String 32) False),
       mapped_column ''quantity'' (Numeric 20 4) False, mapped_column ''avg_buy_price'' (Numeric 20 4) False,
       mapped_column ''buy_date'' Date True, mapped_column ''strategy_type'' (String 32) True,
       mapped_column ''target_price'' (Numeric 20 4) True, mapped_column ''stop_loss_price'' (Numeric 20 4) True,
       mapped_column ''memo'' Text True, mapped_column ''is_active'' Boolean False],
     om_args = [IndexArg ''ix_holdings_symbol_active'' [''symbol'', ''is_active'']]\<rparr>"

definition orm_daily_prices :: orm_class where
  "orm_daily_prices = \<lparr>om_table = ''daily_prices'', om_timestamps = False,
     om_columns =
      [primary_key ''id'', indexed (mapped_column ''date'' Date False),
       indexed (mapped_column ''symbol'' (String 32) False), mapped_column ''open'' (Numeric 20 4) False,
       mapped_column ''high'' (Numeric 20 4) False, mapped_column ''low'' (Numeric 20 4) False,
       mapped_column ''close'' (Numeric 20 4) False, mapped_column ''volume'' BigInteger False,
       mapped_column ''trading_value'' (Numeric 24 4) True, mapped_column ''adjusted_close'' (Numeric 20 4) True,
       mapped_column ''created_at'' DateTime False],
     om_args = [UniqueArg ''uq_daily_prices_symbol_date'' [''symbol'', ''date''],
       IndexArg ''ix_daily_prices_symbol_date'' [''symbol'', ''date'']]\<rparr>"

definition orm_stock_indicators :: orm_class where
  "orm_stock_indicators = \<lparr>om_table = ''stock_indicators'', om_timestamps = True,
     om_columns =
      [primary_key ''id'', indexed (mapped_column ''date'' Date False),
       indexed (mapped_column ''symbol'' (String 32) False), mapped_column ''ma5'' (Numeric 20 4) True,
       mapped_column ''ma20'' (Numeric 20 4) True, mapped_column ''ma60'' (Numeric 20 4) True,
       mapped_column ''ma120'' (Numeric 20 4) True, mapped_column ''rsi14'' (Numeric 10 4) True,
       mapped_column ''macd'' (Numeric 20 4) True, mapped_column ''macd_signal'' (Numeric 20 4) True,
       mapped_column ''volume_ratio_20d'' (Numeric 12 4) True, mapped_column ''breakout_20d'' Boolean True,
       mapped_column ''breakout_60d'' Boolean True, mapped_column ''ma_alignment'' (String 32) True,
       mapped_column ''technical_score'' (Numeric 10 4) True, mapped_column ''atr14'' (Numeric 20 4) True,
       mapped_column ''candle_patterns'' JSON True, mapped_column ''volatility_band'' (String 16) True],
     om_args = [UniqueArg ''uq_stock_indicators_symbol_date'' [''symbol'', ''date''],
       IndexArg ''ix_stock_indicators_symbol_date'' [''symbol'', ''date'']]\<rparr>"

definition orm_job_runs :: orm_class where
  "orm_job_runs = \<lparr>om_table = ''job_runs'', om_timestamps = False,
     om_columns =
      [primary_key ''job_id'', indexed (mapped_column ''job_name'' (String 128) False),
       mapped_column ''started_at'' DateTime False, mapped_column ''finished_at'' DateTime True,
       indexed (mapped_column ''status'' (String 32) False), mapped_column ''error_message'' Text True,
       mapped_column ''result_summary'' JSON True],
     om_args = [IndexArg ''ix_job_runs_name_status'' [''job_name'', ''status'']]\<rparr>"

definition orm_market_cap_rankings :: orm_class where
  "orm_market_cap_rankings = \<lparr>om_table = ''market_cap_rankings'', om_timestamps = True,
     om_columns =
      [primary_key ''id'', indexed (mapped_column ''rank_date'' Date False),
       indexed (mapped_column ''market'' (String 32) False), mapped_column ''rank'' Integer False,
       indexed (mapped_column ''symbol'' (String 32) False), mapped_column ''name'' (String 255) False,
       mapped_column ''market_cap'' (Numeric 24 4) True, mapped_column ''close_price'' (Numeric 20 4) True,
       mapped_column ''listed_shares'' BigInteger True, mapped_column ''sector'' (String 255) True,
       mapped_column ''trading_value'' (Numeric 24 4) True, mapped_column ''is_analysis_target'' Boolean False],
     om_args = [UniqueArg ''uq_market_cap_rank_date_market_rank'' [''rank_date'', ''market'', ''rank''],
       UniqueArg ''uq_market_cap_rank_date_market_symbol'' [''rank_date'', ''market'', ''symbol''],
       IndexArg ''ix_market_cap_rankings_date_market'' [''rank_date'', ''market''],
       IndexArg ''ix_market_cap_rankings_symbol_date'' [''symbol'', ''rank_date'']]\<rparr>"

definition orm_stock_universes :: orm_class where
  "orm_stock_universes = \<lparr>om_table = ''stock_universes'', om_timestamps = True,
     om_columns =
      [primary_key ''universe_id'', unique_indexed (mapped_column ''name'' (String 128) False),
       mapped_column ''description'' Text True, mapped_column ''is_active'' Boolean False],
     om_args = []\<rparr>"

definition orm_stock_universe_members :: orm_class where
  "orm_stock_universe_members = \<lparr>om_table = ''stock_universe_members'', om_timestamps = False,
     om_columns =
      [primary_key ''id'', indexed (foreign_key ''universe_id'' (''stock_universes'', ''universe_id'') None False),
       indexed (mapped_column ''symbol'' (String 32) False), mapped_column ''added_at'' DateTime False,
       mapped_column ''removed_at'' DateTime True, mapped_column ''reason'' Text True],
     om_args = [UniqueArg ''uq_stock_universe_members_universe_symbol'' [''universe_id'', ''symbol''],
       IndexArg ''ix_stock_universe_members_symbol_universe'' [''symbol'', ''universe_id'']]\<rparr>"

definition orm_news_items :: orm_class where
  "orm_news_items = \<lparr>om_table = ''news_items'', om_timestamps = False,
     om_columns =
      [primary_key ''id'', indexed (mapped_column ''published_at'' DateTime False),
       mapped_column ''available_at'' DateTime True, indexed (mapped_column ''source'' (String 128) False),
       mapped_column ''title'' (String 500) False, mapped_column ''url'' (String 1000) True,
       mapped_column ''related_symbols'' JSON True, mapped_column ''sentiment'' (String 32) True,
       mapped_column ''importance'' (String 32) True, indexed (mapped_column ''theme'' (String 128) True),
       indexed (mapped_column ''category'' (String 32) True), mapped_column ''created_at'' DateTime False],
     om_args = [UniqueArg ''uq_news_items_source_url'' [''source'', ''url''],
       IndexArg ''ix_news_items_published_source'' [''published_at'', ''source'']]\<rparr>"

definition orm_market_regimes :: orm_class where
  "orm_market_regimes = \<lparr>om_table = ''market_regimes'', om_timestamps = False,
     om_columns =
      [primary_key ''id'', indexed (mapped_column ''date'' Date False),
       indexed (mapped_column ''market'' (String 32) False), mapped_column ''regime'' (String 64) False,
       mapped_column ''market_score'' (Numeric 10 4) True, mapped_column ''risk_level'' (String 32) True,
       mapped_column ''reason'' Text True, mapped_column ''created_at'' DateTime False],
     om_args = [UniqueArg ''uq_market_regimes_date_market'' [''date'', ''market''],
       IndexArg ''ix_market_regimes_market_date'' [''market'', ''date'']]\<rparr>"

definition orm_data_snapshots :: orm_class where
  "orm_data_snapshots = \<lparr>om_table = ''data_snapshots'', om_timestamps = False,
     om_columns =
      [primary_key ''snapshot_id'', indexed (mapped_column ''snapshot_time'' DateTime False),
       indexed (mapped_column ''symbol'' (String 32) False),
       indexed (mapped_column ''snapshot_type'' (String 64) False), mapped_column ''price_data_json'' JSON True,
       mapped_column ''indicator_data_json'' JSON True, mapped_column ''news_data_json'' JSON True,
       mapped_column ''market_context_json'' JSON True, mapped_column ''created_at'' DateTime False],
     om_args = [IndexArg ''ix_data_snapshots_symbol_type_time'' [''symbol'', ''snapshot_type'', ''snapshot_time'']]\<rparr>"

definition orm_recommendation_runs :: orm_class where
  "orm_recommendation_runs = \<lparr>om_table = ''recommendation_runs'', om_timestamps = False,
     om_columns =
      [primary_key ''run_id'', indexed (mapped_column ''run_date'' Date False),
       mapped_column ''started_at'' DateTime False, mapped_column ''finished_at'' DateTime True,
       mapped_column ''market_summary'' JSON True, indexed (mapped_column ''status'' (String 32) False),
       mapped_column ''telegram_sent'' Boolean False],
     om_args = [IndexArg ''ix_recommendation_runs_date_status'' [''run_date'', ''status'']]\<rparr>"

definition orm_recommendations :: orm_class where
  "orm_recommendations = \<lparr>om_table = ''recommendations'', om_timestamps = False,
     om_columns =
      [primary_key ''id'', indexed (foreign_key ''run_id'' (''recommendation_runs'', ''run_id'') None False),
       mapped_column ''rank'' Integer False, indexed (mapped_column ''market'' (String 32) False),
       indexed (mapped_column ''symbol'' (String 32) False), mapped_column ''name'' (String 255) False,
       mapped_column ''grade'' (String 8) True, mapped_column ''total_score'' (Numeric 10 4) True,
       mapped_column ''technical_score'' (Numeric 10 4) True, mapped_column ''news_score'' (Numeric 10 4) True,
       mapped_column ''supply_score'' (Numeric 10 4) True, mapped_column ''fundamental_score'' (Numeric 10 4) True,
       mapped_column ''ai_score'' (Numeric 10 4) True, mapped_column ''risk_score'' (Numeric 10 4) True,
       mapped_column ''reason'' Text True, mapped_column ''risk_note'' Text True,
       mapped_column ''watch_condition'' Text True, mapped_column ''invalid_condition'' Text True,
       indexed (foreign_key ''snapshot_id'' (''data_snapshots'', ''snapshot_id'') None True)],
     om_args = [UniqueArg ''uq_recommendations_run_rank'' [''run_id'', ''rank''],
       UniqueArg ''uq_recommendations_run_symbol'' [''run_id'', ''symbol''],
       IndexArg ''ix_recommendations_run_symbol'' [''run_id'', ''symbol'']]\<rparr>"

definition orm_recommendation_results :: orm_class where
  "orm_recommendation_results = \<lparr>om_table = ''recommendation_results'', om_timestamps = False,
     om_columns =
      [primary_key ''id'', indexed (foreign_key ''recommendation_id'' (''recommendations'', ''id'') None False),
       indexed (mapped_column ''result_date'' Date False), mapped_column ''days_after'' Integer False,
       mapped_column ''open_return'' (Numeric 12 4) True, mapped_column ''high_return'' (Numeric 12 4) True,
       mapped_column ''low_return'' (Numeric 12 4) True, mapped_column ''close_return'' (Numeric 12 4) True,
       mapped_column ''max_return'' (Numeric 12 4) True, mapped_column ''max_drawdown'' (Numeric 12 4) True,
       mapped_column ''result_status'' (String 32) True],
     om_args = [UniqueArg ''uq_recommendation_results_recommendation_days'' [''recommendation_id'', ''days_after'']]\<rparr>"

definition orm_holding_checks :: orm_class where
  "orm_holding_checks = \<lparr>om_table = ''holding_checks'', om_timestamps = False,
     om_columns =
      [primary_key ''id'', indexed (mapped_column ''check_date'' Date False),
       indexed (mapped_column ''check_type'' (String 32) False), indexed (mapped_column ''symbol'' (String 32) False),
       mapped_column ''current_price'' (Numeric 20 4) True, mapped_column ''avg_buy_price'' (Numeric 20 4) True,
       mapped_column ''return_rate'' (Numeric 12 4) True, mapped_column ''technical_score'' (Numeric 10 4) True,
       mapped_column ''news_score'' (Numeric 10 4) True, mapped_column ''earnings_score'' (Numeric 10 4) True,
       mapped_column ''ai_score'' (Numeric 10 4) True, mapped_column ''risk_score'' (Numeric 10 4) True,
       mapped_column ''total_score'' (Numeric 10 4) True, mapped_column ''grade'' (String 8) True,
       mapped_column ''decision'' (String 64) True, mapped_column ''reason'' Text True,
       mapped_column ''alert'' Boolean False,
       indexed (foreign_key ''snapshot_id'' (''data_snapshots'', ''snapshot_id'') None True)],
     om_args = [UniqueArg ''uq_holding_checks_date_type_symbol'' [''check_date'', ''check_type'', ''symbol''],
       IndexArg ''ix_holding_checks_symbol_date'' [''symbol'', ''check_date'']]\<rparr>"

definition orm_decision_logs :: orm_class where
  "orm_decision_logs = \<lparr>om_table = ''decision_logs'', om_timestamps = False,
     om_columns =
      [primary_key ''decision_id'', indexed (mapped_column ''decision_type'' (String 64) False),
       indexed (mapped_column ''symbol'' (String 32) False),
       indexed (foreign_key ''input_snapshot_id'' (''data_snapshots'', ''snapshot_id'') None True),
       mapped_column ''rule_result_json'' JSON True, mapped_column ''ai_result_json'' JSON True,
       mapped_column ''risk_result_json'' JSON True, mapped_column ''final_decision'' (String 128) False,
       mapped_column ''reason'' Text True, mapped_column ''created_at'' DateTime False],
     om_args = [IndexArg ''ix_decision_logs_type_symbol'' [''decision_type'', ''symbol'']]\<rparr>"

definition orm_notification_logs :: orm_class where
  "orm_notification_logs = \<lparr>om_table = ''notification_logs'', om_timestamps = False,
     om_columns =
      [primary_key ''id'', indexed (mapped_column ''channel'' (String 32) False),
       indexed (mapped_column ''message_type'' (String 64) False), mapped_column ''target'' (String 255) True,
       mapped_column ''sent_at'' DateTime True, indexed (mapped_column ''status'' (String 32) False),
       mapped_column ''error_message'' Text True,
       indexed (foreign_key ''related_job_id'' (''job_runs'', ''job_id'') None True)],
     om_args = [IndexArg ''ix_notification_logs_channel_status'' [''channel'', ''status'']]\<rparr>"

definition orm_analyst_reports :: orm_class where
  "orm_analyst_reports = \<lparr>om_table = ''analyst_reports'', om_timestamps = True,
     om_columns =
      [primary_key ''id'', indexed (mapped_column ''symbol'' (String 32) True),
       mapped_column ''company_name'' (String 255) True, mapped_column ''market'' (String 32) True,
       mapped_column ''exchange'' (String 32) True, mapped_column ''country'' (String 32) True,
       indexed (mapped_column ''report_type'' (String 32) False), mapped_column ''broker_name'' (String 64) False,
       mapped_column ''broker_country'' (String 32) True, mapped_column ''analyst_name'' (String 64) True,
       indexed (mapped_column ''published_at'' Date False), mapped_column ''title'' (String 255) False,
       mapped_column ''rating'' (String 32) True, mapped_column ''normalized_rating'' (String 16) True,
       mapped_column ''target_price'' (Numeric 20 4) True,
       mapped_column ''previous_target_price'' (Numeric 20 4) True,
       mapped_column ''current_price_at_report'' (Numeric 20 4) True, mapped_column ''currency'' (String 8) True,
       mapped_column ''summary'' (String 500) True, mapped_column ''positive_points'' Text True,
       mapped_column ''risk_points'' Text True, mapped_column ''source_url'' (String 500) True,
       mapped_column ''source_file_path'' (String 500) True, mapped_column ''language'' (String 8) True,
       mapped_column ''source_reliability_score'' (Numeric 5 2) True,
       mapped_column ''extraction_method'' (String 16) False,
       mapped_column ''extraction_confidence'' (Numeric 4 3) True,
       indexed (mapped_column ''duplicate_group_key'' (String 64) True)],
     om_args = [UniqueArg ''uq_analyst_reports_broker_pub_title'' [''broker_name'', ''published_at'', ''title'']]\<rparr>"

definition orm_report_themes :: orm_class where
  "orm_report_themes = \<lparr>om_table = ''report_themes'', om_timestamps = True,
     om_columns =
      [primary_key ''id'', indexed (mapped_column ''theme_name'' (String 128) False),
       indexed (mapped_column ''theme_category'' (String 32) False),
       indexed (mapped_column ''direction'' (String 16) False), mapped_column ''confidence'' (Numeric 4 3) True,
       mapped_column ''time_horizon'' (String 16) False, mapped_column ''summary'' (String 500) True,
       indexed (foreign_key ''source_report_id'' (''analyst_reports'', ''id'') None False),
       mapped_column ''extraction_method'' (String 16) False,
       mapped_column ''extraction_confidence'' (Numeric 4 3) True],
     om_args = [UniqueArg ''uq_report_themes_report_theme'' [''source_report_id'', ''theme_name'']]\<rparr>"

definition orm_theme_stock_mappings :: orm_class where
  "orm_theme_stock_mappings = \<lparr>om_table = ''theme_stock_mappings'', om_timestamps = True,
     om_columns =
      [primary_key ''id'', indexed (foreign_key ''theme_id'' (''report_themes'', ''id'') None False),
       indexed (mapped_column ''symbol'' (String 32) False), mapped_column ''company_name'' (String 255) True,
       mapped_column ''market'' (String 32) True, mapped_column ''exchange'' (String 32) True,
       mapped_column ''country'' (String 32) True, mapped_column ''relation_type'' (String 32) True,
       indexed (mapped_column ''impact_direction'' (String 16) False),
       mapped_column ''impact_strength'' (Numeric 4 3) True, indexed (mapped_column ''impact_path'' (String 32) True),
       mapped_column ''benefit_type'' (String 32) True, mapped_column ''time_lag'' (String 16) True,
       mapped_column ''reason'' (String 500) True, mapped_column ''source_sentence_summary'' (String 500) True,
       mapped_column ''extraction_method'' (String 16) False,
       mapped_column ''extraction_confidence'' (Numeric 4 3) True],
     om_args = [UniqueArg ''uq_theme_stock_mappings_theme_symbol'' [''theme_id'', ''symbol'']]\<rparr>"

definition orm_report_signal_events :: orm_class where
  "orm_report_signal_events = \<lparr>om_table = ''report_signal_events'', om_timestamps = True,
     om_columns =
      [primary_key ''id'', indexed (foreign_key ''report_id'' (''analyst_reports'', ''id'') None False),
       indexed (mapped_column ''symbol'' (String 32) True),
       indexed (foreign_key ''theme_id'' (''report_themes'', ''id'') None True),
       indexed (mapped_column ''event_type'' (String 32) False),
       indexed (mapped_column ''direction'' (String 16) False), mapped_column ''strength'' (Numeric 4 3) True,
       mapped_column ''time_horizon'' (String 16) False, mapped_column ''summary'' (String 500) True,
       mapped_column ''evidence_json'' JSON True, mapped_column ''extraction_method'' (String 16) False,
       mapped_column ''extraction_confidence'' (Numeric 4 3) True],
     om_args = [UniqueArg ''uq_report_signal_events_report_event_symbol_theme'' [''report_id'', ''event_type'', ''symbol'', ''theme_id'']]\<rparr>"

definition orm_report_consensus_snapshots :: orm_class where
  "orm_report_consensus_snapshots = \<lparr>om_table = ''report_consensus_snapshots'', om_timestamps = False,
     om_columns =
      [primary_key ''id'', indexed (mapped_column ''symbol'' (String 32) False),
       indexed (mapped_column ''snapshot_date'' Date False), mapped_column ''window_days'' Integer False,
       mapped_column ''report_count'' Integer False, mapped_column ''avg_target_price'' (Numeric 20 4) True,
       mapped_column ''min_target_price'' (Numeric 20 4) True, mapped_column ''max_target_price'' (Numeric 20 4) True,
       mapped_column ''strong_buy_count'' Integer False, mapped_column ''buy_count'' Integer False,
       mapped_column ''hold_count'' Integer False, mapped_column ''sell_count'' Integer False,
       mapped_column ''strong_sell_count'' Integer False, mapped_column ''latest_published_at'' Date True,
       mapped_column ''created_at'' DateTime False],
     om_args = [UniqueArg ''uq_report_consensus_symbol_date_window'' [''symbol'', ''snapshot_date'', ''window_days'']]\<rparr>"

definition orm_report_score_logs :: orm_class where
  "orm_report_score_logs = \<lparr>om_table = ''report_score_logs'', om_timestamps = False,
     om_columns =
      [primary_key ''id'', indexed (mapped_column ''symbol'' (String 32) False),
       indexed (mapped_column ''score_date'' Date False), mapped_column ''report_score'' (Numeric 6 2) True,
       mapped_column ''theme_signal_score'' (Numeric 6 2) True, mapped_column ''report_count'' Integer False,
       mapped_column ''theme_count'' Integer True, mapped_column ''signal_event_count'' Integer True,
       mapped_column ''target_upside_pct'' (Numeric 8 4) True, mapped_column ''rating_score_avg'' (Numeric 6 4) True,
       mapped_column ''recency_bonus'' (Numeric 4 2) True, mapped_column ''theme_signal_bonus'' (Numeric 4 2) True,
       mapped_column ''event_signal_bonus'' (Numeric 4 2) True, mapped_column ''risk_penalty'' (Numeric 4 2) True,
       mapped_column ''evidence_json'' JSON True,
       indexed (foreign_key ''recommendation_run_id'' (''recommendation_runs'', ''run_id'') None True),
       mapped_column ''created_at'' DateTime False],
     om_args = [UniqueArg ''uq_report_score_logs_symbol_date_run'' [''symbol'', ''score_date'', ''recommendation_run_id'']]\<rparr>"

definition orm_fundamental_snapshots :: orm_class where
  "orm_fundamental_snapshots = \<lparr>om_table = ''fundamental_snapshots'', om_timestamps = True,
     om_columns =
      [primary_key ''id'', indexed (mapped_column ''symbol'' (String 32) False),
       indexed (mapped_column ''snapshot_date'' Date False), indexed (mapped_column ''fiscal_year'' Integer False),
       mapped_column ''fiscal_quarter'' Integer True, mapped_column ''revenue'' (Numeric 24 4) True,
       mapped_column ''operating_income'' (Numeric 24 4) True, mapped_column ''net_income'' (Numeric 24 4) True,
       mapped_column ''total_assets'' (Numeric 24 4) True, mapped_column ''total_liabilities'' (Numeric 24 4) True,
       mapped_column ''total_equity'' (Numeric 24 4) True, mapped_column ''eps'' (Numeric 20 4) True,
       mapped_column ''bps'' (Numeric 20 4) True, mapped_column ''per'' (Numeric 12 4) True,
       mapped_column ''pbr'' (Numeric 12 4) True, mapped_column ''roe'' (Numeric 12 4) True,
       mapped_column ''debt_ratio'' (Numeric 12 4) True, mapped_column ''dividend_yield'' (Numeric 12 4) True,
       mapped_column ''revenue_growth_yoy'' (Numeric 12 4) True,
       mapped_column ''operating_income_growth_yoy'' (Numeric 12 4) True, mapped_column ''source'' (String 64) True],
     om_args = [UniqueArg ''uq_fundamental_snapshots_symbol_period'' [''symbol'', ''snapshot_date'', ''fiscal_year'', ''fiscal_quarter'']]\<rparr>"

definition orm_earnings_events :: orm_class where
  "orm_earnings_events = \<lparr>om_table = ''earnings_events'', om_timestamps = True,
     om_columns =
      [primary_key ''id'', indexed (mapped_column ''symbol'' (String 32) False),
       mapped_column ''company_name'' (String 255) True, indexed (mapped_column ''event_date'' Date False),
       mapped_column ''fiscal_year'' Integer False, mapped_column ''fiscal_quarter'' Integer True,
       mapped_column ''event_type'' (String 16) False, mapped_column ''revenue_actual'' (Numeric 24 4) True,
       mapped_column ''revenue_consensus'' (Numeric 24 4) True,
       mapped_column ''operating_income_actual'' (Numeric 24 4) True,
       mapped_column ''operating_income_consensus'' (Numeric 24 4) True,
       mapped_column ''net_income_actual'' (Numeric 24 4) True,
       mapped_column ''net_income_consensus'' (Numeric 24 4) True, mapped_column ''eps_actual'' (Numeric 20 4) True,
       mapped_column ''eps_consensus'' (Numeric 20 4) True,
       indexed (mapped_column ''surprise_type'' (String 16) True), mapped_column ''surprise_pct'' (Numeric 12 4) True,
       mapped_column ''source'' (String 64) True, mapped_column ''memo'' (String 500) True],
     om_args = [UniqueArg ''uq_earnings_events_symbol_event'' [''symbol'', ''event_date'', ''fiscal_year'', ''fiscal_quarter'', ''event_type'']]\<rparr>"

definition orm_backtest_runs :: orm_class where
  "orm_backtest_runs = \<lparr>om_table = ''backtest_runs'', om_timestamps = True,
     om_columns =
      [primary_key ''id'', indexed (mapped_column ''strategy_name'' (String 64) False),
       mapped_column ''strategy_version'' (String 32) False, indexed (mapped_column ''run_date'' Date False),
       mapped_column ''start_date'' Date True, mapped_column ''end_date'' Date True,
       mapped_column ''signal_count'' Integer False, mapped_column ''buy_count'' Integer False,
       mapped_column ''avoid_count'' Integer False, mapped_column ''pass_count'' Integer False,
       mapped_column ''win_rate_1d'' (Numeric 6 4) True, mapped_column ''win_rate_3d'' (Numeric 6 4) True,
       mapped_column ''win_rate_5d'' (Numeric 6 4) True, mapped_column ''win_rate_20d'' (Numeric 6 4) True,
       mapped_column ''avg_return_1d'' (Numeric 12 4) True, mapped_column ''avg_return_3d'' (Numeric 12 4) True,
       mapped_column ''avg_return_5d'' (Numeric 12 4) True, mapped_column ''avg_return_20d'' (Numeric 12 4) True,
       mapped_column ''max_drawdown'' (Numeric 12 4) True, mapped_column ''status'' (String 16) False,
       mapped_column ''error_message'' Text True, mapped_column ''config_json'' JSON True,
       mapped_column ''summary_json'' JSON True],
     om_args = []\<rparr>"

definition orm_backtest_results :: orm_class where
  "orm_backtest_results = \<lparr>om_table = ''backtest_results'', om_timestamps = False,
     om_columns =
      [primary_key ''id'',
       indexed (foreign_key ''backtest_run_id'' (''backtest_runs'', ''id'') (Some ''CASCADE'') False),
       indexed (mapped_column ''symbol'' (String 32) False),
       foreign_key ''recommendation_id'' (''recommendations'', ''id'') None True,
       foreign_key ''recommendation_result_id'' (''recommendation_results'', ''id'') None True,
       indexed (mapped_column ''signal_action'' (String 8) False), mapped_column ''confidence'' (Numeric 5 4) True,
       mapped_column ''reason'' Text True, mapped_column ''grade'' (String 8) True,
       mapped_column ''total_score'' (Numeric 10 4) True, mapped_column ''return_1d'' (Numeric 12 4) True,
       mapped_column ''return_3d'' (Numeric 12 4) True, mapped_column ''return_5d'' (Numeric 12 4) True,
       mapped_column ''return_20d'' (Numeric 12 4) True, mapped_column ''max_drawdown'' (Numeric 12 4) True,
       mapped_column ''result_status'' (String 32) True,
       mapped_column ''cost_adjusted_return_5d'' (Numeric 12 4) True,
       indexed (mapped_column ''regime'' (String 32) True), mapped_column ''evidence_json'' JSON True,
       mapped_column ''created_at'' DateTime False],
     om_args = [UniqueArg ''uq_backtest_results_run_recommendation'' [''backtest_run_id'', ''recommendation_id'']]\<rparr>"

definition orm_users :: orm_class where
  "orm_users = \<lparr>om_table = ''users'', om_timestamps = True,
     om_columns =
      [primary_key ''id'', unique_indexed (mapped_column ''username'' (String 64) False),
       mapped_column ''password_hash'' (String 255) False, mapped_column ''is_active'' Boolean False,
       mapped_column ''is_admin'' Boolean False, mapped_column ''last_login_at'' DateTime True],
     om_args = []\<rparr>"

definition orm_login_audit_logs :: orm_class where
  "orm_login_audit_logs = \<lparr>om_table = ''login_audit_logs'', om_timestamps = False,
     om_columns =
      [primary_key ''id'', indexed (mapped_column ''username'' (String 64) True),
       indexed (foreign_key ''user_id'' (''users'', ''id'') None True),
       indexed (mapped_column ''event_type'' (String 32) False), mapped_column ''source_ip_hash'' (String 64) True,
       mapped_column ''user_agent_hash'' (String 64) True, indexed (mapped_column ''created_at'' DateTime False)],
     om_args = [IndexArg ''ix_login_audit_logs_username_created'' [''username'', ''created_at''],
       IndexArg ''ix_login_audit_logs_event_created'' [''event_type'', ''created_at'']]\<rparr>"

definition orm_watchlists :: orm_class where
  "orm_watchlists = \<lparr>om_table = ''watchlists'', om_timestamps = True,
     om_columns =
      [primary_key ''id'', indexed (foreign_key ''user_id'' (''users'', ''id'') None False),
       mapped_column ''name'' (String 64) False, mapped_column ''is_default'' Boolean False],
     om_args = [UniqueArg ''uq_watchlists_user_name'' [''user_id'', ''name'']]\<rparr>"

definition orm_watchlist_items :: orm_class where
  "orm_watchlist_items = \<lparr>om_table = ''watchlist_items'', om_timestamps = True,
     om_columns =
      [primary_key ''id'', indexed (foreign_key ''watchlist_id'' (''watchlists'', ''id'') (Some ''CASCADE'') False),
       indexed (mapped_column ''symbol'' (String 32) False), mapped_column ''memo'' (String 500) True],
     om_args = [UniqueArg ''uq_watchlist_items_watchlist_symbol'' [''watchlist_id'', ''symbol'']]\<rparr>"

definition orm_user_preferences :: orm_class where
  "orm_user_preferences = \<lparr>om_table = ''user_preferences'', om_timestamps = True,
     om_columns =
      [primary_key ''id'', unique_indexed (foreign_key ''user_id'' (''users'', ''id'') None False),
       foreign_key ''default_watchlist_id'' (''watchlists'', ''id'') (Some ''SET NULL'') True,
       mapped_column ''default_market'' (String 32) True, mapped_column ''default_strategy'' (String 64) True,
       mapped_column ''dashboard_layout_json'' JSON True, mapped_column ''notification_preferences_json'' JSON True],
     om_args = []\<rparr>"

definition orm_virtual_accounts :: orm_class where
  "orm_virtual_accounts = \<lparr>om_table = ''virtual_accounts'', om_timestamps = True,
     om_columns =
      [primary_key ''id'', indexed (foreign_key ''user_id'' (''users'', ''id'') None True),
       mapped_column ''name'' (String 64) False, mapped_column ''initial_cash'' (Numeric 18 4) False,
       mapped_column ''cash_balance'' (Numeric 18 4) False, mapped_column ''currency'' (String 8) False,
       mapped_column ''paper_trading_enabled'' Boolean False],
     om_args = [UniqueArg ''uq_virtual_accounts_user_name'' [''user_id'', ''name'']]\<rparr>"

definition orm_virtual_orders :: orm_class where
  "orm_virtual_orders = \<lparr>om_table = ''virtual_orders'', om_timestamps = True,
     om_columns =
      [primary_key ''id'',
       indexed (foreign_key ''account_id'' (''virtual_accounts'', ''id'') (Some ''CASCADE'') False),
       indexed (mapped_column ''symbol'' (String 32) False), mapped_column ''side'' (String 8) False,
       mapped_column ''quantity'' Integer False, mapped_column ''order_type'' (String 16) False,
       mapped_column ''limit_price'' (Numeric 18 4) True, indexed (mapped_column ''status'' (String 20) False),
       mapped_column ''idempotency_key'' (String 64) True, mapped_column ''reason'' (String 256) True,
       mapped_column ''note'' (String 256) True],
     om_args = [UniqueArg ''uq_virtual_orders_account_idempotency'' [''account_id'', ''idempotency_key''],
       IndexArg ''ix_virtual_orders_account_status'' [''account_id'', ''status'']]\<rparr>"

definition orm_virtual_positions :: orm_class where
  "orm_virtual_positions = \<lparr>om_table = ''virtual_positions'', om_timestamps = True,
     om_columns =
      [primary_key ''id'',
       indexed (foreign_key ''account_id'' (''virtual_accounts'', ''id'') (Some ''CASCADE'') False),
       indexed (mapped_column ''symbol'' (String 32) False), mapped_column ''quantity'' Integer False,
       mapped_column ''avg_cost'' (Numeric 18 4) False, mapped_column ''realized_pnl'' (Numeric 18 4) False],
     om_args = [UniqueArg ''uq_virtual_positions_account_symbol'' [''account_id'', ''symbol'']]\<rparr>"

definition orm_virtual_fills :: orm_class where
  "orm_virtual_fills = \<lparr>om_table = ''virtual_fills'', om_timestamps = False,
     om_columns =
      [primary_key ''id'', indexed (foreign_key ''order_id'' (''virtual_orders'', ''id'') (Some ''CASCADE'') False),
       indexed (foreign_key ''account_id'' (''virtual_accounts'', ''id'') (Some ''CASCADE'') False),
       indexed (mapped_column ''symbol'' (String 32) False), mapped_column ''side'' (String 8) False,
       mapped_column ''quantity'' Integer False, mapped_column ''fill_price'' (Numeric 18 4) False,
       mapped_column ''fee'' (Numeric 18 4) False, mapped_column ''stamp_tax'' (Numeric 18 4) False,
       mapped_column ''slippage'' (Numeric 18 4) False, mapped_column ''gross_amount'' (Numeric 18 4) False,
       mapped_column ''net_amount'' (Numeric 18 4) False, indexed (mapped_column ''filled_at'' DateTime False)],
     om_args = [IndexArg ''ix_virtual_fills_account_symbol'' [''account_id'', ''symbol'']]\<rparr>"

definition orm_virtual_pnl_snapshots :: orm_class where
  "orm_virtual_pnl_snapshots = \<lparr>om_table = ''virtual_pnl_snapshots'', om_timestamps = True,
     om_columns =
      [primary_key ''id'',
       indexed (foreign_key ''account_id'' (''virtual_accounts'', ''id'') (Some ''CASCADE'') False),
       indexed (mapped_column ''snapshot_date'' Date False), mapped_column ''cash_balance'' (Numeric 18 4) False,
       mapped_column ''market_value'' (Numeric 18 4) False, mapped_column ''total_value'' (Numeric 18 4) False,
       mapped_column ''realized_pnl'' (Numeric 18 4) False, mapped_column ''unrealized_pnl'' (Numeric 18 4) False],
     om_args = [UniqueArg ''uq_virtual_pnl_snapshots_account_date'' [''account_id'', ''snapshot_date''],
       IndexArg ''ix_virtual_pnl_snapshots_account_date'' [''account_id'', ''snapshot_date'']]\<rparr>"

definition orm_order_candidates :: orm_class where
  "orm_order_candidates = \<lparr>om_table = ''order_candidates'', om_timestamps = True,
     om_columns =
      [primary_key ''id'',
       indexed (foreign_key ''account_id'' (''virtual_accounts'', ''id'') (Some ''CASCADE'') False),
       mapped_column ''source'' (String 16) False, mapped_column ''source_ref_id'' Integer True,
       indexed (mapped_column ''symbol'' (String 32) False), mapped_column ''side'' (String 8) False,
       mapped_column ''quantity'' Integer False, mapped_column ''order_type'' (String 16) False,
       mapped_column ''limit_price'' (Numeric 18 4) True, mapped_column ''estimated_amount'' (Numeric 18 4) False,
       indexed (mapped_column ''status'' (String 20) False), mapped_column ''risk_check_result_json'' JSON True,
       foreign_key ''approver_user_id'' (''users'', ''id'') None True,
       mapped_column ''rejection_reason'' (String 256) True, indexed (mapped_column ''expires_at'' DateTime True),
       foreign_key ''virtual_order_id'' (''virtual_orders'', ''id'') None True],
     om_args = [IndexArg ''ix_order_candidates_account_status'' [''account_id'', ''status'']]\<rparr>"

definition orm_approval_audit_logs :: orm_class where
  "orm_approval_audit_logs = \<lparr>om_table = ''approval_audit_logs'', om_timestamps = False,
     om_columns =
      [primary_key ''id'',
       indexed (foreign_key ''candidate_id'' (''order_candidates'', ''id'') (Some ''CASCADE'') False),
       indexed (mapped_column ''event_type'' (String 32) False),
       foreign_key ''user_id'' (''users'', ''id'') None True, mapped_column ''reason'' (String 256) True,
       mapped_column ''details_json'' JSON True, mapped_column ''ip_hash'' (String 64) True,
       mapped_column ''user_agent_hash'' (String 64) True, indexed (mapped_column ''created_at'' DateTime False)],
     om_args = [IndexArg ''ix_approval_audit_logs_candidate_event'' [''candidate_id'', ''event_type'']]\<rparr>"

definition orm_real_orders :: orm_class where
  "orm_real_orders = \<lparr>om_table = ''real_orders'', om_timestamps = True,
     om_columns =
      [primary_key ''id'',
       indexed (foreign_key ''candidate_id'' (''order_candidates'', ''id'') (Some ''CASCADE'') False),
       indexed (mapped_column ''symbol'' (String 32) False), mapped_column ''side'' (String 8) False,
       mapped_column ''quantity'' Integer False, mapped_column ''order_type'' (String 16) False,
       mapped_column ''limit_price'' (Numeric 18 4) True, mapped_column ''estimated_amount'' (Numeric 18 4) False,
       indexed (mapped_column ''status'' (String 24) False), mapped_column ''dry_run'' Boolean False,
       mapped_column ''fake_order_no'' (String 32) True, mapped_column ''broker_order_no_hash'' (String 64) True,
       mapped_column ''request_id'' (String 64) True, mapped_column ''error_code'' (String 32) True,
       mapped_column ''error_message'' (String 500) True, indexed (mapped_column ''submitted_at'' DateTime True)],
     om_args = [IndexArg ''ix_real_orders_candidate_status'' [''candidate_id'', ''status'']]\<rparr>"

definition orm_real_fills :: orm_class where
  "orm_real_fills = \<lparr>om_table = ''real_fills'', om_timestamps = False,
     om_columns =
      [primary_key ''id'', indexed (foreign_key ''real_order_id'' (''real_orders'', ''id'') (Some ''CASCADE'') False),
       indexed (mapped_column ''symbol'' (String 32) False), mapped_column ''side'' (String 8) False,
       mapped_column ''quantity'' Integer False, mapped_column ''fill_price'' (Numeric 18 4) False,
       mapped_column ''fee'' (Numeric 18 4) False, mapped_column ''tax'' (Numeric 18 4) False,
       mapped_column ''gross_amount'' (Numeric 18 4) False, mapped_column ''net_amount'' (Numeric 18 4) False,
       mapped_column ''fill_status'' (String 16) False, indexed (mapped_column ''filled_at'' DateTime False),
       mapped_column ''created_at'' DateTime False],
     om_args = [IndexArg ''ix_real_fills_order_filled_at'' [''real_order_id'', ''filled_at'']]\<rparr>"

definition orm_classes :: "orm_class list" where
  "orm_classes =
    [orm_stocks, orm_holdings, orm_daily_prices, orm_stock_indicators, orm_job_runs, orm_market_cap_rankings,
     orm_stock_universes, orm_stock_universe_members, orm_news_items, orm_market_regimes, orm_data_snapshots,
     orm_recommendation_runs, orm_recommendations, orm_recommendation_results, orm_holding_checks, orm_decision_logs,
     orm_notification_logs, orm_analyst_reports, orm_report_themes, orm_theme_stock_mappings,
     orm_report_signal_events, orm_report_consensus_snapshots, orm_report_score_logs, orm_fundamental_snapshots,
     orm_earnings_events, orm_backtest_runs, orm_backtest_results, orm_users, orm_login_audit_logs, orm_watchlists,
     orm_watchlist_items, orm_user_preferences, orm_virtual_accounts, orm_virtual_orders, orm_virtual_positions,
     orm_virtual_fills, orm_virtual_pnl_snapshots, orm_order_candidates, orm_approval_audit_logs, orm_real_orders,
     orm_real_fills]"

definition metadata :: schema where
  "metadata = map (table_of orm_classes) orm_classes"

end
