(* ===== verification/Migrations.thy ===== *)
theory Migrations
  imports Later_Migrations Orm_Tables
begin

text \<open>
  Migrating a database along the chain of revisions, as \<^verbatim>\<open>alembic upgrade\<close> and
  \<^verbatim>\<open>alembic downgrade\<close> do it step by step (\<^verbatim>\<open>alembic/env.py\<close>, \<^verbatim>\<open>scripts/migrate.py\<close>): no step is ever
  refused, every path leads to the schema of its revision, and the last revision has the schema
  the ORM classes declare.
\<close>

subsection \<open>Steps of a migration\<close>

record database =
  db_revision :: "string option"
  db_schema :: schema

definition empty_database :: database where
  "empty_database = \<lparr>db_revision = None, db_schema = []\<rparr>"

text \<open>The revision whose \<open>down_revision\<close> is the current one, and the current one itself.\<close>

definition next_revision :: "database \<Rightarrow> revision option" where
  "next_revision d = List.find (\<lambda>r. rv_down r = db_revision d) revisions"

definition current_revision :: "database \<Rightarrow> revision option" where
  "current_revision d = List.find (\<lambda>r. Some (rv_id r) = db_revision d) revisions"

definition upgrade_one :: "revision \<Rightarrow> database \<Rightarrow> ddl_error + database" where
  "upgrade_one r d = (case run_script (rv_upgrade r) (db_schema d) of
      Inl e \<Rightarrow> Inl e
    | Inr s \<Rightarrow> Inr \<lparr>db_revision = Some (rv_id r), db_schema = s\<rparr>)"

definition downgrade_one :: "revision \<Rightarrow> database \<Rightarrow> ddl_error + database" where
  "downgrade_one r d = (case run_script (rv_downgrade r) (db_schema d) of
      Inl e \<Rightarrow> Inl e
    | Inr s \<Rightarrow> Inr \<lparr>db_revision = rv_down r, db_schema = s\<rparr>)"

text \<open>\<open>upgrade head\<close>; as many steps as there are revisions suffice.\<close>

fun upgrade_head :: "nat \<Rightarrow> database \<Rightarrow> ddl_error + database" where
  "upgrade_head 0 d = Inr d"
| "upgrade_head (Suc n) d = (case next_revision d of
      None \<Rightarrow> Inr d
    | Some r \<Rightarrow> (case upgrade_one r d of Inl e \<Rightarrow> Inl e | Inr d' \<Rightarrow> upgrade_head n d'))"

fun downgrade_base :: "nat \<Rightarrow> database \<Rightarrow> ddl_error + database" where
  "downgrade_base 0 d = Inr d"
| "downgrade_base (Suc n) d = (case current_revision d of
      None \<Rightarrow> Inr d
    | Some r \<Rightarrow> (case downgrade_one r d of Inl e \<Rightarrow> Inl e | Inr d' \<Rightarrow> downgrade_base n d'))"

inductive migration_step :: "database \<Rightarrow> database \<Rightarrow> bool" where
  step_up: "next_revision d = Some r \<Longrightarrow> upgrade_one r d = Inr d' \<Longrightarrow> migration_step d d'"
| step_down: "current_revision d = Some r \<Longrightarrow> downgrade_one r d = Inr d' \<Longrightarrow> migration_step d d'"

subsection \<open>Scripts that create and drop tables\<close>

fun index_script :: "string \<Rightarrow> table_index \<Rightarrow> ddl" where
  "index_script n (TableIndex i columns unique) = CreateIndex n i columns unique"

definition table_script :: "db_table \<Rightarrow> ddl list" where
  "table_script t = CreateTable (tb_name t) (tb_elements t) # map (index_script (tb_name t)) (tb_indexes t)"

definition drop_script :: "db_table \<Rightarrow> ddl list" where
  "drop_script t = map (\<lambda>x. DropIndex (tb_name t) (index_name x)) (rev (tb_indexes t)) @ [DropTable (tb_name t)]"

text \<open>The tables a script creates.\<close>

fun add_op :: "ddl \<Rightarrow> db_table list \<Rightarrow> db_table list" where
  "add_op (CreateTable n elements) ts = DbTable n elements [] # ts"
| "add_op (CreateIndex n i columns unique) (t # ts) =
     DbTable (tb_name t) (tb_elements t) (tb_indexes t @ [TableIndex i columns unique]) # ts"
| "add_op _ ts = ts"

definition script_tables :: "ddl list \<Rightarrow> db_table list" where
  "script_tables ops = rev (foldl (\<lambda>ts op. add_op op ts) [] ops)"

fun index_columns :: "table_index \<Rightarrow> string list" where
  "index_columns (TableIndex i columns unique) = columns"

definition schema_index_names :: "schema \<Rightarrow> string list" where
  "schema_index_names s = concat (map (\<lambda>t. map index_name (tb_indexes t)) s)"

definition column_ok :: "db_table \<Rightarrow> bool" where
  "column_ok t \<longleftrightarrow> distinct (table_columns t) \<and>
     list_all (\<lambda>e. list_all (\<lambda>c. c \<in> set (table_columns t)) (element_uses e)) (tb_elements t) \<and>
     list_all (\<lambda>x. list_all (\<lambda>c. c \<in> set (table_columns t)) (index_columns x)) (tb_indexes t)"

text \<open>Every table refers to columns of tables created before it.\<close>

fun references_ok :: "schema \<Rightarrow> db_table list \<Rightarrow> bool" where
  "references_ok s [] \<longleftrightarrow> True"
| "references_ok s (t # ts) \<longleftrightarrow> list_all (has_column s) (table_references t) \<and> references_ok (s @ [t]) ts"

definition buildable :: "schema \<Rightarrow> bool" where
  "buildable s \<longleftrightarrow> distinct (map tb_name s) \<and> distinct (schema_index_names s) \<and> list_all column_ok s \<and> references_ok [] s"

lemma find_table_None: "find_table n s = None \<longleftrightarrow> n \<notin> tb_name ` set s"
  by (induction s) auto

lemma find_table_snoc: "find_table n (s @ [t]) = (case find_table n s of Some u \<Rightarrow> Some u | None \<Rightarrow> if tb_name t = n then Some t else None)"
  by (induction s) auto

lemma find_last: "tb_name t \<notin> tb_name ` set s \<Longrightarrow> find_table (tb_name t) (s @ [t]) = Some t"
  by (simp add: find_table_snoc find_table_None flip: find_table_None split: option.split)

lemma change_last: "tb_name t \<notin> tb_name ` set s \<Longrightarrow> change_table (tb_name t) f (s @ [t]) = s @ [f t]"
  by (induction s) auto

lemma index_used_iff: "index_used i s \<longleftrightarrow> i \<in> set (schema_index_names s)"
  by (auto simp: index_used_def schema_index_names_def list_ex_iff)

lemma run_script_append:
  "run_script (xs @ ys) s = (case run_script xs s of Inl e \<Rightarrow> Inl e | Inr s' \<Rightarrow> run_script ys s')"
  by (induction xs arbitrary: s) (auto split: sum.splits)

lemma table_columns_DbTable [simp]: "table_columns (DbTable n elements xs) = concat (map element_columns elements)"
  by (simp add: table_columns_def)

lemma create_indexes:
  assumes "n \<notin> tb_name ` set s" and "distinct (map index_name (xs @ ys))"
    and "index_name ` set (xs @ ys) \<inter> set (schema_index_names s) = {}"
    and "list_all (\<lambda>x. list_all (\<lambda>c. c \<in> set (concat (map element_columns elements))) (index_columns x)) ys"
  shows "run_script (map (index_script n) ys) (s @ [DbTable n elements xs]) = Inr (s @ [DbTable n elements (xs @ ys)])"
  using assms
proof (induction ys arbitrary: xs)
  case (Cons y ys)
  obtain i columns unique where y: "y = TableIndex i columns unique" by (cases y)
  have found: "find_table n (s @ [DbTable n elements xs]) = Some (DbTable n elements xs)"
    and changed: "change_table n f (s @ [DbTable n elements xs]) = s @ [f (DbTable n elements xs)]" for f
    using Cons.prems(1) find_last [of "DbTable n elements xs" s] change_last [of "DbTable n elements xs" s f] by simp_all
  have unused: "\<not> index_used i (s @ [DbTable n elements xs])"
    using Cons.prems(2,3) y by (auto simp: index_used_iff schema_index_names_def)
  have "create_index n i columns unique (s @ [DbTable n elements xs]) = Inr (s @ [DbTable n elements (xs @ [y])])"
    using Cons.prems(4) y by (simp add: create_index_def found changed unused)
  then show ?case using Cons.IH [of "xs @ [y]"] Cons.prems y by simp
qed simp

lemma drop_indexes:
  assumes "n \<notin> tb_name ` set s" and "distinct (map index_name xs)"
  shows "run_script (map (\<lambda>x. DropIndex n (index_name x)) (rev xs)) (s @ [DbTable n elements xs]) = Inr (s @ [DbTable n elements []])"
  using assms
proof (induction xs rule: rev_induct)
  case (snoc x xs)
  have found: "find_table n (s @ [DbTable n elements (xs @ [x])]) = Some (DbTable n elements (xs @ [x]))"
    and changed: "change_table n f (s @ [DbTable n elements (xs @ [x])]) = s @ [f (DbTable n elements (xs @ [x]))]" for f
    using snoc.prems(1) find_last [of "DbTable n elements (xs @ [x])" s] change_last [of "DbTable n elements (xs @ [x])" s f]
    by simp_all
  have "filter (\<lambda>y. index_name y \<noteq> index_name x) xs = xs"
    using snoc.prems(2) by (induction xs) auto
  then have "drop_index n (index_name x) (s @ [DbTable n elements (xs @ [x])]) = Inr (s @ [DbTable n elements xs])"
    by (simp add: drop_index_def found changed)
  then show ?case using snoc by simp
qed simp

lemma references_in:
  "references_ok p ts \<Longrightarrow> t \<in> set ts \<Longrightarrow> r \<in> set (table_references t) \<Longrightarrow> fst r \<in> tb_name ` set (p @ ts)"
proof (induction p ts rule: references_ok.induct)
  case (2 p u ts)
  show ?case
  proof (cases "t = u")
    case True
    with 2 have "has_column p r" by (simp add: list_all_iff)
    then have "find_table (fst r) p \<noteq> None" by (auto simp: has_column_def split: option.splits)
    then show ?thesis by (auto simp: find_table_None)
  next
    case False
    with 2 show ?thesis by auto
  qed
qed simp

lemma references_ok_append: "references_ok p (xs @ ys) \<longleftrightarrow> references_ok p xs \<and> references_ok (p @ xs) ys"
  by (induction p xs rule: references_ok.induct) auto

lemma schema_index_names_append: "schema_index_names (s @ ts) = schema_index_names s @ schema_index_names ts"
  by (simp add: schema_index_names_def)

lemma buildable_prefix: "buildable (s @ ts) \<Longrightarrow> buildable s"
  by (simp add: buildable_def schema_index_names_append references_ok_append)

lemma last_table:
  assumes "buildable (s @ [t])"
  shows "tb_name t \<notin> tb_name ` set s" "distinct (map index_name (tb_indexes t))"
    "index_name ` set (tb_indexes t) \<inter> set (schema_index_names s) = {}" "column_ok t"
    "list_all (has_column s) (table_references t)"
    "\<And>u r. u \<in> set s \<Longrightarrow> r \<in> set (table_references u) \<Longrightarrow> fst r \<noteq> tb_name t"
proof -
  show fresh: "tb_name t \<notin> tb_name ` set s" and "distinct (map index_name (tb_indexes t))"
    and "index_name ` set (tb_indexes t) \<inter> set (schema_index_names s) = {}" and "column_ok t"
    and "list_all (has_column s) (table_references t)"
    using assms by (auto simp: buildable_def schema_index_names_append references_ok_append schema_index_names_def)
  fix u r
  assume "u \<in> set s" "r \<in> set (table_references u)"
  moreover have "references_ok [] s" using assms by (simp add: buildable_def references_ok_append)
  ultimately have "fst r \<in> tb_name ` set s" using references_in by fastforce
  with fresh show "fst r \<noteq> tb_name t" by auto
qed

lemma run_table_script:
  assumes "buildable (s @ [t])"
  shows "run_script (table_script t) s = Inr (s @ [t])"
proof -
  note t = last_table [OF assms]
  obtain n elements xs where tb: "t = DbTable n elements xs" by (cases t)
  have "create_table n elements s = Inr (s @ [DbTable n elements []])"
    using t(1,4,5) tb by (simp add: create_table_def find_table_None column_ok_def table_references_def)
  moreover have "run_script (map (index_script n) xs) (s @ [DbTable n elements []]) = Inr (s @ [DbTable n elements ([] @ xs)])"
    using t tb by (intro create_indexes) (simp_all add: column_ok_def)
  ultimately show ?thesis by (simp add: table_script_def tb)
qed

lemma run_drop_script:
  assumes "buildable (s @ [t])"
  shows "run_script (drop_script t) (s @ [t]) = Inr s"
proof -
  note t = last_table [OF assms]
  obtain n elements xs where tb: "t = DbTable n elements xs" by (cases t)
  have "\<not> list_ex (\<lambda>u. tb_name u \<noteq> n \<and> list_ex (\<lambda>r. fst r = n) (table_references u)) (s @ [DbTable n elements []])"
    using t(6) tb by (auto simp: list_ex_iff)
  moreover have "filter (\<lambda>u. tb_name u \<noteq> n) s = s" using t(1) tb by (auto simp: filter_id_conv)
  ultimately have "drop_table n (s @ [DbTable n elements []]) = Inr s"
    by (simp add: drop_table_def find_table_None)
  moreover have "run_script (map (\<lambda>x. DropIndex n (index_name x)) (rev xs)) (s @ [t]) = Inr (s @ [DbTable n elements []])"
    unfolding tb using t tb by (intro drop_indexes) simp_all
  ultimately show ?thesis by (simp add: drop_script_def tb run_script_append)
qed

lemma run_table_scripts:
  "buildable (s @ ts) \<Longrightarrow> run_script (concat (map table_script ts)) s = Inr (s @ ts)"
proof (induction ts arbitrary: s)
  case (Cons t ts)
  then have "buildable (s @ [t])" using buildable_prefix [of "s @ [t]" ts] by simp
  with Cons show ?case by (simp add: run_script_append run_table_script)
qed simp

lemma run_drop_scripts:
  "buildable (s @ ts) \<Longrightarrow> run_script (concat (map drop_script (rev ts))) (s @ ts) = Inr s"
proof (induction ts rule: rev_induct)
  case (snoc t ts)
  then have "run_script (drop_script t) ((s @ ts) @ [t]) = Inr (s @ ts)" by (intro run_drop_script) simp
  moreover have "buildable (s @ ts)" using snoc.prems buildable_prefix [of "s @ ts" "[t]"] by simp
  ultimately show ?case using snoc.IH by (simp add: run_script_append)
qed simp

subsection \<open>The scripts of the revisions\<close>

lemma string_eq: "(x # xs = y # ys) = (if x = y then xs = ys else False)"
  by simp

lemma notin_if: "(x \<notin> set (y # ys)) = (if x = y then False else x \<notin> set ys)"
  by simp

lemma in_if: "(x \<in> set (y # ys)) = (if x = y then True else x \<in> set ys)"
  by simp

lemma distinct_if: "distinct (x # xs) = (if x \<notin> set xs then distinct xs else False)"
  by simp

lemma notin_Nil: "x \<notin> set []"
  by simp

lemmas compare_strings = distinct_if notin_if notin_Nil in_if string_eq char.inject refl simp_thms if_True if_False
  list.distinct distinct.simps(1)

lemmas baseline_creates =
  create_analyst_reports_def create_backtest_runs_def create_daily_prices_def create_data_snapshots_def
  create_earnings_events_def create_fundamental_snapshots_def create_holdings_def create_job_runs_def
  create_market_cap_rankings_def create_market_regimes_def create_news_items_def
  create_recommendation_runs_def create_report_consensus_snapshots_def create_stock_indicators_def
  create_stock_universes_def create_stocks_def create_decision_logs_def create_holding_checks_def
  create_notification_logs_def create_recommendations_def create_report_score_logs_def
  create_report_themes_def create_stock_universe_members_def create_recommendation_results_def
  create_report_signal_events_def create_theme_stock_mappings_def create_backtest_results_def

lemmas baseline_drops =
  drop_backtest_results_def drop_theme_stock_mappings_def drop_report_signal_events_def
  drop_recommendation_results_def drop_stock_universe_members_def drop_report_themes_def
  drop_report_score_logs_def drop_recommendations_def drop_notification_logs_def drop_holding_checks_def
  drop_decision_logs_def drop_stocks_def drop_stock_universes_def drop_stock_indicators_def
  drop_report_consensus_snapshots_def drop_recommendation_runs_def drop_news_items_def drop_market_regimes_def
  drop_market_cap_rankings_def drop_job_runs_def drop_holdings_def drop_fundamental_snapshots_def
  drop_earnings_events_def drop_data_snapshots_def drop_daily_prices_def drop_backtest_runs_def
  drop_analyst_reports_def

lemmas compute_script = script_tables_def foldl.simps add_op.simps rev.simps append.simps list.sel table_script_def
  list.map index_script.simps db_table.sel drop_script_def index_name.simps concat.simps append_Nil2

definition baseline_scripts :: "ddl list list" where
  "baseline_scripts =
    [create_analyst_reports, create_backtest_runs, create_daily_prices, create_data_snapshots,
     create_earnings_events, create_fundamental_snapshots, create_holdings, create_job_runs,
     create_market_cap_rankings, create_market_regimes, create_news_items, create_recommendation_runs,
     create_report_consensus_snapshots, create_stock_indicators, create_stock_universes, create_stocks,
     create_decision_logs, create_holding_checks, create_notification_logs, create_recommendations,
     create_report_score_logs, create_report_themes, create_stock_universe_members, create_recommendation_results,
     create_report_signal_events, create_theme_stock_mappings, create_backtest_results]"

definition baseline_tables :: schema where
  "baseline_tables = map (\<lambda>ops. hd (script_tables ops)) baseline_scripts"

lemma baseline_upgrade: "upgrade_0001 = concat (map table_script baseline_tables)"
proof -
  have "map table_script baseline_tables = baseline_scripts"
    by (simp only: baseline_tables_def baseline_scripts_def baseline_creates compute_script)
  moreover have "upgrade_0001 = concat baseline_scripts" by (simp only: upgrade_0001_def baseline_scripts_def)
  ultimately show ?thesis by simp
qed

lemma baseline_downgrade: "downgrade_0001 = concat (map drop_script (rev baseline_tables))"
  unfolding downgrade_0001_def
  by (rule arg_cong [where f = concat]) (simp only: baseline_tables_def baseline_scripts_def baseline_creates baseline_drops compute_script)

text \<open>The tables of the later revisions.\<close>

definition later_tables :: "schema list" where
  "later_tables = map (\<lambda>r. script_tables (rv_upgrade r)) (tl revisions)"

lemmas later_scripts = upgrade_0002_def downgrade_0002_def upgrade_0003_def downgrade_0003_def upgrade_0004_def downgrade_0004_def
  upgrade_0005_def downgrade_0005_def upgrade_0006_def downgrade_0006_def upgrade_0007_def downgrade_0007_def
  upgrade_0008_def downgrade_0008_def upgrade_0009_def downgrade_0009_def upgrade_0010_def downgrade_0010_def

lemmas revision_defs = revision_0001_def revision_0002_def revision_0003_def revision_0004_def revision_0005_def
  revision_0006_def revision_0007_def revision_0008_def revision_0009_def revision_0010_def

lemma later_upgrades: "map rv_upgrade (tl revisions) = map (\<lambda>ts. concat (map table_script ts)) later_tables"
  by (simp only: later_tables_def revisions_def revision_defs later_scripts compute_script revision.simps)

lemma later_downgrades: "map rv_downgrade (tl revisions) = map (\<lambda>ts. concat (map drop_script (rev ts))) later_tables"
  by (simp only: later_tables_def revisions_def revision_defs later_scripts compute_script revision.simps)

definition all_tables :: schema where
  "all_tables = baseline_tables @ concat later_tables"

lemmas all_scripts = all_tables_def later_tables_def baseline_tables_def baseline_scripts_def baseline_creates
  revisions_def revision_defs later_scripts compute_script revision.simps

lemma table_names_distinct: "distinct (map tb_name all_tables)"
  by (simp only: all_scripts compare_strings)

lemma index_names_distinct: "distinct (schema_index_names all_tables)"
  by (simp only: all_scripts schema_index_names_def compare_strings)

lemma columns_ok: "list_all column_ok all_tables"
  by (simp only: all_scripts column_ok_def list.pred_inject table_columns_DbTable element_columns.simps element_uses.simps
      index_columns.simps compare_strings)

lemma references_resolve: "references_ok [] all_tables"
  by (simp only: all_scripts references_ok.simps list.pred_inject table_references_def element_references.simps has_column_def
      find_table.simps option.case fst_conv snd_conv table_columns_DbTable element_columns.simps compare_strings)

subsection \<open>The schema of the ORM classes\<close>

lemma set_eq_if: "set xs = set ys \<longleftrightarrow> list_all (\<lambda>x. x \<in> set ys) xs \<and> list_all (\<lambda>y. y \<in> set xs) ys"
  by (auto simp: list_all_iff)

text \<open>Literal columns and names are normal as they are; the simplifier need not look into them.\<close>

lemma literals:
  "Column c ty nullable = Column c ty nullable"
  "ForeignKeyConstraint c n k x = ForeignKeyConstraint c n k x"
  "UniqueConstraint cs n = UniqueConstraint cs n"
  "mapped_column c ty nullable = mapped_column c ty nullable"
  "foreign_key c r ondelete nullable = foreign_key c r ondelete nullable"
  "CreateIndex n k cs nullable = CreateIndex n k cs nullable"
  by (rule refl)+

lemma element_eq:
  "Column a t n = Column b u m \<longleftrightarrow> (if a = b then t = u \<and> n = m else False)"
  "ForeignKeyConstraint a v k x = ForeignKeyConstraint b w l y \<longleftrightarrow> (if a = b then v = w \<and> k = l \<and> x = y else False)"
  "UniqueConstraint cs a = UniqueConstraint ds b \<longleftrightarrow> (if a = b then cs = ds else False)"
  "PrimaryKeyConstraint a = PrimaryKeyConstraint b \<longleftrightarrow> a = b"
  "AutoColumn a = AutoColumn b \<longleftrightarrow> a = b"
  "TableIndex a cs i = TableIndex b ds j \<longleftrightarrow> (if a = b then cs = ds \<and> i = j else False)"
  by auto

lemmas orm_defs =
  orm_stocks_def orm_holdings_def orm_daily_prices_def orm_stock_indicators_def orm_job_runs_def
  orm_market_cap_rankings_def orm_stock_universes_def orm_stock_universe_members_def orm_news_items_def
  orm_market_regimes_def orm_data_snapshots_def orm_recommendation_runs_def orm_recommendations_def
  orm_recommendation_results_def orm_holding_checks_def orm_decision_logs_def orm_notification_logs_def
  orm_analyst_reports_def orm_report_themes_def orm_theme_stock_mappings_def orm_report_signal_events_def
  orm_report_consensus_snapshots_def orm_report_score_logs_def orm_fundamental_snapshots_def orm_earnings_events_def
  orm_backtest_runs_def orm_backtest_results_def orm_users_def orm_login_audit_logs_def orm_watchlists_def
  orm_watchlist_items_def orm_user_preferences_def orm_virtual_accounts_def orm_virtual_orders_def
  orm_virtual_positions_def orm_virtual_fills_def orm_virtual_pnl_snapshots_def orm_order_candidates_def
  orm_approval_audit_logs_def orm_real_orders_def orm_real_fills_def

lemmas orm_columns = mapped_column_def primary_key_def foreign_key_def indexed_def unique_indexed_def timestamp_mixin_def

fun cons_option :: "'a option \<Rightarrow> 'a list \<Rightarrow> 'a list" where
  "cons_option None xs = xs"
| "cons_option (Some x) xs = x # xs"

lemma map_filter_cons:
  "List.map_filter f [] = []"
  "List.map_filter f (x # xs) = cons_option (f x) (List.map_filter f xs)"
  by (cases "f x"; simp add: List.map_filter_def)+

definition key_element :: "orm_column \<Rightarrow> table_element option" where
  "key_element c = (if co_primary_key c then Some (PrimaryKeyConstraint (co_name c)) else None)"

text \<open>What each form of a column declares.\<close>

lemma declared:
  "column_element ms (primary_key n) = Some (AutoColumn n)"
  "column_element ms (mapped_column n ty nullable) = Some (Column n ty nullable)"
  "column_element ms (foreign_key n (t, k) ondelete nullable) = map_option (\<lambda>ty. Column n ty nullable) (referenced_type ms t k)"
  "column_element ms (indexed c) = column_element ms c"
  "column_element ms (unique_indexed c) = column_element ms c"
  "key_element (primary_key n) = Some (PrimaryKeyConstraint n)"
  "key_element (mapped_column n ty nullable) = None"
  "key_element (foreign_key n (t, k) ondelete nullable) = None"
  "key_element (indexed c) = key_element c"
  "key_element (unique_indexed c) = key_element c"
  "reference_element (primary_key n) = None"
  "reference_element (mapped_column n ty nullable) = None"
  "reference_element (foreign_key n (t, k) ondelete nullable) = Some (ForeignKeyConstraint n t k ondelete)"
  "reference_element (indexed c) = reference_element c"
  "reference_element (unique_indexed c) = reference_element c"
  "column_index n (primary_key k) = None"
  "column_index n (mapped_column k ty nullable) = None"
  "column_index n (foreign_key k r ondelete nullable) = None"
  "column_index n (indexed (mapped_column k ty nullable)) = Some (TableIndex (''ix_'' @ n @ ''_'' @ k) [k] False)"
  "column_index n (indexed (foreign_key k r ondelete nullable)) = Some (TableIndex (''ix_'' @ n @ ''_'' @ k) [k] False)"
  "column_index n (unique_indexed (mapped_column k ty nullable)) = Some (TableIndex (''ix_'' @ n @ ''_'' @ k) [k] True)"
  "column_index n (unique_indexed (foreign_key k r ondelete nullable)) = Some (TableIndex (''ix_'' @ n @ ''_'' @ k) [k] True)"
  by (simp_all add: column_element_def key_element_def reference_element_def column_index_def mapped_column_def primary_key_def
      foreign_key_def indexed_def unique_indexed_def split: option.split)

lemma table_of_eq: "table_of ms m = DbTable (om_table m)
   (List.map_filter (column_element ms) (all_columns m) @ List.map_filter key_element (all_columns m) @
    List.map_filter reference_element (all_columns m) @ List.map_filter unique_element (om_args m))
   (List.map_filter (column_index (om_table m)) (all_columns m) @ List.map_filter index_arg (om_args m))"
  by (simp add: table_of_def key_element_def [abs_def])

lemma find_if: "List.find P (x # xs) = (if P x then Some x else List.find P xs)" "List.find P [] = None"
  by simp_all

lemma key_types:
  "referenced_type orm_classes ''analyst_reports'' ''id'' = Some Integer"
  "referenced_type orm_classes ''backtest_runs'' ''id'' = Some Integer"
  "referenced_type orm_classes ''data_snapshots'' ''snapshot_id'' = Some Integer"
  "referenced_type orm_classes ''job_runs'' ''job_id'' = Some Integer"
  "referenced_type orm_classes ''order_candidates'' ''id'' = Some Integer"
  "referenced_type orm_classes ''real_orders'' ''id'' = Some Integer"
  "referenced_type orm_classes ''recommendation_results'' ''id'' = Some Integer"
  "referenced_type orm_classes ''recommendation_runs'' ''run_id'' = Some Integer"
  "referenced_type orm_classes ''recommendations'' ''id'' = Some Integer"
  "referenced_type orm_classes ''report_themes'' ''id'' = Some Integer"
  "referenced_type orm_classes ''stock_universes'' ''universe_id'' = Some Integer"
  "referenced_type orm_classes ''users'' ''id'' = Some Integer"
  "referenced_type orm_classes ''virtual_accounts'' ''id'' = Some Integer"
  "referenced_type orm_classes ''virtual_orders'' ''id'' = Some Integer"
  "referenced_type orm_classes ''watchlists'' ''id'' = Some Integer"
  by (simp_all only: orm_classes_def orm_defs orm_columns orm_class.simps referenced_type.simps all_columns_def find_if
      orm_column.simps Option.bind.simps append.simps compare_strings)

lemmas compute_orm = table_of_eq all_columns_def orm_defs orm_class.simps map_filter_cons cons_option.simps declared
  timestamp_mixin_def unique_element.simps index_arg.simps append.simps option.map key_types if_True if_False

text \<open>The columns agree even in their order.\<close>

fun column_part :: "table_element \<Rightarrow> table_element list" where
  "column_part (AutoColumn c) = [AutoColumn c]"
| "column_part (Column c ty nullable) = [Column c ty nullable]"
| "column_part e = []"

fun constraint_part :: "table_element \<Rightarrow> table_element list" where
  "constraint_part (AutoColumn c) = []"
| "constraint_part (Column c ty nullable) = []"
| "constraint_part e = [e]"

definition matches :: "db_table \<Rightarrow> db_table \<Rightarrow> bool" where
  "matches t u \<longleftrightarrow> tb_name t = tb_name u \<and>
     concat (map column_part (tb_elements t)) = concat (map column_part (tb_elements u)) \<and>
     set (concat (map constraint_part (tb_elements t))) = set (concat (map constraint_part (tb_elements u))) \<and>
     set (tb_indexes t) = set (tb_indexes u)"

lemma parts: "set es = set (concat (map column_part es)) \<union> set (concat (map constraint_part es))"
proof (induction es)
  case (Cons e es)
  then show ?case by (cases e) auto
qed simp

lemma matches_same: "matches t u \<Longrightarrow> same_table t u"
  unfolding matches_def same_table_def by (metis parts)

definition baseline_classes :: "orm_class list" where
  "baseline_classes =
    [orm_analyst_reports, orm_backtest_runs, orm_daily_prices, orm_data_snapshots, orm_earnings_events,
     orm_fundamental_snapshots, orm_holdings, orm_job_runs, orm_market_cap_rankings, orm_market_regimes,
     orm_news_items, orm_recommendation_runs, orm_report_consensus_snapshots, orm_stock_indicators,
     orm_stock_universes, orm_stocks, orm_decision_logs, orm_holding_checks, orm_notification_logs,
     orm_recommendations, orm_report_score_logs, orm_report_themes, orm_stock_universe_members,
     orm_recommendation_results, orm_report_signal_events, orm_theme_stock_mappings, orm_backtest_results]"

definition later_classes :: "orm_class list" where
  "later_classes =
    [orm_users, orm_login_audit_logs, orm_watchlists, orm_watchlist_items, orm_user_preferences,
     orm_virtual_accounts, orm_virtual_orders, orm_virtual_positions, orm_virtual_fills, orm_virtual_pnl_snapshots,
     orm_order_candidates, orm_approval_audit_logs, orm_real_orders, orm_real_fills]"

text \<open>The classes table by table, in the order in which the migrations create the tables.\<close>

lemma baseline_matches: "list_all2 matches baseline_tables (map (table_of orm_classes) baseline_classes)"
  by (simp only: all_scripts baseline_classes_def list.map list.rel_inject compute_orm matches_def column_part.simps constraint_part.simps concat.simps append.simps
      set_eq_if element_eq table_element.distinct list.pred_inject column_type.inject compare_strings cong: literals)

lemma later_matches: "list_all2 matches (concat later_tables) (map (table_of orm_classes) later_classes)"
  by (simp only: all_scripts later_classes_def list.map list.rel_inject compute_orm matches_def column_part.simps constraint_part.simps concat.simps append.simps
      set_eq_if element_eq table_element.distinct list.pred_inject column_type.inject compare_strings cong: literals)

lemma list_all2_find:
  "list_all2 same_table a b \<Longrightarrow> distinct (map tb_name a) \<Longrightarrow> t \<in> set a \<Longrightarrow>
     \<exists>u. find_table (tb_name t) b = Some u \<and> same_table t u"
proof (induction a b rule: list_all2_induct)
  case (Cons x a y b)
  then show ?case by (cases "t = x") (auto simp: same_table_def)
qed simp

lemma find_table_distinct: "distinct (map tb_name s) \<Longrightarrow> find_table n s = Some u \<longleftrightarrow> u \<in> set s \<and> tb_name u = n"
  by (induction s) (auto simp: image_iff)

lemma all2_names: "list_all2 same_table a b \<Longrightarrow> map tb_name a = map tb_name b"
  by (induction a b rule: list_all2_induct) (simp_all add: same_table_def)

lemma same_schemaI:
  assumes "list_all2 same_table a b" and "distinct (map tb_name a)" and "set b = set c" and "length b = length c"
  shows "same_schema a c"
proof -
  have len: "length a = length c" using assms(1,4) by (simp add: list_all2_lengthD)
  have names: "map tb_name a = map tb_name b" by (rule all2_names [OF assms(1)])
  then have "tb_name ` set a = tb_name ` set c" using assms(3) by (metis image_set)
  then have "card (tb_name ` set c) = length (map tb_name c)"
    using assms(2) len by (metis distinct_card length_map image_set)
  then have "distinct (map tb_name c)" using card_distinct by (metis image_set)
  moreover have "distinct (map tb_name b)" using assms(2) names by simp
  ultimately have "find_table n b = Some u \<longleftrightarrow> find_table n c = Some u" for n u
    using assms(3) by (simp add: find_table_distinct)
  then have "find_table n b = find_table n c" for n by (metis option.exhaust)
  then show ?thesis
    using list_all2_find [OF assms(1,2)] len \<open>tb_name ` set a = tb_name ` set c\<close>
    by (auto simp: same_schema_def list_all_iff find_table_None split: option.splits) force+
qed

lemma classes_complete: "set (baseline_classes @ later_classes) = set orm_classes" "length (baseline_classes @ later_classes) = length orm_classes"
  by (auto simp: baseline_classes_def later_classes_def orm_classes_def)

lemma schema_is_metadata: "same_schema all_tables metadata"
proof (rule same_schemaI)
  have "list_all2 matches all_tables (map (table_of orm_classes) (baseline_classes @ later_classes))"
    unfolding all_tables_def map_append using baseline_matches later_matches by (rule list_all2_appendI)
  then show "list_all2 same_table all_tables (map (table_of orm_classes) (baseline_classes @ later_classes))"
    by (rule list_all2_mono) (rule matches_same)
  show "set (map (table_of orm_classes) (baseline_classes @ later_classes)) = set metadata"
    unfolding metadata_def set_map classes_complete(1) ..
  show "length (map (table_of orm_classes) (baseline_classes @ later_classes)) = length metadata"
    unfolding metadata_def length_map classes_complete(2) ..
qed (rule table_names_distinct)

subsection \<open>Paths through the chain\<close>

lemma all_buildable: "buildable all_tables"
  unfolding buildable_def using table_names_distinct index_names_distinct columns_ok references_resolve by blast

definition steps :: "schema list" where
  "steps = baseline_tables # later_tables"

lemma revisions_Cons: "revisions = revision_0001 # tl revisions"
  by (simp only: revisions_def list.sel)

lemma revisions_length: "length revisions = 10" "length steps = 10"
  by (simp_all add: revisions_def steps_def later_tables_def)

lemma scripts_of_steps:
  "map rv_upgrade revisions = map (\<lambda>ts. concat (map table_script ts)) steps"
  "map rv_downgrade revisions = map (\<lambda>ts. concat (map drop_script (rev ts))) steps"
  by (subst revisions_Cons; simp add: steps_def later_upgrades later_downgrades revision_0001_def baseline_upgrade baseline_downgrade)+

lemma chain: "map rv_down revisions = None # map (\<lambda>r. Some (rv_id r)) (butlast revisions)"
  by (simp add: revisions_def revision_defs)

lemma revision_ids: "distinct (map rv_id revisions)"
  by (simp only: revisions_def revision_defs revision.simps list.map compare_strings)

definition database_at :: "nat \<Rightarrow> database" where
  "database_at k = \<lparr>db_revision = (if k = 0 then None else Some (rv_id (revisions ! (k - 1)))),
     db_schema = concat (take k steps)\<rparr>"

lemma down_at: "k < 10 \<Longrightarrow> rv_down (revisions ! k) = db_revision (database_at k)"
proof -
  assume k: "k < 10"
  then have "rv_down (revisions ! k) = map rv_down revisions ! k" by (simp add: revisions_length)
  with k show ?thesis unfolding chain by (cases k) (simp_all add: database_at_def revisions_length nth_butlast)
qed

lemma find_key: "distinct (map f xs) \<Longrightarrow> x \<in> set xs \<Longrightarrow> List.find (\<lambda>y. f y = f x) xs = Some x"
  by (induction xs) auto

lemma downs_distinct: "distinct (map rv_down revisions)"
proof -
  have "distinct (map rv_id (butlast revisions))" using revision_ids by (simp add: map_butlast distinct_butlast)
  then show ?thesis unfolding chain by (auto simp: distinct_map inj_on_def)
qed

lemma next_at:
  assumes "k \<le> 10"
  shows "next_revision (database_at k) = (if k < 10 then Some (revisions ! k) else None)"
proof (cases "k < 10")
  case True
  then show ?thesis
    using find_key [OF downs_distinct, of "revisions ! k"] by (simp add: next_revision_def down_at revisions_length)
next
  case False
  with assms have k: "k = 10" by simp
  have "Some (rv_id (last revisions)) \<notin> set (map rv_down revisions)"
  proof -
    have "revisions = butlast revisions @ [last revisions]" by (simp add: revisions_def)
    then have "rv_id (last revisions) \<notin> rv_id ` set (butlast revisions)"
      using revision_ids by (metis distinct_append distinct.simps(2) map_append list.map(2) image_set disjoint_iff list.set_intros(1))
    then show ?thesis unfolding chain by auto
  qed
  moreover have "revisions ! 9 = last revisions" by (simp add: last_conv_nth revisions_length flip: length_greater_0_conv)
  ultimately show ?thesis by (force simp: k next_revision_def database_at_def find_None_iff)
qed

lemma current_at:
  assumes "k \<le> 10"
  shows "current_revision (database_at k) = (if k = 0 then None else Some (revisions ! (k - 1)))"
proof (cases k)
  case 0
  then show ?thesis by (simp add: current_revision_def database_at_def find_None_iff)
next
  case (Suc j)
  with assms find_key [OF revision_ids, of "revisions ! j"] show ?thesis
    by (simp add: current_revision_def database_at_def revisions_length)
qed

lemma built: "k < 10 \<Longrightarrow> buildable (concat (take k steps) @ steps ! k)"
proof -
  assume "k < 10"
  then have "concat steps = (concat (take k steps) @ steps ! k) @ concat (drop (Suc k) steps)"
    by (metis append.assoc append_take_drop_id Cons_nth_drop_Suc concat.simps(2) concat_append revisions_length(2))
  then show ?thesis using all_buildable buildable_prefix by (metis all_tables_def concat.simps(2) steps_def)
qed

lemma take_steps: "k < 10 \<Longrightarrow> concat (take (Suc k) steps) = concat (take k steps) @ steps ! k"
  by (simp add: take_Suc_conv_app_nth revisions_length)

lemma script_at:
  "k < 10 \<Longrightarrow> rv_upgrade (revisions ! k) = concat (map table_script (steps ! k))"
  "k < 10 \<Longrightarrow> rv_downgrade (revisions ! k) = concat (map drop_script (rev (steps ! k)))"
  using scripts_of_steps revisions_length by (metis nth_map)+

lemma upgrade_at: "k < 10 \<Longrightarrow> upgrade_one (revisions ! k) (database_at k) = Inr (database_at (Suc k))"
  by (simp add: upgrade_one_def database_at_def script_at run_table_scripts built take_steps)

lemma downgrade_at: "k < 10 \<Longrightarrow> downgrade_one (revisions ! k) (database_at (Suc k)) = Inr (database_at k)"
  using down_at [of k] by (simp add: downgrade_one_def database_at_def script_at run_drop_scripts built take_steps)

lemma empty_at: "empty_database = database_at 0"
  by (simp add: empty_database_def database_at_def)

lemma reached:
  assumes "migration_step\<^sup>*\<^sup>* empty_database d"
  obtains k where "k \<le> 10" "d = database_at k"
  using assms
proof (induction arbitrary: thesis rule: rtranclp_induct)
  case base
  then show ?case by (metis empty_at le0)
next
  case (step d e)
  from step.IH obtain k where k: "k \<le> 10" "d = database_at k" by blast
  from step.hyps(2) k show ?case
  proof (cases rule: migration_step.cases)
    case (step_up r)
    with k next_at [of k] have "k < 10" "r = revisions ! k" by (auto split: if_splits)
    with step_up k show ?thesis using upgrade_at [of k] step.prems by (metis Inr_inject Suc_leI)
  next
    case (step_down r)
    with k current_at [of k] obtain j where "k = Suc j" "r = revisions ! j" by (cases k) auto
    with step_down k show ?thesis using downgrade_at [of j] step.prems by (metis Inr_inject Suc_leD Suc_le_lessD)
  qed
qed

lemma upgrade_head_at: "k \<le> 10 \<Longrightarrow> 10 - k \<le> n \<Longrightarrow> upgrade_head n (database_at k) = Inr (database_at 10)"
proof (induction n arbitrary: k)
  case (Suc n)
  then show ?case by (cases "k < 10") (simp_all add: next_at upgrade_at)
qed simp

lemma downgrade_base_at: "k \<le> 10 \<Longrightarrow> k \<le> n \<Longrightarrow> downgrade_base n (database_at k) = Inr (database_at 0)"
proof (induction n arbitrary: k)
  case (Suc n)
  then show ?case by (cases k) (simp_all add: current_at downgrade_at)
qed simp

text \<open>
  C39. Whatever upgrades and downgrades have been run on a database that was empty, its revision
  determines its schema, no upgrade or downgrade of it fails, and each undoes the other.
\<close>

theorem migrations_path_independent:
  assumes "migration_step\<^sup>*\<^sup>* empty_database d"
  shows "(\<forall>e. migration_step\<^sup>*\<^sup>* empty_database e \<and> db_revision e = db_revision d \<longrightarrow> e = d) \<and>
    (\<forall>r. next_revision d = Some r \<longrightarrow>
       (\<exists>d'. upgrade_one r d = Inr d' \<and> current_revision d' = Some r \<and> downgrade_one r d' = Inr d)) \<and>
    (\<forall>r. current_revision d = Some r \<longrightarrow>
       (\<exists>d'. downgrade_one r d = Inr d' \<and> next_revision d' = Some r \<and> upgrade_one r d' = Inr d))"
proof -
  from assms obtain k where k: "k \<le> 10" "d = database_at k" by (rule reached)
  have "e = d" if e: "migration_step\<^sup>*\<^sup>* empty_database e" "db_revision e = db_revision d" for e
  proof -
    from e(1) obtain j where j: "j \<le> 10" "e = database_at j" by (rule reached)
    have "(j = 0 \<longleftrightarrow> k = 0) \<and> (j \<noteq> 0 \<longrightarrow> rv_id (revisions ! (j - 1)) = rv_id (revisions ! (k - 1)))"
      using e(2) j k by (auto simp: database_at_def split: if_splits)
    moreover have "revisions ! x = revisions ! y \<longleftrightarrow> x = y" "rv_id (revisions ! x) = rv_id (revisions ! y) \<longleftrightarrow> x = y"
      if "x < 10" "y < 10" for x y
      using that revision_ids by (metis distinct_conv_nth length_map nth_map revisions_length(1))+
    ultimately have "j = k" using j(1) k(1) by (cases j; cases k) auto
    with j k show ?thesis by simp
  qed
  moreover have "\<exists>d'. upgrade_one r d = Inr d' \<and> current_revision d' = Some r \<and> downgrade_one r d' = Inr d"
    if "next_revision d = Some r" for r
  proof -
    from that k have "k < 10" "r = revisions ! k" by (auto simp: next_at split: if_splits)
    with k show ?thesis by (simp add: upgrade_at downgrade_at current_at)
  qed
  moreover have "\<exists>d'. downgrade_one r d = Inr d' \<and> next_revision d' = Some r \<and> upgrade_one r d' = Inr d"
    if "current_revision d = Some r" for r
  proof -
    from that k obtain j where "k = Suc j" "r = revisions ! j" by (cases k) (auto simp: current_at)
    with k show ?thesis by (simp add: upgrade_at downgrade_at next_at)
  qed
  ultimately show ?thesis by blast
qed

theorem migrations_path_independent_witness:
  "next_revision empty_database = Some revision_0001 \<and> (\<exists>d. upgrade_one revision_0001 empty_database = Inr d \<and>
     downgrade_one revision_0001 d = Inr empty_database)"
proof -
  have "next_revision empty_database = Some revision_0001"
    using next_at [of 0] by (simp add: empty_at revisions_def)
  then show ?thesis using migrations_path_independent [of empty_database] by blast
qed

text \<open>
  C40. From every database the migrations can leave, upgrading to the head ends, within as many
  steps as there are revisions, with the last revision and exactly the tables, columns,
  constraints and indexes the ORM classes declare; downgrading to the base leaves nothing.
\<close>

theorem head_matches_models:
  assumes "migration_step\<^sup>*\<^sup>* empty_database d"
  shows "\<exists>h. upgrade_head (length revisions) d = Inr h \<and> db_revision h = Some ''0010_real_fills'' \<and>
     next_revision h = None \<and> same_schema (db_schema h) metadata \<and>
     downgrade_base (length revisions) d = Inr empty_database"
proof -
  from assms obtain k where k: "k \<le> 10" "d = database_at k" by (rule reached)
  have "take 10 steps = steps" by (simp add: revisions_length)
  then have "db_schema (database_at 10) = all_tables" by (simp add: database_at_def all_tables_def steps_def)
  moreover have "db_revision (database_at 10) = Some ''0010_real_fills''"
    by (simp add: database_at_def revisions_def revision_0010_def)
  ultimately show ?thesis
    using k schema_is_metadata next_at [of 10] upgrade_head_at [of k 10] downgrade_base_at [of k 10]
    by (simp add: revisions_length empty_at)
qed

theorem head_matches_models_witness:
  "\<exists>h. upgrade_head (length revisions) empty_database = Inr h \<and> same_schema (db_schema h) metadata"
  using head_matches_models [of empty_database] by blast

end
