(* ===== verification/Spec2Isabelle.thy ===== *)
theory Spec2Isabelle
  imports Real_Trading Route_Outcomes Resilience_Facts Login_Facts Scoring_Facts Technical_Facts
    Recommendation_Facts Decision_Facts Backtest_Facts Watch_Isolation Notification_Facts Migrations
begin

text \<open>
  A verification development for the trading core.
\<close>

end
